(* ===== verification/Prelude.thy ===== *)
theory Prelude
  imports Main "HOL-Library.Word" "HOL-Library.Multiset"
begin

text \<open>
  Shared vocabulary of the development: Go's fixed-width integers, strings and byte slices,
  the three ways a Go call can end (a value, an error value, a run-time panic), slicing and
  indexing with their bounds checks, \<open>copy\<close>, the null-padded and null-terminated fields of the
  SMPP wire format, and big-endian integers (\<open>encoding/binary\<close>).  Theorems that evaluate a
  sequence of such steps are collected in \<open>res_simps\<close> (outcomes) and \<open>wire_simps\<close> (byte layout).
\<close>

named_theorems res_simps "evaluation of bounds checks and sequenced outcomes"
named_theorems wire_simps "lengths and contents of encoded fields"

section \<open>Integers and outcomes\<close>

type_synonym byte = "8 word"
type_synonym u8 = "8 word"
type_synonym u16 = "16 word"
type_synonym u32 = "32 word"

text \<open>
  An \<open>error\<close> is the constant text of its \<open>fmt.Errorf\<close> or \<open>errors.New\<close> call; the formatted
  arguments are not kept.  \<open>Wrap\<close> is an \<open>Errorf\<close> with \<open>%w\<close>: the outer text and the wrapped
  error.
\<close>

datatype error = Errorf string | Wrap string error

datatype 'a result = Ok 'a | Err error | Panic

fun res_bind :: "'a result \<Rightarrow> ('a \<Rightarrow> 'b result) \<Rightarrow> 'b result" where
  "res_bind (Ok x) k = k x"
| "res_bind (Err e) k = Err e"
| "res_bind Panic k = Panic"

text \<open>\<open>if err != nil { return fmt.Errorf("...: %w", err) }\<close>\<close>

fun res_wrap :: "string \<Rightarrow> 'a result \<Rightarrow> 'a result" where
  "res_wrap msg (Ok x) = Ok x"
| "res_wrap msg (Err e) = Err (Wrap msg e)"
| "res_wrap msg Panic = Panic"

fun is_Ok :: "'a result \<Rightarrow> bool" where
  "is_Ok (Ok x) = True"
| "is_Ok (Err e) = False"
| "is_Ok Panic = False"

fun res_map :: "('a \<Rightarrow> 'b) \<Rightarrow> 'a result \<Rightarrow> 'b result" where
  "res_map f (Ok x) = Ok (f x)"
| "res_map f (Err e) = Err e"
| "res_map f Panic = Panic"

lemma res_bind_Ok_iff: "res_bind m k = Ok y \<longleftrightarrow> (\<exists>x. m = Ok x \<and> k x = Ok y)"
  by (cases m) auto

lemma res_bind_Panic_iff: "res_bind m k = Panic \<longleftrightarrow> m = Panic \<or> (\<exists>x. m = Ok x \<and> k x = Panic)"
  by (cases m) auto

lemma res_wrap_Ok_iff [simp]: "res_wrap msg m = Ok x \<longleftrightarrow> m = Ok x"
  by (cases m) auto

lemma res_wrap_Panic_iff [simp]: "res_wrap msg m = Panic \<longleftrightarrow> m = Panic"
  by (cases m) auto

lemma res_map_Ok_iff: "res_map f m = Ok y \<longleftrightarrow> (\<exists>x. m = Ok x \<and> y = f x)"
  by (cases m) auto

lemma res_map_Panic_iff [simp]: "res_map f m = Panic \<longleftrightarrow> m = Panic"
  by (cases m) auto

section \<open>Slices\<close>

text \<open>
  \<open>data[lo:hi]\<close> and \<open>data[i]\<close>.  Out of range is a panic.  The capacity of a slice is taken to be
  its length, which is how the decoder allocates the body it hands to \<open>Unmarshal\<close>.
\<close>

definition slice :: "'a list \<Rightarrow> nat \<Rightarrow> nat \<Rightarrow> 'a list result" where
  "slice data lo hi =
     (if lo \<le> hi \<and> hi \<le> length data then Ok (take (hi - lo) (drop lo data)) else Panic)"

definition slice_from :: "'a list \<Rightarrow> nat \<Rightarrow> 'a list result" where
  "slice_from data lo = (if lo \<le> length data then Ok (drop lo data) else Panic)"

definition idx :: "'a list \<Rightarrow> nat \<Rightarrow> 'a result" where
  "idx data i = (if i < length data then Ok (data ! i) else Panic)"

lemma slice_Ok [res_simps]:
  "lo \<le> hi \<Longrightarrow> hi \<le> length data \<Longrightarrow> slice data lo hi = Ok (take (hi - lo) (drop lo data))"
  by (simp add: slice_def)

lemma slice_from_Ok [res_simps]: "lo \<le> length data \<Longrightarrow> slice_from data lo = Ok (drop lo data)"
  by (simp add: slice_from_def)

lemma idx_Ok [res_simps]: "i < length data \<Longrightarrow> idx data i = Ok (data ! i)"
  by (simp add: idx_def)

lemma slice_not_Err [simp]: "slice data lo hi \<noteq> Err e"
  by (simp add: slice_def)

lemma idx_not_Err [simp]: "idx data i \<noteq> Err e"
  by (simp add: idx_def)

lemma drop_append_step: "drop n data = xs @ ys \<Longrightarrow> drop (n + length xs) data = ys"
  by (metis add.commute append_eq_conv_conj drop_drop)

text \<open>\<open>copy(dst, src)\<close> overwrites a prefix of \<open>dst\<close>, as much as fits.\<close>

definition go_copy :: "'a list \<Rightarrow> 'a list \<Rightarrow> 'a list" where
  "go_copy dst src = take (length dst) src @ drop (length src) dst"

lemma length_go_copy [simp, wire_simps]: "length (go_copy dst src) = length dst"
  by (simp add: go_copy_def)

lemma go_copy_all: "length dst = length src \<Longrightarrow> go_copy dst src = src"
  by (simp add: go_copy_def)

lemma go_copy_terminated: "go_copy (replicate (Suc (length xs)) z) xs = xs @ [z]"
  by (simp add: go_copy_def del: replicate_Suc, simp)

section \<open>Strings and bytes\<close>

text \<open>
  A Go string is a sequence of bytes, as HOL's \<open>string\<close> is: \<open>char\<close> has 256 values.
  \<open>[]byte(s)\<close> and \<open>string(b)\<close> are the two directions of that bijection.
\<close>

definition byte_of_char :: "char \<Rightarrow> byte" where
  "byte_of_char c = word_of_nat (of_char c)"

definition char_of_byte :: "byte \<Rightarrow> char" where
  "char_of_byte b = char_of (unat b)"

definition to_bytes :: "string \<Rightarrow> byte list" where
  "to_bytes s = map byte_of_char s"

definition of_bytes :: "byte list \<Rightarrow> string" where
  "of_bytes bs = map char_of_byte bs"

lemma char_of_byte_of_char [simp]: "char_of_byte (byte_of_char c) = c"
  by (simp add: char_of_byte_def byte_of_char_def unat_of_nat)

lemma unat_byte_less [simp]: "unat (b :: byte) < 256"
  by (rule order.strict_trans2 [OF unsigned_less]) simp

lemma unat_u16_less: "unat (w :: u16) < 65536"
  by (rule order.strict_trans2 [OF unsigned_less]) simp

lemma unat_u32_less: "unat (w :: u32) < 4294967296"
  by (rule order.strict_trans2 [OF unsigned_less]) simp

lemma byte_of_char_of_byte [simp]: "byte_of_char (char_of_byte b) = b"
proof -
  have "unat b < 256" by simp
  then have "of_char (char_of (unat b)) = unat b" by simp
  then show ?thesis by (simp add: char_of_byte_def byte_of_char_def)
qed

lemma byte_of_char_eq_iff [simp]: "byte_of_char c = byte_of_char d \<longleftrightarrow> c = d"
  by (metis char_of_byte_of_char)

lemma of_bytes_to_bytes [simp]: "of_bytes (to_bytes s) = s"
  by (simp add: of_bytes_def to_bytes_def comp_def)

lemma to_bytes_of_bytes [simp]: "to_bytes (of_bytes bs) = bs"
  by (simp add: of_bytes_def to_bytes_def comp_def)

lemma length_to_bytes [simp, wire_simps]: "length (to_bytes s) = length s"
  by (simp add: to_bytes_def)

lemma length_of_bytes [simp, wire_simps]: "length (of_bytes bs) = length bs"
  by (simp add: of_bytes_def)

lemma to_bytes_Nil [simp]: "to_bytes s = [] \<longleftrightarrow> s = []" "to_bytes [] = []"
  by (simp_all add: to_bytes_def)

lemma of_bytes_Nil [simp]: "of_bytes s = [] \<longleftrightarrow> s = []" "of_bytes [] = []"
  by (simp_all add: of_bytes_def)

lemma to_bytes_append [simp]: "to_bytes (s @ t) = to_bytes s @ to_bytes t"
  by (simp add: to_bytes_def)

lemma of_bytes_append [simp]: "of_bytes (s @ t) = of_bytes s @ of_bytes t"
  by (simp add: of_bytes_def)

lemma byte_of_char_0 [simp]: "byte_of_char c = 0 \<longleftrightarrow> c = CHR 0x00"
proof -
  have "byte_of_char (CHR 0x00) = 0" by (simp add: byte_of_char_def)
  then show ?thesis by (metis byte_of_char_eq_iff)
qed

lemma zero_in_to_bytes [simp]: "0 \<in> set (to_bytes s) \<longleftrightarrow> CHR 0x00 \<in> set s"
  by (induction s) (auto simp: to_bytes_def eq_commute [of 0])

lemma last_to_bytes: "s \<noteq> [] \<Longrightarrow> last (to_bytes s) = byte_of_char (last s)"
  by (simp add: to_bytes_def last_map)

text \<open>\<open>bytes.IndexByte\<close>; \<open>None\<close> is Go's \<open>-1\<close>.\<close>

fun index_byte :: "byte list \<Rightarrow> byte \<Rightarrow> nat option" where
  "index_byte [] c = None"
| "index_byte (b # bs) c = (if b = c then Some 0 else map_option Suc (index_byte bs c))"

lemma index_byte_None_iff: "index_byte bs c = None \<longleftrightarrow> c \<notin> set bs"
  by (induction bs) auto

lemma index_byte_append [simp]:
  "c \<notin> set bs \<Longrightarrow> index_byte (bs @ c # rest) c = Some (length bs)"
  by (induction bs) auto

lemma index_byte_SomeD:
  "index_byte bs c = Some i \<Longrightarrow> i < length bs \<and> bs ! i = c \<and> c \<notin> set (take i bs)"
  by (induction bs arbitrary: i) (auto split: if_splits)

section \<open>Null-padded and null-terminated fields\<close>

text \<open>\<open>buf := make([]byte, n); copy(buf, []byte(s))\<close>\<close>

definition put_fixed :: "nat \<Rightarrow> string \<Rightarrow> byte list" where
  "put_fixed n s = go_copy (replicate n 0) (to_bytes s)"

text \<open>\<open>bytes.TrimRight(b, "\x00")\<close>\<close>

definition trim_right0 :: "byte list \<Rightarrow> byte list" where
  "trim_right0 bs = rev (dropWhile (\<lambda>b. b = 0) (rev bs))"

definition get_fixed :: "byte list \<Rightarrow> string" where
  "get_fixed bs = of_bytes (trim_right0 bs)"

text \<open>A string that survives a null-padded field of \<open>n\<close> bytes.\<close>

definition fits :: "nat \<Rightarrow> string \<Rightarrow> bool" where
  "fits n s \<longleftrightarrow> length s \<le> n \<and> (s \<noteq> [] \<longrightarrow> last s \<noteq> CHR 0x00)"

lemma length_put_fixed [simp, wire_simps]: "length (put_fixed n s) = n"
  by (simp add: put_fixed_def)

lemma put_fixed_eq: "length s \<le> n \<Longrightarrow> put_fixed n s = to_bytes s @ replicate (n - length s) 0"
  by (simp add: put_fixed_def go_copy_def)

lemma trim_right0_replicate: "trim_right0 (bs @ replicate n 0) = trim_right0 bs"
  by (simp add: trim_right0_def dropWhile_append)

lemma trim_right0_Nil [simp]: "trim_right0 [] = []"
  by (simp add: trim_right0_def)

lemma trim_right0_id: "(bs \<noteq> [] \<Longrightarrow> last bs \<noteq> 0) \<Longrightarrow> trim_right0 bs = bs"
  by (cases bs rule: rev_cases) (auto simp: trim_right0_def)

lemma get_put_fixed [wire_simps]: "fits n s \<Longrightarrow> get_fixed (put_fixed n s) = s"
  by (cases "s = []")
     (simp_all add: get_fixed_def trim_right0_replicate [of "[]", simplified] fits_def put_fixed_eq trim_right0_replicate trim_right0_id
       last_to_bytes)

lemma fits_Nil [simp]: "fits n []"
  by (simp add: fits_def)

lemma trim_right0_not_last0: "trim_right0 bs \<noteq> [] \<Longrightarrow> last (trim_right0 bs) \<noteq> 0"
proof -
  assume "trim_right0 bs \<noteq> []"
  then have "dropWhile (\<lambda>b. b = 0) (rev bs) \<noteq> []" by (simp add: trim_right0_def)
  then have "hd (dropWhile (\<lambda>b. b = 0) (rev bs)) \<noteq> 0" by (rule hd_dropWhile)
  then show ?thesis by (simp add: trim_right0_def last_rev)
qed

lemma length_trim_right0: "length (trim_right0 bs) \<le> length bs"
  by (simp add: trim_right0_def) (metis length_dropWhile_le length_rev)

lemma get_fixed_fits: "length bs \<le> n \<Longrightarrow> fits n (get_fixed bs)"
proof -
  assume "length bs \<le> n"
  moreover have "last (of_bytes (trim_right0 bs)) \<noteq> CHR 0x00" if "trim_right0 bs \<noteq> []"
  proof -
    have "last (of_bytes (trim_right0 bs)) = char_of_byte (last (trim_right0 bs))"
      using that by (simp add: of_bytes_def last_map)
    moreover have "last (trim_right0 bs) \<noteq> 0" using that by (rule trim_right0_not_last0)
    ultimately show ?thesis by (metis byte_of_char_0 byte_of_char_of_byte)
  qed
  ultimately show ?thesis
    using length_trim_right0 [of bs] by (auto simp: fits_def get_fixed_def)
qed

lemma trim_right0_decomp: "bs = trim_right0 bs @ replicate (length bs - length (trim_right0 bs)) 0"
proof -
  have "set (takeWhile (\<lambda>b. b = 0) (rev bs)) \<subseteq> {0}"
    by (auto dest: set_takeWhileD)
  then have *: "takeWhile (\<lambda>b. b = 0) (rev bs)
      = replicate (length (takeWhile (\<lambda>b. b = 0) (rev bs))) 0"
    by (intro replicate_length_same [symmetric]) auto
  have "bs = rev (takeWhile (\<lambda>b. b = 0) (rev bs) @ dropWhile (\<lambda>b. b = 0) (rev bs))"
    by simp
  also have "\<dots> = trim_right0 bs @ rev (takeWhile (\<lambda>b. b = 0) (rev bs))"
    by (simp only: trim_right0_def rev_append)
  also have "rev (takeWhile (\<lambda>b. b = 0) (rev bs))
      = replicate (length (takeWhile (\<lambda>b. b = 0) (rev bs))) 0"
    by (subst *) simp
  finally have d: "bs = trim_right0 bs @ replicate (length (takeWhile (\<lambda>b. b = 0) (rev bs))) 0" .
  have "length bs = length (trim_right0 bs) + length (takeWhile (\<lambda>b. b = 0) (rev bs))"
    by (subst d) simp
  then have "length (takeWhile (\<lambda>b. b = 0) (rev bs)) = length bs - length (trim_right0 bs)"
    by simp
  with d show ?thesis by metis
qed

lemma put_get_fixed: "length bs = n \<Longrightarrow> put_fixed n (get_fixed bs) = bs"
  using trim_right0_decomp [of bs] length_trim_right0 [of bs]
  by (simp add: get_fixed_def put_fixed_eq)

section \<open>Big-endian integers\<close>

text \<open>\<open>binary.Write(buf, binary.BigEndian, v)\<close> and \<open>binary.BigEndian.Uint16/Uint32\<close>\<close>

definition put_be16 :: "u16 \<Rightarrow> byte list" where
  "put_be16 v = [word_of_nat (unat v div 256), word_of_nat (unat v mod 256)]"

definition get_be16 :: "byte list \<Rightarrow> u16" where
  "get_be16 bs = word_of_nat (unat (bs ! 0) * 256 + unat (bs ! 1))"

definition put_be32 :: "u32 \<Rightarrow> byte list" where
  "put_be32 v = [word_of_nat (unat v div 16777216), word_of_nat (unat v div 65536 mod 256),
                 word_of_nat (unat v div 256 mod 256), word_of_nat (unat v mod 256)]"

definition get_be32 :: "byte list \<Rightarrow> u32" where
  "get_be32 bs = word_of_nat (unat (bs ! 0) * 16777216 + unat (bs ! 1) * 65536
                              + unat (bs ! 2) * 256 + unat (bs ! 3))"

lemma unat_byte [simp]: "n < 256 \<Longrightarrow> unat (word_of_nat n :: byte) = n"
  by (simp add: unat_of_nat)

lemma unat_u16: "n < 65536 \<Longrightarrow> unat (word_of_nat n :: u16) = n"
  by (simp add: unat_of_nat)

lemma unat_u32: "n < 4294967296 \<Longrightarrow> unat (word_of_nat n :: u32) = n"
  by (simp add: unat_of_nat)

lemma length_put_be16 [simp, wire_simps]: "length (put_be16 v) = 2"
  by (simp add: put_be16_def)

lemma length_put_be32 [simp, wire_simps]: "length (put_be32 v) = 4"
  by (simp add: put_be32_def)

lemma get_put_be16 [simp, wire_simps]: "get_be16 (put_be16 v) = v"
proof -
  have "unat v < 65536" by (rule unat_u16_less)
  then have "unat v div 256 < 256" by (simp add: less_mult_imp_div_less)
  then show ?thesis by (simp add: get_be16_def put_be16_def)
qed

lemma nat_base256: "n div 16777216 * 16777216 + n div 65536 mod 256 * 65536
      + n div 256 mod 256 * 256 + n mod 256 = (n :: nat)"
proof -
  define a where "a = n div 256"
  define b where "b = a div 256"
  define c where "c = b div 256"
  have "n = a * 256 + n mod 256" "a = b * 256 + a mod 256" "b = c * 256 + b mod 256"
    by (simp_all add: a_def b_def c_def)
  moreover have "n div 65536 = b" "n div 16777216 = c"
    by (simp_all add: a_def b_def c_def flip: div_mult2_eq)
  ultimately show ?thesis by (simp flip: a_def)
qed

lemma get_put_be32 [simp, wire_simps]: "get_be32 (put_be32 v) = v"
proof -
  have "unat v < 4294967296" by (rule unat_u32_less)
  then have "unat v div 16777216 < 256" by (simp add: less_mult_imp_div_less)
  then show ?thesis by (simp add: get_be32_def put_be32_def nat_base256)
qed

lemma put_get_be32: "length bs = 4 \<Longrightarrow> put_be32 (get_be32 bs) = bs"
proof -
  assume "length bs = 4"
  then obtain a b c d where bs: "bs = [a, b, c, d]"
    by (auto simp: numeral_eq_Suc length_Suc_conv)
  define n where "n = unat a * 16777216 + unat b * 65536 + unat c * 256 + unat d"
  have lt: "unat a < 256" "unat b < 256" "unat c < 256" "unat d < 256" by simp_all
  then have "n < 4294967296" unfolding n_def by linarith
  then have u: "unat (word_of_nat n :: u32) = n" by (simp add: unat_of_nat)
  have base: "y < 256 \<Longrightarrow> (x * 256 + y) mod 256 = y \<and> (x * 256 + y) div 256 = x" for x y :: nat
    by simp
  define x where "x = unat a * 256 + unat b"
  define y where "y = x * 256 + unat c"
  have "n = y * 256 + unat d" by (simp add: n_def x_def y_def)
  then have d: "n mod 256 = unat d" "n div 256 = y" using base [OF lt(4), of y] by simp_all
  have c: "y mod 256 = unat c" "y div 256 = x" using base [OF lt(3), of x] by (simp_all add: y_def)
  have "x mod 256 = unat b" "x div 256 = unat a"
    using base [OF lt(2), of "unat a"] by (simp_all add: x_def)
  moreover have "n div 65536 = n div 256 div 256" "n div 16777216 = n div 256 div 256 div 256"
    by (simp_all flip: div_mult2_eq)
  ultimately have "n div 16777216 = unat a" "n div 65536 mod 256 = unat b"
    "n div 256 mod 256 = unat c" "n mod 256 = unat d"
    using c d by simp_all
  moreover have "get_be32 bs = word_of_nat n" unfolding get_be32_def bs n_def by simp
  ultimately show ?thesis by (simp add: put_be32_def bs u)
qed

lemma word_of_nat_eqI: "unat w = n \<Longrightarrow> word_of_nat n = w"
  by auto

section \<open>Decimal numerals\<close>

text \<open>\<open>%d\<close> of \<open>fmt.Sprintf\<close>\<close>

definition digit_char :: "nat \<Rightarrow> char" where
  "digit_char d = char_of (48 + d mod 10)"

fun itoa :: "nat \<Rightarrow> string" where
  "itoa n = (if n < 10 then [digit_char n] else itoa (n div 10) @ [digit_char n])"

declare itoa.simps [simp del]

definition itoa_int :: "int \<Rightarrow> string" where
  "itoa_int i = (if i < 0 then ''-'' @ itoa (nat (- i)) else itoa (nat i))"

fun atoi_digits :: "nat \<Rightarrow> string \<Rightarrow> nat" where
  "atoi_digits acc [] = acc"
| "atoi_digits acc (c # cs) = atoi_digits (acc * 10 + (of_char c - 48)) cs"

lemma atoi_digits_append: "atoi_digits acc (s @ t) = atoi_digits (atoi_digits acc s) t"
  by (induction s arbitrary: acc) auto

lemma of_char_digit_char [simp]: "of_char (digit_char d) = 48 + d mod (10 :: nat)"
proof -
  have "48 + d mod 10 < (256 :: nat)" using mod_less_divisor [of 10 d] by linarith
  then show ?thesis by (simp add: digit_char_def)
qed

lemma atoi_itoa: "atoi_digits 0 (itoa n) = n"
proof (induction n rule: itoa.induct)
  case (1 n)
  show ?case
  proof (cases "n < 10")
    case True
    then show ?thesis by (simp add: itoa.simps [of n])
  next
    case False
    with "1.IH" show ?thesis by (simp add: itoa.simps [of n] atoi_digits_append)
  qed
qed

lemma itoa_inject [simp]: "itoa m = itoa n \<longleftrightarrow> m = n"
  by (metis atoi_itoa)

definition is_digit :: "char \<Rightarrow> bool" where
  "is_digit c \<longleftrightarrow> 48 \<le> (of_char c :: nat) \<and> (of_char c :: nat) \<le> 57"

lemma is_digit_digit_char [simp]: "is_digit (digit_char d)"
  using mod_less_divisor [of 10 d] by (simp add: is_digit_def)

lemma itoa_digits: "list_all is_digit (itoa n)"
proof (induction n rule: itoa.induct)
  case (1 n)
  show ?case
  proof (cases "n < 10")
    case True
    then show ?thesis by (simp add: itoa.simps [of n])
  next
    case False
    with "1.IH" show ?thesis by (simp add: itoa.simps [of n])
  qed
qed

lemma itoa_nonempty [simp]: "itoa n \<noteq> []"
  by (simp add: itoa.simps [of n])

end
