(* ===== verification/Constants.thy ===== *)
theory Constants
  imports Prelude
begin

text \<open>
  The protocol constants of \<open>pkg/smpp/constants.go\<close> the code uses: command ids and statuses
  (\<open>uint32\<close>), optional-parameter tags (\<open>uint16\<close>), one-byte field values, and maximum field
  lengths.  They are simplification rules, so terms over them evaluate.
\<close>

section \<open>SMPP Protocol Version\<close>

definition SMPPVersion :: u8 where [simp, code_unfold]: "SMPPVersion = 52"

section \<open>Command IDs\<close>

definition CommandBindReceiver :: u32 where [simp, code_unfold]: "CommandBindReceiver = 1"
definition CommandBindTransmitter :: u32 where [simp, code_unfold]: "CommandBindTransmitter = 2"
definition CommandQuerySM :: u32 where [simp, code_unfold]: "CommandQuerySM = 3"
definition CommandSubmitSM :: u32 where [simp, code_unfold]: "CommandSubmitSM = 4"
definition CommandDeliverSM :: u32 where [simp, code_unfold]: "CommandDeliverSM = 5"
definition CommandUnbind :: u32 where [simp, code_unfold]: "CommandUnbind = 6"
definition CommandReplaceSM :: u32 where [simp, code_unfold]: "CommandReplaceSM = 7"
definition CommandCancelSM :: u32 where [simp, code_unfold]: "CommandCancelSM = 8"
definition CommandBindTransceiver :: u32 where [simp, code_unfold]: "CommandBindTransceiver = 9"
definition CommandOutbind :: u32 where [simp, code_unfold]: "CommandOutbind = 11"
definition CommandEnquireLink :: u32 where [simp, code_unfold]: "CommandEnquireLink = 21"
definition CommandSubmitMulti :: u32 where [simp, code_unfold]: "CommandSubmitMulti = 33"
definition CommandAlertNotification :: u32 where [simp, code_unfold]: "CommandAlertNotification = 258"
definition CommandDataSM :: u32 where [simp, code_unfold]: "CommandDataSM = 259"
definition CommandBroadcastSM :: u32 where [simp, code_unfold]: "CommandBroadcastSM = 273"
definition CommandQueryBroadcastSM :: u32 where [simp, code_unfold]: "CommandQueryBroadcastSM = 274"
definition CommandCancelBroadcastSM :: u32 where [simp, code_unfold]: "CommandCancelBroadcastSM = 275"
definition CommandBindReceiverResp :: u32 where [simp, code_unfold]: "CommandBindReceiverResp = 2147483649"
definition CommandBindTransmitterResp :: u32 where [simp, code_unfold]: "CommandBindTransmitterResp = 2147483650"
definition CommandQuerySMResp :: u32 where [simp, code_unfold]: "CommandQuerySMResp = 2147483651"
definition CommandSubmitSMResp :: u32 where [simp, code_unfold]: "CommandSubmitSMResp = 2147483652"
definition CommandDeliverSMResp :: u32 where [simp, code_unfold]: "CommandDeliverSMResp = 2147483653"
definition CommandUnbindResp :: u32 where [simp, code_unfold]: "CommandUnbindResp = 2147483654"
definition CommandReplaceSMResp :: u32 where [simp, code_unfold]: "CommandReplaceSMResp = 2147483655"
definition CommandCancelSMResp :: u32 where [simp, code_unfold]: "CommandCancelSMResp = 2147483656"
definition CommandBindTransceiverResp :: u32 where [simp, code_unfold]: "CommandBindTransceiverResp = 2147483657"
definition CommandEnquireLinkResp :: u32 where [simp, code_unfold]: "CommandEnquireLinkResp = 2147483669"
definition CommandSubmitMultiResp :: u32 where [simp, code_unfold]: "CommandSubmitMultiResp = 2147483681"
definition CommandDataSMResp :: u32 where [simp, code_unfold]: "CommandDataSMResp = 2147483907"
definition CommandBroadcastSMResp :: u32 where [simp, code_unfold]: "CommandBroadcastSMResp = 2147483921"
definition CommandQueryBroadcastSMResp :: u32 where [simp, code_unfold]: "CommandQueryBroadcastSMResp = 2147483922"
definition CommandCancelBroadcastSMResp :: u32 where [simp, code_unfold]: "CommandCancelBroadcastSMResp = 2147483923"

section \<open>Command Status\<close>

definition StatusOK :: u32 where [simp, code_unfold]: "StatusOK = 0"
definition StatusInvMsgLen :: u32 where [simp, code_unfold]: "StatusInvMsgLen = 1"
definition StatusInvBnd :: u32 where [simp, code_unfold]: "StatusInvBnd = 4"
definition StatusSysErr :: u32 where [simp, code_unfold]: "StatusSysErr = 8"
definition StatusInvDstAdr :: u32 where [simp, code_unfold]: "StatusInvDstAdr = 11"
definition StatusInvPaswd :: u32 where [simp, code_unfold]: "StatusInvPaswd = 14"

section \<open>ESM Class values\<close>

definition EsmClassDefault :: u8 where [simp, code_unfold]: "EsmClassDefault = 0"
definition EsmClassUDHI :: u8 where [simp, code_unfold]: "EsmClassUDHI = 64"

section \<open>Data Coding Scheme\<close>

definition DataCodingDefault :: u8 where [simp, code_unfold]: "DataCodingDefault = 0"

section \<open>TON (Type of Number)\<close>

definition TONUnknown :: u8 where [simp, code_unfold]: "TONUnknown = 0"
definition TONInternational :: u8 where [simp, code_unfold]: "TONInternational = 1"
definition TONNational :: u8 where [simp, code_unfold]: "TONNational = 2"
definition TONAlphanumeric :: u8 where [simp, code_unfold]: "TONAlphanumeric = 5"

section \<open>NPI (Numbering Plan Indicator)\<close>

definition NPIUnknown :: u8 where [simp, code_unfold]: "NPIUnknown = 0"
definition NPIISDN :: u8 where [simp, code_unfold]: "NPIISDN = 1"

section \<open>Registered Delivery\<close>

definition RegisteredDeliverySuccessFailure :: u8 where [simp, code_unfold]: "RegisteredDeliverySuccessFailure = 1"

section \<open>Priority Flag\<close>

definition PriorityLevel0 :: u8 where [simp, code_unfold]: "PriorityLevel0 = 0"

section \<open>Message State (for delivery receipts)\<close>

definition MessageStateEnroute :: u8 where [simp, code_unfold]: "MessageStateEnroute = 1"
definition MessageStateDelivered :: u8 where [simp, code_unfold]: "MessageStateDelivered = 2"
definition MessageStateExpired :: u8 where [simp, code_unfold]: "MessageStateExpired = 3"
definition MessageStateDeleted :: u8 where [simp, code_unfold]: "MessageStateDeleted = 4"
definition MessageStateUndeliverable :: u8 where [simp, code_unfold]: "MessageStateUndeliverable = 5"
definition MessageStateAccepted :: u8 where [simp, code_unfold]: "MessageStateAccepted = 6"
definition MessageStateUnknown :: u8 where [simp, code_unfold]: "MessageStateUnknown = 7"
definition MessageStateRejected :: u8 where [simp, code_unfold]: "MessageStateRejected = 8"
definition MessageStateSkipped :: u8 where [simp, code_unfold]: "MessageStateSkipped = 9"

section \<open>Optional Parameter Tags\<close>

definition TagReceiptedMessageID :: u16 where [simp, code_unfold]: "TagReceiptedMessageID = 30"
definition TagMessagePayload :: u16 where [simp, code_unfold]: "TagMessagePayload = 1060"

section \<open>Maximum field lengths\<close>

definition MaxSystemIDLength :: nat where [simp, code_unfold]: "MaxSystemIDLength = 16"
definition MaxPasswordLength :: nat where [simp, code_unfold]: "MaxPasswordLength = 9"
definition MaxSystemTypeLength :: nat where [simp, code_unfold]: "MaxSystemTypeLength = 13"
definition MaxServiceTypeLength :: nat where [simp, code_unfold]: "MaxServiceTypeLength = 6"
definition MaxAddressLength :: nat where [simp, code_unfold]: "MaxAddressLength = 21"
definition MaxMessageIDLength :: nat where [simp, code_unfold]: "MaxMessageIDLength = 64"

end
