(* ===== verification/PduTypes.thy ===== *)
theory PduTypes
  imports Constants
begin

text \<open>
  The data of \<open>pkg/smpp/pdu.go\<close>: C strings, addresses and optional parameters with their
  operations, and one record per PDU body.  Field names carry a prefix because Isabelle's record
  fields share one name space.
\<close>

section \<open>CString\<close>

record cstring =
  cs_Data :: "byte list"
  cs_MaxLen :: int

definition NewCString :: "int \<Rightarrow> cstring" where
  "NewCString maxLen = \<lparr>cs_Data = [], cs_MaxLen = maxLen\<rparr>"

text \<open>The zero value of the struct: no data and a maximal length of 0.\<close>

abbreviation zero_cstring :: cstring where
  "zero_cstring \<equiv> NewCString 0"

definition cstring_SetString :: "cstring \<Rightarrow> string \<Rightarrow> cstring result" where
  "cstring_SetString cs value =
     (if int (length value) > cs_MaxLen cs then Err (Errorf ''string too long'')
      else Ok (cs\<lparr>cs_Data := to_bytes value\<rparr>))"

text \<open>A call of \<open>SetString\<close> whose error is dropped leaves the data as they were.\<close>

definition set_string_unchecked :: "cstring \<Rightarrow> string \<Rightarrow> cstring" where
  "set_string_unchecked cs value =
     (case cstring_SetString cs value of Ok cs' \<Rightarrow> cs' | Err e \<Rightarrow> cs | Panic \<Rightarrow> cs)"

definition cstring_GetString :: "cstring \<Rightarrow> string" where
  "cstring_GetString cs = of_bytes (cs_Data cs)"

definition cstring_Marshal :: "cstring \<Rightarrow> byte list result" where
  "cstring_Marshal cs =
     Ok ((go_copy (replicate (length (cs_Data cs) + 1) 0) (cs_Data cs))[length (cs_Data cs) := 0])"

definition cstring_Unmarshal :: "cstring \<Rightarrow> byte list \<Rightarrow> cstring result" where
  "cstring_Unmarshal cs data =
     (if length data = 0 then Ok (cs\<lparr>cs_Data := []\<rparr>)
      else case index_byte data 0 of
             None \<Rightarrow> Err (Errorf ''CString missing null terminator'')
           | Some nullIndex \<Rightarrow>
               if int nullIndex > cs_MaxLen cs then Err (Errorf ''CString too long'')
               else Ok (cs\<lparr>cs_Data := take nullIndex data\<rparr>))"

definition cstring_Len :: "cstring \<Rightarrow> nat" where
  "cstring_Len cs = length (cs_Data cs) + 1"

definition cstring_String :: "cstring \<Rightarrow> string" where
  "cstring_String cs =
     (if length (cs_Data cs) = 0 then ''''
      else if last (cs_Data cs) = 0 then of_bytes (butlast (cs_Data cs))
      else of_bytes (cs_Data cs))"

text \<open>What a C string field can carry: no NUL inside, at most \<open>MaxLen\<close> bytes.\<close>

definition cstring_wf :: "cstring \<Rightarrow> bool" where
  "cstring_wf cs \<longleftrightarrow> 0 \<notin> set (cs_Data cs) \<and> int (length (cs_Data cs)) \<le> cs_MaxLen cs"

lemma cstring_Marshal_eq [simp]: "cstring_Marshal cs = Ok (cs_Data cs @ [0])"
  by (simp add: cstring_Marshal_def go_copy_terminated list_update_append del: replicate_Suc)

lemma cstring_Unmarshal_append:
  assumes "cstring_wf cs" and "cs_MaxLen cs0 = cs_MaxLen cs"
  shows "cstring_Unmarshal cs0 (cs_Data cs @ 0 # rest) = Ok cs"
  using assms by (simp add: cstring_Unmarshal_def cstring_wf_def)

lemma cstring_Unmarshal_not_Panic [simp]: "cstring_Unmarshal cs data \<noteq> Panic"
  by (auto simp: cstring_Unmarshal_def split: option.split)

lemma cstring_Unmarshal_wf:
  "0 \<le> cs_MaxLen cs \<Longrightarrow> cstring_Unmarshal cs data = Ok cs' \<Longrightarrow>
     cstring_wf cs' \<and> cs_MaxLen cs' = cs_MaxLen cs"
  by (auto simp: cstring_Unmarshal_def cstring_wf_def split: if_splits option.splits
      dest: index_byte_SomeD)

section \<open>Address\<close>

record address =
  a_TON :: u8
  a_NPI :: u8
  a_Addr :: string

definition zero_address :: address where
  "zero_address = \<lparr>a_TON = 0, a_NPI = 0, a_Addr = ''''\<rparr>"

definition address_Marshal :: "address \<Rightarrow> byte list result" where
  "address_Marshal a =
     (let addrBytes = to_bytes (a_Addr a);
          n = 2 + length addrBytes + 1;
          res = (replicate n 0)[0 := a_TON a, 1 := a_NPI a]
      in Ok ((take 2 res @ go_copy (drop 2 res) addrBytes)[n - 1 := 0]))"

definition address_Unmarshal :: "address \<Rightarrow> byte list \<Rightarrow> address result" where
  "address_Unmarshal a data =
     (if length data < 3 then Err (Errorf ''Address data too short'')
      else res_bind (idx data 0) (\<lambda>ton.
           res_bind (idx data 1) (\<lambda>npi.
           case index_byte (drop 2 data) 0 of
             None \<Rightarrow> Err (Errorf ''Address missing null terminator'')
           | Some k \<Rightarrow>
               res_bind (slice data 2 (2 + k)) (\<lambda>addr.
               Ok (a\<lparr>a_TON := ton, a_NPI := npi, a_Addr := of_bytes addr\<rparr>)))))"

definition address_Len :: "address \<Rightarrow> nat" where
  "address_Len a = 2 + length (a_Addr a) + 1"

lemma address_Marshal_eq [simp]:
  "address_Marshal a = Ok (a_TON a # a_NPI a # to_bytes (a_Addr a) @ [0])"
proof -
  have "go_copy (replicate (Suc (length (a_Addr a))) 0) (to_bytes (a_Addr a))
      = to_bytes (a_Addr a) @ [0]"
    using go_copy_terminated [of "to_bytes (a_Addr a)" 0] by simp
  then show ?thesis
    by (simp add: address_Marshal_def Let_def numeral_2_eq_2 list_update_append)
qed

lemma address_Unmarshal_append:
  "CHR 0x00 \<notin> set (a_Addr a) \<Longrightarrow>
     address_Unmarshal a0 (a_TON a # a_NPI a # to_bytes (a_Addr a) @ 0 # rest) = Ok a"
  by (simp add: address_Unmarshal_def res_simps numeral_2_eq_2)

lemma address_Unmarshal_not_Panic [simp]: "address_Unmarshal a data \<noteq> Panic"
  by (cases "data = []")
     (auto simp: address_Unmarshal_def res_simps split: option.split dest!: index_byte_SomeD)

section \<open>Optional parameters\<close>

record optional_parameter =
  op_Tag :: u16
  op_Length :: u16
  op_Value :: "byte list"

text \<open>The length field of a parameter says how many bytes its value has.\<close>

definition option_wf :: "optional_parameter \<Rightarrow> bool" where
  "option_wf p \<longleftrightarrow> unat (op_Length p) = length (op_Value p)"

text \<open>The marshalling loop, the same in every body that has optional parameters.\<close>

fun put_options :: "optional_parameter list \<Rightarrow> byte list" where
  "put_options [] = []"
| "put_options (p # ps) =
     put_be16 (op_Tag p) @ put_be16 (op_Length p) @ op_Value p @ put_options ps"

end
