(* ===== verification/PduBind.thy ===== *)
theory PduBind
  imports PduTypes
begin

text \<open>
  The interface \<open>PDUBody\<close> of \<open>pkg/smpp/pdu.go\<close> as a contract, and its first providers: the bind
  request with its fixed-width null-padded fields and the bind response.
\<close>

section \<open>The contract of a PDU body\<close>

text \<open>
  \<open>wf\<close> says which values the wire format can carry.  Such a value marshals, and unmarshalling
  its bytes into any receiver gives the value back; and no input makes \<open>Unmarshal\<close> panic.  A body
  is \<open>closed\<close> when every value that \<open>Unmarshal\<close> returns can make the trip again.
\<close>

locale wire_body =
  fixes marshal :: "'b \<Rightarrow> byte list result"
    and unmarshal :: "'b \<Rightarrow> byte list \<Rightarrow> 'b result"
    and wf :: "'b \<Rightarrow> bool"
  assumes marshal_ok: "wf b \<Longrightarrow> \<exists>bs. marshal b = Ok bs"
    and unmarshal_marshal: "wf b \<Longrightarrow> marshal b = Ok bs \<Longrightarrow> unmarshal z bs = Ok b"
    and unmarshal_total: "unmarshal z bs \<noteq> Panic"
begin

lemma marshal_inject:
  assumes "wf a" and "wf b" and "marshal a = marshal b"
  shows "a = b"
proof -
  obtain bs where "marshal a = Ok bs" using marshal_ok [OF assms(1)] by blast
  with assms have "unmarshal a bs = Ok a" "unmarshal a bs = Ok b"
    by (auto intro: unmarshal_marshal)
  then show ?thesis by simp
qed

end

locale wire_body_closed = wire_body +
  assumes unmarshal_wf: "unmarshal z bs = Ok b \<Longrightarrow> wf b"
begin

text \<open>Decoding is idempotent: what was decoded is encoded and decoded to itself.\<close>

lemma redecode:
  assumes "unmarshal z bs = Ok b"
  shows "\<exists>bs'. marshal b = Ok bs' \<and> unmarshal z' bs' = Ok b"
  using assms unmarshal_wf marshal_ok unmarshal_marshal by blast

lemma unmarshal_receiver: "unmarshal z bs = Ok b \<Longrightarrow> marshal b = Ok bs \<Longrightarrow> unmarshal z' bs = Ok b"
  using unmarshal_wf unmarshal_marshal by blast

end

section \<open>bind_receiver, bind_transmitter, bind_transceiver\<close>

record bind_request =
  br_SystemID :: string
  br_Password :: string
  br_SystemType :: string
  br_InterfaceVersion :: u8
  br_AddrTON :: u8
  br_AddrNPI :: u8
  br_AddressRange :: string

definition zero_bind_request :: bind_request where
  "zero_bind_request = \<lparr>br_SystemID = '''', br_Password = '''', br_SystemType = '''',
     br_InterfaceVersion = 0, br_AddrTON = 0, br_AddrNPI = 0, br_AddressRange = ''''\<rparr>"

definition BindRequest_Marshal :: "bind_request \<Rightarrow> byte list result" where
  "BindRequest_Marshal b =
     Ok (put_fixed MaxSystemIDLength (br_SystemID b)
       @ put_fixed MaxPasswordLength (br_Password b)
       @ put_fixed MaxSystemTypeLength (br_SystemType b)
       @ [br_InterfaceVersion b]
       @ [br_AddrTON b]
       @ [br_AddrNPI b]
       @ put_fixed 41 (br_AddressRange b))"

definition BindRequest_Unmarshal :: "bind_request \<Rightarrow> byte list \<Rightarrow> bind_request result" where
  "BindRequest_Unmarshal b data =
     (if length data < MaxSystemIDLength + MaxPasswordLength + MaxSystemTypeLength + 3 + 41
      then Err (Errorf ''insufficient data for bind request'')
      else
        let offset = 0 in
        res_bind (slice data offset (offset + MaxSystemIDLength)) (\<lambda>systemIDBytes.
        let offset = offset + MaxSystemIDLength in
        res_bind (slice data offset (offset + MaxPasswordLength)) (\<lambda>passwordBytes.
        let offset = offset + MaxPasswordLength in
        res_bind (slice data offset (offset + MaxSystemTypeLength)) (\<lambda>systemTypeBytes.
        let offset = offset + MaxSystemTypeLength in
        res_bind (idx data offset) (\<lambda>version.
        let offset = offset + 1 in
        res_bind (idx data offset) (\<lambda>ton.
        let offset = offset + 1 in
        res_bind (idx data offset) (\<lambda>npi.
        let offset = offset + 1 in
        res_bind (slice data offset (offset + 41)) (\<lambda>addressRangeBytes.
        Ok (b\<lparr>br_SystemID := get_fixed systemIDBytes,
              br_Password := get_fixed passwordBytes,
              br_SystemType := get_fixed systemTypeBytes,
              br_InterfaceVersion := version,
              br_AddrTON := ton,
              br_AddrNPI := npi,
              br_AddressRange := get_fixed addressRangeBytes\<rparr>)))))))))"

definition BindRequest_CommandID :: "bind_request \<Rightarrow> u32" where
  "BindRequest_CommandID b = CommandBindTransceiver"

definition bind_request_wf :: "bind_request \<Rightarrow> bool" where
  "bind_request_wf b \<longleftrightarrow>
     fits MaxSystemIDLength (br_SystemID b) \<and> fits MaxPasswordLength (br_Password b) \<and>
     fits MaxSystemTypeLength (br_SystemType b) \<and> fits 41 (br_AddressRange b)"

lemma BindRequest_Marshal_length: "BindRequest_Marshal b = Ok bs \<Longrightarrow> length bs = 82"
  by (auto simp: BindRequest_Marshal_def)

lemma BindRequest_Unmarshal_eq:
  "82 \<le> length data \<Longrightarrow>
   BindRequest_Unmarshal b data =
     Ok (b\<lparr>br_SystemID := get_fixed (take 16 data),
           br_Password := get_fixed (take 9 (drop 16 data)),
           br_SystemType := get_fixed (take 13 (drop 25 data)),
           br_InterfaceVersion := data ! 38, br_AddrTON := data ! 39, br_AddrNPI := data ! 40,
           br_AddressRange := get_fixed (take 41 (drop 41 data))\<rparr>)"
  by (simp add: BindRequest_Unmarshal_def Let_def res_simps)

lemma BindRequest_Unmarshal_short:
  "\<not> 82 \<le> length data \<Longrightarrow>
   BindRequest_Unmarshal b data = Err (Errorf ''insufficient data for bind request'')"
  by (simp add: BindRequest_Unmarshal_def)

interpretation bind_request: wire_body_closed BindRequest_Marshal BindRequest_Unmarshal bind_request_wf
proof
  fix b :: bind_request and bs z
  show "bind_request_wf b \<Longrightarrow> \<exists>bs. BindRequest_Marshal b = Ok bs"
    by (simp add: BindRequest_Marshal_def)
  show "BindRequest_Unmarshal z bs = Ok b"
    if "bind_request_wf b" "BindRequest_Marshal b = Ok bs"
    using that BindRequest_Marshal_length [OF that(2)]
    by (cases b, cases z)
       (auto simp: BindRequest_Unmarshal_eq BindRequest_Marshal_def bind_request_wf_def
         wire_simps nth_append)
  show "BindRequest_Unmarshal z bs \<noteq> Panic"
    by (cases "82 \<le> length bs") (simp_all add: BindRequest_Unmarshal_eq BindRequest_Unmarshal_short)
  show "BindRequest_Unmarshal z bs = Ok b \<Longrightarrow> bind_request_wf b"
    by (cases "82 \<le> length bs")
       (auto simp: BindRequest_Unmarshal_eq BindRequest_Unmarshal_short bind_request_wf_def
         get_fixed_fits)
qed

section \<open>Bind responses\<close>

record bind_response =
  bp_SystemID :: string

definition BindResponse_Marshal :: "bind_response \<Rightarrow> byte list result" where
  "BindResponse_Marshal b = Ok (to_bytes (bp_SystemID b) @ [0])"

definition BindResponse_Unmarshal :: "bind_response \<Rightarrow> byte list \<Rightarrow> bind_response result" where
  "BindResponse_Unmarshal b data =
     (if length data = 0 then Err (Errorf ''insufficient data for bind response'')
      else case index_byte data 0 of
             None \<Rightarrow> Ok (b\<lparr>bp_SystemID := of_bytes data\<rparr>)
           | Some nullIndex \<Rightarrow>
               res_bind (slice data 0 nullIndex) (\<lambda>d. Ok (b\<lparr>bp_SystemID := of_bytes d\<rparr>)))"

definition BindResponse_CommandID :: "bind_response \<Rightarrow> u32" where
  "BindResponse_CommandID b = CommandBindTransceiverResp"

definition no_nul :: "string \<Rightarrow> bool" where
  "no_nul s \<longleftrightarrow> CHR 0x00 \<notin> set s"

definition bind_response_wf :: "bind_response \<Rightarrow> bool" where
  "bind_response_wf b \<longleftrightarrow> no_nul (bp_SystemID b)"

lemma no_nul_of_bytes [simp]: "no_nul (of_bytes bs) \<longleftrightarrow> 0 \<notin> set bs"
  by (metis no_nul_def to_bytes_of_bytes zero_in_to_bytes)

lemma zero_to_bytes_no_nul: "no_nul s \<Longrightarrow> 0 \<notin> set (to_bytes s)"
  by (simp add: no_nul_def)

lemma index_byte_terminated: "no_nul s \<Longrightarrow> index_byte (to_bytes s @ 0 # r) 0 = Some (length s)"
  by (simp add: no_nul_def)

interpretation bind_response: wire_body_closed BindResponse_Marshal BindResponse_Unmarshal bind_response_wf
proof
  fix b :: bind_response and bs z
  show "bind_response_wf b \<Longrightarrow> \<exists>bs. BindResponse_Marshal b = Ok bs"
    by (simp add: BindResponse_Marshal_def)
  show "BindResponse_Unmarshal z bs = Ok b"
    if "bind_response_wf b" "BindResponse_Marshal b = Ok bs"
    using that
    by (auto simp: BindResponse_Unmarshal_def BindResponse_Marshal_def bind_response_wf_def
        index_byte_terminated res_simps)
  show "BindResponse_Unmarshal z bs \<noteq> Panic"
    by (auto simp: BindResponse_Unmarshal_def res_simps split: option.split dest!: index_byte_SomeD)
  show "BindResponse_Unmarshal z bs = Ok b \<Longrightarrow> bind_response_wf b"
    by (auto simp: BindResponse_Unmarshal_def bind_response_wf_def index_byte_None_iff res_bind_Ok_iff
        slice_def split: option.splits if_splits dest: index_byte_SomeD)
qed

end
