(* ===== verification/PduMessage.thy ===== *)
theory PduMessage
  imports PduBind
begin

text \<open>
  \<open>submit_sm\<close>, \<open>deliver_sm\<close> and their responses (\<open>pkg/smpp/pdu.go\<close>).  The two message bodies have
  the same layout: a fixed part of 94 bytes, the short message, and optional parameters to the
  end of the body.  Every indexing and slicing of the source is bounds-checked here; the contract
  \<open>wire_body\<close> shows that none of them can fail, that well-formed values survive the wire, and that
  whatever \<open>Unmarshal\<close> returns is well-formed.
\<close>

section \<open>Optional parameters\<close>

text \<open>The parsing loop of \<open>Unmarshal\<close>: a truncated parameter ends it without an error.\<close>

function parse_options ::
    "byte list \<Rightarrow> nat \<Rightarrow> optional_parameter list \<Rightarrow> optional_parameter list result" where
  "parse_options data offset ps =
     (if \<not> offset < length data then Ok ps
      else if length data < offset + 4 then Ok ps
      else
        res_bind (slice data offset (offset + 2)) (\<lambda>tag.
        let offset1 = offset + 2 in
        res_bind (slice data offset1 (offset1 + 2)) (\<lambda>len.
        let offset2 = offset1 + 2; n = unat (get_be16 len) in
        if length data < offset2 + n then Ok ps
        else
          res_bind (slice data offset2 (offset2 + n)) (\<lambda>val.
          parse_options data (offset2 + n)
            (ps @ [\<lparr>op_Tag = get_be16 tag, op_Length = get_be16 len, op_Value = val\<rparr>])))))"
  by pat_completeness auto
termination
  by (relation "measure (\<lambda>(data, offset, ps). length data - offset)") auto

declare parse_options.simps [simp del]

text \<open>The same loop over the rest of the data, without offsets or bounds checks.\<close>

function options_of :: "byte list \<Rightarrow> optional_parameter list" where
  "options_of ds =
     (if length ds < 4 then []
      else let n = unat (get_be16 (take 2 (drop 2 ds))) in
        if length ds < 4 + n then []
        else \<lparr>op_Tag = get_be16 (take 2 ds), op_Length = get_be16 (take 2 (drop 2 ds)),
              op_Value = take n (drop 4 ds)\<rparr> # options_of (drop (4 + n) ds))"
  by pat_completeness auto
termination
  by (relation "measure length") auto

declare options_of.simps [simp del]

lemma parse_options_acc:
  "offset \<le> length data \<Longrightarrow>
   parse_options data offset ps = Ok (ps @ options_of (drop offset data))"
proof (induction data offset ps rule: parse_options.induct)
  case (1 data offset ps)
  define n where "n = unat (get_be16 (take 2 (drop (offset + 2) data)))"
  consider "length data < offset + 4" | "\<not> length data < offset + 4" "length data < offset + 4 + n"
    | "offset + 4 + n \<le> length data" by linarith
  then show ?case
  proof cases
    case 1
    then show ?thesis
      by (simp add: parse_options.simps [of data offset] options_of.simps [of "drop offset data"])
  next
    case 2
    then show ?thesis
      by (simp add: parse_options.simps [of data offset] options_of.simps [of "drop offset data"]
          res_simps Let_def n_def add.commute)
  next
    case 3
    let ?p = "\<lparr>op_Tag = get_be16 (take 2 (drop offset data)),
                 op_Length = get_be16 (take 2 (drop (offset + 2) data)),
                 op_Value = take n (drop (offset + 4) data)\<rparr>"
    have s: "slice data offset (offset + 2) = Ok (take 2 (drop offset data))"
      "slice data (offset + 2) (offset + 4) = Ok (take 2 (drop (offset + 2) data))"
      "offset + 2 + 2 = offset + 4"
      "slice data (offset + 4) (offset + 4 + n) = Ok (take n (drop (offset + 4) data))"
      using 3 by (simp_all add: slice_def)
    have "parse_options data offset ps = parse_options data (offset + 4 + n) (ps @ [?p])"
      using 3 by (subst parse_options.simps)
        (simp only: s Let_def n_def [symmetric] res_bind.simps, simp)
    also have "\<dots> = Ok ((ps @ [?p]) @ options_of (drop (offset + 4 + n) data))"
      by (rule "1.IH") (use 3 s in \<open>simp_all add: n_def\<close>)
    also have "\<dots> = Ok (ps @ options_of (drop offset data))"
      using 3 by (auto simp: options_of.simps [of "drop offset data"] Let_def n_def ac_simps)
    finally show ?thesis .
  qed
qed

lemma parse_options_eq [res_simps]:
  "offset \<le> length data \<Longrightarrow> parse_options data offset [] = Ok (options_of (drop offset data))"
  by (simp add: parse_options_acc)

lemma length_put_options_pos: "ps \<noteq> [] \<Longrightarrow> 4 \<le> length (put_options ps)"
  by (cases ps) auto

lemma options_of_put_options:
  "list_all option_wf ps \<Longrightarrow> options_of (put_options ps) = ps"
proof (induction ps)
  case Nil
  then show ?case by (simp add: options_of.simps)
next
  case (Cons p ps)
  have w: "unat (op_Length p) = length (op_Value p)"
    using Cons.prems by (simp add: option_wf_def)
  show ?case
    using Cons w by (subst options_of.simps) (simp add: Let_def)
qed

lemma options_of_wf: "list_all option_wf (options_of ds)"
proof (induction ds rule: options_of.induct)
  case (1 ds)
  then show ?case
    by (subst options_of.simps) (auto simp: Let_def option_wf_def [of "\<lparr>op_Tag = _, op_Length = _, op_Value = _\<rparr>"])
qed

section \<open>submit_sm\<close>

record submit_sm =
  ss_ServiceType :: string
  ss_SourceAddrTON :: u8
  ss_SourceAddrNPI :: u8
  ss_SourceAddr :: string
  ss_DestAddrTON :: u8
  ss_DestAddrNPI :: u8
  ss_DestAddr :: string
  ss_EsmClass :: u8
  ss_ProtocolID :: u8
  ss_PriorityFlag :: u8
  ss_ScheduleDeliveryTime :: string
  ss_ValidityPeriod :: string
  ss_RegisteredDelivery :: u8
  ss_ReplaceIfPresentFlag :: u8
  ss_DataCoding :: u8
  ss_SMDefaultMsgID :: u8
  ss_SMLength :: u8
  ss_ShortMessage :: "byte list"
  ss_OptionalParams :: "optional_parameter list"

definition zero_submit_sm :: submit_sm where
  "zero_submit_sm = \<lparr>ss_ServiceType = '''',
     ss_SourceAddrTON = 0,
     ss_SourceAddrNPI = 0,
     ss_SourceAddr = '''',
     ss_DestAddrTON = 0,
     ss_DestAddrNPI = 0,
     ss_DestAddr = '''',
     ss_EsmClass = 0,
     ss_ProtocolID = 0,
     ss_PriorityFlag = 0,
     ss_ScheduleDeliveryTime = '''',
     ss_ValidityPeriod = '''',
     ss_RegisteredDelivery = 0,
     ss_ReplaceIfPresentFlag = 0,
     ss_DataCoding = 0,
     ss_SMDefaultMsgID = 0,
     ss_SMLength = 0,
     ss_ShortMessage = [],
     ss_OptionalParams = []\<rparr>"

definition SubmitSM_Marshal :: "submit_sm \<Rightarrow> byte list result" where
  "SubmitSM_Marshal s =
     Ok (put_fixed MaxServiceTypeLength (ss_ServiceType s)
       @ [ss_SourceAddrTON s]
       @ [ss_SourceAddrNPI s]
       @ put_fixed MaxAddressLength (ss_SourceAddr s)
       @ [ss_DestAddrTON s]
       @ [ss_DestAddrNPI s]
       @ put_fixed MaxAddressLength (ss_DestAddr s)
       @ [ss_EsmClass s]
       @ [ss_ProtocolID s]
       @ [ss_PriorityFlag s]
       @ put_fixed 17 (ss_ScheduleDeliveryTime s)
       @ put_fixed 17 (ss_ValidityPeriod s)
       @ [ss_RegisteredDelivery s]
       @ [ss_ReplaceIfPresentFlag s]
       @ [ss_DataCoding s]
       @ [ss_SMDefaultMsgID s]
       @ [ss_SMLength s]
       @ ss_ShortMessage s
       @ put_options (ss_OptionalParams s))"

definition SubmitSM_Unmarshal :: "submit_sm \<Rightarrow> byte list \<Rightarrow> submit_sm result" where
  "SubmitSM_Unmarshal s data =
     (let minLength = MaxServiceTypeLength + 2 + MaxAddressLength + 2 + MaxAddressLength + 9 + 17 + 17 in
      if length data < minLength then Err (Errorf ''insufficient data for submit_sm'')
      else
        let offset = 0 in
        res_bind (slice data offset (offset + MaxServiceTypeLength)) (\<lambda>vServiceType.
        let offset = offset + MaxServiceTypeLength in
        res_bind (idx data offset) (\<lambda>vSourceAddrTON.
        let offset = offset + 1 in
        res_bind (idx data offset) (\<lambda>vSourceAddrNPI.
        let offset = offset + 1 in
        res_bind (slice data offset (offset + MaxAddressLength)) (\<lambda>vSourceAddr.
        let offset = offset + MaxAddressLength in
        res_bind (idx data offset) (\<lambda>vDestAddrTON.
        let offset = offset + 1 in
        res_bind (idx data offset) (\<lambda>vDestAddrNPI.
        let offset = offset + 1 in
        res_bind (slice data offset (offset + MaxAddressLength)) (\<lambda>vDestAddr.
        let offset = offset + MaxAddressLength in
        res_bind (idx data offset) (\<lambda>vEsmClass.
        let offset = offset + 1 in
        res_bind (idx data offset) (\<lambda>vProtocolID.
        let offset = offset + 1 in
        res_bind (idx data offset) (\<lambda>vPriorityFlag.
        let offset = offset + 1 in
        res_bind (slice data offset (offset + 17)) (\<lambda>vScheduleDeliveryTime.
        let offset = offset + 17 in
        res_bind (slice data offset (offset + 17)) (\<lambda>vValidityPeriod.
        let offset = offset + 17 in
        res_bind (idx data offset) (\<lambda>vRegisteredDelivery.
        let offset = offset + 1 in
        res_bind (idx data offset) (\<lambda>vReplaceIfPresentFlag.
        let offset = offset + 1 in
        res_bind (idx data offset) (\<lambda>vDataCoding.
        let offset = offset + 1 in
        res_bind (idx data offset) (\<lambda>vSMDefaultMsgID.
        let offset = offset + 1 in
        res_bind (idx data offset) (\<lambda>vSMLength.
        let offset = offset + 1 in
        if length data < offset + unat vSMLength then Err (Errorf ''insufficient data for short message'')
        else
        res_bind (slice data offset (offset + unat vSMLength)) (\<lambda>vShortMessage.
        let offset = offset + unat vSMLength in
        res_bind (parse_options data offset []) (\<lambda>vOptionalParams.
        Ok (s\<lparr>ss_ServiceType := get_fixed vServiceType,
              ss_SourceAddrTON := vSourceAddrTON,
              ss_SourceAddrNPI := vSourceAddrNPI,
              ss_SourceAddr := get_fixed vSourceAddr,
              ss_DestAddrTON := vDestAddrTON,
              ss_DestAddrNPI := vDestAddrNPI,
              ss_DestAddr := get_fixed vDestAddr,
              ss_EsmClass := vEsmClass,
              ss_ProtocolID := vProtocolID,
              ss_PriorityFlag := vPriorityFlag,
              ss_ScheduleDeliveryTime := get_fixed vScheduleDeliveryTime,
              ss_ValidityPeriod := get_fixed vValidityPeriod,
              ss_RegisteredDelivery := vRegisteredDelivery,
              ss_ReplaceIfPresentFlag := vReplaceIfPresentFlag,
              ss_DataCoding := vDataCoding,
              ss_SMDefaultMsgID := vSMDefaultMsgID,
              ss_SMLength := vSMLength,
              ss_ShortMessage := vShortMessage,
              ss_OptionalParams := vOptionalParams\<rparr>)))))))))))))))))))))"

definition SubmitSM_CommandID :: "submit_sm \<Rightarrow> u32" where
  "SubmitSM_CommandID s = CommandSubmitSM"

text \<open>
  What the wire format carries: the padded fields fit, \<open>sm_length\<close> is the length of the message,
  every optional parameter's length field is right, and the body is at least the 95 bytes
  \<open>Unmarshal\<close> asks for.  The fixed part is 94 bytes, so the last condition fails only for an empty
  message without optional parameters.
\<close>

definition submit_sm_fields :: "submit_sm \<Rightarrow> bool" where
  "submit_sm_fields s \<longleftrightarrow>
     fits MaxServiceTypeLength (ss_ServiceType s) \<and>
     fits MaxAddressLength (ss_SourceAddr s) \<and> fits MaxAddressLength (ss_DestAddr s) \<and>
     fits 17 (ss_ScheduleDeliveryTime s) \<and> fits 17 (ss_ValidityPeriod s) \<and>
     unat (ss_SMLength s) = length (ss_ShortMessage s) \<and>
     list_all option_wf (ss_OptionalParams s)"

definition submit_sm_wf :: "submit_sm \<Rightarrow> bool" where
  "submit_sm_wf s \<longleftrightarrow>
     submit_sm_fields s \<and> (ss_ShortMessage s \<noteq> [] \<or> ss_OptionalParams s \<noteq> [])"

definition submit_sm_fixed :: "submit_sm \<Rightarrow> byte list" where
  "submit_sm_fixed s =
     put_fixed MaxServiceTypeLength (ss_ServiceType s)
       @ [ss_SourceAddrTON s]
       @ [ss_SourceAddrNPI s]
       @ put_fixed MaxAddressLength (ss_SourceAddr s)
       @ [ss_DestAddrTON s]
       @ [ss_DestAddrNPI s]
       @ put_fixed MaxAddressLength (ss_DestAddr s)
       @ [ss_EsmClass s]
       @ [ss_ProtocolID s]
       @ [ss_PriorityFlag s]
       @ put_fixed 17 (ss_ScheduleDeliveryTime s)
       @ put_fixed 17 (ss_ValidityPeriod s)
       @ [ss_RegisteredDelivery s]
       @ [ss_ReplaceIfPresentFlag s]
       @ [ss_DataCoding s]
       @ [ss_SMDefaultMsgID s]
       @ [ss_SMLength s]"

lemma length_submit_sm_fixed [simp]: "length (submit_sm_fixed s) = 94"
  by (simp add: submit_sm_fixed_def)

lemma SubmitSM_Marshal_fixed:
  "SubmitSM_Marshal s =
     Ok (submit_sm_fixed s @ ss_ShortMessage s @ put_options (ss_OptionalParams s))"
  by (simp add: SubmitSM_Marshal_def submit_sm_fixed_def)

text \<open>The fields as the 94 bytes of the fixed part hold them.\<close>

definition submit_sm_of_fixed :: "submit_sm \<Rightarrow> byte list \<Rightarrow> submit_sm" where
  "submit_sm_of_fixed s d = s\<lparr>ss_ServiceType := get_fixed (take 6 d),
     ss_SourceAddrTON := d ! 6,
     ss_SourceAddrNPI := d ! 7,
     ss_SourceAddr := get_fixed (take 21 (drop 8 d)),
     ss_DestAddrTON := d ! 29,
     ss_DestAddrNPI := d ! 30,
     ss_DestAddr := get_fixed (take 21 (drop 31 d)),
     ss_EsmClass := d ! 52,
     ss_ProtocolID := d ! 53,
     ss_PriorityFlag := d ! 54,
     ss_ScheduleDeliveryTime := get_fixed (take 17 (drop 55 d)),
     ss_ValidityPeriod := get_fixed (take 17 (drop 72 d)),
     ss_RegisteredDelivery := d ! 89,
     ss_ReplaceIfPresentFlag := d ! 90,
     ss_DataCoding := d ! 91,
     ss_SMDefaultMsgID := d ! 92,
     ss_SMLength := d ! 93\<rparr>"

lemma submit_sm_of_fixed_fixed:
  assumes "submit_sm_fields s"
  shows "submit_sm_of_fixed z (submit_sm_fixed s)
    \<lparr>ss_ShortMessage := ss_ShortMessage s, ss_OptionalParams := ss_OptionalParams s\<rparr> = s"
  using assms
  by (cases s, cases z)
     (simp add: submit_sm_of_fixed_def submit_sm_fixed_def submit_sm_fields_def wire_simps nth_append)

lemma SubmitSM_Unmarshal_short:
  "\<not> 95 \<le> length data \<Longrightarrow>
   SubmitSM_Unmarshal z data = Err (Errorf ''insufficient data for submit_sm'')"
  by (simp add: SubmitSM_Unmarshal_def)

lemma SubmitSM_Unmarshal_eq:
  assumes "95 \<le> length data"
  shows "SubmitSM_Unmarshal z data =
     (if length data < 94 + unat (data ! 93) then Err (Errorf ''insufficient data for short message'')
      else Ok (submit_sm_of_fixed z (take 94 data)
             \<lparr>ss_ShortMessage := take (unat (data ! 93)) (drop 94 data),
              ss_OptionalParams := options_of (drop (94 + unat (data ! 93)) data)\<rparr>))"
proof -
  have "data \<noteq> []" using assms by auto
  with assms show ?thesis
    by (simp add: SubmitSM_Unmarshal_def submit_sm_of_fixed_def Let_def res_simps parse_options_eq
        drop_take)
qed

lemma submit_sm_of_fixed_fields:
  assumes "length d = 94" and "unat (d ! 93) = length m" and "list_all option_wf ps"
  shows "submit_sm_fields (submit_sm_of_fixed z d\<lparr>ss_ShortMessage := m, ss_OptionalParams := ps\<rparr>)"
  using assms by (simp add: submit_sm_fields_def submit_sm_of_fixed_def get_fixed_fits)

lemma SubmitSM_Unmarshal_fields:
  assumes u: "SubmitSM_Unmarshal z bs = Ok s"
  shows "submit_sm_fields s"
proof -
  have l: "95 \<le> length bs" using u SubmitSM_Unmarshal_short by fastforce
  show ?thesis
    using u l
    by (auto simp: SubmitSM_Unmarshal_eq options_of_wf intro!: submit_sm_of_fixed_fields split: if_splits)
qed

interpretation submit_sm: wire_body SubmitSM_Marshal SubmitSM_Unmarshal submit_sm_wf
proof
  fix s :: submit_sm and bs z
  show "submit_sm_wf s \<Longrightarrow> \<exists>bs. SubmitSM_Marshal s = Ok bs"
    by (simp add: SubmitSM_Marshal_def)
  show "SubmitSM_Unmarshal z bs = Ok s" if wf: "submit_sm_wf s" and "SubmitSM_Marshal s = Ok bs"
  proof -
    have bs: "bs = submit_sm_fixed s @ ss_ShortMessage s @ put_options (ss_OptionalParams s)"
      using that by (simp add: SubmitSM_Marshal_fixed)
    have m: "bs ! 93 = ss_SMLength s"
      by (simp add: bs submit_sm_fixed_def nth_append)
    have n: "unat (ss_SMLength s) = length (ss_ShortMessage s)"
      and o: "list_all option_wf (ss_OptionalParams s)"
      and l: "95 \<le> length bs"
      using wf length_put_options_pos [of "ss_OptionalParams s"]
      by (auto simp: submit_sm_wf_def submit_sm_fields_def bs Suc_le_eq)
    show ?thesis
      using submit_sm_of_fixed_fixed [of s z] wf o
      by (simp add: SubmitSM_Unmarshal_eq [OF l] m n submit_sm_wf_def) (simp add: bs options_of_put_options)
  qed
  show "SubmitSM_Unmarshal z bs \<noteq> Panic"
    by (cases "95 \<le> length bs") (simp_all add: SubmitSM_Unmarshal_eq SubmitSM_Unmarshal_short)
qed

section \<open>deliver_sm\<close>

record deliver_sm =
  ds_ServiceType :: string
  ds_SourceAddrTON :: u8
  ds_SourceAddrNPI :: u8
  ds_SourceAddr :: string
  ds_DestAddrTON :: u8
  ds_DestAddrNPI :: u8
  ds_DestAddr :: string
  ds_EsmClass :: u8
  ds_ProtocolID :: u8
  ds_PriorityFlag :: u8
  ds_ScheduleDeliveryTime :: string
  ds_ValidityPeriod :: string
  ds_RegisteredDelivery :: u8
  ds_ReplaceIfPresentFlag :: u8
  ds_DataCoding :: u8
  ds_SMDefaultMsgID :: u8
  ds_SMLength :: u8
  ds_ShortMessage :: "byte list"
  ds_OptionalParams :: "optional_parameter list"

definition zero_deliver_sm :: deliver_sm where
  "zero_deliver_sm = \<lparr>ds_ServiceType = '''',
     ds_SourceAddrTON = 0,
     ds_SourceAddrNPI = 0,
     ds_SourceAddr = '''',
     ds_DestAddrTON = 0,
     ds_DestAddrNPI = 0,
     ds_DestAddr = '''',
     ds_EsmClass = 0,
     ds_ProtocolID = 0,
     ds_PriorityFlag = 0,
     ds_ScheduleDeliveryTime = '''',
     ds_ValidityPeriod = '''',
     ds_RegisteredDelivery = 0,
     ds_ReplaceIfPresentFlag = 0,
     ds_DataCoding = 0,
     ds_SMDefaultMsgID = 0,
     ds_SMLength = 0,
     ds_ShortMessage = [],
     ds_OptionalParams = []\<rparr>"

definition DeliverSM_Marshal :: "deliver_sm \<Rightarrow> byte list result" where
  "DeliverSM_Marshal s =
     Ok (put_fixed MaxServiceTypeLength (ds_ServiceType s)
       @ [ds_SourceAddrTON s]
       @ [ds_SourceAddrNPI s]
       @ put_fixed MaxAddressLength (ds_SourceAddr s)
       @ [ds_DestAddrTON s]
       @ [ds_DestAddrNPI s]
       @ put_fixed MaxAddressLength (ds_DestAddr s)
       @ [ds_EsmClass s]
       @ [ds_ProtocolID s]
       @ [ds_PriorityFlag s]
       @ put_fixed 17 (ds_ScheduleDeliveryTime s)
       @ put_fixed 17 (ds_ValidityPeriod s)
       @ [ds_RegisteredDelivery s]
       @ [ds_ReplaceIfPresentFlag s]
       @ [ds_DataCoding s]
       @ [ds_SMDefaultMsgID s]
       @ [ds_SMLength s]
       @ ds_ShortMessage s
       @ put_options (ds_OptionalParams s))"

definition DeliverSM_Unmarshal :: "deliver_sm \<Rightarrow> byte list \<Rightarrow> deliver_sm result" where
  "DeliverSM_Unmarshal s data =
     (let minLength = MaxServiceTypeLength + 2 + MaxAddressLength + 2 + MaxAddressLength + 9 + 17 + 17 in
      if length data < minLength then Err (Errorf ''insufficient data for deliver_sm'')
      else
        let offset = 0 in
        res_bind (slice data offset (offset + MaxServiceTypeLength)) (\<lambda>vServiceType.
        let offset = offset + MaxServiceTypeLength in
        res_bind (idx data offset) (\<lambda>vSourceAddrTON.
        let offset = offset + 1 in
        res_bind (idx data offset) (\<lambda>vSourceAddrNPI.
        let offset = offset + 1 in
        res_bind (slice data offset (offset + MaxAddressLength)) (\<lambda>vSourceAddr.
        let offset = offset + MaxAddressLength in
        res_bind (idx data offset) (\<lambda>vDestAddrTON.
        let offset = offset + 1 in
        res_bind (idx data offset) (\<lambda>vDestAddrNPI.
        let offset = offset + 1 in
        res_bind (slice data offset (offset + MaxAddressLength)) (\<lambda>vDestAddr.
        let offset = offset + MaxAddressLength in
        res_bind (idx data offset) (\<lambda>vEsmClass.
        let offset = offset + 1 in
        res_bind (idx data offset) (\<lambda>vProtocolID.
        let offset = offset + 1 in
        res_bind (idx data offset) (\<lambda>vPriorityFlag.
        let offset = offset + 1 in
        res_bind (slice data offset (offset + 17)) (\<lambda>vScheduleDeliveryTime.
        let offset = offset + 17 in
        res_bind (slice data offset (offset + 17)) (\<lambda>vValidityPeriod.
        let offset = offset + 17 in
        res_bind (idx data offset) (\<lambda>vRegisteredDelivery.
        let offset = offset + 1 in
        res_bind (idx data offset) (\<lambda>vReplaceIfPresentFlag.
        let offset = offset + 1 in
        res_bind (idx data offset) (\<lambda>vDataCoding.
        let offset = offset + 1 in
        res_bind (idx data offset) (\<lambda>vSMDefaultMsgID.
        let offset = offset + 1 in
        res_bind (idx data offset) (\<lambda>vSMLength.
        let offset = offset + 1 in
        if length data < offset + unat vSMLength then Err (Errorf ''insufficient data for short message'')
        else
        res_bind (slice data offset (offset + unat vSMLength)) (\<lambda>vShortMessage.
        let offset = offset + unat vSMLength in
        res_bind (parse_options data offset []) (\<lambda>vOptionalParams.
        Ok (s\<lparr>ds_ServiceType := get_fixed vServiceType,
              ds_SourceAddrTON := vSourceAddrTON,
              ds_SourceAddrNPI := vSourceAddrNPI,
              ds_SourceAddr := get_fixed vSourceAddr,
              ds_DestAddrTON := vDestAddrTON,
              ds_DestAddrNPI := vDestAddrNPI,
              ds_DestAddr := get_fixed vDestAddr,
              ds_EsmClass := vEsmClass,
              ds_ProtocolID := vProtocolID,
              ds_PriorityFlag := vPriorityFlag,
              ds_ScheduleDeliveryTime := get_fixed vScheduleDeliveryTime,
              ds_ValidityPeriod := get_fixed vValidityPeriod,
              ds_RegisteredDelivery := vRegisteredDelivery,
              ds_ReplaceIfPresentFlag := vReplaceIfPresentFlag,
              ds_DataCoding := vDataCoding,
              ds_SMDefaultMsgID := vSMDefaultMsgID,
              ds_SMLength := vSMLength,
              ds_ShortMessage := vShortMessage,
              ds_OptionalParams := vOptionalParams\<rparr>)))))))))))))))))))))"

definition DeliverSM_CommandID :: "deliver_sm \<Rightarrow> u32" where
  "DeliverSM_CommandID s = CommandDeliverSM"

text \<open>
  What the wire format carries: the padded fields fit, \<open>sm_length\<close> is the length of the message,
  every optional parameter's length field is right, and the body is at least the 95 bytes
  \<open>Unmarshal\<close> asks for.  The fixed part is 94 bytes, so the last condition fails only for an empty
  message without optional parameters.
\<close>

definition deliver_sm_fields :: "deliver_sm \<Rightarrow> bool" where
  "deliver_sm_fields s \<longleftrightarrow>
     fits MaxServiceTypeLength (ds_ServiceType s) \<and>
     fits MaxAddressLength (ds_SourceAddr s) \<and> fits MaxAddressLength (ds_DestAddr s) \<and>
     fits 17 (ds_ScheduleDeliveryTime s) \<and> fits 17 (ds_ValidityPeriod s) \<and>
     unat (ds_SMLength s) = length (ds_ShortMessage s) \<and>
     list_all option_wf (ds_OptionalParams s)"

definition deliver_sm_wf :: "deliver_sm \<Rightarrow> bool" where
  "deliver_sm_wf s \<longleftrightarrow>
     deliver_sm_fields s \<and> (ds_ShortMessage s \<noteq> [] \<or> ds_OptionalParams s \<noteq> [])"

definition deliver_sm_fixed :: "deliver_sm \<Rightarrow> byte list" where
  "deliver_sm_fixed s =
     put_fixed MaxServiceTypeLength (ds_ServiceType s)
       @ [ds_SourceAddrTON s]
       @ [ds_SourceAddrNPI s]
       @ put_fixed MaxAddressLength (ds_SourceAddr s)
       @ [ds_DestAddrTON s]
       @ [ds_DestAddrNPI s]
       @ put_fixed MaxAddressLength (ds_DestAddr s)
       @ [ds_EsmClass s]
       @ [ds_ProtocolID s]
       @ [ds_PriorityFlag s]
       @ put_fixed 17 (ds_ScheduleDeliveryTime s)
       @ put_fixed 17 (ds_ValidityPeriod s)
       @ [ds_RegisteredDelivery s]
       @ [ds_ReplaceIfPresentFlag s]
       @ [ds_DataCoding s]
       @ [ds_SMDefaultMsgID s]
       @ [ds_SMLength s]"

lemma length_deliver_sm_fixed [simp]: "length (deliver_sm_fixed s) = 94"
  by (simp add: deliver_sm_fixed_def)

lemma DeliverSM_Marshal_fixed:
  "DeliverSM_Marshal s =
     Ok (deliver_sm_fixed s @ ds_ShortMessage s @ put_options (ds_OptionalParams s))"
  by (simp add: DeliverSM_Marshal_def deliver_sm_fixed_def)

text \<open>The fields as the 94 bytes of the fixed part hold them.\<close>

definition deliver_sm_of_fixed :: "deliver_sm \<Rightarrow> byte list \<Rightarrow> deliver_sm" where
  "deliver_sm_of_fixed s d = s\<lparr>ds_ServiceType := get_fixed (take 6 d),
     ds_SourceAddrTON := d ! 6,
     ds_SourceAddrNPI := d ! 7,
     ds_SourceAddr := get_fixed (take 21 (drop 8 d)),
     ds_DestAddrTON := d ! 29,
     ds_DestAddrNPI := d ! 30,
     ds_DestAddr := get_fixed (take 21 (drop 31 d)),
     ds_EsmClass := d ! 52,
     ds_ProtocolID := d ! 53,
     ds_PriorityFlag := d ! 54,
     ds_ScheduleDeliveryTime := get_fixed (take 17 (drop 55 d)),
     ds_ValidityPeriod := get_fixed (take 17 (drop 72 d)),
     ds_RegisteredDelivery := d ! 89,
     ds_ReplaceIfPresentFlag := d ! 90,
     ds_DataCoding := d ! 91,
     ds_SMDefaultMsgID := d ! 92,
     ds_SMLength := d ! 93\<rparr>"

lemma deliver_sm_of_fixed_fixed:
  assumes "deliver_sm_fields s"
  shows "deliver_sm_of_fixed z (deliver_sm_fixed s)
    \<lparr>ds_ShortMessage := ds_ShortMessage s, ds_OptionalParams := ds_OptionalParams s\<rparr> = s"
  using assms
  by (cases s, cases z)
     (simp add: deliver_sm_of_fixed_def deliver_sm_fixed_def deliver_sm_fields_def wire_simps nth_append)

lemma DeliverSM_Unmarshal_short:
  "\<not> 95 \<le> length data \<Longrightarrow>
   DeliverSM_Unmarshal z data = Err (Errorf ''insufficient data for deliver_sm'')"
  by (simp add: DeliverSM_Unmarshal_def)

lemma DeliverSM_Unmarshal_eq:
  assumes "95 \<le> length data"
  shows "DeliverSM_Unmarshal z data =
     (if length data < 94 + unat (data ! 93) then Err (Errorf ''insufficient data for short message'')
      else Ok (deliver_sm_of_fixed z (take 94 data)
             \<lparr>ds_ShortMessage := take (unat (data ! 93)) (drop 94 data),
              ds_OptionalParams := options_of (drop (94 + unat (data ! 93)) data)\<rparr>))"
proof -
  have "data \<noteq> []" using assms by auto
  with assms show ?thesis
    by (simp add: DeliverSM_Unmarshal_def deliver_sm_of_fixed_def Let_def res_simps parse_options_eq
        drop_take)
qed

lemma deliver_sm_of_fixed_fields:
  assumes "length d = 94" and "unat (d ! 93) = length m" and "list_all option_wf ps"
  shows "deliver_sm_fields (deliver_sm_of_fixed z d\<lparr>ds_ShortMessage := m, ds_OptionalParams := ps\<rparr>)"
  using assms by (simp add: deliver_sm_fields_def deliver_sm_of_fixed_def get_fixed_fits)

lemma DeliverSM_Unmarshal_fields:
  assumes u: "DeliverSM_Unmarshal z bs = Ok s"
  shows "deliver_sm_fields s"
proof -
  have l: "95 \<le> length bs" using u DeliverSM_Unmarshal_short by fastforce
  show ?thesis
    using u l
    by (auto simp: DeliverSM_Unmarshal_eq options_of_wf intro!: deliver_sm_of_fixed_fields split: if_splits)
qed

interpretation deliver_sm: wire_body DeliverSM_Marshal DeliverSM_Unmarshal deliver_sm_wf
proof
  fix s :: deliver_sm and bs z
  show "deliver_sm_wf s \<Longrightarrow> \<exists>bs. DeliverSM_Marshal s = Ok bs"
    by (simp add: DeliverSM_Marshal_def)
  show "DeliverSM_Unmarshal z bs = Ok s" if wf: "deliver_sm_wf s" and "DeliverSM_Marshal s = Ok bs"
  proof -
    have bs: "bs = deliver_sm_fixed s @ ds_ShortMessage s @ put_options (ds_OptionalParams s)"
      using that by (simp add: DeliverSM_Marshal_fixed)
    have m: "bs ! 93 = ds_SMLength s"
      by (simp add: bs deliver_sm_fixed_def nth_append)
    have n: "unat (ds_SMLength s) = length (ds_ShortMessage s)"
      and o: "list_all option_wf (ds_OptionalParams s)"
      and l: "95 \<le> length bs"
      using wf length_put_options_pos [of "ds_OptionalParams s"]
      by (auto simp: deliver_sm_wf_def deliver_sm_fields_def bs Suc_le_eq)
    show ?thesis
      using deliver_sm_of_fixed_fixed [of s z] wf o
      by (simp add: DeliverSM_Unmarshal_eq [OF l] m n deliver_sm_wf_def) (simp add: bs options_of_put_options)
  qed
  show "DeliverSM_Unmarshal z bs \<noteq> Panic"
    by (cases "95 \<le> length bs") (simp_all add: DeliverSM_Unmarshal_eq DeliverSM_Unmarshal_short)
qed

section \<open>submit_sm_resp and deliver_sm_resp\<close>

record submit_sm_resp =
  sr_MessageID :: string

definition SubmitSMResp_Marshal :: "submit_sm_resp \<Rightarrow> byte list result" where
  "SubmitSMResp_Marshal s = Ok (to_bytes (sr_MessageID s) @ [0])"

definition SubmitSMResp_Unmarshal :: "submit_sm_resp \<Rightarrow> byte list \<Rightarrow> submit_sm_resp result" where
  "SubmitSMResp_Unmarshal s data =
     (if length data = 0 then Err (Errorf ''insufficient data for submit_sm_resp'')
      else case index_byte data 0 of
             None \<Rightarrow> Ok (s\<lparr>sr_MessageID := of_bytes data\<rparr>)
           | Some nullIndex \<Rightarrow>
               res_bind (slice data 0 nullIndex) (\<lambda>d. Ok (s\<lparr>sr_MessageID := of_bytes d\<rparr>)))"

definition SubmitSMResp_CommandID :: "submit_sm_resp \<Rightarrow> u32" where
  "SubmitSMResp_CommandID s = CommandSubmitSMResp"

definition submit_sm_resp_wf :: "submit_sm_resp \<Rightarrow> bool" where
  "submit_sm_resp_wf s \<longleftrightarrow> no_nul (sr_MessageID s)"

interpretation submit_sm_resp: wire_body_closed SubmitSMResp_Marshal SubmitSMResp_Unmarshal submit_sm_resp_wf
proof
  fix b :: submit_sm_resp and bs z
  show "submit_sm_resp_wf b \<Longrightarrow> \<exists>bs. SubmitSMResp_Marshal b = Ok bs"
    by (simp add: SubmitSMResp_Marshal_def)
  show "SubmitSMResp_Unmarshal z bs = Ok b"
    if "submit_sm_resp_wf b" "SubmitSMResp_Marshal b = Ok bs"
    using that
    by (auto simp: SubmitSMResp_Unmarshal_def SubmitSMResp_Marshal_def submit_sm_resp_wf_def
        index_byte_terminated res_simps)
  show "SubmitSMResp_Unmarshal z bs \<noteq> Panic"
    by (auto simp: SubmitSMResp_Unmarshal_def res_simps split: option.split dest!: index_byte_SomeD)
  show "SubmitSMResp_Unmarshal z bs = Ok b \<Longrightarrow> submit_sm_resp_wf b"
    by (auto simp: SubmitSMResp_Unmarshal_def submit_sm_resp_wf_def index_byte_None_iff res_bind_Ok_iff
        slice_def split: option.splits if_splits dest: index_byte_SomeD)
qed

record deliver_sm_resp =
  dr_MessageID :: string

definition DeliverSMResp_Marshal :: "deliver_sm_resp \<Rightarrow> byte list result" where
  "DeliverSMResp_Marshal s = Ok (to_bytes (dr_MessageID s) @ [0])"

definition DeliverSMResp_Unmarshal :: "deliver_sm_resp \<Rightarrow> byte list \<Rightarrow> deliver_sm_resp result" where
  "DeliverSMResp_Unmarshal s data =
     (if length data = 0 then Err (Errorf ''insufficient data for deliver_sm_resp'')
      else case index_byte data 0 of
             None \<Rightarrow> Ok (s\<lparr>dr_MessageID := of_bytes data\<rparr>)
           | Some nullIndex \<Rightarrow>
               res_bind (slice data 0 nullIndex) (\<lambda>d. Ok (s\<lparr>dr_MessageID := of_bytes d\<rparr>)))"

definition DeliverSMResp_CommandID :: "deliver_sm_resp \<Rightarrow> u32" where
  "DeliverSMResp_CommandID s = CommandDeliverSMResp"

definition deliver_sm_resp_wf :: "deliver_sm_resp \<Rightarrow> bool" where
  "deliver_sm_resp_wf s \<longleftrightarrow> no_nul (dr_MessageID s)"

interpretation deliver_sm_resp: wire_body_closed DeliverSMResp_Marshal DeliverSMResp_Unmarshal deliver_sm_resp_wf
proof
  fix b :: deliver_sm_resp and bs z
  show "deliver_sm_resp_wf b \<Longrightarrow> \<exists>bs. DeliverSMResp_Marshal b = Ok bs"
    by (simp add: DeliverSMResp_Marshal_def)
  show "DeliverSMResp_Unmarshal z bs = Ok b"
    if "deliver_sm_resp_wf b" "DeliverSMResp_Marshal b = Ok bs"
    using that
    by (auto simp: DeliverSMResp_Unmarshal_def DeliverSMResp_Marshal_def deliver_sm_resp_wf_def
        index_byte_terminated res_simps)
  show "DeliverSMResp_Unmarshal z bs \<noteq> Panic"
    by (auto simp: DeliverSMResp_Unmarshal_def res_simps split: option.split dest!: index_byte_SomeD)
  show "DeliverSMResp_Unmarshal z bs = Ok b \<Longrightarrow> deliver_sm_resp_wf b"
    by (auto simp: DeliverSMResp_Unmarshal_def deliver_sm_resp_wf_def index_byte_None_iff res_bind_Ok_iff
        slice_def split: option.splits if_splits dest: index_byte_SomeD)
qed

end
