(* ===== verification/PduControl.thy ===== *)
theory PduControl
  imports PduMessage
begin

text \<open>
  The other PDU bodies of \<open>pkg/smpp/pdu.go\<close>: query, replace, cancel, \<open>submit_multi\<close>, \<open>data_sm\<close> with
  their responses, and the bodies without content.  Their \<open>Unmarshal\<close> methods slice \<open>data[offset:]\<close>
  after C strings that may have been absent, which is a run-time panic when the offset has passed
  the end; the lemmas say exactly when.
\<close>

section \<open>query_sm\<close>

record query_sm =
  qs_MessageID :: cstring
  qs_SourceAddr :: address

definition QuerySM_Marshal :: "query_sm \<Rightarrow> byte list result" where
  "QuerySM_Marshal q =
     res_bind (res_wrap ''failed to marshal message_id'' (cstring_Marshal (qs_MessageID q)))
       (\<lambda>messageIDData.
     res_bind (res_wrap ''failed to marshal source address'' (address_Marshal (qs_SourceAddr q)))
       (\<lambda>srcAddrData.
     Ok (messageIDData @ srcAddrData)))"

text \<open>
  \<open>q.MessageID\<close> is allocated with length 0 and capacity 64, so \<open>copy\<close> copies nothing into it.
\<close>

definition QuerySM_Unmarshal :: "query_sm \<Rightarrow> byte list \<Rightarrow> query_sm result" where
  "QuerySM_Unmarshal q data =
     (let offset = 0 in
      if length data < offset + MaxMessageIDLength
      then Err (Errorf ''insufficient data for message_id'')
      else
        res_bind (slice data offset (offset + MaxMessageIDLength)) (\<lambda>d.
        let copied = go_copy [] d;
            trimmed = (case index_byte copied 0 of None \<Rightarrow> copied | Some nullIdx \<Rightarrow> take nullIdx copied);
            offset = offset + MaxMessageIDLength in
        if length data < offset + 23 then Err (Errorf ''insufficient data for source address'')
        else
          res_bind (idx data offset) (\<lambda>ton.
          res_bind (idx data (offset + 1)) (\<lambda>npi.
          let offset = offset + 2 in
          res_bind (slice data offset (offset + MaxAddressLength + 1)) (\<lambda>addrField.
          let addrLen = (case index_byte addrField 0 of None \<Rightarrow> MaxAddressLength | Some k \<Rightarrow> k) in
          res_bind (slice data offset (offset + addrLen)) (\<lambda>addr.
          Ok (q\<lparr>qs_MessageID := \<lparr>cs_Data = trimmed, cs_MaxLen = 0\<rparr>,
                qs_SourceAddr := (qs_SourceAddr q)\<lparr>a_TON := ton, a_NPI := npi,
                                    a_Addr := of_bytes addr\<rparr>\<rparr>)))))))"

definition QuerySM_CommandID :: "query_sm \<Rightarrow> u32" where
  "QuerySM_CommandID q = CommandQuerySM"

lemma QuerySM_Unmarshal_Panic_iff: "QuerySM_Unmarshal q data = Panic \<longleftrightarrow> length data = 87"
proof -
  consider "length data < 64" | "64 \<le> length data" "length data < 87"
    | "length data = 87" | "88 \<le> length data" by linarith
  then show ?thesis
  proof cases
    case 4
    obtain ad where s: "slice data 66 88 = Ok ad" and ad: "length ad = 22"
      using 4 by (simp add: slice_def)
    have "(case index_byte ad 0 of None \<Rightarrow> MaxAddressLength | Some k \<Rightarrow> k) \<le> 22"
      using ad by (auto split: option.split dest: index_byte_SomeD)
    then show ?thesis
      using 4 s by (simp add: QuerySM_Unmarshal_def Let_def idx_def) (auto simp: slice_def)
  qed (auto simp: QuerySM_Unmarshal_def Let_def idx_def slice_def)
qed

lemma QuerySM_Unmarshal_MessageID:
  "QuerySM_Unmarshal q data = Ok q' \<Longrightarrow> cs_Data (qs_MessageID q') = []"
  by (auto simp: QuerySM_Unmarshal_def Let_def res_bind_Ok_iff go_copy_def split: if_splits)

lemma QuerySM_Unmarshal_ok:
  assumes "88 \<le> length data"
  shows "\<exists>q'. QuerySM_Unmarshal q data = Ok q'"
  using assms QuerySM_Unmarshal_Panic_iff [of q data]
  by (cases "QuerySM_Unmarshal q data")
     (auto simp: QuerySM_Unmarshal_def Let_def idx_def slice_def split: if_splits option.splits)

section \<open>query_sm_resp\<close>

record query_sm_resp =
  qr_MessageID :: cstring
  qr_FinalDate :: cstring
  qr_MessageState :: u8
  qr_ErrorCode :: u8

definition QuerySMResp_Marshal :: "query_sm_resp \<Rightarrow> byte list result" where
  "QuerySMResp_Marshal q =
     res_bind (cstring_Marshal (qr_MessageID q)) (\<lambda>msgIDBytes.
     res_bind (cstring_Marshal (qr_FinalDate q)) (\<lambda>finalDateBytes.
     Ok (msgIDBytes @ finalDateBytes @ [qr_MessageState q] @ [qr_ErrorCode q])))"

text \<open>\<open>f.Unmarshal(data[offset:])\<close>, where the slice may be out of range.\<close>

definition cstring_at :: "cstring \<Rightarrow> byte list \<Rightarrow> nat \<Rightarrow> cstring result" where
  "cstring_at cs data offset = res_bind (slice_from data offset) (cstring_Unmarshal cs)"

text \<open>\<open>if offset >= len(data) { return fmt.Errorf(msg) }; x = data[offset]\<close>\<close>

definition byte_at :: "string \<Rightarrow> byte list \<Rightarrow> nat \<Rightarrow> byte result" where
  "byte_at msg data offset =
     (if length data \<le> offset then Err (Errorf msg) else idx data offset)"

definition QuerySMResp_Unmarshal :: "query_sm_resp \<Rightarrow> byte list \<Rightarrow> query_sm_resp result" where
  "QuerySMResp_Unmarshal q data =
     (let offset = 0 in
      res_bind (cstring_at (qr_MessageID q) data offset) (\<lambda>msgID.
      let offset = offset + cstring_Len msgID in
      res_bind (cstring_at (qr_FinalDate q) data offset) (\<lambda>finalDate.
      let offset = offset + cstring_Len finalDate in
      res_bind (byte_at ''insufficient data for message state'' data offset) (\<lambda>state.
      let offset = offset + 1 in
      res_bind (byte_at ''insufficient data for error code'' data offset) (\<lambda>code.
      Ok (q\<lparr>qr_MessageID := msgID, qr_FinalDate := finalDate,
            qr_MessageState := state, qr_ErrorCode := code\<rparr>))))))"

definition QuerySMResp_CommandID :: "query_sm_resp \<Rightarrow> u32" where
  "QuerySMResp_CommandID q = CommandQuerySMResp"

lemma byte_at_not_Panic [simp]: "byte_at msg data offset \<noteq> Panic"
  by (simp add: byte_at_def idx_def)

lemma cstring_at_Panic_iff [simp]: "cstring_at cs data offset = Panic \<longleftrightarrow> length data < offset"
  by (auto simp: cstring_at_def slice_from_def)

text \<open>
  A C string that was read ends inside the data, unless there was nothing left to read; then the
  offset moves one past the end.
\<close>

lemma cstring_Unmarshal_Len:
  "cstring_Unmarshal cs data = Ok cs' \<Longrightarrow> data \<noteq> [] \<Longrightarrow> cstring_Len cs' \<le> length data"
  by (auto simp: cstring_Unmarshal_def cstring_Len_def split: if_splits option.splits
      dest!: index_byte_SomeD)

lemma cstring_Unmarshal_empty [simp]: "cstring_Unmarshal cs [] = Ok (cs\<lparr>cs_Data := []\<rparr>)"
  by (simp add: cstring_Unmarshal_def)

lemma cstring_at_Len:
  assumes "cstring_at cs data offset = Ok cs'"
  shows "offset < length data \<Longrightarrow> offset + cstring_Len cs' \<le> length data"
    and "offset = length data \<Longrightarrow> cstring_Len cs' = 1"
  using assms cstring_Unmarshal_Len [of cs "drop offset data" cs']
  by (auto simp: cstring_at_def slice_from_def cstring_Len_def split: if_splits)

lemma QuerySMResp_Unmarshal_Panic_iff: "QuerySMResp_Unmarshal q data = Panic \<longleftrightarrow> data = []"
  by (cases "data = []")
     (auto simp: QuerySMResp_Unmarshal_def Let_def res_bind_Panic_iff cstring_at_def slice_from_def
       cstring_Len_def dest!: cstring_Unmarshal_Len)

lemma cstring_at_step:
  assumes "cstring_wf cs" and "cs_MaxLen cs0 = cs_MaxLen cs" and "offset \<le> length data"
    and "drop offset data = cs_Data cs @ 0 # rest"
  shows "cstring_at cs0 data offset = Ok cs"
  using assms by (simp add: cstring_at_def slice_from_def cstring_Unmarshal_append)

lemma byte_at_Ok: "offset < length data \<Longrightarrow> byte_at msg data offset = Ok (data ! offset)"
  by (simp add: byte_at_def idx_def)

text \<open>The fields written by \<open>Marshal\<close> are read back by a receiver with the same length limits.\<close>

lemma QuerySMResp_round_trip:
  assumes "cstring_wf (qr_MessageID q)" "cstring_wf (qr_FinalDate q)"
    and "cs_MaxLen (qr_MessageID z) = cs_MaxLen (qr_MessageID q)"
    and "cs_MaxLen (qr_FinalDate z) = cs_MaxLen (qr_FinalDate q)"
    and "QuerySMResp_Marshal q = Ok bs"
  shows "QuerySMResp_Unmarshal z bs = Ok q"
proof -
  have bs: "bs = cs_Data (qr_MessageID q) @ 0 # cs_Data (qr_FinalDate q) @ [0, qr_MessageState q, qr_ErrorCode q]"
    using assms(5) by (simp add: QuerySMResp_Marshal_def)
  let ?o = "cstring_Len (qr_MessageID q)"
  have 1: "cstring_at (qr_MessageID z) bs 0 = Ok (qr_MessageID q)"
    by (rule cstring_at_step) (use assms in \<open>simp_all add: bs\<close>)
  have 2: "cstring_at (qr_FinalDate z) bs ?o = Ok (qr_FinalDate q)"
    by (rule cstring_at_step) (use assms in \<open>simp_all add: bs cstring_Len_def\<close>)
  show ?thesis
    by (cases q, cases z)
       (use 1 2 in \<open>simp add: QuerySMResp_Unmarshal_def Let_def cstring_Len_def byte_at_Ok bs nth_append\<close>)
qed

section \<open>replace_sm\<close>

record replace_sm =
  rs_MessageID :: cstring
  rs_SourceAddr :: address
  rs_ScheduleDeliveryTime :: cstring
  rs_ValidityPeriod :: cstring
  rs_RegisteredDelivery :: u8
  rs_SMDefaultMsgID :: u8
  rs_SMLength :: u8
  rs_ShortMessage :: "byte list"

definition ReplaceSM_Marshal :: "replace_sm \<Rightarrow> byte list result" where
  "ReplaceSM_Marshal r =
     res_bind (cstring_Marshal (rs_MessageID r)) (\<lambda>msgIDBytes.
     res_bind (address_Marshal (rs_SourceAddr r)) (\<lambda>addrBytes.
     res_bind (cstring_Marshal (rs_ScheduleDeliveryTime r)) (\<lambda>scheduleBytes.
     res_bind (cstring_Marshal (rs_ValidityPeriod r)) (\<lambda>validityBytes.
     Ok (msgIDBytes @ addrBytes @ scheduleBytes @ validityBytes @
         [rs_RegisteredDelivery r] @ [rs_SMDefaultMsgID r] @ [rs_SMLength r] @ rs_ShortMessage r)))))"

definition ReplaceSM_Unmarshal :: "replace_sm \<Rightarrow> byte list \<Rightarrow> replace_sm result" where
  "ReplaceSM_Unmarshal r data =
     (let offset = 0 in
      res_bind (cstring_at (rs_MessageID r) data offset) (\<lambda>msgID.
      let offset = offset + cstring_Len msgID in
      res_bind (res_bind (slice_from data offset) (address_Unmarshal (rs_SourceAddr r))) (\<lambda>addr.
      let offset = offset + address_Len addr in
      res_bind (cstring_at (rs_ScheduleDeliveryTime r) data offset) (\<lambda>schedule.
      let offset = offset + cstring_Len schedule in
      res_bind (cstring_at (rs_ValidityPeriod r) data offset) (\<lambda>validity.
      let offset = offset + cstring_Len validity in
      res_bind (byte_at ''insufficient data for registered delivery'' data offset) (\<lambda>registered.
      let offset = offset + 1 in
      res_bind (byte_at ''insufficient data for sm default msg id'' data offset) (\<lambda>defaultID.
      let offset = offset + 1 in
      res_bind (byte_at ''insufficient data for sm length'' data offset) (\<lambda>smLength.
      let offset = offset + 1 in
      if length data < offset + unat smLength
      then Err (Errorf ''insufficient data for short message'')
      else
        res_bind (slice data offset (offset + unat smLength)) (\<lambda>d.
        Ok (r\<lparr>rs_MessageID := msgID, rs_SourceAddr := addr, rs_ScheduleDeliveryTime := schedule,
              rs_ValidityPeriod := validity, rs_RegisteredDelivery := registered,
              rs_SMDefaultMsgID := defaultID, rs_SMLength := smLength,
              rs_ShortMessage := go_copy (replicate (unat smLength) 0) d\<rparr>))))))))))"

definition ReplaceSM_CommandID :: "replace_sm \<Rightarrow> u32" where
  "ReplaceSM_CommandID r = CommandReplaceSM"

text \<open>What a \<open>replace_sm\<close> body can carry.\<close>

definition replace_sm_wf :: "replace_sm \<Rightarrow> bool" where
  "replace_sm_wf r \<longleftrightarrow>
     cstring_wf (rs_MessageID r) \<and> no_nul (a_Addr (rs_SourceAddr r)) \<and>
     cstring_wf (rs_ScheduleDeliveryTime r) \<and> cstring_wf (rs_ValidityPeriod r) \<and>
     unat (rs_SMLength r) = length (rs_ShortMessage r)"

text \<open>Two receivers whose C strings have the same length limits.\<close>

definition replace_sm_like :: "replace_sm \<Rightarrow> replace_sm \<Rightarrow> bool" where
  "replace_sm_like z r \<longleftrightarrow>
     cs_MaxLen (rs_MessageID z) = cs_MaxLen (rs_MessageID r) \<and>
     cs_MaxLen (rs_ScheduleDeliveryTime z) = cs_MaxLen (rs_ScheduleDeliveryTime r) \<and>
     cs_MaxLen (rs_ValidityPeriod z) = cs_MaxLen (rs_ValidityPeriod r)"

lemma ReplaceSM_round_trip:
  assumes wf: "replace_sm_wf r" and like: "replace_sm_like z r" and "ReplaceSM_Marshal r = Ok bs"
  shows "ReplaceSM_Unmarshal z bs = Ok r"
proof -
  define m s v where "m = rs_MessageID r" and "s = rs_ScheduleDeliveryTime r"
    and "v = rs_ValidityPeriod r"
  define a where "a = rs_SourceAddr r"
  define tl4 where
    "tl4 = rs_RegisteredDelivery r # rs_SMDefaultMsgID r # rs_SMLength r # rs_ShortMessage r"
  have bs: "bs = cs_Data m @ 0 # a_TON a # a_NPI a # to_bytes (a_Addr a) @ 0 # cs_Data s @ 0 #
      cs_Data v @ 0 # tl4"
    using assms(3) by (simp add: ReplaceSM_Marshal_def m_def s_def v_def a_def tl4_def)
  let ?a = "cstring_Len m" let ?s = "?a + address_Len a"
  let ?v = "?s + cstring_Len s" let ?t = "?v + cstring_Len v"
  have 1: "cstring_at (rs_MessageID z) bs 0 = Ok m"
    by (rule cstring_at_step)
       (use wf like in \<open>simp_all add: bs replace_sm_wf_def replace_sm_like_def m_def\<close>)
  have da: "drop ?a bs = a_TON a # a_NPI a # to_bytes (a_Addr a) @ 0 # cs_Data s @ 0 # cs_Data v @ 0 # tl4"
    by (simp add: bs cstring_Len_def)
  have 2: "res_bind (slice_from bs ?a) (address_Unmarshal (rs_SourceAddr z)) = Ok a"
    using da wf by (simp add: slice_from_def address_Unmarshal_append no_nul_def replace_sm_wf_def a_def
        flip: a_def) (simp add: bs cstring_Len_def)
  have ds: "drop ?s bs = cs_Data s @ 0 # cs_Data v @ 0 # tl4"
    using drop_append_step [of ?a bs "a_TON a # a_NPI a # to_bytes (a_Addr a) @ [0]"] da
    by (simp add: address_Len_def)
  have 3: "cstring_at (rs_ScheduleDeliveryTime z) bs ?s = Ok s"
    by (rule cstring_at_step [OF _ _ _ ds])
       (use wf like in \<open>simp_all add: bs cstring_Len_def address_Len_def replace_sm_wf_def replace_sm_like_def s_def\<close>)
  have dv: "drop ?v bs = cs_Data v @ 0 # tl4"
    using drop_append_step [of ?s bs "cs_Data s @ [0]"] ds by (simp add: cstring_Len_def)
  have 4: "cstring_at (rs_ValidityPeriod z) bs ?v = Ok v"
    by (rule cstring_at_step [OF _ _ _ dv])
       (use wf like in \<open>simp_all add: bs cstring_Len_def address_Len_def replace_sm_wf_def replace_sm_like_def v_def\<close>)
  have dt: "drop ?t bs = tl4"
    using drop_append_step [of ?v bs "cs_Data v @ [0]"] dv by (simp add: cstring_Len_def)
  have lt: "length bs = ?t + length tl4"
    by (simp add: bs cstring_Len_def address_Len_def)
  have n: "bs ! (?t + i) = tl4 ! i" if "i < length tl4" for i
    using nth_drop [of ?t bs i] lt dt by simp
  have l: "unat (rs_SMLength r) = length (rs_ShortMessage r)"
    using wf by (simp add: replace_sm_wf_def)
  have b: "byte_at msg bs ?t = Ok (rs_RegisteredDelivery r)"
    "byte_at msg bs (?t + 1) = Ok (rs_SMDefaultMsgID r)"
    "byte_at msg bs (?t + 1 + 1) = Ok (rs_SMLength r)" for msg
    using n [of 0] n [of 1] n [of 2] by (simp_all add: byte_at_Ok lt tl4_def)
  have sl: "slice bs (?t + 1 + 1 + 1) (?t + 1 + 1 + 1 + length (rs_ShortMessage r)) = Ok (rs_ShortMessage r)"
    using drop_append_step [of ?t bs "take 3 tl4" "rs_ShortMessage r"] dt
    by (simp add: slice_def lt tl4_def)
  have nl: "\<not> length bs < ?t + 1 + 1 + 1 + length (rs_ShortMessage r)"
    by (simp add: lt tl4_def)
  have "ReplaceSM_Unmarshal z bs = Ok (z\<lparr>rs_MessageID := m, rs_SourceAddr := a,
      rs_ScheduleDeliveryTime := s, rs_ValidityPeriod := v,
      rs_RegisteredDelivery := rs_RegisteredDelivery r, rs_SMDefaultMsgID := rs_SMDefaultMsgID r,
      rs_SMLength := rs_SMLength r,
      rs_ShortMessage := go_copy (replicate (length (rs_ShortMessage r)) 0) (rs_ShortMessage r)\<rparr>)"
    by (simp only: ReplaceSM_Unmarshal_def Let_def add_0 1 2 3 4 b l sl nl res_bind.simps if_False)
  then show ?thesis
    by (cases z, cases r) (simp add: go_copy_all m_def s_def v_def a_def)
qed

section \<open>cancel_sm\<close>

record cancel_sm =
  cn_ServiceType :: cstring
  cn_MessageID :: cstring
  cn_SourceAddrTON :: u8
  cn_SourceAddrNPI :: u8
  cn_SourceAddr :: cstring
  cn_DestAddrTON :: u8
  cn_DestAddrNPI :: u8
  cn_DestinationAddr :: cstring

definition CancelSM_Marshal :: "cancel_sm \<Rightarrow> byte list result" where
  "CancelSM_Marshal c =
     res_bind (cstring_Marshal (cn_ServiceType c)) (\<lambda>serviceBytes.
     res_bind (cstring_Marshal (cn_MessageID c)) (\<lambda>msgIDBytes.
     res_bind (cstring_Marshal (cn_SourceAddr c)) (\<lambda>srcAddrBytes.
     res_bind (cstring_Marshal (cn_DestinationAddr c)) (\<lambda>destAddrBytes.
     Ok (serviceBytes @ msgIDBytes @ [cn_SourceAddrTON c] @ [cn_SourceAddrNPI c] @ srcAddrBytes @
         [cn_DestAddrTON c] @ [cn_DestAddrNPI c] @ destAddrBytes)))))"

definition CancelSM_Unmarshal :: "cancel_sm \<Rightarrow> byte list \<Rightarrow> cancel_sm result" where
  "CancelSM_Unmarshal c data =
     (let offset = 0 in
      res_bind (cstring_at (cn_ServiceType c) data offset) (\<lambda>serviceType.
      let offset = offset + cstring_Len serviceType in
      res_bind (cstring_at (cn_MessageID c) data offset) (\<lambda>msgID.
      let offset = offset + cstring_Len msgID in
      res_bind (byte_at ''insufficient data for source addr ton'' data offset) (\<lambda>srcTON.
      let offset = offset + 1 in
      res_bind (byte_at ''insufficient data for source addr npi'' data offset) (\<lambda>srcNPI.
      let offset = offset + 1 in
      res_bind (cstring_at (cn_SourceAddr c) data offset) (\<lambda>srcAddr.
      let offset = offset + cstring_Len srcAddr in
      res_bind (byte_at ''insufficient data for dest addr ton'' data offset) (\<lambda>destTON.
      let offset = offset + 1 in
      res_bind (byte_at ''insufficient data for dest addr npi'' data offset) (\<lambda>destNPI.
      let offset = offset + 1 in
      res_bind (cstring_at (cn_DestinationAddr c) data offset) (\<lambda>destAddr.
      Ok (c\<lparr>cn_ServiceType := serviceType, cn_MessageID := msgID, cn_SourceAddrTON := srcTON,
            cn_SourceAddrNPI := srcNPI, cn_SourceAddr := srcAddr, cn_DestAddrTON := destTON,
            cn_DestAddrNPI := destNPI, cn_DestinationAddr := destAddr\<rparr>))))))))))"

definition CancelSM_CommandID :: "cancel_sm \<Rightarrow> u32" where
  "CancelSM_CommandID c = CommandCancelSM"

lemma byte_at_Ok_iff: "byte_at msg data offset = Ok b \<longleftrightarrow> offset < length data \<and> b = data ! offset"
  by (auto simp: byte_at_def idx_def)

lemma CancelSM_Unmarshal_Panic_iff: "CancelSM_Unmarshal c data = Panic \<longleftrightarrow> data = []"
proof (cases "data = []")
  case True
  then show ?thesis
    by (simp add: CancelSM_Unmarshal_def Let_def cstring_at_def slice_from_def cstring_Len_def)
next
  case False
  then show ?thesis
    using cstring_at_Len(1)
    by (fastforce simp: CancelSM_Unmarshal_def Let_def res_bind_Panic_iff byte_at_Ok_iff)
qed

section \<open>submit_multi and data_sm\<close>

record destination_address =
  da_DestFlag :: u8
  da_DestAddrTON :: u8
  da_DestAddrNPI :: u8
  da_DestinationAddr :: cstring
  da_DLName :: cstring

record submit_multi =
  sm_ServiceType :: cstring
  sm_SourceAddr :: address
  sm_NumberOfDests :: u8
  sm_DestAddresses :: "destination_address list"
  sm_ESMClass :: u8
  sm_ProtocolID :: u8
  sm_PriorityFlag :: u8
  sm_ScheduleDeliveryTime :: cstring
  sm_ValidityPeriod :: cstring
  sm_RegisteredDelivery :: u8
  sm_ReplaceIfPresentFlag :: u8
  sm_DataCoding :: u8
  sm_SMDefaultMsgID :: u8
  sm_SMLength :: u8
  sm_ShortMessage :: "byte list"
  sm_OptionalParameters :: "optional_parameter list"

definition SubmitMulti_Marshal :: "submit_multi \<Rightarrow> byte list result" where
  "SubmitMulti_Marshal s = Err (Errorf ''marshal not implemented for SubmitMulti'')"

definition SubmitMulti_Unmarshal :: "submit_multi \<Rightarrow> byte list \<Rightarrow> submit_multi result" where
  "SubmitMulti_Unmarshal s data = Err (Errorf ''unmarshal not implemented for SubmitMulti'')"

definition SubmitMulti_CommandID :: "submit_multi \<Rightarrow> u32" where
  "SubmitMulti_CommandID s = CommandSubmitMulti"

record unsuccessful_sme =
  us_DestAddrTON :: u8
  us_DestAddrNPI :: u8
  us_DestinationAddr :: cstring
  us_ErrorStatusCode :: u32

record submit_multi_resp =
  mr_MessageID :: cstring
  mr_NoUnsuccess :: u8
  mr_UnsuccessSME :: "unsuccessful_sme list"

definition SubmitMultiResp_Marshal :: "submit_multi_resp \<Rightarrow> byte list result" where
  "SubmitMultiResp_Marshal s =
     res_bind (cstring_Marshal (mr_MessageID s)) (\<lambda>messageIDBytes.
     Ok (messageIDBytes @ [mr_NoUnsuccess s]))"

definition SubmitMultiResp_Unmarshal :: "submit_multi_resp \<Rightarrow> byte list \<Rightarrow> submit_multi_resp result" where
  "SubmitMultiResp_Unmarshal s data =
     Err (Errorf ''unmarshal not implemented for SubmitMultiResp'')"

definition SubmitMultiResp_CommandID :: "submit_multi_resp \<Rightarrow> u32" where
  "SubmitMultiResp_CommandID s = CommandSubmitMultiResp"

record data_sm =
  dt_ServiceType :: cstring
  dt_SourceAddr :: address
  dt_DestAddr :: address
  dt_ESMClass :: u8
  dt_RegisteredDelivery :: u8
  dt_DataCoding :: u8
  dt_OptionalParameters :: "optional_parameter list"

definition DataSM_Marshal :: "data_sm \<Rightarrow> byte list result" where
  "DataSM_Marshal d = Err (Errorf ''marshal not implemented for DataSM'')"

definition DataSM_Unmarshal :: "data_sm \<Rightarrow> byte list \<Rightarrow> data_sm result" where
  "DataSM_Unmarshal d data = Err (Errorf ''unmarshal not implemented for DataSM'')"

definition DataSM_CommandID :: "data_sm \<Rightarrow> u32" where
  "DataSM_CommandID d = CommandDataSM"

record data_sm_resp =
  dtr_MessageID :: cstring
  dtr_OptionalParameters :: "optional_parameter list"

definition DataSMResp_Marshal :: "data_sm_resp \<Rightarrow> byte list result" where
  "DataSMResp_Marshal d =
     res_bind (cstring_Marshal (dtr_MessageID d)) (\<lambda>messageIDBytes.
     Ok (messageIDBytes @ put_options (dtr_OptionalParameters d)))"

definition DataSMResp_Unmarshal :: "data_sm_resp \<Rightarrow> byte list \<Rightarrow> data_sm_resp result" where
  "DataSMResp_Unmarshal d data = Err (Errorf ''unmarshal not implemented for DataSMResp'')"

definition DataSMResp_CommandID :: "data_sm_resp \<Rightarrow> u32" where
  "DataSMResp_CommandID d = CommandDataSMResp"

section \<open>Bodies without content\<close>

datatype empty_pdu =
    EnquireLink | EnquireLinkResp | Unbind | UnbindResp | ReplaceSMResp | CancelSMResp | GenericNack

definition empty_Marshal :: "empty_pdu \<Rightarrow> byte list result" where
  "empty_Marshal e = Ok []"

definition empty_Unmarshal :: "empty_pdu \<Rightarrow> byte list \<Rightarrow> empty_pdu result" where
  "empty_Unmarshal e data = Ok e"

fun empty_CommandID :: "empty_pdu \<Rightarrow> u32" where
  "empty_CommandID EnquireLink = CommandEnquireLink"
| "empty_CommandID EnquireLinkResp = CommandEnquireLinkResp"
| "empty_CommandID Unbind = CommandUnbind"
| "empty_CommandID UnbindResp = CommandUnbindResp"
| "empty_CommandID ReplaceSMResp = CommandReplaceSMResp"
| "empty_CommandID CancelSMResp = CommandCancelSMResp"
| "empty_CommandID GenericNack = 0x80000000"

end
