(* ===== verification/PduBody.thy ===== *)
theory PduBody
  imports PduControl
begin

text \<open>
  A value of the interface type \<open>PDUBody\<close> with its three methods, dispatched on the dynamic type,
  and the zero value of each body type that the decoder allocates.
\<close>

datatype pdu_body =
    BindRequest bind_request
  | BindResponse bind_response
  | SubmitSM submit_sm
  | SubmitSMResp submit_sm_resp
  | DeliverSM deliver_sm
  | DeliverSMResp deliver_sm_resp
  | QuerySM query_sm
  | QuerySMResp query_sm_resp
  | ReplaceSM replace_sm
  | CancelSM cancel_sm
  | SubmitMulti submit_multi
  | SubmitMultiResp submit_multi_resp
  | DataSM data_sm
  | DataSMResp data_sm_resp
  | EmptyBody empty_pdu

fun body_Marshal :: "pdu_body \<Rightarrow> byte list result" where
  "body_Marshal (BindRequest b) = BindRequest_Marshal b"
| "body_Marshal (BindResponse b) = BindResponse_Marshal b"
| "body_Marshal (SubmitSM b) = SubmitSM_Marshal b"
| "body_Marshal (SubmitSMResp b) = SubmitSMResp_Marshal b"
| "body_Marshal (DeliverSM b) = DeliverSM_Marshal b"
| "body_Marshal (DeliverSMResp b) = DeliverSMResp_Marshal b"
| "body_Marshal (QuerySM b) = QuerySM_Marshal b"
| "body_Marshal (QuerySMResp b) = QuerySMResp_Marshal b"
| "body_Marshal (ReplaceSM b) = ReplaceSM_Marshal b"
| "body_Marshal (CancelSM b) = CancelSM_Marshal b"
| "body_Marshal (SubmitMulti b) = SubmitMulti_Marshal b"
| "body_Marshal (SubmitMultiResp b) = SubmitMultiResp_Marshal b"
| "body_Marshal (DataSM b) = DataSM_Marshal b"
| "body_Marshal (DataSMResp b) = DataSMResp_Marshal b"
| "body_Marshal (EmptyBody e) = empty_Marshal e"

fun body_Unmarshal :: "pdu_body \<Rightarrow> byte list \<Rightarrow> pdu_body result" where
  "body_Unmarshal (BindRequest b) data = res_map BindRequest (BindRequest_Unmarshal b data)"
| "body_Unmarshal (BindResponse b) data = res_map BindResponse (BindResponse_Unmarshal b data)"
| "body_Unmarshal (SubmitSM b) data = res_map SubmitSM (SubmitSM_Unmarshal b data)"
| "body_Unmarshal (SubmitSMResp b) data = res_map SubmitSMResp (SubmitSMResp_Unmarshal b data)"
| "body_Unmarshal (DeliverSM b) data = res_map DeliverSM (DeliverSM_Unmarshal b data)"
| "body_Unmarshal (DeliverSMResp b) data = res_map DeliverSMResp (DeliverSMResp_Unmarshal b data)"
| "body_Unmarshal (QuerySM b) data = res_map QuerySM (QuerySM_Unmarshal b data)"
| "body_Unmarshal (QuerySMResp b) data = res_map QuerySMResp (QuerySMResp_Unmarshal b data)"
| "body_Unmarshal (ReplaceSM b) data = res_map ReplaceSM (ReplaceSM_Unmarshal b data)"
| "body_Unmarshal (CancelSM b) data = res_map CancelSM (CancelSM_Unmarshal b data)"
| "body_Unmarshal (SubmitMulti b) data = res_map SubmitMulti (SubmitMulti_Unmarshal b data)"
| "body_Unmarshal (SubmitMultiResp b) data = res_map SubmitMultiResp (SubmitMultiResp_Unmarshal b data)"
| "body_Unmarshal (DataSM b) data = res_map DataSM (DataSM_Unmarshal b data)"
| "body_Unmarshal (DataSMResp b) data = res_map DataSMResp (DataSMResp_Unmarshal b data)"
| "body_Unmarshal (EmptyBody e) data = res_map EmptyBody (empty_Unmarshal e data)"

fun body_CommandID :: "pdu_body \<Rightarrow> u32" where
  "body_CommandID (BindRequest b) = BindRequest_CommandID b"
| "body_CommandID (BindResponse b) = BindResponse_CommandID b"
| "body_CommandID (SubmitSM b) = SubmitSM_CommandID b"
| "body_CommandID (SubmitSMResp b) = SubmitSMResp_CommandID b"
| "body_CommandID (DeliverSM b) = DeliverSM_CommandID b"
| "body_CommandID (DeliverSMResp b) = DeliverSMResp_CommandID b"
| "body_CommandID (QuerySM b) = QuerySM_CommandID b"
| "body_CommandID (QuerySMResp b) = QuerySMResp_CommandID b"
| "body_CommandID (ReplaceSM b) = ReplaceSM_CommandID b"
| "body_CommandID (CancelSM b) = CancelSM_CommandID b"
| "body_CommandID (SubmitMulti b) = SubmitMulti_CommandID b"
| "body_CommandID (SubmitMultiResp b) = SubmitMultiResp_CommandID b"
| "body_CommandID (DataSM b) = DataSM_CommandID b"
| "body_CommandID (DataSMResp b) = DataSMResp_CommandID b"
| "body_CommandID (EmptyBody e) = empty_CommandID e"

text \<open>\<open>&T{}\<close> for the body types of the decoder.\<close>

definition zero_bind_response :: bind_response where
  "zero_bind_response = \<lparr>bp_SystemID = ''''\<rparr>"

definition zero_submit_sm_resp :: submit_sm_resp where
  "zero_submit_sm_resp = \<lparr>sr_MessageID = ''''\<rparr>"

definition zero_deliver_sm_resp :: deliver_sm_resp where
  "zero_deliver_sm_resp = \<lparr>dr_MessageID = ''''\<rparr>"

text \<open>The bodies that the decoder knows, and of those the ones the wire format can carry.\<close>

fun decodable :: "pdu_body \<Rightarrow> bool" where
  "decodable (BindRequest b) = True"
| "decodable (BindResponse b) = True"
| "decodable (SubmitSM b) = True"
| "decodable (SubmitSMResp b) = True"
| "decodable (DeliverSM b) = True"
| "decodable (DeliverSMResp b) = True"
| "decodable (EmptyBody e) = (e \<in> {EnquireLink, EnquireLinkResp, Unbind, UnbindResp})"
| "decodable b = False"

fun body_wf :: "pdu_body \<Rightarrow> bool" where
  "body_wf (BindRequest b) = bind_request_wf b"
| "body_wf (BindResponse b) = bind_response_wf b"
| "body_wf (SubmitSM b) = submit_sm_wf b"
| "body_wf (SubmitSMResp b) = submit_sm_resp_wf b"
| "body_wf (DeliverSM b) = deliver_sm_wf b"
| "body_wf (DeliverSMResp b) = deliver_sm_resp_wf b"
| "body_wf (EmptyBody e) = decodable (EmptyBody e)"
| "body_wf b = False"

text \<open>The dynamic type of a body.\<close>

datatype pdu_type =
    TBindRequest | TBindResponse | TSubmitSM | TSubmitSMResp | TDeliverSM | TDeliverSMResp
  | TQuerySM | TQuerySMResp | TReplaceSM | TCancelSM | TSubmitMulti | TSubmitMultiResp | TDataSM | TDataSMResp
  | TEmpty empty_pdu

fun type_of_body :: "pdu_body \<Rightarrow> pdu_type" where
  "type_of_body (BindRequest b) = TBindRequest"
| "type_of_body (BindResponse b) = TBindResponse"
| "type_of_body (SubmitSM b) = TSubmitSM"
| "type_of_body (SubmitSMResp b) = TSubmitSMResp"
| "type_of_body (DeliverSM b) = TDeliverSM"
| "type_of_body (DeliverSMResp b) = TDeliverSMResp"
| "type_of_body (QuerySM b) = TQuerySM"
| "type_of_body (QuerySMResp b) = TQuerySMResp"
| "type_of_body (ReplaceSM b) = TReplaceSM"
| "type_of_body (CancelSM b) = TCancelSM"
| "type_of_body (SubmitMulti b) = TSubmitMulti"
| "type_of_body (SubmitMultiResp b) = TSubmitMultiResp"
| "type_of_body (DataSM b) = TDataSM"
| "type_of_body (DataSMResp b) = TDataSMResp"
| "type_of_body (EmptyBody e) = TEmpty e"

definition same_type :: "pdu_body \<Rightarrow> pdu_body \<Rightarrow> bool" where
  "same_type z b \<longleftrightarrow> type_of_body z = type_of_body b"

lemma body_wf_decodable: "body_wf b \<Longrightarrow> decodable b"
  by (cases b) auto

lemma body_Marshal_ok: "body_wf b \<Longrightarrow> \<exists>bs. body_Marshal b = Ok bs"
  by (cases b) (auto intro: bind_request.marshal_ok bind_response.marshal_ok submit_sm.marshal_ok
      deliver_sm.marshal_ok submit_sm_resp.marshal_ok deliver_sm_resp.marshal_ok
      simp: empty_Marshal_def)

lemma body_Unmarshal_Marshal:
  "body_wf b \<Longrightarrow> same_type z b \<Longrightarrow> body_Marshal b = Ok bs \<Longrightarrow> body_Unmarshal z bs = Ok b"
  by (cases b; cases z)
     (auto simp: same_type_def bind_request.unmarshal_marshal bind_response.unmarshal_marshal
      submit_sm.unmarshal_marshal deliver_sm.unmarshal_marshal submit_sm_resp.unmarshal_marshal
      deliver_sm_resp.unmarshal_marshal empty_Unmarshal_def)

lemma body_Unmarshal_not_Panic: "decodable z \<Longrightarrow> body_Unmarshal z bs \<noteq> Panic"
  by (cases z) (auto simp: bind_request.unmarshal_total bind_response.unmarshal_total
      submit_sm.unmarshal_total deliver_sm.unmarshal_total submit_sm_resp.unmarshal_total
      deliver_sm_resp.unmarshal_total empty_Unmarshal_def)

lemma body_Unmarshal_type:
  "decodable z \<Longrightarrow> body_Unmarshal z bs = Ok b \<Longrightarrow> same_type z b"
  by (cases z) (auto simp: same_type_def res_map_Ok_iff empty_Unmarshal_def)

lemma same_type_CommandID: "same_type z b \<Longrightarrow> body_CommandID z = body_CommandID b"
  by (cases z; cases b)
     (auto simp: same_type_def BindRequest_CommandID_def BindResponse_CommandID_def SubmitSM_CommandID_def
      SubmitSMResp_CommandID_def DeliverSM_CommandID_def DeliverSMResp_CommandID_def
      QuerySM_CommandID_def QuerySMResp_CommandID_def ReplaceSM_CommandID_def CancelSM_CommandID_def
      SubmitMulti_CommandID_def SubmitMultiResp_CommandID_def DataSM_CommandID_def
      DataSMResp_CommandID_def)

lemma same_type_decodable: "same_type z b \<Longrightarrow> decodable z \<longleftrightarrow> decodable b"
  by (cases z; cases b) (auto simp: same_type_def)

text \<open>
  Only the bodies without content marshal to no bytes, which matters because the decoder does not
  call \<open>Unmarshal\<close> on an empty body.
\<close>

lemma body_Marshal_Nil:
  "body_wf b \<Longrightarrow> body_Marshal b = Ok [] \<Longrightarrow> \<exists>e. b = EmptyBody e"
  by (cases b) (auto simp: BindRequest_Marshal_def BindResponse_Marshal_def SubmitSMResp_Marshal_def
      DeliverSMResp_Marshal_def SubmitSM_Marshal_def DeliverSM_Marshal_def)

end
