(* ===== verification/Codec.thy ===== *)
theory Codec
  imports PduBody
begin

text \<open>
  \<open>pkg/smpp/codec.go\<close>: the encoder, the decoder of a byte slice and of a stream, and the builder with
  its sequence numbers.  The decoder reads back what the encoder wrote, never panics, and on a
  stream consumes exactly the bytes of one PDU.
\<close>

record pdu_header =
  h_CommandLength :: u32
  h_CommandID :: u32
  h_CommandStatus :: u32
  h_SequenceNum :: u32

record pdu =
  Header :: pdu_header
  Body :: pdu_body

section \<open>Encoding\<close>

definition header_bytes :: "pdu_header \<Rightarrow> byte list" where
  "header_bytes h = put_be32 (h_CommandLength h) @ put_be32 (h_CommandID h)
     @ put_be32 (h_CommandStatus h) @ put_be32 (h_SequenceNum h)"

text \<open>The encoder updates the header of the PDU it is given: the first component is that PDU.\<close>

definition Encode :: "pdu \<Rightarrow> (pdu \<times> byte list) result" where
  "Encode p =
     res_bind (res_wrap ''failed to marshal PDU body'' (body_Marshal (Body p))) (\<lambda>bodyData.
     let h = (Header p)\<lparr>h_CommandLength := word_of_nat (16 + length bodyData),
                        h_CommandID := body_CommandID (Body p)\<rparr>
     in Ok (p\<lparr>Header := h\<rparr>, header_bytes h @ bodyData))"

section \<open>Decoding\<close>

definition createPDUBody :: "u32 \<Rightarrow> pdu_body result" where
  "createPDUBody commandID =
     (if commandID = CommandBindReceiver then Ok (BindRequest zero_bind_request)
      else if commandID = CommandBindTransmitter then Ok (BindRequest zero_bind_request)
      else if commandID = CommandBindTransceiver then Ok (BindRequest zero_bind_request)
      else if commandID = CommandBindReceiverResp then Ok (BindResponse zero_bind_response)
      else if commandID = CommandBindTransmitterResp then Ok (BindResponse zero_bind_response)
      else if commandID = CommandBindTransceiverResp then Ok (BindResponse zero_bind_response)
      else if commandID = CommandSubmitSM then Ok (SubmitSM zero_submit_sm)
      else if commandID = CommandSubmitSMResp then Ok (SubmitSMResp zero_submit_sm_resp)
      else if commandID = CommandDeliverSM then Ok (DeliverSM zero_deliver_sm)
      else if commandID = CommandDeliverSMResp then Ok (DeliverSMResp zero_deliver_sm_resp)
      else if commandID = CommandEnquireLink then Ok (EmptyBody EnquireLink)
      else if commandID = CommandEnquireLinkResp then Ok (EmptyBody EnquireLinkResp)
      else if commandID = CommandUnbind then Ok (EmptyBody Unbind)
      else if commandID = CommandUnbindResp then Ok (EmptyBody UnbindResp)
      else Err (Errorf ''unsupported command ID''))"

text \<open>The four \<open>binary.Read\<close> calls on the first 16 bytes.\<close>

definition read_header :: "byte list \<Rightarrow> pdu_header" where
  "read_header data =
     \<lparr>h_CommandLength = get_be32 (take 4 data), h_CommandID = get_be32 (take 4 (drop 4 data)),
      h_CommandStatus = get_be32 (take 4 (drop 8 data)),
      h_SequenceNum = get_be32 (take 4 (drop 12 data))\<rparr>"

text \<open>
  \<open>buf.Read(bodyData)\<close> fills the slice from the bytes after the header, as many as there are, and
  fails with \<open>EOF\<close> only when there are none.
\<close>

definition Decode :: "byte list \<Rightarrow> pdu result" where
  "Decode data =
     (if length data < 16 then Err (Errorf ''insufficient data for PDU header'')
      else
        let header = read_header data in
        if h_CommandLength header < 16 then Err (Errorf ''invalid command length'')
        else if (word_of_nat (length data) :: u32) < h_CommandLength header
        then Err (Errorf ''insufficient data'')
        else
          let bodyLen = unat (h_CommandLength header - 16); unread = drop 16 data in
          if 0 < bodyLen \<and> unread = []
          then Err (Wrap ''failed to read PDU body'' (Errorf ''EOF''))
          else
            let bodyData = go_copy (replicate bodyLen 0) unread in
            res_bind (res_wrap ''failed to create PDU body'' (createPDUBody (h_CommandID header)))
              (\<lambda>body.
            if 0 < length bodyData
            then res_bind (res_wrap ''failed to unmarshal PDU body'' (body_Unmarshal body bodyData))
                   (\<lambda>body'. Ok \<lparr>Header = header, Body = body'\<rparr>)
            else Ok \<lparr>Header = header, Body = body\<rparr>))"

text \<open>
  \<open>io.ReadFull\<close> on a stream whose bytes are known: \<open>EOF\<close> when nothing could be read,
  \<open>unexpected EOF\<close> when only a part could.  The second component is what is left of the stream.
\<close>

definition read_full :: "nat \<Rightarrow> byte list \<Rightarrow> byte list result \<times> byte list" where
  "read_full n s =
     (if n \<le> length s then (Ok (take n s), drop n s)
      else if s = [] then (Err (Errorf ''EOF''), [])
      else (Err (Errorf ''unexpected EOF''), []))"

definition DecodeFromReader :: "byte list \<Rightarrow> pdu result \<times> byte list" where
  "DecodeFromReader s =
     (case read_full 16 s of
        (Err e, s1) \<Rightarrow> (Err (Wrap ''failed to read PDU header'' e), s1)
      | (Panic, s1) \<Rightarrow> (Panic, s1)
      | (Ok headerBuf, s1) \<Rightarrow>
          let commandLength = get_be32 (take 4 headerBuf) in
          if commandLength < 16 then (Err (Errorf ''invalid command length''), s1)
          else
            let remainingLen = commandLength - 16 in
            if 0 < remainingLen then
              (case read_full (unat remainingLen) s1 of
                 (Err e, s2) \<Rightarrow> (Err (Wrap ''failed to read PDU body'' e), s2)
               | (Panic, s2) \<Rightarrow> (Panic, s2)
               | (Ok rest, s2) \<Rightarrow> (Decode (headerBuf @ rest), s2))
            else (Decode headerBuf, s1))"

section \<open>The builder\<close>

record pdu_builder =
  pb_sequenceNum :: u32

definition NewPDUBuilder :: pdu_builder where
  "NewPDUBuilder = \<lparr>pb_sequenceNum = 1\<rparr>"

definition getNextSequence :: "pdu_builder \<Rightarrow> u32 \<times> pdu_builder" where
  "getNextSequence b =
     (let seq = pb_sequenceNum b;
          n = pb_sequenceNum b + 1
      in (seq, b\<lparr>pb_sequenceNum := if n = 0 then 1 else n\<rparr>))"

definition SetSequenceNum :: "pdu_builder \<Rightarrow> u32 \<Rightarrow> pdu_builder" where
  "SetSequenceNum b seq = b\<lparr>pb_sequenceNum := if seq = 0 then 1 else seq\<rparr>"

definition GetCurrentSequence :: "pdu_builder \<Rightarrow> u32" where
  "GetCurrentSequence b = pb_sequenceNum b"

text \<open>\<open>&PDU{Header: ..., Body: ...}\<close>; the length is set by the encoder.\<close>

definition mk_pdu :: "u32 \<Rightarrow> u32 \<Rightarrow> u32 \<Rightarrow> pdu_body \<Rightarrow> pdu" where
  "mk_pdu cid status seq body =
     \<lparr>Header = \<lparr>h_CommandLength = 0, h_CommandID = cid, h_CommandStatus = status,
                h_SequenceNum = seq\<rparr>, Body = body\<rparr>"

definition bind_body :: "string \<Rightarrow> string \<Rightarrow> string \<Rightarrow> pdu_body" where
  "bind_body systemID password systemType =
     BindRequest \<lparr>br_SystemID = systemID, br_Password = password, br_SystemType = systemType,
       br_InterfaceVersion = SMPPVersion, br_AddrTON = TONUnknown, br_AddrNPI = NPIUnknown,
       br_AddressRange = ''''\<rparr>"

definition BuildBindTransceiver ::
    "pdu_builder \<Rightarrow> string \<Rightarrow> string \<Rightarrow> string \<Rightarrow> pdu \<times> pdu_builder" where
  "BuildBindTransceiver b systemID password systemType =
     (let (seq, b') = getNextSequence b
      in (mk_pdu CommandBindTransceiver StatusOK seq (bind_body systemID password systemType), b'))"

definition BuildBindReceiver ::
    "pdu_builder \<Rightarrow> string \<Rightarrow> string \<Rightarrow> string \<Rightarrow> pdu \<times> pdu_builder" where
  "BuildBindReceiver b systemID password systemType =
     (let (seq, b') = getNextSequence b
      in (mk_pdu CommandBindReceiver StatusOK seq (bind_body systemID password systemType), b'))"

definition BuildBindTransmitter ::
    "pdu_builder \<Rightarrow> string \<Rightarrow> string \<Rightarrow> string \<Rightarrow> pdu \<times> pdu_builder" where
  "BuildBindTransmitter b systemID password systemType =
     (let (seq, b') = getNextSequence b
      in (mk_pdu CommandBindTransmitter StatusOK seq (bind_body systemID password systemType), b'))"

definition BuildBindTransceiverResp :: "string \<Rightarrow> u32 \<Rightarrow> u32 \<Rightarrow> pdu" where
  "BuildBindTransceiverResp systemID sequenceNum status =
     mk_pdu CommandBindTransceiverResp status sequenceNum (BindResponse \<lparr>bp_SystemID = systemID\<rparr>)"

definition BuildBindReceiverResp :: "string \<Rightarrow> u32 \<Rightarrow> u32 \<Rightarrow> pdu" where
  "BuildBindReceiverResp systemID sequenceNum status =
     mk_pdu CommandBindReceiverResp status sequenceNum (BindResponse \<lparr>bp_SystemID = systemID\<rparr>)"

definition BuildBindTransmitterResp :: "string \<Rightarrow> u32 \<Rightarrow> u32 \<Rightarrow> pdu" where
  "BuildBindTransmitterResp systemID sequenceNum status =
     mk_pdu CommandBindTransmitterResp status sequenceNum (BindResponse \<lparr>bp_SystemID = systemID\<rparr>)"

definition BuildSubmitSM :: "pdu_builder \<Rightarrow> string \<Rightarrow> string \<Rightarrow> string \<Rightarrow> pdu \<times> pdu_builder" where
  "BuildSubmitSM b sourceAddr destAddr message =
     (let messageBytes = to_bytes message;
          (shortMessage, optionalParams) =
            (if length messageBytes > 255
             then ([], [\<lparr>op_Tag = TagMessagePayload, op_Length = word_of_nat (length messageBytes),
                         op_Value = messageBytes\<rparr>])
             else (messageBytes, []));
          body = \<lparr>ss_ServiceType = '''',
            ss_SourceAddrTON = TONInternational, ss_SourceAddrNPI = NPIISDN, ss_SourceAddr = sourceAddr,
            ss_DestAddrTON = TONInternational, ss_DestAddrNPI = NPIISDN, ss_DestAddr = destAddr,
            ss_EsmClass = EsmClassDefault, ss_ProtocolID = 0, ss_PriorityFlag = PriorityLevel0,
            ss_ScheduleDeliveryTime = '''', ss_ValidityPeriod = '''',
            ss_RegisteredDelivery = RegisteredDeliverySuccessFailure, ss_ReplaceIfPresentFlag = 0,
            ss_DataCoding = DataCodingDefault, ss_SMDefaultMsgID = 0,
            ss_SMLength = word_of_nat (length shortMessage), ss_ShortMessage = shortMessage,
            ss_OptionalParams = optionalParams\<rparr>;
          (seq, b') = getNextSequence b
      in (mk_pdu CommandSubmitSM StatusOK seq (SubmitSM body), b'))"

definition BuildSubmitSMResp :: "string \<Rightarrow> u32 \<Rightarrow> u32 \<Rightarrow> pdu" where
  "BuildSubmitSMResp messageID sequenceNum status =
     mk_pdu CommandSubmitSMResp status sequenceNum (SubmitSMResp \<lparr>sr_MessageID = messageID\<rparr>)"

definition BuildQuerySMResp :: "cstring \<Rightarrow> string \<Rightarrow> u8 \<Rightarrow> u8 \<Rightarrow> u32 \<Rightarrow> u32 \<Rightarrow> pdu" where
  "BuildQuerySMResp messageID finalDate messageState errorCode sequenceNum status =
     (let finalDateCStr = set_string_unchecked (NewCString 17) finalDate
      in mk_pdu CommandQuerySMResp status sequenceNum
           (QuerySMResp \<lparr>qr_MessageID = messageID, qr_FinalDate = finalDateCStr,
              qr_MessageState = messageState, qr_ErrorCode = errorCode\<rparr>))"

definition BuildReplaceSMResp :: "u32 \<Rightarrow> u32 \<Rightarrow> pdu" where
  "BuildReplaceSMResp sequenceNum status =
     mk_pdu CommandReplaceSMResp status sequenceNum (EmptyBody ReplaceSMResp)"

definition BuildCancelSMResp :: "u32 \<Rightarrow> u32 \<Rightarrow> pdu" where
  "BuildCancelSMResp sequenceNum status =
     mk_pdu CommandCancelSMResp status sequenceNum (EmptyBody CancelSMResp)"

definition BuildSubmitMultiResp :: "string \<Rightarrow> unsuccessful_sme list \<Rightarrow> u32 \<Rightarrow> u32 \<Rightarrow> pdu" where
  "BuildSubmitMultiResp messageID unsuccessfulSMEs sequenceNum status =
     (let messageIDCStr = set_string_unchecked (NewCString 65) messageID
      in mk_pdu CommandSubmitMultiResp status sequenceNum
           (SubmitMultiResp \<lparr>mr_MessageID = messageIDCStr,
              mr_NoUnsuccess = word_of_nat (length unsuccessfulSMEs),
              mr_UnsuccessSME = unsuccessfulSMEs\<rparr>))"

definition BuildDataSMResp :: "string \<Rightarrow> u32 \<Rightarrow> u32 \<Rightarrow> pdu" where
  "BuildDataSMResp messageID sequenceNum status =
     (let messageIDCStr = set_string_unchecked (NewCString 65) messageID
      in mk_pdu CommandDataSMResp status sequenceNum
           (DataSMResp \<lparr>dtr_MessageID = messageIDCStr, dtr_OptionalParameters = []\<rparr>))"

definition BuildDeliverSM ::
    "pdu_builder \<Rightarrow> string \<Rightarrow> string \<Rightarrow> byte list \<Rightarrow> u8 \<Rightarrow> pdu \<times> pdu_builder" where
  "BuildDeliverSM b sourceAddr destAddr message dataCoding =
     (let body = \<lparr>ds_ServiceType = '''',
            ds_SourceAddrTON = TONInternational, ds_SourceAddrNPI = NPIISDN, ds_SourceAddr = sourceAddr,
            ds_DestAddrTON = TONInternational, ds_DestAddrNPI = NPIISDN, ds_DestAddr = destAddr,
            ds_EsmClass = EsmClassDefault, ds_ProtocolID = 0, ds_PriorityFlag = PriorityLevel0,
            ds_ScheduleDeliveryTime = '''', ds_ValidityPeriod = '''',
            ds_RegisteredDelivery = 0, ds_ReplaceIfPresentFlag = 0,
            ds_DataCoding = dataCoding, ds_SMDefaultMsgID = 0,
            ds_SMLength = word_of_nat (length message), ds_ShortMessage = message,
            ds_OptionalParams = []\<rparr>;
          (seq, b') = getNextSequence b
      in (mk_pdu CommandDeliverSM StatusOK seq (DeliverSM body), b'))"

definition BuildDeliverSMResp :: "string \<Rightarrow> u32 \<Rightarrow> u32 \<Rightarrow> pdu" where
  "BuildDeliverSMResp messageID sequenceNum status =
     mk_pdu CommandDeliverSMResp status sequenceNum (DeliverSMResp \<lparr>dr_MessageID = messageID\<rparr>)"

definition BuildEnquireLink :: "pdu_builder \<Rightarrow> pdu \<times> pdu_builder" where
  "BuildEnquireLink b =
     (let (seq, b') = getNextSequence b
      in (mk_pdu CommandEnquireLink StatusOK seq (EmptyBody EnquireLink), b'))"

definition BuildEnquireLinkResp :: "u32 \<Rightarrow> pdu" where
  "BuildEnquireLinkResp sequenceNum =
     mk_pdu CommandEnquireLinkResp StatusOK sequenceNum (EmptyBody EnquireLinkResp)"

definition BuildUnbind :: "pdu_builder \<Rightarrow> pdu \<times> pdu_builder" where
  "BuildUnbind b =
     (let (seq, b') = getNextSequence b
      in (mk_pdu CommandUnbind StatusOK seq (EmptyBody Unbind), b'))"

definition BuildUnbindResp :: "u32 \<Rightarrow> pdu" where
  "BuildUnbindResp sequenceNum =
     mk_pdu CommandUnbindResp StatusOK sequenceNum (EmptyBody UnbindResp)"

definition BuildGenericNack :: "u32 \<Rightarrow> u32 \<Rightarrow> pdu" where
  "BuildGenericNack sequenceNum status =
     mk_pdu 0x80000000 status sequenceNum (EmptyBody GenericNack)"

section \<open>Frames\<close>

text \<open>What the decoder does with a complete frame: the body of \<open>CommandLength - 16\<close> bytes.\<close>

definition decode_body :: "pdu_header \<Rightarrow> byte list \<Rightarrow> pdu result" where
  "decode_body h bodyData =
     res_bind (res_wrap ''failed to create PDU body'' (createPDUBody (h_CommandID h))) (\<lambda>body.
     if bodyData = [] then Ok \<lparr>Header = h, Body = body\<rparr>
     else res_bind (res_wrap ''failed to unmarshal PDU body'' (body_Unmarshal body bodyData))
            (\<lambda>body'. Ok \<lparr>Header = h, Body = body'\<rparr>))"

lemma length_header_bytes [simp]: "length (header_bytes h) = 16"
  by (simp add: header_bytes_def)

lemma read_header_bytes [simp]: "read_header (header_bytes h @ rest) = h"
  by (cases h) (simp add: read_header_def header_bytes_def)

lemma header_bytes_read: "16 \<le> length s \<Longrightarrow> header_bytes (read_header s) = take 16 s"
proof -
  assume "16 \<le> length s"
  then have "put_be32 (get_be32 (take 4 (drop n s))) = take 4 (drop n s)" if "n \<le> 12" for n
    using that by (intro put_get_be32) simp
  from this [of 0] this [of 4] this [of 8] this [of 12] show ?thesis
    using take_add [of 4 12 s] take_add [of 4 8 "drop 4 s"] take_add [of 4 4 "drop 8 s"]
    by (simp add: header_bytes_def read_header_def)
qed

lemma Decode_frame:
  assumes l: "unat (h_CommandLength h) = 16 + length body"
    and fit: "16 + length body + length extra < 2 ^ 32"
  shows "Decode (header_bytes h @ body @ extra) = decode_body h body"
proof -
  have "h_CommandLength h = word_of_nat (16 + length body)"
    using word_of_nat_eqI [OF l] by simp
  moreover have "unat (h_CommandLength h - 16) = length body"
  proof -
    have "(16 :: u32) \<le> h_CommandLength h" using l by (simp add: word_le_nat_alt)
    then show ?thesis using l by (simp add: unat_sub)
  qed
  moreover have "\<not> h_CommandLength h < 16" using l by (simp add: word_less_nat_alt)
  moreover have "\<not> (word_of_nat (length (header_bytes h @ body @ extra)) :: u32) < h_CommandLength h"
    using l fit unat_u32 [of "length (header_bytes h @ body @ extra)"]
    by (simp add: word_less_nat_alt del: of_nat_add of_nat_Suc)
  ultimately show ?thesis
    by (cases "body = []") (simp_all add: Decode_def decode_body_def Let_def go_copy_def)
qed

lemma read_full_append: "length xs = n \<Longrightarrow> read_full n (xs @ ys) = (Ok xs, ys)"
  by (simp add: read_full_def)

lemma DecodeFromReader_frame:
  assumes l: "unat (h_CommandLength h) = 16 + length body"
  shows "DecodeFromReader (header_bytes h @ body @ rest) = (decode_body h body, rest)"
proof -
  have "get_be32 (take 4 (header_bytes h)) = h_CommandLength h"
    by (simp add: header_bytes_def)
  moreover have n: "\<not> h_CommandLength h < 16" using l by (simp add: word_less_nat_alt)
  moreover have u: "unat (h_CommandLength h - 16) = length body"
    using n l by (simp add: unat_sub linorder_not_less)
  moreover have "0 < h_CommandLength h - 16 \<longleftrightarrow> body \<noteq> []"
    using u by (metis length_0_conv unat_eq_zero word_gt_0)
  moreover have "16 + length body < 2 ^ 32"
    using unat_u32_less [of "h_CommandLength h"] l by simp
  then have "Decode (header_bytes h @ body) = decode_body h body"
    using Decode_frame [OF l, of "[]"] by simp
  ultimately show ?thesis
    by (cases "body = []") (simp_all add: DecodeFromReader_def read_full_append)
qed

lemma Encode_OkD:
  assumes "Encode p = Ok (p', bs)"
  obtains body where "body_Marshal (Body p) = Ok body" and "bs = header_bytes (Header p') @ body"
    and "Body p' = Body p" and "h_CommandLength (Header p') = word_of_nat (16 + length body)"
    and "h_CommandID (Header p') = body_CommandID (Body p)"
    and "h_CommandStatus (Header p') = h_CommandStatus (Header p)"
    and "h_SequenceNum (Header p') = h_SequenceNum (Header p)"
  using assms by (auto simp: Encode_def res_bind_Ok_iff Let_def)

lemma createPDUBody_decodable:
  "decodable b \<Longrightarrow> \<exists>z. createPDUBody (body_CommandID b) = Ok z \<and> same_type z b"
  by (cases b)
     (auto simp: createPDUBody_def same_type_def BindRequest_CommandID_def BindResponse_CommandID_def
      SubmitSM_CommandID_def SubmitSMResp_CommandID_def DeliverSM_CommandID_def
      DeliverSMResp_CommandID_def)

lemma createPDUBody_Ok_decodable: "createPDUBody c = Ok z \<Longrightarrow> decodable z"
  by (auto simp: createPDUBody_def split: if_splits)

lemma createPDUBody_not_Panic [simp]: "createPDUBody c \<noteq> Panic"
  by (auto simp: createPDUBody_def)

lemma decode_body_not_Panic: "decode_body h body \<noteq> Panic"
  by (auto simp: decode_body_def res_bind_Panic_iff dest: createPDUBody_Ok_decodable body_Unmarshal_not_Panic)

lemma decode_body_wf:
  assumes wf: "body_wf b" and m: "body_Marshal b = Ok body" and c: "h_CommandID h = body_CommandID b"
  shows "decode_body h body = Ok \<lparr>Header = h, Body = b\<rparr>"
proof -
  obtain z where z: "createPDUBody (body_CommandID b) = Ok z" "same_type z b"
    using createPDUBody_decodable [OF body_wf_decodable [OF wf]] by blast
  have "body = [] \<Longrightarrow> z = b"
    using z(2) body_Marshal_Nil [OF wf] m by (cases z) (auto simp: same_type_def)
  then show ?thesis
    using z body_Unmarshal_Marshal [OF wf z(2) m] by (simp add: decode_body_def c)
qed

section \<open>The decoder on a stream\<close>

text \<open>
  A reader that calls \<open>DecodeFromReader\<close> until it fails, at most \<open>n\<close> times: the PDUs it got and
  the outcome that ended it (\<open>None\<close> when the \<open>n\<close> calls were all successful).
\<close>

fun read_loop :: "(byte list \<Rightarrow> 'a result \<times> byte list) \<Rightarrow> nat \<Rightarrow> byte list \<Rightarrow> 'a list \<times> 'a result option" where
  "read_loop dec 0 s = ([], None)"
| "read_loop dec (Suc n) s =
     (case dec s of
        (Ok x, rest) \<Rightarrow> (let (xs, e) = read_loop dec n rest in (x # xs, e))
      | (Err e, rest) \<Rightarrow> ([], Some (Err e))
      | (Panic, rest) \<Rightarrow> ([], Some Panic))"

text \<open>
  The contract of a self-delimiting stream format: an encoded value is read back from the front of
  the stream and nothing after it is touched, every successful read consumes something, no input
  makes the reader panic, and the end of the stream is an error.
\<close>

locale stream_format =
  fixes enc :: "'a \<Rightarrow> byte list" and dec :: "byte list \<Rightarrow> 'a result \<times> byte list"
    and valid :: "'a \<Rightarrow> bool" and eof :: error
  assumes dec_enc: "valid x \<Longrightarrow> dec (enc x @ rest) = (Ok x, rest)"
    and dec_progress: "dec s = (Ok x, rest) \<Longrightarrow> length rest < length s"
    and dec_total: "fst (dec s) \<noteq> Panic"
    and dec_eof: "dec [] = (Err eof, [])"
begin

lemma read_loop_enc:
  "list_all valid xs \<Longrightarrow> length xs < n \<Longrightarrow>
   read_loop dec n (concat (map enc xs)) = (xs, Some (Err eof))"
proof (induction xs arbitrary: n)
  case Nil
  then show ?case by (cases n) (simp_all add: dec_eof)
next
  case (Cons x xs)
  then obtain m where "n = Suc m" "length xs < m" by (cases n) auto
  with Cons show ?case by (simp add: dec_enc)
qed

lemma read_loop_terminates:
  "length s < n \<Longrightarrow> \<exists>e. snd (read_loop dec n s) = Some (Err e)"
proof (induction n arbitrary: s)
  case (Suc n)
  show ?case
  proof (cases "dec s")
    case (Pair r rest)
    then show ?thesis
      using Suc dec_progress [of s _ rest] dec_total [of s]
      by (cases r) (auto simp: split_beta)
  qed
qed simp

lemma enc_prefix_free:
  assumes "valid x" and "valid y" and "enc x @ s = enc y @ t"
  shows "x = y \<and> s = t"
proof -
  have "dec (enc y @ t) = (Ok x, s)" using dec_enc [OF assms(1), of s] by (simp only: assms(3))
  then show ?thesis using dec_enc [OF assms(2), of t] by simp
qed

end

text \<open>The bytes of a PDU whose header already says what \<open>Encode\<close> would write into it.\<close>

definition wire_bytes :: "pdu \<Rightarrow> byte list" where
  "wire_bytes p = (case Encode p of Ok (p', bs) \<Rightarrow> bs | Err e \<Rightarrow> [] | Panic \<Rightarrow> [])"

definition pdu_wf :: "pdu \<Rightarrow> bool" where
  "pdu_wf p \<longleftrightarrow> body_wf (Body p) \<and>
     (case Encode p of Ok (p', bs) \<Rightarrow> p' = p \<and> length bs < 2 ^ 32 | Err e \<Rightarrow> False | Panic \<Rightarrow> False)"

lemma pdu_wfD:
  assumes "pdu_wf p"
  obtains body where "body_wf (Body p)" and "body_Marshal (Body p) = Ok body"
    and "wire_bytes p = header_bytes (Header p) @ body"
    and "unat (h_CommandLength (Header p)) = 16 + length body"
    and "h_CommandID (Header p) = body_CommandID (Body p)"
proof -
  from assms obtain bs where w: "body_wf (Body p)" and e: "Encode p = Ok (p, bs)"
    and l: "length bs < 4294967296"
    by (auto simp: pdu_wf_def split: result.splits)
  from e obtain body where "body_Marshal (Body p) = Ok body" and b: "bs = header_bytes (Header p) @ body"
    and h: "h_CommandLength (Header p) = word_of_nat (16 + length body)"
    and "h_CommandID (Header p) = body_CommandID (Body p)"
    by (rule Encode_OkD)
  moreover have "unat (h_CommandLength (Header p)) = 16 + length body"
    unfolding h by (rule unat_u32) (use l b in simp)
  ultimately show ?thesis using that [of body] w e by (simp add: wire_bytes_def)
qed

lemma Encode_pdu_wf:
  assumes "body_wf (Body p)" and e: "Encode p = Ok (p', bs)" and "length bs < 2 ^ 32"
  shows "pdu_wf p'" and "wire_bytes p' = bs"
proof -
  have "Encode p' = Ok (p', bs)"
    using e by (cases p) (auto simp: Encode_def res_bind_Ok_iff Let_def)
  with assms show "pdu_wf p'" "wire_bytes p' = bs"
    by (auto simp: pdu_wf_def wire_bytes_def elim!: Encode_OkD)
qed

lemma DecodeFromReader_wire:
  assumes "pdu_wf p"
  shows "DecodeFromReader (wire_bytes p @ rest) = (Ok p, rest)"
proof -
  obtain body where "body_wf (Body p)" "body_Marshal (Body p) = Ok body"
    "wire_bytes p = header_bytes (Header p) @ body"
    "unat (h_CommandLength (Header p)) = 16 + length body"
    "h_CommandID (Header p) = body_CommandID (Body p)"
    using assms by (rule pdu_wfD)
  then show ?thesis
    by (cases p) (simp add: DecodeFromReader_frame decode_body_wf)
qed

lemma take_drop_split: "take n xs @ take m (drop n xs) @ drop (n + m) xs = xs"
  by (metis append_assoc append_take_drop_id take_add)

text \<open>Every stream that starts with a complete frame is that frame and the rest.\<close>

lemma stream_frame:
  assumes "16 \<le> length s" and "unat (h_CommandLength (read_header s)) \<le> length s"
    and "16 \<le> unat (h_CommandLength (read_header s))"
  defines "n \<equiv> unat (h_CommandLength (read_header s))"
  shows "s = header_bytes (read_header s) @ take (n - 16) (drop 16 s) @ drop n s"
    and "length (take (n - 16) (drop 16 s)) = n - 16"
  using assms take_drop_split [of 16 s "n - 16"] by (simp_all add: header_bytes_read)

lemma DecodeFromReader_cases:
  obtains (frame) "16 \<le> length s" "unat (h_CommandLength (read_header s)) \<le> length s"
      "16 \<le> unat (h_CommandLength (read_header s))"
      "DecodeFromReader s = (decode_body (read_header s)
         (take (unat (h_CommandLength (read_header s)) - 16) (drop 16 s)),
         drop (unat (h_CommandLength (read_header s))) s)"
    | (error) e rest where "DecodeFromReader s = (Err e, rest)"
proof -
  let ?h = "read_header s"
  let ?n = "unat (h_CommandLength ?h)"
  consider "length s < 16" | "16 \<le> length s" "?n < 16" | "16 \<le> length s" "16 \<le> ?n" "length s < ?n"
    | "16 \<le> length s" "16 \<le> ?n" "?n \<le> length s" by linarith
  then show ?thesis
  proof cases
    case 1
    then have "\<exists>e. DecodeFromReader s = (Err e, [])"
      by (cases "s = []") (simp_all add: DecodeFromReader_def read_full_def)
    then show ?thesis using error by blast
  next
    case 2
    then have "h_CommandLength ?h < 16" by (simp add: word_less_nat_alt)
    with 2 show ?thesis
      by (intro error [of _ "drop 16 s"]) (auto simp: DecodeFromReader_def read_full_def read_header_def)
  next
    case 3
    then have "\<not> h_CommandLength ?h < 16" by (simp add: word_less_nat_alt)
    moreover have "unat (h_CommandLength ?h - 16) = ?n - 16"
      using 3 by (simp add: unat_sub word_le_nat_alt)
    moreover have "0 < h_CommandLength ?h - 16"
      using 3 calculation by (metis diff_is_0_eq le_neq_implies_less linorder_not_le unat_0 word_gt_0)
    moreover have "take 4 (take 16 s) = take 4 s" by simp
    ultimately have "\<exists>e. DecodeFromReader s = (Err e, [])"
      using 3 by (cases "length s = 16") (auto simp: DecodeFromReader_def Let_def read_full_def read_header_def)
    then show ?thesis using error by blast
  next
    case 4
    then show ?thesis
      using DecodeFromReader_frame [of ?h "take (?n - 16) (drop 16 s)" "drop ?n s"] stream_frame [of s]
      by (intro frame) (simp_all add: Let_def)
  qed
qed

lemma DecodeFromReader_total: "fst (DecodeFromReader s) \<noteq> Panic"
  by (cases s rule: DecodeFromReader_cases) (simp_all add: decode_body_not_Panic)

lemma decode_body_Header: "decode_body h body = Ok p \<Longrightarrow> Header p = h"
  by (auto simp: decode_body_def res_bind_Ok_iff split: if_splits)

lemma DecodeFromReader_consumes:
  assumes "DecodeFromReader s = (Ok p, rest)"
  shows "rest = drop (unat (h_CommandLength (Header p))) s \<and>
    16 \<le> unat (h_CommandLength (Header p)) \<and> unat (h_CommandLength (Header p)) \<le> length s"
proof (cases s rule: DecodeFromReader_cases)
  case frame
  then show ?thesis using assms decode_body_Header by fastforce
next
  case (error e rest)
  then show ?thesis using assms by simp
qed

interpretation pdu_stream: stream_format wire_bytes DecodeFromReader pdu_wf
  "Wrap ''failed to read PDU header'' (Errorf ''EOF'')"
proof
  fix p :: pdu and s rest
  show "pdu_wf p \<Longrightarrow> DecodeFromReader (wire_bytes p @ rest) = (Ok p, rest)"
    by (rule DecodeFromReader_wire)
  show "fst (DecodeFromReader s) \<noteq> Panic" by (rule DecodeFromReader_total)
  show "DecodeFromReader [] = (Err (Wrap ''failed to read PDU header'' (Errorf ''EOF'')), [])"
    by (simp add: DecodeFromReader_def read_full_def)
  show "length rest < length s" if "DecodeFromReader s = (Ok p, rest)"
    using DecodeFromReader_consumes [OF that] by (metis diff_less length_drop not_numeral_le_zero order_less_le_trans zero_less_iff_neq_zero)
qed

section \<open>Sequence numbers\<close>

definition advance :: "pdu_builder \<Rightarrow> pdu_builder" where
  "advance b = snd (getNextSequence b)"

lemma unat_minus_one_u32 [simp]: "unat (- 1 :: u32) = 4294967295"
  by (simp add: unsigned_minus_1_eq_mask mask_eq_exp_minus_1)

lemma unat_advance:
  "unat (pb_sequenceNum (advance b)) =
     (if unat (pb_sequenceNum b) = 4294967295 then 1 else unat (pb_sequenceNum b) + 1)"
proof (cases "pb_sequenceNum b + 1 = 0")
  case True
  then have "pb_sequenceNum b = - 1" by (simp add: eq_neg_iff_add_eq_0)
  then show ?thesis by (simp add: advance_def getNextSequence_def Let_def)
next
  case False
  then have "unat (pb_sequenceNum b + 1) = unat (pb_sequenceNum b) + 1"
    by (metis Suc_eq_plus1 add.commute unatSuc)
  moreover have "unat (pb_sequenceNum b) \<noteq> 4294967295"
  proof
    assume "unat (pb_sequenceNum b) = 4294967295"
    then have "pb_sequenceNum b = - 1" by (metis unat_minus_one_u32 unsigned_word_eqI)
    with False show False by simp
  qed
  ultimately show ?thesis using False by (simp add: advance_def getNextSequence_def Let_def)
qed

lemma sequence_closed_form:
  assumes "0 < unat (pb_sequenceNum b)"
  shows "unat (pb_sequenceNum ((advance ^^ n) b)) = (unat (pb_sequenceNum b) - 1 + n) mod 4294967295 + 1"
proof (induction n)
  case 0
  have "unat (pb_sequenceNum b) - 1 < 4294967295"
    using unat_u32_less [of "pb_sequenceNum b"] assms by simp
  then show ?case using assms by simp
next
  case (Suc n)
  then show ?case by (simp add: unat_advance mod_Suc)
qed

text \<open>The \<open>n\<close>-th number that a builder hands out.\<close>

definition sequence_at :: "pdu_builder \<Rightarrow> nat \<Rightarrow> nat" where
  "sequence_at b n = unat (fst (getNextSequence ((advance ^^ n) b)))"

lemma sequence_at_eq:
  "sequence_at (SetSequenceNum b seq) n = (max 1 (unat seq) - 1 + n) mod 4294967295 + 1"
proof -
  have "unat (pb_sequenceNum (SetSequenceNum b seq)) = max 1 (unat seq)"
    by (auto simp: SetSequenceNum_def max_def Suc_le_eq unat_gt_0)
  then show ?thesis
    using sequence_closed_form [of "SetSequenceNum b seq" n]
    by (simp add: sequence_at_def getNextSequence_def Let_def)
qed

lemma mod_inj_on: "inj_on (\<lambda>n. (a + n) mod M + 1) {k..<k + M}" for a k M :: nat
proof (rule linorder_inj_onI)
  fix m n assume "m < n" and mn: "m \<in> {k..<k + M}" "n \<in> {k..<k + M}"
  show "(a + m) mod M + 1 \<noteq> (a + n) mod M + 1"
  proof
    assume "(a + m) mod M + 1 = (a + n) mod M + 1"
    then have "M dvd (a + n) - (a + m)"
      using \<open>m < n\<close> by (intro mod_eq_dvd_iff_nat [THEN iffD1]) auto
    then have "M dvd n - m" by simp
    with \<open>m < n\<close> mn show False by (auto dest: dvd_imp_le)
  qed
qed auto

text \<open>
  C34. The sequence numbers that a builder hands out after \<open>SetSequenceNum seq\<close> count up from \<open>seq\<close>
  (from 1 when \<open>seq\<close> is 0) and wrap from \<open>2^32 - 1\<close> to 1: none of them is 0, and no number is
  handed out twice within any \<open>2^32 - 1\<close> successive calls.
\<close>

theorem sequence_numbers:
  "sequence_at (SetSequenceNum b seq) n = (max 1 (unat seq) - 1 + n) mod (2 ^ 32 - 1) + 1 \<and>
   inj_on (sequence_at (SetSequenceNum b seq)) {k..<k + (2 ^ 32 - 1)}"
proof -
  have e: "sequence_at (SetSequenceNum b seq) = (\<lambda>n. (max 1 (unat seq) - 1 + n) mod 4294967295 + 1)"
    by (rule ext) (rule sequence_at_eq)
  have "(2::nat) ^ 32 - 1 = 4294967295" by simp
  then show ?thesis unfolding e by (simp only: mod_inj_on simp_thms)
qed

section \<open>Encoding and decoding\<close>

text \<open>
  C9. A PDU whose body the wire format can carry encodes, and decoding the bytes gives the PDU
  back: the same body, status and sequence number, under a header whose length is that of the
  bytes and whose command ID is the body's.
\<close>

theorem Decode_Encode:
  assumes "body_wf (Body p)" and "length (wire_bytes p) < 2 ^ 32"
  shows "\<exists>p' bs. Encode p = Ok (p', bs) \<and> Decode bs = Ok p' \<and> Body p' = Body p \<and>
    unat (h_CommandLength (Header p')) = length bs \<and>
    h_CommandID (Header p') = body_CommandID (Body p) \<and>
    h_CommandStatus (Header p') = h_CommandStatus (Header p) \<and>
    h_SequenceNum (Header p') = h_SequenceNum (Header p)"
proof -
  obtain body where m: "body_Marshal (Body p) = Ok body"
    using body_Marshal_ok [OF assms(1)] by blast
  then obtain p' bs where e: "Encode p = Ok (p', bs)"
    by (auto simp: Encode_def Let_def)
  then have p': "bs = header_bytes (Header p') @ body" "Body p' = Body p"
    "h_CommandLength (Header p') = word_of_nat (16 + length body)"
    "h_CommandID (Header p') = body_CommandID (Body p)"
    "h_CommandStatus (Header p') = h_CommandStatus (Header p)"
    "h_SequenceNum (Header p') = h_SequenceNum (Header p)"
    using m by (auto elim!: Encode_OkD)
  have l: "16 + length body < 2 ^ 32" using assms(2) e p'(1) by (simp add: wire_bytes_def)
  then have u: "unat (h_CommandLength (Header p')) = 16 + length body"
    unfolding p'(3) by (intro unat_u32) simp
  have "Decode bs = decode_body (Header p') body"
    using Decode_frame [OF u, of "[]"] l p'(1) by simp
  also have "\<dots> = Ok p'"
    using decode_body_wf [OF assms(1) m p'(4)] p'(2) by (cases p') simp
  finally show ?thesis using e p' u by auto
qed

text \<open>
  C4. A stream of encoded PDUs is read back one by one, in order, by a reader that calls
  \<open>DecodeFromReader\<close> until it fails; it fails with \<open>EOF\<close> after the last one.
\<close>

theorem stream_round_trip:
  assumes "list_all pdu_wf ps" and "length ps < n"
  shows "read_loop DecodeFromReader n (concat (map wire_bytes ps)) =
    (ps, Some (Err (Wrap ''failed to read PDU header'' (Errorf ''EOF''))))"
  using assms by (rule pdu_stream.read_loop_enc)

text \<open>
  C8. No bytes from the peer make the decoder panic, whether it is given a slice or a stream, and
  a reader that calls \<open>DecodeFromReader\<close> until it fails stops with an error after at most one
  call per byte of the stream and one more.
\<close>

theorem decoder_total:
  "Decode data \<noteq> Panic \<and> fst (DecodeFromReader s) \<noteq> Panic \<and>
   (\<exists>ps e. read_loop DecodeFromReader (length s + 1) s = (ps, Some (Err e)))"
proof -
  have "Decode data \<noteq> Panic"
    by (auto simp: Decode_def Let_def res_bind_Panic_iff
        dest: createPDUBody_Ok_decodable body_Unmarshal_not_Panic)
  moreover have "\<exists>e. snd (read_loop DecodeFromReader (length s + 1) s) = Some (Err e)"
    by (rule pdu_stream.read_loop_terminates) simp
  ultimately show ?thesis
    using DecodeFromReader_total by (metis prod.collapse)
qed

lemma DecodeFromReader_frame_of:
  assumes "DecodeFromReader s = (Ok p, rest)"
  shows "\<exists>frame. s = frame @ rest \<and> length frame = unat (h_CommandLength (Header p)) \<and>
    take 16 frame = header_bytes (Header p) \<and> Decode frame = Ok p"
proof (cases s rule: DecodeFromReader_cases)
  case frame
  let ?h = "read_header s" let ?n = "unat (h_CommandLength (read_header s))"
  let ?b = "take (?n - 16) (drop 16 s)"
  have ok: "decode_body ?h ?b = Ok p" and rest: "rest = drop ?n s"
    using frame(4) assms by simp_all
  have lb: "length ?b = ?n - 16" using frame by simp
  have "Decode (header_bytes ?h @ ?b) = Ok p"
    using Decode_frame [of ?h ?b "[]"] frame lb unat_u32_less [of "h_CommandLength ?h"] ok by simp
  moreover have "s = (header_bytes ?h @ ?b) @ rest"
    using stream_frame(1) [of s] frame rest by (simp add: Let_def)
  ultimately show ?thesis
    using frame lb decode_body_Header [OF ok]
    by (intro exI [of _ "header_bytes ?h @ ?b"]) (simp del: length_take length_drop)
qed (use assms in simp)

lemma DecodeFromReader_exact: "DecodeFromReader s = (Ok p, []) \<Longrightarrow> Decode s = Ok p"
  using DecodeFromReader_frame_of [of s p "[]"] by auto

text \<open>
  When \<open>DecodeFromReader\<close> succeeds it has consumed exactly \<open>CommandLength\<close> bytes of the
  stream, of which the first 16 are the header it returns, and \<open>Decode\<close> gives the same PDU on
  those bytes.
\<close>

theorem DecodeFromReader_frame_exact:
  assumes "DecodeFromReader s = (Ok p, rest)"
  shows "\<exists>frame. s = frame @ rest \<and> length frame = unat (h_CommandLength (Header p)) \<and>
    take 16 frame = header_bytes (Header p) \<and> Decode frame = Ok p"
  using assms by (rule DecodeFromReader_frame_of)

text \<open>
  \<open>Encode\<close> replaces the command ID of the header by that of the body, so the requests and
  responses of \<open>bind_receiver\<close> and \<open>bind_transmitter\<close> go out as \<open>bind_transceiver\<close> and
  \<open>bind_transceiver_resp\<close>.
\<close>

theorem bind_command_ids:
  "(\<exists>p. Encode (fst (BuildBindReceiver b sid pw st)) = Ok p \<and>
        h_CommandID (Header (fst p)) = CommandBindTransceiver) \<and>
   (\<exists>p. Encode (fst (BuildBindTransmitter b sid pw st)) = Ok p \<and>
        h_CommandID (Header (fst p)) = CommandBindTransceiver) \<and>
   (\<exists>p. Encode (BuildBindReceiverResp sid seq status) = Ok p \<and>
        h_CommandID (Header (fst p)) = CommandBindTransceiverResp) \<and>
   (\<exists>p. Encode (BuildBindTransmitterResp sid seq status) = Ok p \<and>
        h_CommandID (Header (fst p)) = CommandBindTransceiverResp)"
  by (simp add: Encode_def Let_def mk_pdu_def BuildBindReceiver_def BuildBindTransmitter_def
      BuildBindReceiverResp_def BuildBindTransmitterResp_def bind_body_def split_beta
      BindRequest_Marshal_def BindResponse_Marshal_def BindRequest_CommandID_def
      BindResponse_CommandID_def)

section \<open>Messages built for the wire\<close>

text \<open>
  The message of a PDU as its receiver takes it: the short message, and if that is empty the
  first \<open>message_payload\<close> parameter.
\<close>

fun message_payload :: "optional_parameter list \<Rightarrow> byte list" where
  "message_payload [] = []"
| "message_payload (p # ps) =
     (if op_Tag p = TagMessagePayload then op_Value p else message_payload ps)"

definition message_bytes :: "byte list \<Rightarrow> optional_parameter list \<Rightarrow> byte list" where
  "message_bytes shortMessage ps =
     (if length shortMessage > 0 then shortMessage else message_payload ps)"

lemma BuildSubmitSM_wf:
  assumes "fits 21 src" and "fits 21 dst" and "msg \<noteq> []" and "length msg < 65536"
  shows "\<exists>s. Body (fst (BuildSubmitSM b src dst msg)) = SubmitSM s \<and> submit_sm_wf s \<and>
    message_bytes (ss_ShortMessage s) (ss_OptionalParams s) = to_bytes msg \<and>
    ss_SourceAddr s = src \<and> ss_DestAddr s = dst"
  using assms
  by (cases "255 < length msg")
     (simp_all add: BuildSubmitSM_def Let_def split_beta mk_pdu_def submit_sm_wf_def
       submit_sm_fields_def option_wf_def message_bytes_def unat_u16)

lemma length_wire_SubmitSM:
  "Body p = SubmitSM s \<Longrightarrow>
   length (wire_bytes p) = 110 + length (ss_ShortMessage s) + length (put_options (ss_OptionalParams s))"
  by (simp add: wire_bytes_def Encode_def Let_def SubmitSM_Marshal_fixed)

lemma BuildSubmitSM_small:
  "length msg < 65536 \<Longrightarrow> length (wire_bytes (fst (BuildSubmitSM b src dst msg))) < 2 ^ 32"
  by (cases "255 < length msg")
     (simp_all add: BuildSubmitSM_def Let_def split_beta mk_pdu_def length_wire_SubmitSM)

text \<open>
  C33. A \<open>submit_sm\<close> that the builder makes carries any message of 1 to 65535 bytes: after encoding
  and decoding, the receiver takes exactly the bytes of the message from it (from the short message
  up to 255 bytes, from \<open>message_payload\<close> beyond), with the addresses the caller gave.
\<close>

theorem BuildSubmitSM_delivers:
  assumes "fits 21 src" and "fits 21 dst" and "msg \<noteq> []" and "length msg < 65536"
  shows "\<exists>p bs s. Encode (fst (BuildSubmitSM b src dst msg)) = Ok (p, bs) \<and> Decode bs = Ok p \<and>
    Body p = SubmitSM s \<and>
    message_bytes (ss_ShortMessage s) (ss_OptionalParams s) = to_bytes msg \<and>
    ss_SourceAddr s = src \<and> ss_DestAddr s = dst"
proof -
  let ?p = "fst (BuildSubmitSM b src dst msg)"
  obtain s where s: "Body ?p = SubmitSM s" "submit_sm_wf s"
    "message_bytes (ss_ShortMessage s) (ss_OptionalParams s) = to_bytes msg"
    "ss_SourceAddr s = src" "ss_DestAddr s = dst"
    using BuildSubmitSM_wf [OF assms] by blast
  obtain body where m: "SubmitSM_Marshal s = Ok body" using submit_sm.marshal_ok [OF s(2)] by blast
  then obtain p bs where e: "Encode ?p = Ok (p, bs)" by (auto simp: Encode_def Let_def s)
  from e have "Body p = Body ?p" by (rule Encode_OkD)
  moreover have "pdu_wf p" "wire_bytes p = bs"
    using Encode_pdu_wf [OF _ e] s BuildSubmitSM_small [OF assms(4), of b src dst] e
    by (simp_all add: wire_bytes_def)
  then have "DecodeFromReader bs = (Ok p, [])"
    using DecodeFromReader_wire [of p "[]"] by simp
  then have "Decode bs = Ok p" by (auto dest: DecodeFromReader_exact)
  ultimately show ?thesis using e s by auto
qed

text \<open>The decoder on the bytes that \<open>Encode\<close> made for any body that marshals.\<close>

lemma Decode_of_Encode:
  assumes m: "body_Marshal (Body p) = Ok body" and l: "length body < 2 ^ 32 - 16"
  obtains p' bs where "Encode p = Ok (p', bs)" and "Decode bs = decode_body (Header p') body"
    and "Body p' = Body p" and "h_CommandID (Header p') = body_CommandID (Body p)"
proof -
  obtain p' bs where e: "Encode p = Ok (p', bs)" using m by (auto simp: Encode_def Let_def)
  from e obtain body' where b: "body_Marshal (Body p) = Ok body'" "bs = header_bytes (Header p') @ body'"
    "Body p' = Body p" "h_CommandLength (Header p') = word_of_nat (16 + length body')"
    "h_CommandID (Header p') = body_CommandID (Body p)"
    by (rule Encode_OkD)
  have "unat (h_CommandLength (Header p')) = 16 + length body'"
    unfolding b(4) by (rule unat_u32) (use l m b(1) in simp)
  then have "Decode bs = decode_body (Header p') body"
    using Decode_frame [of "Header p'" body' "[]"] l m b by simp
  with e b that show ?thesis by blast
qed

text \<open>
  \<open>BuildDeliverSM\<close> writes the length of the message into one byte.  The receiver of the encoded
  PDU gets the first \<open>length mod 256\<close> bytes of the message: all of it up to 255 bytes, and a
  truncated message from 256 bytes on.
\<close>

theorem BuildDeliverSM_truncates:
  assumes "fits 21 src" and "fits 21 dst" and "msg \<noteq> []" and "length msg < 2 ^ 31"
  shows "\<exists>p bs q s. Encode (fst (BuildDeliverSM b src dst msg dc)) = Ok (p, bs) \<and>
    Decode bs = Ok q \<and> Body q = DeliverSM s \<and>
    ds_ShortMessage s = take (length msg mod 256) msg \<and> ds_DataCoding s = dc \<and>
    ds_SourceAddr s = src \<and> ds_DestAddr s = dst"
proof -
  define p where "p = fst (BuildDeliverSM b src dst msg dc)"
  obtain d where d: "Body p = DeliverSM d" "ds_ShortMessage d = msg" "ds_OptionalParams d = []"
    "ds_SMLength d = word_of_nat (length msg)" "ds_DataCoding d = dc" "ds_SourceAddr d = src"
    "ds_DestAddr d = dst" "fits 6 (ds_ServiceType d)" "fits 17 (ds_ScheduleDeliveryTime d)"
    "fits 17 (ds_ValidityPeriod d)"
    by (auto simp: p_def BuildDeliverSM_def Let_def split_beta mk_pdu_def)
  let ?body = "deliver_sm_fixed d @ msg"
  have m: "body_Marshal (Body p) = Ok ?body"
    using d by (simp add: DeliverSM_Marshal_fixed)
  have "length ?body < 2 ^ 32 - 16" using assms(4) by simp
  then obtain p' bs where e: "Encode p = Ok (p', bs)" "Decode bs = decode_body (Header p') ?body"
    "h_CommandID (Header p') = body_CommandID (Body p)"
    using Decode_of_Encode [OF m] by blast
  have l: "95 \<le> length ?body" using assms(3) by (simp add: Suc_le_eq)
  have n: "unat (?body ! 93) = length msg mod 256"
    using d by (simp add: deliver_sm_fixed_def nth_append unat_of_nat)
  have f: "deliver_sm_of_fixed zero_deliver_sm (deliver_sm_fixed d)
      \<lparr>ds_ShortMessage := msg, ds_OptionalParams := []\<rparr> = d"
    using d assms
    by (cases d) (simp add: deliver_sm_of_fixed_def deliver_sm_fixed_def zero_deliver_sm_def
        wire_simps nth_append)
  let ?s = "deliver_sm_of_fixed zero_deliver_sm (deliver_sm_fixed d)
      \<lparr>ds_ShortMessage := take (length msg mod 256) msg,
        ds_OptionalParams := options_of (drop (length msg mod 256) msg)\<rparr>"
  have "DeliverSM_Unmarshal zero_deliver_sm ?body = Ok ?s"
    using DeliverSM_Unmarshal_eq [OF l, of zero_deliver_sm] n mod_less_eq_dividend [of "length msg" 256]
    by simp
  then have "Decode bs = Ok \<lparr>Header = Header p', Body = DeliverSM ?s\<rparr>"
    using e d assms(3)
    by (simp add: decode_body_def createPDUBody_def DeliverSM_CommandID_def)
  moreover have "ds_DataCoding ?s = dc" "ds_SourceAddr ?s = src" "ds_DestAddr ?s = dst"
    using arg_cong [OF f, of ds_DataCoding] arg_cong [OF f, of ds_SourceAddr]
      arg_cong [OF f, of ds_DestAddr] d by simp_all
  ultimately show ?thesis
    unfolding p_def [symmetric]
    by (intro exI [of _ p'] exI [of _ bs] exI [of _ "\<lparr>Header = Header p', Body = DeliverSM ?s\<rparr>"]
        exI [of _ ?s]) (use e in simp)
qed

text \<open>
  A \<open>submit_sm\<close> whose fields all fit, but which has neither a short message nor optional
  parameters, is encoded and then rejected by the decoder as too short; every other one is
  decoded to itself.
\<close>

theorem submit_sm_empty_rejected:
  assumes "Body p = SubmitSM s" and "submit_sm_fields s" and "length (wire_bytes p) < 2 ^ 32"
  shows "\<exists>p' bs. Encode p = Ok (p', bs) \<and> Body p' = SubmitSM s \<and>
    Decode bs =
      (if ss_ShortMessage s = [] \<and> ss_OptionalParams s = []
       then Err (Wrap ''failed to unmarshal PDU body'' (Errorf ''insufficient data for submit_sm''))
       else Ok p')"
proof -
  obtain body where m: "body_Marshal (Body p) = Ok body" "length body < 2 ^ 32 - 16"
    using assms by (auto simp: wire_bytes_def Encode_def Let_def SubmitSM_Marshal_fixed)
  obtain p' bs where e: "Encode p = Ok (p', bs)" "Decode bs = decode_body (Header p') body"
    "Body p' = Body p" "h_CommandID (Header p') = body_CommandID (Body p)"
    using Decode_of_Encode [OF m] by blast
  show ?thesis
  proof (cases "ss_ShortMessage s = [] \<and> ss_OptionalParams s = []")
    case True
    then have "body = submit_sm_fixed s" "body \<noteq> []"
      using m assms(1) length_submit_sm_fixed [of s] by (auto simp: SubmitSM_Marshal_fixed)
    with e True assms(1) show ?thesis
      by (simp add: decode_body_def createPDUBody_def SubmitSM_CommandID_def SubmitSM_Unmarshal_short)
  next
    case False
    then have "body_wf (Body p)" using assms by (simp add: submit_sm_wf_def)
    from decode_body_wf [OF this m(1) e(4)] e False assms(1) show ?thesis
      by (cases p') auto
  qed
qed

text \<open>
  The decoder rejects every PDU whose body it does not know, also those that the library
  itself builds and encodes: \<open>query_sm\<close>, \<open>replace_sm\<close>, \<open>cancel_sm\<close> and their responses,
  \<open>submit_multi_resp\<close>, \<open>data_sm_resp\<close> and \<open>generic_nack\<close>.
\<close>

theorem Decode_unsupported:
  assumes "\<not> decodable (Body p)" and "body_Marshal (Body p) = Ok body" and "length body < 2 ^ 32 - 16"
  shows "\<exists>p' bs. Encode p = Ok (p', bs) \<and>
    Decode bs = Err (Wrap ''failed to create PDU body'' (Errorf ''unsupported command ID''))"
proof -
  obtain p' bs where e: "Encode p = Ok (p', bs)" "Decode bs = decode_body (Header p') body"
    "h_CommandID (Header p') = body_CommandID (Body p)"
    using Decode_of_Encode [OF assms(2,3)] by blast
  have "createPDUBody (body_CommandID (Body p)) = Err (Errorf ''unsupported command ID'')"
    using assms(1,2)
    by (cases "Body p" rule: body_CommandID.cases)
       (auto simp: createPDUBody_def QuerySM_CommandID_def QuerySMResp_CommandID_def
        ReplaceSM_CommandID_def CancelSM_CommandID_def SubmitMulti_CommandID_def
        SubmitMultiResp_CommandID_def DataSM_CommandID_def DataSMResp_CommandID_def
        elim: empty_CommandID.elims)
  with e show ?thesis by (simp add: decode_body_def)
qed

text \<open>
  \<open>Unmarshal\<close> is not called on an empty body, so a PDU that is only a header decodes without
  an error for every supported command: a \<open>submit_sm\<close> or \<open>bind_receiver\<close> without content is taken as
  one whose fields are all zero.
\<close>

theorem Decode_header_only:
  "Decode (header_bytes \<lparr>h_CommandLength = 16, h_CommandID = c, h_CommandStatus = st, h_SequenceNum = seq\<rparr>) =
    (case createPDUBody c of
       Ok body \<Rightarrow> Ok \<lparr>Header = \<lparr>h_CommandLength = 16, h_CommandID = c, h_CommandStatus = st,
                                h_SequenceNum = seq\<rparr>, Body = body\<rparr>
     | Err e \<Rightarrow> Err (Wrap ''failed to create PDU body'' e)
     | Panic \<Rightarrow> Panic)"
proof -
  let ?h = "\<lparr>h_CommandLength = 16, h_CommandID = c, h_CommandStatus = st, h_SequenceNum = seq\<rparr>"
  have "Decode (header_bytes ?h) = decode_body ?h []"
    using Decode_frame [of ?h "[]" "[]"] by simp
  then show ?thesis by (cases "createPDUBody c") (simp_all add: decode_body_def)
qed

section \<open>Concrete instances\<close>

definition example_submit :: pdu where
  "example_submit = fst (BuildSubmitSM NewPDUBuilder ''1000'' ''2000'' ''hi'')"

definition example_link :: pdu where
  "example_link = \<lparr>Header = \<lparr>h_CommandLength = 16, h_CommandID = CommandEnquireLink,
     h_CommandStatus = StatusOK, h_SequenceNum = 7\<rparr>, Body = EmptyBody EnquireLink\<rparr>"

lemma example_link_wf: "pdu_wf example_link"
  by (simp add: pdu_wf_def example_link_def Encode_def empty_Marshal_def Let_def)

theorem Decode_Encode_witness:
  "\<exists>p' bs. Encode example_submit = Ok (p', bs) \<and> Decode bs = Ok p' \<and> Body p' = Body example_submit \<and>
    unat (h_CommandLength (Header p')) = length bs \<and>
    h_CommandID (Header p') = body_CommandID (Body example_submit) \<and>
    h_CommandStatus (Header p') = h_CommandStatus (Header example_submit) \<and>
    h_SequenceNum (Header p') = h_SequenceNum (Header example_submit)"
proof (rule Decode_Encode)
  show "body_wf (Body example_submit)"
    by (simp add: example_submit_def BuildSubmitSM_def Let_def split_beta mk_pdu_def submit_sm_wf_def
        submit_sm_fields_def fits_def)
  show "length (wire_bytes example_submit) < 2 ^ 32"
    unfolding example_submit_def by (rule BuildSubmitSM_small) simp
qed

theorem stream_round_trip_witness:
  "read_loop DecodeFromReader 3 (concat (map wire_bytes [example_link, example_link])) =
    ([example_link, example_link], Some (Err (Wrap ''failed to read PDU header'' (Errorf ''EOF''))))"
  by (rule stream_round_trip) (simp_all add: example_link_wf)

theorem DecodeFromReader_frame_exact_witness:
  "\<exists>frame. wire_bytes example_link @ [1, 2] = frame @ [1, 2] \<and>
    length frame = unat (h_CommandLength (Header example_link)) \<and>
    take 16 frame = header_bytes (Header example_link) \<and> Decode frame = Ok example_link"
  by (rule DecodeFromReader_frame_exact) (simp add: DecodeFromReader_wire example_link_wf)

theorem BuildSubmitSM_delivers_witness:
  "\<exists>p bs s. Encode (fst (BuildSubmitSM NewPDUBuilder ''1000'' ''2000'' ''hello'')) = Ok (p, bs) \<and>
    Decode bs = Ok p \<and> Body p = SubmitSM s \<and>
    message_bytes (ss_ShortMessage s) (ss_OptionalParams s) = to_bytes ''hello'' \<and>
    ss_SourceAddr s = ''1000'' \<and> ss_DestAddr s = ''2000''"
  by (rule BuildSubmitSM_delivers) (simp_all add: fits_def)

theorem BuildDeliverSM_truncates_witness:
  "\<exists>p bs q s. Encode (fst (BuildDeliverSM NewPDUBuilder ''1000'' ''2000'' (replicate 300 65) 0)) = Ok (p, bs) \<and>
    Decode bs = Ok q \<and> Body q = DeliverSM s \<and>
    ds_ShortMessage s = take (length (replicate 300 (65 :: byte)) mod 256) (replicate 300 65) \<and>
    ds_DataCoding s = 0 \<and> ds_SourceAddr s = ''1000'' \<and> ds_DestAddr s = ''2000''"
  by (rule BuildDeliverSM_truncates) (simp_all add: fits_def)

definition example_empty_submit :: pdu where
  "example_empty_submit = mk_pdu CommandSubmitSM StatusOK 1 (SubmitSM zero_submit_sm)"

theorem submit_sm_empty_rejected_witness:
  "\<exists>p' bs. Encode example_empty_submit = Ok (p', bs) \<and> Body p' = SubmitSM zero_submit_sm \<and>
    Decode bs =
      (if ss_ShortMessage zero_submit_sm = [] \<and> ss_OptionalParams zero_submit_sm = []
       then Err (Wrap ''failed to unmarshal PDU body'' (Errorf ''insufficient data for submit_sm''))
       else Ok p')"
proof (rule submit_sm_empty_rejected)
  show "Body example_empty_submit = SubmitSM zero_submit_sm"
    by (simp add: example_empty_submit_def mk_pdu_def)
  then show "length (wire_bytes example_empty_submit) < 2 ^ 32"
    by (simp add: length_wire_SubmitSM zero_submit_sm_def)
  show "submit_sm_fields zero_submit_sm"
    by (simp add: submit_sm_fields_def zero_submit_sm_def)
qed

theorem Decode_unsupported_witness:
  "\<exists>p' bs. Encode (BuildGenericNack 5 StatusOK) = Ok (p', bs) \<and>
    Decode bs = Err (Wrap ''failed to create PDU body'' (Errorf ''unsupported command ID''))"
  by (rule Decode_unsupported [where body = "[]"])
     (simp_all add: BuildGenericNack_def mk_pdu_def empty_Marshal_def)

end
