(* ===== verification/Unicode.thy ===== *)
theory Unicode
  imports Prelude
begin

text \<open>
  What the program uses of Go's Unicode support: \<open>for _, r := range text\<close> and \<open>[]rune(text)\<close>,
  \<open>string(runes)\<close>, \<open>utf8.ValidString\<close>, \<open>utf16.Encode\<close> and \<open>utf16.Decode\<close>.  A rune is a natural
  number; a byte that does not start a valid UTF-8 sequence is the rune U+FFFD, one byte wide.
\<close>

type_synonym rune = nat

definition RuneError :: rune where
  "RuneError = 0xFFFD"

definition scalar :: "rune \<Rightarrow> bool" where
  "scalar r \<longleftrightarrow> r < 0xD800 \<or> 0xE000 \<le> r \<and> r \<le> 0x10FFFF"

section \<open>UTF-8\<close>

definition cont :: "nat \<Rightarrow> bool" where
  "cont b \<longleftrightarrow> 0x80 \<le> b \<and> b \<le> 0xBF"

text \<open>The admissible second bytes after a first byte (\<open>acceptRanges\<close> of \<open>unicode/utf8\<close>).\<close>

definition second_ok :: "nat \<Rightarrow> nat \<Rightarrow> bool" where
  "second_ok b0 b1 \<longleftrightarrow>
     (if b0 = 0xE0 then 0xA0 else if b0 = 0xF0 then 0x90 else 0x80) \<le> b1 \<and>
     b1 \<le> (if b0 = 0xED then 0x9F else if b0 = 0xF4 then 0x8F else 0xBF)"

text \<open>\<open>utf8.DecodeRune\<close>: the rune and its width.\<close>

definition decode_rune :: "nat list \<Rightarrow> rune \<times> nat" where
  "decode_rune bs =
     (case bs of
        [] \<Rightarrow> (RuneError, 0)
      | b0 # t \<Rightarrow>
          if b0 < 0x80 then (b0, 1)
          else if 0xC2 \<le> b0 \<and> b0 \<le> 0xDF then
            (case t of
               b1 # _ \<Rightarrow> if cont b1 then ((b0 - 0xC0) * 64 + (b1 - 0x80), 2) else (RuneError, 1)
             | [] \<Rightarrow> (RuneError, 1))
          else if 0xE0 \<le> b0 \<and> b0 \<le> 0xEF then
            (case t of
               b1 # b2 # _ \<Rightarrow>
                 if second_ok b0 b1 \<and> cont b2
                 then ((b0 - 0xE0) * 4096 + (b1 - 0x80) * 64 + (b2 - 0x80), 3) else (RuneError, 1)
             | _ \<Rightarrow> (RuneError, 1))
          else if 0xF0 \<le> b0 \<and> b0 \<le> 0xF4 then
            (case t of
               b1 # b2 # b3 # _ \<Rightarrow>
                 if second_ok b0 b1 \<and> cont b2 \<and> cont b3
                 then ((b0 - 0xF0) * 262144 + (b1 - 0x80) * 4096 + (b2 - 0x80) * 64 + (b3 - 0x80), 4)
                 else (RuneError, 1)
             | _ \<Rightarrow> (RuneError, 1))
          else (RuneError, 1))"

lemma decode_rune_width: "bs \<noteq> [] \<Longrightarrow> 0 < snd (decode_rune bs)"
  by (auto simp: decode_rune_def split: list.splits)

text \<open>\<open>utf8.AppendRune\<close>\<close>

definition encode_rune :: "rune \<Rightarrow> nat list" where
  "encode_rune r0 =
     (let r = (if scalar r0 then r0 else RuneError) in
      if r < 0x80 then [r]
      else if r < 0x800 then [0xC0 + r div 64, 0x80 + r mod 64]
      else if r < 0x10000 then [0xE0 + r div 4096, 0x80 + r div 64 mod 64, 0x80 + r mod 64]
      else [0xF0 + r div 262144, 0x80 + r div 4096 mod 64, 0x80 + r div 64 mod 64, 0x80 + r mod 64])"

function decode_runes :: "nat list \<Rightarrow> rune list" where
  "decode_runes bs =
     (if bs = [] then [] else fst (decode_rune bs) # decode_runes (drop (snd (decode_rune bs)) bs))"
  by pat_completeness auto
termination
  by (relation "measure length") (auto simp: decode_rune_width)

declare decode_runes.simps [simp del]

text \<open>\<open>utf8.ValidString\<close>: no byte is decoded as an error of width 1.\<close>

function valid_utf8 :: "nat list \<Rightarrow> bool" where
  "valid_utf8 bs =
     (if bs = [] then True
      else decode_rune bs \<noteq> (RuneError, 1) \<and> valid_utf8 (drop (snd (decode_rune bs)) bs))"
  by pat_completeness auto
termination
  by (relation "measure length") (auto simp: decode_rune_width)

declare valid_utf8.simps [simp del]

definition codes :: "string \<Rightarrow> nat list" where
  "codes s = map of_char s"

definition string_of_codes :: "nat list \<Rightarrow> string" where
  "string_of_codes bs = map char_of bs"

definition runes :: "string \<Rightarrow> rune list" where
  "runes s = decode_runes (codes s)"

definition string_of_runes :: "rune list \<Rightarrow> string" where
  "string_of_runes rs = string_of_codes (concat (map encode_rune rs))"

definition ValidString :: "string \<Rightarrow> bool" where
  "ValidString s \<longleftrightarrow> valid_utf8 (codes s)"

lemma string_of_codes_codes [simp]: "string_of_codes (codes s) = s"
  by (simp add: string_of_codes_def codes_def comp_def)

lemma codes_string_of_codes: "list_all (\<lambda>b. b < 256) bs \<Longrightarrow> codes (string_of_codes bs) = bs"
  by (induction bs) (simp_all add: string_of_codes_def codes_def)

lemma codes_less: "list_all (\<lambda>b. b < 256) (codes s)"
  by (simp add: codes_def list_all_iff)

lemma split64: "(r::nat) div 64 * 64 + r mod 64 = r"
  by simp

lemma split4096: "(r::nat) div 4096 * 4096 + r div 64 mod 64 * 64 + r mod 64 = r"
proof -
  have "r div 4096 = r div 64 div 64" by (simp flip: div_mult2_eq)
  moreover have "r div 64 = r div 64 div 64 * 64 + r div 64 mod 64" by simp
  ultimately show ?thesis using split64 [of r] by linarith
qed

lemma split262144:
  "(r::nat) div 262144 * 262144 + r div 4096 mod 64 * 4096 + r div 64 mod 64 * 64 + r mod 64 = r"
proof -
  have "r div 262144 = r div 4096 div 64" by (simp flip: div_mult2_eq)
  moreover have "r div 4096 = r div 4096 div 64 * 64 + r div 4096 mod 64" by simp
  ultimately show ?thesis using split4096 [of r] by linarith
qed

lemma decode_encode_rune:
  assumes "scalar r"
  shows "decode_rune (encode_rune r @ rest) = (r, length (encode_rune r))"
proof -
  consider "r < 0x80" | "0x80 \<le> r" "r < 0x800" | "0x800 \<le> r" "r < 0x10000"
    | "0x10000 \<le> r" "r \<le> 0x10FFFF"
    using assms unfolding scalar_def by linarith
  then show ?thesis
  proof cases
    case 1
    then show ?thesis using assms by (simp add: encode_rune_def decode_rune_def)
  next
    case 2
    define x y where "x = r div 64" and "y = r mod 64"
    have r: "r = x * 64 + y" "y < 64" by (simp_all add: x_def y_def)
    then have "2 \<le> x" "x < 32" using 2 by linarith+
    moreover have "encode_rune r = [0xC0 + x, 0x80 + y]"
      using 2 assms by (simp add: encode_rune_def x_def y_def)
    ultimately show ?thesis using r by (simp add: decode_rune_def cont_def)
  next
    case 3
    define x y z where "x = r div 4096" and "y = r div 64 mod 64" and "z = r mod 64"
    have r: "r = x * 4096 + y * 64 + z" "y < 64" "z < 64"
      using split4096 [of r] by (simp_all add: x_def y_def z_def)
    have "x < 16" using r 3 by linarith
    moreover have "32 \<le> y" if "x = 0" using that r 3 by simp
    moreover have "y < 32" if "x = 13" using that r assms by (auto simp: scalar_def)
    moreover have "encode_rune r = [0xE0 + x, 0x80 + y, 0x80 + z]"
      using 3 assms by (simp add: encode_rune_def x_def y_def z_def)
    ultimately show ?thesis using r by (auto simp: decode_rune_def cont_def second_ok_def)
  next
    case 4
    define x y z w where "x = r div 262144" and "y = r div 4096 mod 64" and "z = r div 64 mod 64"
      and "w = r mod 64"
    have r: "r = x * 262144 + y * 4096 + z * 64 + w" "y < 64" "z < 64" "w < 64"
      using split262144 [of r] by (simp_all add: x_def y_def z_def w_def)
    have "x < 5" using r 4 by linarith
    moreover have "16 \<le> y" if "x = 0" using that r 4 by simp
    moreover have "y < 16" if "x = 4" using that r 4 by simp
    moreover have "encode_rune r = [0xF0 + x, 0x80 + y, 0x80 + z, 0x80 + w]"
      using 4 assms by (simp add: encode_rune_def x_def y_def z_def w_def)
    ultimately show ?thesis using r by (auto simp: decode_rune_def cont_def second_ok_def)
  qed
qed

lemma div64_unique: "y < 64 \<Longrightarrow> (x * 64 + y) div 64 = x \<and> (x * 64 + y) mod 64 = y" for x y :: nat
  by simp

text \<open>Conversely, a sequence that decodes is the encoding of its rune.\<close>

lemma encode_decode_rune:
  assumes "bs \<noteq> []" and "decode_rune bs = (r, n)" and "(r, n) \<noteq> (RuneError, 1)"
  shows "scalar r \<and> n \<le> length bs \<and> take n bs = encode_rune r"
proof -
  obtain b0 t where bs: "bs = b0 # t" using assms(1) by (cases bs) auto
  consider (1) "b0 < 0x80" "r = b0" "n = 1"
    | (2) b1 u where "0xC2 \<le> b0" "b0 \<le> 0xDF" "t = b1 # u" "cont b1"
        "r = (b0 - 0xC0) * 64 + (b1 - 0x80)" "n = 2"
    | (3) b1 b2 u where "0xE0 \<le> b0" "b0 \<le> 0xEF" "t = b1 # b2 # u" "second_ok b0 b1" "cont b2"
        "r = (b0 - 0xE0) * 4096 + (b1 - 0x80) * 64 + (b2 - 0x80)" "n = 3"
    | (4) b1 b2 b3 u where "0xF0 \<le> b0" "b0 \<le> 0xF4" "t = b1 # b2 # b3 # u" "second_ok b0 b1"
        "cont b2" "cont b3"
        "r = (b0 - 0xF0) * 262144 + (b1 - 0x80) * 4096 + (b2 - 0x80) * 64 + (b3 - 0x80)" "n = 4"
    using assms by (auto simp: decode_rune_def bs split: if_splits list.splits)
  then show ?thesis
  proof cases
    case 1
    then show ?thesis by (simp add: bs encode_rune_def scalar_def)
  next
    case 2
    define x y where "x = b0 - 0xC0" and "y = b1 - 0x80"
    have e: "b0 = 0xC0 + x" "b1 = 0x80 + y" "y < 64" "2 \<le> x" "x < 32"
      using 2 by (auto simp: x_def y_def cont_def)
    have r: "r = x * 64 + y" using 2 by (simp add: x_def y_def)
    have "0x80 \<le> r" "r < 0x800" using e r by linarith+
    moreover have "r div 64 = x" "r mod 64 = y" using div64_unique [of y x] e r by simp_all
    ultimately show ?thesis
      using 2 e by (simp add: bs encode_rune_def scalar_def)
  next
    case 3
    define x y z where "x = b0 - 0xE0" and "y = b1 - 0x80" and "z = b2 - 0x80"
    have e: "b0 = 0xE0 + x" "b1 = 0x80 + y" "b2 = 0x80 + z" "y < 64" "z < 64" "x < 16"
      "x = 0 \<Longrightarrow> 32 \<le> y" "x = 13 \<Longrightarrow> y < 32"
      using 3 by (auto simp: x_def y_def z_def cont_def second_ok_def split: if_splits)
    have r: "r = (x * 64 + y) * 64 + z" using 3 by (simp add: x_def y_def z_def)
    then have r': "r = x * 4096 + y * 64 + z" by simp
    have "0x800 \<le> r" using e r by (cases "x = 0") simp_all
    moreover have "r < 0x10000" using e(4-6) r' by linarith
    moreover have "scalar r"
    proof -
      consider "x < 13" | "x = 13" | "14 \<le> x" by linarith
      then show ?thesis using e r' by cases (simp_all add: scalar_def)
    qed
    moreover have "r div 64 = x * 64 + y" "r mod 64 = z" using div64_unique [of z "x * 64 + y"] e r by simp_all
    moreover have "r div 4096 = r div 64 div 64" by (simp flip: div_mult2_eq)
    moreover have "(x * 64 + y) div 64 = x" "(x * 64 + y) mod 64 = y" using div64_unique [of y x] e by simp_all
    ultimately show ?thesis
      using 3 e by (simp add: bs encode_rune_def)
  next
    case 4
    define x y z w where "x = b0 - 0xF0" and "y = b1 - 0x80" and "z = b2 - 0x80" and "w = b3 - 0x80"
    have e: "b0 = 0xF0 + x" "b1 = 0x80 + y" "b2 = 0x80 + z" "b3 = 0x80 + w" "y < 64" "z < 64" "w < 64"
      "x < 5" "x = 0 \<Longrightarrow> 16 \<le> y" "x = 4 \<Longrightarrow> y < 16"
      using 4 by (auto simp: x_def y_def z_def w_def cont_def second_ok_def split: if_splits)
    have r: "r = ((x * 64 + y) * 64 + z) * 64 + w" using 4 by (simp add: x_def y_def z_def w_def)
    have g: "0x10000 \<le> r" "r \<le> 0x10FFFF"
      using e r by (cases "x = 0"; cases "x = 4"; simp)+
    have "r div 64 = (x * 64 + y) * 64 + z" and w: "r mod 64 = w"
      using div64_unique [of w "(x * 64 + y) * 64 + z"] e r by simp_all
    moreover have "((x * 64 + y) * 64 + z) div 64 = x * 64 + y" "((x * 64 + y) * 64 + z) mod 64 = z"
      "(x * 64 + y) div 64 = x" "(x * 64 + y) mod 64 = y"
      using div64_unique [of z "x * 64 + y"] div64_unique [of y x] e by simp_all
    moreover have "r div 4096 = r div 64 div 64" "r div 262144 = r div 64 div 64 div 64"
      by (simp_all flip: div_mult2_eq)
    ultimately have d: "r div 262144 = x" "r div 4096 mod 64 = y" "r div 64 mod 64 = z"
      by simp_all
    have "scalar r" using g by (simp add: scalar_def)
    moreover from this have "encode_rune r = [b0, b1, b2, b3]"
      using g by (simp add: encode_rune_def d w e)
    ultimately show ?thesis using 4 by (simp add: bs)
  qed
qed

lemma scalar_RuneError [simp]: "scalar RuneError"
  by (simp add: scalar_def RuneError_def)

lemma encode_rune_not_Nil [simp]: "encode_rune r \<noteq> []"
  by (simp add: encode_rune_def Let_def)

lemma encode_rune_not_error:
  "scalar r \<Longrightarrow> decode_rune (encode_rune r @ rest) \<noteq> (RuneError, 1)"
  by (auto simp: decode_encode_rune) (simp add: encode_rune_def RuneError_def Let_def split: if_splits)

lemma encode_rune_less: "list_all (\<lambda>b. b < 256) (encode_rune r)"
proof -
  define q where "q = (if scalar r then r else RuneError)"
  have "q \<le> 0x10FFFF" by (simp add: q_def scalar_def RuneError_def split: if_splits)
  then have "q div 262144 < 16" by (simp add: div_less_iff_less_mult)
  moreover have "q div 64 < 64" if "q < 0x800" using that by (simp add: div_less_iff_less_mult)
  moreover have "q div 4096 < 32" if "q < 0x10000" using that by (simp add: div_less_iff_less_mult)
  moreover have "q mod 64 < 64" "q div 64 mod 64 < 64" "q div 4096 mod 64 < 64" by simp_all
  ultimately show ?thesis
    by (simp add: encode_rune_def flip: q_def) (auto simp: Let_def)
qed

lemma decode_runes_Nil [simp]: "decode_runes [] = []"
  by (simp add: decode_runes.simps)

lemma decode_runes_encode [simp]:
  "scalar r \<Longrightarrow> decode_runes (encode_rune r @ rest) = r # decode_runes rest"
  by (subst decode_runes.simps) (simp add: decode_encode_rune)

lemma valid_utf8_encode [simp]:
  "scalar r \<Longrightarrow> valid_utf8 (encode_rune r @ rest) = valid_utf8 rest"
  using encode_rune_not_error [of r rest]
  by (subst valid_utf8.simps) (simp, simp add: decode_encode_rune)

lemma decode_runes_concat: "list_all scalar rs \<Longrightarrow> decode_runes (concat (map encode_rune rs)) = rs"
  by (induction rs) simp_all

lemma valid_utf8_concat: "list_all scalar rs \<Longrightarrow> valid_utf8 (concat (map encode_rune rs))"
  by (induction rs) (simp_all add: valid_utf8.simps [of "[]"])

lemma encode_decode_runes:
  "valid_utf8 bs \<Longrightarrow> concat (map encode_rune (decode_runes bs)) = bs"
proof (induction bs rule: decode_runes.induct)
  case (1 bs)
  show ?case
  proof (cases "bs = []")
    case False
    let ?r = "fst (decode_rune bs)" and ?n = "snd (decode_rune bs)"
    have v: "decode_rune bs \<noteq> (RuneError, 1)" "valid_utf8 (drop ?n bs)"
      using 1(2) False by (simp_all add: valid_utf8.simps [of bs])
    have t: "take ?n bs = encode_rune ?r"
      using encode_decode_rune [OF False, of ?r ?n] v by simp
    have "concat (map encode_rune (decode_runes bs))
        = encode_rune ?r @ concat (map encode_rune (decode_runes (drop ?n bs)))"
      using False by (subst decode_runes.simps) simp
    also have "\<dots> = take ?n bs @ drop ?n bs" using 1(1) [OF False v(2)] t by simp
    finally show ?thesis by simp
  qed simp
qed

lemma decode_runes_scalar: "list_all scalar (decode_runes bs)"
proof (induction bs rule: decode_runes.induct)
  case (1 bs)
  have "scalar (fst (decode_rune bs))" if "bs \<noteq> []"
    using encode_decode_rune [OF that, of "fst (decode_rune bs)" "snd (decode_rune bs)"]
    by (cases "decode_rune bs = (RuneError, 1)") auto
  then show ?case using 1 by (subst decode_runes.simps) simp
qed

lemma valid_utf8_no_error: "RuneError \<notin> set (decode_runes bs) \<Longrightarrow> valid_utf8 bs"
proof (induction bs rule: decode_runes.induct)
  case (1 bs)
  show ?case
  proof (cases "bs = []")
    case False
    with 1(2) have "RuneError \<noteq> fst (decode_rune bs)"
      "RuneError \<notin> set (decode_runes (drop (snd (decode_rune bs)) bs))"
      by (simp_all add: decode_runes.simps [of bs])
    with 1(1) False show ?thesis by (subst valid_utf8.simps) auto
  qed (simp add: valid_utf8.simps)
qed

lemma concat_encode_less: "list_all (\<lambda>b. b < 256) (concat (map encode_rune rs))"
  using encode_rune_less by (induction rs) (auto simp: list_all_iff)

lemma runes_string_of_runes [simp]: "list_all scalar rs \<Longrightarrow> runes (string_of_runes rs) = rs"
  by (simp add: runes_def string_of_runes_def codes_string_of_codes concat_encode_less decode_runes_concat)

lemma string_of_runes_runes: "ValidString s \<Longrightarrow> string_of_runes (runes s) = s"
  by (simp add: ValidString_def runes_def string_of_runes_def encode_decode_runes)

lemma ValidString_string_of_runes: "list_all scalar rs \<Longrightarrow> ValidString (string_of_runes rs)"
  by (simp add: ValidString_def string_of_runes_def codes_string_of_codes concat_encode_less valid_utf8_concat)

lemma runes_scalar: "list_all scalar (runes s)"
  by (simp add: runes_def decode_runes_scalar)

lemma ValidString_no_error: "RuneError \<notin> set (runes s) \<Longrightarrow> ValidString s"
  by (simp add: runes_def ValidString_def valid_utf8_no_error)

lemma string_of_runes_append [simp]:
  "string_of_runes (rs @ qs) = string_of_runes rs @ string_of_runes qs"
  by (simp add: string_of_runes_def string_of_codes_def)

lemma string_of_runes_Nil [simp]: "string_of_runes [] = ''''"
  by (simp add: string_of_runes_def string_of_codes_def)

lemma length_runes_le: "length (runes s) \<le> length s"
proof -
  have "length (decode_runes bs) \<le> length bs" for bs
  proof (induction bs rule: decode_runes.induct)
    case (1 bs)
    then show ?case using decode_rune_width [of bs]
      by (subst decode_runes.simps) (cases bs; force)
  qed
  then show ?thesis unfolding runes_def by (metis codes_def length_map)
qed

section \<open>UTF-16\<close>

text \<open>\<open>utf16.Encode\<close> and \<open>utf16.Decode\<close>\<close>

definition utf16_encode_rune :: "rune \<Rightarrow> u16 list" where
  "utf16_encode_rune r =
     (if r < 0xD800 \<or> 0xE000 \<le> r \<and> r < 0x10000 then [word_of_nat r]
      else if 0x10000 \<le> r \<and> r \<le> 0x10FFFF
      then [word_of_nat (0xD800 + (r - 0x10000) div 1024), word_of_nat (0xDC00 + (r - 0x10000) mod 1024)]
      else [word_of_nat RuneError])"

definition utf16_encode :: "rune list \<Rightarrow> u16 list" where
  "utf16_encode rs = concat (map utf16_encode_rune rs)"

definition high_surrogate :: "u16 \<Rightarrow> bool" where
  "high_surrogate w \<longleftrightarrow> 0xD800 \<le> unat w \<and> unat w < 0xDC00"

definition low_surrogate :: "u16 \<Rightarrow> bool" where
  "low_surrogate w \<longleftrightarrow> 0xDC00 \<le> unat w \<and> unat w < 0xE000"

fun utf16_decode :: "u16 list \<Rightarrow> rune list" where
  "utf16_decode [] = []"
| "utf16_decode [w] = [if unat w < 0xD800 \<or> 0xE000 \<le> unat w then unat w else RuneError]"
| "utf16_decode (w # v # ws) =
     (if unat w < 0xD800 \<or> 0xE000 \<le> unat w then unat w # utf16_decode (v # ws)
      else if high_surrogate w \<and> low_surrogate v
      then ((unat w - 0xD800) * 1024 + (unat v - 0xDC00) + 0x10000) # utf16_decode ws
      else RuneError # utf16_decode (v # ws))"

lemma utf16_decode_Cons:
  "unat w < 0xD800 \<or> 0xE000 \<le> unat w \<Longrightarrow> utf16_decode (w # ws) = unat w # utf16_decode ws"
  by (cases ws) simp_all

lemma utf16_decode_encode_rune:
  assumes "scalar r"
  shows "utf16_decode (utf16_encode_rune r @ ws) = r # utf16_decode ws"
proof (cases "r < 0x10000")
  case True
  then show ?thesis
    using assms by (auto simp: scalar_def utf16_encode_rune_def utf16_decode_Cons unat_u16)
next
  case False
  define q where "q = r - 0x10000"
  have q: "q < 0x100000" "r = q + 0x10000" using False assms by (auto simp: q_def scalar_def)
  define x y where "x = q div 1024" and "y = q mod 1024"
  have "x < 1024" "y < 1024" "x * 1024 + y = q"
    using q by (simp_all add: x_def y_def div_less_iff_less_mult)
  moreover have "utf16_encode_rune r = [word_of_nat (0xD800 + x), word_of_nat (0xDC00 + y)]"
    using q by (simp add: utf16_encode_rune_def x_def y_def del: of_nat_add)
  ultimately show ?thesis
    using q by (simp add: high_surrogate_def low_surrogate_def unat_u16 del: of_nat_add)
qed

lemma utf16_decode_encode: "list_all scalar rs \<Longrightarrow> utf16_decode (utf16_encode rs) = rs"
  by (induction rs) (simp_all add: utf16_encode_def utf16_decode_encode_rune)

lemma utf16_decode_scalar: "list_all scalar (utf16_decode ws)"
proof (induction ws rule: utf16_decode.induct)
  case (2 w)
  have "unat w < 65536" by (rule unat_u16_less)
  then show ?case by (auto simp: scalar_def RuneError_def)
next
  case (3 w v ws)
  have "unat w < 65536" by (rule unat_u16_less)
  moreover have "scalar ((unat w - 0xD800) * 1024 + (unat v - 0xDC00) + 0x10000)"
    if "high_surrogate w" "low_surrogate v"
    using that unfolding high_surrogate_def low_surrogate_def scalar_def by linarith
  ultimately show ?case
    using 3 by (auto simp: scalar_def RuneError_def high_surrogate_def)
qed simp

section \<open>ASCII text\<close>

lemma decode_runes_ASCII: "list_all (\<lambda>b. b < 0x80) bs \<Longrightarrow> decode_runes bs = bs"
proof (induction bs)
  case (Cons b bs)
  then show ?case by (subst decode_runes.simps) (simp add: decode_rune_def)
qed simp

lemma runes_ASCII: "list_all (\<lambda>b. b < 0x80) (codes s) \<Longrightarrow> runes s = codes s"
  by (simp add: runes_def decode_runes_ASCII)

end
