(* ===== verification/TextEncoding.thy ===== *)
theory TextEncoding
  imports Unicode
begin

text \<open>
  \<open>pkg/encoding/text.go\<close>: the GSM 7-bit, UCS2 and binary encodings of SMS text, the choice of an
  encoding, and the splitting of a text into parts.  The Go maps are association lists with
  distinct keys, and distinct values, which is what makes the reverse maps well-defined although
  Go iterates a map in an unspecified order.
\<close>

section \<open>The GSM 7-bit alphabet\<close>

definition gsm7BitAlphabet :: "(rune \<times> byte) list" where
  "gsm7BitAlphabet =
     [(64, 0x00), (163, 0x01), (36, 0x02), (165, 0x03), (232, 0x04), (233, 0x05), (249, 0x06), (236, 0x07),
      (242, 0x08), (199, 0x09), (10, 0x0A), (216, 0x0B), (248, 0x0C), (13, 0x0D), (197, 0x0E), (229, 0x0F),
      (916, 0x10), (95, 0x11), (934, 0x12), (915, 0x13), (923, 0x14), (937, 0x15), (928, 0x16), (936, 0x17),
      (931, 0x18), (920, 0x19), (926, 0x1A), (27, 0x1B), (198, 0x1C), (230, 0x1D), (223, 0x1E), (201, 0x1F),
      (32, 0x20), (33, 0x21), (34, 0x22), (35, 0x23), (164, 0x24), (37, 0x25), (38, 0x26), (39, 0x27),
      (40, 0x28), (41, 0x29), (42, 0x2A), (43, 0x2B), (44, 0x2C), (45, 0x2D), (46, 0x2E), (47, 0x2F),
      (48, 0x30), (49, 0x31), (50, 0x32), (51, 0x33), (52, 0x34), (53, 0x35), (54, 0x36), (55, 0x37),
      (56, 0x38), (57, 0x39), (58, 0x3A), (59, 0x3B), (60, 0x3C), (61, 0x3D), (62, 0x3E), (63, 0x3F),
      (161, 0x40), (65, 0x41), (66, 0x42), (67, 0x43), (68, 0x44), (69, 0x45), (70, 0x46), (71, 0x47),
      (72, 0x48), (73, 0x49), (74, 0x4A), (75, 0x4B), (76, 0x4C), (77, 0x4D), (78, 0x4E), (79, 0x4F),
      (80, 0x50), (81, 0x51), (82, 0x52), (83, 0x53), (84, 0x54), (85, 0x55), (86, 0x56), (87, 0x57),
      (88, 0x58), (89, 0x59), (90, 0x5A), (196, 0x5B), (214, 0x5C), (209, 0x5D), (220, 0x5E), (167, 0x5F),
      (191, 0x60), (97, 0x61), (98, 0x62), (99, 0x63), (100, 0x64), (101, 0x65), (102, 0x66), (103, 0x67),
      (104, 0x68), (105, 0x69), (106, 0x6A), (107, 0x6B), (108, 0x6C), (109, 0x6D), (110, 0x6E), (111, 0x6F),
      (112, 0x70), (113, 0x71), (114, 0x72), (115, 0x73), (116, 0x74), (117, 0x75), (118, 0x76), (119, 0x77),
      (120, 0x78), (121, 0x79), (122, 0x7A), (228, 0x7B), (246, 0x7C), (241, 0x7D), (252, 0x7E), (224, 0x7F)]"

definition gsm7BitExtended :: "(rune \<times> byte) list" where
  "gsm7BitExtended =
     [(12, 0x0A), (94, 0x14), (123, 0x28), (125, 0x29), (92, 0x2F), (91, 0x3C), (126, 0x3D), (93, 0x3E),
      (124, 0x40), (8364, 0x65)]"

text \<open>The reverse maps that \<open>init\<close> builds by ranging over the two maps.\<close>

definition reverse_map :: "(rune \<times> byte) list \<Rightarrow> byte \<Rightarrow> rune option" where
  "reverse_map m = fold (\<lambda>(r, b) rev. rev(b \<mapsto> r)) m Map.empty"

definition gsm7BitReverse :: "byte \<Rightarrow> rune option" where
  "gsm7BitReverse = reverse_map gsm7BitAlphabet"

definition gsm7BitExtendedReverse :: "byte \<Rightarrow> rune option" where
  "gsm7BitExtendedReverse = reverse_map gsm7BitExtended"

definition alphabet :: "rune \<Rightarrow> byte option" where
  "alphabet = map_of gsm7BitAlphabet"

definition extended :: "rune \<Rightarrow> byte option" where
  "extended = map_of gsm7BitExtended"

section \<open>Encoding and decoding\<close>

definition gsm_encode_rune :: "rune \<Rightarrow> byte list" where
  "gsm_encode_rune r =
     (case alphabet r of
        Some b \<Rightarrow> [b]
      | None \<Rightarrow> (case extended r of Some b \<Rightarrow> [0x1B, b] | None \<Rightarrow> [the (alphabet 63)]))"

definition EncodeGSM7Bit :: "string \<Rightarrow> byte list result" where
  "EncodeGSM7Bit text = Ok (concat (map gsm_encode_rune (runes text)))"

text \<open>The decoding loop; 32 is the space that stands for what cannot be decoded.\<close>

fun gsm_decode :: "byte list \<Rightarrow> rune list" where
  "gsm_decode [] = []"
| "gsm_decode [b] = [case gsm7BitReverse b of Some r \<Rightarrow> r | None \<Rightarrow> 32]"
| "gsm_decode (b # c # bs) =
     (if b = 0x1B then (case gsm7BitExtendedReverse c of Some r \<Rightarrow> r | None \<Rightarrow> 32) # gsm_decode bs
      else (case gsm7BitReverse b of Some r \<Rightarrow> r | None \<Rightarrow> 32) # gsm_decode (c # bs))"

definition DecodeGSM7Bit :: "byte list \<Rightarrow> string result" where
  "DecodeGSM7Bit data = Ok (string_of_runes (gsm_decode data))"

definition EncodeUCS2 :: "string \<Rightarrow> byte list result" where
  "EncodeUCS2 text =
     (if \<not> ValidString text then Err (Errorf ''invalid UTF-8 string'')
      else Ok (concat (map put_be16 (utf16_encode (runes text)))))"

fun pair_codes :: "byte list \<Rightarrow> u16 list" where
  "pair_codes (a # b # bs) = get_be16 [a, b] # pair_codes bs"
| "pair_codes bs = []"

definition DecodeUCS2 :: "byte list \<Rightarrow> string result" where
  "DecodeUCS2 data =
     (if length data mod 2 \<noteq> 0 then Err (Errorf ''UCS2 data must have even length'')
      else Ok (string_of_runes (utf16_decode (pair_codes data))))"

definition Encode_text :: "string \<Rightarrow> u8 \<Rightarrow> byte list result" where
  "Encode_text text dataCoding =
     (if dataCoding = 0x00 then EncodeGSM7Bit text
      else if dataCoding = 0x08 then EncodeUCS2 text
      else if dataCoding = 0x04 then Ok (to_bytes text)
      else Err (Errorf ''unsupported data coding''))"

definition Decode_text :: "byte list \<Rightarrow> u8 \<Rightarrow> string result" where
  "Decode_text data dataCoding =
     (if dataCoding = 0x00 then DecodeGSM7Bit data
      else if dataCoding = 0x08 then DecodeUCS2 data
      else if dataCoding = 0x04 then Ok (of_bytes data)
      else Err (Errorf ''unsupported data coding''))"

definition in_gsm :: "rune \<Rightarrow> bool" where
  "in_gsm r \<longleftrightarrow> alphabet r \<noteq> None \<or> extended r \<noteq> None"

definition DetectOptimalEncoding :: "string \<Rightarrow> u8" where
  "DetectOptimalEncoding text =
     (let canUseGSM7Bit = list_all in_gsm (runes text) in
      if canUseGSM7Bit then 0x00
      else
        let isASCII = list_all (\<lambda>r. \<not> r > 127) (runes text) in
        if isASCII then 0x04 else 0x08)"

section \<open>Lengths and parts\<close>

definition GetMaxLength :: "u8 \<Rightarrow> bool \<Rightarrow> nat" where
  "GetMaxLength dataCoding hasUDH =
     (let baseLength = (if dataCoding = 0x00 then 160 else if dataCoding = 0x04 then 140
                        else if dataCoding = 0x08 then 70 else 160) in
      if hasUDH then
        (if dataCoding = 0x00 then 153 else if dataCoding = 0x04 then 134
         else if dataCoding = 0x08 then 67 else baseLength)
      else baseLength)"

text \<open>The splitting loop; \<open>maxLength\<close> is positive.\<close>

function split_runes :: "nat \<Rightarrow> rune list \<Rightarrow> string list" where
  "split_runes maxLength rs =
     (if rs = [] \<or> maxLength = 0 then []
      else if length rs \<le> maxLength then [string_of_runes rs]
      else string_of_runes (take maxLength rs) # split_runes maxLength (drop maxLength rs))"
  by pat_completeness auto
termination
  by (relation "measure (length \<circ> snd)") auto

declare split_runes.simps [simp del]

definition SplitMessage :: "string \<Rightarrow> u8 \<Rightarrow> string list result" where
  "SplitMessage text dataCoding =
     (let maxLength = GetMaxLength dataCoding True in
      if length text \<le> maxLength then Ok [text] else Ok (split_runes maxLength (runes text)))"

definition ValidateText :: "string \<Rightarrow> u8 \<Rightarrow> unit result" where
  "ValidateText text dataCoding =
     (if dataCoding = 0x00 then
        (if list_all in_gsm (runes text) then Ok ()
         else Err (Errorf ''character not supported in GSM 7-bit encoding''))
      else if dataCoding = 0x08 then
        (if \<not> ValidString text then Err (Errorf ''invalid UTF-8 string for UCS2 encoding'') else Ok ())
      else Ok ())"

definition CalculateEncodedLength :: "string \<Rightarrow> u8 \<Rightarrow> nat result" where
  "CalculateEncodedLength text dataCoding = res_map length (Encode_text text dataCoding)"

definition EstimatePartCount :: "string \<Rightarrow> u8 \<Rightarrow> nat" where
  "EstimatePartCount text dataCoding =
     (let maxSingle = GetMaxLength dataCoding False;
          maxMulti = GetMaxLength dataCoding True;
          textLen = length (runes text)
      in if textLen \<le> maxSingle then 1 else (textLen + maxMulti - 1) div maxMulti)"

section \<open>The tables\<close>

lemma distinct_tables:
  "distinct (map fst (gsm7BitAlphabet @ gsm7BitExtended))"
  "distinct (map snd gsm7BitAlphabet)" "distinct (map snd gsm7BitExtended)"
proof -
  show "distinct (map fst (gsm7BitAlphabet @ gsm7BitExtended))"
    by (simp add: gsm7BitAlphabet_def gsm7BitExtended_def)
  have "distinct (map unat (map snd gsm7BitAlphabet))" "distinct (map unat (map snd gsm7BitExtended))"
    by (simp_all add: gsm7BitAlphabet_def gsm7BitExtended_def)
  then show "distinct (map snd gsm7BitAlphabet)" "distinct (map snd gsm7BitExtended)"
    by (simp_all only: distinct_map)
qed

lemma reverse_map_of:
  "distinct (map snd m) \<Longrightarrow> reverse_map m b = Some r \<longleftrightarrow> (r, b) \<in> set m"
proof -
  have "fold (\<lambda>(r, b) rev. rev(b \<mapsto> r)) m rev b = Some r \<longleftrightarrow>
      (r, b) \<in> set m \<or> b \<notin> snd ` set m \<and> rev b = Some r"
    if "distinct (map snd m)" for rev
    using that
  proof (induction m arbitrary: rev)
    case (Cons p m)
    then show ?case by (cases p) (auto simp: rev_image_eqI)
  qed simp
  then show "distinct (map snd m) \<Longrightarrow> reverse_map m b = Some r \<longleftrightarrow> (r, b) \<in> set m"
    by (simp add: reverse_map_def)
qed

lemma alphabet_Some_iff: "alphabet r = Some b \<longleftrightarrow> (r, b) \<in> set gsm7BitAlphabet"
  using distinct_tables(1) by (simp add: alphabet_def)

lemma extended_Some_iff: "extended r = Some b \<longleftrightarrow> (r, b) \<in> set gsm7BitExtended"
  using distinct_tables(1) by (simp add: extended_def)

lemma reverse_alphabet: "gsm7BitReverse b = Some r \<longleftrightarrow> alphabet r = Some b"
  by (simp add: gsm7BitReverse_def reverse_map_of distinct_tables alphabet_Some_iff)

lemma reverse_extended: "gsm7BitExtendedReverse b = Some r \<longleftrightarrow> extended r = Some b"
  by (simp add: gsm7BitExtendedReverse_def reverse_map_of distinct_tables extended_Some_iff)

lemma table_runes:
  "list_all (\<lambda>(r, b). scalar r \<and> r \<noteq> RuneError \<and> b \<noteq> 0x1B \<or> r = 27 \<and> b = 0x1B) gsm7BitAlphabet"
  "list_all (\<lambda>(r, b). scalar r \<and> r \<noteq> RuneError \<and> r \<noteq> 27) gsm7BitExtended"
  by (simp_all add: gsm7BitAlphabet_def gsm7BitExtended_def scalar_def RuneError_def)

lemma alphabet_scalar: "alphabet r = Some b \<Longrightarrow> scalar r \<and> r \<noteq> RuneError \<and> (r \<noteq> 27 \<longrightarrow> b \<noteq> 0x1B)"
  using table_runes(1) by (auto simp: alphabet_Some_iff list_all_iff scalar_def RuneError_def)

lemma extended_scalar: "extended r = Some b \<Longrightarrow> scalar r \<and> r \<noteq> RuneError \<and> r \<noteq> 27"
  using table_runes(2) by (auto simp: extended_Some_iff list_all_iff)

lemma alphabet_ASCII_byte: "alphabet 63 = Some 0x3F" "alphabet 32 = Some 0x20"
  by (simp_all add: alphabet_def gsm7BitAlphabet_def)

section \<open>Round trips\<close>

lemma gsm_decode_Cons:
  "b \<noteq> 0x1B \<Longrightarrow> gsm_decode (b # bs) = (case gsm7BitReverse b of Some r \<Rightarrow> r | None \<Rightarrow> 32) # gsm_decode bs"
  by (cases bs) simp_all

text \<open>What is left of a character after encoding and decoding: \<open>'?'\<close> when it has no encoding.\<close>

definition gsm_subst :: "rune \<Rightarrow> rune" where
  "gsm_subst r = (if in_gsm r then r else 63)"

lemma gsm_decode_encode_rune:
  "r \<noteq> 27 \<Longrightarrow> gsm_decode (gsm_encode_rune r @ bs) = gsm_subst r # gsm_decode bs"
proof -
  assume r: "r \<noteq> 27"
  have q: "gsm7BitReverse 0x3F = Some 63"
    by (simp only: reverse_alphabet alphabet_ASCII_byte)
  consider (a) b where "alphabet r = Some b" | (e) b where "alphabet r = None" "extended r = Some b"
    | (n) "alphabet r = None" "extended r = None" by fastforce
  then show ?thesis
  proof cases
    case a
    then have "gsm7BitReverse b = Some r" "b \<noteq> 0x1B"
      using alphabet_scalar [OF a] r by (simp_all add: reverse_alphabet)
    with a show ?thesis by (simp add: gsm_encode_rune_def gsm_decode_Cons gsm_subst_def in_gsm_def)
  next
    case e
    then have "gsm7BitExtendedReverse b = Some r" by (simp add: reverse_extended)
    with e show ?thesis by (simp add: gsm_encode_rune_def gsm_subst_def in_gsm_def)
  next
    case n
    then show ?thesis
      by (simp add: gsm_encode_rune_def gsm_decode_Cons gsm_subst_def in_gsm_def alphabet_ASCII_byte q)
  qed
qed

lemma gsm_decode_encode:
  "27 \<notin> set rs \<Longrightarrow> gsm_decode (concat (map gsm_encode_rune rs)) = map gsm_subst rs"
  by (induction rs) (simp_all add: gsm_decode_encode_rune)

lemma in_gsm_scalar: "in_gsm r \<Longrightarrow> scalar r \<and> r \<noteq> RuneError"
  using alphabet_scalar extended_scalar by (auto simp: in_gsm_def)

lemma gsm_text_valid: "list_all in_gsm (runes text) \<Longrightarrow> ValidString text"
  using in_gsm_scalar by (intro ValidString_no_error) (auto simp: list_all_iff)

lemma map_gsm_subst: "list_all in_gsm rs \<Longrightarrow> map gsm_subst rs = rs"
  by (induction rs) (simp_all add: gsm_subst_def)

lemma pair_codes_put: "pair_codes (concat (map put_be16 ws)) = ws"
proof (induction ws)
  case (Cons w ws)
  have "put_be16 w = [put_be16 w ! 0, put_be16 w ! 1]" by (simp add: put_be16_def)
  then have "pair_codes (put_be16 w @ bs) = get_be16 (put_be16 w) # pair_codes bs" for bs
    by (metis append_Cons append_Nil pair_codes.simps(1))
  with Cons show ?case by simp
qed simp

lemma even_put_be16: "even (length (concat (map put_be16 ws)))"
  by (induction ws) simp_all

lemma UCS2_round_trip:
  assumes "ValidString text"
  shows "\<exists>bs. EncodeUCS2 text = Ok bs \<and> DecodeUCS2 bs = Ok text"
  using assms even_put_be16 [of "utf16_encode (runes text)"]
  by (simp add: EncodeUCS2_def DecodeUCS2_def pair_codes_put utf16_decode_encode runes_scalar
      string_of_runes_runes even_iff_mod_2_eq_zero)

text \<open>
  The GSM 7-bit decoder undoes the encoder on every text without the escape character:
  each character that has a GSM encoding comes back, and each that has none comes back as \<open>'?'\<close>.
\<close>

theorem GSM7_round_trip:
  assumes "27 \<notin> set (runes text)"
  shows "\<exists>bs. EncodeGSM7Bit text = Ok bs \<and>
    DecodeGSM7Bit bs = Ok (string_of_runes (map (\<lambda>r. if in_gsm r then r else 63) (runes text)))"
  using gsm_decode_encode [OF assms]
  by (simp add: EncodeGSM7Bit_def DecodeGSM7Bit_def gsm_subst_def [abs_def])

text \<open>
  C31. The encoding that \<open>DetectOptimalEncoding\<close> picks loses nothing: every valid UTF-8 text without
  the escape character passes \<open>ValidateText\<close> for it, is encoded, and is decoded to itself.
\<close>

theorem DetectOptimalEncoding_lossless:
  assumes "ValidString text" and "27 \<notin> set (runes text)"
  shows "\<exists>bs. ValidateText text (DetectOptimalEncoding text) = Ok () \<and>
    Encode_text text (DetectOptimalEncoding text) = Ok bs \<and>
    Decode_text bs (DetectOptimalEncoding text) = Ok text"
proof (cases "list_all in_gsm (runes text)")
  case True
  then show ?thesis
    using gsm_decode_encode [OF assms(2)] assms(1)
    by (simp add: DetectOptimalEncoding_def ValidateText_def Encode_text_def Decode_text_def
        EncodeGSM7Bit_def DecodeGSM7Bit_def map_gsm_subst string_of_runes_runes)
next
  case False
  then have "DetectOptimalEncoding text = 4 \<or> DetectOptimalEncoding text = 8"
    by (simp add: DetectOptimalEncoding_def Let_def)
  then show ?thesis
    using UCS2_round_trip [OF assms(1)] assms(1)
    by (elim disjE) (simp_all add: ValidateText_def Encode_text_def Decode_text_def)
qed

text \<open>
  The escape character is itself in the alphabet table, so a text that contains it passes
  \<open>ValidateText\<close> for GSM 7-bit and is not decoded to itself: ESC followed by \<open>e\<close> comes back as
  the euro sign.
\<close>

theorem GSM7_escape_confused:
  "runes [CHR 0x1B, CHR ''e''] = [27, 101] \<and>
   ValidateText [CHR 0x1B, CHR ''e''] 0 = Ok () \<and> DetectOptimalEncoding [CHR 0x1B, CHR ''e''] = 0 \<and>
   res_bind (EncodeGSM7Bit [CHR 0x1B, CHR ''e'']) DecodeGSM7Bit = Ok (string_of_runes [0x20AC])"
proof -
  have r: "runes [CHR 0x1B, CHR ''e''] = [27, 101]"
    by (subst runes_ASCII) (simp_all add: codes_def)
  have a: "alphabet 27 = Some 0x1B" "alphabet 101 = Some 0x65" "extended 0x20AC = Some 0x65"
    by (simp_all add: alphabet_def extended_def gsm7BitAlphabet_def gsm7BitExtended_def)
  have "gsm7BitExtendedReverse 0x65 = Some 0x20AC"
    by (simp only: reverse_extended a)
  then show ?thesis
    by (simp add: r a ValidateText_def DetectOptimalEncoding_def in_gsm_def EncodeGSM7Bit_def
        DecodeGSM7Bit_def gsm_encode_rune_def)
qed

section \<open>Splitting\<close>

lemma GetMaxLength_bounds:
  "67 \<le> GetMaxLength dc True" "GetMaxLength dc True \<le> GetMaxLength dc False" "GetMaxLength dc False \<le> 160"
  by (auto simp: GetMaxLength_def)

lemma concat_split_runes: "0 < m \<Longrightarrow> concat (split_runes m rs) = string_of_runes rs"
proof (induction m rs rule: split_runes.induct)
  case (1 m rs)
  show ?case
  proof (cases "rs = [] \<or> length rs \<le> m")
    case False
    then have "concat (split_runes m rs) = string_of_runes (take m rs @ drop m rs)"
      using 1 by (subst split_runes.simps) (simp del: append_take_drop_id)
    then show ?thesis by simp
  qed (use 1 in \<open>auto simp: split_runes.simps [of m rs]\<close>)
qed

lemma split_runes_bound:
  "list_all scalar rs \<Longrightarrow> list_all (\<lambda>p. length (runes p) \<le> m) (split_runes m rs)"
proof (induction m rs rule: split_runes.induct)
  case (1 m rs)
  have "list_all scalar (take m rs)" "list_all scalar (drop m rs)"
    using 1(2) by (auto simp: list_all_iff dest: in_set_takeD in_set_dropD)
  with 1 show ?case by (subst split_runes.simps) auto
qed

lemma ceil_step: "0 < n \<Longrightarrow> 0 < m \<Longrightarrow> (n + m - 1) div m = 1 + (n - 1) div m" for n m :: nat
proof -
  assume "0 < n" "0 < m"
  then have e: "n + m - 1 = (n - 1) + m" by linarith
  have "(n - 1 + m) div m = (n - 1) div m + 1"
    by (rule div_add_self2) (use \<open>0 < m\<close> in simp)
  then show ?thesis unfolding e by (simp only: add.commute)
qed

lemma length_split_runes: "0 < m \<Longrightarrow> length (split_runes m rs) = (length rs + m - 1) div m"
proof (induction m rs rule: split_runes.induct)
  case (1 m rs)
  consider "rs = []" | "rs \<noteq> []" "length rs \<le> m" | "m < length rs" by linarith
  then show ?case
  proof cases
    case 1
    then show ?thesis using "1.prems" by (simp add: split_runes.simps)
  next
    case 2
    then have "(length rs + m - 1) div m = 1"
      by (cases "length rs") (auto simp: div_nat_eqI)
    then show ?thesis using 2 "1.prems" by (subst split_runes.simps) simp
  next
    case 3
    then have "length (split_runes m rs) = 1 + (length rs - m + m - 1) div m"
      using "1.IH" "1.prems" by (subst split_runes.simps) auto
    also have "length rs - m + m - 1 = length rs - 1" using 3 by linarith
    also have "1 + (length rs - 1) div m = (length rs + m - 1) div m"
      by (rule ceil_step [symmetric]) (use 3 "1.prems" in linarith)+
    finally show ?thesis .
  qed
qed

text \<open>
  C32. \<open>SplitMessage\<close> loses no text: the parts of a valid text, put together, are the text, no part
  has more characters than the limit of its encoding for multi-part messages, and there are as
  many parts as the limit requires.
\<close>

theorem SplitMessage_parts:
  assumes "ValidString text"
  shows "\<exists>parts. SplitMessage text dc = Ok parts \<and> concat parts = text \<and>
    list_all (\<lambda>p. length (runes p) \<le> GetMaxLength dc True) parts \<and>
    length parts = (if length text \<le> GetMaxLength dc True then 1
      else (length (runes text) + GetMaxLength dc True - 1) div GetMaxLength dc True)"
proof -
  have m: "0 < GetMaxLength dc True" using GetMaxLength_bounds(1) [of dc] by simp
  show ?thesis
    using assms m length_runes_le [of "text"]
    by (simp add: SplitMessage_def Let_def concat_split_runes string_of_runes_runes
        split_runes_bound runes_scalar length_split_runes)
qed

text \<open>
  \<open>EstimatePartCount\<close> agrees with the number of parts that \<open>SplitMessage\<close> makes, except for the
  texts that fit in a single message but not in one part of a multi-part message: there the
  estimate is 1, and \<open>SplitMessage\<close> makes more parts.
\<close>

theorem EstimatePartCount_exact:
  assumes "SplitMessage text dc = Ok parts"
  shows "EstimatePartCount text dc = length parts \<longleftrightarrow>
    \<not> (GetMaxLength dc True < length (runes text) \<and> length (runes text) \<le> GetMaxLength dc False)"
proof -
  let ?m = "GetMaxLength dc True" and ?n = "length (runes text)"
  have m: "0 < ?m" "?m \<le> GetMaxLength dc False"
    using GetMaxLength_bounds [of dc] by simp_all
  consider "length text \<le> ?m" | "\<not> length text \<le> ?m" "?n \<le> ?m" | "?m < ?n" by linarith
  then show ?thesis
  proof cases
    case 1
    then show ?thesis
      using assms m length_runes_le [of "text"]
      by (auto simp: SplitMessage_def EstimatePartCount_def Let_def)
  next
    case 2
    then have "?n \<noteq> 0"
    proof -
      have "text \<noteq> []" using 2(1) m(1) by auto
      then have "codes text \<noteq> []" by (simp add: codes_def)
      then show ?thesis by (simp add: runes_def decode_runes.simps [of "codes text"])
    qed
    then have "0 < ?n" by simp
    then have "(?n + ?m - 1) div ?m = 1" using ceil_step [of ?n ?m] 2 m by simp
    with 2 show ?thesis
      using assms m by (auto simp: SplitMessage_def EstimatePartCount_def Let_def length_split_runes)
  next
    case 3
    then have "length parts = (?n + ?m - 1) div ?m"
      using assms m length_runes_le [of "text"]
      by (auto simp: SplitMessage_def Let_def length_split_runes split: if_splits)
    moreover have "2 \<le> (?n + ?m - 1) div ?m"
      using 3 m by (simp add: less_eq_div_iff_mult_less_eq)
    ultimately show ?thesis using 3 by (simp add: EstimatePartCount_def Let_def)
  qed
qed

text \<open>
  The limit counts characters, not the septets of their encoding: a part of 153 characters of
  the extension table takes 306 septets, twice what fits beside a user data header.
\<close>

theorem SplitMessage_septets:
  "\<exists>parts p bs. SplitMessage (replicate 160 CHR ''{'') 0 = Ok parts \<and> p \<in> set parts \<and>
     EncodeGSM7Bit p = Ok bs \<and> length bs = 306"
proof -
  have r: "runes (replicate n CHR ''{'') = replicate n 123" for n
    by (subst runes_ASCII) (simp_all add: codes_def list_all_iff)
  have s: "string_of_runes (replicate n 123) = replicate n CHR ''{''" for n
  proof -
    have "ValidString (replicate n CHR ''{'')"
      by (rule ValidString_no_error) (simp add: r RuneError_def)
    from string_of_runes_runes [OF this] show ?thesis by (simp add: r)
  qed
  have "alphabet 123 = None" "extended 123 = Some 0x28"
    by (simp_all add: alphabet_def extended_def gsm7BitAlphabet_def gsm7BitExtended_def)
  then have g: "gsm_encode_rune 123 = [0x1B, 0x28]" by (simp add: gsm_encode_rune_def)
  have "split_runes 153 (replicate 160 123) =
      [replicate 153 CHR ''{'', replicate 7 CHR ''{'']"
    by (simp add: split_runes.simps [of 153] s del: replicate.simps)
  then have "SplitMessage (replicate 160 CHR ''{'') 0 = Ok [replicate 153 CHR ''{'', replicate 7 CHR ''{'']"
    by (simp add: SplitMessage_def GetMaxLength_def r del: replicate.simps)
  moreover have "length (concat (map gsm_encode_rune (replicate n 123))) = 2 * n" for n
    by (induction n) (simp_all add: g)
  then have "\<exists>bs. EncodeGSM7Bit (replicate 153 CHR ''{'') = Ok bs \<and> length bs = 306"
    by (simp add: EncodeGSM7Bit_def r del: replicate.simps map_replicate)
  ultimately show ?thesis by (meson list.set_intros(1))
qed

section \<open>Concrete instances\<close>

theorem GSM7_round_trip_witness:
  "\<exists>bs. EncodeGSM7Bit ''a^`'' = Ok bs \<and>
    DecodeGSM7Bit bs = Ok (string_of_runes (map (\<lambda>r. if in_gsm r then r else 63) (runes ''a^`'')))"
  by (rule GSM7_round_trip) (subst runes_ASCII; simp add: codes_def)

lemma ValidString_ASCII: "list_all (\<lambda>b. b < 0x80) (codes s) \<Longrightarrow> ValidString s"
  by (rule ValidString_no_error) (auto simp: runes_ASCII RuneError_def list_all_iff)

theorem DetectOptimalEncoding_lossless_witness:
  "\<exists>bs. ValidateText ''h{i}'' (DetectOptimalEncoding ''h{i}'') = Ok () \<and>
    Encode_text ''h{i}'' (DetectOptimalEncoding ''h{i}'') = Ok bs \<and>
    Decode_text bs (DetectOptimalEncoding ''h{i}'') = Ok ''h{i}''"
  by (rule DetectOptimalEncoding_lossless) (simp_all add: ValidString_ASCII runes_ASCII codes_def)

theorem SplitMessage_parts_witness:
  "\<exists>parts. SplitMessage (replicate 200 CHR ''a'') 8 = Ok parts \<and>
    concat parts = replicate 200 CHR ''a'' \<and>
    list_all (\<lambda>p. length (runes p) \<le> GetMaxLength 8 True) parts \<and>
    length parts = (if length (replicate 200 CHR ''a'') \<le> GetMaxLength 8 True then 1
      else (length (runes (replicate 200 CHR ''a'')) + GetMaxLength 8 True - 1) div GetMaxLength 8 True)"
  by (rule SplitMessage_parts) (rule ValidString_ASCII, simp add: codes_def list_all_iff)

theorem EstimatePartCount_exact_witness:
  "EstimatePartCount ''abc'' 0 = length [''abc''] \<longleftrightarrow>
    \<not> (GetMaxLength 0 True < length (runes ''abc'') \<and> length (runes ''abc'') \<le> GetMaxLength 0 False)"
  by (rule EstimatePartCount_exact) (simp add: SplitMessage_def GetMaxLength_def)

end
