(* ===== verification/Messages.thy ===== *)
theory Messages
  imports PduTypes
begin

text \<open>
  The data that the components exchange (\<open>pkg/smpp/pdu.go\<close>, \<open>pkg/smpp/interfaces.go\<close>): times,
  sessions, messages, delivery reports, users and events.
\<close>

section \<open>Time\<close>

text \<open>
  A \<open>time.Time\<close> is its number of nanoseconds since 1970-01-01 00:00 UTC; the process is taken to
  run with UTC as its local zone, which matters only for the formatted dates.
\<close>

type_synonym time = int

definition zero_time :: time where
  "zero_time = - 62135596800000000000"

definition IsZero :: "time \<Rightarrow> bool" where
  "IsZero t \<longleftrightarrow> t = zero_time"

definition Unix :: "time \<Rightarrow> int" where
  "Unix t = t div 1000000000"

text \<open>The civil date of a day number (days since 1970-01-01), counting years from March.\<close>

definition civil_from_days :: "int \<Rightarrow> int \<times> int \<times> int" where
  "civil_from_days z0 =
     (let z = z0 + 719468;
          era = z div 146097;
          doe = z mod 146097;
          yoe = (doe - doe div 1460 + doe div 36524 - doe div 146096) div 365;
          doy = doe - (365 * yoe + yoe div 4 - yoe div 100);
          mp = (5 * doy + 2) div 153;
          d = doy - (153 * mp + 2) div 5 + 1;
          m = (if mp < 10 then mp + 3 else mp - 9);
          y = yoe + era * 400 + (if m \<le> 2 then 1 else 0)
      in (y, m, d))"

definition two_digits :: "int \<Rightarrow> string" where
  "two_digits n = [digit_char (nat (n div 10 mod 10)), digit_char (nat (n mod 10))]"

text \<open>\<open>t.Format("0601021504")\<close>: year, month, day, hour and minute, two digits each.\<close>

definition Format_0601021504 :: "time \<Rightarrow> string" where
  "Format_0601021504 t =
     (let secs = Unix t;
          (y, m, d) = civil_from_days (secs div 86400);
          sod = secs mod 86400
      in two_digits (y mod 100) @ two_digits m @ two_digits d
         @ two_digits (sod div 3600) @ two_digits (sod mod 3600 div 60))"

lemma length_Format [simp]: "length (Format_0601021504 t) = 10"
  by (simp add: Format_0601021504_def two_digits_def Let_def split_beta)

section \<open>Sessions\<close>

datatype session_state =
    SessionStateOpen | SessionStateBoundTX | SessionStateBoundRX | SessionStateBoundTRX
  | SessionStateUnbound | SessionStateClosed

fun session_state_String :: "session_state \<Rightarrow> string" where
  "session_state_String SessionStateOpen = ''OPEN''"
| "session_state_String SessionStateBoundTX = ''BOUND_TX''"
| "session_state_String SessionStateBoundRX = ''BOUND_RX''"
| "session_state_String SessionStateBoundTRX = ''BOUND_TRX''"
| "session_state_String SessionStateUnbound = ''UNBOUND''"
| "session_state_String SessionStateClosed = ''CLOSED''"

record session =
  se_ID :: string
  se_SystemID :: string
  se_Password :: string
  se_SystemType :: string
  se_BindType :: u32
  se_State :: session_state
  se_LastActivity :: time
  se_SequenceNum :: u32

section \<open>Messages\<close>

datatype message_status =
    MessageStatusSubmitted | MessageStatusEnroute | MessageStatusDelivered | MessageStatusExpired
  | MessageStatusDeleted | MessageStatusUndeliverable | MessageStatusAccepted
  | MessageStatusUnknown | MessageStatusRejected | MessageStatusSplit

fun message_status_String :: "message_status \<Rightarrow> string" where
  "message_status_String MessageStatusSubmitted = ''SUBMITTED''"
| "message_status_String MessageStatusEnroute = ''ENROUTE''"
| "message_status_String MessageStatusDelivered = ''DELIVERED''"
| "message_status_String MessageStatusExpired = ''EXPIRED''"
| "message_status_String MessageStatusDeleted = ''DELETED''"
| "message_status_String MessageStatusUndeliverable = ''UNDELIVERABLE''"
| "message_status_String MessageStatusAccepted = ''ACCEPTED''"
| "message_status_String MessageStatusUnknown = ''UNKNOWN''"
| "message_status_String MessageStatusRejected = ''REJECTED''"
| "message_status_String MessageStatusSplit = ''SPLIT''"

record message =
  m_ID :: string
  m_SessionID :: string
  m_SourceAddr :: address
  m_DestAddr :: address
  m_ShortMessage :: "byte list"
  m_DataCoding :: u8
  m_EsmClass :: u8
  m_RegisteredDelivery :: u8
  m_ValidityPeriod :: string
  m_ScheduleDeliveryTime :: string
  m_ServiceType :: string
  m_ProtocolID :: u8
  m_PriorityFlag :: u8
  m_Status :: message_status
  m_SubmitTime :: time
  m_DoneTime :: "time option"
  m_SubDate :: string
  m_DoneDate :: string
  m_Stat :: string
  m_Err :: string
  m_Text :: string

text \<open>\<open>&Message{}\<close>: the fields that a composite literal leaves out have their zero value.\<close>

definition zero_message :: message where
  "zero_message = \<lparr>m_ID = '''', m_SessionID = '''', m_SourceAddr = zero_address,
     m_DestAddr = zero_address, m_ShortMessage = [], m_DataCoding = 0, m_EsmClass = 0,
     m_RegisteredDelivery = 0, m_ValidityPeriod = '''', m_ScheduleDeliveryTime = '''',
     m_ServiceType = '''', m_ProtocolID = 0, m_PriorityFlag = 0, m_Status = MessageStatusSubmitted,
     m_SubmitTime = zero_time, m_DoneTime = None, m_SubDate = '''', m_DoneDate = '''',
     m_Stat = '''', m_Err = '''', m_Text = ''''\<rparr>"

record delivery_report =
  r_MessageID :: string
  r_SubmitDate :: string
  r_DoneDate :: string
  r_Status :: string
  r_Error :: string
  r_Text :: string
  r_SubmittedParts :: int
  r_DeliveredParts :: int
  r_Timestamp :: time
  r_SubmitTime :: time
  r_DoneTime :: time

definition zero_delivery_report :: delivery_report where
  "zero_delivery_report = \<lparr>r_MessageID = '''', r_SubmitDate = '''', r_DoneDate = '''', r_Status = '''',
     r_Error = '''', r_Text = '''', r_SubmittedParts = 0, r_DeliveredParts = 0,
     r_Timestamp = zero_time, r_SubmitTime = zero_time, r_DoneTime = zero_time\<rparr>"

section \<open>Search criteria\<close>

record sms_search_criteria =
  sc_SourceAddr :: string
  sc_DestAddr :: string
  sc_Status :: "message_status option"
  sc_FromDate :: "time option"
  sc_ToDate :: "time option"
  sc_Limit :: int
  sc_Offset :: int
  sc_SortBy :: string
  sc_SortOrder :: string

record report_search_criteria =
  rc_MessageID :: string
  rc_Status :: string
  rc_FromDate :: "time option"
  rc_ToDate :: "time option"
  rc_Limit :: int
  rc_Offset :: int
  rc_SortBy :: string
  rc_SortOrder :: string

section \<open>Users\<close>

type_synonym operation = string

definition OperationBind :: operation where "OperationBind = ''bind''"
definition OperationSubmit :: operation where "OperationSubmit = ''submit''"
definition OperationDeliver :: operation where "OperationDeliver = ''deliver''"
definition OperationQuery :: operation where "OperationQuery = ''query''"
definition OperationCancel :: operation where "OperationCancel = ''cancel''"
definition OperationReplace :: operation where "OperationReplace = ''replace''"
definition OperationUnbind :: operation where "OperationUnbind = ''unbind''"

lemmas operation_defs = OperationBind_def OperationSubmit_def OperationDeliver_def
  OperationQuery_def OperationCancel_def OperationReplace_def OperationUnbind_def

record user =
  u_ID :: string
  u_SystemID :: string
  u_Password :: string
  u_PasswordHash :: string
  u_Salt :: string
  u_Name :: string
  u_Email :: string
  u_SystemType :: string
  u_Permissions :: "operation \<rightharpoonup> bool"
  u_MaxConnections :: int
  u_RateLimit :: int
  u_Active :: bool
  u_Enabled :: bool
  u_CreatedAt :: time
  u_UpdatedAt :: time
  u_LastLogin :: time
  u_LoginCount :: int

section \<open>Events\<close>

datatype event_type =
    EventTypeSMSSubmitted | EventTypeSMSDelivered | EventTypeSMSFailed | EventTypeConnected
  | EventTypeDisconnected | EventTypeBound | EventTypeUnbound | EventTypeDeliveryReport

text \<open>
  Of the untyped \<open>Data\<close> of an event the entries with a string value are kept.  An event holds the
  session as it was when the event was published.
\<close>

record sms_event =
  sv_Type :: event_type
  sv_Timestamp :: time
  sv_MessageID :: string
  sv_Session :: session
  sv_Message :: message
  sv_Data :: "string \<rightharpoonup> string"

record connection_event =
  ce_Type :: event_type
  ce_Timestamp :: time
  ce_SessionID :: string
  ce_Session :: session
  ce_RemoteAddr :: string
  ce_Data :: "string \<rightharpoonup> string"

record delivery_event =
  de_Type :: event_type
  de_Timestamp :: time
  de_MessageID :: string
  de_Report :: delivery_report
  de_Session :: "session option"
  de_Data :: "string \<rightharpoonup> string"

datatype event = SMSEvent sms_event | ConnectionEvent connection_event | DeliveryEvent delivery_event

fun event_GetEventType :: "event \<Rightarrow> event_type" where
  "event_GetEventType (SMSEvent e) = sv_Type e"
| "event_GetEventType (ConnectionEvent e) = ce_Type e"
| "event_GetEventType (DeliveryEvent e) = de_Type e"

fun event_GetTimestamp :: "event \<Rightarrow> time" where
  "event_GetTimestamp (SMSEvent e) = sv_Timestamp e"
| "event_GetTimestamp (ConnectionEvent e) = ce_Timestamp e"
| "event_GetTimestamp (DeliveryEvent e) = de_Timestamp e"

fun event_GetData :: "event \<Rightarrow> string \<rightharpoonup> string" where
  "event_GetData (SMSEvent e) = sv_Data e"
| "event_GetData (ConnectionEvent e) = ce_Data e"
| "event_GetData (DeliveryEvent e) = de_Data e"

end
