(* ===== verification/Storage.thy ===== *)
theory Storage
  imports Messages "HOL-Library.List_Lexorder" "HOL-Library.Char_ord"
begin

text \<open>
  The in-memory stores of \<open>internal/storage/memory.go\<close> and the contracts of the interfaces they
  implement (\<open>SMSStorage\<close>, \<open>ReportStorage\<close>, \<open>UserAuth\<close> of \<open>pkg/smpp/interfaces.go\<close>).  Each
  operation runs under the store's lock, so it is one step on the state.  A call of \<open>time.Now()\<close> is
  an argument.  Where the source ranges over a Go map, the order of the keys is an argument: any
  enumeration of the domain.  \<open>sort.Slice\<close> is not stable, but as the order of its input is already
  arbitrary, sorting it stably has the same possible results.
\<close>

definition enumerates :: "('k \<rightharpoonup> 'v) \<Rightarrow> 'k list \<Rightarrow> bool" where
  "enumerates m ks \<longleftrightarrow> distinct ks \<and> set ks = dom m"

definition values_in :: "('k \<rightharpoonup> 'v) \<Rightarrow> 'k list \<Rightarrow> 'v list" where
  "values_in m ks = map (\<lambda>k. the (m k)) ks"

lemma set_values_in: "enumerates m ks \<Longrightarrow> set (values_in m ks) = ran m"
  by (force simp: enumerates_def values_in_def ran_def dom_def)

text \<open>64-bit two's complement, for the sum of offset and limit.\<close>

definition wrap64 :: "int \<Rightarrow> int" where
  "wrap64 x = (x + 2 ^ 63) mod 2 ^ 64 - 2 ^ 63"

lemma wrap64_id: "- (2 ^ 63) \<le> x \<Longrightarrow> x < 2 ^ 63 \<Longrightarrow> wrap64 x = x"
  by (simp add: wrap64_def)

text \<open>The paging at the end of \<open>SearchSMS\<close> and \<open>SearchReports\<close>.\<close>

definition page :: "int \<Rightarrow> int \<Rightarrow> 'a list \<Rightarrow> 'a list result" where
  "page offset limit results =
     (let start = offset; end0 = wrap64 (start + limit); n = int (length results) in
      if start \<ge> n then Ok []
      else
        let end1 = (if end0 > n then n else end0) in
        if limit > 0 then
          (if 0 \<le> start \<and> start \<le> end1
           then Ok (take (nat (end1 - start)) (drop (nat start) results)) else Panic)
        else Ok results)"

lemma page_eq:
  assumes "0 \<le> offset" and "0 < limit" and "offset + limit < 2 ^ 63"
  shows "page offset limit xs = Ok (take (nat limit) (drop (nat offset) xs))"
proof -
  have w: "wrap64 (offset + limit) = offset + limit" using assms by (intro wrap64_id) auto
  consider "int (length xs) \<le> offset" | "offset < int (length xs)" "offset + limit > int (length xs)"
    | "offset + limit \<le> int (length xs)" by linarith
  then show ?thesis
  proof cases
    case 1
    then show ?thesis by (simp add: page_def Let_def)
  next
    case 2
    then have "length (drop (nat offset) xs) \<le> nat limit"
      "nat (int (length xs) - offset) = length (drop (nat offset) xs)"
      using assms by (simp_all add: nat_diff_distrib')
    with 2 show ?thesis using assms by (simp add: page_def Let_def w)
  next
    case 3
    with assms show ?thesis by (simp add: page_def Let_def w)
  qed
qed

section \<open>The contract of SMSStorage\<close>

text \<open>The methods of the interface that the message handler calls, on a state of type \<open>'s\<close>.\<close>

record 's sms_ops =
  so_StoreSMS :: "'s \<Rightarrow> time \<Rightarrow> message \<Rightarrow> string result \<times> 's"
  so_GetSMS :: "'s \<Rightarrow> string \<Rightarrow> message result"
  so_UpdateSMS :: "'s \<Rightarrow> message \<Rightarrow> unit result \<times> 's"
  so_UpdateSMSStatus :: "'s \<Rightarrow> time \<Rightarrow> string \<Rightarrow> message_status \<Rightarrow> unit result \<times> 's"
  so_DeleteSMS :: "'s \<Rightarrow> string \<Rightarrow> unit result \<times> 's"

definition final_status :: "message_status \<Rightarrow> bool" where
  "final_status st \<longleftrightarrow> st = MessageStatusDelivered \<or> st = MessageStatusExpired \<or>
     st = MessageStatusDeleted \<or> st = MessageStatusUndeliverable \<or> st = MessageStatusRejected"

definition set_status :: "time \<Rightarrow> message_status \<Rightarrow> message \<Rightarrow> message" where
  "set_status now st m =
     (if final_status st
      then m\<lparr>m_Status := st, m_DoneTime := Some now, m_DoneDate := Format_0601021504 now\<rparr>
      else m\<lparr>m_Status := st\<rparr>)"

lemma m_ID_set_status [simp]: "m_ID (set_status now st m) = m_ID m"
  by (simp add: set_status_def)

text \<open>
  The promises: an invariant that every operation keeps, and a map that says what is stored.  An
  operation that succeeds has its effect on exactly one entry; one that fails leaves the map alone.
  A provider may promise this only for IDs that it can file.
\<close>

locale sms_storage =
  fixes ops :: "('s, 'e) sms_ops_scheme"
    and inv :: "'s \<Rightarrow> bool" and stored :: "'s \<Rightarrow> string \<rightharpoonup> message"
    and valid_ID :: "string \<Rightarrow> bool"
  assumes get: "inv s \<Longrightarrow> i \<noteq> '''' \<Longrightarrow>
      (case stored s i of Some m \<Rightarrow> so_GetSMS ops s i = Ok m
       | None \<Rightarrow> \<exists>e. so_GetSMS ops s i = Err e)"
    and get_empty: "\<exists>e. so_GetSMS ops s '''' = Err e"
    and store: "inv s \<Longrightarrow> valid_ID (m_ID m) \<Longrightarrow> so_StoreSMS ops s now m = (r, s') \<Longrightarrow>
      inv s' \<and> (case r of Ok j \<Rightarrow> j = m_ID m \<and>
                            stored s' = (stored s)(m_ID m \<mapsto> m\<lparr>m_SubmitTime := now\<rparr>)
                | Err e \<Rightarrow> stored s' = stored s | Panic \<Rightarrow> False)"
    and update: "inv s \<Longrightarrow> so_UpdateSMS ops s m = (u, s') \<Longrightarrow>
      inv s' \<and> (case u of Ok x \<Rightarrow> m_ID m \<in> dom (stored s) \<and> stored s' = (stored s)(m_ID m \<mapsto> m)
                | Err e \<Rightarrow> stored s' = stored s | Panic \<Rightarrow> False)"
    and update_status: "inv s \<Longrightarrow> so_UpdateSMSStatus ops s now i st = (u, s') \<Longrightarrow>
      inv s' \<and> (case u of Ok x \<Rightarrow> (\<exists>m. stored s i = Some m \<and>
                            stored s' = (stored s)(i \<mapsto> set_status now st m))
                | Err e \<Rightarrow> stored s' = stored s | Panic \<Rightarrow> False)"
    and delete: "inv s \<Longrightarrow> so_DeleteSMS ops s i = (u, s') \<Longrightarrow>
      inv s' \<and> (case u of Ok x \<Rightarrow> i \<in> dom (stored s) \<and> stored s' = (stored s)(i := None)
                | Err e \<Rightarrow> stored s' = stored s | Panic \<Rightarrow> False)"
    and inv_ID: "inv s \<Longrightarrow> stored s i = Some m \<Longrightarrow> m_ID m = i \<and> i \<noteq> ''''"
begin

lemma get_stored: "inv s \<Longrightarrow> stored s i = Some m \<Longrightarrow> so_GetSMS ops s i = Ok m"
  using get [of s i] inv_ID [of s i m] by auto

lemma get_Ok_iff: "inv s \<Longrightarrow> so_GetSMS ops s i = Ok m \<longleftrightarrow> stored s i = Some m"
  using get [of s i] get_empty [of s] inv_ID [of s i] by (cases "i = ''''") (auto split: option.splits)

lemma get_after_store:
  assumes "inv s" and "valid_ID (m_ID m)" and "so_StoreSMS ops s now m = (Ok j, s')"
  shows "so_GetSMS ops s' (m_ID m) = Ok (m\<lparr>m_SubmitTime := now\<rparr>)"
    and "i \<noteq> m_ID m \<Longrightarrow> so_GetSMS ops s' i = Ok m' \<longleftrightarrow> so_GetSMS ops s i = Ok m'"
  using store [OF assms(1,2,3)] assms(1) by (auto simp: get_Ok_iff)

lemma get_after_status:
  assumes "inv s" and "so_UpdateSMSStatus ops s now i st = (Ok u, s')"
  shows "\<exists>m. so_GetSMS ops s i = Ok m \<and> so_GetSMS ops s' i = Ok (set_status now st m)"
    and "j \<noteq> i \<Longrightarrow> so_GetSMS ops s' j = Ok m' \<longleftrightarrow> so_GetSMS ops s j = Ok m'"
  using update_status [OF assms(1,2)] assms(1) by (auto simp: get_Ok_iff)

end

section \<open>InMemorySMSStorage\<close>

record sms_store =
  ms_messages :: "string \<rightharpoonup> message"

definition NewInMemorySMSStorage :: sms_store where
  "NewInMemorySMSStorage = \<lparr>ms_messages = Map.empty\<rparr>"

definition StoreSMS :: "sms_store \<Rightarrow> time \<Rightarrow> message option \<Rightarrow> string result \<times> sms_store" where
  "StoreSMS s now message =
     (case message of
        None \<Rightarrow> (Err (Errorf ''message cannot be nil''), s)
      | Some m \<Rightarrow>
          if m_ID m = '''' then (Err (Errorf ''message ID cannot be empty''), s)
          else (Ok (m_ID m), s\<lparr>ms_messages := (ms_messages s)(m_ID m \<mapsto> m\<lparr>m_SubmitTime := now\<rparr>)\<rparr>))"

definition GetSMS :: "sms_store \<Rightarrow> string \<Rightarrow> message result" where
  "GetSMS s messageID =
     (if messageID = '''' then Err (Errorf ''message ID cannot be empty'')
      else case ms_messages s messageID of
             None \<Rightarrow> Err (Errorf ''message not found'')
           | Some m \<Rightarrow> Ok m)"

definition UpdateSMS :: "sms_store \<Rightarrow> message option \<Rightarrow> unit result \<times> sms_store" where
  "UpdateSMS s message =
     (case message of
        None \<Rightarrow> (Err (Errorf ''message and message ID cannot be empty''), s)
      | Some m \<Rightarrow>
          if m_ID m = '''' then (Err (Errorf ''message and message ID cannot be empty''), s)
          else case ms_messages s (m_ID m) of
                 None \<Rightarrow> (Err (Errorf ''message not found''), s)
               | Some _ \<Rightarrow> (Ok (), s\<lparr>ms_messages := (ms_messages s)(m_ID m \<mapsto> m)\<rparr>))"

definition UpdateSMSStatus ::
    "sms_store \<Rightarrow> time \<Rightarrow> string \<Rightarrow> message_status \<Rightarrow> unit result \<times> sms_store" where
  "UpdateSMSStatus s now messageID status =
     (if messageID = '''' then (Err (Errorf ''message ID cannot be empty''), s)
      else case ms_messages s messageID of
             None \<Rightarrow> (Err (Errorf ''message not found''), s)
           | Some m \<Rightarrow>
               let m1 = m\<lparr>m_Status := status\<rparr>;
                   m2 = (if status = MessageStatusDelivered \<or> status = MessageStatusExpired \<or>
                            status = MessageStatusDeleted \<or> status = MessageStatusUndeliverable \<or>
                            status = MessageStatusRejected
                         then m1\<lparr>m_DoneTime := Some now, m_DoneDate := Format_0601021504 now\<rparr> else m1)
               in (Ok (), s\<lparr>ms_messages := (ms_messages s)(messageID \<mapsto> m2)\<rparr>))"

definition matchesCriteria :: "message \<Rightarrow> sms_search_criteria \<Rightarrow> bool" where
  "matchesCriteria m c =
     (if sc_SourceAddr c \<noteq> '''' \<and> a_Addr (m_SourceAddr m) \<noteq> sc_SourceAddr c then False
      else if sc_DestAddr c \<noteq> '''' \<and> a_Addr (m_DestAddr m) \<noteq> sc_DestAddr c then False
      else if sc_Status c \<noteq> None \<and> Some (m_Status m) \<noteq> sc_Status c then False
      else if (case sc_FromDate c of None \<Rightarrow> False | Some t \<Rightarrow> m_SubmitTime m < t) then False
      else if (case sc_ToDate c of None \<Rightarrow> False | Some t \<Rightarrow> m_SubmitTime m > t) then False
      else True)"

definition SearchSMS ::
    "sms_store \<Rightarrow> string list \<Rightarrow> sms_search_criteria option \<Rightarrow> message list result" where
  "SearchSMS s order criteria =
     (case criteria of
        None \<Rightarrow> Err (Errorf ''search criteria cannot be nil'')
      | Some c \<Rightarrow>
          let found = filter (\<lambda>m. matchesCriteria m c) (values_in (ms_messages s) order);
              results = sort_key (\<lambda>m. - m_SubmitTime m) found
          in page (sc_Offset c) (sc_Limit c) results)"

definition DeleteSMS :: "sms_store \<Rightarrow> string \<Rightarrow> unit result \<times> sms_store" where
  "DeleteSMS s messageID =
     (if messageID = '''' then (Err (Errorf ''message ID cannot be empty''), s)
      else if ms_messages s messageID = None then (Err (Errorf ''message not found''), s)
      else (Ok (), s\<lparr>ms_messages := (ms_messages s)(messageID := None)\<rparr>))"

definition GetSMSByDateRange :: "sms_store \<Rightarrow> string list \<Rightarrow> time \<Rightarrow> time \<Rightarrow> message list result" where
  "GetSMSByDateRange s order from to =
     (let results = filter (\<lambda>m. (m_SubmitTime m = from \<or> m_SubmitTime m > from) \<and>
                               (m_SubmitTime m = to \<or> m_SubmitTime m < to))
                      (values_in (ms_messages s) order)
      in Ok (sort_key m_SubmitTime results))"

definition GetSMSCount :: "sms_store \<Rightarrow> int result" where
  "GetSMSCount s = Ok (int (card (dom (ms_messages s))))"

text \<open>The store as a provider of the interface.\<close>

definition memory_sms_ops :: "sms_store sms_ops" where
  "memory_sms_ops = \<lparr>so_StoreSMS = (\<lambda>s now m. StoreSMS s now (Some m)), so_GetSMS = GetSMS,
     so_UpdateSMS = (\<lambda>s m. UpdateSMS s (Some m)), so_UpdateSMSStatus = UpdateSMSStatus,
     so_DeleteSMS = DeleteSMS\<rparr>"

text \<open>Every message is filed under its own, non-empty ID.\<close>

definition sms_store_inv :: "sms_store \<Rightarrow> bool" where
  "sms_store_inv s \<longleftrightarrow> (\<forall>i m. ms_messages s i = Some m \<longrightarrow> m_ID m = i) \<and> ms_messages s '''' = None"

lemma NewInMemorySMSStorage_inv: "sms_store_inv NewInMemorySMSStorage"
  by (simp add: sms_store_inv_def NewInMemorySMSStorage_def)

interpretation memory_sms: sms_storage memory_sms_ops sms_store_inv ms_messages "\<lambda>i. i \<noteq> ''''"
proof
  fix s s' :: sms_store and i m now st r
  show "case ms_messages s i of Some m \<Rightarrow> so_GetSMS memory_sms_ops s i = Ok m
      | None \<Rightarrow> \<exists>e. so_GetSMS memory_sms_ops s i = Err e" if "i \<noteq> ''''"
    using that by (simp add: memory_sms_ops_def GetSMS_def split: option.split)
  show "\<exists>e. so_GetSMS memory_sms_ops s '''' = Err e"
    by (simp add: memory_sms_ops_def GetSMS_def)
  show "sms_store_inv s' \<and> (case r of Ok j \<Rightarrow> j = m_ID m \<and>
      ms_messages s' = (ms_messages s)(m_ID m \<mapsto> m\<lparr>m_SubmitTime := now\<rparr>)
      | Err e \<Rightarrow> ms_messages s' = ms_messages s | Panic \<Rightarrow> False)"
    if "sms_store_inv s" "m_ID m \<noteq> ''''" "so_StoreSMS memory_sms_ops s now m = (r, s')" for r
    using that by (auto simp: memory_sms_ops_def StoreSMS_def sms_store_inv_def split: if_splits)
  show "sms_store_inv s' \<and> (case r of Ok u \<Rightarrow> m_ID m \<in> dom (ms_messages s) \<and>
      ms_messages s' = (ms_messages s)(m_ID m \<mapsto> m)
      | Err e \<Rightarrow> ms_messages s' = ms_messages s | Panic \<Rightarrow> False)"
    if "sms_store_inv s" "so_UpdateSMS memory_sms_ops s m = (r, s')" for r
    using that by (auto simp: memory_sms_ops_def UpdateSMS_def sms_store_inv_def
        split: if_splits option.splits)
  show "sms_store_inv s' \<and> (case r of Ok u \<Rightarrow> (\<exists>m. ms_messages s i = Some m \<and>
      ms_messages s' = (ms_messages s)(i \<mapsto> set_status now st m))
      | Err e \<Rightarrow> ms_messages s' = ms_messages s | Panic \<Rightarrow> False)"
    if "sms_store_inv s" "so_UpdateSMSStatus memory_sms_ops s now i st = (r, s')" for r
    using that by (auto simp: memory_sms_ops_def UpdateSMSStatus_def sms_store_inv_def Let_def
        set_status_def final_status_def split: if_splits option.splits)
  show "sms_store_inv s' \<and> (case r of Ok u \<Rightarrow> i \<in> dom (ms_messages s) \<and>
      ms_messages s' = (ms_messages s)(i := None)
      | Err e \<Rightarrow> ms_messages s' = ms_messages s | Panic \<Rightarrow> False)"
    if "sms_store_inv s" "so_DeleteSMS memory_sms_ops s i = (r, s')" for r
    using that by (auto simp: memory_sms_ops_def DeleteSMS_def sms_store_inv_def split: if_splits)
  show "m_ID m = i \<and> i \<noteq> ''''" if "sms_store_inv s" "ms_messages s i = Some m"
    using that by (auto simp: sms_store_inv_def)
qed

text \<open>The states a store can reach, by any sequence of calls.\<close>

inductive sms_reach :: "sms_store \<Rightarrow> bool" where
  new: "sms_reach NewInMemorySMSStorage"
| store: "sms_reach s \<Longrightarrow> sms_reach (snd (StoreSMS s now m))"
| update: "sms_reach s \<Longrightarrow> sms_reach (snd (UpdateSMS s m))"
| status: "sms_reach s \<Longrightarrow> sms_reach (snd (UpdateSMSStatus s now i st))"
| delete: "sms_reach s \<Longrightarrow> sms_reach (snd (DeleteSMS s i))"

inductive_cases sms_reach_elims: "sms_reach s"

lemma finite_update: "finite (dom (ms_messages s)) \<Longrightarrow>
    finite (dom (ms_messages (snd (StoreSMS s now m)))) \<and>
    finite (dom (ms_messages (snd (UpdateSMS s m)))) \<and>
    finite (dom (ms_messages (snd (UpdateSMSStatus s now i st)))) \<and>
    finite (dom (ms_messages (snd (DeleteSMS s i))))"
  by (auto simp: StoreSMS_def UpdateSMS_def UpdateSMSStatus_def DeleteSMS_def Let_def split: option.split)

lemma sms_store_inv_ops:
  assumes "sms_store_inv s"
  shows "sms_store_inv (snd (StoreSMS s now m))" "sms_store_inv (snd (UpdateSMS s m))"
    "sms_store_inv (snd (UpdateSMSStatus s now i st))" "sms_store_inv (snd (DeleteSMS s i))"
  using assms
  by (auto simp: sms_store_inv_def StoreSMS_def UpdateSMS_def UpdateSMSStatus_def DeleteSMS_def Let_def
      split: option.split if_splits)

lemma sms_reach_inv: "sms_reach s \<Longrightarrow> sms_store_inv s \<and> finite (dom (ms_messages s))"
  by (induction rule: sms_reach.induct)
     (simp_all add: sms_store_inv_ops finite_update NewInMemorySMSStorage_inv, simp add: NewInMemorySMSStorage_def)

text \<open>
  After a successful \<open>StoreSMS\<close> the message is found under its ID as it was given, with the
  time of storing as its submit time; every other ID gives what it gave before.
\<close>

theorem StoreSMS_GetSMS:
  assumes "sms_reach s" and "m_ID m \<noteq> ''''"
  shows "\<exists>s'. StoreSMS s now (Some m) = (Ok (m_ID m), s') \<and> sms_reach s' \<and>
    GetSMS s' = (GetSMS s)(m_ID m := Ok (m\<lparr>m_SubmitTime := now\<rparr>))"
proof -
  let ?s = "snd (StoreSMS s now (Some m))"
  have "fst (StoreSMS s now (Some m)) = Ok (m_ID m)" using assms(2) by (simp add: StoreSMS_def)
  moreover have "GetSMS ?s i = ((GetSMS s)(m_ID m := Ok (m\<lparr>m_SubmitTime := now\<rparr>))) i" for i
    using assms(2) by (simp add: StoreSMS_def GetSMS_def)
  ultimately show ?thesis
    using sms_reach.store [OF assms(1), of now "Some m"]
    by (intro exI [of _ ?s]) (auto simp: prod_eq_iff)
qed

text \<open>
  \<open>UpdateSMSStatus\<close> changes the one message it names: its status, and for a final status the
  done time and the formatted done date; on a message that is not stored it fails and changes
  nothing.
\<close>

theorem UpdateSMSStatus_effect:
  assumes "sms_reach s"
  shows "case GetSMS s i of
      Ok m \<Rightarrow> UpdateSMSStatus s now i st =
        (Ok (), s\<lparr>ms_messages := (ms_messages s)(i \<mapsto>
           (if final_status st
            then m\<lparr>m_Status := st, m_DoneTime := Some now, m_DoneDate := Format_0601021504 now\<rparr>
            else m\<lparr>m_Status := st\<rparr>))\<rparr>)
    | Err e \<Rightarrow> UpdateSMSStatus s now i st = (Err e, s)
    | Panic \<Rightarrow> False"
  using sms_reach_inv [OF assms]
  by (auto simp: GetSMS_def UpdateSMSStatus_def final_status_def Let_def split: option.split)

text \<open>
  Whatever calls were made, a message that \<open>GetSMS\<close> returns has the ID it was asked for, and
  the store holds finitely many messages, as many as \<open>GetSMSCount\<close> says.
\<close>

theorem sms_store_consistent:
  assumes "sms_reach s"
  shows "GetSMSCount s = Ok (int (card {i. is_Ok (GetSMS s i)})) \<and> finite {i. is_Ok (GetSMS s i)} \<and>
    (\<forall>i m. GetSMS s i = Ok m \<longrightarrow> m_ID m = i)"
proof -
  have "{i. is_Ok (GetSMS s i)} = dom (ms_messages s)"
    using sms_reach_inv [OF assms] by (auto simp: GetSMS_def sms_store_inv_def split: option.splits)
  then show ?thesis
    using sms_reach_inv [OF assms]
    by (auto simp: GetSMSCount_def GetSMS_def sms_store_inv_def split: option.splits if_splits)
qed

lemma mset_values_in:
  "enumerates m ks \<Longrightarrow> mset (values_in m ks) = image_mset (\<lambda>k. the (m k)) (mset_set (dom m))"
  by (metis enumerates_def mset_map mset_set_set values_in_def)

text \<open>
  \<open>SearchSMS\<close> with a limit returns one page of a list that holds exactly the stored messages
  that match the criteria, each as often as it is stored, newest first.
\<close>

theorem SearchSMS_page:
  assumes "enumerates (ms_messages s) order" and "0 \<le> sc_Offset c" and "0 < sc_Limit c"
    and "sc_Offset c + sc_Limit c < 2 ^ 63"
  shows "\<exists>ms. SearchSMS s order (Some c) = Ok (take (nat (sc_Limit c)) (drop (nat (sc_Offset c)) ms)) \<and>
    sorted (rev (map m_SubmitTime ms)) \<and>
    mset ms = {# m \<in># image_mset (\<lambda>i. the (ms_messages s i)) (mset_set (dom (ms_messages s))).
                matchesCriteria m c #}"
proof -
  let ?ms = "sort_key (\<lambda>m. - m_SubmitTime m)
    (filter (\<lambda>m. matchesCriteria m c) (values_in (ms_messages s) order))"
  have "sorted (map (\<lambda>m. - m_SubmitTime m) ?ms)" by (rule sorted_sort_key)
  then have "sorted (rev (map m_SubmitTime ?ms))"
    by (simp add: sorted_wrt_rev sorted_wrt_map)
  then show ?thesis
    using page_eq [OF assms(2-4), of ?ms] mset_values_in [OF assms(1)]
    by (intro exI [of _ ?ms]) (simp add: SearchSMS_def Let_def)
qed

text \<open>
  Without a positive limit the offset is not applied: every match is returned, unless the
  offset is past the end, when nothing is.
\<close>

theorem SearchSMS_offset_ignored:
  assumes "enumerates (ms_messages s) order" and "sc_Limit c \<le> 0"
  shows "\<exists>ms. SearchSMS s order (Some c) = Ok ms \<and>
    (if sc_Offset c < int (length (filter (\<lambda>m. matchesCriteria m c) (values_in (ms_messages s) order)))
     then mset ms = {# m \<in># image_mset (\<lambda>i. the (ms_messages s i)) (mset_set (dom (ms_messages s))).
                      matchesCriteria m c #}
     else ms = [])"
  using assms mset_values_in [OF assms(1)] by (simp add: SearchSMS_def page_def Let_def)

section \<open>InMemoryReportStorage\<close>

record 's report_ops =
  ro_StoreReport :: "'s \<Rightarrow> delivery_report \<Rightarrow> unit result \<times> 's"
  ro_GetReport :: "'s \<Rightarrow> string \<Rightarrow> delivery_report result"

text \<open>What the message handler relies on of a \<open>ReportStorage\<close>.\<close>

locale report_storage =
  fixes ops :: "('s, 'e) report_ops_scheme"
    and reports :: "'s \<Rightarrow> string \<rightharpoonup> delivery_report"
  assumes get_report: "i \<noteq> '''' \<Longrightarrow>
      (case reports s i of Some r \<Rightarrow> ro_GetReport ops s i = Ok r
       | None \<Rightarrow> \<exists>e. ro_GetReport ops s i = Err e)"
    and store_report: "ro_StoreReport ops s r = (u, s') \<Longrightarrow>
      (case u of Ok x \<Rightarrow> r_MessageID r \<noteq> '''' \<and> reports s' = (reports s)(r_MessageID r \<mapsto> r)
       | Err e \<Rightarrow> reports s' = reports s | Panic \<Rightarrow> False)"
begin

lemma get_after_store_report:
  assumes "ro_StoreReport ops s r = (Ok x, s')"
  shows "ro_GetReport ops s' (r_MessageID r) = Ok r"
  using store_report [OF assms] get_report [of "r_MessageID r" s'] by simp

end

record report_store =
  rs_reports :: "string \<rightharpoonup> delivery_report"

definition NewInMemoryReportStorage :: report_store where
  "NewInMemoryReportStorage = \<lparr>rs_reports = Map.empty\<rparr>"

definition StoreReport :: "report_store \<Rightarrow> delivery_report option \<Rightarrow> unit result \<times> report_store" where
  "StoreReport s report =
     (case report of
        None \<Rightarrow> (Err (Errorf ''report cannot be nil''), s)
      | Some r \<Rightarrow>
          if r_MessageID r = '''' then (Err (Errorf ''report message ID cannot be empty''), s)
          else (Ok (), s\<lparr>rs_reports := (rs_reports s)(r_MessageID r \<mapsto> r)\<rparr>))"

definition GetReport :: "report_store \<Rightarrow> string \<Rightarrow> delivery_report result" where
  "GetReport s messageID =
     (if messageID = '''' then Err (Errorf ''message ID cannot be empty'')
      else case rs_reports s messageID of
             None \<Rightarrow> Err (Errorf ''report not found'')
           | Some r \<Rightarrow> Ok r)"

definition GetReportsByDateRange ::
    "report_store \<Rightarrow> string list \<Rightarrow> time \<Rightarrow> time \<Rightarrow> delivery_report list result" where
  "GetReportsByDateRange s order from to = Ok (values_in (rs_reports s) order)"

definition matchesReportCriteria :: "delivery_report \<Rightarrow> report_search_criteria \<Rightarrow> bool" where
  "matchesReportCriteria r c =
     (if rc_MessageID c \<noteq> '''' \<and> r_MessageID r \<noteq> rc_MessageID c then False
      else if rc_Status c \<noteq> '''' \<and> r_Status r \<noteq> rc_Status c then False
      else True)"

definition SearchReports ::
    "report_store \<Rightarrow> string list \<Rightarrow> report_search_criteria option \<Rightarrow> delivery_report list result" where
  "SearchReports s order criteria =
     (case criteria of
        None \<Rightarrow> Err (Errorf ''search criteria cannot be nil'')
      | Some c \<Rightarrow>
          page (rc_Offset c) (rc_Limit c)
            (filter (\<lambda>r. matchesReportCriteria r c) (values_in (rs_reports s) order)))"

definition DeleteReport :: "report_store \<Rightarrow> string \<Rightarrow> unit result \<times> report_store" where
  "DeleteReport s messageID =
     (if messageID = '''' then (Err (Errorf ''message ID cannot be empty''), s)
      else if rs_reports s messageID = None then (Err (Errorf ''report not found''), s)
      else (Ok (), s\<lparr>rs_reports := (rs_reports s)(messageID := None)\<rparr>))"

definition GetReportCount :: "report_store \<Rightarrow> int result" where
  "GetReportCount s = Ok (int (card (dom (rs_reports s))))"

definition memory_report_ops :: "report_store report_ops" where
  "memory_report_ops = \<lparr>ro_StoreReport = (\<lambda>s r. StoreReport s (Some r)), ro_GetReport = GetReport\<rparr>"

interpretation memory_reports: report_storage memory_report_ops rs_reports
proof
  fix s s' :: report_store and i r u
  show "case rs_reports s i of Some r \<Rightarrow> ro_GetReport memory_report_ops s i = Ok r
      | None \<Rightarrow> \<exists>e. ro_GetReport memory_report_ops s i = Err e" if "i \<noteq> ''''"
    using that by (simp add: memory_report_ops_def GetReport_def split: option.split)
  show "case u of Ok x \<Rightarrow> r_MessageID r \<noteq> '''' \<and> rs_reports s' = (rs_reports s)(r_MessageID r \<mapsto> r)
      | Err e \<Rightarrow> rs_reports s' = rs_reports s | Panic \<Rightarrow> False"
    if "ro_StoreReport memory_report_ops s r = (u, s')" for u
    using that by (auto simp: memory_report_ops_def StoreReport_def split: if_splits)
qed

section \<open>InMemoryUserAuth\<close>

record user_store =
  us_users :: "string \<rightharpoonup> user"

definition NewInMemoryUserAuth :: "time \<Rightarrow> time \<Rightarrow> user_store" where
  "NewInMemoryUserAuth now1 now2 =
     (let adminUser = \<lparr>u_ID = '''', u_SystemID = ''admin'', u_Password = ''admin123'', u_PasswordHash = '''',
            u_Salt = '''', u_Name = '''', u_Email = '''', u_SystemType = ''SMPP'',
            u_Permissions = [OperationBind \<mapsto> True, OperationSubmit \<mapsto> True, OperationDeliver \<mapsto> True,
              OperationQuery \<mapsto> True, OperationCancel \<mapsto> True, OperationReplace \<mapsto> True,
              OperationUnbind \<mapsto> True],
            u_MaxConnections = 10, u_RateLimit = 1000, u_Active = False, u_Enabled = True,
            u_CreatedAt = now1, u_UpdatedAt = now2, u_LastLogin = zero_time, u_LoginCount = 0\<rparr>
      in \<lparr>us_users = [''admin'' \<mapsto> adminUser]\<rparr>)"

definition Authenticate :: "user_store \<Rightarrow> string \<Rightarrow> string \<Rightarrow> user result" where
  "Authenticate a systemID password =
     (if systemID = '''' then Err (Errorf ''system ID cannot be empty'')
      else if password = '''' then Err (Errorf ''password cannot be empty'')
      else case us_users a systemID of
             None \<Rightarrow> Err (Errorf ''user not found'')
           | Some u \<Rightarrow>
               if \<not> u_Enabled u then Err (Errorf ''user disabled'')
               else if u_Password u \<noteq> password then Err (Errorf ''invalid password'')
               else Ok u)"

definition CreateUser :: "user_store \<Rightarrow> time \<Rightarrow> time \<Rightarrow> user option \<Rightarrow> unit result \<times> user_store" where
  "CreateUser a now1 now2 usr =
     (case usr of
        None \<Rightarrow> (Err (Errorf ''user cannot be nil''), a)
      | Some u \<Rightarrow>
          if u_SystemID u = '''' then (Err (Errorf ''user system ID cannot be empty''), a)
          else if us_users a (u_SystemID u) \<noteq> None then (Err (Errorf ''user already exists''), a)
          else (Ok (), a\<lparr>us_users := (us_users a)(u_SystemID u \<mapsto>
                          u\<lparr>u_CreatedAt := now1, u_UpdatedAt := now2\<rparr>)\<rparr>))"

definition UpdateUser :: "user_store \<Rightarrow> time \<Rightarrow> user option \<Rightarrow> unit result \<times> user_store" where
  "UpdateUser a now usr =
     (case usr of
        None \<Rightarrow> (Err (Errorf ''user cannot be nil''), a)
      | Some u \<Rightarrow>
          if u_SystemID u = '''' then (Err (Errorf ''user system ID cannot be empty''), a)
          else case us_users a (u_SystemID u) of
                 None \<Rightarrow> (Err (Errorf ''user not found''), a)
               | Some existing \<Rightarrow>
                   (Ok (), a\<lparr>us_users := (us_users a)(u_SystemID u \<mapsto>
                      u\<lparr>u_CreatedAt := u_CreatedAt existing, u_UpdatedAt := now\<rparr>)\<rparr>))"

definition DeleteUser :: "user_store \<Rightarrow> string \<Rightarrow> unit result \<times> user_store" where
  "DeleteUser a systemID =
     (if systemID = '''' then (Err (Errorf ''system ID cannot be empty''), a)
      else if us_users a systemID = None then (Err (Errorf ''user not found''), a)
      else (Ok (), a\<lparr>us_users := (us_users a)(systemID := None)\<rparr>))"

definition GetUser :: "user_store \<Rightarrow> string \<Rightarrow> user result" where
  "GetUser a systemID =
     (if systemID = '''' then Err (Errorf ''system ID cannot be empty'')
      else case us_users a systemID of
             None \<Rightarrow> Err (Errorf ''user not found'')
           | Some u \<Rightarrow> Ok u)"

definition ListUsers :: "user_store \<Rightarrow> string list \<Rightarrow> user list result" where
  "ListUsers a order = Ok (sort_key u_SystemID (values_in (us_users a) order))"

definition IsAuthorized :: "user_store \<Rightarrow> string \<Rightarrow> operation \<Rightarrow> bool result" where
  "IsAuthorized a systemID op =
     res_bind (GetUser a systemID) (\<lambda>u.
     if \<not> u_Enabled u then Err (Errorf ''user disabled'')
     else Ok (case u_Permissions u op of None \<Rightarrow> False | Some allowed \<Rightarrow> allowed))"

inductive user_reach :: "user_store \<Rightarrow> bool" where
  new: "user_reach (NewInMemoryUserAuth now1 now2)"
| create: "user_reach a \<Longrightarrow> user_reach (snd (CreateUser a now1 now2 u))"
| update: "user_reach a \<Longrightarrow> user_reach (snd (UpdateUser a now u))"
| delete: "user_reach a \<Longrightarrow> user_reach (snd (DeleteUser a i))"

definition user_store_inv :: "user_store \<Rightarrow> bool" where
  "user_store_inv a \<longleftrightarrow>
     (\<forall>i u. us_users a i = Some u \<longrightarrow> u_SystemID u = i) \<and> us_users a '''' = None"

lemma user_reach_inv: "user_reach a \<Longrightarrow> user_store_inv a"
  by (induction rule: user_reach.induct)
     (auto simp: user_store_inv_def NewInMemoryUserAuth_def CreateUser_def UpdateUser_def
       DeleteUser_def Let_def split: option.split if_splits)

text \<open>
  \<open>Authenticate\<close> succeeds for exactly the enabled users that are stored, with their own,
  non-empty password, and returns the user of that system ID.
\<close>

theorem Authenticate_exact:
  assumes "user_reach a"
  shows "Authenticate a systemID password = Ok u \<longleftrightarrow>
    GetUser a systemID = Ok u \<and> u_SystemID u = systemID \<and> u_Enabled u \<and>
    u_Password u = password \<and> password \<noteq> ''''"
  using user_reach_inv [OF assms]
  by (auto simp: Authenticate_def GetUser_def user_store_inv_def split: option.splits if_splits)

text \<open>
  A user is created once: \<open>CreateUser\<close> for a system ID that is taken fails and changes nothing;
  otherwise the user can be read back, and a later \<open>UpdateUser\<close> keeps the time of creation.
\<close>

theorem CreateUser_UpdateUser:
  assumes "u_SystemID u \<noteq> ''''" and "u_SystemID v = u_SystemID u"
  shows "case GetUser a (u_SystemID u) of
      Ok w \<Rightarrow> (\<exists>e. CreateUser a t1 t2 (Some u) = (Err e, a))
    | Err e \<Rightarrow> (\<exists>a1 a2. CreateUser a t1 t2 (Some u) = (Ok (), a1) \<and>
        GetUser a1 = (GetUser a)(u_SystemID u := Ok (u\<lparr>u_CreatedAt := t1, u_UpdatedAt := t2\<rparr>)) \<and>
        UpdateUser a1 t3 (Some v) = (Ok (), a2) \<and>
        GetUser a2 = (GetUser a)(u_SystemID u := Ok (v\<lparr>u_CreatedAt := t1, u_UpdatedAt := t3\<rparr>)))
    | Panic \<Rightarrow> False"
  using assms
  by (auto simp: GetUser_def CreateUser_def UpdateUser_def fun_eq_iff split: option.split)

text \<open>
  \<open>ListUsers\<close> returns every stored user exactly once, in strictly increasing order of system
  IDs, whatever the order in which the map is iterated.
\<close>

theorem ListUsers_sorted:
  assumes "user_reach a" and "enumerates (us_users a) order"
  shows "\<exists>us. ListUsers a order = Ok us \<and> sorted_wrt (<) (map u_SystemID us) \<and>
    set us = {u. \<exists>i. GetUser a i = Ok u}"
proof -
  let ?us = "sort_key u_SystemID (values_in (us_users a) order)"
  have k: "u_SystemID (the (us_users a i)) = i" if "i \<in> set order" for i
    using that assms user_reach_inv [OF assms(1)]
    by (auto simp: enumerates_def user_store_inv_def dom_def)
  then have "map u_SystemID (values_in (us_users a) order) = order"
    by (auto simp: values_in_def intro: map_idI)
  then have "distinct (map u_SystemID ?us)"
    using assms(2) by (metis enumerates_def distinct_map mset_map mset_sort set_mset_mset
        distinct_count_atmost_1 mset_eq_imp_distinct_iff)
  moreover have "sorted (map u_SystemID ?us)" by (rule sorted_sort_key)
  ultimately have "sorted_wrt (<) (map u_SystemID ?us)" by (simp add: strict_sorted_iff)
  moreover have "GetUser a i = Ok u \<longleftrightarrow> us_users a i = Some u" for i u
    using user_reach_inv [OF assms(1)] by (auto simp: GetUser_def user_store_inv_def split: option.split)
  then have "set ?us = {u. \<exists>i. GetUser a i = Ok u}"
    using set_values_in [OF assms(2)] by (auto simp: ran_def)
  ultimately show ?thesis by (auto simp: ListUsers_def)
qed

section \<open>Concrete instances\<close>

definition example_message :: message where
  "example_message = zero_message\<lparr>m_ID := ''MSG_1'', m_Text := ''hi''\<rparr>"

definition example_store :: sms_store where
  "example_store = snd (StoreSMS NewInMemorySMSStorage 5 (Some example_message))"

definition example_criteria :: sms_search_criteria where
  "example_criteria = \<lparr>sc_SourceAddr = '''', sc_DestAddr = '''', sc_Status = None, sc_FromDate = Some 1,
     sc_ToDate = None, sc_Limit = 10, sc_Offset = 0, sc_SortBy = '''', sc_SortOrder = ''''\<rparr>"

definition example_user :: user where
  "example_user = \<lparr>u_ID = '''', u_SystemID = ''esme'', u_Password = ''pw'', u_PasswordHash = '''',
     u_Salt = '''', u_Name = '''', u_Email = '''', u_SystemType = '''', u_Permissions = Map.empty,
     u_MaxConnections = 1, u_RateLimit = 0, u_Active = True, u_Enabled = True, u_CreatedAt = 0,
     u_UpdatedAt = 0, u_LastLogin = 0, u_LoginCount = 0\<rparr>"

lemma example_store_reach: "sms_reach example_store"
  unfolding example_store_def by (intro sms_reach.intros)

lemma example_store_dom: "enumerates (ms_messages example_store) [''MSG_1'']"
  by (simp add: enumerates_def example_store_def StoreSMS_def example_message_def
      NewInMemorySMSStorage_def)

theorem StoreSMS_GetSMS_witness:
  "\<exists>s'. StoreSMS example_store 9 (Some example_message) = (Ok (m_ID example_message), s') \<and> sms_reach s' \<and>
    GetSMS s' = (GetSMS example_store)(m_ID example_message := Ok (example_message\<lparr>m_SubmitTime := 9\<rparr>))"
  by (rule StoreSMS_GetSMS [OF example_store_reach]) (simp add: example_message_def)

theorem UpdateSMSStatus_effect_witness:
  "case GetSMS example_store ''MSG_1'' of
      Ok m \<Rightarrow> UpdateSMSStatus example_store 7 ''MSG_1'' MessageStatusDelivered =
        (Ok (), example_store\<lparr>ms_messages := (ms_messages example_store)(''MSG_1'' \<mapsto>
           (if final_status MessageStatusDelivered
            then m\<lparr>m_Status := MessageStatusDelivered, m_DoneTime := Some 7, m_DoneDate := Format_0601021504 7\<rparr>
            else m\<lparr>m_Status := MessageStatusDelivered\<rparr>))\<rparr>)
    | Err e \<Rightarrow> UpdateSMSStatus example_store 7 ''MSG_1'' MessageStatusDelivered = (Err e, example_store)
    | Panic \<Rightarrow> False"
  by (rule UpdateSMSStatus_effect [OF example_store_reach])

theorem sms_store_consistent_witness:
  "GetSMSCount example_store = Ok 1 \<and> finite {i. is_Ok (GetSMS example_store i)} \<and>
   card {i. is_Ok (GetSMS example_store i)} = 1"
proof -
  have "GetSMSCount example_store = Ok 1"
    by (simp add: GetSMSCount_def example_store_def StoreSMS_def example_message_def NewInMemorySMSStorage_def)
  with sms_store_consistent [OF example_store_reach] show ?thesis by simp
qed

theorem SearchSMS_page_witness:
  "\<exists>ms. SearchSMS example_store [''MSG_1''] (Some example_criteria) =
      Ok (take (nat (sc_Limit example_criteria)) (drop (nat (sc_Offset example_criteria)) ms)) \<and>
    sorted (rev (map m_SubmitTime ms)) \<and>
    mset ms = {# m \<in># image_mset (\<lambda>i. the (ms_messages example_store i)) (mset_set (dom (ms_messages example_store))).
                matchesCriteria m example_criteria #}"
  by (rule SearchSMS_page [OF example_store_dom]) (simp_all add: example_criteria_def)

theorem SearchSMS_offset_ignored_witness:
  "\<exists>ms. SearchSMS example_store [''MSG_1''] (Some (example_criteria\<lparr>sc_Limit := 0\<rparr>)) = Ok ms \<and>
    (if sc_Offset (example_criteria\<lparr>sc_Limit := 0\<rparr>) <
        int (length (filter (\<lambda>m. matchesCriteria m (example_criteria\<lparr>sc_Limit := 0\<rparr>))
          (values_in (ms_messages example_store) [''MSG_1''])))
     then mset ms = {# m \<in># image_mset (\<lambda>i. the (ms_messages example_store i)) (mset_set (dom (ms_messages example_store))).
                      matchesCriteria m (example_criteria\<lparr>sc_Limit := 0\<rparr>) #}
     else ms = [])"
  by (rule SearchSMS_offset_ignored [OF example_store_dom]) (simp add: example_criteria_def)

theorem Authenticate_exact_witness:
  "Authenticate (NewInMemoryUserAuth 1 2) ''admin'' ''secret'' = Ok example_user \<longleftrightarrow>
    GetUser (NewInMemoryUserAuth 1 2) ''admin'' = Ok example_user \<and> u_SystemID example_user = ''admin'' \<and>
    u_Enabled example_user \<and> u_Password example_user = ''secret'' \<and> ''secret'' \<noteq> ''''"
  by (rule Authenticate_exact) (rule user_reach.new)

theorem CreateUser_UpdateUser_witness:
  "case GetUser (NewInMemoryUserAuth 1 2) (u_SystemID example_user) of
      Ok w \<Rightarrow> (\<exists>e. CreateUser (NewInMemoryUserAuth 1 2) 3 4 (Some example_user) = (Err e, NewInMemoryUserAuth 1 2))
    | Err e \<Rightarrow> (\<exists>a1 a2. CreateUser (NewInMemoryUserAuth 1 2) 3 4 (Some example_user) = (Ok (), a1) \<and>
        GetUser a1 = (GetUser (NewInMemoryUserAuth 1 2))
          (u_SystemID example_user := Ok (example_user\<lparr>u_CreatedAt := 3, u_UpdatedAt := 4\<rparr>)) \<and>
        UpdateUser a1 5 (Some (example_user\<lparr>u_Enabled := False\<rparr>)) = (Ok (), a2) \<and>
        GetUser a2 = (GetUser (NewInMemoryUserAuth 1 2))
          (u_SystemID example_user := Ok (example_user\<lparr>u_Enabled := False, u_CreatedAt := 3, u_UpdatedAt := 5\<rparr>)))
    | Panic \<Rightarrow> False"
  using CreateUser_UpdateUser [of example_user "example_user\<lparr>u_Enabled := False\<rparr>" "NewInMemoryUserAuth 1 2" 3 4 5]
  by (simp add: example_user_def)

theorem ListUsers_sorted_witness:
  "\<exists>us. ListUsers (NewInMemoryUserAuth 1 2) [''admin''] = Ok us \<and> sorted_wrt (<) (map u_SystemID us) \<and>
    set us = {u. \<exists>i. GetUser (NewInMemoryUserAuth 1 2) i = Ok u}"
  by (rule ListUsers_sorted [OF user_reach.new])
     (simp add: enumerates_def NewInMemoryUserAuth_def Let_def)

end
