(* ===== verification/Routing.thy ===== *)
theory Routing
  imports Storage TextEncoding
begin

text \<open>
  \<open>pkg/smpp/message_routing.go\<close>: the router by longest prefix, the bounded message queue, and the
  splitter that cuts a long message into parts with a user data header.
\<close>

section \<open>DefaultMessageRouter\<close>

record route_info =
  ri_Gateway :: string
  ri_Priority :: int
  ri_RetryCount :: int
  ri_Destination :: string
  ri_Route :: string

record router =
  rt_routes :: "string \<rightharpoonup> string"

definition NewDefaultMessageRouter :: router where
  "NewDefaultMessageRouter = \<lparr>rt_routes = Map.empty\<rparr>"

definition AddRoute :: "router \<Rightarrow> string \<Rightarrow> string \<Rightarrow> router" where
  "AddRoute r prefix gateway = r\<lparr>rt_routes := (rt_routes r)(prefix \<mapsto> gateway)\<rparr>"

text \<open>\<open>strings.HasPrefix(s, p)\<close>\<close>

definition HasPrefix :: "string \<Rightarrow> string \<Rightarrow> bool" where
  "HasPrefix s p \<longleftrightarrow> length p \<le> length s \<and> take (length p) s = p"

text \<open>The loop over the routes: the longest match so far and its gateway.\<close>

definition longest_match :: "router \<Rightarrow> string list \<Rightarrow> string \<Rightarrow> string \<times> string" where
  "longest_match r order destination =
     fold (\<lambda>prefix (longest, gateway).
        if HasPrefix destination prefix \<and> length prefix > length longest
        then (prefix, the (rt_routes r prefix)) else (longest, gateway))
       order ('''', ''default'')"

definition RouteMessage :: "router \<Rightarrow> string list \<Rightarrow> message \<Rightarrow> route_info result" where
  "RouteMessage r order m =
     (let destination = a_Addr (m_DestAddr m);
          (longest, gateway) = longest_match r order destination;
          priority = (if m_PriorityFlag m > 0 then int (unat (m_PriorityFlag m)) else 1)
      in Ok \<lparr>ri_Gateway = gateway, ri_Priority = priority, ri_RetryCount = 3,
              ri_Destination = destination, ri_Route = longest\<rparr>)"

lemma HasPrefix_same_length:
  "HasPrefix s p \<Longrightarrow> HasPrefix s q \<Longrightarrow> length p = length q \<Longrightarrow> p = q"
  by (metis HasPrefix_def)

lemma longest_match_inv:
  "longest_match r order d = (l, g) \<Longrightarrow>
   (l = '''' \<and> g = ''default'' \<or> l \<in> set order \<and> l \<noteq> '''' \<and> HasPrefix d l \<and> g = the (rt_routes r l)) \<and>
   (\<forall>p \<in> set order. HasPrefix d p \<longrightarrow> length p \<le> length l)"
  unfolding longest_match_def
proof (induction order arbitrary: l g rule: rev_induct)
  case (snoc p ps)
  obtain l0 g0 where "fold (\<lambda>prefix (longest, gateway).
      if HasPrefix d prefix \<and> length prefix > length longest
      then (prefix, the (rt_routes r prefix)) else (longest, gateway)) ps ('''', ''default'') = (l0, g0)"
    by fastforce
  with snoc.IH [OF this] snoc.prems show ?case by (auto split: if_splits)
qed simp

text \<open>
  The route of a message is the longest non-empty prefix of its destination that has a route,
  with that route's gateway, and the default gateway when there is none; the order in which the
  routing table is iterated makes no difference.
\<close>

theorem RouteMessage_longest_prefix:
  assumes "enumerates (rt_routes r) order"
  shows "\<exists>ri. RouteMessage r order m = Ok ri \<and> ri_Destination ri = a_Addr (m_DestAddr m) \<and>
    (if {p \<in> dom (rt_routes r). p \<noteq> '''' \<and> HasPrefix (a_Addr (m_DestAddr m)) p} = {}
     then ri_Route ri = '''' \<and> ri_Gateway ri = ''default''
     else ri_Route ri \<noteq> '''' \<and> rt_routes r (ri_Route ri) = Some (ri_Gateway ri) \<and>
       HasPrefix (a_Addr (m_DestAddr m)) (ri_Route ri) \<and>
       Max (length ` {p \<in> dom (rt_routes r). HasPrefix (a_Addr (m_DestAddr m)) p}) = length (ri_Route ri))"
proof -
  let ?d = "a_Addr (m_DestAddr m)"
  obtain l g where lg: "longest_match r order ?d = (l, g)" by (cases "longest_match r order ?d")
  have inv: "l = '''' \<and> g = ''default'' \<or> l \<in> set order \<and> l \<noteq> '''' \<and> HasPrefix ?d l \<and> g = the (rt_routes r l)"
    and max: "\<And>p. p \<in> set order \<Longrightarrow> HasPrefix ?d p \<Longrightarrow> length p \<le> length l"
    using longest_match_inv [OF lg] by auto
  have dom: "dom (rt_routes r) = set order" using assms by (simp add: enumerates_def)
  let ?ri = "\<lparr>ri_Gateway = g, ri_Priority = (if m_PriorityFlag m > 0 then int (unat (m_PriorityFlag m)) else 1),
     ri_RetryCount = 3, ri_Destination = ?d, ri_Route = l\<rparr>"
  have "RouteMessage r order m = Ok ?ri" by (simp add: RouteMessage_def lg)
  moreover have "if {p \<in> dom (rt_routes r). p \<noteq> '''' \<and> HasPrefix ?d p} = {} then l = '''' \<and> g = ''default''
     else l \<noteq> '''' \<and> rt_routes r l = Some g \<and> HasPrefix ?d l \<and>
       Max (length ` {p \<in> dom (rt_routes r). HasPrefix ?d p}) = length l"
  proof (cases "l = ''''")
    case True
    then have "p = ''''" if "p \<in> set order" "HasPrefix ?d p" for p using max [OF that] by simp
    then show ?thesis using inv True by (auto simp: dom)
  next
    case False
    with inv have l: "l \<in> set order" "HasPrefix ?d l" "g = the (rt_routes r l)" by auto
    then have "rt_routes r l = Some g" using dom by force
    moreover have "Max (length ` {p \<in> dom (rt_routes r). HasPrefix ?d p}) = length l"
      using l max by (intro Max_eqI) (auto simp: dom)
    ultimately show ?thesis using l False dom by auto
  qed
  ultimately show ?thesis by (intro exI [of _ ?ri]) simp
qed

section \<open>InMemoryMessageQueue\<close>

record queued_message =
  qm_Message :: message
  qm_Route :: route_info
  qm_Attempts :: int
  qm_NextRetry :: time
  qm_Created :: time

text \<open>A buffered channel is the list of its messages and its capacity.\<close>

record msg_queue =
  q_messages :: "queued_message list"
  q_capacity :: nat
  q_status :: "string \<rightharpoonup> message_status"

definition NewInMemoryMessageQueue :: "nat \<Rightarrow> msg_queue" where
  "NewInMemoryMessageQueue capacity = \<lparr>q_messages = [], q_capacity = capacity, q_status = Map.empty\<rparr>"

text \<open>
  \<open>select\<close> with a ready send and a cancelled context picks one of the two: \<open>pick_send\<close> is that
  choice.  \<open>done\<close> says whether the context is cancelled.
\<close>

definition EnqueueMessage ::
    "msg_queue \<Rightarrow> time \<Rightarrow> time \<Rightarrow> bool \<Rightarrow> bool \<Rightarrow> message \<Rightarrow> route_info \<Rightarrow> unit result \<times> msg_queue" where
  "EnqueueMessage q now1 now2 ctx_done pick_send m route =
     (let queuedMsg = \<lparr>qm_Message = m, qm_Route = route, qm_Attempts = 0, qm_NextRetry = now1,
                       qm_Created = now2\<rparr>;
          ready = length (q_messages q) < q_capacity q
      in if ready \<and> (\<not> ctx_done \<or> pick_send)
         then (Ok (), q\<lparr>q_messages := q_messages q @ [queuedMsg],
                        q_status := (q_status q)(m_ID m \<mapsto> MessageStatusEnroute)\<rparr>)
         else if ctx_done then (Err (Errorf ''context canceled''), q)
         else (Err (Errorf ''queue is full''), q))"

text \<open>\<open>None\<close>: the call waits.\<close>

definition DequeueMessage :: "msg_queue \<Rightarrow> bool \<Rightarrow> bool \<Rightarrow> queued_message result option \<times> msg_queue" where
  "DequeueMessage q ctx_done pick_receive =
     (case q_messages q of
        qm # qms \<Rightarrow>
          if \<not> ctx_done \<or> pick_receive then (Some (Ok qm), q\<lparr>q_messages := qms\<rparr>)
          else (Some (Err (Errorf ''context canceled'')), q)
      | [] \<Rightarrow> if ctx_done then (Some (Err (Errorf ''context canceled'')), q) else (None, q))"

definition UpdateMessageStatus :: "msg_queue \<Rightarrow> string \<Rightarrow> message_status \<Rightarrow> unit result \<times> msg_queue" where
  "UpdateMessageStatus q messageID status =
     (Ok (), q\<lparr>q_status := (q_status q)(messageID \<mapsto> status)\<rparr>)"

definition GetMessageStatus :: "msg_queue \<Rightarrow> string \<Rightarrow> message_status option" where
  "GetMessageStatus q messageID = q_status q messageID"

text \<open>The states of a queue with the messages it has accepted and handed out so far.\<close>

inductive queue_run :: "nat \<Rightarrow> msg_queue \<Rightarrow> message list \<Rightarrow> message list \<Rightarrow> bool" for capacity where
  new: "queue_run capacity (NewInMemoryMessageQueue capacity) [] []"
| enqueue: "queue_run capacity q ins outs \<Longrightarrow>
    EnqueueMessage q t1 t2 d p m route = (Ok (), q') \<Longrightarrow> queue_run capacity q' (ins @ [m]) outs"
| enqueue_error: "queue_run capacity q ins outs \<Longrightarrow>
    EnqueueMessage q t1 t2 d p m route = (Err e, q') \<Longrightarrow> queue_run capacity q' ins outs"
| dequeue: "queue_run capacity q ins outs \<Longrightarrow>
    DequeueMessage q d p = (Some (Ok qm), q') \<Longrightarrow> queue_run capacity q' ins (outs @ [qm_Message qm])"
| dequeue_error: "queue_run capacity q ins outs \<Longrightarrow>
    DequeueMessage q d p = (Some (Err e), q') \<Longrightarrow> queue_run capacity q' ins outs"
| update: "queue_run capacity q ins outs \<Longrightarrow>
    queue_run capacity (snd (UpdateMessageStatus q i st)) ins outs"

text \<open>
  The queue is first-in first-out and bounded: at any time the accepted messages are, in order,
  those already handed out followed by those still queued, and the latter are never more than the
  capacity.
\<close>

theorem queue_fifo:
  assumes "queue_run capacity q ins outs"
  shows "ins = outs @ map qm_Message (q_messages q) \<and> length (q_messages q) \<le> capacity"
proof -
  have "ins = outs @ map qm_Message (q_messages q) \<and> length (q_messages q) \<le> q_capacity q \<and>
      q_capacity q = capacity"
    using assms
  proof (induction rule: queue_run.induct)
    case new
    then show ?case by (simp add: NewInMemoryMessageQueue_def)
  next
    case (update q ins outs i st)
    then show ?case by (simp add: UpdateMessageStatus_def)
  qed (auto simp: EnqueueMessage_def DequeueMessage_def Let_def split: if_splits list.splits)
  then show ?thesis by simp
qed

section \<open>DefaultMessageSplitter\<close>

record splitter =
  sp_singleSMSLimits :: "u8 \<rightharpoonup> nat"
  sp_concatSMSLimits :: "u8 \<rightharpoonup> nat"

definition NewDefaultMessageSplitter :: splitter where
  "NewDefaultMessageSplitter =
     \<lparr>sp_singleSMSLimits = [0 \<mapsto> 160, 3 \<mapsto> 160, 8 \<mapsto> 70, 4 \<mapsto> 140],
      sp_concatSMSLimits = [0 \<mapsto> 153, 3 \<mapsto> 153, 8 \<mapsto> 67, 4 \<mapsto> 133]\<rparr>"

text \<open>The hash of the message ID, reduced to 16 bits.\<close>

definition generateReferenceNumber :: "string \<Rightarrow> u16" where
  "generateReferenceNumber messageID =
     (let hash = fold (\<lambda>b h. h * 31 + ucast b) (to_bytes messageID) (0 :: u32)
      in word_of_nat (unat hash mod 65536))"

text \<open>The two loops that cut a text, over bytes and over runes.\<close>

function chunks :: "nat \<Rightarrow> 'a list \<Rightarrow> 'a list list" where
  "chunks maxLength xs =
     (if length xs > maxLength \<and> 0 < maxLength
      then take maxLength xs # chunks maxLength (drop maxLength xs)
      else if length xs > 0 then [xs] else [])"
  by pat_completeness auto
termination
  by (relation "measure (length \<circ> snd)") auto

declare chunks.simps [simp del]

definition splitTextByBytes :: "string \<Rightarrow> nat \<Rightarrow> string list" where
  "splitTextByBytes text maxLength =
     (if length text \<le> maxLength then [text] else chunks maxLength text)"

definition splitTextByRunes :: "string \<Rightarrow> nat \<Rightarrow> string list" where
  "splitTextByRunes text maxLength =
     (if length (runes text) \<le> maxLength then [text]
      else map string_of_runes (chunks maxLength (runes text)))"

text \<open>\<open>byte(r >> 8)\<close> and \<open>byte(r & 0xFF)\<close> of a rune.\<close>

definition rune_bytes :: "rune \<Rightarrow> byte list" where
  "rune_bytes r = [word_of_nat (r div 256), word_of_nat (r mod 256)]"

definition encodeWithUDH :: "string \<Rightarrow> byte list \<Rightarrow> u8 \<Rightarrow> byte list result" where
  "encodeWithUDH text udh dataCoding =
     (let textBytes = (if dataCoding = 0 \<or> dataCoding = 3 then to_bytes text
                       else if dataCoding = 8 then concat (map rune_bytes (runes text))
                       else if dataCoding = 4 then to_bytes text
                       else to_bytes text)
      in Ok (word_of_nat (length udh) # udh @ textBytes))"

definition concat_udh :: "u16 \<Rightarrow> nat \<Rightarrow> nat \<Rightarrow> byte list" where
  "concat_udh refNum nparts current =
     [0x00, 0x03, word_of_nat (unat refNum div 256), word_of_nat (unat refNum mod 256),
      word_of_nat nparts, word_of_nat current]"

text \<open>One part of a message: the \<open>i\<close>-th (from 0) of \<open>nparts\<close>.\<close>

definition split_part :: "message \<Rightarrow> u16 \<Rightarrow> nat \<Rightarrow> nat \<Rightarrow> string \<Rightarrow> message result" where
  "split_part m refNum nparts i part =
     (let udh = concat_udh refNum nparts (i + 1) in
      res_bind (res_wrap ''failed to encode message part'' (encodeWithUDH part udh (m_DataCoding m)))
        (\<lambda>encoded.
      Ok (m\<lparr>m_ID := m_ID m @ ''_'' @ itoa (i + 1), m_Text := part,
            m_EsmClass := or (m_EsmClass m) EsmClassUDHI, m_ShortMessage := encoded\<rparr>)))"

fun split_parts :: "message \<Rightarrow> u16 \<Rightarrow> nat \<Rightarrow> nat \<Rightarrow> string list \<Rightarrow> message list result" where
  "split_parts m refNum nparts i [] = Ok []"
| "split_parts m refNum nparts i (part # parts) =
     res_bind (split_part m refNum nparts i part) (\<lambda>p.
     res_bind (split_parts m refNum nparts (i + 1) parts) (\<lambda>ps. Ok (p # ps)))"

definition splitter_SplitMessage :: "splitter \<Rightarrow> message \<Rightarrow> message list result" where
  "splitter_SplitMessage s m =
     (let singleLimit = (case sp_singleSMSLimits s (m_DataCoding m) of Some n \<Rightarrow> n | None \<Rightarrow> 160);
          concatLimit = (case sp_concatSMSLimits s (m_DataCoding m) of Some n \<Rightarrow> n | None \<Rightarrow> 153);
          textLength = (if m_DataCoding m = 8 then length (runes (m_Text m)) else length (m_Text m))
      in
      if textLength \<le> singleLimit then Ok [m]
      else
        let parts = (if m_DataCoding m = 8 then splitTextByRunes (m_Text m) concatLimit
                     else splitTextByBytes (m_Text m) concatLimit)
        in
        if length parts > 255 then Err (Errorf ''message too long'')
        else split_parts m (generateReferenceNumber (m_ID m)) (length parts) 0 parts)"

lemma concat_chunks: "0 < n \<Longrightarrow> concat (chunks n xs) = xs"
  by (induction n xs rule: chunks.induct) (subst chunks.simps, auto)

lemma chunks_length: "0 < n \<Longrightarrow> list_all (\<lambda>c. 0 < length c \<and> length c \<le> n) (chunks n xs)"
  by (induction n xs rule: chunks.induct) (subst chunks.simps, auto)

lemma length_chunks_ge2: "0 < n \<Longrightarrow> n < length xs \<Longrightarrow> 2 \<le> length (chunks n xs)"
proof -
  assume n: "0 < n" "n < length xs"
  then have "chunks n xs = take n xs # chunks n (drop n xs)" by (subst chunks.simps) simp
  moreover have "chunks n (drop n xs) \<noteq> []" using n by (subst chunks.simps) simp
  ultimately show ?thesis by (cases "chunks n (drop n xs)") auto
qed

lemma concat_map_string_of_runes: "concat (map string_of_runes rss) = string_of_runes (concat rss)"
  by (induction rss) simp_all

lemma concat_splitTextByBytes: "0 < n \<Longrightarrow> concat (splitTextByBytes t n) = t"
  by (simp add: splitTextByBytes_def concat_chunks)

lemma concat_splitTextByRunes: "0 < n \<Longrightarrow> ValidString t \<Longrightarrow> concat (splitTextByRunes t n) = t"
  by (simp add: splitTextByRunes_def concat_map_string_of_runes concat_chunks string_of_runes_runes)

lemma split_parts_eq:
  "split_parts m ref nparts i parts =
     Ok (map (\<lambda>(k, part). m\<lparr>m_ID := m_ID m @ ''_'' @ itoa (k + 1), m_Text := part,
         m_EsmClass := or (m_EsmClass m) EsmClassUDHI,
         m_ShortMessage := 6 # concat_udh ref nparts (k + 1) @
           (if m_DataCoding m = 8 then concat (map rune_bytes (runes part)) else to_bytes part)\<rparr>)
       (enumerate i parts))"
  by (induction parts arbitrary: i)
     (simp_all add: split_part_def encodeWithUDH_def Let_def concat_udh_def)

text \<open>The parts that a splitter made: numbered, flagged, with one header each.\<close>

definition part_of :: "message \<Rightarrow> nat \<Rightarrow> nat \<Rightarrow> message \<Rightarrow> bool" where
  "part_of m nparts i p \<longleftrightarrow>
     m_ID p = m_ID m @ ''_'' @ itoa (i + 1) \<and>
     m_EsmClass p = or (m_EsmClass m) EsmClassUDHI \<and> m_DataCoding p = m_DataCoding m \<and>
     take 7 (m_ShortMessage p) = 6 # concat_udh (generateReferenceNumber (m_ID m)) nparts (i + 1) \<and>
     drop 7 (m_ShortMessage p) =
       (if m_DataCoding m = 8 then concat (map rune_bytes (runes (m_Text p))) else to_bytes (m_Text p))"

lemma split_parts_part_of:
  assumes "split_parts m (generateReferenceNumber (m_ID m)) nparts 0 parts = Ok ps"
  shows "map m_Text ps = parts \<and> length ps = length parts \<and>
    (\<forall>i < length ps. part_of m nparts i (ps ! i))"
  using assms
  by (auto simp: split_parts_eq part_of_def concat_udh_def split_beta comp_def nth_enumerate_eq
      intro!: nth_equalityI)

text \<open>
  The splitter returns a message that fits as it is; otherwise it makes 2 to 255 parts whose
  texts, put together, are the text of the message, each with its own ID, the UDHI flag, and a
  header that says how many parts there are and which one it is.
\<close>

theorem splitter_parts:
  assumes "splitter_SplitMessage NewDefaultMessageSplitter m = Ok ps"
    and "m_DataCoding m = 8 \<longrightarrow> ValidString (m_Text m)"
  shows "if (if m_DataCoding m = 8 then length (runes (m_Text m)) else length (m_Text m)) \<le>
        (case sp_singleSMSLimits NewDefaultMessageSplitter (m_DataCoding m) of Some n \<Rightarrow> n | None \<Rightarrow> 160)
    then ps = [m]
    else 2 \<le> length ps \<and> length ps \<le> 255 \<and> concat (map m_Text ps) = m_Text m \<and>
      (\<forall>i < length ps. part_of m (length ps) i (ps ! i))"
proof -
  define c where "c = (case sp_concatSMSLimits NewDefaultMessageSplitter (m_DataCoding m) of Some n \<Rightarrow> n | None \<Rightarrow> 153)"
  define s where "s = (case sp_singleSMSLimits NewDefaultMessageSplitter (m_DataCoding m) of Some n \<Rightarrow> n | None \<Rightarrow> 160)"
  define parts where "parts = (if m_DataCoding m = 8 then splitTextByRunes (m_Text m) c
     else splitTextByBytes (m_Text m) c)"
  define len where "len = (if m_DataCoding m = 8 then length (runes (m_Text m)) else length (m_Text m))"
  have c: "0 < c" "c < s" by (auto simp: c_def s_def NewDefaultMessageSplitter_def)
  have eq: "splitter_SplitMessage NewDefaultMessageSplitter m =
      (if len \<le> s then Ok [m] else if length parts > 255 then Err (Errorf ''message too long'')
       else split_parts m (generateReferenceNumber (m_ID m)) (length parts) 0 parts)"
    by (simp add: splitter_SplitMessage_def Let_def parts_def len_def c_def s_def)

  show ?thesis
  proof (cases "len \<le> s")
    case True
    then show ?thesis using assms eq by (simp add: len_def s_def)
  next
    case False
    then have "split_parts m (generateReferenceNumber (m_ID m)) (length parts) 0 parts = Ok ps"
      "length parts \<le> 255"
      using assms eq by (auto split: if_splits)
    moreover have "concat parts = m_Text m"
      using c assms(2) by (simp add: parts_def concat_splitTextByBytes concat_splitTextByRunes)
    moreover have "2 \<le> length parts"
      using c False length_chunks_ge2 [of c "m_Text m"] length_chunks_ge2 [of c "runes (m_Text m)"]
      by (auto simp: parts_def len_def splitTextByBytes_def splitTextByRunes_def split: if_splits)
    ultimately have "2 \<le> length ps \<and> length ps \<le> 255 \<and> concat (map m_Text ps) = m_Text m \<and>
        (\<forall>i < length ps. part_of m (length ps) i (ps ! i))"
      using split_parts_part_of by metis
    with False show ?thesis by (simp add: len_def s_def)
  qed
qed

lemma length_rune_bytes [simp]: "length (concat (map rune_bytes rs)) = 2 * length rs"
  by (induction rs) (simp_all add: rune_bytes_def)

text \<open>
  A part in UCS-2 can have 141 octets, one more than an SMS can carry: its 67 characters take
  134 octets, and the header with its length 7.
\<close>

theorem splitter_UCS2_too_long:
  "\<exists>ps. splitter_SplitMessage NewDefaultMessageSplitter
      (zero_message\<lparr>m_DataCoding := 8, m_Text := replicate 100 CHR ''a''\<rparr>) = Ok ps \<and>
    length (m_ShortMessage (ps ! 0)) = 141"
proof -
  have r: "runes (replicate n CHR ''a'') = replicate n 97" for n
    by (subst runes_ASCII) (simp_all add: codes_def list_all_iff)
  have s: "string_of_runes (replicate n 97) = replicate n CHR ''a''" for n
  proof -
    have "ValidString (replicate n CHR ''a'')"
      by (rule ValidString_no_error) (simp add: r RuneError_def)
    from string_of_runes_runes [OF this] show ?thesis by (simp add: r)
  qed
  have "splitTextByRunes (replicate 100 CHR ''a'') 67 = [replicate 67 CHR ''a'', replicate 33 CHR ''a'']"
    by (simp add: splitTextByRunes_def r s chunks.simps [of 67] del: replicate.simps)
  then show ?thesis
    by (simp add: splitter_SplitMessage_def NewDefaultMessageSplitter_def r split_parts_eq
        concat_udh_def length_concat sum_list_replicate rune_bytes_def del: replicate.simps)
qed

section \<open>Concrete instances\<close>

theorem RouteMessage_longest_prefix_witness:
  "\<exists>ri. RouteMessage (AddRoute NewDefaultMessageRouter ''44'' ''uk'') [''44'']
       (zero_message\<lparr>m_DestAddr := zero_address\<lparr>a_Addr := ''447''\<rparr>\<rparr>) = Ok ri \<and>
    ri_Destination ri = a_Addr (m_DestAddr (zero_message\<lparr>m_DestAddr := zero_address\<lparr>a_Addr := ''447''\<rparr>\<rparr>)) \<and>
    (if {p \<in> dom (rt_routes (AddRoute NewDefaultMessageRouter ''44'' ''uk'')). p \<noteq> '''' \<and>
          HasPrefix (a_Addr (m_DestAddr (zero_message\<lparr>m_DestAddr := zero_address\<lparr>a_Addr := ''447''\<rparr>\<rparr>))) p} = {}
     then ri_Route ri = '''' \<and> ri_Gateway ri = ''default''
     else ri_Route ri \<noteq> '''' \<and>
       rt_routes (AddRoute NewDefaultMessageRouter ''44'' ''uk'') (ri_Route ri) = Some (ri_Gateway ri) \<and>
       HasPrefix (a_Addr (m_DestAddr (zero_message\<lparr>m_DestAddr := zero_address\<lparr>a_Addr := ''447''\<rparr>\<rparr>))) (ri_Route ri) \<and>
       Max (length ` {p \<in> dom (rt_routes (AddRoute NewDefaultMessageRouter ''44'' ''uk'')).
         HasPrefix (a_Addr (m_DestAddr (zero_message\<lparr>m_DestAddr := zero_address\<lparr>a_Addr := ''447''\<rparr>\<rparr>))) p}) = length (ri_Route ri))"
  by (rule RouteMessage_longest_prefix)
     (simp add: enumerates_def AddRoute_def NewDefaultMessageRouter_def)

definition example_route :: route_info where
  "example_route = \<lparr>ri_Gateway = ''default'', ri_Priority = 1, ri_RetryCount = 3, ri_Destination = ''1'',
     ri_Route = ''direct''\<rparr>"

definition example_queue :: msg_queue where
  "example_queue = snd (EnqueueMessage (NewInMemoryMessageQueue 1) 0 0 False True zero_message example_route)"

theorem queue_fifo_witness:
  "[zero_message] = [] @ map qm_Message (q_messages example_queue) \<and> length (q_messages example_queue) \<le> 1"
proof (rule queue_fifo)
  have "EnqueueMessage (NewInMemoryMessageQueue 1) 0 0 False True zero_message example_route = (Ok (), example_queue)"
    by (simp add: example_queue_def EnqueueMessage_def NewInMemoryMessageQueue_def Let_def)
  from queue_run.enqueue [OF queue_run.new this] show "queue_run 1 example_queue [zero_message] []"
    by simp
qed

theorem splitter_parts_witness:
  "\<exists>ps. splitter_SplitMessage NewDefaultMessageSplitter
      (zero_message\<lparr>m_DataCoding := 4, m_Text := replicate 300 (CHR ''a'')\<rparr>) = Ok ps \<and>
    2 \<le> length ps \<and> concat (map m_Text ps) = replicate 300 (CHR ''a'')"
proof -
  let ?m = "zero_message\<lparr>m_DataCoding := 4, m_Text := replicate 300 (CHR ''a'')\<rparr>"
  have "chunks 133 (replicate 300 (CHR ''a'')) =
      [replicate 133 (CHR ''a''), replicate 133 (CHR ''a''), replicate 34 (CHR ''a'')]"
    by (simp add: chunks.simps)
  then obtain ps where ps: "splitter_SplitMessage NewDefaultMessageSplitter ?m = Ok ps"
    by (simp add: splitter_SplitMessage_def NewDefaultMessageSplitter_def splitTextByBytes_def split_parts_eq)
  with splitter_parts [OF ps] show ?thesis by (simp add: NewDefaultMessageSplitter_def)
qed

end
