(* ===== verification/ExchangeSort.thy ===== *)
theory ExchangeSort
  imports Main "HOL-Library.Multiset"
begin

text \<open>
  The sort that the program codes by hand in several places: two nested loops that swap two elements
  in place when they are out of order.
\<close>

definition exchange_by :: "('a \<Rightarrow> 'a \<Rightarrow> bool) \<Rightarrow> nat \<Rightarrow> nat \<Rightarrow> 'a list \<Rightarrow> 'a list" where
  "exchange_by p i j xs = (if p (xs ! i) (xs ! j) then xs[i := xs ! j, j := xs ! i] else xs)"

definition exchange_sort_by :: "('a \<Rightarrow> 'a \<Rightarrow> bool) \<Rightarrow> 'a list \<Rightarrow> 'a list" where
  "exchange_sort_by p xs =
     fold (\<lambda>i ys. fold (\<lambda>j zs. exchange_by p i j zs) [i + 1..<length xs] ys) [0..<length xs - 1] xs"

text \<open>The comparison by a key.\<close>

abbreviation out_of_order :: "('a \<Rightarrow> 'b :: linorder) \<Rightarrow> 'a \<Rightarrow> 'a \<Rightarrow> bool" where
  "out_of_order f \<equiv> (\<lambda>a b. f a > f b)"

lemma mset_exchange_by:
  "i < length xs \<Longrightarrow> j < length xs \<Longrightarrow> mset (exchange_by (out_of_order f) i j xs) = mset xs \<and> length (exchange_by (out_of_order f) i j xs) = length xs"
  by (auto simp: exchange_by_def mset_swap)

text \<open>
  After the inner loop for \<open>i\<close> the smallest of the elements from \<open>i\<close> on is at \<open>i\<close>; the elements
  before \<open>i\<close> are untouched.
\<close>

lemma exchange_inner_loop:
  fixes f :: "'a \<Rightarrow> 'b :: linorder"
  assumes "i < k" "k \<le> length xs"
  shows "let ys = fold (\<lambda>j zs. exchange_by (out_of_order f) i j zs) [i + 1..<k] xs in
    mset ys = mset xs \<and> length ys = length xs \<and> take i ys = take i xs \<and>
    mset (drop i ys) = mset (drop i xs) \<and>
    (\<forall>j \<in> {i..<k}. f (ys ! i) \<le> f (ys ! j))"
  using assms
proof (induction k)
  case (Suc k)
  show ?case
  proof (cases "i < k")
    case False
    then have "k = i" using Suc.prems by simp
    then show ?thesis by (simp add: Let_def)
  next
    case True
    define ys where "ys = fold (\<lambda>j zs. exchange_by (out_of_order f) i j zs) [i + 1..<k] xs"
    have ys: "mset ys = mset xs" "length ys = length xs" "take i ys = take i xs"
      "mset (drop i ys) = mset (drop i xs)" "\<forall>j \<in> {i..<k}. f (ys ! i) \<le> f (ys ! j)"
      using Suc True by (simp_all add: ys_def Let_def)
    have e: "fold (\<lambda>j zs. exchange_by (out_of_order f) i j zs) [i + 1..<Suc k] xs = exchange_by (out_of_order f) i k ys"
      using True by (simp add: ys_def)
    have k: "i < length ys" "k < length ys" using ys Suc.prems True by simp_all
    have t: "take i (exchange_by (out_of_order f) i k ys) = take i ys"
      using True by (simp add: exchange_by_def)
    have "mset (exchange_by (out_of_order f) i k ys) = mset ys" "length (exchange_by (out_of_order f) i k ys) = length ys"
      using mset_exchange_by [OF k, of f] by auto
    moreover from this(1) have "mset (drop i (exchange_by (out_of_order f) i k ys)) = mset (drop i ys)"
      using t by (metis add_left_imp_eq append_take_drop_id mset_append)
    moreover have "\<forall>j \<in> {i..<Suc k}. f (exchange_by (out_of_order f) i k ys ! i) \<le> f (exchange_by (out_of_order f) i k ys ! j)"
    proof
      fix j assume j: "j \<in> {i..<Suc k}"
      show "f (exchange_by (out_of_order f) i k ys ! i) \<le> f (exchange_by (out_of_order f) i k ys ! j)"
      proof (cases "f (ys ! i) > f (ys ! k)")
        case True
        then show ?thesis
          using j ys(5) k \<open>i < k\<close> by (cases "j = k"; cases "j = i")
            (auto simp: exchange_by_def nth_list_update intro: order.trans [OF less_imp_le])
      next
        case False
        then show ?thesis using j ys(5) by (cases "j = k") (auto simp: exchange_by_def)
      qed
    qed
    ultimately show ?thesis unfolding e using ys t by (simp add: Let_def)
  qed
qed simp

lemma exchange_outer_loop:
  fixes f :: "'a \<Rightarrow> 'b :: linorder"
  assumes "n \<le> length xs"
  shows "let ys = fold (\<lambda>i ys. fold (\<lambda>j zs. exchange_by (out_of_order f) i j zs) [i + 1..<length xs] ys) [0..<n] xs in
    mset ys = mset xs \<and> length ys = length xs \<and> sorted (map f (take n ys)) \<and>
    (\<forall>x \<in> set (take n ys). \<forall>y \<in> set (drop n ys). f x \<le> f y)"
  using assms
proof (induction n)
  case (Suc n)
  define ys where "ys = fold (\<lambda>i ys. fold (\<lambda>j zs. exchange_by (out_of_order f) i j zs) [i + 1..<length xs] ys) [0..<n] xs"
  define zs where "zs = fold (\<lambda>j zs. exchange_by (out_of_order f) n j zs) [n + 1..<length xs] ys"
  have ys: "mset ys = mset xs" "length ys = length xs" "sorted (map f (take n ys))"
    "\<forall>x \<in> set (take n ys). \<forall>y \<in> set (drop n ys). f x \<le> f y"
    using Suc by (simp_all add: ys_def Let_def)
  have zs: "mset zs = mset ys" "length zs = length ys" "take n zs = take n ys"
    "mset (drop n zs) = mset (drop n ys)"
    "\<forall>j \<in> {n..<length xs}. f (zs ! n) \<le> f (zs ! j)"
    using exchange_inner_loop [of n "length xs" ys f] Suc.prems ys(2) by (simp_all add: zs_def Let_def)
  have s: "set (drop n zs) = set (drop n ys)" using zs(4) by (rule mset_eq_setD)
  have n: "n < length zs" using Suc.prems ys zs by simp
  have tk: "take (Suc n) zs = take n ys @ [zs ! n]" using n zs(3) by (simp add: take_Suc_conv_app_nth)
  have dr: "drop n zs = zs ! n # drop (Suc n) zs" using n by (simp add: Cons_nth_drop_Suc)
  have m: "zs ! n \<in> set (drop n ys)" using s dr by (metis list.set_intros(1))
  have le: "f (zs ! n) \<le> f y" if y: "y \<in> set (drop (Suc n) zs)" for y
  proof -
    obtain k where "k < length zs - Suc n" "zs ! (Suc n + k) = y"
      using y n by (auto simp: in_set_conv_nth)
    then show ?thesis using zs(2,5) ys(2) by auto
  qed
  have "set (drop (Suc n) zs) \<subseteq> set (drop n ys)" using s dr by (metis set_subset_Cons)
  then have "\<forall>x \<in> set (take (Suc n) zs). \<forall>y \<in> set (drop (Suc n) zs). f x \<le> f y"
    using ys(4) le by (auto simp: tk)
  moreover have "sorted (map f (take (Suc n) zs))"
    using ys(3,4) m by (auto simp: tk sorted_append)
  moreover have "fold (\<lambda>i ys. fold (\<lambda>j zs. exchange_by (out_of_order f) i j zs) [i + 1..<length xs] ys) [0..<Suc n] xs = zs"
    by (simp add: zs_def ys_def)
  ultimately show ?case using ys zs by (simp only: Let_def)
qed simp

lemma exchange_sort_by_key:
  fixes f :: "'a \<Rightarrow> 'b :: linorder"
  shows "mset (exchange_sort_by (out_of_order f) xs) = mset xs \<and> sorted (map f (exchange_sort_by (out_of_order f) xs))"
proof -
  let ?ys = "exchange_sort_by (out_of_order f) xs" and ?n = "length xs - 1"
  have o: "mset ?ys = mset xs" "length ?ys = length xs" "sorted (map f (take ?n ?ys))"
    "\<forall>x \<in> set (take ?n ?ys). \<forall>y \<in> set (drop ?n ?ys). f x \<le> f y"
    using exchange_outer_loop [of ?n xs f] by (simp_all add: exchange_sort_by_def Let_def)
  have "sorted (map f (drop ?n ?ys))"
  proof -
    define d where "d = drop ?n ?ys"
    have "length d \<le> 1" using o(2) by (simp add: d_def)
    then have "sorted (map f d)" by (cases d) auto
    then show ?thesis by (simp add: d_def)
  qed
  then have "sorted (map f (take ?n ?ys @ drop ?n ?ys))"
    unfolding map_append sorted_append using o(3,4) by auto
  then show ?thesis using o(1) by simp
qed

end
