(* ===== verification/SmsProcessor.thy ===== *)
theory SmsProcessor
  imports ExchangeSort Routing
begin

text \<open>
  \<open>SMSProcessor\<close> of \<open>pkg/smpp/message_handler.go\<close>: a long message is cut into parts with a
  concatenation header, and parts, in whatever order they arrive, are put together again.
\<close>

section \<open>Cutting\<close>

definition createMultipartUDH :: "u16 \<Rightarrow> u8 \<Rightarrow> u8 \<Rightarrow> byte list" where
  "createMultipartUDH refNum totalParts partNum =
     [0x00, 0x03, word_of_nat (unat refNum div 256), word_of_nat (unat refNum mod 256),
      totalParts, partNum]"

fun long_parts :: "message \<Rightarrow> u16 \<Rightarrow> u8 \<Rightarrow> nat \<Rightarrow> string list \<Rightarrow> message list result" where
  "long_parts m refNum n i [] = Ok []"
| "long_parts m refNum n i (part # parts) =
     res_bind (res_wrap ''failed to encode message part'' (Encode_text part (m_DataCoding m)))
       (\<lambda>encodedPart.
     let udh = createMultipartUDH refNum n (word_of_nat (i + 1));
         p = m\<lparr>m_ID := m_ID m @ ''_part_'' @ itoa (i + 1), m_Text := part,
               m_ShortMessage := (word_of_nat (length udh) # udh) @ encodedPart,
               m_EsmClass := or (m_EsmClass m) EsmClassUDHI\<rparr>
     in res_bind (long_parts m refNum n (i + 1) parts) (\<lambda>ps. Ok (p # ps)))"

definition ProcessLongSMS :: "message \<Rightarrow> message list result" where
  "ProcessLongSMS m =
     (let maxLength = GetMaxLength (m_DataCoding m) False; textRunes = runes (m_Text m) in
      if length textRunes \<le> maxLength then Ok [m]
      else
        res_bind (res_wrap ''failed to split message'' (SplitMessage (m_Text m) (m_DataCoding m)))
          (\<lambda>parts.
        if length parts > 255 then Err (Errorf ''message too long'')
        else long_parts m (generateReferenceNumber (m_ID m)) (word_of_nat (length parts)) 0 parts))"

section \<open>Putting together\<close>

record part_info =
  pi_message :: message
  pi_partNum :: u8
  pi_totalParts :: u8
  pi_refNum :: u16

text \<open>
  What the first loop reads of one part.  The bound \<open>1 + udhLength\<close> is computed in 8 bits and
  wraps to 0 for a header of 255 bytes.
\<close>

definition part_info_of :: "message \<Rightarrow> part_info result" where
  "part_info_of part =
     (if and (m_EsmClass part) EsmClassUDHI = 0 then Err (Errorf ''message part missing UDHI flag'')
      else if length (m_ShortMessage part) < 7 then Err (Errorf ''message part too short for UDH'')
      else
        res_bind (idx (m_ShortMessage part) 0) (\<lambda>udhLength.
        if unat udhLength \<ge> length (m_ShortMessage part) then Err (Errorf ''invalid UDH length'')
        else
          res_bind (slice (m_ShortMessage part) 1 (unat (1 + udhLength))) (\<lambda>udh.
          if length udh < 6 \<or> udh ! 0 \<noteq> 0x00 \<or> udh ! 1 \<noteq> 0x03
          then Err (Errorf ''invalid concatenated SMS UDH'')
          else Ok \<lparr>pi_message = part, pi_partNum = udh ! 5, pi_totalParts = udh ! 4,
                   pi_refNum = get_be16 [udh ! 2, udh ! 3]\<rparr>)))"

text \<open>The first loop: all parts must agree on the number of parts and the reference.\<close>

fun part_infos :: "message list \<Rightarrow> part_info list \<Rightarrow> u8 \<Rightarrow> u16 \<Rightarrow> (part_info list \<times> u8) result" where
  "part_infos [] infos expectedTotal refNum = Ok (infos, expectedTotal)"
| "part_infos (part # parts) infos expectedTotal refNum =
     res_bind (part_info_of part) (\<lambda>info.
     if infos = [] then part_infos parts [info] (pi_totalParts info) (pi_refNum info)
     else if pi_totalParts info \<noteq> expectedTotal then Err (Errorf ''inconsistent total parts'')
     else if pi_refNum info \<noteq> refNum then Err (Errorf ''inconsistent reference number'')
     else part_infos parts (infos @ [info]) expectedTotal refNum)"

text \<open>The exchange sort of the source: two nested loops that swap in place.\<close>

definition exchange :: "nat \<Rightarrow> nat \<Rightarrow> part_info list \<Rightarrow> part_info list" where
  "exchange i j xs =
     (if pi_partNum (xs ! i) > pi_partNum (xs ! j) then xs[i := xs ! j, j := xs ! i] else xs)"

definition exchange_sort :: "part_info list \<Rightarrow> part_info list" where
  "exchange_sort xs =
     fold (\<lambda>i ys. fold (\<lambda>j zs. exchange i j zs) [i + 1..<length xs] ys) [0..<length xs - 1] xs"

fun check_numbers :: "nat \<Rightarrow> part_info list \<Rightarrow> unit result" where
  "check_numbers i [] = Ok ()"
| "check_numbers i (info # infos) =
     (if pi_partNum info \<noteq> word_of_nat (i + 1) then Err (Errorf ''missing part'')
      else check_numbers (i + 1) infos)"

fun full_text :: "part_info list \<Rightarrow> string result" where
  "full_text [] = Ok ''''"
| "full_text (info # infos) =
     res_bind (idx (m_ShortMessage (pi_message info)) 0) (\<lambda>udhLength.
     res_bind (slice_from (m_ShortMessage (pi_message info)) (unat (1 + udhLength))) (\<lambda>textBytes.
     res_bind (res_wrap ''failed to decode part'' (Decode_text textBytes (m_DataCoding (pi_message info))))
       (\<lambda>partText.
     res_bind (full_text infos) (\<lambda>rest. Ok (partText @ rest)))))"

definition ConcatenateSMSParts :: "message list \<Rightarrow> message result" where
  "ConcatenateSMSParts parts =
     (if length parts = 0 then Err (Errorf ''no parts provided'')
      else if length parts = 1 then Ok (parts ! 0)
      else
        res_bind (part_infos parts [] 0 0) (\<lambda>(infos, expectedTotal).
        let sorted_infos = exchange_sort infos in
        if length sorted_infos \<noteq> unat expectedTotal then Err (Errorf ''missing parts'')
        else
          res_bind (check_numbers 0 sorted_infos) (\<lambda>_.
          res_bind (full_text sorted_infos) (\<lambda>fullText.
          res_bind (idx sorted_infos 0) (\<lambda>first.
          let c = (pi_message first)\<lparr>m_Text := fullText,
                    m_EsmClass := and (m_EsmClass (pi_message first)) (not EsmClassUDHI)\<rparr>
          in res_bind (res_wrap ''failed to encode concatenated message''
                 (Encode_text (m_Text c) (m_DataCoding c))) (\<lambda>encoded.
             Ok (c\<lparr>m_ShortMessage := encoded\<rparr>)))))))"

section \<open>The exchange sort\<close>

lemma exchange_sort_sorted:
  "mset (exchange_sort xs) = mset xs \<and> sorted (map pi_partNum (exchange_sort xs))"
proof -
  have "exchange i j = exchange_by (\<lambda>a b. pi_partNum a > pi_partNum b) i j" for i j
    by (simp add: fun_eq_iff exchange_def exchange_by_def)
  then show ?thesis
    using exchange_sort_by_key [of pi_partNum xs] by (simp add: exchange_sort_def exchange_sort_by_def)
qed

text \<open>
  The sort by part number that \<open>ConcatenateSMSParts\<close> codes by hand is a sort: a permutation of
  its input in ascending order.
\<close>

theorem exchange_sort_correct:
  "mset (exchange_sort xs) = mset xs \<and> sorted (map pi_partNum (exchange_sort xs))"
  by (rule exchange_sort_sorted)

section \<open>Cutting and putting together\<close>

text \<open>What \<open>ProcessLongSMS\<close> can cut without loss: the characters have a code in the data coding.\<close>

definition encodable :: "u8 \<Rightarrow> string \<Rightarrow> bool" where
  "encodable dc text \<longleftrightarrow>
     (if dc = 0 then list_all (\<lambda>r. in_gsm r \<and> r \<noteq> 27) (runes text)
      else (dc = 4 \<or> dc = 8) \<and> ValidString text)"

lemma encodable_valid: "encodable dc t \<Longrightarrow> ValidString t"
  by (auto simp: encodable_def list_all_iff intro!: gsm_text_valid split: if_splits)

lemma encodable_round_trip:
  "encodable dc t \<Longrightarrow> \<exists>bs. Encode_text t dc = Ok bs \<and> Decode_text bs dc = Ok t"
proof -
  assume e: "encodable dc t"
  consider "dc = 0" | "dc = 4" | "dc = 8" using e by (auto simp: encodable_def split: if_splits)
  then show ?thesis
  proof cases
    case 1
    then have "27 \<notin> set (runes t)" "list_all in_gsm (runes t)" using e by (auto simp: encodable_def list_all_iff)
    then show ?thesis
      using gsm_decode_encode [of "runes t"] string_of_runes_runes [OF encodable_valid [OF e]]
      by (simp add: 1 Encode_text_def Decode_text_def EncodeGSM7Bit_def DecodeGSM7Bit_def map_gsm_subst)
  next
    case 3
    then show ?thesis
      using UCS2_round_trip [OF encodable_valid [OF e]] by (simp add: Encode_text_def Decode_text_def)
  qed (simp add: Encode_text_def Decode_text_def)
qed

lemma split_runes_subset:
  "list_all scalar rs \<Longrightarrow> p \<in> set (split_runes n rs) \<Longrightarrow> ValidString p \<and> set (runes p) \<subseteq> set rs"
proof (induction n rs rule: split_runes.induct)
  case (1 n rs)
  have s: "list_all scalar (take n rs)" "list_all scalar (drop n rs)"
    using 1(2) by (auto simp: list_all_iff dest: in_set_takeD in_set_dropD)
  show ?case
    using 1 s set_take_subset [of n rs] set_drop_subset [of n rs]
    by (auto simp: split_runes.simps [of n rs] ValidString_string_of_runes split: if_splits)
qed

text \<open>The parts that \<open>long_parts\<close> makes, one by one.\<close>

definition long_part :: "message \<Rightarrow> u16 \<Rightarrow> u8 \<Rightarrow> nat \<Rightarrow> string \<Rightarrow> byte list \<Rightarrow> message" where
  "long_part m refNum n i part enc =
     m\<lparr>m_ID := m_ID m @ ''_part_'' @ itoa (i + 1), m_Text := part,
       m_ShortMessage := 6 # createMultipartUDH refNum n (word_of_nat (i + 1)) @ enc,
       m_EsmClass := or (m_EsmClass m) EsmClassUDHI\<rparr>"

lemma long_parts_Ok:
  "list_all (encodable (m_DataCoding m)) parts \<Longrightarrow>
   \<exists>ps. long_parts m ref n i parts = Ok ps \<and> length ps = length parts \<and>
     (\<forall>k < length parts. \<exists>enc. Encode_text (parts ! k) (m_DataCoding m) = Ok enc \<and>
        Decode_text enc (m_DataCoding m) = Ok (parts ! k) \<and>
        ps ! k = long_part m ref n (i + k) (parts ! k) enc)"
proof (induction parts arbitrary: i)
  case (Cons p parts)
  have "encodable (m_DataCoding m) p" "list_all (encodable (m_DataCoding m)) parts"
    using Cons.prems by simp_all
  then obtain enc where enc: "Encode_text p (m_DataCoding m) = Ok enc" "Decode_text enc (m_DataCoding m) = Ok p"
    using encodable_round_trip by blast
  obtain ps where ps: "long_parts m ref n (Suc i) parts = Ok ps" "length ps = length parts"
    "\<forall>k < length parts. \<exists>enc. Encode_text (parts ! k) (m_DataCoding m) = Ok enc \<and>
        Decode_text enc (m_DataCoding m) = Ok (parts ! k) \<and>
        ps ! k = long_part m ref n (Suc i + k) (parts ! k) enc"
    using Cons.IH [of "Suc i"] Cons.prems by auto
  have "long_parts m ref n i (p # parts) = Ok (long_part m ref n i p enc # ps)"
    using enc ps by (simp add: long_part_def Let_def createMultipartUDH_def)
  then show ?case
    using enc ps by (auto simp: nth_Cons less_Suc_eq_0_disj split: nat.split)
qed simp

lemma UDHI_set: "and (or w EsmClassUDHI) EsmClassUDHI \<noteq> (0 :: u8)"
proof -
  have "bit (and (or w EsmClassUDHI) EsmClassUDHI) 6 = True"
    by (simp add: bit_and_iff bit_or_iff)
  then show ?thesis by auto
qed

lemma UDHI_clear: "and (or w EsmClassUDHI) (not EsmClassUDHI) = and w (not (EsmClassUDHI :: u8))"
  by (rule bit_word_eqI) (auto simp: bit_and_iff bit_or_iff bit_not_iff simp del: EsmClassUDHI_def)

lemma get_be16_split: "get_be16 [word_of_nat (unat r div 256), word_of_nat (unat r mod 256)] = r"
  using get_put_be16 [of r] by (simp only: put_be16_def)

lemma part_info_of_long_part:
  "part_info_of (long_part m ref n i t enc) =
     Ok \<lparr>pi_message = long_part m ref n i t enc, pi_partNum = word_of_nat (i + 1), pi_totalParts = n,
          pi_refNum = ref\<rparr>"
  using UDHI_set [of "m_EsmClass m"]
  by (simp add: part_info_of_def long_part_def createMultipartUDH_def slice_def idx_def get_be16_split
      del: EsmClassUDHI_def)

lemma encodable_part:
  assumes "encodable dc t" and "p \<in> set (split_runes n (runes t))"
  shows "encodable dc p"
proof -
  have "ValidString p" "set (runes p) \<subseteq> set (runes t)"
    using split_runes_subset [OF runes_scalar assms(2)] by auto
  then show ?thesis using assms(1) by (auto simp: encodable_def list_all_iff split: if_splits)
qed

lemma ProcessLongSMS_parts:
  assumes e: "encodable (m_DataCoding m) (m_Text m)" and p: "ProcessLongSMS m = Ok ps"
    and two: "2 \<le> length ps"
  obtains parts where "concat parts = m_Text m" and "length ps = length parts" and "length parts \<le> 255"
    and "\<forall>k < length parts. \<exists>enc. Decode_text enc (m_DataCoding m) = Ok (parts ! k) \<and>
        ps ! k = long_part m (generateReferenceNumber (m_ID m)) (word_of_nat (length parts)) k (parts ! k) enc"
proof -
  let ?m = "GetMaxLength (m_DataCoding m) True"
  define parts where "parts = split_runes ?m (runes (m_Text m))"
  have "0 < ?m" using GetMaxLength_bounds(1) [of "m_DataCoding m"] by simp
  then have c: "concat parts = m_Text m"
    by (simp add: parts_def concat_split_runes string_of_runes_runes encodable_valid [OF e])
  have a: "list_all (encodable (m_DataCoding m)) parts"
    using encodable_part [OF e] by (simp add: parts_def list_all_iff)
  have "\<not> length (m_Text m) \<le> ?m"
  proof
    assume "length (m_Text m) \<le> ?m"
    then have "length (runes (m_Text m)) \<le> GetMaxLength (m_DataCoding m) False"
      using length_runes_le [of "m_Text m"] GetMaxLength_bounds(2) [of "m_DataCoding m"] by linarith
    with p two show False by (auto simp: ProcessLongSMS_def)
  qed
  then have "length parts \<le> 255"
    "long_parts m (generateReferenceNumber (m_ID m)) (word_of_nat (length parts)) 0 parts = Ok ps"
    using p two by (auto simp: ProcessLongSMS_def SplitMessage_def Let_def parts_def split: if_splits)
  with long_parts_Ok [OF a, of "generateReferenceNumber (m_ID m)" "word_of_nat (length parts)" 0]
  have "length ps = length parts" "\<forall>k < length parts. \<exists>enc. Decode_text enc (m_DataCoding m) = Ok (parts ! k) \<and>
        ps ! k = long_part m (generateReferenceNumber (m_ID m)) (word_of_nat (length parts)) k (parts ! k) enc"
    by auto
  with c \<open>length parts \<le> 255\<close> show ?thesis by (intro that [of parts])
qed

lemma ProcessLongSMS_Ok:
  assumes e: "encodable (m_DataCoding m) (m_Text m)"
    and n: "n = (length (runes (m_Text m)) + GetMaxLength (m_DataCoding m) True - 1) div GetMaxLength (m_DataCoding m) True"
    and long: "GetMaxLength (m_DataCoding m) False < length (runes (m_Text m))" and "n \<le> 255"
  shows "\<exists>ps. ProcessLongSMS m = Ok ps \<and> length ps = n"
proof -
  let ?m = "GetMaxLength (m_DataCoding m) True"
  let ?parts = "split_runes ?m (runes (m_Text m))"
  have "0 < ?m" using GetMaxLength_bounds(1) [of "m_DataCoding m"] by simp
  then have l: "length ?parts = n" by (simp add: length_split_runes n)
  have a: "list_all (encodable (m_DataCoding m)) ?parts"
    using encodable_part [OF e] by (simp add: list_all_iff)
  obtain ps where ps: "long_parts m (generateReferenceNumber (m_ID m)) (word_of_nat n) 0 ?parts = Ok ps"
    "length ps = length ?parts"
    using long_parts_Ok [OF a, of "generateReferenceNumber (m_ID m)" "word_of_nat n" 0] by auto
  have "\<not> length (m_Text m) \<le> ?m"
    using long length_runes_le [of "m_Text m"] GetMaxLength_bounds(2) [of "m_DataCoding m"] by linarith
  with ps l long \<open>n \<le> 255\<close> show ?thesis
    by (simp add: ProcessLongSMS_def SplitMessage_def Let_def)
qed

definition info_of :: "message \<Rightarrow> part_info" where
  "info_of q = (case part_info_of q of Ok x \<Rightarrow> x | Err e \<Rightarrow> undefined | Panic \<Rightarrow> undefined)"

lemma part_infos_Ok:
  "(\<And>q. q \<in> set qs \<Longrightarrow> part_info_of q = Ok (info_of q) \<and> pi_totalParts (info_of q) = t \<and>
      pi_refNum (info_of q) = r) \<Longrightarrow>
   part_infos qs infos t r = Ok (infos @ map info_of qs, t)"
proof (induction qs arbitrary: infos)
  case (Cons q qs)
  then show ?case by (cases "infos = []") (auto)
qed simp

lemma part_infos_start:
  assumes "\<And>q. q \<in> set qs \<Longrightarrow> part_info_of q = Ok (info_of q) \<and> pi_totalParts (info_of q) = t \<and>
      pi_refNum (info_of q) = r" and "qs \<noteq> []"
  shows "part_infos qs [] t0 r0 = Ok (map info_of qs, t)"
proof -
  obtain q qs' where qs: "qs = q # qs'" using assms(2) by (cases qs) auto
  with assms(1) [of q] have "part_infos qs [] t0 r0 = part_infos qs' [info_of q] t r" by simp
  also have "\<dots> = Ok ([info_of q] @ map info_of qs', t)"
    using assms(1) qs by (intro part_infos_Ok) simp
  finally show ?thesis by (simp add: qs)
qed

lemma check_numbers_Ok:
  "(\<And>k. k < length xs \<Longrightarrow> pi_partNum (xs ! k) = word_of_nat (i + k + 1)) \<Longrightarrow> check_numbers i xs = Ok ()"
proof (induction xs arbitrary: i)
  case (Cons x xs)
  have "check_numbers (i + 1) xs = Ok ()"
    using Cons.prems [of "Suc _"] by (intro Cons.IH) simp
  then show ?case using Cons.prems [of 0] by simp
qed simp

lemma full_text_Ok:
  assumes "length xs = length ts"
    and "\<And>k. k < length xs \<Longrightarrow> \<exists>h enc. m_ShortMessage (pi_message (xs ! k)) = 6 # h @ enc \<and> length h = 6 \<and>
      Decode_text enc (m_DataCoding (pi_message (xs ! k))) = Ok (ts ! k)"
  shows "full_text xs = Ok (concat ts)"
  using assms
proof (induction xs ts rule: list_induct2)
  case (Cons x xs t ts)
  obtain h enc where h: "m_ShortMessage (pi_message x) = 6 # h @ enc" "length h = 6"
    "Decode_text enc (m_DataCoding (pi_message x)) = Ok t"
    using Cons.prems [of 0] by auto
  have "full_text xs = Ok (concat ts)"
    using Cons.prems [of "Suc _"] by (intro Cons.IH) simp
  with h show ?case by (simp add: idx_def slice_from_def)
qed simp

lemma exchange_sort_unique:
  assumes "mset xs = mset ys" and "sorted_wrt (<) (map pi_partNum ys)"
  shows "exchange_sort xs = ys"
proof -
  have d: "distinct (map pi_partNum ys)" "sorted (map pi_partNum ys)"
    using assms(2) by (simp_all add: strict_sorted_iff)
  then have "inj_on pi_partNum (set ys)" by (simp add: distinct_map)
  moreover have "set xs = set ys" using assms(1) by (rule mset_eq_setD)
  ultimately have i: "inj_on pi_partNum (set xs)" by simp
  have "sort_key pi_partNum xs = ys" by (rule sort_key_inj_key_eq [OF assms(1) i d(2)])
  moreover have "sort_key pi_partNum xs = exchange_sort xs"
    using exchange_sort_sorted [of xs] by (intro sort_key_inj_key_eq [OF _ i]) simp_all
  ultimately show ?thesis by simp
qed

lemma itoa_1: "itoa 1 = ''1''"
  by code_simp

lemma long_part_payload:
  "\<exists>h. m_ShortMessage (long_part m r n k p enc) = 6 # h @ enc \<and> length h = 6"
  "m_DataCoding (long_part m r n k p enc) = m_DataCoding m"
  by (simp_all add: long_part_def createMultipartUDH_def)

text \<open>
  Parts with the same total and reference number, numbered from 1, are collected, sorted and checked
  whatever the order in which they arrive.
\<close>

lemma parts_in_any_order:
  assumes "length ps = n" and two: "2 \<le> n" and "n \<le> 255" and perm: "mset qs = mset ps"
    and info: "\<And>k. k < n \<Longrightarrow> part_info_of (ps ! k) = Ok (info_of (ps ! k))"
      "\<And>k. k < n \<Longrightarrow> pi_totalParts (info_of (ps ! k)) = word_of_nat n"
      "\<And>k. k < n \<Longrightarrow> pi_refNum (info_of (ps ! k)) = ref"
      "\<And>k. k < n \<Longrightarrow> pi_partNum (info_of (ps ! k)) = word_of_nat (k + 1)"
  shows "part_infos qs [] 0 0 = Ok (map info_of qs, word_of_nat n)"
    and "exchange_sort (map info_of qs) = map info_of ps"
    and "check_numbers 0 (map info_of ps) = Ok ()"
proof -
  have "set qs = set ps" using perm by (rule mset_eq_setD)
  then have q: "part_info_of q = Ok (info_of q) \<and> pi_totalParts (info_of q) = word_of_nat n \<and>
      pi_refNum (info_of q) = ref" if "q \<in> set qs" for q
    using that info(1-3) assms(1) by (auto simp: in_set_conv_nth)
  have lq: "length qs = n" using perm assms(1) by (metis size_mset)
  show "part_infos qs [] 0 0 = Ok (map info_of qs, word_of_nat n)"
    by (rule part_infos_start [OF q]) (use lq two in auto)
  have "map pi_partNum (map info_of ps) = map (\<lambda>k. word_of_nat (k + 1)) [0..<n]"
    by (rule nth_equalityI) (use info(4) assms(1) in simp_all)
  moreover have "sorted_wrt (<) (map (\<lambda>k. word_of_nat (k + 1) :: u8) [0..<n])"
    using assms(3) by (auto simp: sorted_wrt_iff_nth_less word_less_nat_alt unat_of_nat
        simp del: of_nat_Suc of_nat_add)
  ultimately show "exchange_sort (map info_of qs) = map info_of ps"
    by (intro exchange_sort_unique) (simp_all add: perm)
  show "check_numbers 0 (map info_of ps) = Ok ()"
    by (rule check_numbers_Ok) (use info(4) assms(1) in simp)
qed

lemma full_text_of_parts:
  assumes len: "length ps = length parts"
    and pk: "\<forall>k < length parts. \<exists>enc. Decode_text enc (m_DataCoding m) = Ok (parts ! k) \<and> ps ! k = long_part m ref n k (parts ! k) enc"
    and info: "\<And>k. k < length parts \<Longrightarrow> pi_message (info_of (ps ! k)) = ps ! k"
  shows "full_text (map info_of ps) = Ok (concat parts)"
proof (rule full_text_Ok)
  fix k assume "k < length (map info_of ps)"
  then have k: "k < length parts" using len by simp
  then obtain enc where "Decode_text enc (m_DataCoding m) = Ok (parts ! k)" and "ps ! k = long_part m ref n k (parts ! k) enc"
    using pk by blast
  then show "\<exists>h enc. m_ShortMessage (pi_message (map info_of ps ! k)) = 6 # h @ enc \<and> length h = 6 \<and>
      Decode_text enc (m_DataCoding (pi_message (map info_of ps ! k))) = Ok (parts ! k)"
    using info [OF k] k len long_part_payload [of m ref n k "parts ! k" enc] by auto
qed (simp add: len)

text \<open>
  C15. For a text that its data coding can carry (\<open>encodable\<close>: for coding 0 characters of the GSM alphabet
  without the escape character, for 4 and 8 valid UTF-8): the parts that \<open>ProcessLongSMS\<close> makes, two or more,
  received in any order, are put together to a message with the original text and its encoding; it carries the ID of
  the first part, \<open>..._part_1\<close>, not that of the message, and no UDHI flag.
\<close>

theorem long_SMS_round_trip:
  assumes e: "encodable (m_DataCoding m) (m_Text m)" and p: "ProcessLongSMS m = Ok ps"
    and two: "2 \<le> length ps" and perm: "mset qs = mset ps"
  shows "\<exists>c. ConcatenateSMSParts qs = Ok c \<and> m_Text c = m_Text m \<and> m_ID c = m_ID m @ ''_part_1'' \<and>
    m_EsmClass c = and (m_EsmClass m) (not EsmClassUDHI) \<and> Encode_text (m_Text m) (m_DataCoding m) = Ok (m_ShortMessage c)"
proof -
  let ?ref = "generateReferenceNumber (m_ID m)"
  obtain parts where parts: "concat parts = m_Text m" "length ps = length parts" "length parts \<le> 255"
    and pk: "\<forall>k < length parts. \<exists>enc. Decode_text enc (m_DataCoding m) = Ok (parts ! k) \<and>
        ps ! k = long_part m ?ref (word_of_nat (length parts)) k (parts ! k) enc"
    by (rule ProcessLongSMS_parts [OF e p two])
  define n where "n = length parts"
  have n2: "2 \<le> n" "n \<le> 255" "length ps = n" using two parts by (simp_all add: n_def)
  have info: "part_info_of (ps ! k) = Ok (info_of (ps ! k))" "pi_message (info_of (ps ! k)) = ps ! k"
    "pi_totalParts (info_of (ps ! k)) = word_of_nat n" "pi_refNum (info_of (ps ! k)) = ?ref"
    "pi_partNum (info_of (ps ! k)) = word_of_nat (k + 1)" if "k < n" for k
    using pk that by (auto simp: n_def info_of_def part_info_of_long_part)
  note collected = parts_in_any_order [OF n2(3) n2(1,2) perm info(1,3,4,5)]
  have full: "full_text (map info_of ps) = Ok (m_Text m)"
    using full_text_of_parts [OF parts(2) pk] info(2) parts(1) by (simp add: n_def)
  obtain enc0 where p0: "ps ! 0 = long_part m ?ref (word_of_nat n) 0 (parts ! 0) enc0"
    using pk [rule_format, of 0] two parts(2) unfolding n_def by fastforce
  obtain bs where bs: "Encode_text (m_Text m) (m_DataCoding m) = Ok bs"
    using encodable_round_trip [OF e] by blast
  let ?c = "(ps ! 0)\<lparr>m_Text := m_Text m, m_EsmClass := and (m_EsmClass (ps ! 0)) (not EsmClassUDHI),
      m_ShortMessage := bs\<rparr>"
  have "0 < n" using n2 by simp
  from info(1,2) [OF this] have i0: "idx (map info_of ps) 0 = Ok (info_of (ps ! 0))"
    "pi_message (info_of (ps ! 0)) = ps ! 0"
    using \<open>0 < n\<close> parts(2) by (simp_all add: idx_def n_def)
  have "unat (word_of_nat n :: u8) = n" using n2 by simp
  moreover have "m_DataCoding (ps ! 0) = m_DataCoding m" using p0 by (simp add: long_part_payload)
  moreover have "length qs \<noteq> 0" "length qs \<noteq> 1" "length (map info_of ps) = n"
    using n2 perm by (auto dest: arg_cong [where f = size])
  ultimately have "ConcatenateSMSParts qs = Ok ?c"
    using bs by (simp add: ConcatenateSMSParts_def collected full i0 Let_def del: EsmClassUDHI_def)
  moreover have "m_EsmClass ?c = and (m_EsmClass m) (not EsmClassUDHI)"
    using UDHI_clear [of "m_EsmClass m"] p0 by (simp add: long_part_def del: EsmClassUDHI_def)
  moreover have "m_ID ?c = m_ID m @ ''_part_1''"
    using p0 itoa_1 by (simp add: long_part_def)
  ultimately show ?thesis using bs by (intro exI [of _ ?c]) (simp del: EsmClassUDHI_def)
qed

text \<open>
  The upper bound of the header is computed in 8 bits: a part whose first byte says that the
  header has 255 bytes, and that is long enough to hold it, makes \<open>ConcatenateSMSParts\<close> panic.
\<close>

theorem ConcatenateSMSParts_panics:
  assumes "and (m_EsmClass p) EsmClassUDHI \<noteq> 0" and "m_ShortMessage p = 255 # h" and "255 \<le> length h"
  shows "ConcatenateSMSParts (p # q # ps) = Panic"
  using assms
  by (simp add: ConcatenateSMSParts_def part_info_of_def idx_def slice_def del: EsmClassUDHI_def)

section \<open>Concrete instances\<close>

definition example_long :: message where
  "example_long = zero_message\<lparr>m_DataCoding := 8, m_Text := replicate 71 (CHR ''a'')\<rparr>"

theorem long_SMS_round_trip_witness:
  "\<exists>ps c. ProcessLongSMS example_long = Ok ps \<and> ConcatenateSMSParts (rev ps) = Ok c \<and>
    m_Text c = replicate 71 (CHR ''a'')"
proof -
  have r: "length (runes (replicate 71 (CHR ''a''))) = 71"
    by (subst runes_ASCII) (simp_all add: codes_def list_all_iff)
  have e: "encodable (m_DataCoding example_long) (m_Text example_long)"
    using ValidString_ASCII [of "replicate 71 (CHR ''a'')"]
    by (simp add: encodable_def example_long_def codes_def list_all_iff)
  obtain ps where ps: "ProcessLongSMS example_long = Ok ps" "length ps = 2"
    using ProcessLongSMS_Ok [OF e refl] r by (auto simp: example_long_def GetMaxLength_def)
  from long_SMS_round_trip [OF e ps(1), of "rev ps"] ps show ?thesis
    by (auto simp: example_long_def)
qed

lemma replicate_Cons_255: "replicate 256 x = x # replicate 255 x"
  using replicate_Suc [of 255 x] by simp

theorem ConcatenateSMSParts_panics_witness:
  "ConcatenateSMSParts (zero_message\<lparr>m_EsmClass := 0x40, m_ShortMessage := replicate 256 255\<rparr> # zero_message # []) = Panic"
  by (rule ConcatenateSMSParts_panics [where h = "replicate 255 255"])
     (simp_all add: replicate_Cons_255)

end
