(* ===== verification/Receipts.thy ===== *)
theory Receipts
  imports Routing
begin

text \<open>
  Delivery receipts (\<open>pkg/smpp/message_handler.go\<close>): the text that \<open>GenerateDeliveryReport\<close> makes of a
  message, what \<open>parseDeliveryReceiptText\<close> reads of a text, and the two maps between receipt
  statuses and message statuses.
\<close>

section \<open>The string functions of the library that the receipts use\<close>

text \<open>\<open>unicode.IsSpace\<close>\<close>

definition IsSpace :: "rune \<Rightarrow> bool" where
  "IsSpace r \<longleftrightarrow> 9 \<le> r \<and> r \<le> 13 \<or> r = 0x20 \<or> r = 0x85 \<or> r = 0xA0 \<or> r = 0x1680 \<or>
     0x2000 \<le> r \<and> r \<le> 0x200A \<or> r = 0x2028 \<or> r = 0x2029 \<or> r = 0x202F \<or> r = 0x205F \<or> r = 0x3000"

text \<open>
  \<open>strings.Fields\<close>: the maximal runs of runes that are no white space; \<open>cur\<close> holds the bytes of the
  run that is being read.
\<close>

function fields_from :: "nat list \<Rightarrow> nat list \<Rightarrow> nat list list" where
  "fields_from cur bs =
     (if bs = [] then (if cur = [] then [] else [cur])
      else let n = snd (decode_rune bs) in
        if IsSpace (fst (decode_rune bs))
        then (if cur = [] then [] else [cur]) @ fields_from [] (drop n bs)
        else fields_from (cur @ take n bs) (drop n bs))"
  by pat_completeness auto
termination
  by (relation "measure (\<lambda>(cur, bs). length bs)")
     (auto simp: decode_rune_width)

declare fields_from.simps [simp del]

definition Fields :: "string \<Rightarrow> string list" where
  "Fields s = map string_of_codes (fields_from [] (codes s))"

definition TrimPrefix :: "string \<Rightarrow> string \<Rightarrow> string" where
  "TrimPrefix s p = (if HasPrefix s p then drop (length p) s else s)"

definition Contains :: "string \<Rightarrow> string \<Rightarrow> bool" where
  "Contains s p = list_ex (\<lambda>i. HasPrefix (drop i s) p) [0..<length s + 1]"

text \<open>
  \<open>strings.ToUpper\<close>, as far as a comparison with a word of ASCII capitals can tell: besides the small
  letters exactly U+0131 and U+017F have an ASCII capital; the others are left as they are.
\<close>

definition ToUpper_rune :: "rune \<Rightarrow> rune" where
  "ToUpper_rune r =
     (if 97 \<le> r \<and> r \<le> 122 then r - 32 else if r = 0x131 then 73 else if r = 0x17F then 83 else r)"

definition ToUpper :: "string \<Rightarrow> string" where
  "ToUpper s = string_of_runes (map ToUpper_rune (runes s))"

section \<open>Statuses\<close>

definition mapReceiptStatusToMessageStatus :: "string \<Rightarrow> message_status" where
  "mapReceiptStatusToMessageStatus receiptStatus =
     (let s = ToUpper receiptStatus in
      if s = ''DELIVRD'' then MessageStatusDelivered
      else if s = ''EXPIRED'' then MessageStatusExpired
      else if s = ''DELETED'' then MessageStatusDeleted
      else if s = ''UNDELIV'' then MessageStatusUndeliverable
      else if s = ''ACCEPTD'' then MessageStatusAccepted
      else if s = ''REJECTD'' then MessageStatusRejected
      else MessageStatusUnknown)"

fun mapMessageStatusToReceiptStatus :: "message_status \<Rightarrow> string" where
  "mapMessageStatusToReceiptStatus MessageStatusDelivered = ''DELIVRD''"
| "mapMessageStatusToReceiptStatus MessageStatusExpired = ''EXPIRED''"
| "mapMessageStatusToReceiptStatus MessageStatusDeleted = ''DELETED''"
| "mapMessageStatusToReceiptStatus MessageStatusUndeliverable = ''UNDELIV''"
| "mapMessageStatusToReceiptStatus MessageStatusAccepted = ''ACCEPTD''"
| "mapMessageStatusToReceiptStatus MessageStatusRejected = ''REJECTD''"
| "mapMessageStatusToReceiptStatus _ = ''UNKNOWN''"

section \<open>Making a receipt\<close>

definition GenerateDeliveryReport :: "time \<Rightarrow> message \<Rightarrow> message_status \<Rightarrow> delivery_report result" where
  "GenerateDeliveryReport now m status =
     (let submitDate = Format_0601021504 (m_SubmitTime m);
          doneDate = Format_0601021504 now;
          statusText = mapMessageStatusToReceiptStatus status
      in res_bind (if length (m_Text m) > 20
                   then res_map (\<lambda>t. t @ ''...'') (slice (m_Text m) 0 17) else Ok (m_Text m))
           (\<lambda>reportText.
         Ok \<lparr>r_MessageID = m_ID m, r_SubmitDate = submitDate, r_DoneDate = doneDate,
              r_Status = statusText, r_Error = ''000'',
              r_Text = ''id:'' @ m_ID m @ '' sub:'' @ ''001'' @ '' dlvrd:'' @ ''001'' @ '' submit date:'' @
                submitDate @ '' done date:'' @ doneDate @ '' stat:'' @ statusText @ '' err:'' @ ''000'' @
                '' text:'' @ reportText,
              r_SubmittedParts = 1, r_DeliveredParts = 1, r_Timestamp = now,
              r_SubmitTime = m_SubmitTime m, r_DoneTime = now\<rparr>))"

section \<open>Reading a receipt\<close>

definition receipt_field :: "delivery_report \<Rightarrow> string \<Rightarrow> delivery_report" where
  "receipt_field receipt part =
     (if HasPrefix part ''id:'' then receipt\<lparr>r_MessageID := TrimPrefix part ''id:''\<rparr>
      else if HasPrefix part ''stat:'' then receipt\<lparr>r_Status := TrimPrefix part ''stat:''\<rparr>
      else if HasPrefix part ''err:'' then receipt\<lparr>r_Error := TrimPrefix part ''err:''\<rparr>
      else if HasPrefix part ''submit'' \<and> Contains part ''date:''
      then receipt\<lparr>r_SubmitDate := TrimPrefix part ''date:''\<rparr>
      else if HasPrefix part ''done'' \<and> Contains part ''date:''
      then receipt\<lparr>r_DoneDate := TrimPrefix part ''date:''\<rparr>
      else receipt)"

definition parseDeliveryReceiptText :: "string \<Rightarrow> delivery_report result" where
  "parseDeliveryReceiptText text =
     Ok (foldl receipt_field (zero_delivery_report\<lparr>r_Text := text\<rparr>) (Fields text))"

section \<open>Statuses there and back\<close>

lemma ToUpper_capitals:
  assumes "list_all (\<lambda>b. b < 97) (codes s)"
  shows "ToUpper s = s"
proof -
  have a: "list_all (\<lambda>b. b < 0x80) (codes s)" using assms by (auto simp: list_all_iff)
  then have "ValidString s" by (rule ValidString_ASCII)
  moreover have "map ToUpper_rune (runes s) = runes s"
    using assms by (intro map_idI) (auto simp: runes_ASCII [OF a] ToUpper_rune_def list_all_iff)
  ultimately show ?thesis by (simp add: ToUpper_def string_of_runes_runes)
qed

lemma receipt_status_inverse:
  "mapMessageStatusToReceiptStatus st \<noteq> ''UNKNOWN'' \<Longrightarrow>
   mapReceiptStatusToMessageStatus (mapMessageStatusToReceiptStatus st) = st"
  by (cases st) (simp_all add: mapReceiptStatusToMessageStatus_def ToUpper_capitals codes_def)

text \<open>
  A status that a receipt can express is read back from the receipt's word for it; every other
  status is read back as unknown.
\<close>

theorem receipt_status_round_trip:
  "mapReceiptStatusToMessageStatus (mapMessageStatusToReceiptStatus st) =
    (if st \<in> {MessageStatusDelivered, MessageStatusExpired, MessageStatusDeleted,
       MessageStatusUndeliverable, MessageStatusAccepted, MessageStatusRejected}
     then st else MessageStatusUnknown)"
  by (cases st) (simp_all add: mapReceiptStatusToMessageStatus_def ToUpper_capitals codes_def)

section \<open>Splitting into fields\<close>

definition plain :: "nat \<Rightarrow> bool" where
  "plain b \<longleftrightarrow> b < 0x80 \<and> \<not> IsSpace b"

lemma decode_rune_plain: "plain b \<Longrightarrow> decode_rune (b # bs) = (b, 1)"
  by (simp add: plain_def decode_rune_def)

lemma fields_plain: "list_all plain a \<Longrightarrow> fields_from cur (a @ bs) = fields_from (cur @ a) bs"
proof (induction a arbitrary: cur)
  case (Cons b a)
  then have "fields_from cur ((b # a) @ bs) = fields_from (cur @ [b]) (a @ bs)"
    by (subst fields_from.simps) (simp add: decode_rune_plain, simp add: plain_def)
  with Cons show ?case by simp
qed simp

lemma fields_space: "cur \<noteq> [] \<Longrightarrow> fields_from cur (32 # bs) = cur # fields_from [] bs"
  by (subst fields_from.simps) (simp add: decode_rune_def IsSpace_def)

lemma fields_word:
  "list_all plain a \<Longrightarrow> a \<noteq> [] \<Longrightarrow> fields_from [] (a @ 32 # bs) = a # fields_from [] bs"
  by (simp add: fields_plain fields_space)

lemma Fields_word:
  assumes "list_all plain (codes w)" and "w \<noteq> ''''"
  shows "Fields (w @ '' '' @ t) = w # Fields t"
  using fields_word [of "codes w" "codes t"] assms by (simp add: Fields_def codes_def comp_def string_of_codes_def)

lemma Format_plain: "list_all plain (codes (Format_0601021504 t))"
proof -
  have "plain (of_char (digit_char n))" for n
    by (simp add: plain_def IsSpace_def) (use mod_less_divisor [of 10 n] in linarith)
  then show ?thesis
    by (simp add: Format_0601021504_def two_digits_def codes_def Let_def split_beta del: of_char_digit_char)
qed

section \<open>Reading a receipt that was made here\<close>

definition plain_text :: "string \<Rightarrow> bool" where
  "plain_text s \<longleftrightarrow> list_all plain (codes s)"

lemma plain_text_append [simp]: "plain_text (s @ t) \<longleftrightarrow> plain_text s \<and> plain_text t"
  by (simp add: plain_text_def codes_def)

lemma plain_text_Cons [simp]: "plain_text (c # t) \<longleftrightarrow> plain (of_char c) \<and> plain_text t"
  by (simp add: plain_text_def codes_def)

lemma plain_text_Nil [simp]: "plain_text ''''"
  by (simp add: plain_text_def codes_def)

lemma plain_text_Format [simp]: "plain_text (Format_0601021504 t)"
  by (simp add: plain_text_def Format_plain)

lemma plain_text_status [simp]: "plain_text (mapMessageStatusToReceiptStatus st)"
  by (cases st) (simp_all add: plain_def IsSpace_def)

lemma Fields_Cons: "plain_text w \<Longrightarrow> w \<noteq> '''' \<Longrightarrow> Fields (w @ CHR '' '' # t) = w # Fields t"
  using Fields_word [of w t] by (simp add: plain_text_def)

lemma Fields_plain: "plain_text w \<Longrightarrow> w \<noteq> '''' \<Longrightarrow> Fields w = [w]"
  using fields_plain [of "codes w" "[]" "[]"]
  by (simp add: Fields_def plain_text_def fields_from.simps [of _ "[]"]) (simp add: codes_def)

definition report_text :: "message \<Rightarrow> string" where
  "report_text m = (if length (m_Text m) > 20 then take 17 (m_Text m) @ ''...'' else m_Text m)"

lemma GenerateDeliveryReport_eq:
  "GenerateDeliveryReport now m st =
     Ok \<lparr>r_MessageID = m_ID m, r_SubmitDate = Format_0601021504 (m_SubmitTime m),
          r_DoneDate = Format_0601021504 now, r_Status = mapMessageStatusToReceiptStatus st,
          r_Error = ''000'',
          r_Text = ''id:'' @ m_ID m @ '' sub:001 dlvrd:001 submit date:'' @
            Format_0601021504 (m_SubmitTime m) @ '' done date:'' @ Format_0601021504 now @
            '' stat:'' @ mapMessageStatusToReceiptStatus st @ '' err:000 text:'' @ report_text m,
          r_SubmittedParts = 1, r_DeliveredParts = 1, r_Timestamp = now,
          r_SubmitTime = m_SubmitTime m, r_DoneTime = now\<rparr>"
  by (simp add: GenerateDeliveryReport_def report_text_def slice_def Let_def)

text \<open>The words of a receipt.\<close>

lemma Fields_words:
  "list_all (\<lambda>w. plain_text w \<and> w \<noteq> '''') ws \<Longrightarrow>
   Fields (concat (map (\<lambda>w. w @ '' '') ws) @ t) = ws @ Fields t"
  by (induction ws) (simp_all add: Fields_Cons)

definition receipt_head :: "message \<Rightarrow> time \<Rightarrow> message_status \<Rightarrow> string list" where
  "receipt_head m now st =
    [''id:'' @ m_ID m, ''sub:001'', ''dlvrd:001'', ''submit'', ''date:'' @ Format_0601021504 (m_SubmitTime m),
     ''done'', ''date:'' @ Format_0601021504 now, ''stat:'' @ mapMessageStatusToReceiptStatus st, ''err:000'']"

lemma Fields_receipt:
  assumes "plain_text (m_ID m)" and r: "GenerateDeliveryReport now m st = Ok r"
  shows "Fields (r_Text r) = receipt_head m now st @ Fields (''text:'' @ report_text m)"
proof -
  have "r_Text r = concat (map (\<lambda>w. w @ '' '') (receipt_head m now st)) @ ''text:'' @ report_text m"
    using r by (auto simp: GenerateDeliveryReport_eq receipt_head_def)
  moreover have "list_all (\<lambda>w. plain_text w \<and> w \<noteq> '''') (receipt_head m now st)"
    using assms(1) by (simp add: receipt_head_def plain_def IsSpace_def)
  ultimately show ?thesis using Fields_words by metis
qed

definition receipt_word :: "string \<Rightarrow> bool" where
  "receipt_word p \<longleftrightarrow> HasPrefix p ''id:'' \<or> HasPrefix p ''stat:'' \<or> HasPrefix p ''err:''"

lemma receipt_field_other:
  "\<not> receipt_word p \<Longrightarrow> r_MessageID (receipt_field r p) = r_MessageID r \<and>
    r_Status (receipt_field r p) = r_Status r \<and> r_Error (receipt_field r p) = r_Error r"
  by (simp add: receipt_word_def receipt_field_def)

lemma foldl_receipt_field_other:
  "list_all (\<lambda>p. \<not> receipt_word p) ps \<Longrightarrow>
    r_MessageID (foldl receipt_field r ps) = r_MessageID r \<and>
    r_Status (foldl receipt_field r ps) = r_Status r \<and> r_Error (foldl receipt_field r ps) = r_Error r"
  by (induction ps arbitrary: r) (simp_all add: receipt_field_other)

lemma read_receipt_head:
  "foldl receipt_field r0 (receipt_head m now st) =
     r0\<lparr>r_MessageID := m_ID m, r_Status := mapMessageStatusToReceiptStatus st, r_Error := ''000''\<rparr>"
  by (simp add: receipt_head_def receipt_field_def HasPrefix_def TrimPrefix_def Contains_def)

lemma r_Text_foldl: "r_Text (foldl receipt_field r ps) = r_Text r"
  by (induction ps arbitrary: r) (simp_all add: receipt_field_def)

lemma receipt_reads:
  assumes "plain_text (m_ID m)" and "GenerateDeliveryReport now m st = Ok r"
    and "list_all (\<lambda>p. \<not> receipt_word p) (Fields (''text:'' @ report_text m))"
  shows "\<exists>p. parseDeliveryReceiptText (r_Text r) = Ok p \<and> r_MessageID p = m_ID m \<and>
    r_Status p = r_Status r \<and> r_Error p = r_Error r \<and> r_Text p = r_Text r"

  using assms
  by (simp add: parseDeliveryReceiptText_def Fields_receipt read_receipt_head foldl_receipt_field_other
      r_Text_foldl) (auto simp: GenerateDeliveryReport_eq)

lemma HasPrefix_nth: "HasPrefix s p \<Longrightarrow> i < length p \<Longrightarrow> s ! i = p ! i"
  by (metis HasPrefix_def nth_take)

text \<open>
  A receipt made for a message whose ID is printable ASCII is read back with the ID, the status
  word and the error code it was made with, unless a word of the quoted message text itself begins
  with \<open>id:\<close>, \<open>stat:\<close> or \<open>err:\<close>.
\<close>

theorem receipt_round_trip:
  assumes "plain_text (m_ID m)" and "GenerateDeliveryReport now m st = Ok r"
    and "list_all (\<lambda>p. \<not> receipt_word p) (Fields (''text:'' @ report_text m))"
  shows "\<exists>p. parseDeliveryReceiptText (r_Text r) = Ok p \<and> r_MessageID p = m_ID m \<and>
    r_Status p = r_Status r \<and> r_Error p = r_Error r \<and> r_Text p = r_Text r"

  by (rule receipt_reads [OF assms])

text \<open>
  The two dates of a receipt are never read: \<open>strings.Fields\<close> has parted the words
  \<open>submit date:\<close>, so the field stays empty, or holds a word of the text that begins with \<open>submit\<close>
  (or \<open>done\<close>), never a date.
\<close>

theorem receipt_dates_not_read:
  "case parseDeliveryReceiptText t of
     Ok p \<Rightarrow> (r_SubmitDate p = '''' \<or> HasPrefix (r_SubmitDate p) ''submit'') \<and>
             (r_DoneDate p = '''' \<or> HasPrefix (r_DoneDate p) ''done'')
   | Err e \<Rightarrow> False | Panic \<Rightarrow> False"
proof -
  let ?ok = "\<lambda>r. (r_SubmitDate r = '''' \<or> HasPrefix (r_SubmitDate r) ''submit'') \<and>
             (r_DoneDate r = '''' \<or> HasPrefix (r_DoneDate r) ''done'')"
  have step: "?ok (receipt_field r p)" if "?ok r" for r p
  proof -
    have "TrimPrefix p ''date:'' = p" if "HasPrefix p ''submit'' \<or> HasPrefix p ''done''"
      using that HasPrefix_nth [of p "''date:''"] HasPrefix_nth [of p "''submit''" 0]
        HasPrefix_nth [of p "''done''" 1]
      by (fastforce simp: TrimPrefix_def)

    with that show ?thesis by (simp add: receipt_field_def)
  qed
  have "?ok (foldl receipt_field r ps)" if "?ok r" for r ps
    using that
  proof (induction ps arbitrary: r)
    case (Cons p ps)
    show ?case using Cons.IH [OF step [OF Cons.prems, of p]] by simp
  qed simp
  from this [of "zero_delivery_report\<lparr>r_Text := t\<rparr>" "Fields t"] show ?thesis
    by (simp add: parseDeliveryReceiptText_def zero_delivery_report_def)
qed

text \<open>
  The quoted text can forge the ID: a receipt for the text \<open>hi id:7\<close> is read as one for the
  message 7.
\<close>

theorem receipt_text_forges_ID:
  assumes "plain_text (m_ID m)" and "m_Text m = ''hi id:7''" and "GenerateDeliveryReport now m st = Ok r"
  shows "\<exists>p. parseDeliveryReceiptText (r_Text r) = Ok p \<and> r_MessageID p = ''7''"
proof -
  have "Fields ''id:7'' = [''id:7'']"
    by (rule Fields_plain) (simp_all add: plain_def IsSpace_def)

  then have "Fields (''text:'' @ report_text m) = [''text:hi'', ''id:7'']"
    using Fields_Cons [of "''text:hi''" "''id:7''"] assms(2) by (simp add: report_text_def plain_def IsSpace_def)
  then show ?thesis
    using assms by (simp add: parseDeliveryReceiptText_def Fields_receipt read_receipt_head)
      (simp add: receipt_field_def HasPrefix_def TrimPrefix_def)
qed

section \<open>Concrete instances\<close>

definition example_report :: delivery_report where
  "example_report = (case GenerateDeliveryReport 0 (zero_message\<lparr>m_ID := ''a'', m_Text := ''hi''\<rparr>) MessageStatusDelivered
     of Ok r \<Rightarrow> r | Err e \<Rightarrow> zero_delivery_report | Panic \<Rightarrow> zero_delivery_report)"

theorem receipt_round_trip_witness:
  "\<exists>p. parseDeliveryReceiptText (r_Text example_report) = Ok p \<and> r_MessageID p = ''a'' \<and>
    r_Status p = r_Status example_report \<and> r_Error p = r_Error example_report \<and> r_Text p = r_Text example_report"
proof -
  let ?m = "zero_message\<lparr>m_ID := ''a'', m_Text := ''hi''\<rparr>"
  have p: "plain_text (m_ID ?m)" by code_simp
  have r: "GenerateDeliveryReport 0 ?m MessageStatusDelivered = Ok example_report"
    by (simp add: example_report_def GenerateDeliveryReport_eq)
  have "Fields (''text:'' @ report_text ?m) = [''text:hi'']"
    using Fields_plain [of "''text:hi''"] by (simp add: report_text_def plain_def IsSpace_def)
  then have f: "list_all (\<lambda>p. \<not> receipt_word p) (Fields (''text:'' @ report_text ?m))"
    by (simp add: receipt_word_def HasPrefix_def)

  from receipt_round_trip [OF p r f] show ?thesis by simp
qed

theorem receipt_text_forges_ID_witness:
  "\<exists>r p. GenerateDeliveryReport 0 (zero_message\<lparr>m_ID := ''a'', m_Text := ''hi id:7''\<rparr>) MessageStatusDelivered = Ok r \<and>
    parseDeliveryReceiptText (r_Text r) = Ok p \<and> r_MessageID p = ''7''"
proof -
  let ?m = "zero_message\<lparr>m_ID := ''a'', m_Text := ''hi id:7''\<rparr>"
  obtain r where r: "GenerateDeliveryReport 0 ?m MessageStatusDelivered = Ok r"
    by (simp add: GenerateDeliveryReport_eq)
  have "plain_text (m_ID ?m)" by code_simp
  from receipt_text_forges_ID [OF this _ r] r show ?thesis by auto
qed

end
