(* ===== verification/MessageHandler.thy ===== *)
theory MessageHandler
  imports Receipts Codec
begin

text \<open>
  \<open>MessageHandlerImpl\<close> of \<open>pkg/smpp/message_handler.go\<close>: one definition per method, on the state of
  the stores and of the queue behind the handler's interfaces, the events it has published and the
  messages whose processing it has started in a goroutine of its own.

  The dependencies that may be \<open>nil\<close> are options.  The clock is a function from the number of
  readings so far to a time, so that every \<open>time.Now()\<close> is a reading of its own.  Logging and
  metrics are left out.
\<close>

section \<open>Dependencies and state\<close>

record 'q queue_ops =
  qo_EnqueueMessage :: "'q \<Rightarrow> time \<Rightarrow> time \<Rightarrow> message \<Rightarrow> route_info \<Rightarrow> unit result \<times> 'q"

record ('s, 'r, 'q) handler =
  mh_smsStorage :: "'s sms_ops option"
  mh_reportStorage :: "'r report_ops option"
  mh_eventPublisher :: bool
  mh_router :: "(message \<Rightarrow> route_info result) option"
  mh_queue :: "'q queue_ops option"
  mh_splitter :: "(message \<Rightarrow> message list result) option"
  mh_clock :: "nat \<Rightarrow> time"

record ('s, 'r, 'q) world =
  w_sms :: 's
  w_reports :: 'r
  w_queue :: 'q
  w_events :: "event list"
  w_jobs :: "message list"
  w_ticks :: nat

definition Now :: "('s, 'r, 'q) handler \<Rightarrow> ('s, 'r, 'q) world \<Rightarrow> time \<times> ('s, 'r, 'q) world" where
  "Now mh w = (mh_clock mh (w_ticks w), w\<lparr>w_ticks := w_ticks w + 1\<rparr>)"

text \<open>
  The two results of a Go method, the value and the error, and a panic that left the method.
\<close>

datatype 'a reply = Reply 'a "error option" | Panicked

text \<open>The calls behind \<open>if mh.smsStorage != nil\<close> and its like.\<close>

definition store_sms ::
    "('s, 'r, 'q) handler \<Rightarrow> ('s, 'r, 'q) world \<Rightarrow> message \<Rightarrow> unit result \<times> ('s, 'r, 'q) world" where
  "store_sms mh w m =
     (case mh_smsStorage mh of
        None \<Rightarrow> (Ok (), w)
      | Some ops \<Rightarrow>
          let (now, w1) = Now mh w; (r, s) = so_StoreSMS ops (w_sms w1) now m
          in (res_map (\<lambda>_. ()) r, w1\<lparr>w_sms := s\<rparr>))"

definition update_sms_status ::
    "('s, 'r, 'q) handler \<Rightarrow> ('s, 'r, 'q) world \<Rightarrow> string \<Rightarrow> message_status \<Rightarrow>
     unit result \<times> ('s, 'r, 'q) world" where
  "update_sms_status mh w messageID status =
     (case mh_smsStorage mh of
        None \<Rightarrow> (Ok (), w)
      | Some ops \<Rightarrow>
          let (now, w1) = Now mh w; (r, s) = so_UpdateSMSStatus ops (w_sms w1) now messageID status
          in (r, w1\<lparr>w_sms := s\<rparr>))"

definition store_report ::
    "('s, 'r, 'q) handler \<Rightarrow> ('s, 'r, 'q) world \<Rightarrow> delivery_report \<Rightarrow>
     unit result \<times> ('s, 'r, 'q) world" where
  "store_report mh w report =
     (case mh_reportStorage mh of
        None \<Rightarrow> (Ok (), w)
      | Some ops \<Rightarrow>
          let (r, s) = ro_StoreReport ops (w_reports w) report in (r, w\<lparr>w_reports := s\<rparr>))"

text \<open>Publishing reads the clock for the event's time stamp; the publisher's error is dropped.\<close>

definition publish ::
    "('s, 'r, 'q) handler \<Rightarrow> ('s, 'r, 'q) world \<Rightarrow> (time \<Rightarrow> event) \<Rightarrow> ('s, 'r, 'q) world" where
  "publish mh w ev =
     (if mh_eventPublisher mh
      then let (now, w1) = Now mh w in w1\<lparr>w_events := w_events w1 @ [ev now]\<rparr> else w)"

definition sms_event_of :: "event_type \<Rightarrow> string \<Rightarrow> session \<Rightarrow> message \<Rightarrow> time \<Rightarrow> event" where
  "sms_event_of ty messageID session m now =
     SMSEvent \<lparr>sv_Type = ty, sv_Timestamp = now, sv_MessageID = messageID, sv_Session = session,
       sv_Message = m, sv_Data = Map.empty\<rparr>"

section \<open>Message IDs\<close>

text \<open>The remainder of Go, with the sign of the dividend.\<close>

definition go_rem :: "int \<Rightarrow> int \<Rightarrow> int" where
  "go_rem a b = (if a < 0 then - ((- a) mod b) else a mod b)"

definition message_ID_at :: "time \<Rightarrow> time \<Rightarrow> string" where
  "message_ID_at now1 now2 = ''MSG_'' @ itoa_int now1 @ ''_'' @ itoa_int (go_rem (Unix now2) 100000)"

definition generateMessageID ::
    "('s, 'r, 'q) handler \<Rightarrow> ('s, 'r, 'q) world \<Rightarrow> string \<times> ('s, 'r, 'q) world" where
  "generateMessageID mh w =
     (let (now1, w1) = Now mh w; (now2, w2) = Now mh w1 in (message_ID_at now1 now2, w2))"

section \<open>Validation\<close>

definition isValidTONNPI :: "u8 \<Rightarrow> u8 \<Rightarrow> bool" where
  "isValidTONNPI ton npi =
     (if ton = TONUnknown then npi = NPIUnknown
      else if ton = TONInternational then npi = NPIISDN \<or> npi = NPIUnknown
      else if ton = TONNational then npi = NPIISDN \<or> npi = NPIUnknown
      else if ton = TONAlphanumeric then npi = NPIUnknown
      else True)"

definition ValidateMessage :: "message \<Rightarrow> unit result" where
  "ValidateMessage m =
     (if a_Addr (m_SourceAddr m) = '''' then Err (Errorf ''source address cannot be empty'')
      else if a_Addr (m_DestAddr m) = '''' then Err (Errorf ''destination address cannot be empty'')
      else
        res_bind (res_wrap ''invalid message encoding'' (ValidateText (m_Text m) (m_DataCoding m))) (\<lambda>_.
        let maxLength = GetMaxLength (m_DataCoding m) (and (m_EsmClass m) EsmClassUDHI \<noteq> 0);
            textLength = length (runes (m_Text m));
            tooLong =
              (if textLength > maxLength
               then (if m_DataCoding m = 0 \<or> m_DataCoding m = 1
                     then let maxConcatLength = maxLength * 10 in textLength > maxConcatLength
                     else True)
               else False)
        in
        if tooLong then Err (Errorf ''message too long'')
        else if \<not> isValidTONNPI (a_TON (m_SourceAddr m)) (a_NPI (m_SourceAddr m))
        then Err (Errorf ''invalid source TON/NPI combination'')
        else if \<not> isValidTONNPI (a_TON (m_DestAddr m)) (a_NPI (m_DestAddr m))
        then Err (Errorf ''invalid destination TON/NPI combination'')
        else Ok ()))"

section \<open>Processing a message for delivery\<close>

definition routeMessage :: "('s, 'r, 'q) handler \<Rightarrow> message \<Rightarrow> route_info result" where
  "routeMessage mh m =
     (case mh_router mh of
        Some route \<Rightarrow> route m
      | None \<Rightarrow> Ok \<lparr>ri_Gateway = ''default'', ri_Priority = 1, ri_RetryCount = 3,
                   ri_Destination = a_Addr (m_DestAddr m), ri_Route = ''direct''\<rparr>)"

definition splitMessage :: "('s, 'r, 'q) handler \<Rightarrow> message \<Rightarrow> message list result" where
  "splitMessage mh m = (case mh_splitter mh of Some split \<Rightarrow> split m | None \<Rightarrow> Ok [m])"

definition enqueueMessage ::
    "('s, 'r, 'q) handler \<Rightarrow> ('s, 'r, 'q) world \<Rightarrow> message \<Rightarrow> route_info \<Rightarrow>
     unit result \<times> ('s, 'r, 'q) world" where
  "enqueueMessage mh w m route =
     (case mh_queue mh of
        Some ops \<Rightarrow>
          let (now1, w1) = Now mh w; (now2, w2) = Now mh w1;
              (r, q) = qo_EnqueueMessage ops (w_queue w2) now1 now2 m route
          in (r, w2\<lparr>w_queue := q\<rparr>)
      | None \<Rightarrow> update_sms_status mh w (m_ID m) MessageStatusDelivered)"

fun enqueue_all ::
    "('s, 'r, 'q) handler \<Rightarrow> ('s, 'r, 'q) world \<Rightarrow> route_info \<Rightarrow> message list \<Rightarrow>
     unit result \<times> ('s, 'r, 'q) world" where
  "enqueue_all mh w route [] = (Ok (), w)"
| "enqueue_all mh w route (msgPart # parts) =
     (case enqueueMessage mh w msgPart route of
        (Ok _, w1) \<Rightarrow> enqueue_all mh w1 route parts
      | (Err e, w1) \<Rightarrow> (Err (Wrap ''failed to enqueue message'' e), w1)
      | (Panic, w1) \<Rightarrow> (Panic, w1))"

text \<open>
  The reports of step 5, one for each part; a report that cannot be made or stored is only logged.
\<close>

fun report_all ::
    "('s, 'r, 'q) handler \<Rightarrow> ('s, 'r, 'q) world \<Rightarrow> message \<Rightarrow> message list \<Rightarrow>
     unit result \<times> ('s, 'r, 'q) world" where
  "report_all mh w m [] = (Ok (), w)"
| "report_all mh w m (msgPart # parts) =
     (let (now, w1) = Now mh w in
      case GenerateDeliveryReport now msgPart MessageStatusDelivered of
        Err e \<Rightarrow> report_all mh w1 m parts
      | Panic \<Rightarrow> (Panic, w1)
      | Ok report \<Rightarrow>
          (case store_report mh w1 report of
             (Panic, w2) \<Rightarrow> (Panic, w2)
           | (_, w2) \<Rightarrow>
               report_all mh
                 (publish mh w2 (\<lambda>now. DeliveryEvent \<lparr>de_Type = EventTypeDeliveryReport,
                    de_Timestamp = now, de_MessageID = m_ID msgPart, de_Report = report,
                    de_Session = None, de_Data = [''session_id'' \<mapsto> m_SessionID m]\<rparr>))
                 m parts))"

definition ProcessMessage ::
    "('s, 'r, 'q) handler \<Rightarrow> ('s, 'r, 'q) world \<Rightarrow> message \<Rightarrow> unit result \<times> ('s, 'r, 'q) world" where
  "ProcessMessage mh w m =
     (case res_wrap ''failed to route message'' (routeMessage mh m) of
        Err e \<Rightarrow> (Err e, w) | Panic \<Rightarrow> (Panic, w)
      | Ok route \<Rightarrow>
     (case res_wrap ''failed to split message'' (splitMessage mh m) of
        Err e \<Rightarrow> (Err e, w) | Panic \<Rightarrow> (Panic, w)
      | Ok messages \<Rightarrow>
     (case enqueue_all mh w route messages of
        (Err e, w1) \<Rightarrow> (Err e, w1) | (Panic, w1) \<Rightarrow> (Panic, w1)
      | (Ok _, w1) \<Rightarrow>
     (let status = (if length messages > 1 then MessageStatusSplit else MessageStatusAccepted) in
      case update_sms_status mh w1 (m_ID m) status of
        (Err e, w2) \<Rightarrow> (Err (Wrap ''failed to update message status'' e), w2)
      | (Panic, w2) \<Rightarrow> (Panic, w2)
      | (Ok _, w2) \<Rightarrow>
          if and (m_RegisteredDelivery m) 0x01 \<noteq> 0 then report_all mh w2 m messages
          else (Ok (), w2)))))"

section \<open>submit_sm\<close>

definition submit_message ::
    "string \<Rightarrow> session \<Rightarrow> submit_sm \<Rightarrow> time \<Rightarrow> string \<Rightarrow> message" where
  "submit_message messageID session p now messageText =
     zero_message\<lparr>m_ID := messageID, m_SessionID := se_ID session,
       m_SourceAddr := \<lparr>a_TON = ss_SourceAddrTON p, a_NPI = ss_SourceAddrNPI p, a_Addr = ss_SourceAddr p\<rparr>,
       m_DestAddr := \<lparr>a_TON = ss_DestAddrTON p, a_NPI = ss_DestAddrNPI p, a_Addr = ss_DestAddr p\<rparr>,
       m_ShortMessage := ss_ShortMessage p, m_DataCoding := ss_DataCoding p,
       m_EsmClass := ss_EsmClass p, m_RegisteredDelivery := ss_RegisteredDelivery p,
       m_ValidityPeriod := ss_ValidityPeriod p, m_ScheduleDeliveryTime := ss_ScheduleDeliveryTime p,
       m_ServiceType := ss_ServiceType p, m_ProtocolID := ss_ProtocolID p,
       m_PriorityFlag := ss_PriorityFlag p, m_Status := MessageStatusSubmitted,
       m_SubmitTime := now, m_Text := messageText\<rparr>"

text \<open>The goroutine that \<open>HandleSubmitSM\<close> starts is a job: a message that waits for \<open>ProcessMessage\<close>.\<close>

definition HandleSubmitSM ::
    "('s, 'r, 'q) handler \<Rightarrow> ('s, 'r, 'q) world \<Rightarrow> session \<Rightarrow> submit_sm \<Rightarrow>
     submit_sm_resp reply \<times> ('s, 'r, 'q) world" where
  "HandleSubmitSM mh w session p =
     (let (messageID, w1) = generateMessageID mh w;
          messageBytes = message_bytes (ss_ShortMessage p) (ss_OptionalParams p);
          failed = \<lparr>sr_MessageID = ''''\<rparr>
      in
      if length messageBytes = 0
      then (Reply failed (Some (Errorf ''no message content provided'')), w1)
      else
      (case res_wrap ''failed to decode message'' (Decode_text messageBytes (ss_DataCoding p)) of
         Err e \<Rightarrow> (Reply failed (Some e), w1) | Panic \<Rightarrow> (Panicked, w1)
       | Ok messageText \<Rightarrow>
      (let (now, w2) = Now mh w1; m = submit_message messageID session p now messageText in
       case ValidateMessage m of
         Err e \<Rightarrow> (Reply failed (Some e), w2) | Panic \<Rightarrow> (Panicked, w2)
       | Ok _ \<Rightarrow>
      (case store_sms mh w2 m of
         (Err e, w3) \<Rightarrow> (Reply failed (Some (Wrap ''failed to store SMS'' e)), w3)
       | (Panic, w3) \<Rightarrow> (Panicked, w3)
       | (Ok _, w3) \<Rightarrow>
           let w4 = publish mh w3 (sms_event_of EventTypeSMSSubmitted messageID session m)
           in (Reply \<lparr>sr_MessageID = messageID\<rparr> None, w4\<lparr>w_jobs := w_jobs w4 @ [m]\<rparr>)))))"

section \<open>query_sm\<close>

text \<open>\<open>strconv.Atoi\<close>; \<open>None\<close> is an error.\<close>

definition Atoi :: "string \<Rightarrow> int option" where
  "Atoi s =
     (let (neg, ds) = (case s of [] \<Rightarrow> (False, s)
                       | c # t \<Rightarrow> if c = CHR ''-'' then (True, t)
                                 else if c = CHR ''+'' then (False, t) else (False, s));
          v = (if neg then - int (atoi_digits 0 ds) else int (atoi_digits 0 ds))
      in if ds = [] \<or> \<not> list_all is_digit ds then None
         else if - (2 ^ 63) \<le> v \<and> v < 2 ^ 63 then Some v else None)"

definition query_state :: "string \<Rightarrow> u8" where
  "query_state status =
     (if status = ''DELIVRD'' then 3 else if status = ''EXPIRED'' then 2
      else if status = ''DELETED'' then 4 else if status = ''UNDELIV'' then 5
      else if status = ''ACCEPTD'' then 1 else if status = ''UNKNOWN'' then 7
      else if status = ''REJECTD'' then 6 else 1)"

text \<open>The error code of the report, when it is a number, and its done time as a date.\<close>

definition query_error :: "string \<Rightarrow> u8" where
  "query_error err =
     (if err \<noteq> '''' then (case Atoi err of Some code \<Rightarrow> word_of_int code | None \<Rightarrow> 0) else 0)"

definition final_date :: "delivery_report option \<Rightarrow> cstring" where
  "final_date report =
     (let finalDateStr = (case report of
            Some r \<Rightarrow> if \<not> IsZero (r_DoneTime r) then Format_0601021504 (r_DoneTime r) else ''''
          | None \<Rightarrow> '''')
      in set_string_unchecked (NewCString 17) finalDateStr)"

definition HandleQuerySM ::
    "('s, 'r, 'q) handler \<Rightarrow> ('s, 'r, 'q) world \<Rightarrow> session \<Rightarrow> query_sm \<Rightarrow> query_sm_resp reply" where
  "HandleQuerySM mh w session p =
     (let messageID = cstring_GetString (qs_MessageID p) in
      case mh_smsStorage mh of None \<Rightarrow> Panicked
      | Some sms \<Rightarrow>
     (case so_GetSMS sms (w_sms w) messageID of Panic \<Rightarrow> Panicked
      | Err e \<Rightarrow> Reply \<lparr>qr_MessageID = qs_MessageID p, qr_FinalDate = NewCString 17,
                       qr_MessageState = 2, qr_ErrorCode = 1\<rparr> None
      | Ok _ \<Rightarrow>
     (case mh_reportStorage mh of None \<Rightarrow> Panicked
      | Some reports \<Rightarrow>
     (let found = ro_GetReport reports (w_reports w) messageID in
      if found = Panic then Panicked
      else
        let messageState = (case found of Ok r \<Rightarrow> query_state (r_Status r) | _ \<Rightarrow> 1);
            errorCode = (case found of Ok r \<Rightarrow> query_error (r_Error r) | _ \<Rightarrow> 0);
            finalDate = final_date (case found of Ok r \<Rightarrow> Some r | _ \<Rightarrow> None)
        in Reply \<lparr>qr_MessageID = qs_MessageID p, qr_FinalDate = finalDate,
             qr_MessageState = messageState, qr_ErrorCode = errorCode\<rparr> None))))"

section \<open>replace_sm and cancel_sm\<close>

text \<open>
  What both methods look at before they act: the report of the message, when there is one, must not
  be final.
\<close>

definition not_enroute :: "delivery_report result \<Rightarrow> bool" where
  "not_enroute found =
     (case found of Ok r \<Rightarrow> r_Status r \<noteq> ''ACCEPTD'' \<and> r_Status r \<noteq> ''ENROUTE'' | _ \<Rightarrow> False)"

definition replaced :: "replace_sm \<Rightarrow> message \<Rightarrow> message" where
  "replaced p m =
     (let m1 = m\<lparr>m_Text := of_bytes (rs_ShortMessage p), m_DataCoding := rs_SMDefaultMsgID p\<rparr>;
          scheduleTime = cstring_GetString (rs_ScheduleDeliveryTime p);
          m2 = (if scheduleTime \<noteq> '''' then m1\<lparr>m_ScheduleDeliveryTime := scheduleTime\<rparr> else m1);
          validityPeriod = cstring_GetString (rs_ValidityPeriod p);
          m3 = (if validityPeriod \<noteq> '''' then m2\<lparr>m_ValidityPeriod := validityPeriod\<rparr> else m2)
      in m3\<lparr>m_RegisteredDelivery := rs_RegisteredDelivery p\<rparr>)"

definition HandleReplaceSM ::
    "('s, 'r, 'q) handler \<Rightarrow> ('s, 'r, 'q) world \<Rightarrow> session \<Rightarrow> replace_sm \<Rightarrow>
     empty_pdu reply \<times> ('s, 'r, 'q) world" where
  "HandleReplaceSM mh w session p =
     (let messageID = cstring_GetString (rs_MessageID p) in
      case mh_smsStorage mh of None \<Rightarrow> (Panicked, w)
      | Some sms \<Rightarrow>
     (case so_GetSMS sms (w_sms w) messageID of Panic \<Rightarrow> (Panicked, w)
      | Err e \<Rightarrow> (Reply ReplaceSMResp None, w)
      | Ok m \<Rightarrow>
     (case mh_reportStorage mh of None \<Rightarrow> (Panicked, w)
      | Some reports \<Rightarrow>
     (let found = ro_GetReport reports (w_reports w) messageID in
      if found = Panic then (Panicked, w)
      else if not_enroute found then (Reply ReplaceSMResp None, w)
      else let (r, s) = so_UpdateSMS sms (w_sms w) (replaced p m) in
        (if r = Panic then Panicked else Reply ReplaceSMResp None, w\<lparr>w_sms := s\<rparr>)))))"

definition HandleCancelSM ::
    "('s, 'r, 'q) handler \<Rightarrow> ('s, 'r, 'q) world \<Rightarrow> session \<Rightarrow> cancel_sm \<Rightarrow>
     empty_pdu reply \<times> ('s, 'r, 'q) world" where
  "HandleCancelSM mh w session p =
     (let messageID = cstring_GetString (cn_MessageID p) in
      case mh_smsStorage mh of None \<Rightarrow> (Panicked, w)
      | Some sms \<Rightarrow>
     (case so_GetSMS sms (w_sms w) messageID of Panic \<Rightarrow> (Panicked, w)
      | Err e \<Rightarrow> (Reply CancelSMResp None, w)
      | Ok _ \<Rightarrow>
     (case mh_reportStorage mh of None \<Rightarrow> (Panicked, w)
      | Some reports \<Rightarrow>
     (let found = ro_GetReport reports (w_reports w) messageID in
      if found = Panic then (Panicked, w)
      else if not_enroute found then (Reply CancelSMResp None, w)
      else let (r, s) = so_DeleteSMS sms (w_sms w) messageID in
        (if r = Panic then Panicked else Reply CancelSMResp None, w\<lparr>w_sms := s\<rparr>)))))"

section \<open>submit_multi\<close>

definition multi_message ::
    "string \<Rightarrow> session \<Rightarrow> submit_multi \<Rightarrow> destination_address \<Rightarrow> time \<Rightarrow> string \<Rightarrow> message" where
  "multi_message messageID session p dest now messageText =
     zero_message\<lparr>m_ID := messageID, m_SessionID := se_ID session,
       m_SourceAddr := \<lparr>a_TON = a_TON (sm_SourceAddr p), a_NPI = a_NPI (sm_SourceAddr p),
                        a_Addr = a_Addr (sm_SourceAddr p)\<rparr>,
       m_DestAddr := \<lparr>a_TON = da_DestAddrTON dest, a_NPI = da_DestAddrNPI dest,
                      a_Addr = cstring_GetString (da_DestinationAddr dest)\<rparr>,
       m_ShortMessage := sm_ShortMessage p, m_DataCoding := sm_DataCoding p,
       m_EsmClass := sm_ESMClass p, m_RegisteredDelivery := sm_RegisteredDelivery p,
       m_ValidityPeriod := cstring_GetString (sm_ValidityPeriod p),
       m_ScheduleDeliveryTime := cstring_GetString (sm_ScheduleDeliveryTime p),
       m_ServiceType := cstring_GetString (sm_ServiceType p), m_ProtocolID := sm_ProtocolID p,
       m_PriorityFlag := sm_PriorityFlag p, m_Status := MessageStatusSubmitted,
       m_SubmitTime := now, m_Text := messageText\<rparr>"

definition unsuccessful :: "destination_address \<Rightarrow> u32 \<Rightarrow> unsuccessful_sme" where
  "unsuccessful dest status =
     \<lparr>us_DestAddrTON = da_DestAddrTON dest, us_DestAddrNPI = da_DestAddrNPI dest,
      us_DestinationAddr = da_DestinationAddr dest, us_ErrorStatusCode = status\<rparr>"

text \<open>One destination: the entry of the list of failures that it adds, if any.\<close>

definition multi_dest ::
    "('s, 'r, 'q) handler \<Rightarrow> ('s, 'r, 'q) world \<Rightarrow> session \<Rightarrow> submit_multi \<Rightarrow> string \<Rightarrow> string \<Rightarrow> nat \<Rightarrow>
     destination_address \<Rightarrow> unsuccessful_sme list result \<times> ('s, 'r, 'q) world" where
  "multi_dest mh w session p baseMessageID messageText i dest =
     (let messageID = baseMessageID @ ''-'' @ itoa (i + 1) in
      if da_DestFlag dest \<noteq> 1 then (Ok [unsuccessful dest StatusInvDstAdr], w)
      else
      (let (now, w1) = Now mh w; m = multi_message messageID session p dest now messageText in
       case ValidateMessage m of
         Err e \<Rightarrow> (Ok [unsuccessful dest StatusInvMsgLen], w1) | Panic \<Rightarrow> (Panic, w1)
       | Ok _ \<Rightarrow>
      (case store_sms mh w1 m of
         (Err e, w2) \<Rightarrow> (Ok [unsuccessful dest StatusSysErr], w2)
       | (Panic, w2) \<Rightarrow> (Panic, w2)
       | (Ok _, w2) \<Rightarrow>
           let w3 = publish mh w2 (sms_event_of EventTypeSMSSubmitted messageID session m)
           in (Ok [], w3\<lparr>w_jobs := w_jobs w3 @ [m]\<rparr>))))"

fun multi_loop ::
    "('s, 'r, 'q) handler \<Rightarrow> ('s, 'r, 'q) world \<Rightarrow> session \<Rightarrow> submit_multi \<Rightarrow> string \<Rightarrow> string \<Rightarrow> nat \<Rightarrow>
     destination_address list \<Rightarrow> unsuccessful_sme list \<Rightarrow>
     unsuccessful_sme list result \<times> ('s, 'r, 'q) world" where
  "multi_loop mh w session p baseMessageID messageText i [] us = (Ok us, w)"
| "multi_loop mh w session p baseMessageID messageText i (dest # dests) us =
     (case multi_dest mh w session p baseMessageID messageText i dest of
        (Ok u, w1) \<Rightarrow> multi_loop mh w1 session p baseMessageID messageText (i + 1) dests (us @ u)
      | (Err e, w1) \<Rightarrow> (Err e, w1)
      | (Panic, w1) \<Rightarrow> (Panic, w1))"

definition HandleSubmitMulti ::
    "('s, 'r, 'q) handler \<Rightarrow> ('s, 'r, 'q) world \<Rightarrow> session \<Rightarrow> submit_multi \<Rightarrow>
     submit_multi_resp reply \<times> ('s, 'r, 'q) world" where
  "HandleSubmitMulti mh w session p =
     (let (baseMessageID, w1) = generateMessageID mh w;
          messageBytes = message_bytes (sm_ShortMessage p) (sm_OptionalParameters p);
          failed = \<lparr>mr_MessageID = set_string_unchecked (NewCString 65) '''',
                    mr_NoUnsuccess = word_of_nat (length (sm_DestAddresses p)), mr_UnsuccessSME = []\<rparr>
      in
      if length messageBytes = 0
      then (Reply failed (Some (Errorf ''no message content provided'')), w1)
      else
      (case res_wrap ''failed to decode message'' (Decode_text messageBytes (sm_DataCoding p)) of
         Err e \<Rightarrow> (Reply failed (Some e), w1) | Panic \<Rightarrow> (Panicked, w1)
       | Ok messageText \<Rightarrow>
      (case multi_loop mh w1 session p baseMessageID messageText 0 (sm_DestAddresses p) [] of
         (Ok us, w2) \<Rightarrow>
           (Reply \<lparr>mr_MessageID = set_string_unchecked (NewCString 65) baseMessageID,
                   mr_NoUnsuccess = word_of_nat (length us), mr_UnsuccessSME = us\<rparr> None, w2)
       | (_, w2) \<Rightarrow> (Panicked, w2))))"

section \<open>data_sm\<close>

definition data_message :: "string \<Rightarrow> session \<Rightarrow> data_sm \<Rightarrow> time \<Rightarrow> string \<Rightarrow> message" where
  "data_message messageID session p now messageText =
     zero_message\<lparr>m_ID := messageID, m_SessionID := se_ID session,
       m_SourceAddr := \<lparr>a_TON = a_TON (dt_SourceAddr p), a_NPI = a_NPI (dt_SourceAddr p),
                        a_Addr = a_Addr (dt_SourceAddr p)\<rparr>,
       m_DestAddr := \<lparr>a_TON = a_TON (dt_DestAddr p), a_NPI = a_NPI (dt_DestAddr p),
                      a_Addr = a_Addr (dt_DestAddr p)\<rparr>,
       m_DataCoding := dt_DataCoding p, m_EsmClass := dt_ESMClass p,
       m_RegisteredDelivery := dt_RegisteredDelivery p, m_Status := MessageStatusSubmitted,
       m_SubmitTime := now, m_Text := messageText\<rparr>"

text \<open>Every failure is answered with an empty message ID and no error.\<close>

definition HandleDataSM ::
    "('s, 'r, 'q) handler \<Rightarrow> ('s, 'r, 'q) world \<Rightarrow> session \<Rightarrow> data_sm \<Rightarrow>
     data_sm_resp reply \<times> ('s, 'r, 'q) world" where
  "HandleDataSM mh w session p =
     (let (messageID, w1) = generateMessageID mh w;
          messageBytes = message_payload (dt_OptionalParameters p);
          failed = \<lparr>dtr_MessageID = NewCString 65, dtr_OptionalParameters = []\<rparr>
      in
      case Decode_text messageBytes (dt_DataCoding p) of
        Err e \<Rightarrow> (Reply failed None, w1) | Panic \<Rightarrow> (Panicked, w1)
      | Ok messageText \<Rightarrow>
     (let (now, w2) = Now mh w1; m = data_message messageID session p now messageText in
      case ValidateMessage m of
        Err e \<Rightarrow> (Reply failed None, w2) | Panic \<Rightarrow> (Panicked, w2)
      | Ok _ \<Rightarrow>
     (case store_sms mh w2 m of
        (Err e, w3) \<Rightarrow> (Reply failed None, w3)
      | (Panic, w3) \<Rightarrow> (Panicked, w3)
      | (Ok _, w3) \<Rightarrow>
          let w4 = publish mh w3 (sms_event_of EventTypeSMSSubmitted messageID session m)
          in (Reply \<lparr>dtr_MessageID = set_string_unchecked (NewCString 65) messageID,
                dtr_OptionalParameters = []\<rparr> None, w4\<lparr>w_jobs := w_jobs w4 @ [m]\<rparr>))))"

section \<open>deliver_sm\<close>

fun receipted_message_ID :: "optional_parameter list \<Rightarrow> string" where
  "receipted_message_ID [] = ''''"
| "receipted_message_ID (p # ps) =
     (if op_Tag p = TagReceiptedMessageID then of_bytes (op_Value p) else receipted_message_ID ps)"

definition handleDeliveryReceipt ::
    "('s, 'r, 'q) handler \<Rightarrow> ('s, 'r, 'q) world \<Rightarrow> session \<Rightarrow> deliver_sm \<Rightarrow> string \<Rightarrow>
     deliver_sm_resp reply \<times> ('s, 'r, 'q) world" where
  "handleDeliveryReceipt mh w session p messageID =
     (let response = \<lparr>dr_MessageID = messageID\<rparr> in
      case parseDeliveryReceiptText (of_bytes (ds_ShortMessage p)) of
        Err e \<Rightarrow> (Reply response (Some e), w) | Panic \<Rightarrow> (Panicked, w)
      | Ok receipt0 \<Rightarrow>
     (let originalMessageID = receipted_message_ID (ds_OptionalParams p);
          receipt = (if originalMessageID \<noteq> '''' then receipt0\<lparr>r_MessageID := originalMessageID\<rparr>
                     else receipt0)
      in
      case store_report mh w receipt of
        (Panic, w1) \<Rightarrow> (Panicked, w1)
      | (_, w1) \<Rightarrow>
     (case (if originalMessageID \<noteq> ''''
            then update_sms_status mh w1 originalMessageID (mapReceiptStatusToMessageStatus (r_Status receipt))
            else (Ok (), w1)) of
        (Panic, w2) \<Rightarrow> (Panicked, w2)
      | (_, w2) \<Rightarrow>
          (Reply response None,
           publish mh w2 (\<lambda>now. DeliveryEvent \<lparr>de_Type = EventTypeDeliveryReport,
             de_Timestamp = now, de_MessageID = originalMessageID, de_Report = receipt,
             de_Session = Some session, de_Data = Map.empty\<rparr>)))))"

definition delivered_message :: "string \<Rightarrow> deliver_sm \<Rightarrow> time \<Rightarrow> string \<Rightarrow> message" where
  "delivered_message messageID p now messageText =
     zero_message\<lparr>m_ID := messageID,
       m_SourceAddr := \<lparr>a_TON = ds_SourceAddrTON p, a_NPI = ds_SourceAddrNPI p, a_Addr = ds_SourceAddr p\<rparr>,
       m_DestAddr := \<lparr>a_TON = ds_DestAddrTON p, a_NPI = ds_DestAddrNPI p, a_Addr = ds_DestAddr p\<rparr>,
       m_ShortMessage := ds_ShortMessage p, m_DataCoding := ds_DataCoding p,
       m_EsmClass := ds_EsmClass p, m_ServiceType := ds_ServiceType p,
       m_ProtocolID := ds_ProtocolID p, m_PriorityFlag := ds_PriorityFlag p,
       m_Status := MessageStatusDelivered, m_SubmitTime := now, m_Text := messageText\<rparr>"

definition handleSMSDelivery ::
    "('s, 'r, 'q) handler \<Rightarrow> ('s, 'r, 'q) world \<Rightarrow> session \<Rightarrow> deliver_sm \<Rightarrow> string \<Rightarrow>
     deliver_sm_resp reply \<times> ('s, 'r, 'q) world" where
  "handleSMSDelivery mh w session p messageID =
     (let response = \<lparr>dr_MessageID = messageID\<rparr> in
      case Decode_text (ds_ShortMessage p) (ds_DataCoding p) of
        Err e \<Rightarrow> (Reply response (Some e), w) | Panic \<Rightarrow> (Panicked, w)
      | Ok messageText \<Rightarrow>
     (let (now, w1) = Now mh w; m = delivered_message messageID p now messageText in
      case store_sms mh w1 m of
        (Panic, w2) \<Rightarrow> (Panicked, w2)
      | (_, w2) \<Rightarrow>
          (Reply response None,
           publish mh w2 (sms_event_of EventTypeSMSDelivered messageID session m))))"

definition HandleDeliverSM ::
    "('s, 'r, 'q) handler \<Rightarrow> ('s, 'r, 'q) world \<Rightarrow> session \<Rightarrow> deliver_sm \<Rightarrow>
     deliver_sm_resp reply \<times> ('s, 'r, 'q) world" where
  "HandleDeliverSM mh w session p =
     (let (messageID, w1) = generateMessageID mh w in
      if and (ds_EsmClass p) 0x04 \<noteq> 0 then handleDeliveryReceipt mh w1 session p messageID
      else handleSMSDelivery mh w1 session p messageID)"

end
