(* ===== verification/MessageFlow.thy ===== *)
theory MessageFlow
  imports MessageHandler SmsProcessor
begin

text \<open>
  What the message handler does to the stores behind it: the facts are proved once for every pair of
  stores that keep the promises of \<open>sms_storage\<close> and \<open>report_storage\<close>, and hold for the in-memory
  stores, with any router, queue, splitter and clock.
\<close>

section \<open>Message IDs\<close>

lemma itoa_int_no_underscore: "CHR ''_'' \<notin> set (itoa_int i)"
  using itoa_digits [of "nat i"] itoa_digits [of "nat (- i)"]
  by (auto simp: itoa_int_def list_all_iff is_digit_def)

lemma itoa_int_inject: "itoa_int i = itoa_int j \<longleftrightarrow> i = j"
proof -
  have "CHR ''-'' \<notin> set (itoa n)" for n
    using itoa_digits [of n] by (auto simp: list_all_iff is_digit_def)
  then have "itoa n \<noteq> CHR ''-'' # t" for n t by (metis list.set_intros(1))
  then show ?thesis by (auto simp: itoa_int_def dest: sym)
qed

text \<open>
  Two message IDs are equal only if the clock gave the same nanosecond for both: the second
  part never makes two IDs collide or differ on its own.
\<close>

theorem message_IDs_distinct:
  "message_ID_at a b = message_ID_at c d \<longleftrightarrow> a = c \<and> go_rem (Unix b) 100000 = go_rem (Unix d) 100000"
proof -
  have "takeWhile (\<lambda>x. x \<noteq> CHR ''_'') (itoa_int i @ CHR ''_'' # t) = itoa_int i" for i t
    using itoa_int_no_underscore [of i] by (subst takeWhile_append2) auto
  then have "itoa_int a @ CHR ''_'' # s = itoa_int c @ CHR ''_'' # t \<longleftrightarrow> itoa_int a = itoa_int c \<and> s = t" for s t
    by (metis append_same_eq list.inject same_append_eq)
  then show ?thesis by (auto simp: message_ID_at_def itoa_int_inject)
qed

lemma message_ID_at_nonempty [simp]: "message_ID_at a b \<noteq> ''''"
  by (simp add: message_ID_at_def)

section \<open>Validation\<close>

lemma ValidateText_not_Panic [simp]: "ValidateText t dc \<noteq> Panic"
  by (simp add: ValidateText_def)

lemma Decode_text_not_Panic [simp]: "Decode_text bs dc \<noteq> Panic"
  by (simp add: Decode_text_def DecodeGSM7Bit_def DecodeUCS2_def)

lemma ValidateMessage_not_Panic [simp]: "ValidateMessage m \<noteq> Panic"
  by (cases "ValidateText (m_Text m) (m_DataCoding m)")
     (simp_all add: ValidateMessage_def Let_def)

text \<open>
  When a message is valid: both addresses are given, the text can be encoded, it fits into one
  SMS or, for the data codings 0 and 1, into ten, and both type-of-number pairs are allowed.
\<close>

theorem ValidateMessage_iff:
  "ValidateMessage m = Ok () \<longleftrightarrow>
    a_Addr (m_SourceAddr m) \<noteq> '''' \<and> a_Addr (m_DestAddr m) \<noteq> '''' \<and>
    (m_DataCoding m = 0 \<longrightarrow> list_all in_gsm (runes (m_Text m))) \<and>
    (m_DataCoding m = 8 \<longrightarrow> ValidString (m_Text m)) \<and>
    length (runes (m_Text m)) \<le>
      (if m_DataCoding m \<in> {0, 1} then 10 else 1) *
      GetMaxLength (m_DataCoding m) (and (m_EsmClass m) EsmClassUDHI \<noteq> 0) \<and>
    isValidTONNPI (a_TON (m_SourceAddr m)) (a_NPI (m_SourceAddr m)) \<and>
    isValidTONNPI (a_TON (m_DestAddr m)) (a_NPI (m_DestAddr m))"
proof -
  let ?max = "GetMaxLength (m_DataCoding m) (and (m_EsmClass m) EsmClassUDHI \<noteq> 0)"
    and ?n = "length (runes (m_Text m))"
  have t: "ValidateText (m_Text m) (m_DataCoding m) = Ok () \<longleftrightarrow>
      (m_DataCoding m = 0 \<longrightarrow> list_all in_gsm (runes (m_Text m))) \<and>
      (m_DataCoding m = 8 \<longrightarrow> ValidString (m_Text m))"
    by (auto simp: ValidateText_def)
  have l: "(if ?n > ?max then (if m_DataCoding m = 0 \<or> m_DataCoding m = 1
              then ?n > ?max * 10 else True) else False) \<longleftrightarrow>
      \<not> ?n \<le> (if m_DataCoding m \<in> {0, 1} then 10 else 1) * ?max"
    by auto
  obtain e where "ValidateText (m_Text m) (m_DataCoding m) = Ok () \<or>
      ValidateText (m_Text m) (m_DataCoding m) = Err e"
    by (cases "ValidateText (m_Text m) (m_DataCoding m)") auto
  then show ?thesis
    unfolding ValidateMessage_def Let_def l using t
    by (elim disjE) (simp_all only: res_wrap.simps res_bind.simps result.distinct HOL.simp_thms split: if_split, auto)
qed

lemma submit_message_simps:
  "m_ID (submit_message i se p now t) = i" "m_SessionID (submit_message i se p now t) = se_ID se"
  "m_Text (submit_message i se p now t) = t"
  "m_SourceAddr (submit_message i se p now t) =
     \<lparr>a_TON = ss_SourceAddrTON p, a_NPI = ss_SourceAddrNPI p, a_Addr = ss_SourceAddr p\<rparr>"
  "m_DestAddr (submit_message i se p now t) =
     \<lparr>a_TON = ss_DestAddrTON p, a_NPI = ss_DestAddrNPI p, a_Addr = ss_DestAddr p\<rparr>"
  "m_DataCoding (submit_message i se p now t) = ss_DataCoding p"
  "m_RegisteredDelivery (submit_message i se p now t) = ss_RegisteredDelivery p"
  by (simp_all add: submit_message_def)

section \<open>The destinations of a submit_multi\<close>

definition multi_ID :: "string \<Rightarrow> nat \<Rightarrow> string" where
  "multi_ID base i = base @ ''-'' @ itoa (i + 1)"

definition dest_address :: "destination_address \<Rightarrow> address" where
  "dest_address d = \<lparr>a_TON = da_DestAddrTON d, a_NPI = da_DestAddrNPI d,
     a_Addr = cstring_GetString (da_DestinationAddr d)\<rparr>"

text \<open>The message that the destination with number \<open>i\<close> is to get.\<close>

definition message_for ::
    "session \<Rightarrow> submit_multi \<Rightarrow> string \<Rightarrow> string \<Rightarrow> nat \<times> destination_address \<Rightarrow> message \<Rightarrow> bool" where
  "message_for se p t base = (\<lambda>(i, d) m.
     m_ID m = multi_ID base i \<and> m_SessionID m = se_ID se \<and> m_SourceAddr m = sm_SourceAddr p \<and>
     m_DestAddr m = dest_address d \<and> m_Text m = t \<and> m_ShortMessage m = sm_ShortMessage p \<and>
     m_DataCoding m = sm_DataCoding p \<and> m_EsmClass m = sm_ESMClass p \<and>
     m_RegisteredDelivery m = sm_RegisteredDelivery p \<and> m_ProtocolID m = sm_ProtocolID p \<and>
     m_PriorityFlag m = sm_PriorityFlag p \<and> m_Status m = MessageStatusSubmitted)"

text \<open>The status with which a destination is refused; the store is taken not to fail.\<close>

definition multi_refusal :: "submit_multi \<Rightarrow> string \<Rightarrow> destination_address \<Rightarrow> u32 option" where
  "multi_refusal p t d =
     (if da_DestFlag d \<noteq> 1 then Some StatusInvDstAdr
      else if ValidateMessage (zero_message\<lparr>m_SourceAddr := sm_SourceAddr p, m_DestAddr := dest_address d,
                m_Text := t, m_DataCoding := sm_DataCoding p, m_EsmClass := sm_ESMClass p\<rparr>) \<noteq> Ok ()
      then Some StatusInvMsgLen
      else None)"

definition multi_refusals ::
    "submit_multi \<Rightarrow> string \<Rightarrow> destination_address list \<Rightarrow> unsuccessful_sme list" where
  "multi_refusals p t dests =
     concat (map (\<lambda>d. case multi_refusal p t d of Some st \<Rightarrow> [unsuccessful d st] | None \<Rightarrow> []) dests)"

text \<open>The other destinations with their numbers.\<close>

definition multi_accepted ::
    "submit_multi \<Rightarrow> string \<Rightarrow> nat \<Rightarrow> destination_address list \<Rightarrow> (nat \<times> destination_address) list" where
  "multi_accepted p t i dests = filter (\<lambda>(k, d). multi_refusal p t d = None) (enumerate i dests)"

lemma multi_ID_inject [simp]: "multi_ID base i = multi_ID base j \<longleftrightarrow> i = j"
  by (simp add: multi_ID_def)

lemma multi_accepted_simps [simp]:
  "multi_accepted p t i [] = []"
  "multi_accepted p t i (d # dests) =
     (if multi_refusal p t d = None then [(i, d)] else []) @ multi_accepted p t (Suc i) dests"
  by (simp_all add: multi_accepted_def)

lemma multi_accepted_later:
  "list_all2 (message_for se p t base) (multi_accepted p t i dests) js \<Longrightarrow> m \<in> set js \<Longrightarrow>
   \<exists>k \<ge> i. m_ID m = multi_ID base k"
proof (induction dests arbitrary: i js)
  case (Cons d dests)
  then show ?case
    using Cons.IH [of "Suc i"]
    by (cases "multi_refusal p t d = None") (force simp: list_all2_Cons1 message_for_def)+
qed simp

lemma multi_count:
  "length (multi_refusals p t dests) + length (multi_accepted p t i dests) = length dests"
  by (induction dests arbitrary: i) (auto simp: multi_refusals_def)

lemma ValidateMessage_fields:
  "m_SourceAddr m = m_SourceAddr m' \<Longrightarrow> m_DestAddr m = m_DestAddr m' \<Longrightarrow> m_Text m = m_Text m' \<Longrightarrow>
   m_DataCoding m = m_DataCoding m' \<Longrightarrow> m_EsmClass m = m_EsmClass m' \<Longrightarrow>
   ValidateMessage m = ValidateMessage m'"
  by (simp only: ValidateMessage_def cong: if_cong)

lemma multi_message_for: "message_for se p t base (i, d) (multi_message (multi_ID base i) se p d now t)"
  by (simp add: message_for_def multi_message_def dest_address_def)

lemma multi_refusal_iff:
  "multi_refusal p t d =
    (if da_DestFlag d \<noteq> 1 then Some StatusInvDstAdr
     else if ValidateMessage (multi_message i se p d now t) \<noteq> Ok () then Some StatusInvMsgLen else None)"
  unfolding multi_refusal_def
  by (subst ValidateMessage_fields [of _ "multi_message i se p d now t"])
     (simp_all add: multi_message_def dest_address_def)

text \<open>The report that \<open>ProcessMessage\<close> makes.\<close>

definition delivered_report :: "time \<Rightarrow> message \<Rightarrow> delivery_report" where
  "delivered_report now m =
    (case GenerateDeliveryReport now m MessageStatusDelivered of Ok r \<Rightarrow> r | _ \<Rightarrow> zero_delivery_report)"

lemma GenerateDeliveryReport_delivered:
  "GenerateDeliveryReport now m MessageStatusDelivered = Ok (delivered_report now m)"
  by (simp add: delivered_report_def GenerateDeliveryReport_eq)

lemma delivered_report_simps [simp]:
  "r_MessageID (delivered_report now m) = m_ID m" "r_Status (delivered_report now m) = ''DELIVRD''"
  "r_Error (delivered_report now m) = ''000''" "r_DoneTime (delivered_report now m) = now"
  by (simp_all add: delivered_report_def GenerateDeliveryReport_eq)

section \<open>The service behind the handler\<close>

text \<open>What \<open>replace_sm\<close> and \<open>cancel_sm\<close> ask: is the message there, and not reported as final?\<close>

definition changeable ::
    "(string \<rightharpoonup> message) \<Rightarrow> (string \<rightharpoonup> delivery_report) \<Rightarrow> string \<Rightarrow> message option" where
  "changeable msgs reps i =
    (case msgs i of None \<Rightarrow> None
     | Some m \<Rightarrow> (case reps i of
         Some r \<Rightarrow> if r_Status r \<noteq> ''ACCEPTD'' \<and> r_Status r \<noteq> ''ENROUTE'' then None else Some m
       | None \<Rightarrow> Some m))"

locale message_service =
  sms: sms_storage sops inv stored valid_ID + reports: report_storage rops reported
  for sops :: "'s sms_ops" and inv stored valid_ID and rops :: "'r report_ops" and reported +
  fixes mh :: "('s, 'r, 'q) handler"
  assumes has_sms: "mh_smsStorage mh = Some sops" and has_reports: "mh_reportStorage mh = Some rops"
    and valid_generated: "valid_ID (message_ID_at a b)" "valid_ID (multi_ID (message_ID_at a b) n)"
begin

lemma store_sms_outcome:
  assumes "inv (w_sms w)" and "valid_ID (m_ID m)" and "store_sms mh w m = (r, w')"
  shows "inv (w_sms w') \<and> w' = w\<lparr>w_ticks := w_ticks w + 1, w_sms := w_sms w'\<rparr> \<and>
    (case r of Ok u \<Rightarrow> stored (w_sms w') =
        (stored (w_sms w))(m_ID m \<mapsto> m\<lparr>m_SubmitTime := mh_clock mh (w_ticks w)\<rparr>)
     | Err e \<Rightarrow> stored (w_sms w') = stored (w_sms w) | Panic \<Rightarrow> False)"
proof -
  obtain r0 s where s: "so_StoreSMS sops (w_sms w) (mh_clock mh (w_ticks w)) m = (r0, s)"
    by fastforce
  then show ?thesis
    using assms(3) sms.store [OF assms(1,2) s]
    by (cases r0) (auto simp: store_sms_def has_sms Now_def Let_def)
qed

lemma update_status_outcome:
  assumes "inv (w_sms w)" and "update_sms_status mh w i st = (r, w')"
  shows "inv (w_sms w') \<and> w' = w\<lparr>w_ticks := w_ticks w + 1, w_sms := w_sms w'\<rparr> \<and>
    (case r of Ok u \<Rightarrow> (\<exists>m. stored (w_sms w) i = Some m \<and> stored (w_sms w') =
        (stored (w_sms w))(i \<mapsto> set_status (mh_clock mh (w_ticks w)) st m))
     | Err e \<Rightarrow> stored (w_sms w') = stored (w_sms w) | Panic \<Rightarrow> False)"
proof -
  obtain r0 s where s: "so_UpdateSMSStatus sops (w_sms w) (mh_clock mh (w_ticks w)) i st = (r0, s)"
    by fastforce
  then show ?thesis
    using assms(2) sms.update_status [OF assms(1) s]
    by (cases r0) (auto simp: update_sms_status_def has_sms Now_def Let_def)
qed

lemma store_report_outcome:
  assumes "store_report mh w r = (u, w')"
  shows "w' = w\<lparr>w_reports := w_reports w'\<rparr> \<and>
    (case u of Ok x \<Rightarrow> r_MessageID r \<noteq> '''' \<and> reported (w_reports w') =
        (reported (w_reports w))(r_MessageID r \<mapsto> r)
     | Err e \<Rightarrow> reported (w_reports w') = reported (w_reports w) | Panic \<Rightarrow> False)"
proof -
  obtain u0 s where s: "ro_StoreReport rops (w_reports w) r = (u0, s)" by fastforce
  then show ?thesis
    using assms reports.store_report [OF s] by (cases u0) (auto simp: store_report_def has_reports)
qed

lemma Now_eq: "Now mh w = (mh_clock mh (w_ticks w), w\<lparr>w_ticks := w_ticks w + 1\<rparr>)"
  by (simp add: Now_def)

lemma publish_frame [simp]:
  "w_sms (publish mh w ev) = w_sms w" "w_reports (publish mh w ev) = w_reports w"
  "w_queue (publish mh w ev) = w_queue w" "w_jobs (publish mh w ev) = w_jobs w"
  by (simp_all add: publish_def Now_def Let_def)

lemma HandleSubmitSM_eq:
  assumes "generateMessageID mh w = (i, w\<lparr>w_ticks := w_ticks w + 2\<rparr>)"
    and "message_bytes (ss_ShortMessage p) (ss_OptionalParams p) \<noteq> []"
    and "Decode_text (message_bytes (ss_ShortMessage p) (ss_OptionalParams p)) (ss_DataCoding p) = Ok t"
  shows "HandleSubmitSM mh w se p =
     (case ValidateMessage (submit_message i se p (mh_clock mh (w_ticks w + 2)) t) of
        Err e \<Rightarrow> (Reply \<lparr>sr_MessageID = ''''\<rparr> (Some e), w\<lparr>w_ticks := w_ticks w + 3\<rparr>)
      | Panic \<Rightarrow> (Panicked, w\<lparr>w_ticks := w_ticks w + 3\<rparr>)
      | Ok _ \<Rightarrow> (case store_sms mh (w\<lparr>w_ticks := w_ticks w + 3\<rparr>)
            (submit_message i se p (mh_clock mh (w_ticks w + 2)) t) of
          (Err e, w3) \<Rightarrow> (Reply \<lparr>sr_MessageID = ''''\<rparr> (Some (Wrap ''failed to store SMS'' e)), w3)
        | (Panic, w3) \<Rightarrow> (Panicked, w3)
        | (Ok _, w3) \<Rightarrow>
            let w4 = publish mh w3 (sms_event_of EventTypeSMSSubmitted i se
                       (submit_message i se p (mh_clock mh (w_ticks w + 2)) t))
            in (Reply \<lparr>sr_MessageID = i\<rparr> None,
                w4\<lparr>w_jobs := w_jobs w4 @ [submit_message i se p (mh_clock mh (w_ticks w + 2)) t]\<rparr>)))"
  using assms(2,3)
  by (simp add: HandleSubmitSM_def assms(1) Now_eq Let_def eval_nat_numeral
      cong: result.case_cong prod.case_cong)

text \<open>
  \<open>submit_sm\<close>: either an error and no trace in the stores, or the message is stored and waits to be
  processed.
\<close>

lemma submit_sm_outcome:
  assumes "inv (w_sms w)" and "HandleSubmitSM mh w se p = (r, w')"
  shows "inv (w_sms w') \<and> w_reports w' = w_reports w \<and> w_queue w' = w_queue w \<and>
    (case r of
       Panicked \<Rightarrow> False
     | Reply resp (Some e) \<Rightarrow> sr_MessageID resp = '''' \<and> stored (w_sms w') = stored (w_sms w) \<and>
         w_events w' = w_events w \<and> w_jobs w' = w_jobs w
     | Reply resp None \<Rightarrow> (\<exists>t. let t0 = w_ticks w; clock = mh_clock mh; i = sr_MessageID resp;
           m = submit_message i se p (clock (t0 + 2)) t in
         i = message_ID_at (clock t0) (clock (t0 + 1)) \<and>
         Decode_text (message_bytes (ss_ShortMessage p) (ss_OptionalParams p)) (ss_DataCoding p) = Ok t \<and>
         ValidateMessage m = Ok () \<and>
         stored (w_sms w') = (stored (w_sms w))(i \<mapsto> m\<lparr>m_SubmitTime := clock (t0 + 3)\<rparr>) \<and>
         w_jobs w' = w_jobs w @ [m]))"
proof -
  let ?t0 = "w_ticks w" and ?c = "mh_clock mh"
  define i where "i = message_ID_at (?c ?t0) (?c (?t0 + 1))"
  define bs where "bs = message_bytes (ss_ShortMessage p) (ss_OptionalParams p)"
  have gen: "generateMessageID mh w = (i, w\<lparr>w_ticks := ?t0 + 2\<rparr>)"
    by (simp add: generateMessageID_def Now_eq i_def)
  consider "bs = []" | e where "bs \<noteq> []" "Decode_text bs (ss_DataCoding p) = Err e"
    | t where "bs \<noteq> []" "Decode_text bs (ss_DataCoding p) = Ok t"
    by (cases "Decode_text bs (ss_DataCoding p)") auto
  then show ?thesis
  proof cases
    case (3 t)
    define m where "m = submit_message i se p (?c (?t0 + 2)) t"
    define w2 where "w2 = w\<lparr>w_ticks := ?t0 + 3\<rparr>"
    have mID: "m_ID m = i" "valid_ID i" by (simp_all add: m_def submit_message_def i_def valid_generated)
    note run = HandleSubmitSM_eq [OF gen, of p t se, unfolded bs_def [symmetric], OF 3, folded m_def w2_def]
    show ?thesis
    proof (cases "ValidateMessage m")
      case (Ok u)
      obtain r3 w3 where st: "store_sms mh w2 m = (r3, w3)" by fastforce
      have w2: "inv (w_sms w2)" "w_sms w2 = w_sms w" "w_ticks w2 = ?t0 + 3" "w_reports w2 = w_reports w"
        "w_queue w2 = w_queue w" "w_events w2 = w_events w" "w_jobs w2 = w_jobs w"
        using assms(1) by (simp_all add: w2_def)
      have o: "inv (w_sms w3)" "w3 = w2\<lparr>w_ticks := ?t0 + 4, w_sms := w_sms w3\<rparr>"
        "case r3 of Ok u \<Rightarrow> stored (w_sms w3) = (stored (w_sms w))(i \<mapsto> m\<lparr>m_SubmitTime := ?c (?t0 + 3)\<rparr>)
         | Err e \<Rightarrow> stored (w_sms w3) = stored (w_sms w) | Panic \<Rightarrow> False"
        using store_sms_outcome [OF w2(1) _ st, unfolded mID(1) w2(2,3)] mID(2) by (simp_all add: add.commute)
      have f: "w_reports w3 = w_reports w" "w_queue w3 = w_queue w" "w_events w3 = w_events w"
        "w_jobs w3 = w_jobs w"
        by (subst o(2), simp add: w2)+
      have rw: "HandleSubmitSM mh w se p = (case r3 of
            Err e \<Rightarrow> (Reply \<lparr>sr_MessageID = ''''\<rparr> (Some (Wrap ''failed to store SMS'' e)), w3)
          | Panic \<Rightarrow> (Panicked, w3)
          | Ok _ \<Rightarrow> let w4 = publish mh w3 (sms_event_of EventTypeSMSSubmitted i se m)
              in (Reply \<lparr>sr_MessageID = i\<rparr> None, w4\<lparr>w_jobs := w_jobs w4 @ [m]\<rparr>))"
        unfolding run st Ok by (cases r3) simp_all
      show ?thesis
      proof (cases r3)
        case R: (Ok v)
        have r: "r = Reply \<lparr>sr_MessageID = i\<rparr> None"
          "w' = publish mh w3 (sms_event_of EventTypeSMSSubmitted i se m)\<lparr>w_jobs := w_jobs w3 @ [m]\<rparr>"
          using rw assms(2) by (simp_all add: R Let_def)
        have v: "ValidateMessage m = Ok ()" using Ok by simp
        show ?thesis
          unfolding r Let_def bs_def [symmetric]
          using o(1,3) f v 3(2) by (simp add: R m_def i_def exI [of _ t])
      next
        case (Err e)
        then show ?thesis using rw assms(2) o(1,3) f by auto
      qed (use o(3) in simp)

    qed (use assms 3 run in \<open>auto simp: w2_def\<close>)
  qed (use assms gen in \<open>auto simp: HandleSubmitSM_def Let_def bs_def [symmetric]\<close>)
qed

lemma generateMessageID_eq:
  "generateMessageID mh w =
    (message_ID_at (mh_clock mh (w_ticks w)) (mh_clock mh (w_ticks w + 1)), w\<lparr>w_ticks := w_ticks w + 2\<rparr>)"
  by (simp add: generateMessageID_def Now_eq)

text \<open>\<open>query_sm\<close>: the answer is a function of what the two stores hold under the ID.\<close>

lemma query_sm_outcome:
  assumes "inv (w_sms w)"
  shows "HandleQuerySM mh w se p = Reply
    (case stored (w_sms w) (cstring_GetString (qs_MessageID p)) of
       None \<Rightarrow> \<lparr>qr_MessageID = qs_MessageID p, qr_FinalDate = NewCString 17, qr_MessageState = 2,
                qr_ErrorCode = 1\<rparr>
     | Some m \<Rightarrow>
         (case reported (w_reports w) (cstring_GetString (qs_MessageID p)) of
            None \<Rightarrow> \<lparr>qr_MessageID = qs_MessageID p, qr_FinalDate = NewCString 17, qr_MessageState = 1,
                     qr_ErrorCode = 0\<rparr>
          | Some r \<Rightarrow> \<lparr>qr_MessageID = qs_MessageID p, qr_FinalDate = final_date (Some r),
                       qr_MessageState = query_state (r_Status r),
                       qr_ErrorCode = query_error (r_Error r)\<rparr>)) None"
proof -
  let ?i = "cstring_GetString (qs_MessageID p)"
  have e: "final_date None = NewCString 17"
    by (simp add: final_date_def set_string_unchecked_def cstring_SetString_def NewCString_def)
  show ?thesis
  proof (cases "stored (w_sms w) ?i")
    case None
    then obtain e where "so_GetSMS sops (w_sms w) ?i = Err e"
      using sms.get [OF assms, of ?i] sms.get_empty [of "w_sms w"] by (cases "?i = ''''") auto
    then show ?thesis by (simp add: HandleQuerySM_def has_sms None Let_def)
  next
    case (Some m)
    then have i: "?i \<noteq> ''''" and g: "so_GetSMS sops (w_sms w) ?i = Ok m"
      using sms.inv_ID [OF assms Some] sms.get_stored [OF assms Some] by simp_all
    show ?thesis
    proof (cases "reported (w_reports w) ?i")
      case R: None
      then obtain e' where "ro_GetReport rops (w_reports w) ?i = Err e'"
        using reports.get_report [OF i, of "w_reports w"] by auto
      then show ?thesis by (simp add: HandleQuerySM_def has_sms has_reports g Some R Let_def e)
    next
      case R: (Some r)
      then have "ro_GetReport rops (w_reports w) ?i = Ok r"
        using reports.get_report [OF i, of "w_reports w"] by simp
      then show ?thesis
        by (simp add: HandleQuerySM_def has_sms has_reports g Some R Let_def)
    qed
  qed
qed

lemma sms_lookup:
  assumes "inv s"
  shows "case stored s i of None \<Rightarrow> (\<exists>e. so_GetSMS sops s i = Err e)
    | Some m \<Rightarrow> so_GetSMS sops s i = Ok m \<and> i \<noteq> '''' \<and> m_ID m = i"
  using sms.get [OF assms, of i] sms.get_empty [of s] sms.inv_ID [OF assms, of i]
  by (cases "stored s i"; cases "i = ''''") auto

lemma report_check:
  assumes "inv s" and "stored s i = Some m"
  shows "ro_GetReport rops rs i \<noteq> Panic"
    and "not_enroute (ro_GetReport rops rs i) \<longleftrightarrow> changeable (stored s) (reported rs) i = None"
    and "\<not> not_enroute (ro_GetReport rops rs i) \<Longrightarrow> changeable (stored s) (reported rs) i = Some m"
  using reports.get_report [of i rs] sms.inv_ID [OF assms] assms(2)
  by (auto simp: not_enroute_def changeable_def split: option.splits)

lemma report_outcome:
  "fst (store_report mh w r) \<noteq> Panic" "snd (store_report mh w r) = w\<lparr>w_reports := w_reports (snd (store_report mh w r))\<rparr>"
  using store_report_outcome [of w r "fst (store_report mh w r)" "snd (store_report mh w r)"]
  by (auto split: result.splits)

end

section \<open>Stores that do not fail\<close>

locale reliable_sms_storage = sms_storage ops inv stored valid_ID
  for ops :: "('s, 'e) sms_ops_scheme" and inv stored valid_ID +
  assumes store_ok: "inv s \<Longrightarrow> valid_ID (m_ID m) \<Longrightarrow> is_Ok (fst (so_StoreSMS ops s now m))"
    and update_ok: "inv s \<Longrightarrow> m_ID m \<in> dom (stored s) \<Longrightarrow> is_Ok (fst (so_UpdateSMS ops s m))"
    and status_ok: "inv s \<Longrightarrow> i \<in> dom (stored s) \<Longrightarrow> is_Ok (fst (so_UpdateSMSStatus ops s now i st))"
    and delete_ok: "inv s \<Longrightarrow> i \<in> dom (stored s) \<Longrightarrow> is_Ok (fst (so_DeleteSMS ops s i))"

locale reliable_report_storage = report_storage ops reported
  for ops :: "('s, 'e) report_ops_scheme" and reported +
  assumes report_ok: "r_MessageID r \<noteq> '''' \<Longrightarrow> is_Ok (fst (ro_StoreReport ops s r))"

interpretation memory_sms_reliable: reliable_sms_storage memory_sms_ops sms_store_inv ms_messages "\<lambda>i. i \<noteq> ''''"
  by unfold_locales
     (auto simp: memory_sms_ops_def StoreSMS_def UpdateSMS_def UpdateSMSStatus_def DeleteSMS_def Let_def
        sms_store_inv_def split: option.split if_splits)

interpretation memory_reports_reliable: reliable_report_storage memory_report_ops rs_reports
  by unfold_locales (simp add: memory_report_ops_def StoreReport_def)

locale reliable_service = message_service sops inv stored valid_ID rops reported mh +
  safe_sms: reliable_sms_storage sops inv stored valid_ID + safe_reports: reliable_report_storage rops reported
  for sops :: "'s sms_ops" and inv stored valid_ID and rops :: "'r report_ops" and reported
    and mh :: "('s, 'r, 'q) handler"
begin

lemma update_exact:
  assumes "inv s" and "m_ID m \<in> dom (stored s)"
  shows "\<exists>u s'. so_UpdateSMS sops s m = (Ok u, s') \<and> inv s' \<and> stored s' = (stored s)(m_ID m \<mapsto> m)"
proof -
  obtain r s' where s: "so_UpdateSMS sops s m = (r, s')" by fastforce
  then show ?thesis
    using safe_sms.update_ok [OF assms] sms.update [OF assms(1) s] by (cases r) auto
qed

lemma delete_exact:
  assumes "inv s" and "i \<in> dom (stored s)"
  shows "\<exists>u s'. so_DeleteSMS sops s i = (Ok u, s') \<and> inv s' \<and> stored s' = (stored s)(i := None)"
proof -
  obtain r s' where s: "so_DeleteSMS sops s i = (r, s')" by fastforce
  then show ?thesis
    using safe_sms.delete_ok [OF assms] sms.delete [OF assms(1) s] by (cases r) auto
qed

lemma store_exact:
  assumes "inv (w_sms w)" and "valid_ID (m_ID m)"
  shows "\<exists>s'. store_sms mh w m = (Ok (), w\<lparr>w_ticks := w_ticks w + 1, w_sms := s'\<rparr>) \<and> inv s' \<and>
    stored s' = (stored (w_sms w))(m_ID m \<mapsto> m\<lparr>m_SubmitTime := mh_clock mh (w_ticks w)\<rparr>)"
proof -
  obtain r w' where s: "store_sms mh w m = (r, w')" by fastforce
  have "is_Ok r"
    using safe_sms.store_ok [OF assms, of "mh_clock mh (w_ticks w)"] s
    by (cases "fst (so_StoreSMS sops (w_sms w) (mh_clock mh (w_ticks w)) m)")
       (auto simp: store_sms_def has_sms Now_def Let_def split_beta)
  then show ?thesis
    using store_sms_outcome [OF assms s] s by (cases r) (auto intro!: exI [of _ "w_sms w'"])
qed

lemma status_exact:
  assumes "inv (w_sms w)" and "stored (w_sms w) i = Some m"
  shows "\<exists>s'. update_sms_status mh w i st = (Ok (), w\<lparr>w_ticks := w_ticks w + 1, w_sms := s'\<rparr>) \<and> inv s' \<and>
    stored s' = (stored (w_sms w))(i \<mapsto> set_status (mh_clock mh (w_ticks w)) st m)"
proof -
  obtain r w' where s: "update_sms_status mh w i st = (r, w')" by fastforce
  have "is_Ok r"
    using safe_sms.status_ok [OF assms(1), of i "mh_clock mh (w_ticks w)" st] s assms(2)
    by (auto simp: update_sms_status_def has_sms Now_def Let_def split_beta)
  then show ?thesis
    using update_status_outcome [OF assms(1) s] s assms(2)
    by (cases r) (auto intro!: exI [of _ "w_sms w'"])
qed

lemma report_exact:
  assumes "r_MessageID r \<noteq> ''''"
  shows "\<exists>s'. store_report mh w r = (Ok (), w\<lparr>w_reports := s'\<rparr>) \<and>
    reported s' = (reported (w_reports w))(r_MessageID r \<mapsto> r)"
proof -
  obtain u w' where s: "store_report mh w r = (u, w')" by fastforce
  have "is_Ok u"
    using safe_reports.report_ok [OF assms, of "w_reports w"] s
    by (auto simp: store_report_def has_reports split_beta)
  then show ?thesis
    using store_report_outcome [OF s] s by (cases u) (auto intro!: exI [of _ "w_reports w'"])
qed

lemma replace_sm_exact:
  assumes "inv (w_sms w)"
  shows "\<exists>s'. HandleReplaceSM mh w se p = (Reply ReplaceSMResp None, w\<lparr>w_sms := s'\<rparr>) \<and> inv s' \<and>
    stored s' = (case changeable (stored (w_sms w)) (reported (w_reports w)) (cstring_GetString (rs_MessageID p)) of
        None \<Rightarrow> stored (w_sms w)
      | Some m \<Rightarrow> (stored (w_sms w))(cstring_GetString (rs_MessageID p) \<mapsto> replaced p m))"
proof -
  let ?i = "cstring_GetString (rs_MessageID p)" and ?s = "w_sms w"
  note l = sms_lookup [OF assms, of ?i]
  show ?thesis
  proof (cases "stored ?s ?i")
    case None
    with l assms show ?thesis
      by (intro exI [of _ ?s]) (auto simp: HandleReplaceSM_def has_sms changeable_def)
  next
    case (Some m)
    note c = report_check [OF assms Some, of "w_reports w"]
    have g: "so_GetSMS sops ?s ?i = Ok m" "m_ID m = ?i" using l Some by simp_all
    then have ID: "m_ID (replaced p m) = ?i" by (simp add: replaced_def Let_def)
    obtain u s' where u: "so_UpdateSMS sops ?s (replaced p m) = (Ok u, s')" "inv s'"
      "stored s' = (stored ?s)(?i \<mapsto> replaced p m)"
      using update_exact [OF assms, of "replaced p m"] Some ID by auto
    show ?thesis
    proof (cases "not_enroute (ro_GetReport rops (w_reports w) ?i)")
      case True
      with g c(1,2) assms show ?thesis
        by (intro exI [of _ ?s]) (simp add: HandleReplaceSM_def has_sms has_reports Let_def)
    next
      case False
      with g c(1,3) u show ?thesis
        by (intro exI [of _ s']) (simp add: HandleReplaceSM_def has_sms has_reports Let_def)
    qed
  qed
qed

lemma cancel_sm_exact:
  assumes "inv (w_sms w)"
  shows "\<exists>s'. HandleCancelSM mh w se p = (Reply CancelSMResp None, w\<lparr>w_sms := s'\<rparr>) \<and> inv s' \<and>
    stored s' = (case changeable (stored (w_sms w)) (reported (w_reports w)) (cstring_GetString (cn_MessageID p)) of
        None \<Rightarrow> stored (w_sms w)
      | Some m \<Rightarrow> (stored (w_sms w))(cstring_GetString (cn_MessageID p) := None))"
proof -
  let ?i = "cstring_GetString (cn_MessageID p)" and ?s = "w_sms w"
  note l = sms_lookup [OF assms, of ?i]
  show ?thesis
  proof (cases "stored ?s ?i")
    case None
    with l assms show ?thesis
      by (intro exI [of _ ?s]) (auto simp: HandleCancelSM_def has_sms changeable_def)
  next
    case (Some m)
    note c = report_check [OF assms Some, of "w_reports w"]
    have g: "so_GetSMS sops ?s ?i = Ok m" using l Some by simp
    obtain u s' where u: "so_DeleteSMS sops ?s ?i = (Ok u, s')" "inv s'"
      "stored s' = (stored ?s)(?i := None)"
      using delete_exact [OF assms, of ?i] Some by auto
    show ?thesis
    proof (cases "not_enroute (ro_GetReport rops (w_reports w) ?i)")
      case True
      with g c(1,2) assms show ?thesis
        by (intro exI [of _ ?s]) (simp add: HandleCancelSM_def has_sms has_reports Let_def)
    next
      case False
      with g c(1,3) u show ?thesis
        by (intro exI [of _ s']) (simp add: HandleCancelSM_def has_sms has_reports Let_def)
    qed
  qed
qed

lemma submit_sm_accepts:
  assumes "inv (w_sms w)"
    and "message_bytes (ss_ShortMessage p) (ss_OptionalParams p) \<noteq> []"
    and "Decode_text (message_bytes (ss_ShortMessage p) (ss_OptionalParams p)) (ss_DataCoding p) = Ok t"
    and "ValidateMessage (submit_message (message_ID_at (mh_clock mh (w_ticks w)) (mh_clock mh (w_ticks w + 1)))
           se p (mh_clock mh (w_ticks w + 2)) t) = Ok ()"
  shows "\<exists>i w'. HandleSubmitSM mh w se p = (Reply \<lparr>sr_MessageID = i\<rparr> None, w')"
proof -
  let ?i = "message_ID_at (mh_clock mh (w_ticks w)) (mh_clock mh (w_ticks w + 1))"
  let ?m = "submit_message ?i se p (mh_clock mh (w_ticks w + 2)) t"
  have "valid_ID (m_ID ?m)" by (simp add: submit_message_def valid_generated)
  then obtain s' where
    "store_sms mh (w\<lparr>w_ticks := w_ticks w + 3\<rparr>) ?m = (Ok (), w\<lparr>w_ticks := w_ticks w + 4, w_sms := s'\<rparr>)"
    using store_exact [of "w\<lparr>w_ticks := w_ticks w + 3\<rparr>" ?m] assms(1) by (auto simp: add.commute)
  then show ?thesis
    unfolding HandleSubmitSM_eq [OF generateMessageID_eq assms(2,3)] assms(4) by (simp add: Let_def)
qed

text \<open>
  \<open>submit_multi\<close>: the destinations that are refused are answered in order, the others are stored and
  wait to be processed.
\<close>

lemma multi_dest_eq:
  assumes "da_DestFlag d = 1" and "ValidateMessage m = Ok ()"
    and m: "m = multi_message (multi_ID base i) se p d (mh_clock mh (w_ticks w)) t"
    and "store_sms mh (w\<lparr>w_ticks := w_ticks w + 1\<rparr>) m = (Ok (), w2)"
  shows "multi_dest mh w se p base t i d = (Ok [],
    (publish mh w2 (sms_event_of EventTypeSMSSubmitted (multi_ID base i) se m))\<lparr>w_jobs := w_jobs w2 @ [m]\<rparr>)"
  unfolding multi_dest_def Let_def Now_eq multi_ID_def [symmetric] prod.case m [symmetric] assms(2,4)
    result.case
  using assms(1) by simp

lemma multi_dest_exact:
  assumes "inv (w_sms w)" and "base = message_ID_at b1 b2"
  shows "case multi_refusal p t d of
      Some st \<Rightarrow> \<exists>w'. multi_dest mh w se p base t i d = (Ok [unsuccessful d st], w') \<and>
        w_sms w' = w_sms w \<and> w_jobs w' = w_jobs w \<and> w_reports w' = w_reports w \<and> w_queue w' = w_queue w
    | None \<Rightarrow> \<exists>w' m now. multi_dest mh w se p base t i d = (Ok [], w') \<and> inv (w_sms w') \<and>
        message_for se p t base (i, d) m \<and>
        stored (w_sms w') = (stored (w_sms w))(m_ID m \<mapsto> m\<lparr>m_SubmitTime := now\<rparr>) \<and>
        w_jobs w' = w_jobs w @ [m] \<and> w_reports w' = w_reports w \<and> w_queue w' = w_queue w"
proof -
  let ?m = "multi_message (multi_ID base i) se p d (mh_clock mh (w_ticks w)) t"
  let ?w = "w\<lparr>w_ticks := w_ticks w + 1\<rparr>"
  note v = multi_refusal_iff [of p t d "multi_ID base i" se "mh_clock mh (w_ticks w)"]
  have ID: "m_ID ?m = multi_ID base i" "valid_ID (multi_ID base i)"
    using assms(2) valid_generated(2) by (simp_all add: multi_message_def)
  then obtain s' where s: "store_sms mh ?w ?m = (Ok (), ?w\<lparr>w_ticks := w_ticks w + 2, w_sms := s'\<rparr>)" "inv s'"
    "stored s' = (stored (w_sms w))(multi_ID base i \<mapsto> ?m\<lparr>m_SubmitTime := mh_clock mh (w_ticks w + 1)\<rparr>)"
    using store_exact [of ?w ?m] assms(1) by (auto simp: add.commute)
  consider "da_DestFlag d \<noteq> 1" | e where "da_DestFlag d = 1" "ValidateMessage ?m = Err e"
    | "da_DestFlag d = 1" "ValidateMessage ?m = Ok ()"
    by (cases "ValidateMessage ?m") auto
  then show ?thesis
  proof cases
    case 3
    let ?w' = "publish mh (?w\<lparr>w_ticks := w_ticks w + 2, w_sms := s'\<rparr>)
        (sms_event_of EventTypeSMSSubmitted (multi_ID base i) se ?m)\<lparr>w_jobs := w_jobs w @ [?m]\<rparr>"
    have "multi_dest mh w se p base t i d = (Ok [], ?w')"
      using multi_dest_eq [OF 3 refl s(1)] by simp
    moreover have "multi_refusal p t d = None" using 3 v by simp
    moreover have "message_for se p t base (i, d) ?m" by (rule multi_message_for)
    ultimately show ?thesis
      using s(2,3) ID(1)
      by (simp only: option.case) (intro exI [of _ ?w'] exI [of _ ?m] exI [of _ "mh_clock mh (w_ticks w + 1)"]
        conjI; simp)
  next
    case 2
    moreover have "multi_refusal p t d = Some StatusInvMsgLen"
      using 2 v by simp
    ultimately show ?thesis
      by (simp add: multi_dest_def Let_def Now_eq multi_ID_def cong: result.case_cong)
  qed (simp add: multi_dest_def multi_refusal_def)
qed

lemma multi_loop_exact:
  assumes "inv (w_sms w)" and "base = message_ID_at b1 b2"
  shows "\<exists>w' js. multi_loop mh w se p base t i dests us = (Ok (us @ multi_refusals p t dests), w') \<and>
    inv (w_sms w') \<and> w_jobs w' = w_jobs w @ js \<and> w_reports w' = w_reports w \<and> w_queue w' = w_queue w \<and>
    list_all2 (message_for se p t base) (multi_accepted p t i dests) js \<and>
    (\<forall>j. j \<notin> m_ID ` set js \<longrightarrow> stored (w_sms w') j = stored (w_sms w) j) \<and>
    (\<forall>m \<in> set js. \<exists>now. stored (w_sms w') (m_ID m) = Some (m\<lparr>m_SubmitTime := now\<rparr>))"
  using assms(1)
proof (induction dests arbitrary: w i us)
  case Nil
  then show ?case by (simp add: multi_refusals_def)
next
  case (Cons d dests)
  note one = multi_dest_exact [OF Cons.prems assms(2), of se p t i d]
  show ?case
  proof (cases "multi_refusal p t d")
    case None
    with one obtain w1 m now where 1: "multi_dest mh w se p base t i d = (Ok [], w1)" "inv (w_sms w1)"
      "message_for se p t base (i, d) m" "stored (w_sms w1) = (stored (w_sms w))(m_ID m \<mapsto> m\<lparr>m_SubmitTime := now\<rparr>)"
      "w_jobs w1 = w_jobs w @ [m]" "w_reports w1 = w_reports w" "w_queue w1 = w_queue w"
      by auto
    obtain w' js where 2: "multi_loop mh w1 se p base t (i + 1) dests us =
        (Ok (us @ multi_refusals p t dests), w')" "inv (w_sms w')" "w_jobs w' = w_jobs w1 @ js"
      "w_reports w' = w_reports w1" "w_queue w' = w_queue w1"
      "list_all2 (message_for se p t base) (multi_accepted p t (i + 1) dests) js"
      "\<forall>j. j \<notin> m_ID ` set js \<longrightarrow> stored (w_sms w') j = stored (w_sms w1) j"
      "\<forall>m \<in> set js. \<exists>now. stored (w_sms w') (m_ID m) = Some (m\<lparr>m_SubmitTime := now\<rparr>)"
      using Cons.IH [OF 1(2), of "i + 1" us] by blast
    have "m_ID m \<notin> m_ID ` set js"
      using multi_accepted_later [OF 2(6)] 1(3) by (fastforce simp: message_for_def)
    with 1(4) 2(7) have "stored (w_sms w') (m_ID m) = Some (m\<lparr>m_SubmitTime := now\<rparr>)" by simp
    with 1 2 None show ?thesis
      by (intro exI [of _ w'] exI [of _ "m # js"]) (auto simp: multi_refusals_def)
  next
    case (Some st)
    with one obtain w1 where 1: "multi_dest mh w se p base t i d = (Ok [unsuccessful d st], w1)"
      "w_sms w1 = w_sms w" "w_jobs w1 = w_jobs w" "w_reports w1 = w_reports w" "w_queue w1 = w_queue w"
      by auto
    with Cons.prems have "inv (w_sms w1)" by simp
    from Cons.IH [OF this, of "i + 1" "us @ [unsuccessful d st]"] 1 Some show ?thesis
      by (auto simp: multi_refusals_def)
  qed
qed

lemma submit_multi_exact:
  assumes "inv (w_sms w)"
    and "message_bytes (sm_ShortMessage p) (sm_OptionalParameters p) \<noteq> []"
    and "Decode_text (message_bytes (sm_ShortMessage p) (sm_OptionalParameters p)) (sm_DataCoding p) = Ok t"
    and base: "base = message_ID_at (mh_clock mh (w_ticks w)) (mh_clock mh (w_ticks w + 1))"
  shows "\<exists>w' js. HandleSubmitMulti mh w se p =
      (Reply \<lparr>mr_MessageID = set_string_unchecked (NewCString 65) base,
         mr_NoUnsuccess = word_of_nat (length (multi_refusals p t (sm_DestAddresses p))),
         mr_UnsuccessSME = multi_refusals p t (sm_DestAddresses p)\<rparr> None, w') \<and>
    inv (w_sms w') \<and> w_jobs w' = w_jobs w @ js \<and> w_reports w' = w_reports w \<and> w_queue w' = w_queue w \<and>
    list_all2 (message_for se p t base) (multi_accepted p t 0 (sm_DestAddresses p)) js \<and>
    (\<forall>j. j \<notin> m_ID ` set js \<longrightarrow> stored (w_sms w') j = stored (w_sms w) j) \<and>
    (\<forall>m \<in> set js. \<exists>now. stored (w_sms w') (m_ID m) = Some (m\<lparr>m_SubmitTime := now\<rparr>))"
proof -
  let ?w = "w\<lparr>w_ticks := w_ticks w + 2\<rparr>"
  have "inv (w_sms ?w)" using assms(1) by simp
  from multi_loop_exact [OF this base, of se p t 0 "sm_DestAddresses p" "[]"]
  obtain w' js where l: "multi_loop mh ?w se p base t 0 (sm_DestAddresses p) [] =
      (Ok (multi_refusals p t (sm_DestAddresses p)), w')"
    "inv (w_sms w')" "w_jobs w' = w_jobs w @ js" "w_reports w' = w_reports w" "w_queue w' = w_queue w"
    "list_all2 (message_for se p t base) (multi_accepted p t 0 (sm_DestAddresses p)) js"
    "\<forall>j. j \<notin> m_ID ` set js \<longrightarrow> stored (w_sms w') j = stored (w_sms w) j"
    "\<forall>m \<in> set js. \<exists>now. stored (w_sms w') (m_ID m) = Some (m\<lparr>m_SubmitTime := now\<rparr>)"
    by auto
  have "HandleSubmitMulti mh w se p =
      (Reply \<lparr>mr_MessageID = set_string_unchecked (NewCString 65) base,
         mr_NoUnsuccess = word_of_nat (length (multi_refusals p t (sm_DestAddresses p))),
         mr_UnsuccessSME = multi_refusals p t (sm_DestAddresses p)\<rparr> None, w')"
    using assms(2,3) l(1) base by (simp add: HandleSubmitMulti_def generateMessageID_eq Let_def)
  with l(2-) show ?thesis by blast
qed

text \<open>A delivery receipt: the report is stored, and the original message gets the receipt's status.\<close>

lemma delivery_receipt_exact:
  assumes "inv (w_sms w)" and "and (ds_EsmClass p) 0x04 \<noteq> 0"
    and i: "i = receipted_message_ID (ds_OptionalParams p)" "i \<noteq> ''''"
    and r: "parseDeliveryReceiptText (of_bytes (ds_ShortMessage p)) = Ok r"
  shows "\<exists>w' now. HandleDeliverSM mh w se p =
      (Reply \<lparr>dr_MessageID = message_ID_at (mh_clock mh (w_ticks w)) (mh_clock mh (w_ticks w + 1))\<rparr> None, w') \<and>
    inv (w_sms w') \<and> reported (w_reports w') = (reported (w_reports w))(i \<mapsto> r\<lparr>r_MessageID := i\<rparr>) \<and>
    stored (w_sms w') = (case stored (w_sms w) i of None \<Rightarrow> stored (w_sms w)
      | Some m \<Rightarrow> (stored (w_sms w))(i \<mapsto> set_status now (mapReceiptStatusToMessageStatus (r_Status r)) m)) \<and>
    w_jobs w' = w_jobs w \<and> w_queue w' = w_queue w"
proof -
  let ?w1 = "w\<lparr>w_ticks := w_ticks w + 2\<rparr>" and ?r = "r\<lparr>r_MessageID := i\<rparr>"
    and ?st = "mapReceiptStatusToMessageStatus (r_Status r)"
    and ?now = "mh_clock mh (w_ticks w + 2)"
  obtain rs where rs: "store_report mh ?w1 ?r = (Ok (), ?w1\<lparr>w_reports := rs\<rparr>)"
    "reported rs = (reported (w_reports w))(i \<mapsto> ?r)"
    using report_exact [of ?r ?w1] i(2) by auto
  let ?w2 = "?w1\<lparr>w_reports := rs\<rparr>"
  obtain u w3 where u: "update_sms_status mh ?w2 i ?st = (u, w3)" by fastforce
  have inv2: "inv (w_sms ?w2)" using assms(1) by simp
  note o = update_status_outcome [OF inv2 u]
  have w3: "inv (w_sms w3)" "w3 = ?w2\<lparr>w_ticks := w_ticks w + 3, w_sms := w_sms w3\<rparr>"
    by (rule o [THEN conjunct1], rule trans [OF o [THEN conjunct2, THEN conjunct1]], simp)
  have np: "u \<noteq> Panic" using o by auto
  have f: "w_reports w3 = rs" "w_jobs w3 = w_jobs w" "w_queue w3 = w_queue w"
    by (subst w3(2), simp)+
  have s: "stored (w_sms w3) = (case stored (w_sms w) i of None \<Rightarrow> stored (w_sms w)
      | Some m \<Rightarrow> (stored (w_sms w))(i \<mapsto> set_status ?now ?st m))"
  proof (cases "stored (w_sms w) i")
    case None
    then show ?thesis using o by (cases u) auto
  next
    case (Some m)
    then have "is_Ok u"
      using status_exact [of ?w2 i m ?st] inv2 u by auto
    with Some o show ?thesis by (cases u) auto
  qed
  let ?w4 = "publish mh w3 (\<lambda>now. DeliveryEvent \<lparr>de_Type = EventTypeDeliveryReport,
             de_Timestamp = now, de_MessageID = i, de_Report = ?r,
             de_Session = Some se, de_Data = Map.empty\<rparr>)"
  have "HandleDeliverSM mh w se p =
      (Reply \<lparr>dr_MessageID = message_ID_at (mh_clock mh (w_ticks w)) (mh_clock mh (w_ticks w + 1))\<rparr> None, ?w4)"
    using assms(2) np i(2) rs(1) u
    by (cases u) (simp_all add: HandleDeliverSM_def handleDeliveryReceipt_def generateMessageID_eq r
        i(1) [symmetric] Let_def)
  with w3(1) f s rs(2) show ?thesis
    by (intro exI [of _ ?w4] exI [of _ ?now]) simp
qed

text \<open>
  The reports of a processed message: every part with an ID gets one, and nothing else changes.
\<close>

lemma report_all_exact:
  "\<exists>w'. report_all mh w m parts = (Ok (), w') \<and> w_sms w' = w_sms w \<and> w_queue w' = w_queue w \<and>
    w_jobs w' = w_jobs w \<and>
    (\<forall>j. j \<notin> m_ID ` set parts \<longrightarrow> reported (w_reports w') j = reported (w_reports w) j) \<and>
    (\<forall>p \<in> set parts. m_ID p \<noteq> '''' \<longrightarrow> (\<exists>now. \<exists>q \<in> set parts. m_ID q = m_ID p \<and>
       reported (w_reports w') (m_ID p) = Some (delivered_report now q)))"
proof (induction parts arbitrary: w)
  case (Cons p parts)
  let ?w1 = "w\<lparr>w_ticks := w_ticks w + 1\<rparr>" and ?r = "delivered_report (mh_clock mh (w_ticks w)) p"
  obtain u w2 where u: "store_report mh ?w1 ?r = (u, w2)" by fastforce
  note o = store_report_outcome [OF u]
  have f: "w_sms w2 = w_sms w" "w_queue w2 = w_queue w" "w_jobs w2 = w_jobs w"
    by (subst o [THEN conjunct1], simp)+
  have np: "u \<noteq> Panic" using o by auto
  have others: "j \<noteq> m_ID p \<Longrightarrow> reported (w_reports w2) j = reported (w_reports w) j" for j
    using o by (cases u) auto
  have own: "reported (w_reports w2) (m_ID p) = Some ?r" if "m_ID p \<noteq> ''''"
    using report_exact [of ?r ?w1] that u by auto
  define w3 where "w3 = publish mh w2 (\<lambda>now. DeliveryEvent \<lparr>de_Type = EventTypeDeliveryReport,
      de_Timestamp = now, de_MessageID = m_ID p, de_Report = ?r, de_Session = None,
      de_Data = [''session_id'' \<mapsto> m_SessionID m]\<rparr>)"
  have w3: "w_sms w3 = w_sms w" "w_queue w3 = w_queue w" "w_jobs w3 = w_jobs w" "w_reports w3 = w_reports w2"
    by (simp_all add: w3_def f)
  have step: "report_all mh w m (p # parts) = report_all mh w3 m parts"
    using np u by (cases u) (simp_all add: Now_eq GenerateDeliveryReport_delivered w3_def)
  obtain w' where w': "report_all mh w3 m parts = (Ok (), w')" "w_sms w' = w_sms w3" "w_queue w' = w_queue w3"
    "w_jobs w' = w_jobs w3"
    "\<And>j. j \<notin> m_ID ` set parts \<Longrightarrow> reported (w_reports w') j = reported (w_reports w3) j"
    "\<And>p. p \<in> set parts \<Longrightarrow> m_ID p \<noteq> '''' \<Longrightarrow> \<exists>now. \<exists>q \<in> set parts. m_ID q = m_ID p \<and>
       reported (w_reports w') (m_ID p) = Some (delivered_report now q)"
    using Cons.IH [of w3] by blast
  have "\<exists>now. \<exists>q \<in> set (p # parts). m_ID q = m_ID x \<and>
      reported (w_reports w') (m_ID x) = Some (delivered_report now q)"
    if x: "x \<in> set (p # parts)" "m_ID x \<noteq> ''''" for x
  proof (cases "m_ID x \<in> m_ID ` set parts")
    case True
    then obtain y where "y \<in> set parts" "m_ID y = m_ID x" by auto
    with w'(6) [of y] x(2) show ?thesis by auto
  next
    case False
    with x have "x = p" by auto
    with False w'(5) [of "m_ID p"] own w3(4) x(2) show ?thesis by auto
  qed
  with step w' w3 others show ?case by (intro exI [of _ w']) simp
qed simp

lemma enqueue_outcome:
  assumes "inv (w_sms w)" and "stored (w_sms w) (m_ID m) = Some m0"
    and "enqueueMessage mh w m route = (r, w')"
  shows "inv (w_sms w') \<and> w_reports w' = w_reports w \<and> w_jobs w' = w_jobs w \<and>
    (\<exists>m1. m_Text m1 = m_Text m0 \<and> stored (w_sms w') = (stored (w_sms w))(m_ID m \<mapsto> m1))"
proof (cases "mh_queue mh")
  case None
  obtain s' where s': "update_sms_status mh w (m_ID m) MessageStatusDelivered =
      (Ok (), w\<lparr>w_ticks := w_ticks w + 1, w_sms := s'\<rparr>)" "inv s'"
    "stored s' = (stored (w_sms w))(m_ID m \<mapsto> set_status (mh_clock mh (w_ticks w)) MessageStatusDelivered m0)"
    using status_exact [OF assms(1,2)] by blast
  with assms(3) None show ?thesis
    by (auto simp: enqueueMessage_def set_status_def intro!: exI [of _ "set_status a b m0" for a b])
next
  case (Some ops)
  then show ?thesis
    using assms by (auto simp: enqueueMessage_def Now_eq Let_def split: prod.splits intro!: exI [of _ m0])
qed

text \<open>
  \<open>ProcessMessage\<close> on a message that is not split and that the queue, if there is one, takes: it is
  marked as accepted, and reported as delivered if the sender asked for it.
\<close>

lemma process_unsplit_exact:
  assumes "inv (w_sms w)" and "stored (w_sms w) (m_ID m) = Some m0"
    and "routeMessage mh m = Ok ri" and "splitMessage mh m = Ok [m]"
    and "fst (enqueueMessage mh w m ri) = Ok ()" and "and (m_RegisteredDelivery m) 0x01 \<noteq> 0"
  shows "\<exists>w' m1 now. ProcessMessage mh w m = (Ok (), w') \<and> inv (w_sms w') \<and>
    stored (w_sms w') = (stored (w_sms w))(m_ID m \<mapsto> m1) \<and> m_Status m1 = MessageStatusAccepted \<and>
    m_Text m1 = m_Text m0 \<and> reported (w_reports w') (m_ID m) = Some (delivered_report now m) \<and>
    (\<forall>j. j \<noteq> m_ID m \<longrightarrow> reported (w_reports w') j = reported (w_reports w) j)"
proof -
  obtain w1 where 1: "enqueueMessage mh w m ri = (Ok (), w1)"
    using assms(5) by (cases "enqueueMessage mh w m ri") auto
  obtain m1 where m1: "inv (w_sms w1)" "w_reports w1 = w_reports w" "m_Text m1 = m_Text m0"
    "stored (w_sms w1) = (stored (w_sms w))(m_ID m \<mapsto> m1)"
    using enqueue_outcome [OF assms(1,2) 1] by blast
  let ?m2 = "set_status (mh_clock mh (w_ticks w1)) MessageStatusAccepted m1"
  obtain s' where s': "update_sms_status mh w1 (m_ID m) MessageStatusAccepted =
      (Ok (), w1\<lparr>w_ticks := w_ticks w1 + 1, w_sms := s'\<rparr>)" "inv s'"
    "stored s' = (stored (w_sms w1))(m_ID m \<mapsto> ?m2)"
    using status_exact [OF m1(1), of "m_ID m" m1] m1(4) by auto
  let ?w2 = "w1\<lparr>w_ticks := w_ticks w1 + 1, w_sms := s'\<rparr>"
  obtain w' where w': "report_all mh ?w2 m [m] = (Ok (), w')" "w_sms w' = s'"
    "\<forall>j. j \<noteq> m_ID m \<longrightarrow> reported (w_reports w') j = reported (w_reports w1) j"
    "\<exists>now. reported (w_reports w') (m_ID m) = Some (delivered_report now m)"
    using report_all_exact [of ?w2 m "[m]"] sms.inv_ID [OF assms(1,2)] by auto
  have "ProcessMessage mh w m = (Ok (), w')"
    using s'(1) w'(1) assms(6) by (simp add: ProcessMessage_def assms(3,4) 1)
  moreover have "stored (w_sms w') = (stored (w_sms w))(m_ID m \<mapsto> ?m2)"
    "m_Status ?m2 = MessageStatusAccepted" "m_Text ?m2 = m_Text m0"
    using s'(3) w'(2) m1(3,4) by (simp_all add: set_status_def)
  ultimately show ?thesis using w'(2-) s'(2) m1(2) by metis
qed

text \<open>
  \<open>ProcessMessage\<close> without queue and splitter: the message is marked as delivered, then as accepted,
  and, if the sender asked for it, reported as delivered.
\<close>

lemma process_message_exact:
  assumes "inv (w_sms w)" and "stored (w_sms w) (m_ID m) = Some m0"
    and "mh_queue mh = None" and "mh_splitter mh = None" and "is_Ok (routeMessage mh m)"
  shows "\<exists>w'. ProcessMessage mh w m = (Ok (), w') \<and> inv (w_sms w') \<and>
    stored (w_sms w') = (stored (w_sms w))(m_ID m \<mapsto> set_status (mh_clock mh (w_ticks w + 1)) MessageStatusAccepted
      (set_status (mh_clock mh (w_ticks w)) MessageStatusDelivered m0)) \<and>
    reported (w_reports w') = (if and (m_RegisteredDelivery m) 0x01 \<noteq> 0
      then (reported (w_reports w))(m_ID m \<mapsto>
        delivered_report (mh_clock mh (w_ticks w + 2)) m) else reported (w_reports w)) \<and>
    w_jobs w' = w_jobs w \<and> w_queue w' = w_queue w"
proof -
  let ?c = "mh_clock mh" and ?i = "m_ID m"
  obtain ri where ri: "routeMessage mh m = Ok ri" using assms(5) by (cases "routeMessage mh m") auto
  obtain s1 where s1: "update_sms_status mh w ?i MessageStatusDelivered =
      (Ok (), w\<lparr>w_ticks := w_ticks w + 1, w_sms := s1\<rparr>)" "inv s1"
    "stored s1 = (stored (w_sms w))(?i \<mapsto> set_status (?c (w_ticks w)) MessageStatusDelivered m0)"
    using status_exact [OF assms(1,2)] by blast
  let ?w1 = "w\<lparr>w_ticks := w_ticks w + 1, w_sms := s1\<rparr>"
  obtain s2 where s2: "update_sms_status mh ?w1 ?i MessageStatusAccepted =
      (Ok (), w\<lparr>w_ticks := w_ticks w + 2, w_sms := s2\<rparr>)" "inv s2"
    "stored s2 = (stored (w_sms w))(?i \<mapsto> set_status (?c (w_ticks w + 1)) MessageStatusAccepted
      (set_status (?c (w_ticks w)) MessageStatusDelivered m0))"
    using status_exact [of ?w1 ?i "set_status (?c (w_ticks w)) MessageStatusDelivered m0" MessageStatusAccepted]
      s1(2,3) by auto
  let ?w2 = "w\<lparr>w_ticks := w_ticks w + 2, w_sms := s2\<rparr>"
  have p: "ProcessMessage mh w m =
      (if and (m_RegisteredDelivery m) 0x01 \<noteq> 0 then report_all mh ?w2 m [m] else (Ok (), ?w2))"
    using s1(1) s2(1) by (simp add: ProcessMessage_def ri splitMessage_def assms(3,4) enqueueMessage_def)
  show ?thesis
  proof (cases "and (m_RegisteredDelivery m) 0x01 \<noteq> 0")
    case True
    let ?r = "delivered_report (?c (w_ticks w + 2)) m"
    have "r_MessageID ?r \<noteq> ''''"
      using sms.inv_ID [OF assms(1,2)] by simp
    then obtain rs where rs: "store_report mh (w\<lparr>w_ticks := w_ticks w + 3, w_sms := s2\<rparr>) ?r =
        (Ok (), w\<lparr>w_ticks := w_ticks w + 3, w_sms := s2, w_reports := rs\<rparr>)"
      "reported rs = (reported (w_reports w))(?i \<mapsto> ?r)"
      using report_exact [of ?r "w\<lparr>w_ticks := w_ticks w + 3, w_sms := s2\<rparr>"]
      by auto
    have n: "Now mh ?w2 = (?c (w_ticks w + 2), w\<lparr>w_ticks := w_ticks w + 3, w_sms := s2\<rparr>)"
      by (cases w) (simp add: Now_def)
    have "report_all mh ?w2 m [m] = (Ok (), publish mh
        (w\<lparr>w_ticks := w_ticks w + 3, w_sms := s2, w_reports := rs\<rparr>)
        (\<lambda>now. DeliveryEvent \<lparr>de_Type = EventTypeDeliveryReport, de_Timestamp = now, de_MessageID = ?i,
           de_Report = ?r, de_Session = None, de_Data = [''session_id'' \<mapsto> m_SessionID m]\<rparr>))"
      using rs(1) n GenerateDeliveryReport_delivered [of "?c (w_ticks w + 2)" m] by simp
    with p True s2 rs(2) show ?thesis by simp
  qed (use p s2 in simp)
qed

end

section \<open>The handler over the in-memory stores\<close>

definition memory_handler ::
    "bool \<Rightarrow> (message \<Rightarrow> route_info result) option \<Rightarrow> 'q queue_ops option \<Rightarrow>
     (message \<Rightarrow> message list result) option \<Rightarrow> (nat \<Rightarrow> time) \<Rightarrow> (sms_store, report_store, 'q) handler" where
  "memory_handler publisher router queue splitter clock =
     \<lparr>mh_smsStorage = Some memory_sms_ops, mh_reportStorage = Some memory_report_ops,
      mh_eventPublisher = publisher, mh_router = router, mh_queue = queue, mh_splitter = splitter,
      mh_clock = clock\<rparr>"

interpretation memory_service: reliable_service memory_sms_ops sms_store_inv ms_messages "\<lambda>i. i \<noteq> ''''"
  memory_report_ops rs_reports "memory_handler publisher router queue splitter clock"
  for publisher router queue splitter clock
  by unfold_locales (simp_all add: memory_handler_def multi_ID_def)

lemma memory_handler_simps [simp]:
  "mh_clock (memory_handler publisher router queue splitter clock) = clock"
  "mh_queue (memory_handler publisher router queue splitter clock) = queue"
  "mh_splitter (memory_handler publisher router queue splitter clock) = splitter"
  "mh_router (memory_handler publisher router queue splitter clock) = router"
  by (simp_all add: memory_handler_def)

definition new_world :: "'q \<Rightarrow> (sms_store, report_store, 'q) world" where
  "new_world q = \<lparr>w_sms = NewInMemorySMSStorage, w_reports = NewInMemoryReportStorage, w_queue = q,
     w_events = [], w_jobs = [], w_ticks = 0\<rparr>"

text \<open>
  C7. \<open>HandleSubmitSM\<close> either stores the message of the PDU, with its addresses, its session and its
  decoded text, answers with its ID and starts its processing, or it answers with an error and an
  empty ID and leaves stores and jobs alone.  It accepts exactly when there is content, the content
  decodes, and the message is valid.  It never panics.  The ID is made of two readings of the clock
  and of nothing else: a message that is already stored under it is overwritten.
\<close>

theorem HandleSubmitSM_spec:
  assumes "sms_store_inv (w_sms w)"
  shows "\<exists>i e w'. HandleSubmitSM (memory_handler publisher router queue splitter clock) w se p = (Reply \<lparr>sr_MessageID = i\<rparr> e, w') \<and> sms_store_inv (w_sms w') \<and>
    w_reports w' = w_reports w \<and> w_queue w' = w_queue w \<and>
    (let bs = message_bytes (ss_ShortMessage p) (ss_OptionalParams p); t0 = w_ticks w;
         new = message_ID_at (clock t0) (clock (t0 + 1)) in
     case e of
       None \<Rightarrow> i = new \<and> bs \<noteq> [] \<and> (\<exists>t m. Decode_text bs (ss_DataCoding p) = Ok t \<and>
         m = submit_message i se p (clock (t0 + 2)) t \<and> ValidateMessage m = Ok () \<and>
         m_ID m = i \<and> m_SessionID m = se_ID se \<and> m_Text m = t \<and>
         m_SourceAddr m = \<lparr>a_TON = ss_SourceAddrTON p, a_NPI = ss_SourceAddrNPI p, a_Addr = ss_SourceAddr p\<rparr> \<and>
         m_DestAddr m = \<lparr>a_TON = ss_DestAddrTON p, a_NPI = ss_DestAddrNPI p, a_Addr = ss_DestAddr p\<rparr> \<and>
         m_DataCoding m = ss_DataCoding p \<and> m_RegisteredDelivery m = ss_RegisteredDelivery p \<and>
         ms_messages (w_sms w') = (ms_messages (w_sms w))(i \<mapsto> m\<lparr>m_SubmitTime := clock (t0 + 3)\<rparr>) \<and>
         w_jobs w' = w_jobs w @ [m])
     | Some err \<Rightarrow> i = '''' \<and> ms_messages (w_sms w') = ms_messages (w_sms w) \<and> w_jobs w' = w_jobs w \<and>
         w_events w' = w_events w \<and>
         (bs = [] \<or> (\<forall>t. Decode_text bs (ss_DataCoding p) = Ok t \<longrightarrow>
            ValidateMessage (submit_message new se p (clock (t0 + 2)) t) \<noteq> Ok ())))"
proof -
  let ?mh = "memory_handler publisher router queue splitter clock"
  obtain r w' where r: "HandleSubmitSM ?mh w se p = (r, w')" by fastforce
  note o = memory_service.submit_sm_outcome [OF assms, of publisher router queue splitter clock se p r w',
      OF r, unfolded memory_handler_simps]
  note a = memory_service.submit_sm_accepts [OF assms, of p _ publisher router queue splitter clock se,
      unfolded r memory_handler_simps]
  show ?thesis
  proof (cases r)
    case (Reply resp e)
    have "message_bytes (ss_ShortMessage p) (ss_OptionalParams p) \<noteq> []" if "e = None"
      using r that by (auto simp: HandleSubmitSM_def Reply split_beta Let_def)
    moreover obtain i where "resp = \<lparr>sr_MessageID = i\<rparr>" by (cases resp) auto
    ultimately show ?thesis
      using r o a by (cases e) (auto simp: Reply Let_def submit_message_simps)
  qed (use o in auto)
qed

text \<open>
  \<open>HandleQuerySM\<close> answers from the two stores alone: state 2 and error 1 for a message that is
  not stored, state 1 while there is no report, and otherwise what the report says.
\<close>

theorem HandleQuerySM_spec:
  assumes "sms_store_inv (w_sms w)"
  shows "HandleQuerySM (memory_handler publisher router queue splitter clock) w se p = Reply
    (case ms_messages (w_sms w) (cstring_GetString (qs_MessageID p)) of
       None \<Rightarrow> \<lparr>qr_MessageID = qs_MessageID p, qr_FinalDate = NewCString 17, qr_MessageState = 2,
                qr_ErrorCode = 1\<rparr>
     | Some m \<Rightarrow>
         (case rs_reports (w_reports w) (cstring_GetString (qs_MessageID p)) of
            None \<Rightarrow> \<lparr>qr_MessageID = qs_MessageID p, qr_FinalDate = NewCString 17, qr_MessageState = 1,
                     qr_ErrorCode = 0\<rparr>
          | Some r \<Rightarrow> \<lparr>qr_MessageID = qs_MessageID p, qr_FinalDate = final_date (Some r),
                       qr_MessageState = query_state (r_Status r),
                       qr_ErrorCode = query_error (r_Error r)\<rparr>)) None"
  by (rule memory_service.query_sm_outcome [OF assms])

text \<open>
  \<open>HandleReplaceSM\<close> changes the content of the message it names and nothing else, and only while
  no report says that the message is final; it answers the same in every case.
\<close>

theorem HandleReplaceSM_spec:
  assumes "sms_store_inv (w_sms w)"
  shows "\<exists>s'. HandleReplaceSM (memory_handler publisher router queue splitter clock) w se p =
      (Reply ReplaceSMResp None, w\<lparr>w_sms := s'\<rparr>) \<and> sms_store_inv s' \<and>
    ms_messages s' = (case changeable (ms_messages (w_sms w)) (rs_reports (w_reports w))
                             (cstring_GetString (rs_MessageID p)) of
        None \<Rightarrow> ms_messages (w_sms w)
      | Some m \<Rightarrow> (ms_messages (w_sms w))(cstring_GetString (rs_MessageID p) \<mapsto> replaced p m))"
  by (rule memory_service.replace_sm_exact [OF assms])

text \<open>
  \<open>HandleCancelSM\<close> removes the message it names and nothing else, under the same condition.
\<close>

theorem HandleCancelSM_spec:
  assumes "sms_store_inv (w_sms w)"
  shows "\<exists>s'. HandleCancelSM (memory_handler publisher router queue splitter clock) w se p =
      (Reply CancelSMResp None, w\<lparr>w_sms := s'\<rparr>) \<and> sms_store_inv s' \<and>
    ms_messages s' = (case changeable (ms_messages (w_sms w)) (rs_reports (w_reports w))
                             (cstring_GetString (cn_MessageID p)) of
        None \<Rightarrow> ms_messages (w_sms w)
      | Some m \<Rightarrow> (ms_messages (w_sms w))(cstring_GetString (cn_MessageID p) := None))"
  by (rule memory_service.cancel_sm_exact [OF assms])

text \<open>
  C18. \<open>HandleSubmitMulti\<close>, for content that decodes and a store that does not fail, deals with every
  destination once and in order: it is either in the list of failures of the answer, because it is
  not an SME address or a message to it would not be valid, or a message with its address, the
  sender's address and the text is stored under the base ID and its number, and waits to be
  processed.  No other message changes.
\<close>

theorem HandleSubmitMulti_spec:
  assumes "sms_store_inv (w_sms w)"
    and "message_bytes (sm_ShortMessage p) (sm_OptionalParameters p) \<noteq> []"
    and "Decode_text (message_bytes (sm_ShortMessage p) (sm_OptionalParameters p)) (sm_DataCoding p) = Ok t"
    and "base = message_ID_at (clock (w_ticks w)) (clock (w_ticks w + 1))"
  shows "\<exists>resp w' js. HandleSubmitMulti (memory_handler publisher router queue splitter clock) w se p =
      (Reply resp None, w') \<and> sms_store_inv (w_sms w') \<and>
    mr_UnsuccessSME resp = multi_refusals p t (sm_DestAddresses p) \<and>
    mr_NoUnsuccess resp = word_of_nat (length (mr_UnsuccessSME resp)) \<and>
    w_jobs w' = w_jobs w @ js \<and> list_all2 (message_for se p t base) (multi_accepted p t 0 (sm_DestAddresses p)) js \<and>
    length (mr_UnsuccessSME resp) + length js = length (sm_DestAddresses p) \<and>
    (\<forall>j. j \<notin> m_ID ` set js \<longrightarrow> ms_messages (w_sms w') j = ms_messages (w_sms w) j) \<and>
    (\<forall>m \<in> set js. \<exists>now. ms_messages (w_sms w') (m_ID m) = Some (m\<lparr>m_SubmitTime := now\<rparr>))"
proof -
  let ?mh = "memory_handler publisher router queue splitter clock"
  have base: "base = message_ID_at (mh_clock ?mh (w_ticks w)) (mh_clock ?mh (w_ticks w + 1))"
    using assms(4) by simp
  from memory_service.submit_multi_exact [OF assms(1-3) base, of se]
  obtain w' js where l: "HandleSubmitMulti ?mh w se p =
      (Reply \<lparr>mr_MessageID = set_string_unchecked (NewCString 65) base,
         mr_NoUnsuccess = word_of_nat (length (multi_refusals p t (sm_DestAddresses p))),
         mr_UnsuccessSME = multi_refusals p t (sm_DestAddresses p)\<rparr> None, w')"
    "sms_store_inv (w_sms w')" "w_jobs w' = w_jobs w @ js"
    "list_all2 (message_for se p t base) (multi_accepted p t 0 (sm_DestAddresses p)) js"
    "\<forall>j. j \<notin> m_ID ` set js \<longrightarrow> ms_messages (w_sms w') j = ms_messages (w_sms w) j"
    "\<forall>m \<in> set js. \<exists>now. ms_messages (w_sms w') (m_ID m) = Some (m\<lparr>m_SubmitTime := now\<rparr>)"
    by blast
  have "length js = length (multi_accepted p t 0 (sm_DestAddresses p))"
    using list_all2_lengthD [OF l(4)] by simp
  then have "length (multi_refusals p t (sm_DestAddresses p)) + length js = length (sm_DestAddresses p)"
    using multi_count [of p t "sm_DestAddresses p" 0] by simp
  with l show ?thesis by (intro exI conjI) (assumption | simp)+
qed


text \<open>
  C10. From submission to query, for a \<open>submit_sm\<close> that asks for a receipt and whose message is routed,
  not split, and taken by the queue if there is one: the processing that it has started succeeds,
  the message is stored as accepted with its text, and \<open>query_sm\<close> on it answers with state 3, error 0
  and the date of the report.  The code means 3 as delivered; in \<open>constants.go\<close> it is the state of an
  expired message, and delivered is 2.
\<close>

theorem submit_process_query:
  assumes "sms_store_inv (w_sms w)" and "and (ss_RegisteredDelivery p) 0x01 \<noteq> 0"
    and "HandleSubmitSM (memory_handler publisher router queue splitter clock) w se p =
      (Reply \<lparr>sr_MessageID = i\<rparr> None, w1)"
    and "w_jobs w1 = w_jobs w @ [m]"
    and "routeMessage (memory_handler publisher router queue splitter clock) m = Ok ri"
    and "splitMessage (memory_handler publisher router queue splitter clock) m = Ok [m]"
    and "fst (enqueueMessage (memory_handler publisher router queue splitter clock) w1 m ri) = Ok ()"
    and "of_bytes (cs_Data (qs_MessageID q)) = i"
  shows "\<exists>now m' w2. ProcessMessage (memory_handler publisher router queue splitter clock) w1 m = (Ok (), w2) \<and>
    sms_store_inv (w_sms w2) \<and> ms_messages (w_sms w2) = (ms_messages (w_sms w))(i \<mapsto> m') \<and>
    m_Status m' = MessageStatusAccepted \<and>
    Decode_text (message_bytes (ss_ShortMessage p) (ss_OptionalParams p)) (ss_DataCoding p) = Ok (m_Text m') \<and>
    HandleQuerySM (memory_handler publisher router queue splitter clock) w2 se' q = Reply
      \<lparr>qr_MessageID = qs_MessageID q, qr_FinalDate = final_date (Some (delivered_report now m)),
       qr_MessageState = 3, qr_ErrorCode = 0\<rparr> None"
proof -
  let ?mh = "memory_handler publisher router queue splitter clock"
  from memory_service.submit_sm_outcome [OF assms(1,3)] obtain t0 t where
    inv1: "sms_store_inv (w_sms w1)" and m: "m = submit_message i se p t0 t"
    and st: "ms_messages (w_sms w1) = (ms_messages (w_sms w))(i \<mapsto> m\<lparr>m_SubmitTime := clock (w_ticks w + 3)\<rparr>)"
    and t: "Decode_text (message_bytes (ss_ShortMessage p) (ss_OptionalParams p)) (ss_DataCoding p) = Ok t"
    using assms(4) by (auto simp: Let_def)
  have f: "m_ID m = i" "m_Text m = t" "and (m_RegisteredDelivery m) 0x01 \<noteq> 0"
    using assms(2) by (simp_all add: m submit_message_simps)
  have "ms_messages (w_sms w1) (m_ID m) = Some (m\<lparr>m_SubmitTime := clock (w_ticks w + 3)\<rparr>)"
    using st f(1) by simp
  from memory_service.process_unsplit_exact [OF inv1 this assms(5-7) f(3)]
  obtain w2 m1 now where w2: "ProcessMessage ?mh w1 m = (Ok (), w2)" "sms_store_inv (w_sms w2)"
    "ms_messages (w_sms w2) = (ms_messages (w_sms w1))(i \<mapsto> m1)" "m_Status m1 = MessageStatusAccepted"
    "m_Text m1 = t" "rs_reports (w_reports w2) i = Some (delivered_report now m)"
    unfolding f(1) by (auto simp: f(2))
  have code: "query_error ''000'' = 0" by (simp add: query_error_def Atoi_def is_digit_def)
  have state: "query_state ''DELIVRD'' = 3" by (simp add: query_state_def)
  have "HandleQuerySM ?mh w2 se' q = Reply
      \<lparr>qr_MessageID = qs_MessageID q, qr_FinalDate = final_date (Some (delivered_report now m)),
       qr_MessageState = 3, qr_ErrorCode = 0\<rparr> None"
    using memory_service.query_sm_outcome [OF w2(2), of publisher router queue splitter clock se' q]
      w2(3,6) assms(8) by (simp add: cstring_GetString_def code state)
  with w2 st t show ?thesis by (intro exI [of _ now] exI [of _ m1] exI [of _ w2]) simp
qed

section \<open>The bounded queue behind the handler\<close>

definition memory_queue_ops :: "msg_queue queue_ops" where
  "memory_queue_ops = \<lparr>qo_EnqueueMessage = (\<lambda>q now1 now2 m route. EnqueueMessage q now1 now2 False True m route)\<rparr>"

lemma enqueueMessage_queue:
  assumes "mh_queue mh = Some memory_queue_ops"
  shows "case enqueueMessage mh w m route of (r, w') \<Rightarrow>
    w_sms w' = w_sms w \<and> w_reports w' = w_reports w \<and> w_jobs w' = w_jobs w \<and>
    q_capacity (w_queue w') = q_capacity (w_queue w) \<and>
    (if length (q_messages (w_queue w)) < q_capacity (w_queue w)
     then r = Ok () \<and> map qm_Message (q_messages (w_queue w')) = map qm_Message (q_messages (w_queue w)) @ [m]
     else (\<exists>e. r = Err e) \<and> w_queue w' = w_queue w)"
  by (simp add: enqueueMessage_def assms memory_queue_ops_def EnqueueMessage_def Now_def Let_def)

lemma enqueue_all_queue:
  assumes "mh_queue mh = Some memory_queue_ops"
  shows "case enqueue_all mh w route parts of (r, w') \<Rightarrow>
    w_sms w' = w_sms w \<and> w_reports w' = w_reports w \<and> w_jobs w' = w_jobs w \<and>
    map qm_Message (q_messages (w_queue w')) = map qm_Message (q_messages (w_queue w)) @
      take (q_capacity (w_queue w) - length (q_messages (w_queue w))) parts \<and>
    (if length parts \<le> q_capacity (w_queue w) - length (q_messages (w_queue w))
     then r = Ok () else (\<exists>e. r = Err e))"
proof (induction parts arbitrary: w)
  case (Cons m parts)
  obtain r w1 where 1: "enqueueMessage mh w m route = (r, w1)" by fastforce
  note q = enqueueMessage_queue [OF assms, of w m route, unfolded 1 prod.case]
  show ?case
  proof (cases "length (q_messages (w_queue w)) < q_capacity (w_queue w)")
    case True
    have len: "length (q_messages (w_queue w1)) = Suc (length (q_messages (w_queue w)))"
      using q True by (metis length_append_singleton length_map)
    obtain k where k: "q_capacity (w_queue w) - length (q_messages (w_queue w)) = Suc k"
      "q_capacity (w_queue w1) - length (q_messages (w_queue w1)) = k"
      using True len q by (cases "q_capacity (w_queue w) - length (q_messages (w_queue w))") auto
    show ?thesis using Cons.IH [of w1] q True k by (simp add: 1 split: prod.splits)
  qed (use q in \<open>auto simp: 1\<close>)
qed simp

text \<open>
  C14. With the bounded queue behind the handler, the parts of a message are queued in order as long
  as there is room.  If they all fit, the message is marked as split or accepted and, if its sender
  asked for it, every part with an ID is reported as delivered, and nothing else; if they do not fit,
  the parts that fitted stay in the queue, the call fails, and messages and reports are left as they
  were.
\<close>

theorem ProcessMessage_queue:
  assumes "sms_store_inv (w_sms w)" and "ms_messages (w_sms w) (m_ID m) = Some m0"
    and "route m = Ok ri" and "split m = Ok parts"
  shows "\<exists>r w'. ProcessMessage
      (memory_handler publisher (Some route) (Some memory_queue_ops) (Some split) clock) w m = (r, w') \<and>
    map qm_Message (q_messages (w_queue w')) = map qm_Message (q_messages (w_queue w)) @
      take (q_capacity (w_queue w) - length (q_messages (w_queue w))) parts \<and>
    (if length parts \<le> q_capacity (w_queue w) - length (q_messages (w_queue w))
     then r = Ok () \<and> (\<exists>now. ms_messages (w_sms w') = (ms_messages (w_sms w))(m_ID m \<mapsto>
            set_status now (if length parts > 1 then MessageStatusSplit else MessageStatusAccepted) m0)) \<and>
       (if and (m_RegisteredDelivery m) 0x01 \<noteq> 0
        then (\<forall>j. j \<notin> m_ID ` set parts \<longrightarrow> rs_reports (w_reports w') j = rs_reports (w_reports w) j) \<and>
          (\<forall>p \<in> set parts. m_ID p \<noteq> '''' \<longrightarrow> (\<exists>rep. rs_reports (w_reports w') (m_ID p) = Some rep \<and>
             r_MessageID rep = m_ID p \<and> r_Status rep = ''DELIVRD''))
        else w_reports w' = w_reports w)
     else (\<exists>e. r = Err e) \<and> w_sms w' = w_sms w \<and> w_reports w' = w_reports w)"
proof -
  let ?mh = "memory_handler publisher (Some route) (Some memory_queue_ops) (Some split) clock"
  obtain r1 w1 where 1: "enqueue_all ?mh w ri parts = (r1, w1)" by fastforce
  have q: "mh_queue ?mh = Some memory_queue_ops" by simp
  note o = enqueue_all_queue [OF q, of w parts ri, unfolded 1 prod.case]
  have start: "routeMessage ?mh m = Ok ri" "splitMessage ?mh m = Ok parts"
    using assms(3,4) by (simp_all add: routeMessage_def splitMessage_def)
  show ?thesis
  proof (cases "length parts \<le> q_capacity (w_queue w) - length (q_messages (w_queue w))")
    case True
    let ?st = "if length parts > 1 then MessageStatusSplit else MessageStatusAccepted"
    have w1: "sms_store_inv (w_sms w1)" "ms_messages (w_sms w1) (m_ID m) = Some m0"
      using assms(1,2) o by simp_all
    obtain s' where s': "update_sms_status ?mh w1 (m_ID m) ?st =
        (Ok (), w1\<lparr>w_ticks := w_ticks w1 + 1, w_sms := s'\<rparr>)"
      "ms_messages s' = (ms_messages (w_sms w1))(m_ID m \<mapsto> set_status (clock (w_ticks w1)) ?st m0)"
      using memory_service.status_exact [OF w1, of publisher "Some route" "Some memory_queue_ops"
          "Some split" clock ?st] by auto
    let ?w2 = "w1\<lparr>w_ticks := w_ticks w1 + 1, w_sms := s'\<rparr>"
    have p: "ProcessMessage ?mh w m =
        (if and (m_RegisteredDelivery m) 0x01 \<noteq> 0 then report_all ?mh ?w2 m parts else (Ok (), ?w2))"
      using o True s'(1) by (simp add: ProcessMessage_def start 1)
    obtain w3 where w3: "report_all ?mh ?w2 m parts = (Ok (), w3)" "w_sms w3 = s'" "w_queue w3 = w_queue w1"
      "\<forall>j. j \<notin> m_ID ` set parts \<longrightarrow> rs_reports (w_reports w3) j = rs_reports (w_reports w1) j"
      and reps: "\<forall>p \<in> set parts. m_ID p \<noteq> '''' \<longrightarrow> (\<exists>now. \<exists>q \<in> set parts. m_ID q = m_ID p \<and>
             rs_reports (w_reports w3) (m_ID p) = Some (delivered_report now q))"
      using memory_service.report_all_exact [of publisher "Some route" "Some memory_queue_ops" "Some split"
          clock ?w2 m parts] by auto
    have same: "w_reports w1 = w_reports w" using o by simp
    have all: "\<forall>p \<in> set parts. m_ID p \<noteq> '''' \<longrightarrow> (\<exists>rep. rs_reports (w_reports w3) (m_ID p) = Some rep \<and>
             r_MessageID rep = m_ID p \<and> r_Status rep = ''DELIVRD'')"
      using reps delivered_report_simps(1,2) by metis
    show ?thesis
    proof (cases "and (m_RegisteredDelivery m) 0x01 \<noteq> 0")
      case R: True
      with p w3 all same s'(2) o True show ?thesis by (intro exI [of _ "Ok ()"] exI [of _ w3]) auto
    next
      case False
      with p s'(2) o True show ?thesis by (intro exI [of _ "Ok ()"] exI [of _ ?w2]) auto
    qed
  next
    case False
    then obtain e where "r1 = Err e" using o by auto
    with o False show ?thesis by (simp add: ProcessMessage_def start 1)
  qed
qed

section \<open>Concrete instances\<close>

definition example_session :: session where
  "example_session = \<lparr>se_ID = ''s'', se_SystemID = ''sys'', se_Password = ''pw'', se_SystemType = '''',
     se_BindType = 9, se_State = SessionStateBoundTRX, se_LastActivity = 0, se_SequenceNum = 1\<rparr>"

definition example_submit_sm :: submit_sm where
  "example_submit_sm = zero_submit_sm\<lparr>ss_SourceAddr := ''1'', ss_DestAddr := ''2'', ss_DataCoding := 4,
     ss_RegisteredDelivery := 1, ss_ShortMessage := to_bytes ''hi''\<rparr>"

abbreviation example_handler :: "(sms_store, report_store, unit) handler" where
  "example_handler \<equiv> memory_handler True None None None int"

abbreviation example_world :: "(sms_store, report_store, unit) world" where
  "example_world \<equiv> new_world ()"

lemma example_world_inv: "sms_store_inv (w_sms example_world)"
  by (simp add: new_world_def NewInMemorySMSStorage_inv)

lemma example_submit:
  "\<exists>i w1. HandleSubmitSM example_handler example_world example_session example_submit_sm =
     (Reply \<lparr>sr_MessageID = i\<rparr> None, w1)"
proof (rule memory_service.submit_sm_accepts [OF example_world_inv])
  show "Decode_text (message_bytes (ss_ShortMessage example_submit_sm) (ss_OptionalParams example_submit_sm))
      (ss_DataCoding example_submit_sm) = Ok ''hi''"
    by (simp add: example_submit_sm_def message_bytes_def Decode_text_def)
  show "message_bytes (ss_ShortMessage example_submit_sm) (ss_OptionalParams example_submit_sm) \<noteq> []"
    by (simp add: example_submit_sm_def message_bytes_def)
  have "runes ''hi'' = codes ''hi''" by (rule runes_ASCII) (simp add: codes_def)
  then show "ValidateMessage (submit_message (message_ID_at (mh_clock example_handler (w_ticks example_world))
        (mh_clock example_handler (w_ticks example_world + 1))) example_session example_submit_sm
      (mh_clock example_handler (w_ticks example_world + 2)) ''hi'') = Ok ()"
    by (simp add: ValidateMessage_def submit_message_def example_submit_sm_def zero_submit_sm_def
        ValidateText_def GetMaxLength_def isValidTONNPI_def codes_def)
qed

theorem ValidateMessage_iff_witness:
  "ValidateMessage (zero_message\<lparr>m_SourceAddr := zero_address\<lparr>a_Addr := ''1''\<rparr>,
     m_DestAddr := zero_address\<lparr>a_Addr := ''2''\<rparr>, m_DataCoding := 4\<rparr>) = Ok ()"
proof -
  have "runes '''' = []" using runes_ASCII [of "''''"] by (simp add: codes_def)
  then show ?thesis
    unfolding ValidateMessage_iff
    by (simp add: zero_message_def zero_address_def GetMaxLength_def isValidTONNPI_def)
qed

theorem HandleSubmitSM_spec_witness:
  "\<exists>i e w'. HandleSubmitSM example_handler example_world example_session example_submit_sm =
     (Reply \<lparr>sr_MessageID = i\<rparr> e, w') \<and> sms_store_inv (w_sms w')"
  using HandleSubmitSM_spec [OF example_world_inv, of True None None None int example_session example_submit_sm]
  by blast

theorem HandleQuerySM_spec_witness:
  "HandleQuerySM example_handler example_world example_session
     \<lparr>qs_MessageID = NewCString 64, qs_SourceAddr = zero_address\<rparr> =
   Reply \<lparr>qr_MessageID = NewCString 64, qr_FinalDate = NewCString 17, qr_MessageState = 2, qr_ErrorCode = 1\<rparr> None"
  by (subst HandleQuerySM_spec [OF example_world_inv]) (simp add: new_world_def NewInMemorySMSStorage_def)

definition example_stored :: "(sms_store, report_store, unit) world" where
  "example_stored = example_world\<lparr>w_sms := \<lparr>ms_messages = [''a'' \<mapsto> zero_message\<lparr>m_ID := ''a''\<rparr>]\<rparr>\<rparr>"

lemma example_stored_inv: "sms_store_inv (w_sms example_stored)"
  by (simp add: example_stored_def sms_store_inv_def)

lemma GetString_a: "cstring_GetString (set_string_unchecked (NewCString 64) ''a'') = ''a''"
  by (simp add: cstring_GetString_def set_string_unchecked_def cstring_SetString_def NewCString_def)

definition example_replace :: replace_sm where
  "example_replace = \<lparr>rs_MessageID = set_string_unchecked (NewCString 64) ''a'', rs_SourceAddr = zero_address,
     rs_ScheduleDeliveryTime = NewCString 16, rs_ValidityPeriod = NewCString 16, rs_RegisteredDelivery = 1,
     rs_SMDefaultMsgID = 4, rs_SMLength = 2, rs_ShortMessage = to_bytes ''hi''\<rparr>"

theorem HandleReplaceSM_spec_witness:
  "\<exists>s' m. HandleReplaceSM example_handler example_stored example_session example_replace =
      (Reply ReplaceSMResp None, example_stored\<lparr>w_sms := s'\<rparr>) \<and>
    ms_messages s' ''a'' = Some m \<and> m_Text m = ''hi''"
proof -
  have "changeable (ms_messages (w_sms example_stored)) (rs_reports (w_reports example_stored)) ''a'' =
      Some (zero_message\<lparr>m_ID := ''a''\<rparr>)"
    by (simp add: changeable_def example_stored_def new_world_def NewInMemoryReportStorage_def)
  then show ?thesis
    using HandleReplaceSM_spec [OF example_stored_inv, of True None None None int example_session example_replace]
    by (auto simp: example_replace_def GetString_a replaced_def Let_def)
qed

definition example_cancel :: cancel_sm where
  "example_cancel = \<lparr>cn_ServiceType = NewCString 6, cn_MessageID = set_string_unchecked (NewCString 64) ''a'',
     cn_SourceAddrTON = 0, cn_SourceAddrNPI = 0, cn_SourceAddr = NewCString 21, cn_DestAddrTON = 0,
     cn_DestAddrNPI = 0, cn_DestinationAddr = NewCString 21\<rparr>"

theorem HandleCancelSM_spec_witness:
  "\<exists>s'. HandleCancelSM example_handler example_stored example_session example_cancel =
      (Reply CancelSMResp None, example_stored\<lparr>w_sms := s'\<rparr>) \<and> ms_messages s' ''a'' = None"
proof -
  have "changeable (ms_messages (w_sms example_stored)) (rs_reports (w_reports example_stored)) ''a'' =
      Some (zero_message\<lparr>m_ID := ''a''\<rparr>)"
    by (simp add: changeable_def example_stored_def new_world_def NewInMemoryReportStorage_def)
  then show ?thesis
    using HandleCancelSM_spec [OF example_stored_inv, of True None None None int example_session example_cancel]
    by (auto simp: example_cancel_def GetString_a)
qed

definition example_dest :: "u8 \<Rightarrow> destination_address" where
  "example_dest flag = \<lparr>da_DestFlag = flag, da_DestAddrTON = 0, da_DestAddrNPI = 0,
     da_DestinationAddr = set_string_unchecked (NewCString 21) ''2'', da_DLName = NewCString 21\<rparr>"

definition example_multi :: submit_multi where
  "example_multi = \<lparr>sm_ServiceType = NewCString 6, sm_SourceAddr = zero_address\<lparr>a_Addr := ''1''\<rparr>,
     sm_NumberOfDests = 2, sm_DestAddresses = [example_dest 1, example_dest 2], sm_ESMClass = 0,
     sm_ProtocolID = 0, sm_PriorityFlag = 0, sm_ScheduleDeliveryTime = NewCString 17,
     sm_ValidityPeriod = NewCString 17, sm_RegisteredDelivery = 0, sm_ReplaceIfPresentFlag = 0,
     sm_DataCoding = 4, sm_SMDefaultMsgID = 0, sm_SMLength = 2, sm_ShortMessage = to_bytes ''hi'',
     sm_OptionalParameters = []\<rparr>"

theorem HandleSubmitMulti_spec_witness:
  "\<exists>resp w' js. HandleSubmitMulti example_handler example_world example_session example_multi =
      (Reply resp None, w') \<and> length (mr_UnsuccessSME resp) + length js = 2 \<and> w_jobs w' = js"
proof -
  have "message_bytes (sm_ShortMessage example_multi) (sm_OptionalParameters example_multi) \<noteq> []"
    "Decode_text (message_bytes (sm_ShortMessage example_multi) (sm_OptionalParameters example_multi))
      (sm_DataCoding example_multi) = Ok ''hi''"
    by (simp_all add: example_multi_def message_bytes_def Decode_text_def)
  from HandleSubmitMulti_spec [OF example_world_inv this refl, of True None None None int example_session]
  show ?thesis by (fastforce simp: example_multi_def new_world_def)
qed



theorem submit_process_query_witness:
  "\<exists>i w1 m w2 d. HandleSubmitSM example_handler example_world example_session example_submit_sm =
      (Reply \<lparr>sr_MessageID = i\<rparr> None, w1) \<and> w_jobs w1 = [m] \<and>
    ProcessMessage example_handler w1 m = (Ok (), w2) \<and>
    HandleQuerySM example_handler w2 example_session
      \<lparr>qs_MessageID = \<lparr>cs_Data = to_bytes i, cs_MaxLen = 64\<rparr>, qs_SourceAddr = zero_address\<rparr> =
    Reply \<lparr>qr_MessageID = \<lparr>cs_Data = to_bytes i, cs_MaxLen = 64\<rparr>, qr_FinalDate = d,
       qr_MessageState = 3, qr_ErrorCode = 0\<rparr> None"
proof -
  obtain i w1 where s: "HandleSubmitSM example_handler example_world example_session example_submit_sm =
     (Reply \<lparr>sr_MessageID = i\<rparr> None, w1)"
    using example_submit by blast
  have r: "and (ss_RegisteredDelivery example_submit_sm) 0x01 \<noteq> 0" by (simp add: example_submit_sm_def)
  have q: "of_bytes (cs_Data (qs_MessageID
      \<lparr>qs_MessageID = \<lparr>cs_Data = to_bytes i, cs_MaxLen = 64\<rparr>, qs_SourceAddr = zero_address\<rparr>)) = i" by simp
  obtain m where m: "w_jobs w1 = w_jobs example_world @ [m]" "sms_store_inv (w_sms w1)"
    "ms_messages (w_sms w1) (m_ID m) \<noteq> None"
    using memory_service.submit_sm_outcome [OF example_world_inv s] by (auto simp: submit_message_simps Let_def)
  obtain ri where ri: "routeMessage example_handler m = Ok ri" by (simp add: routeMessage_def)
  have sp: "splitMessage example_handler m = Ok [m]" by (simp add: splitMessage_def)
  obtain m0 where "ms_messages (w_sms w1) (m_ID m) = Some m0" using m(3) by blast
  from memory_service.status_exact [OF m(2) this, of True None None None int MessageStatusDelivered]
  have eq: "fst (enqueueMessage example_handler w1 m ri) = Ok ()"
    by (auto simp: enqueueMessage_def)
  from submit_process_query [OF example_world_inv r s m(1) ri sp eq q, of example_session] s m(1) show ?thesis
    by (fastforce simp: new_world_def)
qed

theorem ProcessMessage_queue_witness:
  "\<exists>r w' m rep. m = zero_message\<lparr>m_ID := ''a'', m_RegisteredDelivery := 1\<rparr> \<and> ProcessMessage
      (memory_handler True (Some (\<lambda>m. Ok example_route)) (Some memory_queue_ops) (Some (\<lambda>m. Ok [m])) int)
      (new_world (NewInMemoryMessageQueue 1)\<lparr>w_sms := w_sms example_stored\<rparr>) m = (r, w') \<and>
    map qm_Message (q_messages (w_queue w')) = [m] \<and> r = Ok () \<and>
    rs_reports (w_reports w') ''a'' = Some rep \<and> r_Status rep = ''DELIVRD''"
  using ProcessMessage_queue [of "new_world (NewInMemoryMessageQueue 1)\<lparr>w_sms := w_sms example_stored\<rparr>"
      "zero_message\<lparr>m_ID := ''a'', m_RegisteredDelivery := 1\<rparr>" "zero_message\<lparr>m_ID := ''a''\<rparr>"
      "\<lambda>m. Ok example_route" example_route
      "\<lambda>m. Ok [m]" "[zero_message\<lparr>m_ID := ''a'', m_RegisteredDelivery := 1\<rparr>]" True int] example_stored_inv
  by (fastforce simp: example_stored_def new_world_def NewInMemoryMessageQueue_def zero_message_def)

end
