(* ===== verification/Connections.thy ===== *)
theory Connections
  imports Receipts Codec
begin

text \<open>
  \<open>ServerConnection\<close> and \<open>InMemoryConnectionManager\<close> (\<open>pkg/smpp/connection.go\<close>), the event handler that
  keeps the manager up to date (\<open>pkg/smpp/connection_manager_handler.go\<close>) and the sender of delivery
  reports (\<open>pkg/smpp/delivery_report_sender.go\<close>).

  Connections are objects that the server, the manager and the sender share, so the manager holds
  references into a heap of connections.  The network is a sequence of outcomes: whether setting the
  deadline and writing succeed.
\<close>

section \<open>ServerConnection\<close>

record server_connection =
  sc_session :: "session option"
  sc_lastActivity :: time
  sc_active :: bool
  sc_out :: "byte list"

definition NewServerConnection :: "time \<Rightarrow> server_connection" where
  "NewServerConnection now = \<lparr>sc_session = None, sc_lastActivity = now, sc_active = True, sc_out = []\<rparr>"

definition conn_GetSessionID :: "server_connection \<Rightarrow> string" where
  "conn_GetSessionID c = (case sc_session c of None \<Rightarrow> '''' | Some s \<Rightarrow> se_ID s)"

definition conn_SetSession :: "server_connection \<Rightarrow> session \<Rightarrow> server_connection" where
  "conn_SetSession c s = c\<lparr>sc_session := Some s\<rparr>"

record net_outcome =
  no_deadline_ok :: bool
  no_write_ok :: bool

text \<open>
  \<open>Send\<close>: a panic while encoding is turned into an error.  \<open>sc_out\<close> is what has been written.
\<close>

definition conn_Send ::
    "net_outcome \<Rightarrow> time \<Rightarrow> server_connection \<Rightarrow> pdu \<Rightarrow> unit result \<times> server_connection" where
  "conn_Send net now c p =
     (if \<not> sc_active c then (Err (Errorf ''connection is not active''), c)
      else case Encode p of
        Panic \<Rightarrow> (Err (Errorf ''panic in Send''), c)
      | Err e \<Rightarrow> (Err (Wrap ''failed to encode PDU'' e), c)
      | Ok (p', data) \<Rightarrow>
          if \<not> no_deadline_ok net then (Err (Errorf ''failed to set write deadline''), c)
          else if \<not> no_write_ok net
          then (Err (Errorf ''failed to write data''), c\<lparr>sc_active := False\<rparr>)
          else (Ok (), c\<lparr>sc_out := sc_out c @ data, sc_lastActivity := now\<rparr>))"

definition conn_Close :: "server_connection \<Rightarrow> server_connection" where
  "conn_Close c = c\<lparr>sc_active := False\<rparr>"

definition conn_UpdateLastActivity :: "time \<Rightarrow> server_connection \<Rightarrow> server_connection" where
  "conn_UpdateLastActivity now c = c\<lparr>sc_lastActivity := now\<rparr>"

lemma conn_Send_not_Panic [simp]: "fst (conn_Send net now c p) \<noteq> Panic"
  by (simp add: conn_Send_def split: result.split)

lemma conn_Send_Ok_iff:
  "fst (conn_Send net now c p) = Ok () \<longleftrightarrow>
     sc_active c \<and> is_Ok (Encode p) \<and> no_deadline_ok net \<and> no_write_ok net"
  by (auto simp: conn_Send_def split: result.split)

lemma conn_Send_out:
  "sc_out (snd (conn_Send net now c p)) =
     (if fst (conn_Send net now c p) = Ok () then sc_out c @ wire_bytes p else sc_out c)"
  by (simp add: conn_Send_def wire_bytes_def split: result.split prod.split)

lemma conn_Send_session [simp]: "sc_session (snd (conn_Send net now c p)) = sc_session c"
  by (simp add: conn_Send_def split: result.split prod.split)

section \<open>InMemoryConnectionManager\<close>

type_synonym conn_ref = nat
type_synonym conn_heap = "conn_ref \<Rightarrow> server_connection"

record connection_manager =
  cm_connections :: "string \<rightharpoonup> conn_ref"

definition NewInMemoryConnectionManager :: connection_manager where
  "NewInMemoryConnectionManager = \<lparr>cm_connections = Map.empty\<rparr>"

definition AddConnection ::
    "conn_heap \<Rightarrow> connection_manager \<Rightarrow> conn_ref \<Rightarrow> unit result \<times> connection_manager" where
  "AddConnection h cm conn =
     (let sessionID = conn_GetSessionID (h conn) in
      if sessionID = '''' then (Err (Errorf ''connection must have a session ID''), cm)
      else if cm_connections cm sessionID \<noteq> None
      then (Err (Errorf ''connection with session ID already exists''), cm)
      else (Ok (), cm\<lparr>cm_connections := (cm_connections cm)(sessionID \<mapsto> conn)\<rparr>))"

definition RemoveConnection :: "connection_manager \<Rightarrow> string \<Rightarrow> unit result \<times> connection_manager" where
  "RemoveConnection cm sessionID =
     (if cm_connections cm sessionID = None
      then (Err (Errorf ''connection with session ID not found''), cm)
      else (Ok (), cm\<lparr>cm_connections := (cm_connections cm)(sessionID := None)\<rparr>))"

definition GetConnection :: "connection_manager \<Rightarrow> string \<Rightarrow> conn_ref result" where
  "GetConnection cm sessionID =
     (case cm_connections cm sessionID of
        None \<Rightarrow> Err (Errorf ''connection with session ID not found'')
      | Some conn \<Rightarrow> Ok conn)"

text \<open>\<open>order\<close> is the order in which Go ranges over the map.\<close>

definition GetAllConnections :: "connection_manager \<Rightarrow> string list \<Rightarrow> conn_ref list result" where
  "GetAllConnections cm order = Ok (values_in (cm_connections cm) order)"

definition GetConnectionCount :: "connection_manager \<Rightarrow> nat" where
  "GetConnectionCount cm = card (dom (cm_connections cm))"

text \<open>A broadcast goes on after a failed send; \<open>nets k\<close> is the outcome of the \<open>k\<close>-th write.\<close>

fun broadcast_loop ::
    "(nat \<Rightarrow> net_outcome) \<Rightarrow> nat \<Rightarrow> time \<Rightarrow> pdu \<Rightarrow> conn_ref list \<Rightarrow> conn_heap \<Rightarrow> error list \<Rightarrow>
     error list \<times> conn_heap" where
  "broadcast_loop nets k now p [] h errs = (errs, h)"
| "broadcast_loop nets k now p (conn # conns) h errs =
     (let (r, c) = conn_Send (nets k) now (h conn) p in
      broadcast_loop nets (k + 1) now p conns (h(conn := c))
        (case r of Err e \<Rightarrow> errs @ [Wrap ''failed to send to session'' e] | _ \<Rightarrow> errs))"

text \<open>The PDU is \<open>None\<close> when the message that is passed is no PDU.\<close>

definition BroadcastMessage ::
    "(nat \<Rightarrow> net_outcome) \<Rightarrow> time \<Rightarrow> connection_manager \<Rightarrow> string list \<Rightarrow> pdu option \<Rightarrow> conn_heap \<Rightarrow>
     unit result \<times> conn_heap" where
  "BroadcastMessage nets now cm order message h =
     (case message of
        None \<Rightarrow> (Err (Errorf ''message must be a PDU''), h)
      | Some p \<Rightarrow>
          let (errs, h') = broadcast_loop nets 0 now p (values_in (cm_connections cm) order) h []
          in (if length errs > 0 then Err (Errorf ''broadcast failed'') else Ok (), h'))"

section \<open>ConnectionManagerEventHandler\<close>

text \<open>
  \<open>conn\<close> is the connection that the event carries under the key \<open>connection\<close> of its data, if any.
\<close>

definition handleConnected ::
    "conn_heap \<Rightarrow> connection_manager \<Rightarrow> event \<Rightarrow> conn_ref option \<Rightarrow> unit result \<times> connection_manager" where
  "handleConnected h cm ev conn =
     (case ev of
        ConnectionEvent ce \<Rightarrow>
          (case conn of None \<Rightarrow> (Ok (), cm) | Some c \<Rightarrow> AddConnection h cm c)
      | _ \<Rightarrow> (Err (Errorf ''invalid event type for connected event''), cm))"

definition handleDisconnected ::
    "connection_manager \<Rightarrow> event \<Rightarrow> unit result \<times> connection_manager" where
  "handleDisconnected cm ev =
     (case ev of
        ConnectionEvent ce \<Rightarrow> RemoveConnection cm (ce_SessionID ce)
      | _ \<Rightarrow> (Err (Errorf ''invalid event type for disconnected event''), cm))"

definition manager_HandleEvent ::
    "conn_heap \<Rightarrow> connection_manager \<Rightarrow> event \<Rightarrow> conn_ref option \<Rightarrow> unit result \<times> connection_manager" where
  "manager_HandleEvent h cm ev conn =
     (if event_GetEventType ev = EventTypeConnected then handleConnected h cm ev conn
      else if event_GetEventType ev = EventTypeDisconnected then handleDisconnected cm ev
      else (Ok (), cm))"

section \<open>DeliveryReportSender\<close>

text \<open>
  A delivery report leaves as a \<open>deliver_sm\<close> to the session that the event names; the builder's
  sequence number is used up even when there is no such session.
\<close>

definition sender_HandleEvent ::
    "net_outcome \<Rightarrow> time \<Rightarrow> connection_manager \<Rightarrow> pdu_builder \<Rightarrow> conn_heap \<Rightarrow> event \<Rightarrow>
     unit result \<times> pdu_builder \<times> conn_heap" where
  "sender_HandleEvent net now cm b h ev =
     (case ev of
        DeliveryEvent de \<Rightarrow>
          (let report = de_Report de in
           case res_wrap ''failed to encode delivery report'' (Encode_text (r_Text report) 0) of
             Err e \<Rightarrow> (Err e, b, h) | Panic \<Rightarrow> (Panic, b, h)
           | Ok reportBytes \<Rightarrow>
          (let (p, b') = BuildDeliverSM b (r_MessageID report) '''' reportBytes 0;
               deliverPDU = (case Body p of
                   DeliverSM ds \<Rightarrow> p\<lparr>Body := DeliverSM (ds\<lparr>ds_EsmClass := 0x04\<rparr>)\<rparr> | _ \<Rightarrow> p)
           in case de_Data de ''session_id'' of
             None \<Rightarrow> (Ok (), b', h)
           | Some sessionID \<Rightarrow>
          (case GetConnection cm sessionID of
             Ok conn \<Rightarrow>
               (let (r, c) = conn_Send net now (h conn) deliverPDU
                in (res_wrap ''failed to send delivery report'' r, b', h(conn := c)))
           | _ \<Rightarrow> (Ok (), b', h))))
      | _ \<Rightarrow> (Ok (), b, h))"

section \<open>The manager as a map of session IDs\<close>

text \<open>Every connection is filed under the ID of its own session, and no ID is empty.\<close>

definition manager_inv :: "conn_heap \<Rightarrow> connection_manager \<Rightarrow> bool" where
  "manager_inv h cm \<longleftrightarrow> cm_connections cm '''' = None \<and> finite (dom (cm_connections cm)) \<and>
     (\<forall>i c. cm_connections cm i = Some c \<longrightarrow> conn_GetSessionID (h c) = i)"

lemma manager_inv_new: "manager_inv h NewInMemoryConnectionManager"
  by (simp add: manager_inv_def NewInMemoryConnectionManager_def)

lemma manager_inv_Add: "manager_inv h cm \<Longrightarrow> manager_inv h (snd (AddConnection h cm c))"
  by (auto simp: manager_inv_def AddConnection_def Let_def)

lemma manager_inv_Remove: "manager_inv h cm \<Longrightarrow> manager_inv h (snd (RemoveConnection cm i))"
  by (auto simp: manager_inv_def RemoveConnection_def)

lemma manager_inv_HandleEvent:
  "manager_inv h cm \<Longrightarrow> manager_inv h (snd (manager_HandleEvent h cm ev conn))"
  by (auto simp: manager_HandleEvent_def handleConnected_def handleDisconnected_def
      manager_inv_Add manager_inv_Remove split: event.split option.split)

lemma conn_GetSessionID_Send [simp]:
  "conn_GetSessionID (snd (conn_Send net now c p)) = conn_GetSessionID c"
  by (simp add: conn_GetSessionID_def)

lemma manager_inv_Send:
  "manager_inv h cm \<Longrightarrow> manager_inv (h(r := snd (conn_Send net now (h r) p))) cm"
  by (auto simp: manager_inv_def)

section \<open>Broadcast\<close>

lemma broadcast_loop_spec:
  assumes "distinct conns"
  shows "broadcast_loop nets k now p conns h errs = (errs', h') \<Longrightarrow>
    (\<forall>i < length conns. h' (conns ! i) = snd (conn_Send (nets (k + i)) now (h (conns ! i)) p)) \<and>
    (\<forall>c. c \<notin> set conns \<longrightarrow> h' c = h c) \<and>
    (errs' = errs \<longleftrightarrow> (\<forall>i < length conns. fst (conn_Send (nets (k + i)) now (h (conns ! i)) p) = Ok ())) \<and>
    length errs \<le> length errs'"
  using assms
proof (induction conns arbitrary: k h errs)
  case (Cons conn conns)
  obtain r c where s: "conn_Send (nets k) now (h conn) p = (r, c)" by fastforce
  let ?h = "h(conn := c)" and ?e = "case r of Err e \<Rightarrow> errs @ [Wrap ''failed to send to session'' e] | _ \<Rightarrow> errs"
  have "broadcast_loop nets (k + 1) now p conns ?h ?e = (errs', h')"
    using Cons.prems(1) s by simp
  from Cons.IH [OF this] Cons.prems(2)
  have h: "\<forall>i < length conns. h' (conns ! i) = snd (conn_Send (nets (k + 1 + i)) now (?h (conns ! i)) p)"
    "\<forall>c'. c' \<notin> set conns \<longrightarrow> h' c' = ?h c'"
    "errs' = ?e \<longleftrightarrow> (\<forall>i < length conns. fst (conn_Send (nets (k + 1 + i)) now (?h (conns ! i)) p) = Ok ())"
    "length ?e \<le> length errs'" by auto
  have same: "?h (conns ! i) = h (conns ! i)" if "i < length conns" for i
    using Cons.prems(2) that by (metis distinct.simps(2) fun_upd_apply nth_mem)
  have "h' ((conn # conns) ! i) = snd (conn_Send (nets (k + i)) now (h ((conn # conns) ! i)) p)"
    if "i < length (conn # conns)" for i
    using that h(1,2) same s Cons.prems(2) by (cases i) auto
  moreover have "errs' = errs \<longleftrightarrow>
      (\<forall>i < length (conn # conns). fst (conn_Send (nets (k + i)) now (h ((conn # conns) ! i)) p) = Ok ())"
  proof (cases r)
    case (Ok u)
    then show ?thesis using h(3) same s by (simp add: All_less_Suc2)
  next
    case (Err e)
    then have "length errs < length errs'" using h(4) by simp
    then show ?thesis using s Err by (auto simp: All_less_Suc2)
  next
    case Panic
    then show ?thesis using s conn_Send_not_Panic [of "nets k" now "h conn" p] by simp
  qed
  moreover have "length errs \<le> length errs'" using h(4) by (cases r) auto
  ultimately show ?case using h(2) by auto
qed simp

text \<open>
  A broadcast reaches every connection of the manager: each one is sent the PDU once, whatever
  happens to the others, connections outside the manager are not touched, and the result is a success
  exactly when all sends were.
\<close>

theorem BroadcastMessage_all:
  assumes "manager_inv h cm" and "enumerates (cm_connections cm) order"
  shows "\<exists>r h'. BroadcastMessage nets now cm order (Some p) h = (r, h') \<and>
    (\<forall>i < length order. h' (the (cm_connections cm (order ! i))) =
       snd (conn_Send (nets i) now (h (the (cm_connections cm (order ! i)))) p)) \<and>
    (\<forall>c. c \<notin> ran (cm_connections cm) \<longrightarrow> h' c = h c) \<and>
    (r = Ok () \<longleftrightarrow> (\<forall>i < length order.
       fst (conn_Send (nets i) now (h (the (cm_connections cm (order ! i)))) p) = Ok ()))"
proof -
  let ?conns = "values_in (cm_connections cm) order"
  have dom: "the (cm_connections cm i) = c \<Longrightarrow> i \<in> set order \<Longrightarrow> cm_connections cm i = Some c" for i c
    using assms(2) by (auto simp: enumerates_def dom_def)
  have "inj_on (\<lambda>i. the (cm_connections cm i)) (set order)"
  proof (rule inj_onI)
    fix i j assume "i \<in> set order" "j \<in> set order" "the (cm_connections cm i) = the (cm_connections cm j)"
    with dom obtain c where "cm_connections cm i = Some c" "cm_connections cm j = Some c" by metis
    with assms(1) show "i = j" by (auto simp: manager_inv_def)
  qed
  then have d: "distinct ?conns"
    using assms(2) by (simp add: values_in_def enumerates_def distinct_map)
  obtain errs h' where l: "broadcast_loop nets 0 now p ?conns h [] = (errs, h')" by fastforce
  have n: "?conns ! i = the (cm_connections cm (order ! i))" if "i < length order" for i
    using that by (simp add: values_in_def)
  have len: "length ?conns = length order" by (simp add: values_in_def)
  show ?thesis
    using broadcast_loop_spec [OF d l] n set_values_in [OF assms(2)] len
    by (intro exI [of _ "if length errs > 0 then Err (Errorf ''broadcast failed'') else Ok ()"] exI [of _ h'])
       (simp add: BroadcastMessage_def l)
qed

section \<open>Delivery reports on the wire\<close>

text \<open>The characters of a receipt, apart from the quoted text: all but the underscore are their own GSM code.\<close>

definition receipt_char :: "char \<Rightarrow> bool" where
  "receipt_char c \<longleftrightarrow> c = CHR ''_'' \<or>
     (let n = of_char c :: nat in 48 \<le> n \<and> n < 59 \<or> 65 \<le> n \<and> n < 91 \<or> 97 \<le> n \<and> n < 123 \<or>
        n = 32 \<or> n = 45 \<or> n = 46)"

definition garble :: "string \<Rightarrow> string" where
  "garble s = map (\<lambda>c. if c = CHR ''_'' then CHR 0x11 else c) s"

lemma garble_append [simp]: "garble (s @ t) = garble s @ garble t"
  by (simp add: garble_def)

lemma length_garble [simp]: "length (garble s) = length s"
  by (simp add: garble_def)

lemma garble_id: "CHR ''_'' \<notin> set s \<Longrightarrow> garble s = s"
  by (auto simp: garble_def intro!: map_idI)

lemma receipt_table: "set ([48..<59] @ [65..<91] @ [97..<123] @ [32, 45, 46]) \<subseteq>
    fst ` set (filter (\<lambda>(r, b). b = word_of_nat r) gsm7BitAlphabet)"
  by (simp add: upt_rec gsm7BitAlphabet_def)

lemma alphabet_receipt:
  assumes "r \<in> set ([48..<59] @ [65..<91] @ [97..<123] @ [32, 45, 46])"
  shows "alphabet r = Some (word_of_nat r)"
proof -
  have "r \<in> fst ` set (filter (\<lambda>(r, b). b = word_of_nat r) gsm7BitAlphabet)"
    using receipt_table assms by (rule subsetD)
  then show ?thesis by (auto simp: alphabet_Some_iff)
qed

lemma alphabet_underscore: "alphabet 95 = Some 0x11"
  by (simp add: alphabet_def gsm7BitAlphabet_def)

lemma receipt_char_code: "receipt_char c \<Longrightarrow> of_char c < (128 :: nat)"
  by (auto simp: receipt_char_def Let_def)

lemma receipt_char_cases:
  "receipt_char c \<Longrightarrow> c = CHR ''_'' \<or>
     (of_char c :: nat) \<in> set ([48..<59] @ [65..<91] @ [97..<123] @ [32, 45, 46])"
  unfolding receipt_char_def Let_def set_append set_upt by auto

lemma Encode_receipt:
  assumes "list_all receipt_char s"
  shows "Encode_text s 0 = Ok (to_bytes (garble s))"
proof -
  have r: "runes s = codes s"
    using assms receipt_char_code by (intro runes_ASCII) (auto simp: codes_def list_all_iff)
  have "gsm_encode_rune (of_char c) = [byte_of_char (if c = CHR ''_'' then CHR 0x11 else c)]"
    if "receipt_char c" for c
  proof (cases "c = CHR ''_''")
    case True
    then show ?thesis by (simp add: gsm_encode_rune_def alphabet_underscore byte_of_char_def)
  next
    case False
    with that have "alphabet (of_char c) = Some (word_of_nat (of_char c))"
      using receipt_char_cases by (intro alphabet_receipt) blast
    with False show ?thesis by (simp add: gsm_encode_rune_def byte_of_char_def)
  qed
  then have "concat (map gsm_encode_rune (map of_char s)) = to_bytes (garble s)"
    using assms by (induction s) (simp_all add: to_bytes_def garble_def)
  then show ?thesis by (simp add: Encode_text_def EncodeGSM7Bit_def r codes_def)
qed

text \<open>The short message of the \<open>deliver_sm\<close> that \<open>sender_HandleEvent\<close> sends for a report.\<close>

definition sent_short_message :: "pdu_builder \<Rightarrow> delivery_report \<Rightarrow> byte list result" where
  "sent_short_message b r =
     res_map (\<lambda>bs. case Body (fst (BuildDeliverSM b (r_MessageID r) '''' bs 0)) of
                     DeliverSM ds \<Rightarrow> ds_ShortMessage ds | _ \<Rightarrow> [])
       (Encode_text (r_Text r) 0)"

lemma receipt_char_digits: "list_all is_digit s \<Longrightarrow> list_all receipt_char s"
  by (auto simp: list_all_iff is_digit_def receipt_char_def Let_def)

lemma Format_digits: "list_all is_digit (Format_0601021504 t)"
  by (simp add: Format_0601021504_def two_digits_def Let_def split_beta)

lemma garble_digits: "list_all is_digit s \<Longrightarrow> garble s = s"
  by (rule garble_id) (auto simp: list_all_iff is_digit_def)

lemma receipt_char_status: "list_all receipt_char (mapMessageStatusToReceiptStatus st)"
  "garble (mapMessageStatusToReceiptStatus st) = mapMessageStatusToReceiptStatus st"
  by (cases st; simp add: receipt_char_def garble_def)+

lemma of_char_space: "of_char c = (32 :: nat) \<Longrightarrow> c = CHR '' ''"
proof -
  have "of_char (CHR '' '') = (32 :: nat)" by simp
  then show "of_char c = (32 :: nat) \<Longrightarrow> c = CHR '' ''" by (metis of_char_eq_iff)
qed

lemma plain_garble: "list_all receipt_char s \<Longrightarrow> CHR '' '' \<notin> set s \<Longrightarrow> plain_text (garble s)"
proof (induction s)
  case (Cons c s)
  then have "plain (of_char (if c = CHR ''_'' then CHR 0x11 else c))"
    using of_char_space [of c] by (auto simp: receipt_char_def plain_def IsSpace_def Let_def)
  with Cons show ?case by (simp add: garble_def)
qed (simp add: garble_def)

text \<open>
  The sender writes the text of a report in the GSM alphabet, where the underscore of every
  message ID is the byte 17, and adds no \<open>receipted_message_id\<close>.  A receiver that takes the short
  message as text, as \<open>handleDeliveryReceipt\<close> does, reads another ID than the report is about.
\<close>

theorem sent_receipt_loses_ID:
  assumes "list_all receipt_char (m_ID m)" and "CHR '' '' \<notin> set (m_ID m)" and "CHR ''_'' \<in> set (m_ID m)"
    and "list_all receipt_char (report_text m)" and "GenerateDeliveryReport now m st = Ok r"
    and "list_all (\<lambda>p. \<not> receipt_word p) (Fields (''text:'' @ garble (report_text m)))"
  shows "\<exists>bs p. sent_short_message b r = Ok bs \<and> parseDeliveryReceiptText (of_bytes bs) = Ok p \<and>
    r_MessageID p \<noteq> m_ID m \<and> r_Status p = r_Status r"
proof -
  have rt: "r_Text r = ''id:'' @ m_ID m @ '' sub:001 dlvrd:001 submit date:'' @
      Format_0601021504 (m_SubmitTime m) @ '' done date:'' @ Format_0601021504 now @
      '' stat:'' @ mapMessageStatusToReceiptStatus st @ '' err:000 text:'' @ report_text m"
    using assms(5) by (auto simp only: GenerateDeliveryReport_eq result.inject delivery_report.select_convs)
  have literals: "list_all receipt_char ''id:''" "list_all receipt_char '' sub:001 dlvrd:001 submit date:''"
    "list_all receipt_char '' done date:''" "list_all receipt_char '' stat:''"
    "list_all receipt_char '' err:000 text:''"
    by code_simp+
  have garble_literals: "garble ''id:'' = ''id:''" "garble '' sub:001 dlvrd:001 submit date:'' = '' sub:001 dlvrd:001 submit date:''"
    "garble '' done date:'' = '' done date:''" "garble '' stat:'' = '' stat:''"
    "garble '' err:000 text:'' = '' err:000 text:''"
    by (rule garble_id, simp)+
  have "list_all receipt_char (r_Text r)"
    unfolding rt list_all_append
    using assms(1,4) receipt_char_digits [OF Format_digits] receipt_char_status(1) literals by blast
  then have s: "sent_short_message b r = Ok (to_bytes (garble (r_Text r)))"
    by (simp add: sent_short_message_def Encode_receipt BuildDeliverSM_def split_beta Let_def mk_pdu_def)
  let ?m = "zero_message\<lparr>m_ID := garble (m_ID m), m_SubmitTime := m_SubmitTime m, m_Text := garble (report_text m)\<rparr>"
  have "length (report_text m) \<le> 20" by (simp add: report_text_def)
  then have t: "report_text ?m = garble (report_text m)" by (subst report_text_def) simp
  have "garble (r_Text r) = r_Text (case GenerateDeliveryReport now ?m st of Ok r \<Rightarrow> r)"
    unfolding rt garble_append GenerateDeliveryReport_eq result.case delivery_report.select_convs t
      garble_literals garble_digits [OF Format_digits] receipt_char_status(2) by simp
  then obtain r' where r': "GenerateDeliveryReport now ?m st = Ok r'" "r_Text r' = garble (r_Text r)"
    by (simp add: GenerateDeliveryReport_eq)
  have "plain_text (m_ID ?m)" using plain_garble [OF assms(1,2)] by simp
  from receipt_reads [OF this r'(1)] assms(6) t obtain p where
    p: "parseDeliveryReceiptText (r_Text r') = Ok p" "r_MessageID p = garble (m_ID m)" "r_Status p = r_Status r'"
    by auto
  have "CHR ''_'' \<notin> set (garble (m_ID m))" by (auto simp: garble_def)
  with assms(3) have "garble (m_ID m) \<noteq> m_ID m" by auto
  moreover have "r_Status r' = r_Status r" using r'(1) assms(5) by (auto simp: GenerateDeliveryReport_eq)
  ultimately show ?thesis using s p r'(2) by (auto intro!: exI [of _ "to_bytes (garble (r_Text r))"])
qed

section \<open>Concrete instances\<close>

definition example_heap :: conn_heap where
  "example_heap r = (NewServerConnection 0)\<lparr>sc_session := Some \<lparr>se_ID = ''s'', se_SystemID = '''',
     se_Password = '''', se_SystemType = '''', se_BindType = 0, se_State = SessionStateOpen,
     se_LastActivity = 0, se_SequenceNum = 1\<rparr>\<rparr>"

theorem BroadcastMessage_all_witness:
  "\<exists>r h'. BroadcastMessage (\<lambda>k. \<lparr>no_deadline_ok = True, no_write_ok = True\<rparr>) 0 \<lparr>cm_connections = [''s'' \<mapsto> 0]\<rparr>
      [''s''] (Some (BuildUnbindResp 1)) example_heap = (r, h') \<and>
    h' 0 = snd (conn_Send \<lparr>no_deadline_ok = True, no_write_ok = True\<rparr> 0 (example_heap 0) (BuildUnbindResp 1))"
proof -
  have "manager_inv example_heap \<lparr>cm_connections = [''s'' \<mapsto> 0]\<rparr>"
    by (simp add: manager_inv_def example_heap_def conn_GetSessionID_def)
  moreover have "enumerates (cm_connections \<lparr>cm_connections = [''s'' \<mapsto> 0]\<rparr>) [''s'']"
    by (simp add: enumerates_def)
  ultimately show ?thesis
    using BroadcastMessage_all [of example_heap "\<lparr>cm_connections = [''s'' \<mapsto> 0]\<rparr>" "[''s'']"
        "\<lambda>k. \<lparr>no_deadline_ok = True, no_write_ok = True\<rparr>" 0 "BuildUnbindResp 1"] by auto
qed

theorem sent_receipt_loses_ID_witness:
  "\<exists>r bs p. GenerateDeliveryReport 0 (zero_message\<lparr>m_ID := ''MSG_1'', m_Text := ''hi''\<rparr>) MessageStatusDelivered = Ok r \<and>
    sent_short_message NewPDUBuilder r = Ok bs \<and> parseDeliveryReceiptText (of_bytes bs) = Ok p \<and>
    r_MessageID p \<noteq> ''MSG_1''"
proof -
  let ?m = "zero_message\<lparr>m_ID := ''MSG_1'', m_Text := ''hi''\<rparr>"
  obtain r where r: "GenerateDeliveryReport 0 ?m MessageStatusDelivered = Ok r"
    by (simp add: GenerateDeliveryReport_eq)
  have t: "report_text ?m = ''hi''" by (simp add: report_text_def)
  have c: "list_all receipt_char (m_ID ?m)" "list_all receipt_char (report_text ?m)"
    unfolding t by code_simp+
  have "Fields (''text:'' @ garble (report_text ?m)) = [''text:hi'']"
    using Fields_plain [of "''text:hi''"] by (simp add: t garble_def plain_def IsSpace_def)
  then have "list_all (\<lambda>p. \<not> receipt_word p) (Fields (''text:'' @ garble (report_text ?m)))"
    by (simp add: receipt_word_def HasPrefix_def)
  from sent_receipt_loses_ID [OF c(1) _ _ c(2) r this, of NewPDUBuilder] r show ?thesis by auto
qed

end
