(* ===== verification/EventBus.thy ===== *)
theory EventBus
  imports Messages
begin

text \<open>
  The event bus (\<open>pkg/events/eventbus.go\<close>).  A handler is its ID and its effect on the state of the
  rest of the program, of a type \<open>'s\<close>; an effect may fail or panic.  \<open>EventBus\<close> calls the handlers
  in the publisher's goroutine or starts one goroutine for each; \<open>AsyncEventBus\<close> puts the event into a
  bounded channel, from which a single goroutine publishes.
\<close>

section \<open>EventBus\<close>

record 's event_handler =
  eh_ID :: string
  eh_HandleEvent :: "event \<Rightarrow> 's \<Rightarrow> unit result \<times> 's"

record 's event_bus =
  eb_subscribers :: "event_type \<rightharpoonup> 's event_handler list"
  eb_async :: bool

definition NewEventBus :: "bool \<Rightarrow> 's event_bus" where
  "NewEventBus is_async = \<lparr>eb_subscribers = Map.empty, eb_async = is_async\<rparr>"

text \<open>A key that is missing from a Go map of slices reads as the empty slice.\<close>

definition subscribers :: "'s event_bus \<Rightarrow> event_type \<Rightarrow> 's event_handler list" where
  "subscribers eb ty = (case eb_subscribers eb ty of Some hs \<Rightarrow> hs | None \<Rightarrow> [])"

definition Subscribe ::
    "'s event_bus \<Rightarrow> event_type \<Rightarrow> 's event_handler option \<Rightarrow> unit result \<times> 's event_bus" where
  "Subscribe eb ty handler =
     (case handler of
        None \<Rightarrow> (Err (Errorf ''handler cannot be nil''), eb)
      | Some h \<Rightarrow>
          if list_ex (\<lambda>h'. eh_ID h' = eh_ID h) (subscribers eb ty)
          then (Err (Errorf ''handler already subscribed''), eb)
          else (Ok (), eb\<lparr>eb_subscribers := (eb_subscribers eb)(ty \<mapsto> subscribers eb ty @ [h])\<rparr>))"

text \<open>The loop that removes the first handler with the given ID.\<close>

fun remove_handler :: "string \<Rightarrow> 's event_handler list \<Rightarrow> 's event_handler list option" where
  "remove_handler i [] = None"
| "remove_handler i (h # hs) =
     (if eh_ID h = i then Some hs
      else case remove_handler i hs of Some hs' \<Rightarrow> Some (h # hs') | None \<Rightarrow> None)"

definition Unsubscribe ::
    "'s event_bus \<Rightarrow> event_type \<Rightarrow> 's event_handler option \<Rightarrow> unit result \<times> 's event_bus" where
  "Unsubscribe eb ty handler =
     (case handler of
        None \<Rightarrow> (Err (Errorf ''handler cannot be nil''), eb)
      | Some h \<Rightarrow>
          (case remove_handler (eh_ID h) (subscribers eb ty) of
             Some hs \<Rightarrow> (Ok (), eb\<lparr>eb_subscribers := (eb_subscribers eb)(ty \<mapsto> hs)\<rparr>)
           | None \<Rightarrow> (Err (Errorf ''handler not found''), eb)))"

text \<open>A panic of a handler is recovered, and then counts as success.\<close>

definition handleEventSafely :: "'s event_handler \<Rightarrow> event \<Rightarrow> 's \<Rightarrow> unit result \<times> 's" where
  "handleEventSafely h ev s =
     (case eh_HandleEvent h ev s of (Panic, s') \<Rightarrow> (Ok (), s') | (r, s') \<Rightarrow> (r, s'))"

text \<open>
  The result of \<open>publish\<close>: its error, the new state, and the calls that were left to goroutines.
\<close>

definition eb_publish ::
    "'s event_bus \<Rightarrow> event option \<Rightarrow> 's \<Rightarrow> unit result \<times> 's \<times> ('s event_handler \<times> event) list" where
  "eb_publish eb event s =
     (case event of
        None \<Rightarrow> (Err (Errorf ''event cannot be nil''), s, [])
      | Some ev \<Rightarrow>
          let handlers = subscribers eb (event_GetEventType ev) in
          if length handlers = 0 then (Ok (), s, [])
          else if eb_async eb then (Ok (), s, map (\<lambda>h. (h, ev)) handlers)
          else (Ok (), fold (\<lambda>h s. snd (handleEventSafely h ev s)) handlers s, []))"

definition GetSubscriberCount :: "'s event_bus \<Rightarrow> event_type \<Rightarrow> nat" where
  "GetSubscriberCount eb ty = length (subscribers eb ty)"

definition GetAllSubscriberCounts :: "'s event_bus \<Rightarrow> event_type \<rightharpoonup> nat" where
  "GetAllSubscriberCounts eb ty = map_option length (eb_subscribers eb ty)"

definition eb_Clear :: "'s event_bus \<Rightarrow> 's event_bus" where
  "eb_Clear eb = eb\<lparr>eb_subscribers := Map.empty\<rparr>"

section \<open>AsyncEventBus\<close>

record 's async_bus =
  ab_bus :: "'s event_bus"
  ab_chan :: "event list"
  ab_capacity :: nat
  ab_done :: bool

definition NewAsyncEventBus :: "nat \<Rightarrow> 's async_bus" where
  "NewAsyncEventBus bufferSize =
     \<lparr>ab_bus = NewEventBus False, ab_chan = [], ab_capacity = bufferSize, ab_done = False\<rparr>"

text \<open>
  Sending on the channel that \<open>Close\<close> has closed panics.  With room in the channel and a cancelled
  context, \<open>select\<close> picks one of the two: \<open>pick_send\<close>.
\<close>

definition publishAsync ::
    "'s async_bus \<Rightarrow> bool \<Rightarrow> bool \<Rightarrow> event \<Rightarrow> unit result \<times> 's async_bus" where
  "publishAsync ab ctx_done pick_send ev =
     (if ab_done ab \<and> (\<not> ctx_done \<or> pick_send) then (Panic, ab)
      else if \<not> ab_done ab \<and> length (ab_chan ab) < ab_capacity ab \<and> (\<not> ctx_done \<or> pick_send)
      then (Ok (), ab\<lparr>ab_chan := ab_chan ab @ [ev]\<rparr>)
      else if ctx_done then (Err (Errorf ''context canceled''), ab)
      else (Err (Errorf ''event bus channel full''), ab))"

text \<open>One turn of the goroutine: it takes the first event of the channel, if any, and publishes it.\<close>

definition worker_step :: "'s async_bus \<Rightarrow> 's \<Rightarrow> 's async_bus \<times> 's" where
  "worker_step ab s =
     (case ab_chan ab of
        [] \<Rightarrow> (ab, s)
      | ev # evs \<Rightarrow> if ab_done ab then (ab, s)
                   else (ab\<lparr>ab_chan := evs\<rparr>, fst (snd (eb_publish (ab_bus ab) (Some ev) s))))"

text \<open>
  \<open>Close\<close> waits for the goroutine, which may take \<open>k\<close> more events before it sees the signal; what is
  then left in the channel is lost.  A second \<open>Close\<close> closes a closed channel.
\<close>

fun worker_steps :: "nat \<Rightarrow> 's async_bus \<Rightarrow> 's \<Rightarrow> 's async_bus \<times> 's" where
  "worker_steps 0 ab s = (ab, s)"
| "worker_steps (Suc k) ab s = (let (ab', s') = worker_step ab s in worker_steps k ab' s')"

definition ab_Close :: "nat \<Rightarrow> 's async_bus \<Rightarrow> 's \<Rightarrow> unit result \<times> 's async_bus \<times> 's" where
  "ab_Close k ab s =
     (if ab_done ab then (Panic, ab, s)
      else let (ab', s') = worker_steps k ab s in (Ok (), ab'\<lparr>ab_done := True\<rparr>, s'))"

section \<open>Building events\<close>

definition BuildSMSEvent :: "time \<Rightarrow> event_type \<Rightarrow> string \<Rightarrow> session \<Rightarrow> message \<Rightarrow> sms_event" where
  "BuildSMSEvent now ty messageID session m =
     \<lparr>sv_Type = ty, sv_Timestamp = now, sv_MessageID = messageID, sv_Session = session,
      sv_Message = m, sv_Data = Map.empty\<rparr>"

definition BuildConnectionEvent ::
    "time \<Rightarrow> event_type \<Rightarrow> string \<Rightarrow> session \<Rightarrow> string \<Rightarrow> connection_event" where
  "BuildConnectionEvent now ty sessionID session remoteAddr =
     \<lparr>ce_Type = ty, ce_Timestamp = now, ce_SessionID = sessionID, ce_Session = session,
      ce_RemoteAddr = remoteAddr, ce_Data = Map.empty\<rparr>"

definition BuildDeliveryEvent ::
    "time \<Rightarrow> event_type \<Rightarrow> string \<Rightarrow> delivery_report \<Rightarrow> session option \<Rightarrow> delivery_event" where
  "BuildDeliveryEvent now ty messageID report session =
     \<lparr>de_Type = ty, de_Timestamp = now, de_MessageID = messageID, de_Report = report,
      de_Session = session, de_Data = Map.empty\<rparr>"

section \<open>Subscriptions\<close>

text \<open>No two subscribers of one event type have the same ID.\<close>

definition bus_inv :: "'s event_bus \<Rightarrow> bool" where
  "bus_inv eb \<longleftrightarrow> (\<forall>ty. distinct (map eh_ID (subscribers eb ty)))"

lemma remove_handler_None: "remove_handler i hs = None \<longleftrightarrow> i \<notin> eh_ID ` set hs"
  by (induction hs) (auto split: option.split)

lemma remove_handler_Some:
  "distinct (map eh_ID hs) \<Longrightarrow> remove_handler i hs = Some hs' \<Longrightarrow> hs' = filter (\<lambda>h. eh_ID h \<noteq> i) hs"
proof (induction hs arbitrary: hs')
  case (Cons h hs)
  show ?case
  proof (cases "eh_ID h = i")
    case True
    with Cons.prems(1) have "\<forall>h' \<in> set hs. eh_ID h' \<noteq> i" by (auto simp: image_iff)
    with True Cons.prems show ?thesis by (simp add: filter_True)
  qed (use Cons in \<open>auto split: option.splits\<close>)
qed simp

lemma subscribers_upd [simp]:
  "subscribers (eb\<lparr>eb_subscribers := (eb_subscribers eb)(ty \<mapsto> hs)\<rparr>) ty' =
     (if ty' = ty then hs else subscribers eb ty')"
  by (simp add: subscribers_def)

lemma bus_inv_Subscribe: "bus_inv eb \<Longrightarrow> bus_inv (snd (Subscribe eb ty h))"
  by (auto simp: bus_inv_def Subscribe_def list_ex_iff split: option.split)

lemma bus_inv_Unsubscribe: "bus_inv eb \<Longrightarrow> bus_inv (snd (Unsubscribe eb ty h))"
  by (auto simp: bus_inv_def Unsubscribe_def distinct_map_filter dest!: remove_handler_Some [rotated]
      split: option.split)

inductive bus_reach :: "'s event_bus \<Rightarrow> bool" where
  new: "bus_reach (NewEventBus is_async)"
| subscribe: "bus_reach eb \<Longrightarrow> bus_reach (snd (Subscribe eb ty h))"
| unsubscribe: "bus_reach eb \<Longrightarrow> bus_reach (snd (Unsubscribe eb ty h))"
| clear: "bus_reach eb \<Longrightarrow> bus_reach (eb_Clear eb)"

lemma bus_reach_inv: "bus_reach eb \<Longrightarrow> bus_inv eb"
proof (induction rule: bus_reach.induct)
  case (clear eb)
  show ?case by (simp add: bus_inv_def eb_Clear_def subscribers_def)
qed (simp_all add: bus_inv_Subscribe bus_inv_Unsubscribe,
     simp add: bus_inv_def NewEventBus_def subscribers_def)

text \<open>
  The subscribers of an event type are a set of handler IDs, in the order of subscription:
  \<open>Subscribe\<close> fails exactly on an ID that is there and otherwise appends, \<open>Unsubscribe\<close> fails exactly
  on an ID that is missing and otherwise takes away all handlers of that ID; other types are not
  touched.
\<close>

theorem subscriptions_exact:
  assumes "bus_reach eb"
  shows "distinct (map eh_ID (subscribers eb ty)) \<and>
    (case Subscribe eb ty (Some h) of (r, eb') \<Rightarrow>
       (r = Ok () \<longleftrightarrow> eh_ID h \<notin> eh_ID ` set (subscribers eb ty)) \<and>
       (\<forall>t. subscribers eb' t = (if t = ty \<and> r = Ok () then subscribers eb t @ [h] else subscribers eb t))) \<and>
    (case Unsubscribe eb ty (Some h) of (r, eb') \<Rightarrow>
       (r = Ok () \<longleftrightarrow> eh_ID h \<in> eh_ID ` set (subscribers eb ty)) \<and>
       (\<forall>t. subscribers eb' t =
          (if t = ty then filter (\<lambda>h'. eh_ID h' \<noteq> eh_ID h) (subscribers eb t) else subscribers eb t)))"
proof -
  have d: "distinct (map eh_ID (subscribers eb ty))"
    using bus_reach_inv [OF assms] by (simp add: bus_inv_def)
  have s: "case Subscribe eb ty (Some h) of (r, eb') \<Rightarrow>
       (r = Ok () \<longleftrightarrow> eh_ID h \<notin> eh_ID ` set (subscribers eb ty)) \<and>
       (\<forall>t. subscribers eb' t = (if t = ty \<and> r = Ok () then subscribers eb t @ [h] else subscribers eb t))"
    by (auto simp: Subscribe_def list_ex_iff image_iff eq_commute)
  have u: "case Unsubscribe eb ty (Some h) of (r, eb') \<Rightarrow>
       (r = Ok () \<longleftrightarrow> eh_ID h \<in> eh_ID ` set (subscribers eb ty)) \<and>
       (\<forall>t. subscribers eb' t =
          (if t = ty then filter (\<lambda>h'. eh_ID h' \<noteq> eh_ID h) (subscribers eb t) else subscribers eb t))"
  proof (cases "remove_handler (eh_ID h) (subscribers eb ty)")
    case None
    then have n: "eh_ID h \<notin> eh_ID ` set (subscribers eb ty)" by (simp add: remove_handler_None)
    then have "filter (\<lambda>h'. eh_ID h' \<noteq> eh_ID h) (subscribers eb ty) = subscribers eb ty"
      by (intro filter_True ballI) (metis image_eqI)
    with None n show ?thesis by (simp add: Unsubscribe_def)
  next
    case (Some hs)
    then have "eh_ID h \<in> eh_ID ` set (subscribers eb ty)"
      using remove_handler_None [of "eh_ID h" "subscribers eb ty"] by auto
    with Some remove_handler_Some [OF d Some] show ?thesis by (simp add: Unsubscribe_def)
  qed
  from d s u show ?thesis by simp
qed

section \<open>Delivery\<close>

text \<open>
  A handler that keeps a log of the events it was called with, and then fails or panics as it likes.
\<close>

definition logs :: "('s \<Rightarrow> (string \<times> event) list) \<Rightarrow> 's event_handler \<Rightarrow> bool" where
  "logs log h \<longleftrightarrow> (\<forall>ev s. log (snd (eh_HandleEvent h ev s)) = log s @ [(eh_ID h, ev)])"

lemma handleEventSafely_state: "snd (handleEventSafely h ev s) = snd (eh_HandleEvent h ev s)"
  by (simp add: handleEventSafely_def split: prod.split result.split)

lemma fold_logs:
  "list_all (logs log) hs \<Longrightarrow>
   log (fold (\<lambda>h s. snd (handleEventSafely h ev s)) hs s) = log s @ map (\<lambda>h. (eh_ID h, ev)) hs"
  by (induction hs arbitrary: s) (simp_all add: logs_def handleEventSafely_state)

lemma publish_logs:
  assumes "list_all (logs log) (subscribers eb (event_GetEventType ev))" and "\<not> eb_async eb"
  shows "log (fst (snd (eb_publish eb (Some ev) s))) =
    log s @ map (\<lambda>h. (eh_ID h, ev)) (subscribers eb (event_GetEventType ev))"
  using fold_logs [OF assms(1), of ev s] assms(2) by (simp add: eb_publish_def Let_def)

text \<open>
  A bus that is not asynchronous calls each subscriber of the event's type exactly once, in the
  order of subscription, whether or not the others fail or panic, and always reports success.
\<close>

theorem publish_exactly_once:
  assumes "list_all (logs log) (subscribers eb (event_GetEventType ev))" and "\<not> eb_async eb"
  shows "\<exists>s'. eb_publish eb (Some ev) s = (Ok (), s', []) \<and>
    log s' = log s @ map (\<lambda>h. (eh_ID h, ev)) (subscribers eb (event_GetEventType ev))"
  using publish_logs [OF assms, of s] assms(2) by (auto simp: eb_publish_def Let_def)

text \<open>
  The runs of an asynchronous bus: publishers, the goroutine, in any order, with the events that were
  accepted so far.
\<close>

inductive async_run :: "'s async_bus \<Rightarrow> 's \<Rightarrow> event list \<Rightarrow> 's async_bus \<Rightarrow> 's \<Rightarrow> bool" for ab0 s0 where
  start: "async_run ab0 s0 [] ab0 s0"
| accept: "async_run ab0 s0 evs ab s \<Longrightarrow> publishAsync ab c b ev = (Ok (), ab') \<Longrightarrow>
    async_run ab0 s0 (evs @ [ev]) ab' s"
| refuse: "async_run ab0 s0 evs ab s \<Longrightarrow> publishAsync ab c b ev = (Err e, ab') \<Longrightarrow> async_run ab0 s0 evs ab' s"
| work: "async_run ab0 s0 evs ab s \<Longrightarrow> worker_step ab s = (ab', s') \<Longrightarrow> async_run ab0 s0 evs ab' s'"

definition calls_for :: "'s event_bus \<Rightarrow> event list \<Rightarrow> (string \<times> event) list" where
  "calls_for eb evs = concat (map (\<lambda>ev. map (\<lambda>h. (eh_ID h, ev)) (subscribers eb (event_GetEventType ev))) evs)"

lemma calls_for_append: "calls_for eb (xs @ ys) = calls_for eb xs @ calls_for eb ys"
  by (simp add: calls_for_def)

lemma async_run_inv:
  assumes "\<forall>ty. list_all (logs log) (subscribers (ab_bus ab0) ty)" and "\<not> eb_async (ab_bus ab0)"
    and "length (ab_chan ab0) \<le> ab_capacity ab0"
  shows "async_run ab0 s0 evs ab s \<Longrightarrow> ab_bus ab = ab_bus ab0 \<and> ab_capacity ab = ab_capacity ab0 \<and>
    length (ab_chan ab) \<le> ab_capacity ab \<and>
    (\<exists>done. ab_chan ab0 @ evs = done @ ab_chan ab \<and> log s = log s0 @ calls_for (ab_bus ab0) done)"
proof (induction rule: async_run.induct)
  case start
  show ?case using assms(3) by (simp add: calls_for_def)
next
  case (accept evs ab s c b ev ab')
  then show ?case by (fastforce simp: publishAsync_def split: if_splits)
next
  case (refuse evs ab s c b ev e ab')
  then show ?case by (auto simp: publishAsync_def split: if_splits)
next
  case (work evs ab s ab' s')
  show ?case
  proof (cases "ab_chan ab")
    case (Cons ev rest)
    show ?thesis
    proof (cases "ab_done ab")
      case False
      then have w: "ab' = ab\<lparr>ab_chan := rest\<rparr>" "s' = fst (snd (eb_publish (ab_bus ab) (Some ev) s))"
        using work.hyps(2) Cons by (simp_all add: worker_step_def)
      obtain dn where d: "ab_chan ab0 @ evs = dn @ ab_chan ab" "log s = log s0 @ calls_for (ab_bus ab0) dn"
        using work.IH by blast
      have "log s' = log s @ calls_for (ab_bus ab0) [ev]"
        using publish_logs [of log "ab_bus ab0" ev s] assms(1,2) work.IH w(2) by (simp add: calls_for_def)
      with d have "log s' = log s0 @ calls_for (ab_bus ab0) (dn @ [ev])" by (simp add: calls_for_append)
      with d work.IH w Cons show ?thesis
        by (auto intro!: exI [of _ "dn @ [ev]"])
    qed (use work Cons in \<open>auto simp: worker_step_def\<close>)
  qed (use work in \<open>auto simp: worker_step_def\<close>)
qed

text \<open>
  C35. The asynchronous bus handles the accepted events in the order in which they were accepted, each
  once, and never holds more than its capacity: at any time the handlers have been called for a
  prefix of them, and the channel holds the rest.
\<close>

theorem async_bus_fifo:
  assumes "async_run (NewAsyncEventBus n\<lparr>ab_bus := eb\<rparr>) s0 evs ab s" and "\<not> eb_async eb"
    and "\<forall>ty. list_all (logs log) (subscribers eb ty)"
  shows "length (ab_chan ab) \<le> n \<and>
    (\<exists>handled. evs = handled @ ab_chan ab \<and> log s = log s0 @ calls_for eb handled)"
  using async_run_inv [of log "NewAsyncEventBus n\<lparr>ab_bus := eb\<rparr>", OF _ _ _ assms(1)] assms(2,3)
  by (auto simp: NewAsyncEventBus_def)

lemma worker_steps_logs:
  "\<forall>ty. list_all (logs log) (subscribers (ab_bus ab) ty) \<Longrightarrow> \<not> eb_async (ab_bus ab) \<Longrightarrow> \<not> ab_done ab \<Longrightarrow>
   k \<le> length (ab_chan ab) \<Longrightarrow> worker_steps k ab s = (ab', s') \<Longrightarrow>
   ab_bus ab' = ab_bus ab \<and> ab_chan ab' = drop k (ab_chan ab) \<and>
   log s' = log s @ calls_for (ab_bus ab) (take k (ab_chan ab))"
proof (induction k arbitrary: ab s)
  case 0
  then show ?case by (simp add: calls_for_def)
next
  case (Suc k)
  then obtain ev evs where c: "ab_chan ab = ev # evs" by (cases "ab_chan ab") auto
  define s1 where "s1 = fst (snd (eb_publish (ab_bus ab) (Some ev) s))"
  have "log s1 = log s @ calls_for (ab_bus ab) [ev]"
    unfolding s1_def using publish_logs [of log "ab_bus ab" ev s] Suc.prems(1,2) by (simp add: calls_for_def)
  moreover have "worker_steps k (ab\<lparr>ab_chan := evs\<rparr>) s1 = (ab', s')"
    using Suc.prems(3,5) c by (simp add: worker_step_def s1_def)
  moreover have "calls_for (ab_bus ab) (take (Suc k) (ab_chan ab)) =
      calls_for (ab_bus ab) [ev] @ calls_for (ab_bus ab) (take k evs)"
    by (simp add: c calls_for_def)
  ultimately show ?case
    using Suc.IH [of "ab\<lparr>ab_chan := evs\<rparr>" s1] Suc.prems(1-4) c by simp
qed

text \<open>
  C16. An event that the asynchronous bus has accepted is handled in the end: as many turns of its
  goroutine as there are events in the channel empty the channel, and every handler has been called
  for each of them.  \<open>Close\<close> gives no such promise: what is left in the channel when the goroutine
  sees the signal is lost.
\<close>

theorem async_bus_drains:
  assumes "\<forall>ty. list_all (logs log) (subscribers (ab_bus ab) ty)" and "\<not> eb_async (ab_bus ab)"
    and "\<not> ab_done ab"
  shows "(\<exists>ab' s'. worker_steps (length (ab_chan ab)) ab s = (ab', s') \<and> ab_chan ab' = [] \<and>
      log s' = log s @ calls_for (ab_bus ab) (ab_chan ab)) \<and>
    (\<forall>k \<le> length (ab_chan ab). \<exists>ab' s'. ab_Close k ab s = (Ok (), ab', s') \<and>
      log s' = log s @ calls_for (ab_bus ab) (take k (ab_chan ab)))"
proof -
  have "\<exists>ab' s'. worker_steps k ab s = (ab', s') \<and> ab_chan ab' = drop k (ab_chan ab) \<and>
      log s' = log s @ calls_for (ab_bus ab) (take k (ab_chan ab))" if "k \<le> length (ab_chan ab)" for k
    using worker_steps_logs [OF assms that] by (metis surj_pair)
  from this [OF order_refl] this show ?thesis
    using assms(3) by (fastforce simp: ab_Close_def)
qed

section \<open>Concrete instances\<close>

definition example_logger :: "(string \<times> event) list event_handler" where
  "example_logger = \<lparr>eh_ID = ''a'', eh_HandleEvent = (\<lambda>ev log. (Panic, log @ [(''a'', ev)]))\<rparr>"

definition example_event :: event where
  "example_event = SMSEvent \<lparr>sv_Type = EventTypeSMSSubmitted, sv_Timestamp = 0, sv_MessageID = ''m'',
     sv_Session = \<lparr>se_ID = ''s'', se_SystemID = '''', se_Password = '''', se_SystemType = '''',
       se_BindType = 0, se_State = SessionStateOpen, se_LastActivity = 0, se_SequenceNum = 1\<rparr>,
     sv_Message = zero_message, sv_Data = Map.empty\<rparr>"

abbreviation example_bus :: "(string \<times> event) list event_bus" where
  "example_bus \<equiv> snd (Subscribe (NewEventBus False) EventTypeSMSSubmitted (Some example_logger))"

lemma example_bus_logs: "list_all (logs (\<lambda>s. s)) (subscribers example_bus ty)" "\<not> eb_async example_bus"
  by (simp_all add: Subscribe_def NewEventBus_def subscribers_def logs_def example_logger_def)

theorem subscriptions_exact_witness:
  "distinct (map eh_ID (subscribers example_bus EventTypeSMSSubmitted)) \<and>
   fst (Subscribe example_bus EventTypeSMSSubmitted (Some example_logger)) \<noteq> Ok ()"
proof -
  have "bus_reach example_bus" by (rule bus_reach.subscribe [OF bus_reach.new])
  from subscriptions_exact [OF this, of EventTypeSMSSubmitted example_logger] show ?thesis
    by (auto simp: split_beta) (simp_all add: Subscribe_def NewEventBus_def subscribers_def)
qed

theorem publish_exactly_once_witness:
  "\<exists>s'. eb_publish example_bus (Some example_event) [] = (Ok (), s', []) \<and> s' = [(''a'', example_event)]"
  using publish_exactly_once [OF example_bus_logs(1) example_bus_logs(2), of example_event "[]"]
  by (auto simp: Subscribe_def NewEventBus_def subscribers_def example_logger_def example_event_def)

theorem async_bus_fifo_witness:
  "\<exists>ab. async_run (NewAsyncEventBus 1\<lparr>ab_bus := example_bus\<rparr>) [] [example_event] ab [] \<and> length (ab_chan ab) \<le> 1"
proof -
  let ?ab = "NewAsyncEventBus 1\<lparr>ab_bus := example_bus\<rparr>"
  have "publishAsync ?ab False True example_event = (Ok (), ?ab\<lparr>ab_chan := [example_event]\<rparr>)"
    by (simp add: publishAsync_def NewAsyncEventBus_def)
  from async_run.accept [OF async_run.start this]
  have r: "async_run ?ab [] [example_event] (?ab\<lparr>ab_chan := [example_event]\<rparr>) []" by simp
  with async_bus_fifo [OF r example_bus_logs(2), of "\<lambda>s. s"] example_bus_logs(1) show ?thesis by blast
qed

theorem async_bus_drains_witness:
  "\<exists>ab' s'. worker_steps 1 (NewAsyncEventBus 1\<lparr>ab_bus := example_bus, ab_chan := [example_event]\<rparr>) [] = (ab', s') \<and>
     ab_chan ab' = []"
  using async_bus_drains [of "\<lambda>s. s" "NewAsyncEventBus 1\<lparr>ab_bus := example_bus, ab_chan := [example_event]\<rparr>" "[]"]
    example_bus_logs
  by (auto simp: NewAsyncEventBus_def)

end
