(* ===== verification/Server.thy ===== *)
theory Server
  imports MessageFlow Connections
begin

text \<open>
  The server (\<open>pkg/smpp/server.go\<close>): the handlers of the PDUs a client sends, the dispatch with its
  type assertions and its recovery from panics, the loop that serves one connection, and the clean-up
  of idle connections.

  The user store and the message handler are the interfaces \<open>UserAuth\<close> and \<open>MessageHandler\<close> of the
  server, on states of their own.  The session is the object that the handlers change; the
  connection holds the same one.  Logging, metrics and the listening socket are left out.
\<close>

section \<open>Dependencies and state\<close>

record 'u user_auth_ops =
  ua_Authenticate :: "'u \<Rightarrow> time \<Rightarrow> string \<Rightarrow> string \<Rightarrow> user result \<times> 'u"

record 'h message_handler_ops =
  mo_HandleSubmitSM :: "'h \<Rightarrow> session \<Rightarrow> submit_sm \<Rightarrow> submit_sm_resp reply \<times> 'h"
  mo_HandleQuerySM :: "'h \<Rightarrow> session \<Rightarrow> query_sm \<Rightarrow> query_sm_resp reply \<times> 'h"
  mo_HandleReplaceSM :: "'h \<Rightarrow> session \<Rightarrow> replace_sm \<Rightarrow> empty_pdu reply \<times> 'h"
  mo_HandleCancelSM :: "'h \<Rightarrow> session \<Rightarrow> cancel_sm \<Rightarrow> empty_pdu reply \<times> 'h"
  mo_HandleSubmitMulti :: "'h \<Rightarrow> session \<Rightarrow> submit_multi \<Rightarrow> submit_multi_resp reply \<times> 'h"
  mo_HandleDataSM :: "'h \<Rightarrow> session \<Rightarrow> data_sm \<Rightarrow> data_sm_resp reply \<times> 'h"

record ('u, 'h) server =
  srv_userAuth :: "'u user_auth_ops"
  srv_messageHandler :: "'h message_handler_ops"
  srv_eventPublisher :: bool
  srv_clock :: "nat \<Rightarrow> time"
  srv_MaxConnections :: int
  srv_IdleTimeout :: int

record ('u, 'h) server_world =
  sw_users :: 'u
  sw_handler :: 'h
  sw_manager :: connection_manager
  sw_events :: "connection_event list"
  sw_ticks :: nat

definition srv_Now :: "('u, 'h) server \<Rightarrow> ('u, 'h) server_world \<Rightarrow> time \<times> ('u, 'h) server_world" where
  "srv_Now srv w = (srv_clock srv (sw_ticks w), w\<lparr>sw_ticks := sw_ticks w + 1\<rparr>)"

definition publish_connection ::
    "('u, 'h) server \<Rightarrow> ('u, 'h) server_world \<Rightarrow> event_type \<Rightarrow> session \<Rightarrow> string \<Rightarrow>
     (string \<rightharpoonup> string) \<Rightarrow> ('u, 'h) server_world" where
  "publish_connection srv w ty session remoteAddr data =
     (if srv_eventPublisher srv then
        let (now, w1) = srv_Now srv w in
        w1\<lparr>sw_events := sw_events w1 @
             [\<lparr>ce_Type = ty, ce_Timestamp = now, ce_SessionID = se_ID session, ce_Session = session,
               ce_RemoteAddr = remoteAddr, ce_Data = data\<rparr>]\<rparr>
      else w)"

section \<open>Binding\<close>

definition bound_session :: "session \<Rightarrow> bind_request \<Rightarrow> u32 \<Rightarrow> session_state \<Rightarrow> session" where
  "bound_session session req bindType state =
     session\<lparr>se_SystemID := br_SystemID req, se_Password := br_Password req,
       se_SystemType := br_SystemType req, se_BindType := bindType, se_State := state\<rparr>"

definition authenticate ::
    "('u, 'h) server \<Rightarrow> ('u, 'h) server_world \<Rightarrow> bind_request \<Rightarrow> user result \<times> ('u, 'h) server_world" where
  "authenticate srv w req =
     (let (now, w1) = srv_Now srv w;
          (r, u) = ua_Authenticate (srv_userAuth srv) (sw_users w1) now (br_SystemID req) (br_Password req)
      in (r, w1\<lparr>sw_users := u\<rparr>))"

definition handleBindTransceiver ::
    "('u, 'h) server \<Rightarrow> ('u, 'h) server_world \<Rightarrow> session \<Rightarrow> bind_request \<Rightarrow> u32 \<Rightarrow>
     pdu option reply \<times> session \<times> ('u, 'h) server_world" where
  "handleBindTransceiver srv w session req sequenceNum =
     (case authenticate srv w req of
        (Err e, w1) \<Rightarrow>
          (Reply (Some (BuildBindTransceiverResp '''' sequenceNum StatusInvPaswd)) None, session, w1)
      | (Panic, w1) \<Rightarrow> (Panicked, session, w1)
      | (Ok usr, w1) \<Rightarrow>
          let session' = bound_session session req CommandBindTransceiver SessionStateBoundTRX;
              w2 = publish_connection srv w1 EventTypeBound session' ''''
                     [''bind_type'' \<mapsto> ''transceiver'']
          in (Reply (Some (BuildBindTransceiverResp (br_SystemID req) sequenceNum StatusOK)) None,
              session', w2))"

definition handleBindReceiver ::
    "('u, 'h) server \<Rightarrow> ('u, 'h) server_world \<Rightarrow> session \<Rightarrow> bind_request \<Rightarrow> u32 \<Rightarrow>
     pdu option reply \<times> session \<times> ('u, 'h) server_world" where
  "handleBindReceiver srv w session req sequenceNum =
     (case authenticate srv w req of
        (Err e, w1) \<Rightarrow>
          (Reply (Some (BuildBindReceiverResp '''' sequenceNum StatusInvPaswd)) None, session, w1)
      | (Panic, w1) \<Rightarrow> (Panicked, session, w1)
      | (Ok usr, w1) \<Rightarrow>
          (Reply (Some (BuildBindReceiverResp (br_SystemID req) sequenceNum StatusOK)) None,
           bound_session session req CommandBindReceiver SessionStateBoundRX, w1))"

definition handleBindTransmitter ::
    "('u, 'h) server \<Rightarrow> ('u, 'h) server_world \<Rightarrow> session \<Rightarrow> bind_request \<Rightarrow> u32 \<Rightarrow>
     pdu option reply \<times> session \<times> ('u, 'h) server_world" where
  "handleBindTransmitter srv w session req sequenceNum =
     (case authenticate srv w req of
        (Err e, w1) \<Rightarrow>
          (Reply (Some (BuildBindTransmitterResp '''' sequenceNum StatusInvPaswd)) None, session, w1)
      | (Panic, w1) \<Rightarrow> (Panicked, session, w1)
      | (Ok usr, w1) \<Rightarrow>
          (Reply (Some (BuildBindTransmitterResp (br_SystemID req) sequenceNum StatusOK)) None,
           bound_session session req CommandBindTransmitter SessionStateBoundTX, w1))"

section \<open>Requests of a bound session\<close>

text \<open>
  What all these handlers do with the result of the message handler: an error becomes the response
  \<open>failed\<close>, a body goes into a response with status \<open>StatusOK\<close>.
\<close>

definition handler_response :: "u32 \<Rightarrow> u32 \<Rightarrow> ('b \<Rightarrow> pdu_body) \<Rightarrow> pdu \<Rightarrow> 'b reply \<Rightarrow> pdu option reply" where
  "handler_response cid sequenceNum body failed r =
     (case r of
        Reply response None \<Rightarrow> Reply (Some (mk_pdu cid StatusOK sequenceNum (body response))) None
      | Reply response (Some e) \<Rightarrow> Reply (Some failed) None
      | Panicked \<Rightarrow> Panicked)"

definition srv_handleSubmitSM ::
    "('u, 'h) server \<Rightarrow> ('u, 'h) server_world \<Rightarrow> session \<Rightarrow> submit_sm \<Rightarrow> u32 \<Rightarrow>
     pdu option reply \<times> ('u, 'h) server_world" where
  "srv_handleSubmitSM srv w session req sequenceNum =
     (if se_State session \<noteq> SessionStateBoundTX \<and> se_State session \<noteq> SessionStateBoundTRX
      then (Reply (Some (BuildSubmitSMResp '''' sequenceNum StatusInvBnd)) None, w)
      else let (r, h) = mo_HandleSubmitSM (srv_messageHandler srv) (sw_handler w) session req in
        (handler_response CommandSubmitSMResp sequenceNum SubmitSMResp
           (BuildSubmitSMResp '''' sequenceNum StatusSysErr) r, w\<lparr>sw_handler := h\<rparr>))"

definition srv_handleQuerySM ::
    "('u, 'h) server \<Rightarrow> ('u, 'h) server_world \<Rightarrow> session \<Rightarrow> query_sm \<Rightarrow> u32 \<Rightarrow>
     pdu option reply \<times> ('u, 'h) server_world" where
  "srv_handleQuerySM srv w session req sequenceNum =
     (if se_State session \<noteq> SessionStateBoundRX \<and> se_State session \<noteq> SessionStateBoundTRX
      then (Reply (Some (BuildQuerySMResp (qs_MessageID req) '''' 0 0 sequenceNum StatusInvBnd)) None, w)
      else let (r, h) = mo_HandleQuerySM (srv_messageHandler srv) (sw_handler w) session req in
        (handler_response CommandQuerySMResp sequenceNum QuerySMResp
           (BuildQuerySMResp (qs_MessageID req) '''' 0 0 sequenceNum StatusSysErr) r,
         w\<lparr>sw_handler := h\<rparr>))"

definition srv_handleReplaceSM ::
    "('u, 'h) server \<Rightarrow> ('u, 'h) server_world \<Rightarrow> session \<Rightarrow> replace_sm \<Rightarrow> u32 \<Rightarrow>
     pdu option reply \<times> ('u, 'h) server_world" where
  "srv_handleReplaceSM srv w session req sequenceNum =
     (if se_State session \<noteq> SessionStateBoundTX \<and> se_State session \<noteq> SessionStateBoundTRX
      then (Reply (Some (BuildReplaceSMResp sequenceNum StatusInvBnd)) None, w)
      else let (r, h) = mo_HandleReplaceSM (srv_messageHandler srv) (sw_handler w) session req in
        (handler_response CommandReplaceSMResp sequenceNum EmptyBody
           (BuildReplaceSMResp sequenceNum StatusSysErr) r, w\<lparr>sw_handler := h\<rparr>))"

definition srv_handleCancelSM ::
    "('u, 'h) server \<Rightarrow> ('u, 'h) server_world \<Rightarrow> session \<Rightarrow> cancel_sm \<Rightarrow> u32 \<Rightarrow>
     pdu option reply \<times> ('u, 'h) server_world" where
  "srv_handleCancelSM srv w session req sequenceNum =
     (if se_State session \<noteq> SessionStateBoundTX \<and> se_State session \<noteq> SessionStateBoundTRX
      then (Reply (Some (BuildCancelSMResp sequenceNum StatusInvBnd)) None, w)
      else let (r, h) = mo_HandleCancelSM (srv_messageHandler srv) (sw_handler w) session req in
        (handler_response CommandCancelSMResp sequenceNum EmptyBody
           (BuildCancelSMResp sequenceNum StatusSysErr) r, w\<lparr>sw_handler := h\<rparr>))"

definition srv_handleSubmitMulti ::
    "('u, 'h) server \<Rightarrow> ('u, 'h) server_world \<Rightarrow> session \<Rightarrow> submit_multi \<Rightarrow> u32 \<Rightarrow>
     pdu option reply \<times> ('u, 'h) server_world" where
  "srv_handleSubmitMulti srv w session req sequenceNum =
     (if se_State session \<noteq> SessionStateBoundTX \<and> se_State session \<noteq> SessionStateBoundTRX
      then (Reply (Some (BuildSubmitMultiResp '''' [] sequenceNum StatusInvBnd)) None, w)
      else let (r, h) = mo_HandleSubmitMulti (srv_messageHandler srv) (sw_handler w) session req in
        (handler_response CommandSubmitMultiResp sequenceNum SubmitMultiResp
           (BuildSubmitMultiResp '''' [] sequenceNum StatusSysErr) r, w\<lparr>sw_handler := h\<rparr>))"

definition srv_handleDataSM ::
    "('u, 'h) server \<Rightarrow> ('u, 'h) server_world \<Rightarrow> session \<Rightarrow> data_sm \<Rightarrow> u32 \<Rightarrow>
     pdu option reply \<times> ('u, 'h) server_world" where
  "srv_handleDataSM srv w session req sequenceNum =
     (if se_State session \<noteq> SessionStateBoundTX \<and> se_State session \<noteq> SessionStateBoundTRX
      then (Reply (Some (BuildDataSMResp '''' sequenceNum StatusInvBnd)) None, w)
      else let (r, h) = mo_HandleDataSM (srv_messageHandler srv) (sw_handler w) session req in
        (handler_response CommandDataSMResp sequenceNum DataSMResp
           (BuildDataSMResp '''' sequenceNum StatusSysErr) r, w\<lparr>sw_handler := h\<rparr>))"

definition handleDeliverSMResp :: "session \<Rightarrow> deliver_sm_resp \<Rightarrow> pdu option reply" where
  "handleDeliverSMResp session req = Reply None None"

definition handleEnquireLink :: "session \<Rightarrow> u32 \<Rightarrow> pdu option reply" where
  "handleEnquireLink session sequenceNum = Reply (Some (BuildEnquireLinkResp sequenceNum)) None"

definition handleUnbind ::
    "('u, 'h) server \<Rightarrow> ('u, 'h) server_world \<Rightarrow> session \<Rightarrow> u32 \<Rightarrow>
     pdu option reply \<times> session \<times> ('u, 'h) server_world" where
  "handleUnbind srv w session sequenceNum =
     (let session' = session\<lparr>se_State := SessionStateUnbound\<rparr>;
          w1 = publish_connection srv w EventTypeUnbound session' '''' Map.empty
      in (Reply (Some (BuildUnbindResp sequenceNum)) None, session', w1))"

section \<open>Dispatch\<close>

text \<open>
  A type assertion such as \<open>pdu.Body.(*BindRequest)\<close> panics on a body of another type.  A panic, here
  or in a handler, is recovered; \<open>handlePDU\<close> then returns the zero values of its results, no response
  and no error.  What the handler had changed until then stays.
\<close>

definition dispatch ::
    "('u, 'h) server \<Rightarrow> ('u, 'h) server_world \<Rightarrow> session \<Rightarrow> u32 \<Rightarrow> pdu_body \<Rightarrow> u32 \<Rightarrow>
     pdu option reply \<times> session \<times> ('u, 'h) server_world" where
  "dispatch srv w session cid body seq =
     (if cid = CommandBindReceiver then
        (case body of BindRequest b \<Rightarrow> handleBindReceiver srv w session b seq | _ \<Rightarrow> (Panicked, session, w))
      else if cid = CommandBindTransmitter then
        (case body of BindRequest b \<Rightarrow> handleBindTransmitter srv w session b seq | _ \<Rightarrow> (Panicked, session, w))
      else if cid = CommandBindTransceiver then
        (case body of BindRequest b \<Rightarrow> handleBindTransceiver srv w session b seq | _ \<Rightarrow> (Panicked, session, w))
      else if cid = CommandSubmitSM then
        (case body of SubmitSM b \<Rightarrow> (let (r, w') = srv_handleSubmitSM srv w session b seq in (r, session, w'))
         | _ \<Rightarrow> (Panicked, session, w))
      else if cid = CommandQuerySM then
        (case body of QuerySM b \<Rightarrow> (let (r, w') = srv_handleQuerySM srv w session b seq in (r, session, w'))
         | _ \<Rightarrow> (Panicked, session, w))
      else if cid = CommandReplaceSM then
        (case body of ReplaceSM b \<Rightarrow> (let (r, w') = srv_handleReplaceSM srv w session b seq in (r, session, w'))
         | _ \<Rightarrow> (Panicked, session, w))
      else if cid = CommandCancelSM then
        (case body of CancelSM b \<Rightarrow> (let (r, w') = srv_handleCancelSM srv w session b seq in (r, session, w'))
         | _ \<Rightarrow> (Panicked, session, w))
      else if cid = CommandSubmitMulti then
        (case body of SubmitMulti b \<Rightarrow>
           (let (r, w') = srv_handleSubmitMulti srv w session b seq in (r, session, w'))
         | _ \<Rightarrow> (Panicked, session, w))
      else if cid = CommandDataSM then
        (case body of DataSM b \<Rightarrow> (let (r, w') = srv_handleDataSM srv w session b seq in (r, session, w'))
         | _ \<Rightarrow> (Panicked, session, w))
      else if cid = CommandDeliverSMResp then
        (case body of DeliverSMResp b \<Rightarrow> (handleDeliverSMResp session b, session, w)
         | _ \<Rightarrow> (Panicked, session, w))
      else if cid = CommandEnquireLink then
        (if body = EmptyBody EnquireLink then (handleEnquireLink session seq, session, w)
         else (Panicked, session, w))
      else if cid = CommandUnbind then
        (if body = EmptyBody Unbind then handleUnbind srv w session seq else (Panicked, session, w))
      else (Reply None (Some (Errorf ''unsupported command ID'')), session, w))"

definition handlePDU ::
    "('u, 'h) server \<Rightarrow> ('u, 'h) server_world \<Rightarrow> session \<Rightarrow> pdu \<Rightarrow>
     pdu option \<times> error option \<times> session \<times> ('u, 'h) server_world" where
  "handlePDU srv w session p =
     (let originalSeqNum = h_SequenceNum (Header p);
          session1 = session\<lparr>se_SequenceNum := h_SequenceNum (Header p) + 1\<rparr>;
          (r, session2, w2) = dispatch srv w session1 (h_CommandID (Header p)) (Body p) originalSeqNum
      in case r of
           Reply response err \<Rightarrow> (response, err, session2, w2)
         | Panicked \<Rightarrow> (None, None, session2, w2))"

section \<open>Serving a connection\<close>

text \<open>
  One turn of the loop after a PDU has been read: handle it and send the response, or a generic_nack
  when the handler failed.  The first component is \<open>Some\<close> of the error, if any, when the loop
  returns.
\<close>

definition connection_turn ::
    "('u, 'h) server \<Rightarrow> net_outcome \<Rightarrow> session \<Rightarrow> server_connection \<Rightarrow> ('u, 'h) server_world \<Rightarrow> pdu \<Rightarrow>
     error option option \<times> session \<times> server_connection \<times> ('u, 'h) server_world" where
  "connection_turn srv net session conn w p =
     (let (now1, w1) = srv_Now srv w;
          conn1 = conn_UpdateLastActivity now1 conn;
          (now2, w2) = srv_Now srv w1;
          session1 = session\<lparr>se_LastActivity := now2\<rparr>;
          (response, err, session2, w3) = handlePDU srv w2 session1 p;
          conn2 = conn_SetSession conn1 session2;
          (now3, w4) = srv_Now srv w3
      in case err of
           Some e \<Rightarrow>
             (case conn_Send net now3 conn2 (BuildGenericNack (h_SequenceNum (Header p)) StatusSysErr) of
                (Ok _, conn3) \<Rightarrow> (None, session2, conn3, w4)
              | (Err e', conn3) \<Rightarrow>
                  (Some (Some (Wrap ''failed to send error response'' e')), session2, conn3, w4)
              | (Panic, conn3) \<Rightarrow> (Some None, session2, conn3, w4))
         | None \<Rightarrow>
             let close = (if se_State session2 = SessionStateUnbound \<or> se_State session2 = SessionStateClosed
                          then Some None else None)
             in case response of
                  None \<Rightarrow> (close, session2, conn2, w3)
                | Some resp \<Rightarrow>
                    (case conn_Send net now3 conn2 resp of
                       (Ok _, conn3) \<Rightarrow> (close, session2, conn3, w4)
                     | (Err e', conn3) \<Rightarrow>
                         (Some (Some (Wrap ''failed to send response'' e')), session2, conn3, w4)
                     | (Panic, conn3) \<Rightarrow> (Some None, session2, conn3, w4)))"

text \<open>
  What the \<open>select\<close> at the head of the \<open>k\<close>-th turn finds.  Every error of the decoder ends the loop:
  the decoder wraps the errors of the network, so that they are not a \<open>net.Error\<close> any more and a
  timeout is not told apart.
\<close>

datatype signal = Running | ContextDone | ServerDone

function lifecycle_loop ::
    "('u, 'h) server \<Rightarrow> (nat \<Rightarrow> signal) \<Rightarrow> (nat \<Rightarrow> net_outcome) \<Rightarrow> nat \<Rightarrow> byte list \<Rightarrow>
     session \<Rightarrow> server_connection \<Rightarrow> ('u, 'h) server_world \<Rightarrow>
     error option \<times> session \<times> server_connection \<times> ('u, 'h) server_world" where
  "lifecycle_loop srv signals nets k input session conn w =
     (case signals k of
        ContextDone \<Rightarrow> (Some (Errorf ''context canceled''), session, conn, w)
      | ServerDone \<Rightarrow> (Some (Errorf ''server shutting down''), session, conn, w)
      | Running \<Rightarrow>
          (case DecodeFromReader input of
             (Err e, rest) \<Rightarrow> (Some (Wrap ''failed to decode PDU'' e), session, conn, w)
           | (Panic, rest) \<Rightarrow> (None, session, conn, w)
           | (Ok p, rest) \<Rightarrow>
               (case connection_turn srv (nets k) session conn w p of
                  (Some err, session', conn', w') \<Rightarrow> (err, session', conn', w')
                | (None, session', conn', w') \<Rightarrow>
                    lifecycle_loop srv signals nets (k + 1) rest session' conn' w')))"
  by pat_completeness auto
termination
  by (relation "measure (\<lambda>(srv, signals, nets, k, input, session, conn, w). length input)")
     (auto intro: pdu_stream.dec_progress [OF sym])

declare lifecycle_loop.simps [simp del]

definition session_ID_at :: "time \<Rightarrow> time \<Rightarrow> string" where
  "session_ID_at now1 now2 = ''sess_'' @ itoa_int now1 @ ''_'' @ itoa_int (go_rem (Unix now2) 1000)"

definition generateSessionID ::
    "('u, 'h) server \<Rightarrow> ('u, 'h) server_world \<Rightarrow> string \<times> ('u, 'h) server_world" where
  "generateSessionID srv w =
     (let (now1, w1) = srv_Now srv w; (now2, w2) = srv_Now srv w1 in (session_ID_at now1 now2, w2))"

definition new_session :: "string \<Rightarrow> time \<Rightarrow> session" where
  "new_session i now =
     \<lparr>se_ID = i, se_SystemID = '''', se_Password = '''', se_SystemType = '''', se_BindType = 0,
      se_State = SessionStateOpen, se_LastActivity = now, se_SequenceNum = 1\<rparr>"

definition connectionLifecycle ::
    "('u, 'h) server \<Rightarrow> (nat \<Rightarrow> signal) \<Rightarrow> (nat \<Rightarrow> net_outcome) \<Rightarrow> string \<Rightarrow> byte list \<Rightarrow>
     server_connection \<Rightarrow> ('u, 'h) server_world \<Rightarrow>
     error option \<times> session \<times> server_connection \<times> ('u, 'h) server_world" where
  "connectionLifecycle srv signals nets remoteAddr input conn w =
     (let (i, w1) = generateSessionID srv w;
          (now, w2) = srv_Now srv w1;
          session = new_session i now;
          w3 = publish_connection srv w2 EventTypeConnected session remoteAddr Map.empty
      in lifecycle_loop srv signals nets 0 input session (conn_SetSession conn session) w3)"

text \<open>\<open>handleConnection\<close>: the loop, then the removal from the manager and the last event.\<close>

definition handleConnection ::
    "('u, 'h) server \<Rightarrow> (nat \<Rightarrow> signal) \<Rightarrow> (nat \<Rightarrow> net_outcome) \<Rightarrow> string \<Rightarrow> byte list \<Rightarrow>
     ('u, 'h) server_world \<Rightarrow> server_connection \<times> ('u, 'h) server_world" where
  "handleConnection srv signals nets remoteAddr input w =
     (let (now, w1) = srv_Now srv w;
          (err, session, conn, w2) =
            connectionLifecycle srv signals nets remoteAddr input (NewServerConnection now) w1;
          w3 = (if conn_GetSessionID conn \<noteq> ''''
                then w2\<lparr>sw_manager := snd (RemoveConnection (sw_manager w2) (conn_GetSessionID conn))\<rparr>
                else w2);
          w4 = (case sc_session conn of
                  Some s \<Rightarrow> publish_connection srv w3 EventTypeDisconnected s remoteAddr Map.empty
                | None \<Rightarrow> w3)
      in (conn, w4))"

section \<open>The server around its connections\<close>

text \<open>The check that \<open>acceptConnections\<close> makes before it serves a new connection.\<close>

definition accepts :: "('u, 'h) server \<Rightarrow> ('u, 'h) server_world \<Rightarrow> bool" where
  "accepts srv w \<longleftrightarrow> \<not> int (GetConnectionCount (sw_manager w)) \<ge> srv_MaxConnections srv"

fun cleanup_loop ::
    "int \<Rightarrow> time \<Rightarrow> conn_ref list \<Rightarrow> conn_heap \<Rightarrow> connection_manager \<Rightarrow> conn_heap \<times> connection_manager" where
  "cleanup_loop idle now [] h cm = (h, cm)"
| "cleanup_loop idle now (conn # conns) h cm =
     (if now - sc_lastActivity (h conn) > idle
      then cleanup_loop idle now conns (h(conn := conn_Close (h conn)))
             (snd (RemoveConnection cm (conn_GetSessionID (h conn))))
      else cleanup_loop idle now conns h cm)"

definition cleanupInactiveConnections ::
    "('u, 'h) server \<Rightarrow> time \<Rightarrow> string list \<Rightarrow> conn_heap \<Rightarrow> connection_manager \<Rightarrow>
     conn_heap \<times> connection_manager" where
  "cleanupInactiveConnections srv now order h cm =
     (case GetAllConnections cm order of
        Ok conns \<Rightarrow> cleanup_loop (srv_IdleTimeout srv) now conns h cm
      | _ \<Rightarrow> (h, cm))"

text \<open>\<open>Start\<close> and \<open>Stop\<close>, without the listener and the goroutines: the flag that guards them.\<close>

record server_run =
  run_running :: bool
  run_done :: bool

definition srv_Start :: "bool \<Rightarrow> server_run \<Rightarrow> unit result \<times> server_run" where
  "srv_Start listens s =
     (if run_running s then (Err (Errorf ''server is already running''), s)
      else if \<not> listens then (Err (Errorf ''failed to listen''), s\<lparr>run_running := False\<rparr>)
      else (Ok (), s\<lparr>run_running := True\<rparr>))"

text \<open>\<open>close(s.done)\<close> panics when the channel is closed already, which is so after a first \<open>Stop\<close>.\<close>

definition srv_Stop :: "server_run \<Rightarrow> unit result \<times> server_run" where
  "srv_Stop s =
     (if \<not> run_running s then (Err (Errorf ''server is not running''), s)
      else if run_done s then (Panic, s\<lparr>run_running := False\<rparr>)
      else (Ok (), s\<lparr>run_running := False, run_done := True\<rparr>))"

record server_stats =
  st_ConnectionCount :: nat
  st_SMSCount :: int
  st_ReportCount :: int

definition GetStats :: "('u, 'h) server_world \<Rightarrow> int option \<Rightarrow> int option \<Rightarrow> server_stats" where
  "GetStats w smsCount reportCount =
     \<lparr>st_ConnectionCount = GetConnectionCount (sw_manager w),
      st_SMSCount = (case smsCount of Some n \<Rightarrow> n | None \<Rightarrow> 0),
      st_ReportCount = (case reportCount of Some n \<Rightarrow> n | None \<Rightarrow> 0)\<rparr>"

end
