(* ===== verification/ServerFlow.thy ===== *)
theory ServerFlow
  imports Server
begin

text \<open>
  What a client sees of the server: the answers to its PDUs, the states of its session, and the bytes
  on the connection, for every byte sequence a client can send.
\<close>

section \<open>Answers\<close>

lemmas build_resp_defs = BuildBindTransceiverResp_def BuildBindReceiverResp_def
  BuildBindTransmitterResp_def BuildSubmitSMResp_def BuildQuerySMResp_def BuildReplaceSMResp_def
  BuildCancelSMResp_def BuildSubmitMultiResp_def BuildDataSMResp_def BuildEnquireLinkResp_def
  BuildUnbindResp_def BuildGenericNack_def

lemmas server_handler_defs = handleBindReceiver_def handleBindTransmitter_def handleBindTransceiver_def
  srv_handleSubmitSM_def srv_handleQuerySM_def srv_handleReplaceSM_def srv_handleCancelSM_def
  srv_handleSubmitMulti_def srv_handleDataSM_def handleDeliverSMResp_def handleEnquireLink_def
  handleUnbind_def

text \<open>The response to a request: its command is the request's with the response bit, its sequence number is the request's.\<close>

definition responds :: "u32 \<Rightarrow> u32 \<Rightarrow> pdu option reply \<Rightarrow> bool" where
  "responds cid seq r \<longleftrightarrow> (case r of
      Reply (Some resp) e \<Rightarrow> e = None \<and> h_SequenceNum (Header resp) = seq \<and>
        h_CommandID (Header resp) = or cid 0x80000000
    | Reply None e \<Rightarrow> True
    | Panicked \<Rightarrow> True)"

lemma responds_mk_pdu [simp]:
  "responds cid seq (Reply (Some (mk_pdu cid' st seq' b)) None) \<longleftrightarrow> cid' = or cid 0x80000000 \<and> seq' = seq"
  by (auto simp: responds_def mk_pdu_def)

lemma responds_none [simp]: "responds cid seq Panicked" "responds cid seq (Reply None e)"
  by (simp_all add: responds_def)

lemma responds_handler [simp]:
  "responds cid seq (handler_response cid' seq' body (mk_pdu cid' st seq' b) r) \<longleftrightarrow>
     r = Panicked \<or> (cid' = or cid 0x80000000 \<and> seq' = seq)"
  by (auto simp: handler_response_def split: reply.split option.split)

lemma responds_handlers:
  "responds CommandBindReceiver seq (fst (handleBindReceiver srv w s b1 seq))"
  "responds CommandBindTransmitter seq (fst (handleBindTransmitter srv w s b1 seq))"
  "responds CommandBindTransceiver seq (fst (handleBindTransceiver srv w s b1 seq))"
  "responds CommandSubmitSM seq (fst (srv_handleSubmitSM srv w s b2 seq))"
  "responds CommandQuerySM seq (fst (srv_handleQuerySM srv w s b3 seq))"
  "responds CommandReplaceSM seq (fst (srv_handleReplaceSM srv w s b4 seq))"
  "responds CommandCancelSM seq (fst (srv_handleCancelSM srv w s b5 seq))"
  "responds CommandSubmitMulti seq (fst (srv_handleSubmitMulti srv w s b6 seq))"
  "responds CommandDataSM seq (fst (srv_handleDataSM srv w s b7 seq))"
  "responds CommandDeliverSMResp seq (handleDeliverSMResp s b8)"
  "responds CommandEnquireLink seq (handleEnquireLink s seq)"
  "responds CommandUnbind seq (fst (handleUnbind srv w s seq))"
  by (simp_all add: server_handler_defs build_resp_defs Let_def split: prod.split result.split)

lemma responds_dispatch: "responds cid seq (fst (dispatch srv w s cid body seq))"
  unfolding dispatch_def Let_def split_beta
  by (simp add: responds_handlers [simplified] split: pdu_body.split)

text \<open>
  Every response that the server gives has the sequence number of its request and the request's
  command ID with the response bit set, and comes without an error.
\<close>

theorem handlePDU_response_matches:
  assumes "handlePDU srv w s p = (Some resp, err, s', w')"
  shows "err = None \<and> h_SequenceNum (Header resp) = h_SequenceNum (Header p) \<and>
    h_CommandID (Header resp) = or (h_CommandID (Header p)) 0x80000000"
proof -
  let ?s = "s\<lparr>se_SequenceNum := h_SequenceNum (Header p) + 1\<rparr>"
  obtain r s2 w2 where d: "dispatch srv w ?s (h_CommandID (Header p)) (Body p) (h_SequenceNum (Header p)) = (r, s2, w2)"
    by (metis surj_pair)
  with responds_dispatch [of "h_CommandID (Header p)" "h_SequenceNum (Header p)" srv w ?s "Body p"] assms
  show ?thesis by (auto simp: handlePDU_def responds_def split: reply.splits)
qed

text \<open>The states in which the server passes a PDU on to the message handler.\<close>

definition required_states :: "pdu \<Rightarrow> session_state set option" where
  "required_states p =
     (case Body p of
        SubmitSM b \<Rightarrow> if h_CommandID (Header p) = CommandSubmitSM then Some {SessionStateBoundTX, SessionStateBoundTRX} else None
      | QuerySM b \<Rightarrow> if h_CommandID (Header p) = CommandQuerySM then Some {SessionStateBoundRX, SessionStateBoundTRX} else None
      | ReplaceSM b \<Rightarrow> if h_CommandID (Header p) = CommandReplaceSM then Some {SessionStateBoundTX, SessionStateBoundTRX} else None
      | CancelSM b \<Rightarrow> if h_CommandID (Header p) = CommandCancelSM then Some {SessionStateBoundTX, SessionStateBoundTRX} else None
      | SubmitMulti b \<Rightarrow> if h_CommandID (Header p) = CommandSubmitMulti then Some {SessionStateBoundTX, SessionStateBoundTRX} else None
      | DataSM b \<Rightarrow> if h_CommandID (Header p) = CommandDataSM then Some {SessionStateBoundTX, SessionStateBoundTRX} else None
      | _ \<Rightarrow> None)"

text \<open>
  A session that is not bound as a transmitter or transceiver cannot submit, replace, cancel or
  send data, one that is not bound as a receiver or transceiver cannot query: the answer has the
  status \<open>StatusInvBnd\<close>, and nothing behind the session is touched.
\<close>

theorem unbound_session_refused:
  assumes "required_states p = Some S" and "se_State s \<notin> S"
  shows "\<exists>resp. handlePDU srv w s p = (Some resp, None, s\<lparr>se_SequenceNum := h_SequenceNum (Header p) + 1\<rparr>, w) \<and>
    h_CommandStatus (Header resp) = StatusInvBnd"
  using assms
  by (cases "Body p")
     (auto simp: required_states_def handlePDU_def dispatch_def Let_def server_handler_defs
       build_resp_defs mk_pdu_def split: if_splits)

section \<open>The PDUs that reach the dispatch\<close>

text \<open>
  The types of the bodies that \<open>createPDUBody\<close> makes for the commands of the dispatch, for the case
  analysis \<open>wire_pdu_cases\<close>.
\<close>

definition asserted_type :: "u32 \<Rightarrow> pdu_type option" where
  "asserted_type cid =
     (if cid = CommandBindReceiver \<or> cid = CommandBindTransmitter \<or> cid = CommandBindTransceiver then Some TBindRequest
      else if cid = CommandSubmitSM then Some TSubmitSM else if cid = CommandQuerySM then Some TQuerySM
      else if cid = CommandReplaceSM then Some TReplaceSM else if cid = CommandCancelSM then Some TCancelSM
      else if cid = CommandSubmitMulti then Some TSubmitMulti else if cid = CommandDataSM then Some TDataSM
      else if cid = CommandDeliverSMResp then Some TDeliverSMResp
      else if cid = CommandEnquireLink then Some (TEmpty EnquireLink)
      else if cid = CommandUnbind then Some (TEmpty Unbind) else None)"

definition wire_pdu :: "pdu \<Rightarrow> bool" where
  "wire_pdu p \<longleftrightarrow> (\<exists>z. createPDUBody (h_CommandID (Header p)) = Ok z \<and> same_type z (Body p))"

lemma decode_body_type:
  assumes "decode_body h body = Ok p"
  shows "wire_pdu p"
proof -
  from assms obtain z where z: "createPDUBody (h_CommandID h) = Ok z"
    and b: "if body = [] then p = \<lparr>Header = h, Body = z\<rparr>
      else \<exists>b. body_Unmarshal z body = Ok b \<and> p = \<lparr>Header = h, Body = b\<rparr>"
    by (auto simp: decode_body_def res_bind_Ok_iff split: if_splits)
  have "decodable z" using createPDUBody_Ok_decodable [OF z] by simp
  with z b show ?thesis
    using body_Unmarshal_type [of z body] by (auto simp: wire_pdu_def same_type_def split: if_splits)
qed

lemma decoded_wire_pdu: "DecodeFromReader s = (Ok p, rest) \<Longrightarrow> wire_pdu p"
  by (cases s rule: DecodeFromReader_cases) (auto intro: decode_body_type dest: sym)

lemma wire_pdu_type: "wire_pdu p \<Longrightarrow> asserted_type (h_CommandID (Header p)) = Some t \<Longrightarrow> type_of_body (Body p) = t"
  by (auto simp: wire_pdu_def asserted_type_def createPDUBody_def same_type_def split: if_splits)

lemma type_of_bodyD:
  "type_of_body b = TBindRequest \<Longrightarrow> \<exists>x. b = BindRequest x"
  "type_of_body b = TSubmitSM \<Longrightarrow> \<exists>x. b = SubmitSM x"
  "type_of_body b = TDeliverSMResp \<Longrightarrow> \<exists>x. b = DeliverSMResp x"
  "type_of_body b = TEmpty e \<Longrightarrow> b = EmptyBody e"
  by (cases b; simp)+

text \<open>What a PDU from the decoder can be, for the dispatch.\<close>

lemma wire_pdu_cases:
  assumes "wire_pdu p"
  obtains
    (bind) b where "Body p = BindRequest b" and
      "h_CommandID (Header p) \<in> {CommandBindReceiver, CommandBindTransmitter, CommandBindTransceiver}"
  | (submit) b where "Body p = SubmitSM b" and "h_CommandID (Header p) = CommandSubmitSM"
  | (deliver_resp) b where "Body p = DeliverSMResp b" and "h_CommandID (Header p) = CommandDeliverSMResp"
  | (enquire) "Body p = EmptyBody EnquireLink" and "h_CommandID (Header p) = CommandEnquireLink"
  | (unbind) "Body p = EmptyBody Unbind" and "h_CommandID (Header p) = CommandUnbind"
  | (other) "h_CommandID (Header p) \<notin> {CommandBindReceiver, CommandBindTransmitter, CommandBindTransceiver,
      CommandSubmitSM, CommandDeliverSMResp, CommandEnquireLink, CommandUnbind}"
      and "\<And>(srv :: ('u, 'h) server) w s seq. dispatch srv w s (h_CommandID (Header p)) (Body p) seq =
      (Reply None (Some (Errorf ''unsupported command ID'')), s, w)"
proof -
  have c: "\<exists>z. createPDUBody (h_CommandID (Header p)) = Ok z" using assms by (auto simp: wire_pdu_def)
  note t = wire_pdu_type [OF assms]
  let ?cid = "h_CommandID (Header p)"
  consider (1) "?cid \<in> {1, 2, 9}" | (2) "?cid = 4" | (3) "?cid = 2147483653" | (4) "?cid = 21" | (5) "?cid = 6"
    | (6) "?cid \<notin> {1, 2, 9, 4, 2147483653, 21, 6}" by blast
  then show ?thesis
  proof cases
    case 1
    with t [of TBindRequest] type_of_bodyD(1) [of "Body p"] bind show ?thesis
      by (auto simp: asserted_type_def)
  next
    case 2
    with t [of TSubmitSM] type_of_bodyD(2) [of "Body p"] submit show ?thesis
      by (auto simp: asserted_type_def)
  next
    case 3
    with t [of TDeliverSMResp] type_of_bodyD(3) [of "Body p"] deliver_resp show ?thesis
      by (auto simp: asserted_type_def)
  next
    case 4
    with t [of "TEmpty EnquireLink"] type_of_bodyD(4) [of "Body p"] enquire show ?thesis
      by (auto simp: asserted_type_def)
  next
    case 5
    with t [of "TEmpty Unbind"] type_of_bodyD(4) [of "Body p"] unbind show ?thesis
      by (auto simp: asserted_type_def)
  next
    case 6
    with c have "?cid \<notin> {1, 2, 9, 4, 3, 7, 8, 33, 259, 2147483653, 21, 6}"
      by (auto simp: createPDUBody_def)
    then show ?thesis by (intro other) (simp_all add: dispatch_def)
  qed
qed

section \<open>The server's services\<close>

text \<open>
  What the server needs of its user store: \<open>Authenticate\<close> accepts exactly the accounts, and leaves
  them as they are.
\<close>

locale authenticator =
  fixes auth :: "'u user_auth_ops" and uinv :: "'u \<Rightarrow> bool" and account :: "'u \<Rightarrow> string \<Rightarrow> string \<Rightarrow> bool"
  assumes authenticates: "uinv u \<Longrightarrow> ua_Authenticate auth u now i pw = (r, u') \<Longrightarrow>
    uinv u' \<and> account u' = account u \<and>
    (case r of Ok usr \<Rightarrow> account u i pw | Err e \<Rightarrow> \<not> account u i pw | Panic \<Rightarrow> False)"

text \<open>Of its message handler: \<open>HandleSubmitSM\<close> keeps the handler's invariant and does not panic.\<close>

locale submit_service =
  fixes ops :: "'h message_handler_ops" and hinv :: "'h \<Rightarrow> bool"
  assumes submits: "hinv h \<Longrightarrow> mo_HandleSubmitSM ops h s p = (r, h') \<Longrightarrow> hinv h' \<and> r \<noteq> Panicked"

text \<open>A session that claims to be bound belongs to an account, and its bind type is that of its state.\<close>

fun bind_type_of :: "session_state \<Rightarrow> u32 option" where
  "bind_type_of SessionStateBoundRX = Some CommandBindReceiver"
| "bind_type_of SessionStateBoundTX = Some CommandBindTransmitter"
| "bind_type_of SessionStateBoundTRX = Some CommandBindTransceiver"
| "bind_type_of _ = None"

definition session_ok :: "(string \<Rightarrow> string \<Rightarrow> bool) \<Rightarrow> session \<Rightarrow> bool" where
  "session_ok acc s \<longleftrightarrow> (case bind_type_of (se_State s) of
     Some t \<Rightarrow> acc (se_SystemID s) (se_Password s) \<and> se_BindType s = t | None \<Rightarrow> True)"

text \<open>The PDU is a bind request of a valid account.\<close>

definition valid_bind :: "(string \<Rightarrow> string \<Rightarrow> bool) \<Rightarrow> pdu \<Rightarrow> bool" where
  "valid_bind acc p \<longleftrightarrow> (case Body p of BindRequest b \<Rightarrow> acc (br_SystemID b) (br_Password b) | _ \<Rightarrow> False)"

lemma publish_connection_frame [simp]:
  "sw_users (publish_connection srv w ty s a d) = sw_users w"
  "sw_handler (publish_connection srv w ty s a d) = sw_handler w"
  "sw_manager (publish_connection srv w ty s a d) = sw_manager w"
  by (simp_all add: publish_connection_def srv_Now_def)

lemma session_ok_simps [simp]:
  "session_ok acc (s\<lparr>se_SequenceNum := n\<rparr>) = session_ok acc s"
  "session_ok acc (s\<lparr>se_LastActivity := t\<rparr>) = session_ok acc s"
  "session_ok acc (s\<lparr>se_State := SessionStateUnbound\<rparr>)"
  by (simp_all add: session_ok_def split: option.split)

definition can_send :: "pdu \<Rightarrow> bool" where
  "can_send p \<longleftrightarrow> is_Ok (Encode p)"

lemma can_send_simps [simp]:
  "can_send (mk_pdu cid st seq (BindResponse b1))" "can_send (mk_pdu cid st seq (SubmitSMResp b2))"
  "can_send (mk_pdu cid st seq (EmptyBody e))"
  by (simp_all add: can_send_def mk_pdu_def Encode_def BindResponse_Marshal_def SubmitSMResp_Marshal_def
      empty_Marshal_def Let_def)

section \<open>The session behind the connection\<close>

text \<open>
  One turn without the connection: the frame that is sent, if any, and whether the session is over.
  A turn reads the clock twice before the PDU is handled and once before a frame is sent.
\<close>

definition opt_list :: "'a option \<Rightarrow> 'a list" where
  "opt_list x = (case x of Some y \<Rightarrow> [y] | None \<Rightarrow> [])"

definition answer ::
    "('u, 'h) server \<Rightarrow> session \<Rightarrow> ('u, 'h) server_world \<Rightarrow> pdu \<Rightarrow>
     pdu option \<times> bool \<times> session \<times> ('u, 'h) server_world" where
  "answer srv s w p =
     (let (response, err, s', w3) = handlePDU srv (w\<lparr>sw_ticks := sw_ticks w + 2\<rparr>)
            (s\<lparr>se_LastActivity := srv_clock srv (sw_ticks w + 1)\<rparr>) p;
          frame = (if err = None then response
                   else Some (BuildGenericNack (h_SequenceNum (Header p)) StatusSysErr))
      in (frame, err = None \<and> se_State s' \<in> {SessionStateUnbound, SessionStateClosed}, s',
          if frame = None then w3 else w3\<lparr>sw_ticks := sw_ticks w3 + 1\<rparr>))"

text \<open>The answers to a list of PDUs, until the session is over.\<close>

fun serve ::
    "('u, 'h) server \<Rightarrow> session \<Rightarrow> ('u, 'h) server_world \<Rightarrow> pdu list \<Rightarrow>
     pdu list \<times> bool \<times> session \<times> ('u, 'h) server_world" where
  "serve srv s w [] = ([], False, s, w)"
| "serve srv s w (p # ps) =
     (case answer srv s w p of
        (f, over, s', w') \<Rightarrow>
          if over then (opt_list f, True, s', w')
          else (case serve srv s' w' ps of (fs, r) \<Rightarrow> (opt_list f @ fs, r)))"

lemma conn_Send_ok:
  assumes "can_send x" and "sc_active c" and "no_deadline_ok net" and "no_write_ok net"
  shows "conn_Send net now c x = (Ok (), c\<lparr>sc_out := sc_out c @ wire_bytes x, sc_lastActivity := now\<rparr>)"
  using assms by (cases "Encode x") (auto simp: can_send_def conn_Send_def wire_bytes_def)

text \<open>The PDUs that can be read from the front of the input, one after the other.\<close>

definition frames_of :: "byte list \<Rightarrow> pdu set" where
  "frames_of input = {p. \<exists>n. p \<in> set (fst (read_loop DecodeFromReader n input))}"

lemma frames_of_Ok:
  assumes "DecodeFromReader input = (Ok p, rest)"
  shows "frames_of input = insert p (frames_of rest)"
proof -
  have r: "fst (read_loop DecodeFromReader (Suc n) input) = p # fst (read_loop DecodeFromReader n rest)" for n
    by (simp add: assms split_beta)
  have "q \<in> frames_of input \<longleftrightarrow> q = p \<or> q \<in> frames_of rest" for q
  proof
    assume "q \<in> frames_of input"
    then obtain n where n: "q \<in> set (fst (read_loop DecodeFromReader n input))"
      by (auto simp: frames_of_def)
    then obtain m where "n = Suc m" by (cases n) auto
    with n r [of m] show "q = p \<or> q \<in> frames_of rest" by (auto simp: frames_of_def)
  next
    assume "q = p \<or> q \<in> frames_of rest"
    then obtain n where "q \<in> set (p # fst (read_loop DecodeFromReader n rest))"
      by (auto simp: frames_of_def)
    then have "q \<in> set (fst (read_loop DecodeFromReader (Suc n) input))" by (simp only: r)
    then show "q \<in> frames_of input" unfolding frames_of_def by blast
  qed
  then show ?thesis by auto
qed

lemma connection_turn_session:
  assumes "connection_turn srv net s conn w p = (x, s', conn', w')"
  obtains resp err w3 where
    "handlePDU srv (w\<lparr>sw_ticks := sw_ticks w + 2\<rparr>)
       (s\<lparr>se_LastActivity := srv_clock srv (sw_ticks w + 1)\<rparr>) p = (resp, err, s', w3)"
    and "sw_users w' = sw_users w3" and "sw_handler w' = sw_handler w3"
    and "sc_session conn' = Some s'"
proof -
  obtain resp err s2 w3 where h: "handlePDU srv (w\<lparr>sw_ticks := sw_ticks w + 2\<rparr>)
       (s\<lparr>se_LastActivity := srv_clock srv (sw_ticks w + 1)\<rparr>) p = (resp, err, s2, w3)"
    by (metis surj_pair)
  have n: "conn_Send net now c q = (r, c') \<Longrightarrow> sc_session c' = sc_session c" for now c q r c'
    by (metis conn_Send_session snd_conv)
  have "s' = s2 \<and> sw_users w' = sw_users w3 \<and> sw_handler w' = sw_handler w3 \<and> sc_session conn' = Some s2"
    using assms h
    by (auto simp: connection_turn_def srv_Now_def Let_def conn_SetSession_def eval_nat_numeral
        split: option.splits prod.splits result.splits if_splits dest: n)
  with h that show ?thesis by blast
qed

text \<open>
  Every PDU takes 16 bytes or more, so the loop makes at most one turn for 16 bytes of input, and one
  to find its end.
\<close>

lemma lifecycle_loop_turns:
  "\<forall>i \<le> length input div 16. signals (k + i) = signals' (k + i) \<and> nets (k + i) = nets' (k + i) \<Longrightarrow>
   lifecycle_loop srv signals nets k input s c w = lifecycle_loop srv signals' nets' k input s c w"
proof (induction "length input" arbitrary: k input s c w rule: less_induct)
  case less
  have now: "signals k = signals' k" "nets k = nets' k" using less.prems by (auto dest: spec [of _ 0])
  show ?case
  proof (cases "DecodeFromReader input")
    case (Pair r rest)
    show ?thesis
    proof (cases r)
      case (Ok p)
      have d: "DecodeFromReader input = (Ok p, rest)" using Pair Ok by simp
      have l: "length rest + 16 \<le> length input" using DecodeFromReader_consumes [OF d] by auto
      have ih: "lifecycle_loop srv signals nets (k + 1) rest s' c' w' =
          lifecycle_loop srv signals' nets' (k + 1) rest s' c' w'" for s' c' w'
      proof (rule less.hyps)
        show "length rest < length input" using l by simp
        have "Suc (length rest div 16) \<le> length input div 16"
          using div_le_mono [OF l, of 16] by simp
        then have "signals (k + Suc i) = signals' (k + Suc i) \<and> nets (k + Suc i) = nets' (k + Suc i)"
          if "i \<le> length rest div 16" for i
          using less.prems that by (meson Suc_le_mono le_trans)
        then show "\<forall>i \<le> length rest div 16. signals (k + 1 + i) = signals' (k + 1 + i) \<and>
            nets (k + 1 + i) = nets' (k + 1 + i)"
          by simp
      qed
      show ?thesis
        by (subst (1 2) lifecycle_loop.simps) (simp add: now d ih [simplified] split: signal.split option.split prod.split)
    qed (subst (1 2) lifecycle_loop.simps, simp add: now Pair split: signal.split)+
  qed
qed

locale session_service =
  authenticator "srv_userAuth srv" uinv account + submit_service "srv_messageHandler srv" hinv
  for srv :: "('u, 'h) server" and uinv account hinv
begin

definition winv :: "('u, 'h) server_world \<Rightarrow> bool" where
  "winv w \<longleftrightarrow> uinv (sw_users w) \<and> hinv (sw_handler w)"

lemma authenticate_outcome:
  assumes "winv w" and "authenticate srv w b = (r, w')"
  shows "winv w' \<and> account (sw_users w') = account (sw_users w) \<and> sw_handler w' = sw_handler w \<and>
    (case r of Ok u \<Rightarrow> account (sw_users w) (br_SystemID b) (br_Password b)
     | Err e \<Rightarrow> \<not> account (sw_users w) (br_SystemID b) (br_Password b) | Panic \<Rightarrow> False)"
proof -
  obtain u where "ua_Authenticate (srv_userAuth srv) (sw_users w) (srv_clock srv (sw_ticks w))
      (br_SystemID b) (br_Password b) = (r, u)" "w' = w\<lparr>sw_ticks := sw_ticks w + 1, sw_users := u\<rparr>"
    using assms(2) by (auto simp: authenticate_def srv_Now_def Let_def split: prod.splits)
  with authenticates [OF _ this(1)] assms(1) show ?thesis by (auto simp: winv_def)
qed

text \<open>The dispatch of a PDU from the decoder.\<close>

lemma dispatch_outcome:
  assumes "winv w" and "session_ok (account (sw_users w)) s" and "wire_pdu p"
    and "dispatch srv w s (h_CommandID (Header p)) (Body p) seq = (r, s', w')"
  shows "winv w' \<and> account (sw_users w') = account (sw_users w) \<and>
    session_ok (account (sw_users w)) s' \<and> se_ID s' = se_ID s \<and>
    (bind_type_of (se_State s) = None \<longrightarrow> \<not> valid_bind (account (sw_users w)) p \<longrightarrow>
       bind_type_of (se_State s') = None \<and> sw_handler w' = sw_handler w) \<and>
    (case r of
       Reply (Some x) e \<Rightarrow> e = None \<and> can_send x
     | Reply None None \<Rightarrow> h_CommandID (Header p) = CommandDeliverSMResp
     | Reply None (Some e) \<Rightarrow> s' = s \<and> w' = w
     | Panicked \<Rightarrow> False)"
  using assms(3)
proof (cases p rule: wire_pdu_cases [where 'u = 'u and 'h = 'h])
  case (bind b)
  obtain a w1 where a: "authenticate srv w b = (a, w1)" by fastforce
  note o = authenticate_outcome [OF assms(1) a]
  show ?thesis
    using o assms(2,4) bind
    by (cases a) (auto simp: dispatch_def a handleBindReceiver_def handleBindTransmitter_def
        handleBindTransceiver_def build_resp_defs bound_session_def session_ok_def valid_bind_def
        winv_def Let_def)
next
  case (submit b)
  obtain a h where a: "mo_HandleSubmitSM (srv_messageHandler srv) (sw_handler w) s b = (a, h)" by fastforce
  have "hinv h \<and> a \<noteq> Panicked"
    using submits [OF _ a] assms(1) by (simp add: winv_def)
  with assms submit a show ?thesis
    by (cases "se_State s")
       (auto simp: dispatch_def srv_handleSubmitSM_def build_resp_defs handler_response_def winv_def
         session_ok_def valid_bind_def split: reply.splits option.splits)
next
  case (deliver_resp b)
  with assms show ?thesis by (auto simp: dispatch_def handleDeliverSMResp_def valid_bind_def)
next
  case enquire
  with assms show ?thesis by (auto simp: dispatch_def handleEnquireLink_def build_resp_defs valid_bind_def)
next
  case unbind
  with assms show ?thesis
    by (auto simp: dispatch_def handleUnbind_def build_resp_defs valid_bind_def winv_def Let_def)
next
  case other
  with assms show ?thesis by auto
qed

lemma dispatch_answers:
  assumes "winv w" and "wire_pdu p"
  shows "\<exists>resp err s' w'. dispatch srv w s (h_CommandID (Header p)) (Body p) seq = (Reply resp err, s', w') \<and>
    (resp \<noteq> None \<longleftrightarrow> h_CommandID (Header p) \<in> {CommandBindReceiver, CommandBindTransmitter,
       CommandBindTransceiver, CommandSubmitSM, CommandEnquireLink, CommandUnbind}) \<and>
    (err = None \<longleftrightarrow> resp \<noteq> None \<or> h_CommandID (Header p) = CommandDeliverSMResp)"
  using assms(2)
proof (cases p rule: wire_pdu_cases [where 'u = 'u and 'h = 'h])
  case (bind b)
  obtain a w1 where a: "authenticate srv w b = (a, w1)" by fastforce
  show ?thesis
    using authenticate_outcome [OF assms(1) a] bind
    by (cases a) (auto simp: dispatch_def a handleBindReceiver_def handleBindTransmitter_def
        handleBindTransceiver_def Let_def)
next
  case (submit b)
  obtain a h where a: "mo_HandleSubmitSM (srv_messageHandler srv) (sw_handler w) s b = (a, h)" by fastforce
  have "a \<noteq> Panicked" using submits [OF _ a] assms(1) by (simp add: winv_def)
  with submit a show ?thesis
    by (cases a) (auto simp: dispatch_def srv_handleSubmitSM_def handler_response_def split: option.split)
next
  case (deliver_resp b)
  then show ?thesis by (simp add: dispatch_def handleDeliverSMResp_def)
next
  case enquire
  then show ?thesis by (simp add: dispatch_def handleEnquireLink_def)
next
  case unbind
  then show ?thesis by (simp add: dispatch_def handleUnbind_def Let_def)
next
  case other
  then show ?thesis by simp
qed

lemma handlePDU_outcome:
  assumes "winv w" and "session_ok (account (sw_users w)) s" and "wire_pdu p"
    and "handlePDU srv w s p = (resp, err, s', w')"
  shows "winv w' \<and> account (sw_users w') = account (sw_users w) \<and>
    session_ok (account (sw_users w)) s' \<and> se_ID s' = se_ID s \<and>
    (bind_type_of (se_State s) = None \<longrightarrow> \<not> valid_bind (account (sw_users w)) p \<longrightarrow>
       bind_type_of (se_State s') = None \<and> sw_handler w' = sw_handler w) \<and>
    (case resp of
       Some x \<Rightarrow> err = None \<and> can_send x
     | None \<Rightarrow> err = None \<longrightarrow> h_CommandID (Header p) = CommandDeliverSMResp)"
proof -
  let ?s = "s\<lparr>se_SequenceNum := h_SequenceNum (Header p) + 1\<rparr>"
  obtain r s2 w2 where d: "dispatch srv w ?s (h_CommandID (Header p)) (Body p) (h_SequenceNum (Header p)) = (r, s2, w2)"
    by (metis surj_pair)
  from dispatch_outcome [OF assms(1) _ assms(3) d] assms(2,4) d show ?thesis
    by (auto simp: handlePDU_def split: reply.splits option.splits)
qed

text \<open>
  The loop keeps the invariants, whatever the network does; and a client that sends no bind request
  of a valid account stays unbound and does not reach the message handler.
\<close>

lemma lifecycle_loop_outcome:
  "winv w \<Longrightarrow> session_ok (account (sw_users w)) s \<Longrightarrow> sc_session c = Some s \<Longrightarrow>
   lifecycle_loop srv signals nets k input s c w = (err, s', c', w') \<Longrightarrow>
   winv w' \<and> account (sw_users w') = account (sw_users w) \<and> session_ok (account (sw_users w)) s' \<and>
   se_ID s' = se_ID s \<and> sc_session c' = Some s' \<and>
   (bind_type_of (se_State s) = None \<longrightarrow> (\<forall>p \<in> frames_of input. \<not> valid_bind (account (sw_users w)) p) \<longrightarrow>
      bind_type_of (se_State s') = None \<and> sw_handler w' = sw_handler w)"
proof (induction "length input" arbitrary: k input s c w rule: less_induct)
  case less
  show ?case
  proof (cases "signals k = Running \<and> (\<exists>p rest. DecodeFromReader input = (Ok p, rest))")
    case True
    then obtain p rest where d: "DecodeFromReader input = (Ok p, rest)" and sig: "signals k = Running"
      by blast
    have wp: "wire_pdu p" by (rule decoded_wire_pdu [OF d])
    obtain x s1 c1 w1 where t: "connection_turn srv (nets k) s c w p = (x, s1, c1, w1)"
      by (metis surj_pair)
    obtain resp e w3 where h: "handlePDU srv (w\<lparr>sw_ticks := sw_ticks w + 2\<rparr>)
         (s\<lparr>se_LastActivity := srv_clock srv (sw_ticks w + 1)\<rparr>) p = (resp, e, s1, w3)"
      and w1: "sw_users w1 = sw_users w3" "sw_handler w1 = sw_handler w3"
      and c1: "sc_session c1 = Some s1"
      using t by (rule connection_turn_session)
    have o: "winv w1 \<and> account (sw_users w1) = account (sw_users w) \<and>
        session_ok (account (sw_users w)) s1 \<and> se_ID s1 = se_ID s \<and>
        (bind_type_of (se_State s) = None \<longrightarrow> \<not> valid_bind (account (sw_users w)) p \<longrightarrow>
           bind_type_of (se_State s1) = None \<and> sw_handler w1 = sw_handler w)"
      using handlePDU_outcome [OF _ _ wp h] less.prems(1,2) w1 by (simp add: winv_def)
    show ?thesis
    proof (cases x)
      case None
      have l: "length rest < length input" by (rule pdu_stream.dec_progress [OF d])
      have "lifecycle_loop srv signals nets (k + 1) rest s1 c1 w1 = (err, s', c', w')"
        using less.prems(4) by (subst (asm) lifecycle_loop.simps) (simp add: sig d t None)
      from less.hyps [OF l _ _ c1 this] o show ?thesis by (auto simp: frames_of_Ok [OF d])
    next
      case (Some e1)
      have "s' = s1 \<and> c' = c1 \<and> w' = w1"
        using less.prems(4) by (subst (asm) lifecycle_loop.simps) (simp add: sig d t Some)
      with o c1 show ?thesis by (auto simp: frames_of_Ok [OF d])
    qed
  next
    case False
    have "s' = s \<and> c' = c \<and> w' = w"
      using less.prems(4) False
      by (subst (asm) lifecycle_loop.simps) (auto split: signal.splits result.splits prod.splits)
    with less.prems show ?thesis by simp
  qed
qed

text \<open>With a network that works, a turn of the loop is \<open>answer\<close>, and its frame goes out.\<close>

lemma connection_turn_answer:
  assumes "winv w" and "session_ok (account (sw_users w)) s" and "wire_pdu p" and "sc_active c"
    and "no_deadline_ok net" and "no_write_ok net"
    and "answer srv s w p = (f, over, s', w')"
  shows "\<exists>c'. connection_turn srv net s c w p = (if over then Some None else None, s', c', w') \<and>
    sc_active c' \<and> sc_out c' = sc_out c @ concat (map wire_bytes (opt_list f)) \<and>
    winv w' \<and> account (sw_users w') = account (sw_users w) \<and> session_ok (account (sw_users w)) s'"
proof -
  obtain resp e s1 w3 where h: "handlePDU srv (w\<lparr>sw_ticks := sw_ticks w + 2\<rparr>)
       (s\<lparr>se_LastActivity := srv_clock srv (sw_ticks w + 1)\<rparr>) p = (resp, e, s1, w3)"
    by (metis surj_pair)
  have h': "handlePDU srv (w\<lparr>sw_ticks := Suc (Suc (sw_ticks w))\<rparr>)
       (s\<lparr>se_LastActivity := srv_clock srv (Suc (sw_ticks w))\<rparr>) p = (resp, e, s1, w3)"
    using h by (simp add: eval_nat_numeral)
  have o: "winv w3 \<and> account (sw_users w3) = account (sw_users w) \<and>
      session_ok (account (sw_users w)) s1 \<and> (case resp of Some x \<Rightarrow> e = None \<and> can_send x | None \<Rightarrow> True)"
    using handlePDU_outcome [OF _ _ assms(3) h] assms(1,2)
    by (auto simp: winv_def split: option.splits)
  have n: "can_send (BuildGenericNack a b)" for a b by (simp add: BuildGenericNack_def)
  show ?thesis
  proof (cases e)
    case None
    then show ?thesis
      using o assms(4-7)
      by (cases resp)
         (auto simp: connection_turn_def answer_def srv_Now_def h h' conn_Send_ok opt_list_def winv_def
           conn_SetSession_def conn_UpdateLastActivity_def Let_def)
  next
    case (Some er)
    then have "resp = None" using o by (cases resp) auto
    with Some show ?thesis
      using o assms(4-7)
      by (auto simp: connection_turn_def answer_def srv_Now_def h h' conn_Send_ok n opt_list_def winv_def
           conn_SetSession_def conn_UpdateLastActivity_def Let_def)
  qed
qed

lemma lifecycle_loop_serve:
  assumes "\<And>i. signals i = Running" and "\<And>i. no_deadline_ok (nets i)" and "\<And>i. no_write_ok (nets i)"
  shows "read_loop DecodeFromReader n input = (ps, Some (Err e)) \<Longrightarrow> winv w \<Longrightarrow>
    session_ok (account (sw_users w)) s \<Longrightarrow> sc_active c \<Longrightarrow> serve srv s w ps = (fs, over, s', w') \<Longrightarrow>
    \<exists>c'. lifecycle_loop srv signals nets k input s c w =
      (if over then None else Some (Wrap ''failed to decode PDU'' e), s', c', w') \<and>
    sc_active c' \<and> sc_out c' = sc_out c @ concat (map wire_bytes fs)"
proof (induction n arbitrary: k input ps s c w fs)
  case (Suc n)
  obtain r rest where d: "DecodeFromReader input = (r, rest)" by fastforce
  show ?case
  proof (cases r)
    case (Ok p)
    then have d: "DecodeFromReader input = (Ok p, rest)" using d by simp
    obtain qs where ps: "ps = p # qs" and q: "read_loop DecodeFromReader n rest = (qs, Some (Err e))"
      using Suc.prems(1) d by (auto simp: split_beta prod_eq_iff)
    obtain f ov s1 w1 where a: "answer srv s w p = (f, ov, s1, w1)" by (metis surj_pair)
    obtain c1 where c1: "connection_turn srv (nets k) s c w p = (if ov then Some None else None, s1, c1, w1)"
      "sc_active c1" "sc_out c1 = sc_out c @ concat (map wire_bytes (opt_list f))" "winv w1"
      "account (sw_users w1) = account (sw_users w)" "session_ok (account (sw_users w)) s1"
      using connection_turn_answer [OF Suc.prems(2,3) decoded_wire_pdu [OF d] Suc.prems(4) assms(2,3) a]
      by blast
    show ?thesis
    proof (cases ov)
      case True
      then show ?thesis
        using Suc.prems(5) a c1 by (subst lifecycle_loop.simps) (auto simp: ps assms(1) [of k] d)
    next
      case False
      obtain fs1 where fs1: "serve srv s1 w1 qs = (fs1, over, s', w')" "fs = opt_list f @ fs1"
        using Suc.prems(5) a False by (auto simp: ps split: prod.splits)
      have "session_ok (account (sw_users w1)) s1" using c1(5,6) by simp
      from Suc.IH [OF q c1(4) this c1(2) fs1(1), of "k + 1"] obtain c' where c':
        "lifecycle_loop srv signals nets (k + 1) rest s1 c1 w1 =
           (if over then None else Some (Wrap ''failed to decode PDU'' e), s', c', w')"
        "sc_active c'" "sc_out c' = sc_out c1 @ concat (map wire_bytes fs1)" by blast
      have "lifecycle_loop srv signals nets k input s c w = lifecycle_loop srv signals nets (k + 1) rest s1 c1 w1"
        using c1(1) False by (subst lifecycle_loop.simps) (simp add: assms(1) [of k] d)
      with c' c1(3) fs1(2) show ?thesis by simp
    qed
  next
    case (Err e')
    with Suc.prems d show ?thesis
      by (subst lifecycle_loop.simps) (auto simp: assms(1) [of k])
  next
    case Panic
    with Suc.prems(1) d show ?thesis by simp
  qed
qed simp

end

section \<open>The server over the in-memory stores\<close>

text \<open>\<open>InMemoryUserAuth\<close> and \<open>MessageHandlerImpl\<close> behind the interfaces of the server.\<close>

definition memory_user_ops :: "user_store user_auth_ops" where
  "memory_user_ops = \<lparr>ua_Authenticate = (\<lambda>u now i pw. (Authenticate u i pw, u))\<rparr>"

definition handler_ops :: "('s, 'r, 'q) handler \<Rightarrow> ('s, 'r, 'q) world message_handler_ops" where
  "handler_ops mh =
     \<lparr>mo_HandleSubmitSM = HandleSubmitSM mh, mo_HandleQuerySM = (\<lambda>w s p. (HandleQuerySM mh w s p, w)),
      mo_HandleReplaceSM = HandleReplaceSM mh, mo_HandleCancelSM = HandleCancelSM mh,
      mo_HandleSubmitMulti = HandleSubmitMulti mh, mo_HandleDataSM = HandleDataSM mh\<rparr>"

definition memory_server ::
    "('s, 'r, 'q) handler \<Rightarrow> bool \<Rightarrow> (nat \<Rightarrow> time) \<Rightarrow> (user_store, ('s, 'r, 'q) world) server" where
  "memory_server mh events clock =
     \<lparr>srv_userAuth = memory_user_ops, srv_messageHandler = handler_ops mh, srv_eventPublisher = events,
      srv_clock = clock, srv_MaxConnections = 100, srv_IdleTimeout = 300000000000\<rparr>"

definition is_account :: "user_store \<Rightarrow> string \<Rightarrow> string \<Rightarrow> bool" where
  "is_account u i pw \<longleftrightarrow> (\<exists>usr. Authenticate u i pw = Ok usr)"

lemma Authenticate_not_Panic [simp]: "Authenticate u i pw \<noteq> Panic"
  by (simp add: Authenticate_def split: option.split)

interpretation memory_users: authenticator memory_user_ops "\<lambda>u. True" is_account
  by unfold_locales (auto simp: memory_user_ops_def is_account_def split: result.split)

interpretation memory_submits: submit_service
  "handler_ops (memory_handler publisher router queue splitter clock)" "\<lambda>h. sms_store_inv (w_sms h)"
  for publisher router queue splitter clock
proof
  fix h s p r h'
  assume "sms_store_inv (w_sms h)"
    and "mo_HandleSubmitSM (handler_ops (memory_handler publisher router queue splitter clock)) h s p = (r, h')"
  then show "sms_store_inv (w_sms h') \<and> r \<noteq> Panicked"
    using memory_service.submit_sm_outcome [of h publisher router queue splitter clock s p r h']
    by (auto simp: handler_ops_def)
qed

interpretation memory_sessions: session_service
  "memory_server (memory_handler publisher router queue splitter hclock) events clock"
  "\<lambda>u. True" is_account "\<lambda>h. sms_store_inv (w_sms h)"
  for publisher router queue splitter hclock events clock
proof -
  have "srv_userAuth (memory_server (memory_handler publisher router queue splitter hclock) events clock) = memory_user_ops"
    "srv_messageHandler (memory_server (memory_handler publisher router queue splitter hclock) events clock) =
       handler_ops (memory_handler publisher router queue splitter hclock)"
    by (simp_all add: memory_server_def)
  then show "session_service (memory_server (memory_handler publisher router queue splitter hclock) events clock)
      (\<lambda>u. True) is_account (\<lambda>h. sms_store_inv (w_sms h))"
    using memory_users.authenticator_axioms memory_submits.submit_service_axioms
    by (simp add: session_service_def)
qed

text \<open>
  C40. A PDU that the decoder delivers meets the type assertions of the dispatch: whatever its bytes and
  the session, nothing panics, with the in-memory stores behind the server.  A bind request, a submit_sm, an enquire_link and an unbind are answered,
  a deliver_sm_resp is taken without an answer, and every other PDU is refused with an error.
\<close>

theorem decoded_pdu_dispatched:
  assumes "sms_store_inv (w_sms (sw_handler w))" and "DecodeFromReader input = (Ok p, rest)"
  shows "\<exists>resp err s' w'. dispatch (memory_server (memory_handler publisher router queue splitter hclock) events clock)
      w s (h_CommandID (Header p)) (Body p) seq = (Reply resp err, s', w') \<and>
    (resp \<noteq> None \<longleftrightarrow> h_CommandID (Header p) \<in> {CommandBindReceiver, CommandBindTransmitter,
       CommandBindTransceiver, CommandSubmitSM, CommandEnquireLink, CommandUnbind}) \<and>
    (err = None \<longleftrightarrow> resp \<noteq> None \<or> h_CommandID (Header p) = CommandDeliverSMResp)"
  by (rule memory_sessions.dispatch_answers [OF _ decoded_wire_pdu [OF assms(2)]])
     (simp add: memory_sessions.winv_def assms(1))

text \<open>What the start of a connection does before the loop.\<close>

lemma connectionLifecycle_start:
  "\<exists>w1. connectionLifecycle srv signals nets addr input c w =
      lifecycle_loop srv signals nets 0 input
        (new_session (session_ID_at (srv_clock srv (sw_ticks w)) (srv_clock srv (sw_ticks w + 1)))
          (srv_clock srv (sw_ticks w + 2)))
        (conn_SetSession c (new_session (session_ID_at (srv_clock srv (sw_ticks w)) (srv_clock srv (sw_ticks w + 1)))
          (srv_clock srv (sw_ticks w + 2)))) w1 \<and>
    sw_users w1 = sw_users w \<and> sw_handler w1 = sw_handler w"
proof -
  define s where "s = new_session (session_ID_at (srv_clock srv (sw_ticks w)) (srv_clock srv (sw_ticks w + 1)))
    (srv_clock srv (sw_ticks w + 2))"
  have "connectionLifecycle srv signals nets addr input c w =
      lifecycle_loop srv signals nets 0 input s (conn_SetSession c s)
        (publish_connection srv (w\<lparr>sw_ticks := sw_ticks w + 3\<rparr>) EventTypeConnected s addr Map.empty)"
    by (simp add: connectionLifecycle_def generateSessionID_def srv_Now_def s_def Let_def eval_nat_numeral)
  then show ?thesis
    unfolding s_def [symmetric]
    by (intro exI [of _ "publish_connection srv (w\<lparr>sw_ticks := sw_ticks w + 3\<rparr>) EventTypeConnected s addr Map.empty"])
       simp
qed

lemma new_session_open [simp]:
  "session_ok acc (new_session i t)" "se_State (new_session i t) = SessionStateOpen"
  by (simp_all add: session_ok_def new_session_def)

text \<open>A whole connection, over any users and message handler that keep the two contracts.\<close>

context session_service
begin

lemma connection_outcome:
  assumes "winv w" and "connectionLifecycle srv signals nets addr input c w = (err, s', c', w')"
  shows "winv w' \<and> account (sw_users w') = account (sw_users w) \<and>
    session_ok (account (sw_users w)) s' \<and> sc_session c' = Some s' \<and>
    ((\<forall>p \<in> frames_of input. \<not> valid_bind (account (sw_users w)) p) \<longrightarrow>
       bind_type_of (se_State s') = None \<and> sw_handler w' = sw_handler w)"
proof -
  obtain i t w1 where l: "lifecycle_loop srv signals nets 0 input (new_session i t)
      (conn_SetSession c (new_session i t)) w1 = (err, s', c', w')"
    and w1: "sw_users w1 = sw_users w" "sw_handler w1 = sw_handler w"
    using connectionLifecycle_start [of srv signals nets addr input c w] assms(2) by auto
  have i: "winv w1" using assms(1) w1 by (simp add: winv_def)
  show ?thesis
    using lifecycle_loop_outcome [OF i _ _ l] w1
    by (simp add: conn_SetSession_def)
qed

end

lemma memory_lifecycle_outcome:
  assumes "sms_store_inv (w_sms (sw_handler w))"
    and "connectionLifecycle (memory_server (memory_handler publisher router queue splitter hclock) events clock)
      signals nets addr input c w = (err, s', c', w')"
  shows "sms_store_inv (w_sms (sw_handler w')) \<and> is_account (sw_users w') = is_account (sw_users w) \<and>
    session_ok (is_account (sw_users w)) s' \<and> sc_session c' = Some s' \<and>
    ((\<forall>p \<in> frames_of input. \<not> valid_bind (is_account (sw_users w)) p) \<longrightarrow>
       bind_type_of (se_State s') = None \<and> sw_handler w' = sw_handler w)"
  using memory_sessions.connection_outcome [OF _ assms(2)] assms(1)
  by (simp add: memory_sessions.winv_def)

text \<open>
  C12. Whatever bytes a client sends and whatever the network does, a session that is bound in the end
  was bound with the system ID and password of an account, and its bind type is the one of its state.
\<close>

theorem bound_session_authenticated:
  assumes "sms_store_inv (w_sms (sw_handler w))"
    and "connectionLifecycle (memory_server (memory_handler publisher router queue splitter hclock) events clock)
      signals nets addr input c w = (err, s', c', w')"
  shows "sc_session c' = Some s' \<and>
    (case bind_type_of (se_State s') of
       Some t \<Rightarrow> is_account (sw_users w') (se_SystemID s') (se_Password s') \<and> se_BindType s' = t
     | None \<Rightarrow> True)"
  using memory_lifecycle_outcome [OF assms] by (auto simp: session_ok_def split: option.splits)

text \<open>
  C5. A client none of whose frames is a bind request with the credentials of an account never reaches
  the message handler: its state, with both stores, the queue and the jobs, is unchanged.
\<close>

theorem no_account_no_access:
  assumes "sms_store_inv (w_sms (sw_handler w))"
    and "connectionLifecycle (memory_server (memory_handler publisher router queue splitter hclock) events clock)
      signals nets addr input c w = (err, s', c', w')"
    and "\<forall>p \<in> frames_of input. \<forall>b. Body p = BindRequest b \<longrightarrow>
      \<not> is_account (sw_users w) (br_SystemID b) (br_Password b)"
  shows "sw_handler w' = sw_handler w \<and> bind_type_of (se_State s') = None"
proof -
  have "\<forall>p \<in> frames_of input. \<not> valid_bind (is_account (sw_users w)) p"
    using assms(3) by (auto simp: valid_bind_def split: pdu_body.split)
  with memory_lifecycle_outcome [OF assms(1,2)] show ?thesis by simp
qed

text \<open>
  C6. The loop over the bytes of a connection refines \<open>serve\<close> on the PDUs in them: with a network that
  works it ends in the same session and state, and it has written exactly the frames of the answers,
  in order.  It ends without an error when the session is over, and otherwise with the error of the
  decoder.
\<close>

theorem connectionLifecycle_refines:
  assumes "sms_store_inv (w_sms (sw_handler w))" and "sc_active c"
    and "\<And>i. signals i = Running" and "\<And>i. no_deadline_ok (nets i)" and "\<And>i. no_write_ok (nets i)"
    and "connectionLifecycle (memory_server (memory_handler publisher router queue splitter hclock) events clock)
      signals nets addr input c w = (err, s', c', w')"
  shows "\<exists>i t w1 fs over. serve (memory_server (memory_handler publisher router queue splitter hclock) events clock)
      (new_session i t) w1 (fst (read_loop DecodeFromReader (length input + 1) input)) = (fs, over, s', w') \<and>
    sw_handler w1 = sw_handler w \<and> sw_users w1 = sw_users w \<and>
    sc_out c' = sc_out c @ concat (map wire_bytes fs) \<and> (err = None \<longleftrightarrow> over)"
proof -
  let ?srv = "memory_server (memory_handler publisher router queue splitter hclock) events clock"
  obtain i t w1 where l: "lifecycle_loop ?srv signals nets 0 input (new_session i t)
      (conn_SetSession c (new_session i t)) w1 = (err, s', c', w')"
    and w1: "sw_users w1 = sw_users w" "sw_handler w1 = sw_handler w"
    using connectionLifecycle_start [of ?srv signals nets addr input c w] assms(6) by auto
  have i: "memory_sessions.winv w1" using assms(1) w1 by (simp add: memory_sessions.winv_def)
  obtain e where "snd (read_loop DecodeFromReader (length input + 1) input) = Some (Err e)"
    using pdu_stream.read_loop_terminates [of input "length input + 1"] by auto
  then obtain ps where r: "read_loop DecodeFromReader (length input + 1) input = (ps, Some (Err e))"
    by (metis surjective_pairing)
  obtain fs over s2 w2 where sv: "serve ?srv (new_session i t) w1 ps = (fs, over, s2, w2)"
    by (metis surj_pair)
  have a: "sc_active (conn_SetSession c (new_session i t))" "sc_out (conn_SetSession c (new_session i t)) = sc_out c"
    using assms(2) by (simp_all add: conn_SetSession_def)
  have "(err, s', c', w') = (if over then None else Some (Wrap ''failed to decode PDU'' e), s2, c', w2) \<and>
      sc_out c' = sc_out c @ concat (map wire_bytes fs)"
    using memory_sessions.lifecycle_loop_serve [where k = 0 and signals = signals and nets = nets, OF assms(3-5) r i _ a(1) sv] l a(2) by auto
  with sv r w1 show ?thesis by (auto split: if_splits)
qed

text \<open>
  C39. The loop makes at most one turn for every 16 bytes of input and one more: what the clock of
  signals and the network would do after that has no influence.
\<close>

theorem lifecycle_turns_bounded:
  assumes "\<forall>i \<le> length input div 16. signals i = signals' i \<and> nets i = nets' i"
  shows "connectionLifecycle srv signals nets addr input c w = connectionLifecycle srv signals' nets' addr input c w"
  using lifecycle_loop_turns [of input signals 0 signals' nets nets' srv] assms
  by (simp add: connectionLifecycle_def Let_def split: prod.split)

lemma wire_command_ID:
  assumes "can_send p"
  shows "h_CommandID (read_header (wire_bytes p)) = body_CommandID (Body p)"
proof -
  from assms obtain p' bs where e: "Encode p = Ok (p', bs)"
    by (cases "Encode p") (auto simp: can_send_def)
  then have "wire_bytes p = bs" by (simp add: wire_bytes_def)
  with e show ?thesis by (auto elim!: Encode_OkD simp: header_bytes_def read_header_def)
qed

text \<open>
  On the wire every bind response is a bind_transceiver_resp, also the answers to bind_receiver and
  bind_transmitter, whose PDUs carry the right command ID until they are encoded.
\<close>

theorem bind_responses_on_wire:
  "h_CommandID (Header (BuildBindReceiverResp i seq st)) = CommandBindReceiverResp \<and>
   h_CommandID (read_header (wire_bytes (BuildBindReceiverResp i seq st))) = CommandBindTransceiverResp \<and>
   h_CommandID (Header (BuildBindTransmitterResp i seq st)) = CommandBindTransmitterResp \<and>
   h_CommandID (read_header (wire_bytes (BuildBindTransmitterResp i seq st))) = CommandBindTransceiverResp"
  by (simp add: wire_command_ID build_resp_defs mk_pdu_def can_send_def Encode_def BindResponse_Marshal_def
      BindResponse_CommandID_def Let_def)

section \<open>From the client's bytes to the store\<close>

lemma ValidateMessage_submit:
  "ValidateMessage (submit_message i s p now t) = ValidateMessage (submit_message '''' zs p 0 t)"
  by (rule ValidateMessage_fields) (simp_all add: submit_message_def)

lemma answer_unbind:
  assumes "Body p = EmptyBody Unbind" and "h_CommandID (Header p) = CommandUnbind"
  shows "\<exists>s' w'. answer srv s w p = (Some (BuildUnbindResp (h_SequenceNum (Header p))), True, s', w') \<and>
    se_State s' = SessionStateUnbound \<and> se_ID s' = se_ID s \<and> sw_handler w' = sw_handler w \<and> sw_users w' = sw_users w"
  using assms by (simp add: answer_def handlePDU_def dispatch_def handleUnbind_def Let_def)

text \<open>
  A server whose message handler works on reliable stores and whose users are accounts: what the handler and the user
  store promise makes it a session service.
\<close>

locale message_server =
  reliable_service sops inv stored valid_ID rops reported mh + authenticator "srv_userAuth srv" uinv account
  for sops :: "'s sms_ops" and inv stored valid_ID and rops :: "'r report_ops" and reported
    and mh :: "('s, 'r, 'q) handler" and srv :: "('u, ('s, 'r, 'q) world) server" and uinv account +
  assumes serves: "srv_messageHandler srv = handler_ops mh"

sublocale message_server \<subseteq> session_service srv uinv account "\<lambda>h. inv (w_sms h)"
proof
  fix h s p r h'
  assume "inv (w_sms h)" and "mo_HandleSubmitSM (srv_messageHandler srv) h s p = (r, h')"
  then show "inv (w_sms h') \<and> r \<noteq> Panicked"
    using submit_sm_outcome [of h s p r h'] by (auto simp: serves handler_ops_def)
qed

context message_server
begin

lemma answer_bind:
  assumes "Body p = BindRequest b" and "h_CommandID (Header p) = CommandBindTransceiver" and "winv w"
    and "account (sw_users w) (br_SystemID b) (br_Password b)"
  shows "\<exists>s' w'. answer srv s w p =
      (Some (BuildBindTransceiverResp (br_SystemID b) (h_SequenceNum (Header p)) StatusOK), False, s', w') \<and>
    se_State s' = SessionStateBoundTRX \<and> se_ID s' = se_ID s \<and> sw_handler w' = sw_handler w \<and> winv w' \<and>
    account (sw_users w') = account (sw_users w)"
proof -
  obtain r w1 where a: "authenticate srv (w\<lparr>sw_ticks := sw_ticks w + 2\<rparr>) b = (r, w1)" by force
  have "winv (w\<lparr>sw_ticks := sw_ticks w + 2\<rparr>)" using assms(3) by (simp add: winv_def)
  from authenticate_outcome [OF this a] assms(4) obtain usr where "r = Ok usr" "winv w1"
    "account (sw_users w1) = account (sw_users w)" "sw_handler w1 = sw_handler w"
    by (cases r) auto
  with a assms(1,2) show ?thesis
    by (simp add: answer_def handlePDU_def dispatch_def handleBindTransceiver_def bound_session_def winv_def Let_def)
qed

lemma answer_submit:
  assumes "winv w" and "Body p = SubmitSM m"
    and "h_CommandID (Header p) = CommandSubmitSM" and "se_State s = SessionStateBoundTRX"
    and "message_bytes (ss_ShortMessage m) (ss_OptionalParams m) \<noteq> []"
    and "Decode_text (message_bytes (ss_ShortMessage m) (ss_OptionalParams m)) (ss_DataCoding m) = Ok t"
    and "ValidateMessage (submit_message '''' zs m 0 t) = Ok ()"
  shows "\<exists>i n s' w' st.
    answer srv s w p = (Some (BuildSubmitSMResp i (h_SequenceNum (Header p)) StatusOK), False, s', w') \<and> se_ID s' = se_ID s \<and>
    i = message_ID_at (mh_clock mh n) (mh_clock mh (n + 1)) \<and>
    stored (w_sms (sw_handler w')) = (stored (w_sms (sw_handler w)))(i \<mapsto> st) \<and>
    m_Text st = t \<and> a_Addr (m_SourceAddr st) = ss_SourceAddr m \<and>
    a_Addr (m_DestAddr st) = ss_DestAddr m \<and> m_SessionID st = se_ID s \<and> m_Status st = MessageStatusSubmitted \<and>
    m_ID st = i \<and> winv w'"
proof -
  let ?h = "sw_handler w"
    and ?s = "s\<lparr>se_LastActivity := srv_clock srv (sw_ticks w + 1), se_SequenceNum := h_SequenceNum (Header p) + 1\<rparr>"
  have i: "inv (w_sms ?h)" using assms(1) by (simp add: winv_def)
  obtain i h where h: "HandleSubmitSM mh ?h ?s m = (Reply \<lparr>sr_MessageID = i\<rparr> None, h)"
    using submit_sm_accepts [OF i assms(5,6), of ?s] assms(7) ValidateMessage_submit [of _ ?s m _ t zs] by auto
  have o: "inv (w_sms h) \<and> (\<exists>now1 now2. stored (w_sms h) =
      (stored (w_sms ?h))(i \<mapsto> (submit_message i ?s m now1 t)\<lparr>m_SubmitTime := now2\<rparr>)) \<and>
      i = message_ID_at (mh_clock mh (w_ticks ?h)) (mh_clock mh (w_ticks ?h + 1))"
    using submit_sm_outcome [OF i h] assms(6) by (auto simp: Let_def)
  then obtain st n where "i = message_ID_at (mh_clock mh n) (mh_clock mh (n + 1))" "stored (w_sms h) = (stored (w_sms ?h))(i \<mapsto> st)"
    "m_Text st = t" "a_Addr (m_SourceAddr st) = ss_SourceAddr m" "a_Addr (m_DestAddr st) = ss_DestAddr m"
    "m_SessionID st = se_ID s" "m_Status st = MessageStatusSubmitted" "m_ID st = i"
    by (auto simp: submit_message_def)
  moreover have "\<exists>w'. answer srv s w p =
      (Some (BuildSubmitSMResp i (h_SequenceNum (Header p)) StatusOK), False, ?s, w') \<and> sw_handler w' = h \<and>
      sw_users w' = sw_users w"
    using assms(2-4) h
    by (simp add: answer_def handlePDU_def dispatch_def srv_handleSubmitSM_def serves handler_ops_def
        handler_response_def BuildSubmitSMResp_def)
  ultimately show ?thesis using o assms(1) by (force simp: winv_def)
qed

text \<open>A client that sends nothing but a bind request for an account is bound when its bytes are read.\<close>

lemma bound_connection:
  assumes "winv w" and "sc_active c"
    and "pdu_wf p" and "Body p = BindRequest b" and "account (sw_users w) (br_SystemID b) (br_Password b)"
  shows "\<exists>err s' c' w'. connectionLifecycle srv
      (\<lambda>_. Running) (\<lambda>_. \<lparr>no_deadline_ok = True, no_write_ok = True\<rparr>) addr (wire_bytes p) c w = (err, s', c', w') \<and>
    se_State s' = SessionStateBoundTRX"
proof -
  let ?nets = "\<lambda>_ :: nat. \<lparr>no_deadline_ok = True, no_write_ok = True\<rparr>"
  have cid: "h_CommandID (Header p) = CommandBindTransceiver"
    using assms(3,4) by (auto elim!: pdu_wfD simp: BindRequest_CommandID_def)
  obtain s0 w1 where l: "connectionLifecycle srv (\<lambda>_. Running) ?nets addr (wire_bytes p) c w =
      lifecycle_loop srv (\<lambda>_. Running) ?nets 0 (wire_bytes p) s0 (conn_SetSession c s0) w1"
    and w1: "sw_users w1 = sw_users w" "sw_handler w1 = sw_handler w" and s0: "session_ok (account (sw_users w1)) s0"
    using connectionLifecycle_start [of srv _ _ addr "wire_bytes p" c w] new_session_open(1) by blast
  have i1: "winv w1" using assms(1) w1 by (simp add: winv_def)
  have r: "read_loop DecodeFromReader 2 (wire_bytes p) =
      ([p], Some (Err (Wrap ''failed to read PDU header'' (Errorf ''EOF''))))"
    using pdu_stream.read_loop_enc [of "[p]" 2] assms(3) by simp
  obtain s1 w2 where 1: "answer srv s0 w1 p =
      (Some (BuildBindTransceiverResp (br_SystemID b) (h_SequenceNum (Header p)) StatusOK), False, s1, w2)"
      "se_State s1 = SessionStateBoundTRX"
    using answer_bind [OF assms(4) cid(1) i1] assms(5) w1 by metis
  have sv: "serve srv s0 w1 [p] =
      ([BuildBindTransceiverResp (br_SystemID b) (h_SequenceNum (Header p)) StatusOK], False, s1, w2)"
    by (simp add: 1 opt_list_def)
  from lifecycle_loop_serve [where k = 0 and signals = "\<lambda>_. Running" and nets = ?nets,
      OF _ _ _ r i1 s0 _ sv, of "conn_SetSession c s0"] assms(2) l 1(2) show ?thesis
    by (auto simp: conn_SetSession_def)
qed

lemma served_session:
  assumes "winv w" and "sc_active c"
    and "pdu_wf p1" and "Body p1 = BindRequest b" and "account (sw_users w) (br_SystemID b) (br_Password b)"
    and "pdu_wf p2" and "Body p2 = SubmitSM m"
    and "message_bytes (ss_ShortMessage m) (ss_OptionalParams m) \<noteq> []"
    and "Decode_text (message_bytes (ss_ShortMessage m) (ss_OptionalParams m)) (ss_DataCoding m) = Ok t"
    and "ValidateMessage (submit_message '''' zs m 0 t) = Ok ()"
    and "pdu_wf p3" and "Body p3 = EmptyBody Unbind"
  shows "\<exists>i n s' c' w' st. connectionLifecycle srv
      (\<lambda>_. Running) (\<lambda>_. \<lparr>no_deadline_ok = True, no_write_ok = True\<rparr>) addr
      (wire_bytes p1 @ wire_bytes p2 @ wire_bytes p3) c w = (None, s', c', w') \<and>
    se_State s' = SessionStateUnbound \<and>
    sc_out c' = sc_out c @
      wire_bytes (BuildBindTransceiverResp (br_SystemID b) (h_SequenceNum (Header p1)) StatusOK) @
      wire_bytes (BuildSubmitSMResp i (h_SequenceNum (Header p2)) StatusOK) @
      wire_bytes (BuildUnbindResp (h_SequenceNum (Header p3))) \<and>
    stored (w_sms (sw_handler w')) = (stored (w_sms (sw_handler w)))(i \<mapsto> st) \<and>
    m_Text st = t \<and> a_Addr (m_SourceAddr st) = ss_SourceAddr m \<and>
    a_Addr (m_DestAddr st) = ss_DestAddr m \<and> m_SessionID st = se_ID s' \<and>
    i = message_ID_at (mh_clock mh n) (mh_clock mh (n + 1)) \<and> m_Status st = MessageStatusSubmitted \<and> m_ID st = i \<and> winv w'"
proof -
  let ?input = "wire_bytes p1 @ wire_bytes p2 @ wire_bytes p3"
    and ?nets = "\<lambda>_ :: nat. \<lparr>no_deadline_ok = True, no_write_ok = True\<rparr>"
  have cid: "h_CommandID (Header p1) = CommandBindTransceiver" "h_CommandID (Header p2) = CommandSubmitSM"
    "h_CommandID (Header p3) = CommandUnbind"
    using assms(3,4,6,7,11,12)
    by (auto elim!: pdu_wfD simp: BindRequest_CommandID_def SubmitSM_CommandID_def)
  obtain s0 w1 where l: "connectionLifecycle srv (\<lambda>_. Running) ?nets addr ?input c w =
      lifecycle_loop srv (\<lambda>_. Running) ?nets 0 ?input s0 (conn_SetSession c s0) w1"
    and w1: "sw_users w1 = sw_users w" "sw_handler w1 = sw_handler w" and s0: "session_ok (account (sw_users w1)) s0"
    using connectionLifecycle_start [of srv _ _ addr ?input c w] new_session_open(1) by blast
  have i1: "winv w1" using assms(1) w1 by (simp add: winv_def)
  have r: "read_loop DecodeFromReader 4 ?input =
      ([p1, p2, p3], Some (Err (Wrap ''failed to read PDU header'' (Errorf ''EOF''))))"
    using pdu_stream.read_loop_enc [of "[p1, p2, p3]" 4] assms(3,6,11) by simp
  obtain s1 w2 where 1: "answer srv s0 w1 p1 =
      (Some (BuildBindTransceiverResp (br_SystemID b) (h_SequenceNum (Header p1)) StatusOK), False, s1, w2)"
      "se_State s1 = SessionStateBoundTRX" "sw_handler w2 = sw_handler w" "winv w2"
    using answer_bind [OF assms(4) cid(1) i1] assms(5) w1 by metis
  obtain i n s2 w3 st where 2: "answer srv s1 w2 p2 =
      (Some (BuildSubmitSMResp i (h_SequenceNum (Header p2)) StatusOK), False, s2, w3)" "se_ID s2 = se_ID s1"
    "stored (w_sms (sw_handler w3)) = (stored (w_sms (sw_handler w2)))(i \<mapsto> st)" "winv w3"
    and st: "m_Text st = t" "a_Addr (m_SourceAddr st) = ss_SourceAddr m"
      "a_Addr (m_DestAddr st) = ss_DestAddr m" "m_SessionID st = se_ID s1"
      "i = message_ID_at (mh_clock mh n) (mh_clock mh (n + 1))" "m_Status st = MessageStatusSubmitted" "m_ID st = i"
    using answer_submit [OF 1(4) assms(7) cid(2) 1(2) assms(8-10)] by blast
  obtain s3 w4 where 3: "answer srv s2 w3 p3 = (Some (BuildUnbindResp (h_SequenceNum (Header p3))), True, s3, w4)"
      "se_State s3 = SessionStateUnbound" "se_ID s3 = se_ID s2" "sw_handler w4 = sw_handler w3" "sw_users w4 = sw_users w3"
    using answer_unbind [OF assms(12) cid(3)] by blast
  have i4: "winv w4" using 2(4) 3(4,5) by (simp add: winv_def)
  have sv: "serve srv s0 w1 [p1, p2, p3] =
      ([BuildBindTransceiverResp (br_SystemID b) (h_SequenceNum (Header p1)) StatusOK,
        BuildSubmitSMResp i (h_SequenceNum (Header p2)) StatusOK, BuildUnbindResp (h_SequenceNum (Header p3))],
       True, s3, w4)"
    by (simp add: 1 2 3 opt_list_def)
  from lifecycle_loop_serve [where k = 0 and signals = "\<lambda>_. Running" and nets = ?nets,
      OF _ _ _ r i1 s0 _ sv, of "conn_SetSession c s0"] assms(2)
  obtain c' where "lifecycle_loop srv (\<lambda>_. Running) ?nets 0 ?input s0 (conn_SetSession c s0) w1 = (None, s3, c', w4)"
      "sc_out c' = sc_out c @ wire_bytes (BuildBindTransceiverResp (br_SystemID b) (h_SequenceNum (Header p1)) StatusOK) @
      wire_bytes (BuildSubmitSMResp i (h_SequenceNum (Header p2)) StatusOK) @
      wire_bytes (BuildUnbindResp (h_SequenceNum (Header p3)))"
    by (auto simp: conn_SetSession_def)
  with l 1 2 3 st i4 show ?thesis by auto
qed

end

interpretation memory_messages: message_server memory_sms_ops sms_store_inv ms_messages "\<lambda>i. i \<noteq> ''''"
  memory_report_ops rs_reports "memory_handler publisher router queue splitter hclock"
  "memory_server (memory_handler publisher router queue splitter hclock) events clock" "\<lambda>u. True" is_account
  for publisher router queue splitter hclock events clock
  by unfold_locales (simp_all add: memory_server_def)

lemma submit_session:
  assumes "sms_store_inv (w_sms (sw_handler w))" and "sc_active c"
    and "pdu_wf p1" and "Body p1 = BindRequest b" and "is_account (sw_users w) (br_SystemID b) (br_Password b)"
    and "pdu_wf p2" and "Body p2 = SubmitSM m"
    and "message_bytes (ss_ShortMessage m) (ss_OptionalParams m) \<noteq> []"
    and "Decode_text (message_bytes (ss_ShortMessage m) (ss_OptionalParams m)) (ss_DataCoding m) = Ok t"
    and "ValidateMessage (submit_message '''' zs m 0 t) = Ok ()"
    and "pdu_wf p3" and "Body p3 = EmptyBody Unbind"
  shows "\<exists>i n s' c' w' stored. connectionLifecycle
      (memory_server (memory_handler publisher router queue splitter hclock) events clock)
      (\<lambda>_. Running) (\<lambda>_. \<lparr>no_deadline_ok = True, no_write_ok = True\<rparr>) addr
      (wire_bytes p1 @ wire_bytes p2 @ wire_bytes p3) c w = (None, s', c', w') \<and>
    se_State s' = SessionStateUnbound \<and>
    sc_out c' = sc_out c @
      wire_bytes (BuildBindTransceiverResp (br_SystemID b) (h_SequenceNum (Header p1)) StatusOK) @
      wire_bytes (BuildSubmitSMResp i (h_SequenceNum (Header p2)) StatusOK) @
      wire_bytes (BuildUnbindResp (h_SequenceNum (Header p3))) \<and>
    ms_messages (w_sms (sw_handler w')) = (ms_messages (w_sms (sw_handler w)))(i \<mapsto> stored) \<and>
    m_Text stored = t \<and> a_Addr (m_SourceAddr stored) = ss_SourceAddr m \<and>
    a_Addr (m_DestAddr stored) = ss_DestAddr m \<and> m_SessionID stored = se_ID s' \<and>
    i = message_ID_at (hclock n) (hclock (n + 1))"
proof -
  have "memory_sessions.winv w" using assms(1) by (simp add: memory_sessions.winv_def)
  from memory_messages.served_session [OF this assms(2-12), of publisher router queue splitter hclock events clock addr]
  show ?thesis by (elim exE conjE) (intro exI conjI, simp_all)
qed

text \<open>
  A client with an account that binds as a transceiver, submits a message that can be decoded and
  is valid, and unbinds, gets the three positive responses with its own sequence numbers and nothing
  else, the server closes the session without an error, and the message is stored under the ID of
  the response, with the text that the client has encoded.
\<close>

theorem submit_over_the_wire:
  assumes "sms_store_inv (w_sms (sw_handler w))" and "sc_active c"
    and "pdu_wf p1" and "Body p1 = BindRequest b" and "is_account (sw_users w) (br_SystemID b) (br_Password b)"
    and "pdu_wf p2" and "Body p2 = SubmitSM m"
    and "message_bytes (ss_ShortMessage m) (ss_OptionalParams m) \<noteq> []"
    and "Decode_text (message_bytes (ss_ShortMessage m) (ss_OptionalParams m)) (ss_DataCoding m) = Ok t"
    and "ValidateMessage (submit_message '''' zs m 0 t) = Ok ()"
    and "pdu_wf p3" and "Body p3 = EmptyBody Unbind"
  shows "\<exists>i s' c' w' stored. connectionLifecycle
      (memory_server (memory_handler publisher router queue splitter hclock) events clock)
      (\<lambda>_. Running) (\<lambda>_. \<lparr>no_deadline_ok = True, no_write_ok = True\<rparr>) addr
      (wire_bytes p1 @ wire_bytes p2 @ wire_bytes p3) c w = (None, s', c', w') \<and>
    se_State s' = SessionStateUnbound \<and>
    sc_out c' = sc_out c @
      wire_bytes (BuildBindTransceiverResp (br_SystemID b) (h_SequenceNum (Header p1)) StatusOK) @
      wire_bytes (BuildSubmitSMResp i (h_SequenceNum (Header p2)) StatusOK) @
      wire_bytes (BuildUnbindResp (h_SequenceNum (Header p3))) \<and>
    ms_messages (w_sms (sw_handler w')) = (ms_messages (w_sms (sw_handler w)))(i \<mapsto> stored) \<and>
    m_Text stored = t \<and> a_Addr (m_SourceAddr stored) = ss_SourceAddr m \<and>
    a_Addr (m_DestAddr stored) = ss_DestAddr m \<and> m_SessionID stored = se_ID s'"
  using submit_session [OF assms, of publisher router queue splitter hclock events clock addr]
  by (elim exE conjE) (intro exI conjI)

section \<open>Idle connections\<close>

lemma conn_Close_simps [simp]:
  "conn_GetSessionID (conn_Close c) = conn_GetSessionID c" "sc_lastActivity (conn_Close c) = sc_lastActivity c"
  "conn_Close (conn_Close c) = conn_Close c"
  by (simp_all add: conn_Close_def conn_GetSessionID_def)

lemma RemoveConnection_map:
  "cm_connections (snd (RemoveConnection cm i)) = (cm_connections cm)(i := None)"
  by (auto simp: RemoveConnection_def)

lemma cleanup_loop_spec:
  "cleanup_loop idle now conns h cm = (h', cm') \<Longrightarrow>
   h' = (\<lambda>c. if c \<in> set conns \<and> now - sc_lastActivity (h c) > idle then conn_Close (h c) else h c) \<and>
   cm_connections cm' = (\<lambda>i. if \<exists>c \<in> set conns. now - sc_lastActivity (h c) > idle \<and> conn_GetSessionID (h c) = i
     then None else cm_connections cm i)"
proof (induction conns arbitrary: h cm)
  case (Cons c conns)
  show ?case
  proof (cases "now - sc_lastActivity (h c) > idle")
    case True
    let ?h = "h(c := conn_Close (h c))"
    have same: "sc_lastActivity (?h d) = sc_lastActivity (h d)" "conn_GetSessionID (?h d) = conn_GetSessionID (h d)" for d
      by simp_all
    have "cleanup_loop idle now conns ?h (snd (RemoveConnection cm (conn_GetSessionID (h c)))) = (h', cm')"
      using Cons.prems True by simp
    note ih = Cons.IH [OF this, unfolded same RemoveConnection_map]
    show ?thesis using ih True by (auto simp: fun_eq_iff)
  next
    case False
    with Cons.prems Cons.IH [of h cm] show ?thesis by (auto simp: fun_eq_iff)
  qed
qed (simp add: fun_eq_iff)

text \<open>
  The periodic clean-up closes exactly the registered connections that have been idle for longer
  than the configured time and removes exactly those from the manager, in whatever order the map is
  iterated; every other connection and entry stays as it is.
\<close>

theorem cleanup_exact:
  assumes "manager_inv h cm" and "enumerates (cm_connections cm) order"
    and "cleanupInactiveConnections srv now order h cm = (h', cm')"
  shows "manager_inv h' cm' \<and>
    (\<forall>i. cm_connections cm' i = (case cm_connections cm i of
       Some c \<Rightarrow> if now - sc_lastActivity (h c) > srv_IdleTimeout srv then None else Some c
     | None \<Rightarrow> None)) \<and>
    (\<forall>c. h' c = (if c \<in> ran (cm_connections cm) \<and> now - sc_lastActivity (h c) > srv_IdleTimeout srv
       then conn_Close (h c) else h c))"
proof -
  let ?idle = "\<lambda>c. now - sc_lastActivity (h c) > srv_IdleTimeout srv"
  have "cleanup_loop (srv_IdleTimeout srv) now (values_in (cm_connections cm) order) h cm = (h', cm')"
    using assms(3) by (simp add: cleanupInactiveConnections_def GetAllConnections_def)
  from cleanup_loop_spec [OF this]
  have h': "h' = (\<lambda>c. if c \<in> ran (cm_connections cm) \<and> ?idle c then conn_Close (h c) else h c)"
    and cm': "cm_connections cm' = (\<lambda>i. if \<exists>c \<in> ran (cm_connections cm). ?idle c \<and> conn_GetSessionID (h c) = i
      then None else cm_connections cm i)"
    by (simp_all add: set_values_in [OF assms(2)])
  have "(\<exists>c \<in> ran (cm_connections cm). ?idle c \<and> conn_GetSessionID (h c) = i) \<longleftrightarrow>
      (\<exists>c. cm_connections cm i = Some c \<and> ?idle c)" for i
    using assms(1) unfolding manager_inv_def ran_def by auto
  then have m: "cm_connections cm' i = (case cm_connections cm i of
       Some c \<Rightarrow> if ?idle c then None else Some c | None \<Rightarrow> None)" for i
    unfolding cm' by (auto split: option.split)

  then have "dom (cm_connections cm') \<subseteq> dom (cm_connections cm)" by (auto split: option.splits)
  with assms(1) m have "manager_inv h' cm'"
    by (auto simp: manager_inv_def h' split: option.splits if_splits intro: finite_subset)
  with h' m show ?thesis by simp
qed

section \<open>Starting and stopping\<close>

text \<open>
  A server can be stopped once: after a \<open>Stop\<close> that succeeded, \<open>Start\<close> succeeds again, but the
  server it starts has its \<open>done\<close> channel closed already, so that it serves nothing, and its \<open>Stop\<close>
  panics.
\<close>

theorem server_stops_once:
  assumes "srv_Stop s = (Ok (), s1)" and "srv_Start True s1 = (Ok (), s2)"
  shows "run_running s2 \<and> run_done s2 \<and> fst (srv_Stop s2) = Panic"
  using assms by (auto simp: srv_Stop_def srv_Start_def split: if_splits)

section \<open>Concrete instances\<close>

abbreviation example_server :: "(user_store, (sms_store, report_store, unit) world) server" where
  "example_server \<equiv> memory_server example_handler True int"

definition example_server_world :: "(user_store, (sms_store, report_store, unit) world) server_world" where
  "example_server_world = \<lparr>sw_users = NewInMemoryUserAuth 0 0, sw_handler = new_world (),
     sw_manager = NewInMemoryConnectionManager, sw_events = [], sw_ticks = 0\<rparr>"

lemma example_server_inv: "sms_store_inv (w_sms (sw_handler example_server_world))"
  by (simp add: example_server_world_def example_world_inv)

theorem handlePDU_response_matches_witness:
  "\<exists>resp err s' w'. handlePDU example_server example_server_world (new_session ''s'' 0) example_link =
     (Some resp, err, s', w') \<and> h_SequenceNum (Header resp) = 7"
proof -
  have "\<exists>s' w'. handlePDU example_server example_server_world (new_session ''s'' 0) example_link =
     (Some (BuildEnquireLinkResp 7), None, s', w')"
    by (simp add: handlePDU_def dispatch_def example_link_def handleEnquireLink_def)
  then show ?thesis using handlePDU_response_matches by (fastforce simp: example_link_def)
qed

theorem unbound_session_refused_witness:
  "\<exists>resp. handlePDU example_server example_server_world (new_session ''s'' 0) example_empty_submit =
     (Some resp, None, (new_session ''s'' 0)\<lparr>se_SequenceNum := 2\<rparr>, example_server_world) \<and>
   h_CommandStatus (Header resp) = StatusInvBnd"
  using unbound_session_refused [of example_empty_submit "{SessionStateBoundTX, SessionStateBoundTRX}"
      "new_session ''s'' 0" example_server example_server_world]
  by (simp add: required_states_def example_empty_submit_def mk_pdu_def)

abbreviation example_conn :: server_connection where
  "example_conn \<equiv> NewServerConnection 0"

abbreviation good_net :: "nat \<Rightarrow> net_outcome" where
  "good_net \<equiv> \<lambda>_. \<lparr>no_deadline_ok = True, no_write_ok = True\<rparr>"

theorem connectionLifecycle_refines_witness:
  "\<exists>err s' c' w' fs. connectionLifecycle example_server (\<lambda>_. Running) good_net ''a'' (wire_bytes example_link)
     example_conn example_server_world = (err, s', c', w') \<and> sc_out c' = concat (map wire_bytes fs)"
proof -
  obtain err s' c' w' where l: "connectionLifecycle example_server (\<lambda>_. Running) good_net ''a''
     (wire_bytes example_link) example_conn example_server_world = (err, s', c', w')" by (metis surj_pair)
  have "sc_active example_conn" "sc_out example_conn = []" by (simp_all add: NewServerConnection_def)
  with connectionLifecycle_refines [OF example_server_inv this(1) _ _ _ l] l show ?thesis by auto
qed

theorem lifecycle_turns_bounded_witness:
  "connectionLifecycle example_server (\<lambda>i. if i = 0 then Running else ServerDone) good_net ''a'' [] example_conn
     example_server_world =
   connectionLifecycle example_server (\<lambda>_. Running) good_net ''a'' [] example_conn example_server_world"
  by (rule lifecycle_turns_bounded) simp

theorem cleanup_exact_witness:
  "\<exists>h' cm'. cleanupInactiveConnections example_server 400000000000 [''s''] example_heap
      \<lparr>cm_connections = [''s'' \<mapsto> 0]\<rparr> = (h', cm') \<and> cm_connections cm' ''s'' = None \<and> \<not> sc_active (h' 0)"
proof -
  obtain h' cm' where c: "cleanupInactiveConnections example_server 400000000000 [''s''] example_heap
      \<lparr>cm_connections = [''s'' \<mapsto> 0]\<rparr> = (h', cm')" by fastforce
  have "manager_inv example_heap \<lparr>cm_connections = [''s'' \<mapsto> 0]\<rparr>"
    by (simp add: manager_inv_def example_heap_def conn_GetSessionID_def)
  moreover have "enumerates (cm_connections \<lparr>cm_connections = [''s'' \<mapsto> 0]\<rparr>) [''s'']"
    by (simp add: enumerates_def)
  ultimately show ?thesis
    using cleanup_exact [OF _ _ c] c by (simp add: example_heap_def memory_server_def conn_Close_def NewServerConnection_def)
qed

theorem server_stops_once_witness:
  "fst (srv_Stop \<lparr>run_running = True, run_done = True\<rparr>) = Panic"
  using server_stops_once [of "\<lparr>run_running = True, run_done = False\<rparr>"
      "\<lparr>run_running = False, run_done = True\<rparr>" "\<lparr>run_running = True, run_done = True\<rparr>"]
  by (simp add: srv_Stop_def srv_Start_def)

definition example_bind :: pdu where
  "example_bind = fst (BuildBindTransceiver NewPDUBuilder ''admin'' ''admin123'' '''')"

definition example_wire_submit :: pdu where
  "example_wire_submit = mk_pdu CommandSubmitSM StatusOK 2 (SubmitSM (example_submit_sm\<lparr>ss_SMLength := 2\<rparr>))"

lemma encoded_wf:
  assumes "body_wf (Body p)" and "length (wire_bytes p) < 2 ^ 32"
  shows "\<exists>p'. pdu_wf p' \<and> Body p' = Body p"
proof -
  obtain bs where "body_Marshal (Body p) = Ok bs" using body_Marshal_ok [OF assms(1)] by blast
  then obtain p' out where e: "Encode p = Ok (p', out)" by (simp add: Encode_def Let_def)
  then have "length out < 2 ^ 32" using assms(2) by (simp add: wire_bytes_def)
  with Encode_pdu_wf(1) [OF assms(1) e] e show ?thesis by (auto elim!: Encode_OkD)
qed

text \<open>The three PDUs of a short session of a user.\<close>

lemma example_submission:
  assumes "fits MaxSystemIDLength i" and "fits MaxPasswordLength pw"
  obtains p1 p2 p3 m where "pdu_wf p1"
    "Body p1 = BindRequest \<lparr>br_SystemID = i, br_Password = pw, br_SystemType = '''', br_InterfaceVersion = SMPPVersion,
       br_AddrTON = TONUnknown, br_AddrNPI = NPIUnknown, br_AddressRange = ''''\<rparr>"
    "pdu_wf p2" "Body p2 = SubmitSM m" "message_bytes (ss_ShortMessage m) (ss_OptionalParams m) \<noteq> []"
    "Decode_text (message_bytes (ss_ShortMessage m) (ss_OptionalParams m)) (ss_DataCoding m) = Ok ''hi''"
    "ValidateMessage (submit_message '''' example_session m 0 ''hi'') = Ok ()"
    "pdu_wf p3" "Body p3 = EmptyBody Unbind"
proof -
  let ?b = "\<lparr>br_SystemID = i, br_Password = pw, br_SystemType = '''', br_InterfaceVersion = SMPPVersion,
       br_AddrTON = TONUnknown, br_AddrNPI = NPIUnknown, br_AddressRange = ''''\<rparr>"
    and ?m = "example_submit_sm\<lparr>ss_SMLength := 2\<rparr>"
  have m: "Body example_wire_submit = SubmitSM ?m" by (simp add: example_wire_submit_def mk_pdu_def)
  have "\<exists>p'. pdu_wf p' \<and> Body p' = Body (mk_pdu CommandBindTransceiver StatusOK 1 (BindRequest ?b))"
    by (rule encoded_wf) (use assms in \<open>simp_all add: mk_pdu_def bind_request_wf_def fits_def wire_bytes_def Encode_def
      BindRequest_Marshal_def Let_def\<close>)
  then obtain p1 where p1: "pdu_wf p1" "Body p1 = BindRequest ?b" by (auto simp: mk_pdu_def)
  have "\<exists>p'. pdu_wf p' \<and> Body p' = Body example_wire_submit"
    by (rule encoded_wf) (simp_all add: m length_wire_SubmitSM [OF m] submit_sm_wf_def submit_sm_fields_def
        example_submit_sm_def zero_submit_sm_def fits_def)
  then obtain p2 where p2: "pdu_wf p2" "Body p2 = SubmitSM ?m" by (auto simp: m)
  have "\<exists>p'. pdu_wf p' \<and> Body p' = Body (BuildUnbindResp 0\<lparr>Body := EmptyBody Unbind\<rparr>)"
    by (rule encoded_wf) (simp_all add: wire_bytes_def Encode_def empty_Marshal_def Let_def)
  then obtain p3 where p3: "pdu_wf p3" "Body p3 = EmptyBody Unbind" by auto
  have c: "message_bytes (ss_ShortMessage ?m) (ss_OptionalParams ?m) \<noteq> []"
    "Decode_text (message_bytes (ss_ShortMessage ?m) (ss_OptionalParams ?m)) (ss_DataCoding ?m) = Ok ''hi''"
    by (simp_all add: example_submit_sm_def message_bytes_def Decode_text_def)
  have "runes ''hi'' = codes ''hi''" by (rule runes_ASCII) (simp add: codes_def)
  then have v: "ValidateMessage (submit_message '''' example_session ?m 0 ''hi'') = Ok ()"
    by (simp add: ValidateMessage_def submit_message_def example_submit_sm_def zero_submit_sm_def
        ValidateText_def GetMaxLength_def isValidTONNPI_def codes_def)
  show thesis by (rule that [OF p1 p2 c v p3])
qed

text \<open>The PDUs that can be read from the bytes of two, and an account of the example and not one.\<close>

lemma frames_of_two:
  assumes "pdu_wf p1" and "pdu_wf p2"
  shows "frames_of (wire_bytes p1 @ wire_bytes p2) = {p1, p2}"
proof -
  have "fst (read_loop DecodeFromReader n []) = []" for n
    by (cases n) (simp_all add: pdu_stream.dec_eof)
  then have "frames_of [] = {}" by (simp add: frames_of_def)
  with frames_of_Ok [OF DecodeFromReader_wire [OF assms(1)], of "wire_bytes p2"]
    frames_of_Ok [OF DecodeFromReader_wire [OF assms(2)], of "[]"]
  show ?thesis by simp
qed

lemma example_accounts:
  "is_account (sw_users example_server_world) ''admin'' ''admin123''"
  "\<not> is_account (sw_users example_server_world) ''admin'' ''guess''"
  by (simp_all add: is_account_def example_server_world_def NewInMemoryUserAuth_def Authenticate_def Let_def)

theorem decoded_pdu_dispatched_witness:
  "\<exists>p1 p2 s resp. Body p1 = BindRequest s \<and> DecodeFromReader (wire_bytes p1 @ wire_bytes p2) = (Ok p1, wire_bytes p2) \<and>
     fst (dispatch example_server example_server_world (new_session ''s'' 0) (h_CommandID (Header p1)) (Body p1) 7) =
       Reply (Some resp) None"
proof -
  obtain p1 p2 p3 m where p: "pdu_wf p1"
    "Body p1 = BindRequest \<lparr>br_SystemID = ''admin'', br_Password = ''guess'', br_SystemType = '''',
       br_InterfaceVersion = SMPPVersion, br_AddrTON = TONUnknown, br_AddrNPI = NPIUnknown, br_AddressRange = ''''\<rparr>"
    "pdu_wf p2" "Body p2 = SubmitSM m"
    by (rule example_submission [of "''admin''" "''guess''"]) (simp_all add: fits_def)
  note d = DecodeFromReader_wire [OF p(1), of "wire_bytes p2"]
  have "h_CommandID (Header p1) = CommandBindTransceiver"
    using p(1,2) by (auto elim!: pdu_wfD simp: BindRequest_CommandID_def)
  with decoded_pdu_dispatched [OF example_server_inv d, of True None None None int True int "new_session ''s'' 0" 7]
  have "\<exists>resp. fst (dispatch example_server example_server_world (new_session ''s'' 0)
      (h_CommandID (Header p1)) (Body p1) 7) = Reply (Some resp) None" by auto
  with p(2) d show ?thesis by blast
qed

theorem bound_session_authenticated_witness:
  "\<exists>p b err s' c' w'. Body p = BindRequest b \<and> connectionLifecycle example_server (\<lambda>_. Running) good_net ''a''
     (wire_bytes p) example_conn example_server_world = (err, s', c', w') \<and>
     se_State s' = SessionStateBoundTRX \<and> se_BindType s' = CommandBindTransceiver \<and>
     is_account (sw_users w') (se_SystemID s') (se_Password s')"
proof -
  obtain p1 p2 p3 m where p: "pdu_wf p1"
    "Body p1 = BindRequest \<lparr>br_SystemID = ''admin'', br_Password = ''admin123'', br_SystemType = '''',
       br_InterfaceVersion = SMPPVersion, br_AddrTON = TONUnknown, br_AddrNPI = NPIUnknown, br_AddressRange = ''''\<rparr>"
    by (rule example_submission [of "''admin''" "''admin123''"]) (simp_all add: fits_def)
  have "memory_sessions.winv example_server_world" "sc_active example_conn"
    by (simp_all add: memory_sessions.winv_def example_server_inv NewServerConnection_def)
  from memory_messages.bound_connection [where addr = "''a''" and publisher = True and router = None and
      queue = None and splitter = None and hclock = int and events = True and clock = int, OF this p] example_accounts(1)
  obtain err s' c' w' where l: "connectionLifecycle example_server (\<lambda>_. Running) good_net ''a''
     (wire_bytes p1) example_conn example_server_world = (err, s', c', w')" "se_State s' = SessionStateBoundTRX"
    by auto
  from bound_session_authenticated [OF example_server_inv l(1)] l p(2) show ?thesis by auto
qed

theorem no_account_no_access_witness:
  "\<exists>p1 p2 b m err s' c' w'. Body p1 = BindRequest b \<and> br_SystemID b = ''admin'' \<and> br_Password b = ''guess'' \<and>
     Body p2 = SubmitSM m \<and> connectionLifecycle example_server (\<lambda>_. Running) good_net ''a''
       (wire_bytes p1 @ wire_bytes p2) example_conn example_server_world = (err, s', c', w') \<and>
     sw_handler w' = sw_handler example_server_world \<and> bind_type_of (se_State s') = None"
proof -
  obtain p1 p2 p3 m where p: "pdu_wf p1"
    "Body p1 = BindRequest \<lparr>br_SystemID = ''admin'', br_Password = ''guess'', br_SystemType = '''',
       br_InterfaceVersion = SMPPVersion, br_AddrTON = TONUnknown, br_AddrNPI = NPIUnknown, br_AddressRange = ''''\<rparr>"
    "pdu_wf p2" "Body p2 = SubmitSM m"
    by (rule example_submission [of "''admin''" "''guess''"]) (simp_all add: fits_def)
  let ?input = "wire_bytes p1 @ wire_bytes p2"
  obtain err s' c' w' where l: "connectionLifecycle example_server (\<lambda>_. Running) good_net ''a'' ?input example_conn
     example_server_world = (err, s', c', w')" by (metis surj_pair)
  have "\<forall>p \<in> frames_of ?input. \<forall>b. Body p = BindRequest b \<longrightarrow>
      \<not> is_account (sw_users example_server_world) (br_SystemID b) (br_Password b)"
    using example_accounts(2) by (simp add: frames_of_two [OF p(1,3)] p(2,4))
  note n = no_account_no_access [OF example_server_inv l this]
  have "br_SystemID b = ''admin'' \<and> br_Password b = ''guess''" if "Body p1 = BindRequest b" for b
    using that p(2) by auto
  with n l p(2,4) show ?thesis by blast
qed

theorem submit_over_the_wire_witness:
  "\<exists>p1 p2 p3 s' c' w'. connectionLifecycle example_server (\<lambda>_. Running) good_net ''a''
     (wire_bytes p1 @ wire_bytes p2 @ wire_bytes p3) example_conn example_server_world = (None, s', c', w') \<and>
   se_State s' = SessionStateUnbound \<and> sc_out c' \<noteq> []"
proof -
  obtain p1 p2 p3 m where p: "pdu_wf p1"
    "Body p1 = BindRequest \<lparr>br_SystemID = ''admin'', br_Password = ''admin123'', br_SystemType = '''',
       br_InterfaceVersion = SMPPVersion, br_AddrTON = TONUnknown, br_AddrNPI = NPIUnknown, br_AddressRange = ''''\<rparr>"
    and p2: "pdu_wf p2" "Body p2 = SubmitSM m" "message_bytes (ss_ShortMessage m) (ss_OptionalParams m) \<noteq> []"
    "Decode_text (message_bytes (ss_ShortMessage m) (ss_OptionalParams m)) (ss_DataCoding m) = Ok ''hi''"
    "ValidateMessage (submit_message '''' example_session m 0 ''hi'') = Ok ()" "pdu_wf p3" "Body p3 = EmptyBody Unbind"
    by (rule example_submission [of "''admin''" "''admin123''"]) (simp_all add: fits_def)
  have a: "is_account (sw_users example_server_world) ''admin'' ''admin123''" "sc_active example_conn"
    by (simp_all add: is_account_def example_server_world_def NewInMemoryUserAuth_def Authenticate_def
        NewServerConnection_def Let_def)
  obtain i s' c' w' where "connectionLifecycle example_server (\<lambda>_. Running) good_net ''a''
     (wire_bytes p1 @ wire_bytes p2 @ wire_bytes p3) example_conn example_server_world = (None, s', c', w')"
    "se_State s' = SessionStateUnbound"
    "sc_out c' = sc_out example_conn @ wire_bytes (BuildBindTransceiverResp ''admin'' (h_SequenceNum (Header p1)) StatusOK) @
      wire_bytes (BuildSubmitSMResp i (h_SequenceNum (Header p2)) StatusOK) @
      wire_bytes (BuildUnbindResp (h_SequenceNum (Header p3)))"
    using submit_over_the_wire [OF example_server_inv a(2) p _ p2, of True None None None int True int "''a''"] a(1) by auto
  moreover have "wire_bytes (BuildUnbindResp n) \<noteq> []" for n
    by (simp add: wire_bytes_def BuildUnbindResp_def mk_pdu_def Encode_def empty_Marshal_def header_bytes_def put_be32_def Let_def)
  ultimately show ?thesis by (metis append_is_Nil_conv)
qed

end
