(* ===== verification/Auth.thy ===== *)
theory Auth
  imports ServerFlow
begin

text \<open>
  \<open>DefaultUserAuth\<close> (\<open>internal/auth/auth.go\<close>): accounts with salted password hashes and the sessions of
  their users, and the server that authenticates against them.  \<open>hash\<close> is SHA-256 with \<open>hex\<close>
  after it, of which nothing is assumed; the values that \<open>generateID\<close> and \<open>generateSalt\<close> draw are arguments
  of the operations that call them.  The logger is there (the constructor of the server that uses
  this component passes one) and writes only.
\<close>

section \<open>State\<close>

record auth_session =
  as_UserID :: string
  as_SystemID :: string
  as_CreatedAt :: time
  as_LastAccess :: time
  as_IPAddress :: string
  as_Permissions :: "operation \<rightharpoonup> bool"

record user_auth =
  da_users :: "string \<rightharpoonup> user"
  da_sessions :: "string \<rightharpoonup> auth_session"

text \<open>A \<open>nil\<close> map of permissions and an empty one are told apart by \<open>CreateUser\<close> and \<open>UpdateUser\<close>.\<close>

record user_request =
  uq_user :: user
  uq_has_permissions :: bool

definition hashPassword :: "(string \<Rightarrow> string) \<Rightarrow> string \<Rightarrow> string \<Rightarrow> string" where
  "hashPassword hash password salt = hash (password @ salt)"

section \<open>Operations\<close>

definition da_Authenticate ::
    "(string \<Rightarrow> string) \<Rightarrow> user_auth \<Rightarrow> time \<Rightarrow> string \<Rightarrow> string \<Rightarrow> user result \<times> user_auth" where
  "da_Authenticate hash a now systemID password =
     (case da_users a systemID of
        None \<Rightarrow> (Err (Errorf ''user not found''), a)
      | Some u \<Rightarrow>
          if \<not> u_Active u then (Err (Errorf ''user inactive''), a)
          else if hashPassword hash password (u_Salt u) \<noteq> u_PasswordHash u
          then (Err (Errorf ''invalid credentials''), a)
          else let u' = u\<lparr>u_LastLogin := now, u_LoginCount := u_LoginCount u + 1\<rparr>
               in (Ok u', a\<lparr>da_users := (da_users a)(systemID \<mapsto> u')\<rparr>))"

text \<open>The permissions of a user that brings none.\<close>

definition default_permissions :: "operation \<rightharpoonup> bool" where
  "default_permissions = [OperationSubmit \<mapsto> True, OperationBind \<mapsto> True, OperationDeliver \<mapsto> True]"

text \<open>The user as \<open>CreateUser\<close> stores it, with a fresh \<open>uid\<close> and \<open>salt\<close> at the times \<open>now1\<close> and \<open>now2\<close>.\<close>

definition created_user :: "(string \<Rightarrow> string) \<Rightarrow> string \<Rightarrow> string \<Rightarrow> time \<Rightarrow> time \<Rightarrow> user_request \<Rightarrow> user" where
  "created_user hash uid salt now1 now2 req =
     (let u0 = uq_user req;
          u1 = (if u_ID u0 = '''' then u0\<lparr>u_ID := uid\<rparr> else u0);
          u2 = (if u_Password u1 \<noteq> ''''
                then u1\<lparr>u_Salt := salt, u_PasswordHash := hashPassword hash (u_Password u1) salt, u_Password := ''''\<rparr>
                else u1);
          u3 = (if IsZero (u_CreatedAt u2) then u2\<lparr>u_CreatedAt := now1\<rparr> else u2);
          u4 = u3\<lparr>u_UpdatedAt := now2\<rparr>
      in if uq_has_permissions req then u4 else u4\<lparr>u_Permissions := default_permissions\<rparr>)"

definition da_CreateUser ::
    "(string \<Rightarrow> string) \<Rightarrow> user_auth \<Rightarrow> string \<Rightarrow> string \<Rightarrow> time \<Rightarrow> time \<Rightarrow> user_request \<Rightarrow> unit result \<times> user_auth" where
  "da_CreateUser hash a uid salt now1 now2 req =
     (let systemID = u_SystemID (uq_user req) in
      if systemID = '''' then (Err (Errorf ''system ID cannot be empty''), a)
      else if da_users a systemID \<noteq> None then (Err (Errorf ''user already exists''), a)
      else (Ok (), a\<lparr>da_users := (da_users a)(systemID \<mapsto> created_user hash uid salt now1 now2 req)\<rparr>))"

definition da_UpdateUser ::
    "(string \<Rightarrow> string) \<Rightarrow> user_auth \<Rightarrow> string \<Rightarrow> time \<Rightarrow> user_request \<Rightarrow> unit result \<times> user_auth" where
  "da_UpdateUser hash a salt now req =
     (let user = uq_user req in
      case da_users a (u_SystemID user) of
        None \<Rightarrow> (Err (Errorf ''user not found''), a)
      | Some existing \<Rightarrow>
          let e1 = existing\<lparr>u_Name := u_Name user, u_Email := u_Email user, u_Active := u_Active user,
                     u_MaxConnections := u_MaxConnections user, u_RateLimit := u_RateLimit user, u_UpdatedAt := now\<rparr>;
              e2 = (if uq_has_permissions req then e1\<lparr>u_Permissions := u_Permissions user\<rparr> else e1);
              e3 = (if u_Password user \<noteq> ''''
                    then e2\<lparr>u_Salt := salt, u_PasswordHash := hashPassword hash (u_Password user) salt\<rparr>
                    else e2)
          in (Ok (), a\<lparr>da_users := (da_users a)(u_SystemID user \<mapsto> e3)\<rparr>))"

definition da_DeleteUser :: "user_auth \<Rightarrow> string \<Rightarrow> unit result \<times> user_auth" where
  "da_DeleteUser a systemID =
     (if da_users a systemID = None then (Err (Errorf ''user not found''), a)
      else (Ok (), a\<lparr>da_users := (da_users a)(systemID := None),
              da_sessions := (\<lambda>i. case da_sessions a i of
                 Some s \<Rightarrow> if as_SystemID s = systemID then None else Some s
               | None \<Rightarrow> None)\<rparr>))"

definition without_secrets :: "user \<Rightarrow> user" where
  "without_secrets u = u\<lparr>u_Password := '''', u_PasswordHash := '''', u_Salt := ''''\<rparr>"

definition da_GetUser :: "user_auth \<Rightarrow> string \<Rightarrow> user result" where
  "da_GetUser a systemID =
     (case da_users a systemID of
        None \<Rightarrow> Err (Errorf ''user not found'')
      | Some u \<Rightarrow> Ok (without_secrets u))"

text \<open>\<open>order\<close> is the order in which the map is iterated.\<close>

definition da_ListUsers :: "user_auth \<Rightarrow> string list \<Rightarrow> user list result" where
  "da_ListUsers a order = Ok (map without_secrets (values_in (da_users a) order))"

definition da_IsAuthorized :: "user_auth \<Rightarrow> string \<Rightarrow> operation \<Rightarrow> bool result" where
  "da_IsAuthorized a systemID op =
     (case da_users a systemID of
        None \<Rightarrow> Err (Errorf ''user not found'')
      | Some u \<Rightarrow>
          if \<not> u_Active u then Err (Errorf ''user inactive'')
          else case u_Permissions u op of None \<Rightarrow> Ok False | Some authorized \<Rightarrow> Ok authorized)"

definition da_CreateSession ::
    "user_auth \<Rightarrow> string \<Rightarrow> time \<Rightarrow> time \<Rightarrow> string \<Rightarrow> string \<Rightarrow> string result \<times> user_auth" where
  "da_CreateSession a uid now1 now2 systemID ipAddress =
     (case da_users a systemID of
        None \<Rightarrow> (Err (Errorf ''user not found''), a)
      | Some u \<Rightarrow>
          (Ok uid, a\<lparr>da_sessions := (da_sessions a)(uid \<mapsto>
             \<lparr>as_UserID = u_ID u, as_SystemID = systemID, as_CreatedAt = now1, as_LastAccess = now2,
              as_IPAddress = ipAddress, as_Permissions = u_Permissions u\<rparr>)\<rparr>))"

definition da_GetSession :: "user_auth \<Rightarrow> time \<Rightarrow> string \<Rightarrow> auth_session result \<times> user_auth" where
  "da_GetSession a now sessionID =
     (case da_sessions a sessionID of
        None \<Rightarrow> (Err (Errorf ''session not found''), a)
      | Some s \<Rightarrow>
          let s' = s\<lparr>as_LastAccess := now\<rparr>
          in (Ok s', a\<lparr>da_sessions := (da_sessions a)(sessionID \<mapsto> s')\<rparr>))"

definition da_DeleteSession :: "user_auth \<Rightarrow> string \<Rightarrow> unit result \<times> user_auth" where
  "da_DeleteSession a sessionID =
     (if da_sessions a sessionID = None then (Err (Errorf ''session not found''), a)
      else (Ok (), a\<lparr>da_sessions := (da_sessions a)(sessionID := None)\<rparr>))"

definition CleanupExpiredSessions :: "user_auth \<Rightarrow> time \<Rightarrow> int \<Rightarrow> user_auth" where
  "CleanupExpiredSessions a now maxAge =
     a\<lparr>da_sessions := (\<lambda>i. case da_sessions a i of
         Some s \<Rightarrow> if now - as_LastAccess s > maxAge then None else Some s
       | None \<Rightarrow> None)\<rparr>"

definition GetActiveSessionsCount :: "user_auth \<Rightarrow> string list \<Rightarrow> string \<Rightarrow> nat" where
  "GetActiveSessionsCount a order systemID =
     length (filter (\<lambda>s. as_SystemID s = systemID) (values_in (da_sessions a) order))"

section \<open>The default users\<close>

definition default_user :: "string \<Rightarrow> string \<Rightarrow> string \<Rightarrow> string \<Rightarrow> string \<Rightarrow> int \<Rightarrow> int \<Rightarrow> operation list \<Rightarrow> user_request" where
  "default_user i systemID password name email conns rate ops =
     \<lparr>uq_user = \<lparr>u_ID = i, u_SystemID = systemID, u_Password = password, u_PasswordHash = '''', u_Salt = '''',
        u_Name = name, u_Email = email, u_SystemType = '''', u_Permissions = map_of (map (\<lambda>x. (x, True)) ops),
        u_MaxConnections = conns, u_RateLimit = rate, u_Active = True, u_Enabled = False,
        u_CreatedAt = zero_time, u_UpdatedAt = zero_time, u_LastLogin = zero_time, u_LoginCount = 0\<rparr>,
      uq_has_permissions = True\<rparr>"

definition default_users :: "user_request list" where
  "default_users =
     [default_user ''user1'' ''test'' ''test'' ''Test User'' ''test@example.com'' 5 100
        [OperationBind, OperationSubmit, OperationDeliver, OperationQuery],
      default_user ''user2'' ''client1'' ''password1'' ''Client One'' ''client1@example.com'' 10 500
        [OperationBind, OperationSubmit, OperationDeliver, OperationQuery, OperationCancel, OperationReplace],
      default_user ''user3'' ''esme'' ''esme123'' ''ESME Client'' ''esme@example.com'' 3 50
        [OperationBind, OperationSubmit, OperationDeliver]]"

text \<open>\<open>draws k\<close> are the ID, the salt and the times of the \<open>k\<close>-th call of \<open>CreateUser\<close>; its error is logged.\<close>

fun addUsers ::
    "(string \<Rightarrow> string) \<Rightarrow> (nat \<Rightarrow> string \<times> string \<times> time \<times> time) \<Rightarrow> nat \<Rightarrow> user_request list \<Rightarrow> user_auth \<Rightarrow> user_auth" where
  "addUsers hash draws k [] a = a"
| "addUsers hash draws k (req # reqs) a =
     (case draws k of (uid, salt, now1, now2) \<Rightarrow>
        addUsers hash draws (k + 1) reqs (snd (da_CreateUser hash a uid salt now1 now2 req)))"

definition NewDefaultUserAuth :: "(string \<Rightarrow> string) \<Rightarrow> (nat \<Rightarrow> string \<times> string \<times> time \<times> time) \<Rightarrow> user_auth" where
  "NewDefaultUserAuth hash draws =
     addUsers hash draws 0 default_users \<lparr>da_users = Map.empty, da_sessions = Map.empty\<rparr>"
section \<open>The state of the component\<close>

text \<open>The states that sequences of operations reach, from the empty component on.\<close>

inductive auth_reach :: "(string \<Rightarrow> string) \<Rightarrow> user_auth \<Rightarrow> bool" for hash where
  empty: "auth_reach hash \<lparr>da_users = Map.empty, da_sessions = Map.empty\<rparr>"
| authenticate: "auth_reach hash a \<Longrightarrow> auth_reach hash (snd (da_Authenticate hash a now i pw))"
| create: "auth_reach hash a \<Longrightarrow> auth_reach hash (snd (da_CreateUser hash a uid salt now1 now2 req))"
| update: "auth_reach hash a \<Longrightarrow> auth_reach hash (snd (da_UpdateUser hash a salt now req))"
| delete: "auth_reach hash a \<Longrightarrow> auth_reach hash (snd (da_DeleteUser a i))"
| create_session: "auth_reach hash a \<Longrightarrow> auth_reach hash (snd (da_CreateSession a uid now1 now2 i ip))"
| get_session: "auth_reach hash a \<Longrightarrow> auth_reach hash (snd (da_GetSession a now i))"
| delete_session: "auth_reach hash a \<Longrightarrow> auth_reach hash (snd (da_DeleteSession a i))"
| cleanup: "auth_reach hash a \<Longrightarrow> auth_reach hash (CleanupExpiredSessions a now maxAge)"

lemma created_user_fields [simp]:
  "u_SystemID (created_user hash uid salt now1 now2 req) = u_SystemID (uq_user req)"
  "u_Password (created_user hash uid salt now1 now2 req) = ''''"
  "u_Active (created_user hash uid salt now1 now2 req) = u_Active (uq_user req)"
  by (simp_all add: created_user_def Let_def)

text \<open>
  Every user is stored under its own, non-empty system ID and without its password, and every
  session belongs to a user that is stored.
\<close>

definition auth_inv :: "user_auth \<Rightarrow> bool" where
  "auth_inv a \<longleftrightarrow>
     (\<forall>i u. da_users a i = Some u \<longrightarrow> u_SystemID u = i \<and> i \<noteq> '''' \<and> u_Password u = '''') \<and>
     (\<forall>k s. da_sessions a k = Some s \<longrightarrow> da_users a (as_SystemID s) \<noteq> None)"

lemma auth_inv_user: "auth_inv a \<Longrightarrow> da_users a i = Some u \<Longrightarrow> u_SystemID u = i \<and> i \<noteq> '''' \<and> u_Password u = ''''"
  by (simp add: auth_inv_def)

lemma auth_inv_set_user:
  assumes "auth_inv a" and "u_SystemID u = i" and "i \<noteq> ''''" and "u_Password u = ''''"
  shows "auth_inv (a\<lparr>da_users := (da_users a)(i \<mapsto> u)\<rparr>)"
  using assms by (auto simp: auth_inv_def)

text \<open>
  In every state that operations reach, users are stored under their own system ID, no plain
  password is kept, and no session outlives its user.
\<close>

theorem auth_reach_inv:
  assumes "auth_reach hash a"
  shows "auth_inv a"
  using assms
proof (induction rule: auth_reach.induct)
  case (authenticate a now i pw)
  show ?case
  proof (cases "da_users a i")
    case (Some u)
    with auth_inv_user [OF authenticate.IH] authenticate.IH show ?thesis
      by (auto simp: da_Authenticate_def Let_def intro!: auth_inv_set_user)
  qed (simp add: da_Authenticate_def authenticate.IH)
next
  case (create a uid salt now1 now2 req)
  then show ?case by (auto simp: da_CreateUser_def Let_def intro!: auth_inv_set_user)
next
  case (update a salt now req)
  show ?case
  proof (cases "da_users a (u_SystemID (uq_user req))")
    case (Some u)
    with auth_inv_user [OF update.IH Some] update.IH show ?thesis
      by (auto simp: da_UpdateUser_def Let_def intro!: auth_inv_set_user)
  qed (simp add: da_UpdateUser_def update.IH)
next
  case (delete a i)
  then show ?case by (fastforce simp: da_DeleteUser_def auth_inv_def split: option.splits)
next
  case (create_session a uid now1 now2 i ip)
  then show ?case by (auto simp: da_CreateSession_def auth_inv_def split: option.splits)
next
  case (get_session a now i)
  then show ?case by (auto simp: da_GetSession_def auth_inv_def Let_def split: option.splits)
next
  case (delete_session a i)
  then show ?case by (auto simp: da_DeleteSession_def auth_inv_def)
next
  case (cleanup a now maxAge)
  then show ?case by (fastforce simp: CleanupExpiredSessions_def auth_inv_def split: option.splits)
qed (simp add: auth_inv_def)

theorem auth_reach_inv_witness:
  "auth_inv (snd (da_CreateUser (\<lambda>x. x) \<lparr>da_users = Map.empty, da_sessions = Map.empty\<rparr> ''id'' ''salt'' 1 2
     (default_user ''user1'' ''test'' ''test'' ''Test User'' ''test@example.com'' 5 100 [OperationBind])))"
  by (rule auth_reach_inv [of "\<lambda>x. x"]) (intro auth_reach.create auth_reach.empty)

section \<open>Accounts\<close>

text \<open>What a component with accounts amounts to: the passwords with which a system ID gets in.\<close>

definition da_account :: "(string \<Rightarrow> string) \<Rightarrow> user_auth \<Rightarrow> string \<Rightarrow> string \<Rightarrow> bool" where
  "da_account hash a i pw \<longleftrightarrow> (case da_users a i of
     Some u \<Rightarrow> u_Active u \<and> hash (pw @ u_Salt u) = u_PasswordHash u
   | None \<Rightarrow> False)"

lemma da_account_users: "da_users a = da_users b \<Longrightarrow> da_account hash a = da_account hash b"
  by (simp add: da_account_def fun_eq_iff)

lemma da_account_set:
  "da_account hash (a\<lparr>da_users := (da_users a)(i \<mapsto> u)\<rparr>)
    = (da_account hash a)(i := (\<lambda>pw. u_Active u \<and> hash (pw @ u_Salt u) = u_PasswordHash u))"
  by (simp add: da_account_def fun_eq_iff)

lemma da_Authenticate_account:
  assumes "da_Authenticate hash a now i pw = (r, a')"
  shows "da_account hash a' = da_account hash a"
    and "case r of Ok u \<Rightarrow> da_account hash a i pw | Err e \<Rightarrow> \<not> da_account hash a i pw | Panic \<Rightarrow> False"
  using assms
  by (auto simp: da_Authenticate_def da_account_def hashPassword_def Let_def fun_eq_iff split: option.splits if_splits)

lemma created_account:
  assumes "u_SystemID (uq_user req) = i" and "u_Password (uq_user req) = p"
  shows "case da_CreateUser hash a uid salt t1 t2 req of
      (Ok x, a') \<Rightarrow> i \<noteq> '''' \<and> da_users a i = None \<and> dom (da_users a') = insert i (dom (da_users a)) \<and>
        da_account hash a' = (da_account hash a)(i := (\<lambda>pw. u_Active (uq_user req) \<and>
          (if p \<noteq> '''' then hash (pw @ salt) = hash (p @ salt)
           else hash (pw @ u_Salt (uq_user req)) = u_PasswordHash (uq_user req))))
    | (Err e, a') \<Rightarrow> (i = '''' \<or> da_users a i \<noteq> None) \<and> a' = a
    | (Panic, a') \<Rightarrow> False"
  using assms
  by (cases "i = ''''"; cases "da_users a i = None")
     (simp_all add: da_CreateUser_def da_account_set created_user_def hashPassword_def Let_def)

lemma updated_account:
  assumes "u_SystemID (uq_user req) = i" and "u_Password (uq_user req) = p"
  shows "case da_UpdateUser hash a salt t1 req of
      (Ok x, a') \<Rightarrow> da_users a i \<noteq> None \<and> dom (da_users a') = dom (da_users a) \<and>
        da_account hash a' = (da_account hash a)(i := (\<lambda>pw. u_Active (uq_user req) \<and>
          (if p \<noteq> '''' then hash (pw @ salt) = hash (p @ salt)
           else hash (pw @ u_Salt (the (da_users a i))) = u_PasswordHash (the (da_users a i)))))
    | (Err e, a') \<Rightarrow> da_users a i = None \<and> a' = a
    | (Panic, a') \<Rightarrow> False"
  using assms
  by (cases "da_users a i") (auto simp: da_UpdateUser_def da_account_set hashPassword_def Let_def)

lemma deleted_account:
  "case da_DeleteUser a i of
      (Ok x, a') \<Rightarrow> da_users a i \<noteq> None \<and> dom (da_users a') = dom (da_users a) - {i} \<and>
        da_account hash a' = (da_account hash a)(i := (\<lambda>pw. False))
    | (Err e, a') \<Rightarrow> da_users a i = None \<and> a' = a
    | (Panic, a') \<Rightarrow> False"
  by (auto simp: da_DeleteUser_def da_account_def fun_eq_iff)

lemma authenticated_account:
  "case da_Authenticate hash a t1 j pw of
      (Ok x, a') \<Rightarrow> da_account hash a j pw \<and> dom (da_users a') = dom (da_users a) \<and>
        da_account hash a' = da_account hash a
    | (Err e, a') \<Rightarrow> \<not> da_account hash a j pw \<and> a' = a
    | (Panic, a') \<Rightarrow> False"
  by (cases "da_users a j") (auto simp: da_Authenticate_def da_account_def hashPassword_def Let_def fun_eq_iff)

lemma session_users [simp]:
  "da_users (snd (da_CreateSession a uid t1 t2 j ip)) = da_users a"
  "da_users (snd (da_GetSession a t1 j)) = da_users a"
  "da_users (snd (da_DeleteSession a j)) = da_users a"
  "da_users (CleanupExpiredSessions a t1 maxAge) = da_users a"
  by (simp_all add: da_CreateSession_def da_GetSession_def da_DeleteSession_def CleanupExpiredSessions_def Let_def
      split: option.split)

text \<open>
  C17. What the operations on users succeed on, and what they do to the accounts.  \<open>CreateUser\<close>
  succeeds exactly for a non-empty system ID that has no user, adds this user, and opens an account with
  the given password (up to a collision of the hash), or, without a password, with the hash and salt that it
  is given.  \<open>UpdateUser\<close> and \<open>DeleteUser\<close> succeed exactly for a system ID that has a user; the first
  replaces the password if there is a new one and else keeps it, the second closes the account.  A call that
  fails changes nothing, and the operations on sessions keep all users.  \<open>Authenticate\<close> succeeds exactly with
  a password of the account and changes no account.
\<close>

theorem accounts_refined:
  assumes "u_SystemID (uq_user req) = i" and "u_Password (uq_user req) = p"
  shows "(case da_CreateUser hash a uid salt t1 t2 req of
      (Ok x, a') \<Rightarrow> i \<noteq> '''' \<and> da_users a i = None \<and> dom (da_users a') = insert i (dom (da_users a)) \<and>
        da_account hash a' = (da_account hash a)(i := (\<lambda>pw. u_Active (uq_user req) \<and>
          (if p \<noteq> '''' then hash (pw @ salt) = hash (p @ salt)
           else hash (pw @ u_Salt (uq_user req)) = u_PasswordHash (uq_user req))))
    | (Err e, a') \<Rightarrow> (i = '''' \<or> da_users a i \<noteq> None) \<and> a' = a
    | (Panic, a') \<Rightarrow> False) \<and>
    (case da_UpdateUser hash a salt t1 req of
      (Ok x, a') \<Rightarrow> da_users a i \<noteq> None \<and> dom (da_users a') = dom (da_users a) \<and>
        da_account hash a' = (da_account hash a)(i := (\<lambda>pw. u_Active (uq_user req) \<and>
          (if p \<noteq> '''' then hash (pw @ salt) = hash (p @ salt)
           else hash (pw @ u_Salt (the (da_users a i))) = u_PasswordHash (the (da_users a i)))))
    | (Err e, a') \<Rightarrow> da_users a i = None \<and> a' = a
    | (Panic, a') \<Rightarrow> False) \<and>
    (case da_DeleteUser a i of
      (Ok x, a') \<Rightarrow> da_users a i \<noteq> None \<and> dom (da_users a') = dom (da_users a) - {i} \<and>
        da_account hash a' = (da_account hash a)(i := (\<lambda>pw. False))
    | (Err e, a') \<Rightarrow> da_users a i = None \<and> a' = a
    | (Panic, a') \<Rightarrow> False) \<and>
    da_users (snd (da_CreateSession a uid t1 t2 j ip)) = da_users a \<and>
    da_users (snd (da_GetSession a t1 j)) = da_users a \<and>
    da_users (snd (da_DeleteSession a j)) = da_users a \<and>
    da_users (CleanupExpiredSessions a t1 maxAge) = da_users a \<and>
    (case da_Authenticate hash a t1 j pw of
      (Ok x, a') \<Rightarrow> da_account hash a j pw \<and> dom (da_users a') = dom (da_users a) \<and>
        da_account hash a' = da_account hash a
    | (Err e, a') \<Rightarrow> \<not> da_account hash a j pw \<and> a' = a
    | (Panic, a') \<Rightarrow> False)"
  using created_account [OF assms] updated_account [OF assms] deleted_account authenticated_account session_users
  by (intro conjI)

theorem accounts_refined_witness:
  "da_account (\<lambda>x. x) (snd (da_CreateUser (\<lambda>x. x) \<lparr>da_users = Map.empty, da_sessions = Map.empty\<rparr> ''id'' ''salt'' 1 2
     (default_user ''user1'' ''test'' ''pass'' ''Test User'' ''test@example.com'' 5 100 [OperationBind]))) ''test'' ''pass''"
  using conjunct1 [OF accounts_refined [OF refl refl, where a = "\<lparr>da_users = Map.empty, da_sessions = Map.empty\<rparr>"
      and hash = "\<lambda>x. x" and uid = "''id''" and salt = "''salt''" and ?t1.0 = 1 and ?t2.0 = 2
      and req = "default_user ''user1'' ''test'' ''pass'' ''Test User'' ''test@example.com'' 5 100 [OperationBind]"]]
  by (simp add: default_user_def da_CreateUser_def Let_def)

lemma dom_default_users: "dom (da_users (NewDefaultUserAuth hash draws)) = {''test'', ''client1'', ''esme''}"
proof -
  obtain i0 s0 a0 b0 i1 s1 a1 b1 i2 s2 a2 b2 where d:
    "draws 0 = (i0, s0, a0, b0)" "draws (Suc 0) = (i1, s1, a1, b1)" "draws (Suc (Suc 0)) = (i2, s2, a2, b2)"
    by (metis prod_cases4)
  show ?thesis
    by (auto simp: NewDefaultUserAuth_def default_users_def default_user_def d eval_nat_numeral da_CreateUser_def Let_def)
qed

text \<open>
  A new component has exactly the three default accounts, each with its password (up to a collision
  of the hash), provided that no call of \<open>CreateUser\<close> fails, which it does not.
\<close>

theorem default_accounts:
  "da_account hash (NewDefaultUserAuth hash draws) i pw \<longleftrightarrow>
     i = ''test'' \<and> hash (pw @ fst (snd (draws 0))) = hash (''test'' @ fst (snd (draws 0))) \<or>
     i = ''client1'' \<and> hash (pw @ fst (snd (draws 1))) = hash (''password1'' @ fst (snd (draws 1))) \<or>
     i = ''esme'' \<and> hash (pw @ fst (snd (draws 2))) = hash (''esme123'' @ fst (snd (draws 2)))"
proof -
  obtain i0 s0 a0 b0 i1 s1 a1 b1 i2 s2 a2 b2 where d:
    "draws 0 = (i0, s0, a0, b0)" "draws (Suc 0) = (i1, s1, a1, b1)" "draws (Suc (Suc 0)) = (i2, s2, a2, b2)"
    by (metis prod_cases4)
  show ?thesis
    by (auto simp: NewDefaultUserAuth_def default_users_def default_user_def d eval_nat_numeral da_CreateUser_def
        created_user_def hashPassword_def da_account_def Let_def)
qed

text \<open>
  The secrets of a user never leave through \<open>GetUser\<close> and \<open>ListUsers\<close>, which otherwise return the stored
  users; \<open>Authenticate\<close> and \<open>IsAuthorized\<close> succeed only for a user that \<open>GetUser\<close> finds and that is active.
\<close>

theorem users_readable_without_secrets:
  assumes "enumerates (da_users a) order"
  shows "\<exists>us. da_ListUsers a order = Ok us \<and> length us = card (dom (da_users a)) \<and>
    set us = {u. \<exists>i. da_GetUser a i = Ok u} \<and>
    (case da_GetUser a i of
       Ok u \<Rightarrow> u_Password u = '''' \<and> u_PasswordHash u = '''' \<and> u_Salt u = '''' \<and>
         da_IsAuthorized a i op = (if u_Active u then Ok (u_Permissions u op = Some True) else Err (Errorf ''user inactive''))
     | Err e \<Rightarrow> da_users a i = None \<and> da_IsAuthorized a i op = Err e
     | Panic \<Rightarrow> False)"
proof -
  let ?us = "map without_secrets (values_in (da_users a) order)"
  have "set ?us = without_secrets ` ran (da_users a)" by (simp add: set_values_in [OF assms])
  also have "\<dots> = {u. \<exists>i. da_GetUser a i = Ok u}"
    by (auto simp: da_GetUser_def ran_def image_def split: option.splits)
  finally have "set ?us = {u. \<exists>i. da_GetUser a i = Ok u}" .
  moreover have "length ?us = card (dom (da_users a))"
    using assms by (simp add: enumerates_def values_in_def distinct_card [symmetric])
  ultimately show ?thesis
    by (auto simp: da_ListUsers_def da_GetUser_def da_IsAuthorized_def without_secrets_def split: option.split)
qed

theorem users_readable_without_secrets_witness:
  "\<exists>us. da_ListUsers (NewDefaultUserAuth (\<lambda>x. x) (\<lambda>k. (''i'', ''s'', 1, 2))) [''test'', ''client1'', ''esme''] = Ok us \<and>
    length us = 3"
proof -
  have e: "enumerates (da_users (NewDefaultUserAuth (\<lambda>x. x) (\<lambda>k. (''i'', ''s'', 1, 2)))) [''test'', ''client1'', ''esme'']"
    by (simp add: enumerates_def dom_default_users)
  from users_readable_without_secrets [OF e, of "''test''" OperationBind] show ?thesis
    by (elim exE conjE) (simp add: dom_default_users)
qed

section \<open>Sessions\<close>

text \<open>
  A session is found under its ID from \<open>CreateSession\<close> on, with the access time moved by each \<open>GetSession\<close>,
  until it is deleted, its user is deleted, or a clean-up finds that its last access is too old.
\<close>

theorem session_life:
  assumes "da_users a i = Some u"
  shows "\<exists>a1 s. da_CreateSession a k t1 t2 i ip = (Ok k, a1) \<and>
    da_GetSession a1 t3 k = (Ok s, a1\<lparr>da_sessions := (da_sessions a1)(k \<mapsto> s)\<rparr>) \<and>
    as_SystemID s = i \<and> as_UserID s = u_ID u \<and> as_IPAddress s = ip \<and> as_LastAccess s = t3 \<and>
    da_sessions (snd (da_DeleteUser a1 i)) k = None \<and>
    da_sessions (snd (da_DeleteSession a1 k)) = (da_sessions a)(k := None) \<and>
    (da_sessions (CleanupExpiredSessions (snd (da_GetSession a1 t3 k)) now maxAge) k = None \<longleftrightarrow> now - t3 > maxAge)"
  using assms
  by (simp add: da_CreateSession_def da_GetSession_def da_DeleteUser_def da_DeleteSession_def
      CleanupExpiredSessions_def Let_def)

theorem session_life_witness:
  "\<exists>a1 s. da_CreateSession (NewDefaultUserAuth (\<lambda>x. x) (\<lambda>k. (''i'', ''s'', 1, 2))) ''k'' 1 2 ''esme'' ''ip'' = (Ok ''k'', a1) \<and>
    da_GetSession a1 3 ''k'' = (Ok s, a1\<lparr>da_sessions := (da_sessions a1)(''k'' \<mapsto> s)\<rparr>) \<and>
    as_UserID s = ''user3''"
proof -
  have "\<exists>u. da_users (NewDefaultUserAuth (\<lambda>x. x) (\<lambda>k. (''i'', ''s'', 1, 2))) ''esme'' = Some u \<and> u_ID u = ''user3''"
    by (simp add: NewDefaultUserAuth_def default_users_def default_user_def da_CreateUser_def created_user_def Let_def)
  then obtain u where "da_users (NewDefaultUserAuth (\<lambda>x. x) (\<lambda>k. (''i'', ''s'', 1, 2))) ''esme'' = Some u" "u_ID u = ''user3''"
    by (elim exE conjE)
  from session_life [OF this(1), of "''k''" 1 2 "''ip''" 3] this(2) show ?thesis by metis
qed

section \<open>The server over this component\<close>

definition hashed_user_ops :: "(string \<Rightarrow> string) \<Rightarrow> user_auth user_auth_ops" where
  "hashed_user_ops hash = \<lparr>ua_Authenticate = da_Authenticate hash\<rparr>"

definition hashed_server ::
    "(string \<Rightarrow> string) \<Rightarrow> ('s, 'r, 'q) handler \<Rightarrow> bool \<Rightarrow> (nat \<Rightarrow> time) \<Rightarrow> (user_auth, ('s, 'r, 'q) world) server" where
  "hashed_server hash mh events clock =
     \<lparr>srv_userAuth = hashed_user_ops hash, srv_messageHandler = handler_ops mh, srv_eventPublisher = events,
      srv_clock = clock, srv_MaxConnections = 100, srv_IdleTimeout = 300000000000\<rparr>"

interpretation hashed_users: authenticator "hashed_user_ops hash" "\<lambda>u. True" "da_account hash" for hash
proof
  fix u now i pw r u'
  assume "ua_Authenticate (hashed_user_ops hash) u now i pw = (r, u')"
  then show "True \<and> da_account hash u' = da_account hash u \<and>
    (case r of Ok usr \<Rightarrow> da_account hash u i pw | Err e \<Rightarrow> \<not> da_account hash u i pw | Panic \<Rightarrow> False)"
    using da_Authenticate_account [of hash u now i pw r u'] by (simp add: hashed_user_ops_def)
qed

interpretation hashed_sessions: session_service
  "hashed_server hash (memory_handler publisher router queue splitter hclock) events clock"
  "\<lambda>u. True" "da_account hash" "\<lambda>h. sms_store_inv (w_sms h)"
  for hash publisher router queue splitter hclock events clock
proof -
  have "srv_userAuth (hashed_server hash (memory_handler publisher router queue splitter hclock) events clock) = hashed_user_ops hash"
    "srv_messageHandler (hashed_server hash (memory_handler publisher router queue splitter hclock) events clock) =
       handler_ops (memory_handler publisher router queue splitter hclock)"
    by (simp_all add: hashed_server_def)
  then show "session_service (hashed_server hash (memory_handler publisher router queue splitter hclock) events clock)
      (\<lambda>u. True) (da_account hash) (\<lambda>h. sms_store_inv (w_sms h))"
    using hashed_users.authenticator_axioms memory_submits.submit_service_axioms
    by (simp add: session_service_def)
qed

text \<open>
  C13. Over this component a client is served only with a password of an account: when none of the bind
  requests in its bytes has one, the message handler's state stays as it is and the session is not
  bound in the end.  A session that is bound has the credentials of an active user with that hash.
\<close>

theorem hashed_accounts_guard_the_server:
  assumes "sms_store_inv (w_sms (sw_handler w))"
    and "connectionLifecycle (hashed_server hash (memory_handler publisher router queue splitter hclock) events clock)
      signals nets addr input c w = (err, s', c', w')"
  shows "da_account hash (sw_users w') = da_account hash (sw_users w) \<and>
    (bind_type_of (se_State s') \<noteq> None \<longrightarrow>
      (\<exists>u. da_users (sw_users w') (se_SystemID s') = Some u \<and> u_Active u \<and>
         hash (se_Password s' @ u_Salt u) = u_PasswordHash u)) \<and>
    ((\<forall>p \<in> frames_of input. \<forall>b. Body p = BindRequest b \<longrightarrow>
        \<not> da_account hash (sw_users w) (br_SystemID b) (br_Password b)) \<longrightarrow>
      sw_handler w' = sw_handler w \<and> bind_type_of (se_State s') = None)"
proof -
  have o: "da_account hash (sw_users w') = da_account hash (sw_users w) \<and>
    session_ok (da_account hash (sw_users w)) s' \<and>
    ((\<forall>p \<in> frames_of input. \<not> valid_bind (da_account hash (sw_users w)) p) \<longrightarrow>
       bind_type_of (se_State s') = None \<and> sw_handler w' = sw_handler w)"
    using hashed_sessions.connection_outcome [OF _ assms(2)] assms(1) by (simp add: hashed_sessions.winv_def)
  have "da_account hash (sw_users w') (se_SystemID s') (se_Password s')" if "bind_type_of (se_State s') \<noteq> None"
    using o that by (auto simp: session_ok_def)
  then have "bind_type_of (se_State s') \<noteq> None \<Longrightarrow> \<exists>u. da_users (sw_users w') (se_SystemID s') = Some u \<and> u_Active u \<and>
      hash (se_Password s' @ u_Salt u) = u_PasswordHash u"
    by (simp add: da_account_def split: option.splits)
  moreover have "\<not> valid_bind (da_account hash (sw_users w)) p"
    if "\<forall>p \<in> frames_of input. \<forall>b. Body p = BindRequest b \<longrightarrow>
        \<not> da_account hash (sw_users w) (br_SystemID b) (br_Password b)" "p \<in> frames_of input" for p
    using that by (auto simp: valid_bind_def split: pdu_body.split)
  ultimately show ?thesis using o by blast
qed


definition hashed_world :: "(user_auth, (sms_store, report_store, unit) world) server_world" where
  "hashed_world = \<lparr>sw_users = NewDefaultUserAuth (\<lambda>x. x) (\<lambda>k. (''i'', ''s'', 1, 2)), sw_handler = new_world (),
     sw_manager = NewInMemoryConnectionManager, sw_events = [], sw_ticks = 0\<rparr>"

lemma hashed_guess: "\<not> da_account (\<lambda>x. x) (sw_users hashed_world) ''test'' ''guess''"
  by (simp add: hashed_world_def default_accounts)

theorem hashed_accounts_guard_the_server_witness:
  "\<exists>p1 p2 b m err s' c' w'. Body p1 = BindRequest b \<and> br_SystemID b = ''test'' \<and> br_Password b = ''guess'' \<and>
     Body p2 = SubmitSM m \<and> connectionLifecycle (hashed_server (\<lambda>x. x) example_handler True int) (\<lambda>_. Running)
       good_net ''a'' (wire_bytes p1 @ wire_bytes p2) example_conn hashed_world = (err, s', c', w') \<and>
     sw_handler w' = sw_handler hashed_world \<and> bind_type_of (se_State s') = None"
proof -
  obtain p1 p2 p3 m where p: "pdu_wf p1"
    "Body p1 = BindRequest \<lparr>br_SystemID = ''test'', br_Password = ''guess'', br_SystemType = '''',
       br_InterfaceVersion = SMPPVersion, br_AddrTON = TONUnknown, br_AddrNPI = NPIUnknown, br_AddressRange = ''''\<rparr>"
    "pdu_wf p2" "Body p2 = SubmitSM m"
    by (rule example_submission [of "''test''" "''guess''"]) (simp_all add: fits_def)
  let ?input = "wire_bytes p1 @ wire_bytes p2"
  obtain err s' c' w' where l: "connectionLifecycle (hashed_server (\<lambda>x. x) example_handler True int) (\<lambda>_. Running)
      good_net ''a'' ?input example_conn hashed_world = (err, s', c', w')" by (metis surj_pair)
  have i: "sms_store_inv (w_sms (sw_handler hashed_world))" by (simp add: hashed_world_def example_world_inv)
  have "\<forall>p \<in> frames_of ?input. \<forall>b. Body p = BindRequest b \<longrightarrow>
      \<not> da_account (\<lambda>x. x) (sw_users hashed_world) (br_SystemID b) (br_Password b)"
    using hashed_guess by (simp add: frames_of_two [OF p(1,3)] p(2,4))
  with hashed_accounts_guard_the_server [OF i l]
  have n: "sw_handler w' = sw_handler hashed_world" "bind_type_of (se_State s') = None" by blast+
  have "br_SystemID b = ''test'' \<and> br_Password b = ''guess''" if "Body p1 = BindRequest b" for b
    using that p(2) by auto
  with n l p(2,4) show ?thesis by blast
qed

end
