(* ===== verification/Client.thy ===== *)
theory Client
  imports Server
begin

text \<open>
  The client (\<open>pkg/smpp/client.go\<close>): connecting, binding, sending, unbinding and disconnecting, the
  handlers of what the server sends, the loop that reads it, and reconnection.

  The goroutines of a client take the operations below in some order; what they can do between the parts of an
  operation is the relation \<open>client_piece\<close> of \<open>ClientFlow\<close>.  The network is
  a sequence of outcomes, as for the server, and the clock is arbitrary.  A callback is user code: the
  state records which callbacks are set and logs their calls.
\<close>

unbundle bit_operations_syntax

section \<open>State\<close>

text \<open>The fields of the configuration that are not timeouts or TLS options, which only the network sees.\<close>

record client_config =
  cc_Host :: string
  cc_Port :: int
  cc_SystemID :: string
  cc_Password :: string
  cc_SystemType :: string
  cc_BindType :: string
  cc_TLSEnabled :: bool
  cc_MaxReconnectAttempts :: int

text \<open>\<open>RebindHook\<close> is the function that \<open>reconnect\<close> installs as the bind callback.\<close>

datatype bind_hook = NoHook | UserHook | RebindHook

datatype client_call =
    CalledConnect | CalledDisconnect "error option" | CalledBind bind_hook | CalledUnbind
  | CalledSubmitResponse string "error option" | CalledMessage message | CalledDeliveryReport delivery_report

record client_hooks =
  hk_onConnect :: bool
  hk_onDisconnect :: bool
  hk_onBind :: bind_hook
  hk_onUnbind :: bool
  hk_onSubmitResponse :: bool
  hk_onMessage :: bool
  hk_onDeliveryReport :: bool

text \<open>
  \<open>cl_out\<close> is what has been written on the present connection, \<open>cl_done\<close> whether the \<open>done\<close> channel is closed,
  \<open>cl_tickers\<close> the number of \<open>periodicTasks\<close> goroutines that run.
\<close>

datatype conn_state = NoConn | OpenConn | ClosedConn

record client =
  cl_config :: client_config
  cl_conn :: conn_state
  cl_out :: "byte list"
  cl_session :: "session option"
  cl_publisher :: bool
  cl_builder :: pdu_builder
  cl_connected :: bool
  cl_bound :: bool
  cl_done :: bool
  cl_tickers :: nat
  cl_reconnectCount :: int
  cl_hooks :: client_hooks
  cl_calls :: "client_call list"
  cl_events :: "event list"
  cl_clock :: "nat \<Rightarrow> time"
  cl_ticks :: nat

definition no_hooks :: client_hooks where
  "no_hooks = \<lparr>hk_onConnect = False, hk_onDisconnect = False, hk_onBind = NoHook, hk_onUnbind = False,
     hk_onSubmitResponse = False, hk_onMessage = False, hk_onDeliveryReport = False\<rparr>"

definition NewClient :: "client_config \<Rightarrow> bool \<Rightarrow> (nat \<Rightarrow> time) \<Rightarrow> client" where
  "NewClient config publisher clock =
     \<lparr>cl_config = config, cl_conn = NoConn, cl_out = [], cl_session = None, cl_publisher = publisher,
      cl_builder = NewPDUBuilder, cl_connected = False, cl_bound = False, cl_done = False, cl_tickers = 0,
      cl_reconnectCount = 0, cl_hooks = no_hooks, cl_calls = [], cl_events = [], cl_clock = clock, cl_ticks = 0\<rparr>"

definition cl_Now :: "client \<Rightarrow> time \<times> client" where
  "cl_Now c = (cl_clock c (cl_ticks c), c\<lparr>cl_ticks := cl_ticks c + 1\<rparr>)"

text \<open>A callback that is not set is not called.\<close>

definition cl_call :: "bool \<Rightarrow> client_call \<Rightarrow> client \<Rightarrow> client" where
  "cl_call is_set call c = (if is_set then c\<lparr>cl_calls := cl_calls c @ [call]\<rparr> else c)"

text \<open>
  The events carry the client's session; \<open>session.ID\<close> of a client without one is a nil dereference, which
  \<open>with_session\<close> makes a panic.
\<close>

definition with_session :: "client \<Rightarrow> (session \<Rightarrow> 'a result \<times> client) \<Rightarrow> 'a result \<times> client" where
  "with_session c k = (case cl_session c of None \<Rightarrow> (Panic, c) | Some s \<Rightarrow> k s)"

definition publish_event :: "client \<Rightarrow> (time \<Rightarrow> event) \<Rightarrow> client" where
  "publish_event c ev = (case cl_Now c of (now, c1) \<Rightarrow> c1\<lparr>cl_events := cl_events c1 @ [ev now]\<rparr>)"

definition connection_event_of ::
    "event_type \<Rightarrow> session \<Rightarrow> string \<Rightarrow> (string \<rightharpoonup> string) \<Rightarrow> time \<Rightarrow> event" where
  "connection_event_of ty s addr data now = ConnectionEvent
     \<lparr>ce_Type = ty, ce_Timestamp = now, ce_SessionID = se_ID s, ce_Session = s, ce_RemoteAddr = addr,
      ce_Data = data\<rparr>"

section \<open>Sending\<close>

definition sendPDU :: "net_outcome \<Rightarrow> client \<Rightarrow> pdu \<Rightarrow> unit result \<times> client" where
  "sendPDU net c p =
     (if \<not> cl_connected c \<or> cl_conn c = NoConn then (Err (Errorf ''client is not connected''), c)
      else case Encode p of
        Panic \<Rightarrow> (Panic, c)
      | Err e \<Rightarrow> (Err (Wrap ''failed to encode PDU'' e), c)
      | Ok (p', data) \<Rightarrow>
          if \<not> no_deadline_ok net \<or> cl_conn c = ClosedConn
          then (Err (Errorf ''failed to set write deadline''), c)
          else if \<not> no_write_ok net then (Err (Errorf ''failed to write data''), c)
          else (Ok (), c\<lparr>cl_out := cl_out c @ data\<rparr>))"

definition cl_getNextSequence :: "client \<Rightarrow> u32 \<times> client" where
  "cl_getNextSequence c =
     (case cl_session c of
        None \<Rightarrow> (1, c)
      | Some s \<Rightarrow>
          let n = se_SequenceNum s + 1
          in (se_SequenceNum s, c\<lparr>cl_session := Some (s\<lparr>se_SequenceNum := if n = 0 then 1 else n\<rparr>)\<rparr>))"

text \<open>The operations of the user.  \<open>dial\<close> is the error with which the dialer fails, if it does.\<close>

definition Connect :: "error option \<Rightarrow> client \<Rightarrow> unit result \<times> client" where
  "Connect dial c =
     (if cl_connected c then (Err (Errorf ''client is already connected''), c)
      else case dial of
        Some e \<Rightarrow>
          (Err (Wrap (if cc_TLSEnabled (cl_config c) then ''failed to connect with TLS'' else ''failed to connect'') e), c)
      | None \<Rightarrow>
          (case cl_Now c of (now1, c1) \<Rightarrow>
           case cl_Now c1 of (now2, c2) \<Rightarrow>
           case cl_Now c2 of (now3, c3) \<Rightarrow>
           let s = new_session (session_ID_at now1 now2) now3;
               c4 = c3\<lparr>cl_conn := OpenConn, cl_out := [], cl_connected := True, cl_session := Some s\<rparr>;
               c5 = (if cl_done c4 then c4 else c4\<lparr>cl_tickers := cl_tickers c4 + 1\<rparr>);
               addr = cc_Host (cl_config c) @ '':'' @ itoa_int (cc_Port (cl_config c));
               c6 = (if cl_publisher c5
                     then publish_event c5 (connection_event_of EventTypeConnected s addr Map.empty)
                     else c5)
           in (Ok (), cl_call (hk_onConnect (cl_hooks c6)) CalledConnect c6)))"

definition bind_PDU :: "client \<Rightarrow> pdu \<times> pdu_builder" where
  "bind_PDU c =
     (let cfg = cl_config c; b = cl_builder c in
      if cc_BindType cfg = ''transmitter''
      then BuildBindTransmitter b (cc_SystemID cfg) (cc_Password cfg) (cc_SystemType cfg)
      else if cc_BindType cfg = ''receiver''
      then BuildBindReceiver b (cc_SystemID cfg) (cc_Password cfg) (cc_SystemType cfg)
      else BuildBindTransceiver b (cc_SystemID cfg) (cc_Password cfg) (cc_SystemType cfg))"

definition Bind :: "net_outcome \<Rightarrow> client \<Rightarrow> unit result \<times> client" where
  "Bind net c =
     (if \<not> cl_connected c then (Err (Errorf ''client is not connected''), c)
      else if cl_bound c then (Err (Errorf ''client is already bound''), c)
      else case bind_PDU c of (bindPDU, b) \<Rightarrow>
        case sendPDU net (c\<lparr>cl_builder := b\<rparr>) bindPDU of (r, c1) \<Rightarrow>
          (res_wrap ''failed to send bind request'' r, c1))"

definition SendSMS :: "net_outcome \<Rightarrow> client \<Rightarrow> string \<Rightarrow> string \<Rightarrow> string \<Rightarrow> unit result \<times> client" where
  "SendSMS net c sourceAddr destAddr message =
     (if \<not> cl_bound c then (Err (Errorf ''client is not bound for transmission''), c)
      else with_session c (\<lambda>s.
        if se_State s \<noteq> SessionStateBoundTX \<and> se_State s \<noteq> SessionStateBoundTRX
        then (Err (Errorf ''client is not bound for transmission''), c)
        else case BuildSubmitSM (cl_builder c) sourceAddr destAddr message of (submitPDU, b) \<Rightarrow>
          case sendPDU net (c\<lparr>cl_builder := b\<rparr>) submitPDU of (r, c1) \<Rightarrow>
            (res_wrap ''failed to send SMS PDU'' r, c1)))"

definition client_Unbind :: "net_outcome \<Rightarrow> client \<Rightarrow> unit result \<times> client" where
  "client_Unbind net c =
     (if \<not> cl_bound c then (Err (Errorf ''client is not bound''), c)
      else case BuildUnbind (cl_builder c) of (unbindPDU, b) \<Rightarrow>
        case sendPDU net (c\<lparr>cl_builder := b\<rparr>) unbindPDU of
          (Err e, c1) \<Rightarrow> (Err (Wrap ''failed to send unbind'' e), c1)
        | (Panic, c1) \<Rightarrow> (Panic, c1)
        | (Ok u, c1) \<Rightarrow>
            with_session (c1\<lparr>cl_bound := False\<rparr>) (\<lambda>s0.
              let s = s0\<lparr>se_State := SessionStateUnbound\<rparr>;
                  c2 = c1\<lparr>cl_bound := False, cl_session := Some s\<rparr>;
                  c3 = (if cl_publisher c2
                        then publish_event c2 (connection_event_of EventTypeUnbound s '''' Map.empty)
                        else c2)
              in (Ok (), cl_call (hk_onUnbind (cl_hooks c3)) CalledUnbind c3)))"

text \<open>\<open>close(c.done)\<close> panics when the channel is closed already.\<close>

definition Disconnect :: "client \<Rightarrow> unit result \<times> client" where
  "Disconnect c =
     (if \<not> cl_connected c then (Err (Errorf ''client is not connected''), c)
      else
        let c1 = c\<lparr>cl_conn := (if cl_conn c = NoConn then NoConn else ClosedConn),
                   cl_connected := False, cl_bound := False\<rparr> in
        if cl_done c1 then (Panic, c1)
        else
          let c2 = c1\<lparr>cl_done := True, cl_tickers := 0\<rparr>;
              c3 = (case cl_session c2 of
                      Some s \<Rightarrow> if cl_publisher c2
                                then publish_event c2 (connection_event_of EventTypeDisconnected s '''' Map.empty)
                                else c2
                    | None \<Rightarrow> c2)
          in (Ok (), cl_call (hk_onDisconnect (cl_hooks c3)) (CalledDisconnect None) c3))"

text \<open>
  The two parts of \<open>Disconnect\<close> between which other goroutines run: what it does under the lock, and the rest, which
  begins with closing \<open>done\<close> and waiting for the read loop.
\<close>

definition Disconnect_locked :: "client \<Rightarrow> client" where
  "Disconnect_locked c = c\<lparr>cl_conn := (if cl_conn c = NoConn then NoConn else ClosedConn),
     cl_connected := False, cl_bound := False\<rparr>"

definition Disconnect_rest :: "client \<Rightarrow> unit result \<times> client" where
  "Disconnect_rest c1 =
     (if cl_done c1 then (Panic, c1)
      else
        let c2 = c1\<lparr>cl_done := True, cl_tickers := 0\<rparr>;
            c3 = (case cl_session c2 of
                    Some s \<Rightarrow> if cl_publisher c2
                              then publish_event c2 (connection_event_of EventTypeDisconnected s '''' Map.empty)
                              else c2
                  | None \<Rightarrow> c2)
        in (Ok (), cl_call (hk_onDisconnect (cl_hooks c3)) (CalledDisconnect None) c3))"

definition sendEnquireLink :: "net_outcome \<Rightarrow> client \<Rightarrow> unit result \<times> client" where
  "sendEnquireLink net c =
     (if \<not> cl_bound c then (Ok (), c)
      else case BuildEnquireLink (cl_builder c) of (enquirePDU, b) \<Rightarrow>
        case sendPDU net (c\<lparr>cl_builder := b\<rparr>) enquirePDU of
          (Panic, c1) \<Rightarrow> (Panic, c1)
        | (r, c1) \<Rightarrow> (Ok (), c1))"

section \<open>Receiving\<close>

definition handleBindResponse :: "client \<Rightarrow> pdu \<Rightarrow> unit result \<times> client" where
  "handleBindResponse c p =
     (if h_CommandStatus (Header p) \<noteq> StatusOK then (Ok (), c)
      else with_session (c\<lparr>cl_bound := True\<rparr>) (\<lambda>s0.
        let s = s0\<lparr>se_State := SessionStateBoundTRX\<rparr>;
            c1 = c\<lparr>cl_bound := True, cl_session := Some s\<rparr>;
            c2 = (if cl_publisher c1
                  then publish_event c1 (connection_event_of EventTypeBound s '''' [''bind_type'' \<mapsto> ''transceiver''])
                  else c1)
        in (Ok (), cl_call (hk_onBind (cl_hooks c2) \<noteq> NoHook) (CalledBind (hk_onBind (cl_hooks c2))) c2)))"

text \<open>An SMS event has no place for a missing session; the client has one when it handles a PDU.\<close>

definition handleSubmitSMResponse :: "client \<Rightarrow> pdu \<Rightarrow> unit result \<times> client" where
  "handleSubmitSMResponse c p =
     (let failed = (\<lambda>e. (Ok (), cl_call (hk_onSubmitResponse (cl_hooks c)) (CalledSubmitResponse '''' (Some e)) c)) in
      if h_CommandStatus (Header p) \<noteq> StatusOK then failed (Errorf ''submit failed with status'')
      else case Body p of
        SubmitSMResp submitResp \<Rightarrow>
          with_session c (\<lambda>s.
            let c1 = (if cl_publisher c
                      then publish_event c (\<lambda>now. SMSEvent \<lparr>sv_Type = EventTypeSMSSubmitted, sv_Timestamp = now,
                             sv_MessageID = sr_MessageID submitResp, sv_Session = s, sv_Message = zero_message,
                             sv_Data = Map.empty\<rparr>)
                      else c)
            in (Ok (), cl_call (hk_onSubmitResponse (cl_hooks c1))
                         (CalledSubmitResponse (sr_MessageID submitResp) None) c1))
      | _ \<Rightarrow> failed (Errorf ''invalid submit_sm_resp PDU type''))"

subsection \<open>Delivery receipts\<close>

text \<open>\<open>strings.Index\<close>\<close>

fun Index :: "string \<Rightarrow> string \<Rightarrow> nat option" where
  "Index [] sub = (if sub = [] then Some 0 else None)"
| "Index (c # s) sub = (if HasPrefix (c # s) sub then Some 0 else map_option Suc (Index s sub))"

text \<open>The text after the first occurrence of a key, up to a space that is not its first character.\<close>

definition receipt_value :: "string \<Rightarrow> string \<Rightarrow> string option" where
  "receipt_value text key =
     (case Index text key of
        None \<Rightarrow> None
      | Some i \<Rightarrow>
          let rest = drop (i + length key) text in
          Some (case Index rest '' '' of
                  Some e \<Rightarrow> if e > 0 then take e rest else rest
                | None \<Rightarrow> rest))"

text \<open>The ten characters after the first occurrence of a key.\<close>

definition receipt_date :: "string \<Rightarrow> string \<Rightarrow> string option" where
  "receipt_date text key =
     (case Index text key of
        None \<Rightarrow> None
      | Some i \<Rightarrow>
          if i + length key + 10 \<le> length text then Some (take 10 (drop (i + length key) text)) else None)"

text \<open>
  \<open>time.Parse("0601021504", s)\<close> of ten characters.  The year may have a sign instead of its first digit;
  the two digits of the other fields are needed, also for the hour, since no character may be left.
\<close>

definition days_from_civil :: "int \<Rightarrow> int \<Rightarrow> int \<Rightarrow> int" where
  "days_from_civil y0 m d =
     (let y = (if m \<le> 2 then y0 - 1 else y0);
          era = y div 400;
          yoe = y mod 400;
          doy = (153 * (if m > 2 then m - 3 else m + 9) + 2) div 5 + d - 1;
          doe = yoe * 365 + yoe div 4 - yoe div 100 + doy
      in era * 146097 + doe - 719468)"

definition digit_val :: "char \<Rightarrow> int" where
  "digit_val c = int (of_char c) - 48"

definition two_digit_value :: "char \<Rightarrow> char \<Rightarrow> int option" where
  "two_digit_value a b = (if is_digit a \<and> is_digit b then Some (10 * digit_val a + digit_val b) else None)"

definition year_value :: "char \<Rightarrow> char \<Rightarrow> int option" where
  "year_value a b =
     (case (if a = CHR ''-'' \<and> is_digit b then Some (- digit_val b)
            else if a = CHR ''+'' \<and> is_digit b then Some (digit_val b)
            else two_digit_value a b) of
        None \<Rightarrow> None
      | Some y \<Rightarrow> Some (if y \<ge> 69 then y + 1900 else y + 2000))"

definition days_in :: "int \<Rightarrow> int \<Rightarrow> int" where
  "days_in m y =
     (if m = 2 then if y mod 4 = 0 \<and> (y mod 100 \<noteq> 0 \<or> y mod 400 = 0) then 29 else 28
      else if m \<in> {4, 6, 9, 11} then 30 else 31)"

definition Parse_0601021504 :: "string \<Rightarrow> time option" where
  "Parse_0601021504 s =
     (case s of
        [y1, y2, m1, m2, d1, d2, h1, h2, n1, n2] \<Rightarrow>
          (case (year_value y1 y2, two_digit_value m1 m2, two_digit_value d1 d2, two_digit_value h1 h2,
                 two_digit_value n1 n2) of
             (Some y, Some m, Some d, Some h, Some n) \<Rightarrow>
               if 1 \<le> m \<and> m \<le> 12 \<and> 1 \<le> d \<and> d \<le> days_in m y \<and> h < 24 \<and> n < 60
               then Some ((days_from_civil y m d * 86400 + h * 3600 + n * 60) * 1000000000)
               else None
           | _ \<Rightarrow> None)
      | _ \<Rightarrow> None)"

definition parseDeliveryReceipt :: "deliver_sm \<Rightarrow> delivery_report" where
  "parseDeliveryReceipt d =
     (let text = of_bytes (ds_ShortMessage d);
          r0 = zero_delivery_report\<lparr>r_Text := text\<rparr>;
          r1 = (case receipt_value text ''id:'' of Some v \<Rightarrow> r0\<lparr>r_MessageID := v\<rparr> | None \<Rightarrow> r0);
          r2 = (case receipt_value text ''stat:'' of Some v \<Rightarrow> r1\<lparr>r_Status := v\<rparr> | None \<Rightarrow> r1);
          r3 = (case Option.bind (receipt_date text ''submit date:'') Parse_0601021504 of
                  Some t \<Rightarrow> r2\<lparr>r_SubmitTime := t\<rparr> | None \<Rightarrow> r2);
          r4 = (case Option.bind (receipt_date text ''done date:'') Parse_0601021504 of
                  Some t \<Rightarrow> r3\<lparr>r_DoneTime := t, r_Timestamp := t\<rparr> | None \<Rightarrow> r3);
          r5 = (if r_MessageID r4 = '''' then r4\<lparr>r_MessageID := receipted_message_ID (ds_OptionalParams d)\<rparr> else r4)
      in if r_MessageID r5 = '''' then r5\<lparr>r_MessageID := ds_SourceAddr d\<rparr> else r5)"

definition client_message :: "deliver_sm \<Rightarrow> message" where
  "client_message d = zero_message
     \<lparr>m_SourceAddr := \<lparr>a_TON = ds_SourceAddrTON d, a_NPI = ds_SourceAddrNPI d, a_Addr = ds_SourceAddr d\<rparr>,
      m_DestAddr := \<lparr>a_TON = ds_DestAddrTON d, a_NPI = ds_DestAddrNPI d, a_Addr = ds_DestAddr d\<rparr>,
      m_ShortMessage := ds_ShortMessage d, m_DataCoding := ds_DataCoding d, m_EsmClass := ds_EsmClass d\<rparr>"

definition client_handleDeliverSM :: "net_outcome \<Rightarrow> client \<Rightarrow> deliver_sm \<Rightarrow> unit result \<times> client" where
  "client_handleDeliverSM net c d =
     (case cl_getNextSequence c of (seq, c1) \<Rightarrow>
      case sendPDU net c1 (BuildDeliverSMResp '''' seq StatusOK) of
        (Err e, c2) \<Rightarrow> (Err (Wrap ''failed to send deliver_sm_resp'' e), c2)
      | (Panic, c2) \<Rightarrow> (Panic, c2)
      | (Ok u, c2) \<Rightarrow>
          if ds_EsmClass d AND 0x04 \<noteq> 0 then
            let report = parseDeliveryReceipt d;
                c3 = (if cl_publisher c2
                      then publish_event c2 (\<lambda>now. DeliveryEvent \<lparr>de_Type = EventTypeDeliveryReport,
                             de_Timestamp = now, de_MessageID = r_MessageID report, de_Report = report,
                             de_Session = cl_session c2, de_Data = Map.empty\<rparr>)
                      else c2)
            in (Ok (), cl_call (hk_onDeliveryReport (cl_hooks c3)) (CalledDeliveryReport report) c3)
          else (Ok (), cl_call (hk_onMessage (cl_hooks c2)) (CalledMessage (client_message d)) c2))"

definition client_handleEnquireLink :: "net_outcome \<Rightarrow> client \<Rightarrow> unit result \<times> client" where
  "client_handleEnquireLink net c =
     (case cl_getNextSequence c of (seq, c1) \<Rightarrow> sendPDU net c1 (BuildEnquireLinkResp seq))"

text \<open>The dispatch; \<open>pdu.Body.(*DeliverSM)\<close> panics when the body has another type.\<close>

definition client_handlePDU :: "net_outcome \<Rightarrow> client \<Rightarrow> pdu \<Rightarrow> unit result \<times> client" where
  "client_handlePDU net c p =
     (let cid = h_CommandID (Header p) in
      if cid \<in> {CommandBindTransceiverResp, CommandBindReceiverResp, CommandBindTransmitterResp}
      then handleBindResponse c p
      else if cid = CommandSubmitSMResp then handleSubmitSMResponse c p
      else if cid = CommandDeliverSM then
        (case Body p of DeliverSM d \<Rightarrow> client_handleDeliverSM net c d | _ \<Rightarrow> (Panic, c))
      else if cid = CommandEnquireLink then
        (case Body p of EmptyBody EnquireLink \<Rightarrow> client_handleEnquireLink net c | _ \<Rightarrow> (Panic, c))
      else (Ok (), c))"

section \<open>The read loop and the loss of a connection\<close>

text \<open>
  \<open>handleDisconnection\<close> runs in its own goroutine; the flag tells whether it starts \<open>reconnect\<close>.
\<close>

definition handleDisconnection :: "error \<Rightarrow> client \<Rightarrow> bool \<times> client" where
  "handleDisconnection err c =
     (if \<not> cl_connected c then (False, c)
      else
        let c1 = c\<lparr>cl_connected := False, cl_bound := False, cl_conn := NoConn\<rparr>;
            c2 = cl_call (hk_onDisconnect (cl_hooks c1)) (CalledDisconnect (Some err)) c1
        in (cc_MaxReconnectAttempts (cl_config c2) > 0, c2))"

text \<open>One turn after a PDU has been read: an error of the handler is logged, a panic is not recovered.\<close>

definition read_turn :: "net_outcome \<Rightarrow> client \<Rightarrow> pdu \<Rightarrow> unit result \<times> client" where
  "read_turn net c p =
     (let c1 = (case cl_session c of
                  Some s \<Rightarrow> (case cl_Now c of (now, c') \<Rightarrow> c'\<lparr>cl_session := Some (s\<lparr>se_LastActivity := now\<rparr>)\<rparr>)
                | None \<Rightarrow> c)
      in case client_handlePDU net c1 p of
        (Panic, c2) \<Rightarrow> (Panic, c2)
      | (_, c2) \<Rightarrow> (Ok (), c2))"

text \<open>
  What the loop ends with.  A timeout does not continue the loop: the decoder has wrapped the error, which
  is then no \<open>net.Error\<close>.
\<close>

datatype read_end = LoopStopped | LoopLost error | LoopPanicked

function readLoop :: "(nat \<Rightarrow> net_outcome) \<Rightarrow> nat \<Rightarrow> byte list \<Rightarrow> client \<Rightarrow> read_end \<times> client" where
  "readLoop nets k input c =
     (if cl_done c \<or> \<not> cl_connected c \<or> cl_conn c = NoConn then (LoopStopped, c)
      else case DecodeFromReader input of
        (Err e, rest) \<Rightarrow> (LoopLost e, c)
      | (Panic, rest) \<Rightarrow> (LoopPanicked, c)
      | (Ok p, rest) \<Rightarrow>
          (case read_turn (nets k) c p of
             (Panic, c') \<Rightarrow> (LoopPanicked, c')
           | (_, c') \<Rightarrow> readLoop nets (k + 1) rest c'))"
  by pat_completeness auto
termination
  by (relation "measure (\<lambda>(nets, k, input, c). length input)") (auto intro: pdu_stream.dec_progress [OF sym])

declare readLoop.simps [simp del]

section \<open>Reconnection\<close>

text \<open>
  What one attempt meets: the outcome of the dialer and of the write of the bind request, and the PDUs
  that arrive while it waits for the bind response.
\<close>

record reconnect_try =
  ry_dial :: "error option"
  ry_net :: net_outcome
  ry_pdus :: "pdu list"

fun read_turns :: "net_outcome \<Rightarrow> pdu list \<Rightarrow> client \<Rightarrow> unit result \<times> client" where
  "read_turns net [] c = (Ok (), c)"
| "read_turns net (p # ps) c =
     (if cl_done c \<or> \<not> cl_connected c then (Ok (), c)
      else case read_turn net c p of
        (Panic, c') \<Rightarrow> (Panic, c')
      | (_, c') \<Rightarrow> read_turns net ps c')"

text \<open>How an attempt ends; the bind hook has run when a \<open>CalledBind RebindHook\<close> has been logged since.\<close>

datatype attempt_end = Reconnected | TryAgain | AttemptPanicked

definition give_up_attempt :: "client \<Rightarrow> attempt_end \<times> client" where
  "give_up_attempt c = (case Disconnect c of (Panic, c') \<Rightarrow> (AttemptPanicked, c') | (_, c') \<Rightarrow> (TryAgain, c'))"

definition reconnect_attempt :: "reconnect_try \<Rightarrow> client \<Rightarrow> attempt_end \<times> client" where
  "reconnect_attempt try c0 =
     (case Connect (ry_dial try) (c0\<lparr>cl_reconnectCount := cl_reconnectCount c0 + 1\<rparr>) of
        (Err e, c1) \<Rightarrow> (TryAgain, c1)
      | (Panic, c1) \<Rightarrow> (AttemptPanicked, c1)
      | (Ok u, c1) \<Rightarrow>
          (case Bind (ry_net try) (c1\<lparr>cl_hooks := (cl_hooks c1)\<lparr>hk_onBind := RebindHook\<rparr>\<rparr>) of
             (Err e, c2) \<Rightarrow> give_up_attempt c2
           | (Panic, c2) \<Rightarrow> (AttemptPanicked, c2)
           | (Ok v, c2) \<Rightarrow>
               (case read_turns (ry_net try) (ry_pdus try) c2 of
                  (Panic, c3) \<Rightarrow> (AttemptPanicked, c3)
                | (_, c3) \<Rightarrow>
                    if CalledBind RebindHook \<in> set (drop (length (cl_calls c2)) (cl_calls c3))
                    then (Reconnected, c3\<lparr>cl_reconnectCount := 0\<rparr>)
                    else give_up_attempt c3)))"

text \<open>No operation changes the configuration, the clock or the count of reconnections.\<close>

definition same_frame :: "client \<Rightarrow> client \<Rightarrow> bool" where
  "same_frame c c' \<longleftrightarrow> cl_config c' = cl_config c \<and> cl_clock c' = cl_clock c \<and> cl_publisher c' = cl_publisher c
     \<and> cl_reconnectCount c' = cl_reconnectCount c"

named_theorems frame_intros "operations of the client that keep the frame"

lemma same_frame_refl [simp]: "same_frame c c"
  by (simp add: same_frame_def)

lemma same_frame_trans: "same_frame a b \<Longrightarrow> same_frame b c \<Longrightarrow> same_frame a c"
  by (simp add: same_frame_def)

lemma same_frame_updates [simp]:
  "same_frame c (c'\<lparr>cl_conn := x1\<rparr>) = same_frame c c'"
  "same_frame c (c'\<lparr>cl_out := x2\<rparr>) = same_frame c c'"
  "same_frame c (c'\<lparr>cl_session := x3\<rparr>) = same_frame c c'"
  "same_frame c (c'\<lparr>cl_builder := x4\<rparr>) = same_frame c c'"
  "same_frame c (c'\<lparr>cl_connected := x5\<rparr>) = same_frame c c'"
  "same_frame c (c'\<lparr>cl_bound := x5\<rparr>) = same_frame c c'"
  "same_frame c (c'\<lparr>cl_done := x5\<rparr>) = same_frame c c'"
  "same_frame c (c'\<lparr>cl_tickers := x6\<rparr>) = same_frame c c'"
  "same_frame c (c'\<lparr>cl_hooks := x7\<rparr>) = same_frame c c'"
  "same_frame c (c'\<lparr>cl_calls := x8\<rparr>) = same_frame c c'"
  "same_frame c (c'\<lparr>cl_events := x9\<rparr>) = same_frame c c'"
  "same_frame c (c'\<lparr>cl_ticks := x10\<rparr>) = same_frame c c'"
  by (simp_all add: same_frame_def)

lemma same_frame_helpers [simp]:
  "same_frame c (cl_call is_set call c') = same_frame c c'"
  "same_frame c (publish_event c' ev) = same_frame c c'"
  "same_frame c (snd (cl_Now c')) = same_frame c c'"
  "same_frame c (snd (cl_getNextSequence c')) = same_frame c c'"
  "same_frame c (snd (sendPDU net c' p)) = same_frame c c'"
  by (simp_all add: cl_call_def publish_event_def cl_Now_def cl_getNextSequence_def sendPDU_def Let_def
      split: option.split result.split prod.split)

lemma same_frame_with_session [simp]:
  "(\<And>s. same_frame c (snd (k s))) \<Longrightarrow> same_frame c c' \<Longrightarrow> same_frame c (snd (with_session c' k))"
  by (simp add: with_session_def split: option.split)

lemma sendPDU_frame: "sendPDU net c p = (r, c') \<Longrightarrow> same_frame d c' = same_frame d c"
  using same_frame_helpers(5) [of d net c p] by simp

lemma getNextSequence_frame: "cl_getNextSequence c = (n, c') \<Longrightarrow> same_frame d c' = same_frame d c"
  using same_frame_helpers(4) [of d c] by simp

lemma Connect_frame [simp]: "same_frame c (snd (Connect dial c))"
  by (simp add: Connect_def cl_Now_def Let_def split: option.split)

lemma Bind_frame [simp]: "same_frame c (snd (Bind net c))"
  by (auto simp: Bind_def sendPDU_frame split: prod.split)

lemma Disconnect_frame [simp]: "same_frame c (snd (Disconnect c))"
  by (simp add: Disconnect_def Let_def split: option.split)

lemma handleBindResponse_frame [simp]: "same_frame c (snd (handleBindResponse c p))"
  by (simp add: handleBindResponse_def Let_def)

lemma handleSubmitSMResponse_frame [simp]: "same_frame c (snd (handleSubmitSMResponse c p))"
  by (simp add: handleSubmitSMResponse_def Let_def split: pdu_body.split)

lemma client_handleDeliverSM_frame [simp]: "same_frame c (snd (client_handleDeliverSM net c d))"
  by (auto simp: client_handleDeliverSM_def sendPDU_frame getNextSequence_frame Let_def
      split: prod.split result.split)

lemma client_handleEnquireLink_frame [simp]: "same_frame c (snd (client_handleEnquireLink net c))"
  by (auto simp: client_handleEnquireLink_def getNextSequence_frame split: prod.split)

lemma client_handlePDU_frame: "same_frame c (snd (client_handlePDU net c p))"
  unfolding client_handlePDU_def Let_def
  by (simp split: pdu_body.split empty_pdu.split)

lemma handled_frame: "client_handlePDU net c p = (r, c') \<Longrightarrow> same_frame d c' = same_frame d c"
  using client_handlePDU_frame [of c net p] by (simp add: same_frame_def)

lemma read_turn_frame: "read_turn net c p = (r, c') \<Longrightarrow> same_frame c c'"
  by (auto simp: read_turn_def cl_Now_def Let_def handled_frame split: option.splits result.splits prod.splits)

lemma read_turns_frame: "same_frame c (snd (read_turns net ps c))"
proof (induction ps arbitrary: c)
  case (Cons p ps)
  then show ?case
    using read_turn_frame [of net c p]
    by (auto split: prod.split result.split intro: same_frame_trans)
qed simp

lemma give_up_attempt_frame: "give_up_attempt c = (e, c') \<Longrightarrow> same_frame c c'"
  using Disconnect_frame [of c] by (cases "Disconnect c") (auto simp: give_up_attempt_def split: result.splits)

lemma reconnect_attempt_count:
  assumes "reconnect_attempt try c = (TryAgain, c')"
  shows "cl_config c' = cl_config c \<and> cl_reconnectCount c' = cl_reconnectCount c + 1"
proof -
  let ?c0 = "c\<lparr>cl_reconnectCount := cl_reconnectCount c + 1\<rparr>"
  obtain r1 c1 where 1: "Connect (ry_dial try) ?c0 = (r1, c1)" by fastforce
  let ?c1 = "c1\<lparr>cl_hooks := (cl_hooks c1)\<lparr>hk_onBind := RebindHook\<rparr>\<rparr>"
  obtain r2 c2 where 2: "Bind (ry_net try) ?c1 = (r2, c2)" by fastforce
  obtain r3 c3 where 3: "read_turns (ry_net try) (ry_pdus try) c2 = (r3, c3)" by fastforce
  have f: "same_frame ?c0 c1" "same_frame ?c1 c2" "same_frame c2 c3"
    using Connect_frame [of ?c0 "ry_dial try"] Bind_frame [of ?c1 "ry_net try"]
      read_turns_frame [of c2 "ry_net try" "ry_pdus try"] 1 2 3 by simp_all
  from assms have "c' = c1 \<or> give_up_attempt c2 = (TryAgain, c') \<or> give_up_attempt c3 = (TryAgain, c')"
    by (auto simp: reconnect_attempt_def 1 2 3 split: result.splits if_splits)
  with f give_up_attempt_frame show ?thesis by (fastforce simp: same_frame_def)
qed

text \<open>The loop: \<open>tries k\<close> is what its \<open>k\<close>-th attempt meets.\<close>

datatype reconnect_end = ReconnectOK | GaveUp | ReconnectPanicked

function reconnect :: "(nat \<Rightarrow> reconnect_try) \<Rightarrow> nat \<Rightarrow> client \<Rightarrow> reconnect_end \<times> client" where
  "reconnect tries k c =
     (if cl_reconnectCount c < cc_MaxReconnectAttempts (cl_config c) then
        (case reconnect_attempt (tries k) c of
           (Reconnected, c') \<Rightarrow> (ReconnectOK, c')
         | (AttemptPanicked, c') \<Rightarrow> (ReconnectPanicked, c')
         | (TryAgain, c') \<Rightarrow> reconnect tries (k + 1) c')
      else (GaveUp, c))"
  by pat_completeness auto
termination
  by (relation "measure (\<lambda>(tries, k, c). nat (cc_MaxReconnectAttempts (cl_config c) - cl_reconnectCount c))")
    (auto dest: reconnect_attempt_count [OF sym])

declare reconnect.simps [simp del]

section \<open>Setting callbacks and reading the state\<close>

definition OnConnect :: "client \<Rightarrow> client" where
  "OnConnect c = c\<lparr>cl_hooks := (cl_hooks c)\<lparr>hk_onConnect := True\<rparr>\<rparr>"

definition OnDisconnect :: "client \<Rightarrow> client" where
  "OnDisconnect c = c\<lparr>cl_hooks := (cl_hooks c)\<lparr>hk_onDisconnect := True\<rparr>\<rparr>"

definition OnBind :: "client \<Rightarrow> client" where
  "OnBind c = c\<lparr>cl_hooks := (cl_hooks c)\<lparr>hk_onBind := UserHook\<rparr>\<rparr>"

definition OnUnbind :: "client \<Rightarrow> client" where
  "OnUnbind c = c\<lparr>cl_hooks := (cl_hooks c)\<lparr>hk_onUnbind := True\<rparr>\<rparr>"

definition OnSubmitResponse :: "client \<Rightarrow> client" where
  "OnSubmitResponse c = c\<lparr>cl_hooks := (cl_hooks c)\<lparr>hk_onSubmitResponse := True\<rparr>\<rparr>"

definition OnMessage :: "client \<Rightarrow> client" where
  "OnMessage c = c\<lparr>cl_hooks := (cl_hooks c)\<lparr>hk_onMessage := True\<rparr>\<rparr>"

definition OnDeliveryReport :: "client \<Rightarrow> client" where
  "OnDeliveryReport c = c\<lparr>cl_hooks := (cl_hooks c)\<lparr>hk_onDeliveryReport := True\<rparr>\<rparr>"

definition IsConnected :: "client \<Rightarrow> bool" where
  "IsConnected c = cl_connected c"

definition IsBound :: "client \<Rightarrow> bool" where
  "IsBound c = cl_bound c"

definition GetSession :: "client \<Rightarrow> session option" where
  "GetSession c = cl_session c"

end
