(* ===== verification/ClientFlow.thy ===== *)
theory ClientFlow
  imports Client ServerFlow
begin

text \<open>
  What a client does in sequence: the invariant of its state, its read loop on arbitrary bytes, what it
  answers, reconnection, and a whole exchange between a client and the server.
\<close>

section \<open>The wire, once more\<close>

lemma no_nul_append [simp]: "no_nul (a @ b) \<longleftrightarrow> no_nul a \<and> no_nul b"
  by (auto simp: no_nul_def)

lemma no_nul_itoa [simp]: "no_nul (itoa n)"
  using itoa_digits [of n] by (auto simp: no_nul_def list_all_iff is_digit_def)

lemma no_nul_Cons [simp]: "no_nul [] \<and> (no_nul (c # s) \<longleftrightarrow> c \<noteq> CHR 0x00 \<and> no_nul s)"
  by (auto simp: no_nul_def)

lemma no_nul_message_ID [simp]: "no_nul (message_ID_at a b)"
  by (simp add: message_ID_at_def itoa_int_def)

lemma length_itoa: "n < 10 ^ k \<Longrightarrow> 0 < k \<Longrightarrow> length (itoa n) \<le> k"
proof (induction n arbitrary: k rule: itoa.induct)
  case (1 n)
  show ?case
  proof (cases "n < 10")
    case True
    with 1(3) show ?thesis by (simp add: itoa.simps [of n])
  next
    case False
    with 1(2) obtain m where k: "k = Suc m" "0 < m" by (cases k; cases "k - 1") auto
    have "n div 10 < 10 ^ m" using 1(2) by (simp add: k(1) less_mult_imp_div_less mult.commute)
    from 1(1) [OF False this k(2)] show ?thesis using False by (simp add: itoa.simps [of n] k(1))
  qed
qed

lemma length_message_ID:
  assumes "0 \<le> a" and "a < 10 ^ 19"
  shows "length (message_ID_at a b) \<le> 31"
proof -
  have "nat a < 10 ^ 19" using assms by (simp add: nat_less_iff)
  from length_itoa [OF this] have "length (itoa_int a) \<le> 19" using assms(1) by (simp add: itoa_int_def)
  moreover have "length (itoa_int c) \<le> 6" if "- 100000 < c" "c < 100000" for c
  proof -
    have "nat c < 100000" "nat (- c) < 100000" using that by linarith+
    then show ?thesis
      using length_itoa [of "nat c" 5] length_itoa [of "nat (- c)" 5] by (simp add: itoa_int_def)
  qed
  then have "length (itoa_int (go_rem (Unix b) 100000)) \<le> 6" by (simp add: go_rem_def)
  ultimately show ?thesis by (simp add: message_ID_at_def)
qed

text \<open>What the receiver gets of a PDU that can be sent: the PDU with its header completed.\<close>

lemma wire_encoded:
  assumes "body_wf (Body p)" and "length (wire_bytes p) < 2 ^ 32"
  obtains p' where "Encode p = Ok (p', wire_bytes p)" and "pdu_wf p'" and "wire_bytes p' = wire_bytes p"
    and "Body p' = Body p" and "h_SequenceNum (Header p') = h_SequenceNum (Header p)"
    and "h_CommandStatus (Header p') = h_CommandStatus (Header p)"
    and "h_CommandID (Header p') = body_CommandID (Body p)"
proof -
  obtain bs where b: "body_Marshal (Body p) = Ok bs" using body_Marshal_ok [OF assms(1)] by blast
  define p' where "p' = p\<lparr>Header := (Header p)\<lparr>h_CommandLength := word_of_nat (16 + length bs), h_CommandID := body_CommandID (Body p)\<rparr>\<rparr>"
  from b have e: "Encode p = Ok (p', header_bytes (Header p') @ bs)"
    by (simp add: Encode_def Let_def p'_def)
  then have w: "wire_bytes p = header_bytes (Header p') @ bs" by (simp add: wire_bytes_def)
  with e have "Encode p = Ok (p', wire_bytes p)" by simp
  from that [OF this Encode_pdu_wf [OF assms(1) this assms(2)]] show ?thesis by (simp add: p'_def)
qed
section \<open>The runs of a client\<close>

text \<open>
  A client is used by several goroutines: those that call its operations, the read loop, \<open>periodicTasks\<close>
  and \<open>handleDisconnection\<close>.  They exclude each other only while they hold the lock \<open>mu\<close>, and each
  operation takes it several times.  \<open>client_piece\<close> is what such a section, or the code between two sections,
  does to the client: the last section of \<open>Connect\<close>, which does not look again whether the client is connected by
  now, the sections of \<open>Disconnect\<close>, \<open>handleDisconnection\<close>, \<open>Unbind\<close> and \<open>handleBindResponse\<close> that change
  flags, the numbers and dates of the session, the fields that belong to one goroutine or to the connection, events and
  calls of callbacks.
\<close>

definition client_event :: "(time \<Rightarrow> event) \<Rightarrow> bool" where
  "client_event ev \<longleftrightarrow>
     (\<exists>ty s addr data. ev = connection_event_of ty s addr data \<and>
        ty \<in> {EventTypeConnected, EventTypeDisconnected, EventTypeBound, EventTypeUnbound}) \<or>
     (\<exists>i s. ev = (\<lambda>now. SMSEvent \<lparr>sv_Type = EventTypeSMSSubmitted, sv_Timestamp = now, sv_MessageID = i,
        sv_Session = s, sv_Message = zero_message, sv_Data = Map.empty\<rparr>)) \<or>
     (\<exists>d s. ev = (\<lambda>now. DeliveryEvent \<lparr>de_Type = EventTypeDeliveryReport, de_Timestamp = now,
        de_MessageID = r_MessageID (parseDeliveryReceipt d), de_Report = parseDeliveryReceipt d,
        de_Session = s, de_Data = Map.empty\<rparr>))"

inductive client_piece :: "client \<Rightarrow> client \<Rightarrow> bool" where
  dialed: "client_piece c
     (c\<lparr>cl_conn := OpenConn, cl_out := [], cl_connected := True, cl_session := Some (new_session i t)\<rparr>)"
| cut: "cl_connected c \<Longrightarrow> client_piece c (Disconnect_locked c)"
| dropped: "cl_connected c \<Longrightarrow> client_piece c (c\<lparr>cl_connected := False, cl_bound := False, cl_conn := NoConn\<rparr>)"
| unbound: "cl_session c = Some s \<Longrightarrow>
     client_piece c (c\<lparr>cl_bound := False, cl_session := Some (s\<lparr>se_State := SessionStateUnbound\<rparr>)\<rparr>)"
| confirmed: "cl_session c = Some s \<Longrightarrow>
     client_piece c (c\<lparr>cl_bound := True, cl_session := Some (s\<lparr>se_State := SessionStateBoundTRX\<rparr>)\<rparr>)"
| numbered: "cl_session c = Some s \<Longrightarrow>
     client_piece c (c\<lparr>cl_session := Some (s\<lparr>se_SequenceNum := n, se_LastActivity := t\<rparr>)\<rparr>)"
| worked: "client_piece c (c\<lparr>cl_out := out, cl_builder := b, cl_done := finished, cl_tickers := n,
     cl_reconnectCount := k, cl_ticks := m\<rparr>)"
| published: "client_event ev \<Longrightarrow> client_piece c (publish_event c ev)"
| called: "client_piece c (cl_call hook call c)"

text \<open>
  The clients that come about.  Without \<open>late\<close> the operations, the handling of a PDU while the client is connected,
  and whole runs of the read loop and of the reconnection follow each other.  With \<open>late\<close> their pieces may come in any
  order too, and a PDU that the read loop has read may be handled when the client is no longer
  connected: \<open>Disconnect\<close> clears the flags first and waits for the read loop then.  Every PDU comes from the decoder.
\<close>

inductive client_runs :: "bool \<Rightarrow> client \<Rightarrow> bool" for late where
  new: "client_runs late (NewClient config publisher clock)"
| callbacks: "client_runs late c \<Longrightarrow> client_runs late (c\<lparr>cl_hooks := hooks\<rparr>)"
| connect: "client_runs late c \<Longrightarrow> client_runs late (snd (Connect dial c))"
| bind: "client_runs late c \<Longrightarrow> client_runs late (snd (Bind net c))"
| send: "client_runs late c \<Longrightarrow> client_runs late (snd (SendSMS net c src dst msg))"
| unbind: "client_runs late c \<Longrightarrow> client_runs late (snd (client_Unbind net c))"
| disconnect: "client_runs late c \<Longrightarrow> client_runs late (snd (Disconnect c))"
| tick: "client_runs late c \<Longrightarrow> client_runs late (snd (sendEnquireLink net c))"
| handled: "client_runs late c \<Longrightarrow> late \<or> cl_connected c \<Longrightarrow> cl_session c \<noteq> None \<Longrightarrow> wire_pdu p \<Longrightarrow>
     client_runs late (snd (client_handlePDU net c p))"
| read: "client_runs late c \<Longrightarrow> client_runs late (snd (readLoop nets k input c))"
| lost: "client_runs late c \<Longrightarrow> client_runs late (snd (handleDisconnection err c))"
| reconnect: "client_runs late c \<Longrightarrow> client_runs late (snd (reconnect tries k c))"
| piece: "client_runs late c \<Longrightarrow> late \<Longrightarrow> client_piece c c' \<Longrightarrow> client_runs late c'"

text \<open>The clients that can be reached, whatever goroutines do and in whatever order.\<close>

abbreviation client_reach :: "client \<Rightarrow> bool" where
  "client_reach \<equiv> client_runs True"

lemma Disconnect_sections:
  "cl_connected c \<Longrightarrow> Disconnect c = Disconnect_rest (Disconnect_locked c)"
  by (simp add: Disconnect_def Disconnect_rest_def Disconnect_locked_def Let_def cong: option.case_cong)

text \<open>
  A client that is connected has an open connection and a session.  One that is bound has a session, and it takes itself
  for a transceiver, whatever bind type is configured, or, with \<open>late\<close>, has a new session that nobody has bound.
  Without \<open>late\<close> it is connected.
\<close>

definition client_inv :: "bool \<Rightarrow> client \<Rightarrow> bool" where
  "client_inv late c \<longleftrightarrow>
     (cl_connected c \<longrightarrow> cl_conn c = OpenConn \<and> cl_session c \<noteq> None) \<and>
     (cl_bound c \<longrightarrow> (late \<or> cl_connected c) \<and> (\<exists>s. cl_session c = Some s \<and>
        (se_State s = SessionStateBoundTRX \<or> late \<and> se_State s = SessionStateOpen)))"

text \<open>When a PDU can be handled.\<close>

definition can_handle :: "bool \<Rightarrow> client \<Rightarrow> bool" where
  "can_handle late c \<longleftrightarrow> (late \<or> cl_connected c) \<and> cl_session c \<noteq> None"

text \<open>The invariant looks at four fields only.\<close>

definition inv_view :: "client \<Rightarrow> conn_state \<times> session_state option \<times> bool \<times> bool" where
  "inv_view c = (cl_conn c, map_option se_State (cl_session c), cl_connected c, cl_bound c)"

lemma client_inv_alt:
  "client_inv late c = (case inv_view c of (conn, state, connected, bound) \<Rightarrow>
     (connected \<longrightarrow> conn = OpenConn \<and> state \<noteq> None) \<and>
     (bound \<longrightarrow> (late \<or> connected) \<and>
        (state = Some SessionStateBoundTRX \<or> late \<and> state = Some SessionStateOpen)))"
  by (auto simp: inv_view_def client_inv_def)

lemma client_inv_view: "inv_view c = inv_view d \<Longrightarrow> client_inv late c = client_inv late d"
  by (simp add: client_inv_alt)

lemma inv_view_helpers [simp]:
  "inv_view (c\<lparr>cl_out := x1\<rparr>) = inv_view c" "inv_view (c\<lparr>cl_builder := x2\<rparr>) = inv_view c"
  "inv_view (c\<lparr>cl_hooks := x3\<rparr>) = inv_view c" "inv_view (c\<lparr>cl_ticks := x4\<rparr>) = inv_view c"
  "inv_view (c\<lparr>cl_reconnectCount := x5\<rparr>) = inv_view c" "inv_view (c\<lparr>cl_events := x6\<rparr>) = inv_view c"
  "inv_view (cl_call b call c) = inv_view c" "inv_view (publish_event c ev) = inv_view c"
  by (simp_all add: inv_view_def cl_call_def publish_event_def cl_Now_def)

lemma sendPDU_view: "sendPDU net c p = (r, c') \<Longrightarrow> inv_view c' = inv_view c"
  by (auto simp: sendPDU_def split: if_splits result.splits prod.splits)

lemma getNextSequence_view: "cl_getNextSequence c = (n, c') \<Longrightarrow> inv_view c' = inv_view c"
  by (auto simp: cl_getNextSequence_def inv_view_def Let_def split: option.splits)

lemma client_inv_helpers [simp]:
  "client_inv late (c\<lparr>cl_out := x1\<rparr>) = client_inv late c" "client_inv late (c\<lparr>cl_builder := x2\<rparr>) = client_inv late c"
  "client_inv late (c\<lparr>cl_hooks := x3\<rparr>) = client_inv late c" "client_inv late (c\<lparr>cl_ticks := x4\<rparr>) = client_inv late c"
  "client_inv late (c\<lparr>cl_reconnectCount := x5\<rparr>) = client_inv late c"
  "client_inv late (cl_call b call c) = client_inv late c" "client_inv late (publish_event c ev) = client_inv late c"
  by (simp_all add: client_inv_alt)

lemma sendPDU_inv: "sendPDU net c p = (r, c') \<Longrightarrow> client_inv late c' = client_inv late c"
  using sendPDU_view by (rule client_inv_view)

lemma Connect_inv: "client_inv late c \<Longrightarrow> client_inv late (snd (Connect dial c))"
  by (auto simp: Connect_def cl_Now_def new_session_def Let_def split: option.split)
    (auto simp: client_inv_def)

lemma Bind_inv: "client_inv late c \<Longrightarrow> client_inv late (snd (Bind net c))"
  by (auto simp: Bind_def sendPDU_inv split: prod.split)

lemma SendSMS_inv: "client_inv late c \<Longrightarrow> client_inv late (snd (SendSMS net c src dst msg))"
  by (auto simp: SendSMS_def with_session_def sendPDU_inv split: prod.split option.split)

lemma Disconnect_inv: "client_inv late (snd (Disconnect c))" if "client_inv late c"
  using that by (auto simp: Disconnect_def Let_def split: option.split) (auto simp: client_inv_def)

lemma sendEnquireLink_inv: "client_inv late c \<Longrightarrow> client_inv late (snd (sendEnquireLink net c))"
  by (auto simp: sendEnquireLink_def sendPDU_inv split: prod.split result.split)

lemma client_Unbind_inv: "client_inv late c \<Longrightarrow> client_inv late (snd (client_Unbind net c))"
  by (auto simp: client_Unbind_def with_session_def sendPDU_inv Let_def split: prod.split result.split option.split)
    (auto simp: client_inv_def dest!: sendPDU_view simp: inv_view_def)

lemma handleDisconnection_inv: "client_inv late c \<Longrightarrow> client_inv late (snd (handleDisconnection err c))"
  by (auto simp: handleDisconnection_def Let_def) (simp add: client_inv_def)

text \<open>The handlers leave the client connected or not, as they find it.\<close>

lemma can_handle_connected: "client_inv late c \<Longrightarrow> cl_connected c \<Longrightarrow> can_handle late c"
  by (simp add: client_inv_def can_handle_def)

lemma handleBindResponse_view:
  assumes "cl_session c \<noteq> None" and "handleBindResponse c p = (r, c')"
  shows "r = Ok ()" and "inv_view c' = (if h_CommandStatus (Header p) \<noteq> StatusOK then inv_view c
    else (cl_conn c, Some SessionStateBoundTRX, cl_connected c, True))"
proof -
  obtain s where s: "cl_session c = Some s" using assms(1) by blast
  have "fst (handleBindResponse c p) = Ok () \<and> inv_view (snd (handleBindResponse c p)) =
      (if h_CommandStatus (Header p) \<noteq> StatusOK then inv_view c
       else (cl_conn c, Some SessionStateBoundTRX, cl_connected c, True))"
    by (simp add: handleBindResponse_def with_session_def s Let_def) (simp add: inv_view_def)
  with assms(2) show "r = Ok ()" and "inv_view c' = (if h_CommandStatus (Header p) \<noteq> StatusOK then inv_view c
    else (cl_conn c, Some SessionStateBoundTRX, cl_connected c, True))" by simp_all
qed

lemma handleBindResponse_ok:
  assumes "client_inv late c" and "can_handle late c" and "handleBindResponse c p = (r, c')"
  shows "r = Ok ()" and "client_inv late c'" and "cl_connected c' = cl_connected c"
proof -
  have s: "cl_session c \<noteq> None" using assms(2) by (simp add: can_handle_def)
  note v = handleBindResponse_view [OF s assms(3)]
  show "r = Ok ()" by (rule v)
  show "client_inv late c'"
  proof (cases "h_CommandStatus (Header p) = StatusOK")
    case True
    with v(2) have "inv_view c' = (cl_conn c, Some SessionStateBoundTRX, cl_connected c, True)" by simp
    with assms(1,2) show ?thesis unfolding client_inv_alt [of late c'] by (simp add: client_inv_def can_handle_def)
  next
    case False
    with v(2) have "inv_view c' = inv_view c" by simp
    with assms(1) client_inv_view [of c' c late] show ?thesis by simp
  qed
  show "cl_connected c' = cl_connected c" using v(2) by (auto simp: inv_view_def split: if_splits)
qed

lemma handleSubmitSMResponse_ok:
  assumes "client_inv late c" and "can_handle late c" and "handleSubmitSMResponse c p = (r, c')"
  shows "r = Ok ()" and "client_inv late c'" and "cl_connected c' = cl_connected c"
proof -
  obtain s where s: "cl_session c = Some s" using assms(2) by (auto simp: can_handle_def)
  have "fst (handleSubmitSMResponse c p) = Ok () \<and> inv_view (snd (handleSubmitSMResponse c p)) = inv_view c"
    by (cases "Body p") (simp_all add: handleSubmitSMResponse_def with_session_def s Let_def)
  with assms(3) have v: "r = Ok ()" "inv_view c' = inv_view c" by simp_all
  show "r = Ok ()" by (rule v)
  show "client_inv late c'" using assms(1) client_inv_view [OF v(2)] by simp
  show "cl_connected c' = cl_connected c" using v(2) by (simp add: inv_view_def)
qed

lemma Encode_responses [simp]:
  "\<exists>p' bs. Encode (BuildDeliverSMResp i n st) = Ok (p', bs)"
  "\<exists>p' bs. Encode (BuildEnquireLinkResp n) = Ok (p', bs)"
  by (simp_all add: BuildDeliverSMResp_def BuildEnquireLinkResp_def mk_pdu_def Encode_def DeliverSMResp_Marshal_def
      empty_Marshal_def Let_def)

lemma sendPDU_not_Panic: "\<exists>p' bs. Encode p = Ok (p', bs) \<Longrightarrow> fst (sendPDU net c p) \<noteq> Panic"
  by (auto simp: sendPDU_def split: if_splits)

lemma client_handleEnquireLink_ok:
  assumes "client_inv late c" and "can_handle late c" and "client_handleEnquireLink net c = (r, c')"
  shows "r \<noteq> Panic" and "client_inv late c'" and "cl_connected c' = cl_connected c"
proof -
  obtain n c1 where n: "cl_getNextSequence c = (n, c1)" by fastforce
  with assms(3) have s: "sendPDU net c1 (BuildEnquireLinkResp n) = (r, c')" by (simp add: client_handleEnquireLink_def)
  show "r \<noteq> Panic" using sendPDU_not_Panic [of "BuildEnquireLinkResp n" net c1] s by simp
  have "inv_view c' = inv_view c" using getNextSequence_view [OF n] sendPDU_view [OF s] by simp
  with assms(1,2) client_inv_view [OF this] show "client_inv late c'" "cl_connected c' = cl_connected c" by (simp_all add: inv_view_def)
qed

lemma client_handleDeliverSM_ok:
  assumes "client_inv late c" and "can_handle late c" and "client_handleDeliverSM net c d = (r, c')"
  shows "r \<noteq> Panic" and "client_inv late c'" and "cl_connected c' = cl_connected c"
proof -
  obtain n c1 where n: "cl_getNextSequence c = (n, c1)" by fastforce
  obtain q c2 where s: "sendPDU net c1 (BuildDeliverSMResp '''' n StatusOK) = (q, c2)" by fastforce
  have "q \<noteq> Panic" using sendPDU_not_Panic [of "BuildDeliverSMResp '''' n StatusOK" net c1] s by simp
  with assms(3) show "r \<noteq> Panic"
    by (auto simp: client_handleDeliverSM_def n s [simplified] Let_def split: result.splits if_splits)
  from assms(3) \<open>q \<noteq> Panic\<close> have "inv_view c' = inv_view c2"
    by (auto simp: client_handleDeliverSM_def n s [simplified] Let_def split: result.splits if_splits)
  then have "inv_view c' = inv_view c" using getNextSequence_view [OF n] sendPDU_view [OF s] by simp
  with assms(1,2) client_inv_view [OF this] show "client_inv late c'" "cl_connected c' = cl_connected c" by (simp_all add: inv_view_def)
qed

lemma client_handlePDU_cases:
  assumes "client_handlePDU net c p = (r, c')"
  shows "handleBindResponse c p = (r, c') \<or> handleSubmitSMResponse c p = (r, c') \<or>
    (\<exists>d. client_handleDeliverSM net c d = (r, c')) \<or> client_handleEnquireLink net c = (r, c') \<or>
    c' = c \<and> (r = Panic \<longrightarrow> h_CommandID (Header p) = CommandDeliverSM \<and> (\<forall>d. Body p \<noteq> DeliverSM d) \<or>
      h_CommandID (Header p) = CommandEnquireLink \<and> Body p \<noteq> EmptyBody EnquireLink)"
  using assms unfolding client_handlePDU_def Let_def
  by (simp split: if_splits pdu_body.splits empty_pdu.splits; blast)

lemma client_handlePDU_inv:
  assumes "client_inv late c" and "can_handle late c" and "client_handlePDU net c p = (r, c')"
  shows "client_inv late c' \<and> cl_connected c' = cl_connected c"
  using client_handlePDU_cases [OF assms(3)]
proof (elim disjE exE)
  show ?thesis if "handleBindResponse c p = (r, c')" using handleBindResponse_ok [OF assms(1,2) that] by simp
  show ?thesis if "handleSubmitSMResponse c p = (r, c')" using handleSubmitSMResponse_ok [OF assms(1,2) that] by simp
  show ?thesis if "client_handleDeliverSM net c d = (r, c')" for d
    using client_handleDeliverSM_ok [OF assms(1,2) that] by simp
  show ?thesis if "client_handleEnquireLink net c = (r, c')" using client_handleEnquireLink_ok [OF assms(1,2) that] by simp
qed (use assms(1,2) in simp)

lemma wire_pdu_client:
  assumes "wire_pdu p"
  shows "h_CommandID (Header p) = CommandDeliverSM \<Longrightarrow> \<exists>d. Body p = DeliverSM d"
    and "h_CommandID (Header p) = CommandEnquireLink \<Longrightarrow> Body p = EmptyBody EnquireLink"
  using assms
  by (cases "Body p"; auto simp: wire_pdu_def createPDUBody_def same_type_def split: if_splits)+

lemma client_handlePDU_not_Panic:
  assumes "client_inv late c" and "can_handle late c" and "wire_pdu p" and "client_handlePDU net c p = (r, c')"
  shows "r \<noteq> Panic"
  using client_handlePDU_cases [OF assms(4)]
proof (elim disjE exE)
  show ?thesis if "handleBindResponse c p = (r, c')" using handleBindResponse_ok [OF assms(1,2) that] by simp
  show ?thesis if "handleSubmitSMResponse c p = (r, c')" using handleSubmitSMResponse_ok [OF assms(1,2) that] by simp
  show ?thesis if "client_handleDeliverSM net c d = (r, c')" for d
    using client_handleDeliverSM_ok [OF assms(1,2) that] by simp
  show ?thesis if "client_handleEnquireLink net c = (r, c')" using client_handleEnquireLink_ok [OF assms(1,2) that] by simp
qed (use wire_pdu_client [OF assms(3)] in blast)

lemma read_turn_ok:
  assumes "client_inv late c" and "can_handle late c" and "read_turn net c p = (r, c')"
  shows "client_inv late c'" and "cl_connected c' = cl_connected c" and "wire_pdu p \<Longrightarrow> r = Ok ()"
proof -
  obtain s where s: "cl_session c = Some s" using assms(2) by (auto simp: can_handle_def)
  let ?c1 = "c\<lparr>cl_ticks := cl_ticks c + 1, cl_session := Some (s\<lparr>se_LastActivity := cl_clock c (cl_ticks c)\<rparr>)\<rparr>"
  obtain q c2 where h: "client_handlePDU net ?c1 p = (q, c2)" by fastforce
  have c1: "client_inv late ?c1" "can_handle late ?c1" "cl_connected ?c1 = cl_connected c"
    using assms(1,2) s by (auto simp: client_inv_def can_handle_def)
  from assms(3) have r: "c' = c2" "r = (if q = Panic then Panic else Ok ())"
    using h by (auto simp: read_turn_def cl_Now_def s Let_def split: result.splits)
  show "client_inv late c'" "cl_connected c' = cl_connected c" using client_handlePDU_inv [OF c1(1,2) h] r c1(3) by simp_all
  show "wire_pdu p \<Longrightarrow> r = Ok ()" using client_handlePDU_not_Panic [OF c1(1,2) _ h] r by simp
qed

lemma readLoop_ok:
  "client_inv late c \<Longrightarrow> readLoop nets k input c = (e, c') \<Longrightarrow> client_inv late c' \<and> e \<noteq> LoopPanicked"
proof (induction nets k input c arbitrary: e c' rule: readLoop.induct)
  case (1 nets k input c)
  show ?case
  proof (cases "cl_done c \<or> \<not> cl_connected c \<or> cl_conn c = NoConn")
    case True
    with "1.prems" show ?thesis by (simp add: readLoop.simps [of nets k input c])
  next
    case False
    show ?thesis
    proof (cases "DecodeFromReader input")
      case (Pair d rest)
      show ?thesis
      proof (cases d)
        case (Ok p)
        obtain r c1 where t: "read_turn (nets k) c p = (r, c1)" by fastforce
        note o = read_turn_ok [OF "1.prems"(1) can_handle_connected [OF "1.prems"(1)] t]
        have r: "r = Ok ()" using o(3) False decoded_wire_pdu [of input p rest] Pair Ok by simp
        have ih: "client_inv late c1 \<Longrightarrow> readLoop nets (k + 1) rest c1 = (e, c') \<Longrightarrow> client_inv late c' \<and> e \<noteq> LoopPanicked"
          by (rule "1.IH"(1) [OF False Pair [symmetric] Ok t [symmetric] r])
        show ?thesis
          using ih "1.prems"(2) o(1) False by (simp add: readLoop.simps [of nets k input c] Pair Ok t r)
      next
        case Panic
        with Pair pdu_stream.dec_total [of input] show ?thesis by simp
      qed (use "1.prems" False Pair in \<open>auto simp: readLoop.simps [of nets k input c]\<close>)
    qed
  qed
qed

lemma read_turns_inv: "client_inv late c \<Longrightarrow> client_inv late (snd (read_turns net ps c))"
proof (induction ps arbitrary: c)
  case (Cons p ps)
  show ?case
  proof (cases "cl_done c \<or> \<not> cl_connected c")
    case False
    obtain r c1 where t: "read_turn net c p = (r, c1)" by fastforce
    from read_turn_ok(1) [OF Cons.prems can_handle_connected [OF Cons.prems] t] False Cons.IH [of c1] show ?thesis
      by (simp add: t split: result.split)
  qed (use Cons.prems in simp)
qed simp

lemma give_up_attempt_inv: "client_inv late c \<Longrightarrow> client_inv late (snd (give_up_attempt c))"
  using Disconnect_inv [of late c]
  by (cases "Disconnect c") (simp add: give_up_attempt_def split: result.split)

lemma reconnect_attempt_inv:
  assumes "client_inv late c"
  shows "client_inv late (snd (reconnect_attempt try c))"
proof -
  let ?c0 = "c\<lparr>cl_reconnectCount := cl_reconnectCount c + 1\<rparr>"
  obtain r1 c1 where 1: "Connect (ry_dial try) ?c0 = (r1, c1)" by fastforce
  let ?c1 = "c1\<lparr>cl_hooks := (cl_hooks c1)\<lparr>hk_onBind := RebindHook\<rparr>\<rparr>"
  obtain r2 c2 where 2: "Bind (ry_net try) ?c1 = (r2, c2)" by fastforce
  obtain r3 c3 where 3: "read_turns (ry_net try) (ry_pdus try) c2 = (r3, c3)" by fastforce
  have "client_inv late c1" using Connect_inv [of late ?c0 "ry_dial try"] assms 1 by simp
  moreover from this have "client_inv late c2" using Bind_inv [of late ?c1 "ry_net try"] 2 by simp
  moreover from this have "client_inv late c3" using read_turns_inv [of late c2 "ry_net try" "ry_pdus try"] 3 by simp
  ultimately show ?thesis
    using give_up_attempt_inv by (simp add: reconnect_attempt_def 1 2 3 split: result.split)
qed

lemma reconnect_inv: "client_inv late c \<Longrightarrow> client_inv late (snd (reconnect tries k c))"
proof (induction tries k c rule: reconnect.induct)
  case (1 tries k c)
  show ?case
  proof (cases "cl_reconnectCount c < cc_MaxReconnectAttempts (cl_config c)")
    case True
    obtain e c1 where a: "reconnect_attempt (tries k) c = (e, c1)" by fastforce
    have "client_inv late c1" using reconnect_attempt_inv [OF "1.prems", of "tries k"] a by simp
    with "1.IH" [OF True a [symmetric]] True a show ?thesis
      by (subst reconnect.simps) (simp split: attempt_end.split)
  qed (use "1.prems" in \<open>simp add: reconnect.simps [of tries k c]\<close>)
qed

lemma client_piece_inv:
  assumes "client_piece c c'" and "client_inv True c"
  shows "client_inv True c'"
  using assms
proof (cases rule: client_piece.cases)
  case (worked out b finished n k m)
  with assms(2) show ?thesis by (simp add: client_inv_def)
qed (auto simp: client_inv_def Disconnect_locked_def new_session_def publish_event_def cl_Now_def cl_call_def)

lemma client_runs_inv: "client_runs late c \<Longrightarrow> client_inv late c"
proof (induction rule: client_runs.induct)
  case (handled c p net)
  then have "can_handle late c" by (auto simp: can_handle_def)
  from client_handlePDU_inv [OF handled.IH this, of net p] show ?case by (metis prod.collapse)
next
  case (read c nets k input)
  then show ?case using readLoop_ok [of late c nets k input] by (metis prod.collapse)
next
  case (piece c c')
  then show ?case using client_piece_inv by simp
qed (simp_all add: Connect_inv Bind_inv SendSMS_inv client_Unbind_inv Disconnect_inv sendEnquireLink_inv
    handleDisconnection_inv reconnect_inv, simp add: client_inv_def NewClient_def)

lemma client_reach_connected:
  "client_reach c \<Longrightarrow> cl_connected c \<Longrightarrow> cl_conn c = OpenConn \<and> cl_session c \<noteq> None"
  using client_runs_inv [of True c] by (simp add: client_inv_def)

text \<open>Without the pieces, what is reached is reached with them.\<close>

lemma client_runs_late: "client_runs late c \<Longrightarrow> client_reach c"
  by (induction rule: client_runs.induct) (blast intro: client_runs.intros)+

definition example_client :: client where
  "example_client = snd (Connect None (OnSubmitResponse (NewClient
     \<lparr>cc_Host = ''localhost'', cc_Port = 2775, cc_SystemID = ''admin'', cc_Password = ''admin123'', cc_SystemType = '''',
      cc_BindType = ''transceiver'', cc_TLSEnabled = False, cc_MaxReconnectAttempts = 5\<rparr> False int)))"

lemma example_client:
  "client_runs late example_client" "IsConnected example_client" "\<not> IsBound example_client"
  "hk_onSubmitResponse (cl_hooks example_client)" "cc_BindType (cl_config example_client) = ''transceiver''"
  "cc_SystemID (cl_config example_client) = ''admin''" "cc_Password (cl_config example_client) = ''admin123''"
  "cc_SystemType (cl_config example_client) = ''''" "cl_out example_client = []"
proof -
  show "client_runs late example_client"
    unfolding example_client_def OnSubmitResponse_def by (intro client_runs.connect client_runs.callbacks client_runs.new)
qed (simp_all add: example_client_def Connect_def NewClient_def OnSubmitResponse_def cl_Now_def cl_call_def no_hooks_def
    IsConnected_def IsBound_def Let_def)

text \<open>
  C21. Whatever the goroutines of a client do and in whatever order the pieces of the operations come: the client is
  connected only with an open connection and a session, and bound only with a session that a bind response has made that
  of a transceiver, or that \<open>Connect\<close> has just replaced.  If the operations and the handling of each PDU do not
  interrupt each other, it is bound only while it is connected, and then always takes itself for a transceiver,
  also when it has bound as a transmitter or receiver.
\<close>

theorem client_reach_inv:
  assumes "client_runs late c"
  shows "(IsConnected c \<longrightarrow> cl_conn c = OpenConn \<and> GetSession c \<noteq> None) \<and>
    (IsBound c \<longrightarrow> (\<exists>s. GetSession c = Some s \<and>
       (if late then se_State s \<in> {SessionStateBoundTRX, SessionStateOpen}
        else IsConnected c \<and> se_State s = SessionStateBoundTRX)))"
  using client_runs_inv [OF assms] by (auto simp: client_inv_def IsBound_def IsConnected_def GetSession_def)

text \<open>A bind response, for a connected client and for one that \<open>Disconnect\<close> is about to leave\<close>

definition example_bind_resp :: pdu where
  "example_bind_resp = mk_pdu CommandBindTransceiverResp StatusOK 1
     (BindResponse \<lparr>bp_SystemID = ''admin''\<rparr>)"

lemma example_bind_resp:
  "wire_pdu example_bind_resp" "h_CommandID (Header example_bind_resp) = CommandBindTransceiverResp"
  "h_CommandStatus (Header example_bind_resp) = StatusOK"
  by (simp_all add: example_bind_resp_def mk_pdu_def wire_pdu_def createPDUBody_def same_type_def)

theorem client_reach_inv_witness:
  "\<exists>c s. c = snd (client_handlePDU \<lparr>no_deadline_ok = True, no_write_ok = True\<rparr> example_client example_bind_resp) \<and>
     IsBound c \<and> IsConnected c \<and> GetSession c = Some s \<and> se_State s = SessionStateBoundTRX"
proof -
  let ?c = "snd (client_handlePDU \<lparr>no_deadline_ok = True, no_write_ok = True\<rparr> example_client example_bind_resp)"
  have e: "cl_connected example_client" "cl_session example_client \<noteq> None"
    using example_client(2) client_reach_connected [OF example_client(1)] by (simp_all add: IsConnected_def)
  have r: "client_runs False ?c"
    by (rule client_runs.handled [OF example_client(1)]) (use e example_bind_resp in simp_all)
  obtain s where "cl_session example_client = Some s" using e(2) by blast
  then have "IsBound ?c"
    using example_bind_resp(2,3)
    by (simp add: client_handlePDU_def handleBindResponse_def with_session_def cl_call_def publish_event_def cl_Now_def
        IsBound_def Let_def)
  with client_reach_inv [OF r] show ?thesis by auto
qed

section \<open>What a client reads and answers\<close>

text \<open>
  C25. No bytes from a server make the read loop of a client panic, although nothing in it recovers from a
  panic; the loop ends at the first error of the decoder or when the client is disconnected.
\<close>

theorem client_never_panics:
  assumes "client_reach c" and "readLoop nets k input c = (e, c')"
  shows "e \<noteq> LoopPanicked \<and> client_reach c'"
  using readLoop_ok [OF client_runs_inv [OF assms(1)] assms(2)] client_runs.read [OF assms(1), of nets k input]
    assms(2) by simp

theorem client_never_panics_witness:
  "\<exists>e c'. readLoop (\<lambda>k. \<lparr>no_deadline_ok = True, no_write_ok = True\<rparr>) 0 [1, 2, 3] example_client = (e, c') \<and>
     e \<noteq> LoopPanicked"
proof -
  obtain e c' where "readLoop (\<lambda>k. \<lparr>no_deadline_ok = True, no_write_ok = True\<rparr>) 0 [1, 2, 3] example_client = (e, c')"
    by fastforce
  with client_never_panics [OF example_client(1) this] show ?thesis by blast
qed

definition net_ok :: net_outcome where
  "net_ok = \<lparr>no_deadline_ok = True, no_write_ok = True\<rparr>"

lemma net_ok_simps [simp]: "no_deadline_ok net_ok" "no_write_ok net_ok"
  by (simp_all add: net_ok_def)

lemma sendPDU_ok:
  assumes "cl_connected c" and "cl_conn c = OpenConn" and "Encode p = Ok (p', wire_bytes p)"
  shows "sendPDU net_ok c p = (Ok (), c\<lparr>cl_out := cl_out c @ wire_bytes p\<rparr>)"
  using assms by (simp add: sendPDU_def)

lemma Encode_wire: "\<exists>p' bs. Encode p = Ok (p', bs) \<Longrightarrow> \<exists>p'. Encode p = Ok (p', wire_bytes p)"
  by (auto simp: wire_bytes_def)

text \<open>
  A client answers a \<open>deliver_sm\<close> and an \<open>enquire_link\<close> with the next number of its own session, 1 for the first
  answer on a connection, and not with the sequence number of the request.
\<close>

theorem client_answers_with_own_sequence:
  assumes "client_reach c" and "IsConnected c" and "GetSession c = Some s"
    and "h_CommandID (Header p) = CommandDeliverSM" and "Body p = DeliverSM d"
    and "h_CommandID (Header q) = CommandEnquireLink" and "Body q = EmptyBody EnquireLink"
  shows "cl_out (snd (read_turn net_ok c p)) = cl_out c @ wire_bytes (BuildDeliverSMResp '''' (se_SequenceNum s) StatusOK) \<and>
    cl_out (snd (read_turn net_ok c q)) = cl_out c @ wire_bytes (BuildEnquireLinkResp (se_SequenceNum s))"
proof -
  have c: "cl_connected c" "cl_conn c = OpenConn" "cl_session c = Some s"
    using client_reach_connected [OF assms(1)] assms(2,3) by (auto simp: IsConnected_def GetSession_def)
  obtain p1 q1 where e: "Encode (BuildDeliverSMResp '''' (se_SequenceNum s) StatusOK) = Ok (p1, wire_bytes (BuildDeliverSMResp '''' (se_SequenceNum s) StatusOK))"
    "Encode (BuildEnquireLinkResp (se_SequenceNum s)) = Ok (q1, wire_bytes (BuildEnquireLinkResp (se_SequenceNum s)))"
    using Encode_wire [OF Encode_responses(1)] Encode_wire [OF Encode_responses(2)] by metis
  have "cl_out (snd (read_turn net_ok c q)) = cl_out c @ wire_bytes (BuildEnquireLinkResp (se_SequenceNum s))"
    using c assms(6,7) e(2)
    by (simp add: read_turn_def cl_Now_def client_handlePDU_def client_handleEnquireLink_def cl_getNextSequence_def
        sendPDU_def Let_def)
  moreover have "cl_out (snd (read_turn net_ok c p)) = cl_out c @ wire_bytes (BuildDeliverSMResp '''' (se_SequenceNum s) StatusOK)"
    using c assms(4,5) e(1) [simplified]
    by (simp add: read_turn_def cl_Now_def client_handlePDU_def client_handleDeliverSM_def cl_getNextSequence_def
        sendPDU_def cl_call_def publish_event_def Let_def)
  ultimately show ?thesis by blast
qed

theorem client_answers_with_own_sequence_witness:
  "cl_out (snd (read_turn net_ok example_client
     (mk_pdu CommandEnquireLink StatusOK 77 (EmptyBody EnquireLink)))) = wire_bytes (BuildEnquireLinkResp 1)"
proof -
  let ?s = "new_session (session_ID_at 0 1) 2"
  have "GetSession example_client = Some ?s"
    by (simp add: example_client_def Connect_def NewClient_def OnSubmitResponse_def cl_Now_def cl_call_def no_hooks_def
        GetSession_def eval_nat_numeral Let_def)
  with client_answers_with_own_sequence [OF example_client(1,2), of ?s
      "mk_pdu CommandDeliverSM StatusOK 5 (DeliverSM zero_deliver_sm)" zero_deliver_sm
      "mk_pdu CommandEnquireLink StatusOK 77 (EmptyBody EnquireLink)"] example_client(9)
  show ?thesis by (simp add: mk_pdu_def new_session_def)
qed

section \<open>A client and the server\<close>

text \<open>What the three requests of a client are on the wire.\<close>

lemma bind_sent:
  assumes "cl_connected c" and "cl_conn c = OpenConn" and "\<not> cl_bound c"
    and "cc_BindType (cl_config c) = ''transceiver''"
    and "bind_request_wf \<lparr>br_SystemID = cc_SystemID (cl_config c), br_Password = cc_Password (cl_config c),
      br_SystemType = cc_SystemType (cl_config c), br_InterfaceVersion = SMPPVersion, br_AddrTON = TONUnknown,
      br_AddrNPI = NPIUnknown, br_AddressRange = ''''\<rparr>"
  shows "\<exists>b p. Bind net_ok c = (Ok (), c\<lparr>cl_builder := b, cl_out := cl_out c @ wire_bytes p\<rparr>) \<and> pdu_wf p \<and>
    Body p = BindRequest \<lparr>br_SystemID = cc_SystemID (cl_config c), br_Password = cc_Password (cl_config c),
      br_SystemType = cc_SystemType (cl_config c), br_InterfaceVersion = SMPPVersion, br_AddrTON = TONUnknown,
      br_AddrNPI = NPIUnknown, br_AddressRange = ''''\<rparr>"
proof -
  obtain q b where q: "BuildBindTransceiver (cl_builder c) (cc_SystemID (cl_config c)) (cc_Password (cl_config c))
      (cc_SystemType (cl_config c)) = (q, b)" by fastforce
  then have body: "Body q = bind_body (cc_SystemID (cl_config c)) (cc_Password (cl_config c)) (cc_SystemType (cl_config c))"
    by (auto simp: BuildBindTransceiver_def mk_pdu_def split: prod.splits)
  have wf: "body_wf (Body q)" using assms(5) by (simp add: body bind_body_def)
  then obtain bs where m: "body_Marshal (Body q) = Ok bs" using body_Marshal_ok by blast
  then have "length bs = 82" by (auto simp: body bind_body_def dest: BindRequest_Marshal_length)
  with m have "length (wire_bytes q) < 2 ^ 32" by (simp add: wire_bytes_def Encode_def header_bytes_def Let_def)
  from wire_encoded [OF wf this] obtain p where p: "Encode q = Ok (p, wire_bytes q)" "pdu_wf p"
    "wire_bytes p = wire_bytes q" "Body p = Body q" by metis
  have "Bind net_ok c = (Ok (), c\<lparr>cl_builder := b, cl_out := cl_out c @ wire_bytes q\<rparr>)"
    using assms(1-4) sendPDU_ok [of "c\<lparr>cl_builder := b\<rparr>" q p] p(1)
    by (simp add: Bind_def bind_PDU_def q Let_def)
  with p show ?thesis by (intro exI [of _ b] exI [of _ p]) (simp add: body bind_body_def)
qed

lemma submit_sent:
  assumes "cl_connected c" and "cl_conn c = OpenConn" and "cl_bound c" and "cl_session c = Some s"
    and "se_State s = SessionStateBoundTRX"
    and "fits 21 src" and "fits 21 dst" and "msg \<noteq> ''''" and "length msg < 65536"
  shows "\<exists>b p m. SendSMS net_ok c src dst msg = (Ok (), c\<lparr>cl_builder := b, cl_out := cl_out c @ wire_bytes p\<rparr>) \<and>
    pdu_wf p \<and> Body p = SubmitSM m \<and> message_bytes (ss_ShortMessage m) (ss_OptionalParams m) = to_bytes msg \<and>
    ss_SourceAddr m = src \<and> ss_DestAddr m = dst \<and> ss_DataCoding m = DataCodingDefault \<and>
    ss_EsmClass m = EsmClassDefault \<and> ss_SourceAddrTON m = TONInternational \<and> ss_SourceAddrNPI m = NPIISDN \<and>
    ss_DestAddrTON m = TONInternational \<and> ss_DestAddrNPI m = NPIISDN"
proof -
  obtain q b where q: "BuildSubmitSM (cl_builder c) src dst msg = (q, b)" by fastforce
  have fst: "fst (BuildSubmitSM (cl_builder c) src dst msg) = q" by (simp add: q)
  obtain m where m: "Body q = SubmitSM m" "submit_sm_wf m"
    "message_bytes (ss_ShortMessage m) (ss_OptionalParams m) = to_bytes msg"
    "ss_SourceAddr m = src" "ss_DestAddr m = dst"
    using BuildSubmitSM_wf [OF assms(6-9), of "cl_builder c"] fst by auto
  have f: "ss_DataCoding m = DataCodingDefault" "ss_EsmClass m = EsmClassDefault"
    "ss_SourceAddrTON m = TONInternational" "ss_SourceAddrNPI m = NPIISDN"
    "ss_DestAddrTON m = TONInternational" "ss_DestAddrNPI m = NPIISDN"
    using q m(1) by (auto simp: BuildSubmitSM_def mk_pdu_def Let_def split: prod.splits)
  have "length (wire_bytes q) < 2 ^ 32" using BuildSubmitSM_small [OF assms(9), of "cl_builder c" src dst] fst by simp
  moreover have "body_wf (Body q)" using m by simp
  ultimately obtain p where p: "Encode q = Ok (p, wire_bytes q)" "pdu_wf p"
    "wire_bytes p = wire_bytes q" "Body p = Body q" using wire_encoded by metis
  have "SendSMS net_ok c src dst msg = (Ok (), c\<lparr>cl_builder := b, cl_out := cl_out c @ wire_bytes q\<rparr>)"
    using assms(1-5) sendPDU_ok [of "c\<lparr>cl_builder := b\<rparr>" q p] p(1)
    by (simp add: SendSMS_def with_session_def q)
  with p m f show ?thesis by metis
qed

lemma unbind_sent:
  "\<exists>p. pdu_wf p \<and> Body p = EmptyBody Unbind \<and>
    (\<forall>c s. cl_builder c = b \<longrightarrow> cl_connected c \<longrightarrow> cl_conn c = OpenConn \<longrightarrow> cl_bound c \<longrightarrow> cl_session c = Some s \<longrightarrow>
      (\<exists>c'. client_Unbind net_ok c = (Ok (), c') \<and> cl_out c' = cl_out c @ wire_bytes p \<and> \<not> cl_bound c' \<and>
         set (cl_calls c) \<subseteq> set (cl_calls c')))"
proof -
  obtain q b' where q: "BuildUnbind b = (q, b')" by fastforce
  then have body: "Body q = EmptyBody Unbind" by (auto simp: BuildUnbind_def mk_pdu_def split: prod.splits)
  have "length (wire_bytes q) < 2 ^ 32"
    by (simp add: wire_bytes_def Encode_def body empty_Marshal_def header_bytes_def Let_def)
  moreover have "body_wf (Body q)" by (simp add: body)
  ultimately obtain p where p: "Encode q = Ok (p, wire_bytes q)" "pdu_wf p"
    "wire_bytes p = wire_bytes q" "Body p = Body q" using wire_encoded by metis
  have "\<exists>c'. client_Unbind net_ok c = (Ok (), c') \<and> cl_out c' = cl_out c @ wire_bytes p \<and> \<not> cl_bound c' \<and>
         set (cl_calls c) \<subseteq> set (cl_calls c')"
    if "cl_builder c = b" "cl_connected c" "cl_conn c = OpenConn" "cl_bound c" "cl_session c = Some s" for c s
  proof -
    have "sendPDU net_ok (c\<lparr>cl_builder := b'\<rparr>) q = (Ok (), c\<lparr>cl_builder := b', cl_out := cl_out c @ wire_bytes q\<rparr>)"
      using that(2,3) sendPDU_ok [of "c\<lparr>cl_builder := b'\<rparr>" q p] p(1) by simp
    with that p show ?thesis
      by (auto simp: client_Unbind_def with_session_def q body cl_call_def publish_event_def cl_Now_def Let_def)
  qed
  moreover have "Body p = EmptyBody Unbind" using p(4) body by simp
  ultimately show ?thesis using p(2) by blast
qed

text \<open>What the client does with the server's answers.\<close>

lemma bind_answered:
  assumes "cl_connected c" and "cl_session c = Some s" and "Body r = BindResponse b"
    and "h_CommandID (Header r) = CommandBindTransceiverResp" and "h_CommandStatus (Header r) = StatusOK"
  shows "\<exists>c' s'. read_turn net c r = (Ok (), c') \<and> cl_out c' = cl_out c \<and> cl_connected c' \<and>
    cl_conn c' = cl_conn c \<and> cl_bound c' \<and> cl_session c' = Some s' \<and> se_State s' = SessionStateBoundTRX \<and>
    hk_onSubmitResponse (cl_hooks c') = hk_onSubmitResponse (cl_hooks c)"
  using assms
  by (simp add: read_turn_def cl_Now_def client_handlePDU_def handleBindResponse_def with_session_def cl_call_def
      publish_event_def Let_def)

lemma submit_answered:
  assumes "cl_session c = Some s" and "Body r = SubmitSMResp \<lparr>sr_MessageID = i\<rparr>" and "hk_onSubmitResponse (cl_hooks c)"
    and "h_CommandID (Header r) = CommandSubmitSMResp" and "h_CommandStatus (Header r) = StatusOK"
  shows "\<exists>c' s'. read_turn net c r = (Ok (), c') \<and> cl_out c' = cl_out c \<and> cl_connected c' = cl_connected c \<and>
    cl_conn c' = cl_conn c \<and> cl_bound c' = cl_bound c \<and> cl_session c' = Some s' \<and> cl_builder c' = cl_builder c \<and>
    CalledSubmitResponse i None \<in> set (cl_calls c')"
  using assms
  by (simp add: read_turn_def cl_Now_def client_handlePDU_def handleSubmitSMResponse_def with_session_def cl_call_def
      publish_event_def Let_def)

text \<open>
  Texts whose characters have the same code in ASCII and in the GSM alphabet: letters, digits, the space and most
  punctuation, but not the signs \<open>@ $ _ [ ] ^ ` { | } ~\<close> and the backslash, nor the escape character.
\<close>

definition sms_char :: "char \<Rightarrow> bool" where
  "sms_char c \<longleftrightarrow> (let n = of_char c :: nat in n < 128 \<and> n \<noteq> 27 \<and> alphabet n = Some (word_of_nat n))"

definition sms_plain :: "string \<Rightarrow> bool" where
  "sms_plain msg \<longleftrightarrow> list_all sms_char msg"

lemma sms_plain_runes: "sms_plain msg \<Longrightarrow> runes msg = codes msg"
  by (intro runes_ASCII) (auto simp: sms_plain_def sms_char_def codes_def list_all_iff Let_def)

lemma sms_plain_in_gsm:
  assumes "sms_plain msg"
  shows "list_all in_gsm (runes msg)"
  using assms
  by (auto simp: sms_plain_runes codes_def list_all_iff sms_plain_def sms_char_def in_gsm_def Let_def)

lemma sms_plain_decoded:
  assumes "sms_plain msg"
  shows "Decode_text (to_bytes msg) DataCodingDefault = Ok msg"
proof -
  have c: "gsm_encode_rune (of_char c) = [byte_of_char c]" "of_char c \<noteq> (27 :: nat)" if "sms_char c" for c
    using that by (simp_all add: sms_char_def gsm_encode_rune_def byte_of_char_def Let_def)
  have "concat (map gsm_encode_rune (map of_char msg)) = to_bytes msg"
    using assms c(1) unfolding sms_plain_def by (induction msg) (simp_all add: to_bytes_def)
  then have e: "concat (map gsm_encode_rune (runes msg)) = to_bytes msg"
    by (simp add: sms_plain_runes [OF assms] codes_def)
  have "27 \<notin> set (runes msg)"
    using assms c(2) by (fastforce simp: sms_plain_runes [OF assms] sms_plain_def codes_def list_all_iff)
  from gsm_decode_encode [OF this] have "gsm_decode (to_bytes msg) = runes msg"
    by (simp add: e map_gsm_subst [OF sms_plain_in_gsm [OF assms]])
  moreover have "ValidString msg" by (rule gsm_text_valid [OF sms_plain_in_gsm [OF assms]])
  ultimately show ?thesis by (simp add: Decode_text_def DecodeGSM7Bit_def string_of_runes_runes)
qed

text \<open>What the server gets, and what it makes of it, for each of the three answers.\<close>

lemma bind_response_received:
  assumes "no_nul i" and "length i < 2 ^ 31"
  shows "\<exists>r. pdu_wf r \<and> wire_bytes r = wire_bytes (BuildBindTransceiverResp i n StatusOK) \<and>
    Body r = BindResponse \<lparr>bp_SystemID = i\<rparr> \<and> h_CommandID (Header r) = CommandBindTransceiverResp \<and>
    h_CommandStatus (Header r) = StatusOK \<and> h_SequenceNum (Header r) = n"
proof -
  let ?q = "BuildBindTransceiverResp i n StatusOK"
  have body: "Body ?q = BindResponse \<lparr>bp_SystemID = i\<rparr>" by (simp add: BuildBindTransceiverResp_def mk_pdu_def)
  have "body_wf (Body ?q)" unfolding body using assms(1) by (simp add: bind_response_wf_def)
  moreover have "length (wire_bytes ?q) < 2 ^ 32"
    unfolding wire_bytes_def Encode_def body using assms(2)
    by (simp add: BindResponse_Marshal_def header_bytes_def Let_def)
  ultimately obtain r where r: "pdu_wf r" "wire_bytes r = wire_bytes ?q" "Body r = Body ?q"
    "h_SequenceNum (Header r) = h_SequenceNum (Header ?q)" "h_CommandStatus (Header r) = h_CommandStatus (Header ?q)"
    "h_CommandID (Header r) = body_CommandID (Body ?q)"
    using wire_encoded by metis
  with body show ?thesis
    by (intro exI [of _ r]) (simp add: BuildBindTransceiverResp_def mk_pdu_def BindResponse_CommandID_def)
qed

lemma submit_response_received:
  assumes "no_nul i" and "length i < 2 ^ 31"
  shows "\<exists>r. pdu_wf r \<and> wire_bytes r = wire_bytes (BuildSubmitSMResp i n StatusOK) \<and>
    Body r = SubmitSMResp \<lparr>sr_MessageID = i\<rparr> \<and> h_CommandID (Header r) = CommandSubmitSMResp \<and>
    h_CommandStatus (Header r) = StatusOK \<and> h_SequenceNum (Header r) = n"
proof -
  let ?q = "BuildSubmitSMResp i n StatusOK"
  have body: "Body ?q = SubmitSMResp \<lparr>sr_MessageID = i\<rparr>" by (simp add: BuildSubmitSMResp_def mk_pdu_def)
  have "body_wf (Body ?q)" unfolding body using assms(1) by (simp add: submit_sm_resp_wf_def)
  moreover have "length (wire_bytes ?q) < 2 ^ 32"
    unfolding wire_bytes_def Encode_def body using assms(2)
    by (simp add: SubmitSMResp_Marshal_def header_bytes_def Let_def)
  ultimately obtain r where r: "pdu_wf r" "wire_bytes r = wire_bytes ?q" "Body r = Body ?q"
    "h_SequenceNum (Header r) = h_SequenceNum (Header ?q)" "h_CommandStatus (Header r) = h_CommandStatus (Header ?q)"
    "h_CommandID (Header r) = body_CommandID (Body ?q)"
    using wire_encoded by metis
  with body show ?thesis
    by (intro exI [of _ r]) (simp add: BuildSubmitSMResp_def mk_pdu_def SubmitSMResp_CommandID_def)
qed

lemma unbind_response_received:
  "\<exists>r. pdu_wf r \<and> wire_bytes r = wire_bytes (BuildUnbindResp n) \<and> Body r = EmptyBody UnbindResp \<and>
    h_SequenceNum (Header r) = n"
proof -
  let ?q = "BuildUnbindResp n"
  have body: "Body ?q = EmptyBody UnbindResp" by (simp add: BuildUnbindResp_def mk_pdu_def)
  have "body_wf (Body ?q)" by (simp add: body)
  moreover have "length (wire_bytes ?q) < 2 ^ 32"
    unfolding wire_bytes_def Encode_def body by (simp add: empty_Marshal_def header_bytes_def Let_def)
  ultimately obtain r where r: "pdu_wf r" "wire_bytes r = wire_bytes ?q" "Body r = Body ?q"
    "h_SequenceNum (Header r) = h_SequenceNum (Header ?q)" using wire_encoded by metis
  with body show ?thesis by (intro exI [of _ r]) (simp add: BuildUnbindResp_def mk_pdu_def)
qed

lemma valid_plain_submit:
  assumes "ss_SourceAddr m = src" "ss_DestAddr m = dst" "ss_DataCoding m = DataCodingDefault"
    "ss_EsmClass m = EsmClassDefault" "ss_SourceAddrTON m = TONInternational" "ss_SourceAddrNPI m = NPIISDN"
    "ss_DestAddrTON m = TONInternational" "ss_DestAddrNPI m = NPIISDN"
    and "src \<noteq> ''''" and "dst \<noteq> ''''" and "sms_plain msg" and "length msg \<le> 1600"
  shows "ValidateMessage (submit_message i s m now msg) = Ok ()"
  using assms sms_plain_in_gsm [OF assms(11)]
  by (simp add: ValidateMessage_def submit_message_def ValidateText_def GetMaxLength_def isValidTONNPI_def
      sms_plain_runes codes_def Let_def)

text \<open>
  The client's side: the three PDUs that it sends, whatever ID the response to its message brings, and
  the responses that it can be sent.
\<close>

lemma client_conversation:
  assumes c: "cl_connected c" "cl_conn c = OpenConn" "\<not> cl_bound c" "cl_session c \<noteq> None"
    and hooks: "hk_onSubmitResponse (cl_hooks c)" and type: "cc_BindType (cl_config c) = ''transceiver''"
    and cfg: "fits MaxSystemIDLength (cc_SystemID (cl_config c))" "fits MaxPasswordLength (cc_Password (cl_config c))"
      "fits MaxSystemTypeLength (cc_SystemType (cl_config c))" "no_nul (cc_SystemID (cl_config c))"
    and msg: "fits 21 src" "fits 21 dst" "msg \<noteq> ''''" "length msg \<le> 1600"
  obtains p1 b p2 m p3 where "pdu_wf p1" "Body p1 = BindRequest b" "br_SystemID b = cc_SystemID (cl_config c)"
    "br_Password b = cc_Password (cl_config c)" "pdu_wf p2" "Body p2 = SubmitSM m"
    "message_bytes (ss_ShortMessage m) (ss_OptionalParams m) = to_bytes msg"
    "ss_SourceAddr m = src" "ss_DestAddr m = dst" "ss_DataCoding m = DataCodingDefault"
    "ss_EsmClass m = EsmClassDefault" "ss_SourceAddrTON m = TONInternational" "ss_SourceAddrNPI m = NPIISDN"
    "ss_DestAddrTON m = TONInternational" "ss_DestAddrNPI m = NPIISDN" "pdu_wf p3" "Body p3 = EmptyBody Unbind"
    "\<And>i. no_nul i \<Longrightarrow> length i < 2 ^ 31 \<Longrightarrow> \<exists>r1 r2 r3 c1 c2 c3 c4 c5.
       Bind net_ok c = (Ok (), c1) \<and> read_turn net_ok c1 r1 = (Ok (), c2) \<and>
       SendSMS net_ok c2 src dst msg = (Ok (), c3) \<and> read_turn net_ok c3 r2 = (Ok (), c4) \<and>
       client_Unbind net_ok c4 = (Ok (), c5) \<and> cl_out c5 = cl_out c @ wire_bytes p1 @ wire_bytes p2 @ wire_bytes p3 \<and>
       pdu_wf r1 \<and> pdu_wf r2 \<and> pdu_wf r3 \<and>
       wire_bytes r1 = wire_bytes (BuildBindTransceiverResp (br_SystemID b) (h_SequenceNum (Header p1)) StatusOK) \<and>
       wire_bytes r2 = wire_bytes (BuildSubmitSMResp i (h_SequenceNum (Header p2)) StatusOK) \<and>
       wire_bytes r3 = wire_bytes (BuildUnbindResp (h_SequenceNum (Header p3))) \<and>
       CalledSubmitResponse i None \<in> set (cl_calls c5) \<and> \<not> IsBound c5"
proof -
  let ?cfg = "cl_config c"
  define b where "b = \<lparr>br_SystemID = cc_SystemID ?cfg, br_Password = cc_Password ?cfg, br_SystemType = cc_SystemType ?cfg,
    br_InterfaceVersion = SMPPVersion, br_AddrTON = TONUnknown, br_AddrNPI = NPIUnknown, br_AddressRange = ''''\<rparr>"
  have b: "br_SystemID b = cc_SystemID ?cfg" "br_Password b = cc_Password ?cfg" by (simp_all add: b_def)
  have "bind_request_wf b" using cfg by (simp add: bind_request_wf_def b_def fits_def)
  from bind_sent [OF c(1-3) type this [unfolded b_def]] obtain bl p1 where
    1: "Bind net_ok c = (Ok (), c\<lparr>cl_builder := bl, cl_out := cl_out c @ wire_bytes p1\<rparr>)"
    "pdu_wf p1" "Body p1 = BindRequest b" unfolding b_def by blast
  let ?c1 = "c\<lparr>cl_builder := bl, cl_out := cl_out c @ wire_bytes p1\<rparr>"
  have "length (cc_SystemID ?cfg) < 2 ^ 31" using cfg(1) by (simp add: fits_def)
  from bind_response_received [OF cfg(4) this] obtain r1 where
    r1: "pdu_wf r1" "wire_bytes r1 = wire_bytes (BuildBindTransceiverResp (br_SystemID b) (h_SequenceNum (Header p1)) StatusOK)"
    "Body r1 = BindResponse \<lparr>bp_SystemID = cc_SystemID ?cfg\<rparr>" "h_CommandID (Header r1) = CommandBindTransceiverResp"
    "h_CommandStatus (Header r1) = StatusOK" unfolding b by metis
  obtain s1 where "cl_session ?c1 = Some s1" using c(4) by auto
  from bind_answered [OF _ this r1(3-5), of net_ok] c(1) obtain c2 s2 where
    2: "read_turn net_ok ?c1 r1 = (Ok (), c2)" "cl_out c2 = cl_out c @ wire_bytes p1" "cl_connected c2"
    "cl_conn c2 = OpenConn" "cl_bound c2" "cl_session c2 = Some s2" "se_State s2 = SessionStateBoundTRX"
    "hk_onSubmitResponse (cl_hooks c2)" using c(2) hooks by auto
  from submit_sent [OF 2(3-7) msg(1-3)] msg(4) obtain b2 p2 m where
    3: "SendSMS net_ok c2 src dst msg = (Ok (), c2\<lparr>cl_builder := b2, cl_out := cl_out c2 @ wire_bytes p2\<rparr>)"
    "pdu_wf p2" "Body p2 = SubmitSM m" "message_bytes (ss_ShortMessage m) (ss_OptionalParams m) = to_bytes msg"
    and m: "ss_SourceAddr m = src" "ss_DestAddr m = dst" "ss_DataCoding m = DataCodingDefault"
    "ss_EsmClass m = EsmClassDefault" "ss_SourceAddrTON m = TONInternational" "ss_SourceAddrNPI m = NPIISDN"
    "ss_DestAddrTON m = TONInternational" "ss_DestAddrNPI m = NPIISDN" by auto
  let ?c3 = "c2\<lparr>cl_builder := b2, cl_out := cl_out c2 @ wire_bytes p2\<rparr>"
  obtain p3 where p3: "pdu_wf p3" "Body p3 = EmptyBody Unbind" and unbinds:
    "\<And>c s. cl_builder c = b2 \<Longrightarrow> cl_connected c \<Longrightarrow> cl_conn c = OpenConn \<Longrightarrow> cl_bound c \<Longrightarrow> cl_session c = Some s \<Longrightarrow>
      \<exists>c'. client_Unbind net_ok c = (Ok (), c') \<and> cl_out c' = cl_out c @ wire_bytes p3 \<and> \<not> cl_bound c' \<and>
         set (cl_calls c) \<subseteq> set (cl_calls c')"
    using unbind_sent [of b2] by blast
  obtain r3 where r3: "pdu_wf r3" "wire_bytes r3 = wire_bytes (BuildUnbindResp (h_SequenceNum (Header p3)))"
    using unbind_response_received by blast
  have c3: "cl_session ?c3 = Some s2" "hk_onSubmitResponse (cl_hooks ?c3)" using 2 by simp_all
  show thesis
  proof (rule that [OF 1(2,3) b 3(2-4) m p3])
    fix i :: string assume i: "no_nul i" "length i < 2 ^ 31"
    obtain r2 where r2: "pdu_wf r2" "wire_bytes r2 = wire_bytes (BuildSubmitSMResp i (h_SequenceNum (Header p2)) StatusOK)"
      "Body r2 = SubmitSMResp \<lparr>sr_MessageID = i\<rparr>" "h_CommandID (Header r2) = CommandSubmitSMResp"
      "h_CommandStatus (Header r2) = StatusOK" using submit_response_received [OF i] by blast
    from submit_answered [OF c3(1) r2(3) c3(2) r2(4,5), of net_ok] obtain c4 s4 where
      6: "read_turn net_ok ?c3 r2 = (Ok (), c4)" "cl_out c4 = cl_out ?c3" "cl_connected c4" "cl_conn c4 = OpenConn"
      "cl_bound c4" "cl_session c4 = Some s4" "cl_builder c4 = b2" "CalledSubmitResponse i None \<in> set (cl_calls c4)"
      using 2 by auto
    from unbinds [OF 6(7,3,4,5,6)] obtain c5 where
      7: "client_Unbind net_ok c4 = (Ok (), c5)" "cl_out c5 = cl_out c4 @ wire_bytes p3" "\<not> cl_bound c5"
      "set (cl_calls c4) \<subseteq> set (cl_calls c5)" by blast
    have "cl_out c5 = cl_out c @ wire_bytes p1 @ wire_bytes p2 @ wire_bytes p3"
      and "CalledSubmitResponse i None \<in> set (cl_calls c5)" "\<not> IsBound c5"
      using 7(2-4) 6(2,8) 2(2) by (auto simp: IsBound_def)
    with 1(1) 2(1) 3(1) 6(1) 7(1) r1(1,2) r2(1,2) r3 show "\<exists>r1 r2 r3 c1 c2 c3 c4 c5.
       Bind net_ok c = (Ok (), c1) \<and> read_turn net_ok c1 r1 = (Ok (), c2) \<and>
       SendSMS net_ok c2 src dst msg = (Ok (), c3) \<and> read_turn net_ok c3 r2 = (Ok (), c4) \<and>
       client_Unbind net_ok c4 = (Ok (), c5) \<and> cl_out c5 = cl_out c @ wire_bytes p1 @ wire_bytes p2 @ wire_bytes p3 \<and>
       pdu_wf r1 \<and> pdu_wf r2 \<and> pdu_wf r3 \<and>
       wire_bytes r1 = wire_bytes (BuildBindTransceiverResp (br_SystemID b) (h_SequenceNum (Header p1)) StatusOK) \<and>
       wire_bytes r2 = wire_bytes (BuildSubmitSMResp i (h_SequenceNum (Header p2)) StatusOK) \<and>
       wire_bytes r3 = wire_bytes (BuildUnbindResp (h_SequenceNum (Header p3))) \<and>
       CalledSubmitResponse i None \<in> set (cl_calls c5) \<and> \<not> IsBound c5"
      by blast
  qed
qed

text \<open>
  C2. A client that is connected to the server and configured as a transceiver with the credentials of an account
  binds, sends a message and unbinds, over a network that works.  For a text of plain characters (\<open>sms_plain\<close>: ASCII without the signs that the GSM alphabet has elsewhere or not
  at all, such as \<open>'@'\<close>, \<open>'$'\<close> and \<open>'_'\<close>) of 1 to 1600 bytes every call succeeds, the client reads exactly the server's three
  answers, its callback gets the ID under which the server has stored the message, and what is stored
  has the text and the addresses of the call.  Other texts can arrive as different ones, see
  \<open>SendSMS_garbles_at_sign\<close>.
\<close>

theorem client_meets_server:
  assumes "sms_store_inv (w_sms (sw_handler w))" and "sc_active cn"
    and "\<And>k. 0 \<le> hclock k \<and> hclock k < 10 ^ 19"
    and "client_reach c" and "IsConnected c" and "\<not> IsBound c" and "hk_onSubmitResponse (cl_hooks c)"
    and "cc_BindType (cl_config c) = ''transceiver''"
    and "fits MaxSystemIDLength (cc_SystemID (cl_config c))" and "fits MaxPasswordLength (cc_Password (cl_config c))"
    and "fits MaxSystemTypeLength (cc_SystemType (cl_config c))" and "no_nul (cc_SystemID (cl_config c))"
    and "is_account (sw_users w) (cc_SystemID (cl_config c)) (cc_Password (cl_config c))"
    and "fits 21 src" and "fits 21 dst" and "src \<noteq> ''''" and "dst \<noteq> ''''"
    and "sms_plain msg" and "msg \<noteq> ''''" and "length msg \<le> 1600"
  shows "\<exists>r1 r2 r3 c1 c2 c3 c4 c5 sent received i s' cn' w' stored.
    Bind net_ok c = (Ok (), c1) \<and> read_turn net_ok c1 r1 = (Ok (), c2) \<and>
    SendSMS net_ok c2 src dst msg = (Ok (), c3) \<and> read_turn net_ok c3 r2 = (Ok (), c4) \<and>
    client_Unbind net_ok c4 = (Ok (), c5) \<and> cl_out c5 = cl_out c @ sent \<and>
    connectionLifecycle (memory_server (memory_handler publisher router queue splitter hclock) events clock)
      (\<lambda>_. Running) (\<lambda>_. net_ok) addr sent cn w = (None, s', cn', w') \<and>
    sc_out cn' = sc_out cn @ received \<and> fst (read_loop DecodeFromReader 4 received) = [r1, r2, r3] \<and>
    CalledSubmitResponse i None \<in> set (cl_calls c5) \<and> \<not> IsBound c5 \<and> se_State s' = SessionStateUnbound \<and>
    ms_messages (w_sms (sw_handler w')) = (ms_messages (w_sms (sw_handler w)))(i \<mapsto> stored) \<and>
    m_Text stored = msg \<and> a_Addr (m_SourceAddr stored) = src \<and> a_Addr (m_DestAddr stored) = dst"
proof -
  let ?srv = "memory_server (memory_handler publisher router queue splitter hclock) events clock"
  have c: "cl_connected c" "cl_conn c = OpenConn" "\<not> cl_bound c" "cl_session c \<noteq> None"
    using client_reach_connected [OF assms(4)] assms(5,6) by (simp_all add: IsConnected_def IsBound_def)
  obtain p1 b p2 m p3 where 1: "pdu_wf p1" "Body p1 = BindRequest b" and b: "br_SystemID b = cc_SystemID (cl_config c)"
    "br_Password b = cc_Password (cl_config c)"
    and 2: "pdu_wf p2" "Body p2 = SubmitSM m" "message_bytes (ss_ShortMessage m) (ss_OptionalParams m) = to_bytes msg"
    and m: "ss_SourceAddr m = src" "ss_DestAddr m = dst" "ss_DataCoding m = DataCodingDefault"
    "ss_EsmClass m = EsmClassDefault" "ss_SourceAddrTON m = TONInternational" "ss_SourceAddrNPI m = NPIISDN"
    "ss_DestAddrTON m = TONInternational" "ss_DestAddrNPI m = NPIISDN" and 3: "pdu_wf p3" "Body p3 = EmptyBody Unbind"
    and client: "\<And>i. no_nul i \<Longrightarrow> length i < 2 ^ 31 \<Longrightarrow> \<exists>r1 r2 r3 c1 c2 c3 c4 c5.
       Bind net_ok c = (Ok (), c1) \<and> read_turn net_ok c1 r1 = (Ok (), c2) \<and>
       SendSMS net_ok c2 src dst msg = (Ok (), c3) \<and> read_turn net_ok c3 r2 = (Ok (), c4) \<and>
       client_Unbind net_ok c4 = (Ok (), c5) \<and> cl_out c5 = cl_out c @ wire_bytes p1 @ wire_bytes p2 @ wire_bytes p3 \<and>
       pdu_wf r1 \<and> pdu_wf r2 \<and> pdu_wf r3 \<and>
       wire_bytes r1 = wire_bytes (BuildBindTransceiverResp (br_SystemID b) (h_SequenceNum (Header p1)) StatusOK) \<and>
       wire_bytes r2 = wire_bytes (BuildSubmitSMResp i (h_SequenceNum (Header p2)) StatusOK) \<and>
       wire_bytes r3 = wire_bytes (BuildUnbindResp (h_SequenceNum (Header p3))) \<and>
       CalledSubmitResponse i None \<in> set (cl_calls c5) \<and> \<not> IsBound c5"
    by (rule client_conversation [OF c assms(7-12,14,15,19,20)]) blast
  have 4: "message_bytes (ss_ShortMessage m) (ss_OptionalParams m) \<noteq> []"
    "Decode_text (message_bytes (ss_ShortMessage m) (ss_OptionalParams m)) (ss_DataCoding m) = Ok msg"
    using assms(19) sms_plain_decoded [OF assms(18)] 2(3) m(3) by (simp_all add: to_bytes_def)
  have acc: "is_account (sw_users w) (br_SystemID b) (br_Password b)" using assms(13) by (simp add: b)
  from submit_session [OF assms(1,2) 1 acc 2(1,2) 4 valid_plain_submit [OF m assms(16,17,18,20)] 3, folded net_ok_def]
  obtain i n s' cn' w' stored where 5: "connectionLifecycle ?srv (\<lambda>_. Running) (\<lambda>_. net_ok) addr
      (wire_bytes p1 @ wire_bytes p2 @ wire_bytes p3) cn w = (None, s', cn', w')"
    "se_State s' = SessionStateUnbound"
    "sc_out cn' = sc_out cn @ wire_bytes (BuildBindTransceiverResp (br_SystemID b) (h_SequenceNum (Header p1)) StatusOK) @
      wire_bytes (BuildSubmitSMResp i (h_SequenceNum (Header p2)) StatusOK) @
      wire_bytes (BuildUnbindResp (h_SequenceNum (Header p3)))"
    "ms_messages (w_sms (sw_handler w')) = (ms_messages (w_sms (sw_handler w)))(i \<mapsto> stored)"
    "m_Text stored = msg" "a_Addr (m_SourceAddr stored) = ss_SourceAddr m" "a_Addr (m_DestAddr stored) = ss_DestAddr m"
    "i = message_ID_at (hclock n) (hclock (n + 1))"
    by blast
  have "no_nul i" "length i < 2 ^ 31"
    using length_message_ID [of "hclock n" "hclock (n + 1)"] assms(3) [of n] 5(8) by simp_all
  from client [OF this] obtain r1 r2 r3 c1 c2 c3 c4 c5 where 6: "Bind net_ok c = (Ok (), c1)" "read_turn net_ok c1 r1 = (Ok (), c2)"
    "SendSMS net_ok c2 src dst msg = (Ok (), c3)" "read_turn net_ok c3 r2 = (Ok (), c4)" "client_Unbind net_ok c4 = (Ok (), c5)"
    "cl_out c5 = cl_out c @ wire_bytes p1 @ wire_bytes p2 @ wire_bytes p3" "CalledSubmitResponse i None \<in> set (cl_calls c5)" "\<not> IsBound c5"
    and r: "pdu_wf r1" "pdu_wf r2" "pdu_wf r3" "sc_out cn' = sc_out cn @ concat (map wire_bytes [r1, r2, r3])"
    using 5(3) by auto
  have "fst (read_loop DecodeFromReader 4 (concat (map wire_bytes [r1, r2, r3]))) = [r1, r2, r3]"
    using pdu_stream.read_loop_enc [of "[r1, r2, r3]" 4] r(1-3) by simp
  with 5(1,2,4-7) 6 r(4) m(1,2) show ?thesis by blast
qed

theorem client_meets_server_witness:
  "\<exists>r1 c1 c2 c3 sent s' cn' w' i stored. Bind net_ok example_client = (Ok (), c1) \<and>
    read_turn net_ok c1 r1 = (Ok (), c2) \<and> SendSMS net_ok c2 ''1000'' ''2000'' ''hi'' = (Ok (), c3) \<and>
    connectionLifecycle (memory_server (memory_handler True None None None (\<lambda>k. 5)) True int) (\<lambda>_. Running) (\<lambda>_. net_ok)
      ''a'' sent example_conn example_server_world = (None, s', cn', w') \<and>
    ms_messages (w_sms (sw_handler w')) = (ms_messages (w_sms (sw_handler example_server_world)))(i \<mapsto> stored) \<and>
    m_Text stored = ''hi''"
proof -
  have a: "is_account (sw_users example_server_world) (cc_SystemID (cl_config example_client)) (cc_Password (cl_config example_client))"
    by (simp add: example_client is_account_def example_server_world_def NewInMemoryUserAuth_def Authenticate_def Let_def)
  have p: "sms_plain ''hi''" by (simp add: sms_plain_def sms_char_def alphabet_def gsm7BitAlphabet_def)
  have f: "fits MaxSystemIDLength (cc_SystemID (cl_config example_client))"
    "fits MaxPasswordLength (cc_Password (cl_config example_client))"
    "fits MaxSystemTypeLength (cc_SystemType (cl_config example_client))" "no_nul (cc_SystemID (cl_config example_client))"
    "fits 21 ''1000''" "fits 21 ''2000''" "''1000'' \<noteq> ''''" "''2000'' \<noteq> ''''" "''hi'' \<noteq> ''''" "length ''hi'' \<le> 1600"
    by (simp_all add: example_client fits_def)
  have conn: "sc_active example_conn" by (simp add: NewServerConnection_def)
  have clock: "0 \<le> (\<lambda>k :: nat. 5 :: int) k \<and> (\<lambda>k. 5) k < (10 :: int) ^ 19" for k by simp
  from client_meets_server [OF example_server_inv conn clock example_client(1-5) f(1-4) a f(5-8) p f(9,10),
      of True None None None True int "''a''"]
  show ?thesis
    by (elim exE conjE) (intro exI conjI)
qed

text \<open>
  Other texts are not the same: \<open>SendSMS\<close> puts the bytes of the text into a message whose data coding
  stands for the GSM alphabet, in which the byte of \<open>'@'\<close> is an inverted exclamation mark.
\<close>

theorem SendSMS_garbles_at_sign:
  "\<exists>m t. Body (fst (BuildSubmitSM b src dst ''a@b'')) = SubmitSM m \<and>
    Decode_text (message_bytes (ss_ShortMessage m) (ss_OptionalParams m)) (ss_DataCoding m) = Ok t \<and>
    runes t = [97, 161, 98]"
proof -
  have "gsm7BitReverse 97 = Some 97" "gsm7BitReverse 64 = Some 161" "gsm7BitReverse 98 = Some 98"
    by (simp_all only: reverse_alphabet) (simp_all add: alphabet_def gsm7BitAlphabet_def)
  then have "gsm_decode (to_bytes ''a@b'') = [97, 161, 98]"
    by (simp add: to_bytes_def byte_of_char_def gsm_decode_Cons)
  then have d: "Decode_text (to_bytes ''a@b'') 0 = Ok (string_of_runes [97, 161, 98])"
    by (simp add: Decode_text_def DecodeGSM7Bit_def)
  have "runes (string_of_runes [97, 161, 98]) = [97, 161, 98]"
    by (rule runes_string_of_runes) (simp add: scalar_def)
  with d show ?thesis
    by (simp add: BuildSubmitSM_def mk_pdu_def message_bytes_def split_beta Let_def to_bytes_def)
qed

section \<open>Losing a connection and disconnecting\<close>

lemma Connect_ok:
  assumes "\<not> cl_connected c"
  shows "\<exists>c' s. Connect None c = (Ok (), c') \<and> cl_connected c' \<and> cl_conn c' = OpenConn \<and> cl_session c' = Some s \<and>
    cl_done c' = cl_done c \<and> cl_bound c' = cl_bound c \<and> cl_hooks c' = cl_hooks c \<and> cl_config c' = cl_config c"
  using assms by (simp add: Connect_def cl_Now_def cl_call_def publish_event_def Let_def)

lemma Bind_keeps:
  "Bind net c = (r, c') \<Longrightarrow> cl_connected c' = cl_connected c \<and> cl_done c' = cl_done c \<and> cl_session c' = cl_session c"
  by (auto simp: Bind_def sendPDU_def split: if_splits prod.splits result.splits)

lemma give_up_connected:
  assumes "cl_connected c"
  shows "give_up_attempt c = (e, c') \<Longrightarrow> (if cl_done c then e = AttemptPanicked else e = TryAgain) \<and>
    \<not> cl_connected c' \<and> (\<not> cl_done c \<longrightarrow> cl_done c')"
  using assms by (auto simp: give_up_attempt_def Disconnect_def Let_def cl_call_def publish_event_def cl_Now_def
      split: if_splits option.splits)

text \<open>An attempt that reaches the server, but gets no answer to its bind request.\<close>

lemma silent_attempt:
  assumes "\<not> cl_connected c" and "ry_dial try = None" and "ry_pdus try = []"
    and "reconnect_attempt try c = (e, c')"
  shows "e = AttemptPanicked \<or> e = TryAgain \<and> \<not> cl_done c \<and> \<not> cl_connected c' \<and> cl_done c'"
proof -
  let ?c0 = "c\<lparr>cl_reconnectCount := cl_reconnectCount c + 1\<rparr>"
  obtain c1 where 1: "Connect None ?c0 = (Ok (), c1)" "cl_connected c1" "cl_done c1 = cl_done c"
    using Connect_ok [of ?c0] assms(1) by auto
  let ?c1 = "c1\<lparr>cl_hooks := (cl_hooks c1)\<lparr>hk_onBind := RebindHook\<rparr>\<rparr>"
  obtain r2 c2 where 2: "Bind (ry_net try) ?c1 = (r2, c2)" by fastforce
  have c2: "cl_connected c2" "cl_done c2 = cl_done c" using Bind_keeps [OF 2] 1 by simp_all
  from assms(4) have "e = AttemptPanicked \<or> give_up_attempt c2 = (e, c')"
    by (auto simp: reconnect_attempt_def assms(2,3) 1(1) 2 split: result.splits)
  with give_up_connected [OF c2(1), of e c'] c2(2) show ?thesis by (auto split: if_splits)
qed

text \<open>
  When two attempts to reconnect reach a server that does not answer the bind request, the second one
  panics: giving up the first has closed the \<open>done\<close> channel, which is never made anew.
\<close>

theorem reconnect_panics:
  assumes "\<not> IsConnected c" and "cl_reconnectCount c + 2 \<le> cc_MaxReconnectAttempts (cl_config c)"
    and "ry_dial (tries k) = None" and "ry_pdus (tries k) = []"
    and "ry_dial (tries (k + 1)) = None" and "ry_pdus (tries (k + 1)) = []"
  shows "fst (reconnect tries k c) = ReconnectPanicked"
proof -
  obtain e1 c1 where 1: "reconnect_attempt (tries k) c = (e1, c1)" by fastforce
  have s1: "e1 = AttemptPanicked \<or> e1 = TryAgain \<and> \<not> cl_connected c1 \<and> cl_done c1"
    using silent_attempt [OF _ assms(3,4) 1] assms(1) by (auto simp: IsConnected_def)
  show ?thesis
  proof (cases "e1 = AttemptPanicked")
    case True
    with assms(2) 1 show ?thesis by (simp add: reconnect.simps [of tries k c])
  next
    case False
    obtain e2 c2 where 2: "reconnect_attempt (tries (k + 1)) c1 = (e2, c2)" by fastforce
    from silent_attempt [OF _ assms(5,6) 2] s1 False have "e2 = AttemptPanicked" by auto
    moreover have "cl_reconnectCount c1 < cc_MaxReconnectAttempts (cl_config c1)"
      using reconnect_attempt_count [of "tries k" c c1] 1 s1 False assms(2) by simp
    ultimately show ?thesis
      using assms(2) 1 2 s1 False by (simp add: reconnect.simps [of tries k c] reconnect.simps [of tries "Suc k" c1])
  qed
qed

theorem reconnect_panics_witness:
  "fst (reconnect (\<lambda>k. \<lparr>ry_dial = None, ry_net = net_ok, ry_pdus = []\<rparr>) 0
     (snd (handleDisconnection (Errorf ''EOF'') example_client))) = ReconnectPanicked"
  by (rule reconnect_panics)
    (simp_all add: handleDisconnection_def IsConnected_def cl_call_def example_client_def Connect_def NewClient_def
      OnSubmitResponse_def cl_Now_def no_hooks_def Let_def)

text \<open>
  When the bind request is answered, the client is connected and bound again and the count of attempts
  starts anew; the bind callback of the user has been replaced.
\<close>

theorem reconnect_succeeds:
  assumes "\<not> IsConnected c" and "\<not> IsBound c" and "\<not> cl_done c"
    and "cl_reconnectCount c < cc_MaxReconnectAttempts (cl_config c)"
    and "cc_BindType (cl_config c) = ''transceiver''"
    and "fits MaxSystemIDLength (cc_SystemID (cl_config c))" and "fits MaxPasswordLength (cc_Password (cl_config c))"
    and "fits MaxSystemTypeLength (cc_SystemType (cl_config c))"
    and "tries k = \<lparr>ry_dial = None, ry_net = net_ok, ry_pdus = [BuildBindTransceiverResp i n StatusOK]\<rparr>"
  shows "\<exists>c'. reconnect tries k c = (ReconnectOK, c') \<and> IsConnected c' \<and> IsBound c' \<and> cl_reconnectCount c' = 0 \<and>
    hk_onBind (cl_hooks c') = RebindHook"
proof -
  let ?c0 = "c\<lparr>cl_reconnectCount := cl_reconnectCount c + 1\<rparr>" and ?r = "BuildBindTransceiverResp i n StatusOK"
  obtain c1 s where 1: "Connect None ?c0 = (Ok (), c1)" "cl_connected c1" "cl_conn c1 = OpenConn" "cl_session c1 = Some s"
    "\<not> cl_done c1" "\<not> cl_bound c1" "cl_config c1 = cl_config c"
    using Connect_ok [of ?c0] assms(1-3) by (auto simp: IsConnected_def IsBound_def)
  let ?c1 = "c1\<lparr>cl_hooks := (cl_hooks c1)\<lparr>hk_onBind := RebindHook\<rparr>\<rparr>"
  have "\<exists>b p. Bind net_ok ?c1 = (Ok (), ?c1\<lparr>cl_builder := b, cl_out := cl_out ?c1 @ wire_bytes p\<rparr>)"
    using bind_sent [of ?c1] 1 assms(5-8) by (auto simp: bind_request_wf_def fits_def)
  then obtain b p where 2: "Bind net_ok ?c1 = (Ok (), ?c1\<lparr>cl_builder := b, cl_out := cl_out ?c1 @ wire_bytes p\<rparr>)"
    by blast
  have "\<exists>c3. read_turn net_ok (?c1\<lparr>cl_builder := b, cl_out := cl_out ?c1 @ wire_bytes p\<rparr>) ?r = (Ok (), c3) \<and>
      cl_connected c3 \<and> cl_bound c3 \<and> cl_calls c3 = cl_calls c1 @ [CalledBind RebindHook] \<and>
      hk_onBind (cl_hooks c3) = RebindHook"
    using 1(2-5) by (simp add: BuildBindTransceiverResp_def mk_pdu_def read_turn_def cl_Now_def client_handlePDU_def
        handleBindResponse_def with_session_def cl_call_def publish_event_def Let_def)
  then obtain c3 where 3: "read_turn net_ok (?c1\<lparr>cl_builder := b, cl_out := cl_out ?c1 @ wire_bytes p\<rparr>) ?r = (Ok (), c3)"
    "cl_connected c3" "cl_bound c3" "cl_calls c3 = cl_calls c1 @ [CalledBind RebindHook]"
    "hk_onBind (cl_hooks c3) = RebindHook" by blast
  have "reconnect_attempt (tries k) c = (Reconnected, c3\<lparr>cl_reconnectCount := 0\<rparr>)"
    using 1(1,2,5) 2 3(1,4) by (simp add: reconnect_attempt_def assms(9))
  with assms(4) 3 show ?thesis by (simp add: reconnect.simps [of tries k c] IsConnected_def IsBound_def)
qed

theorem reconnect_succeeds_witness:
  "\<exists>c'. reconnect (\<lambda>k. \<lparr>ry_dial = None, ry_net = net_ok, ry_pdus = [BuildBindTransceiverResp ''smsc'' 1 StatusOK]\<rparr>) 0
     (snd (handleDisconnection (Errorf ''EOF'') example_client)) = (ReconnectOK, c') \<and> IsConnected c' \<and> IsBound c' \<and>
     cl_reconnectCount c' = 0 \<and> hk_onBind (cl_hooks c') = RebindHook"
  by (rule reconnect_succeeds [where i = "''smsc''" and n = 1])
    (simp_all add: handleDisconnection_def IsConnected_def IsBound_def cl_call_def example_client_def Connect_def
      NewClient_def OnSubmitResponse_def cl_Now_def no_hooks_def fits_def Let_def)

text \<open>
  A client can be disconnected once: after a \<open>Disconnect\<close> it can connect again, but its read loop then
  ends at once, so that no answer is ever read, and its next \<open>Disconnect\<close> panics.
\<close>

theorem client_disconnects_once:
  assumes "Disconnect c = (Ok (), c1)" and "Connect dial c1 = (Ok (), c2)"
  shows "readLoop nets k input c2 = (LoopStopped, c2) \<and> fst (Disconnect c2) = Panic"
proof -
  have "\<not> cl_connected c1 \<and> cl_done c1"
    using assms(1) by (auto simp: Disconnect_def Let_def cl_call_def publish_event_def cl_Now_def split: if_splits option.splits)
  moreover from this assms(2) have "cl_connected c2" "cl_done c2 = cl_done c1"
    using Connect_ok [of c1] by (cases dial; auto simp: Connect_def)+
  ultimately show ?thesis by (simp add: readLoop.simps [of nets k input c2] Disconnect_def Let_def)
qed

theorem client_disconnects_once_witness:
  "fst (Disconnect (snd (Connect None (snd (Disconnect example_client))))) = Panic"
proof -
  obtain c1 where c1: "Disconnect example_client = (Ok (), c1)" "\<not> cl_connected c1"
    by (simp add: example_client_def Connect_def NewClient_def OnSubmitResponse_def cl_Now_def cl_call_def no_hooks_def
        Disconnect_def Let_def)
  obtain c2 where c2: "Connect None c1 = (Ok (), c2)" using Connect_ok [OF c1(2)] by blast
  from client_disconnects_once [OF c1(1) c2] c1 c2 show ?thesis by simp
qed

text \<open>A disconnected client from which the read loop has still to handle a bind response\<close>

lemma done_helpers [simp]: "cl_done (cl_call b call c) = cl_done c" "cl_done (publish_event c ev) = cl_done c"
  by (simp_all add: cl_call_def publish_event_def cl_Now_def)

lemma flag_helpers [simp]:
  "cl_connected (cl_call b call c) = cl_connected c" "cl_connected (publish_event c ev) = cl_connected c"
  "cl_bound (cl_call b call c) = cl_bound c" "cl_bound (publish_event c ev) = cl_bound c"
  "cl_session (cl_call b call c) = cl_session c" "cl_session (publish_event c ev) = cl_session c"
  by (simp_all add: cl_call_def publish_event_def cl_Now_def)

lemma Disconnect_rest_flags:
  assumes "\<not> cl_done c"
  shows "fst (Disconnect_rest c) = Ok ()" "cl_bound (snd (Disconnect_rest c)) = cl_bound c"
    "cl_connected (snd (Disconnect_rest c)) = cl_connected c"
  using assms by (simp_all add: Disconnect_rest_def Let_def split: option.split)

lemma bind_response_done: "cl_done (snd (handleBindResponse c p)) = cl_done c"
  by (simp add: handleBindResponse_def with_session_def Let_def split: option.split)

lemma Disconnect_rest_reach:
  assumes "client_reach c"
  shows "client_reach (snd (Disconnect_rest c))"
proof (cases "cl_done c")
  case False
  let ?c2 = "c\<lparr>cl_out := cl_out c, cl_builder := cl_builder c, cl_done := True, cl_tickers := 0,
      cl_reconnectCount := cl_reconnectCount c, cl_ticks := cl_ticks c\<rparr>"
  have c2: "client_reach ?c2" by (rule client_runs.piece [OF assms TrueI client_piece.worked])
  have ev: "client_reach (publish_event ?c2 (connection_event_of EventTypeDisconnected s '''' Map.empty))" for s
    by (rule client_runs.piece [OF c2 TrueI client_piece.published]) (unfold client_event_def, blast)
  have cl: "client_reach d \<Longrightarrow> client_reach (cl_call hook call d)" for hook call d
    by (rule client_runs.piece [OF _ TrueI client_piece.called])
  have "c\<lparr>cl_done := True, cl_tickers := 0\<rparr> = ?c2" by simp
  then show ?thesis using c2 ev cl False by (simp add: Disconnect_rest_def Let_def split: option.split)
qed (simp add: Disconnect_rest_def assms)

text \<open>
  C38. A bind response that the read loop handles while \<open>Disconnect\<close> waits for it, after the flags have
  been cleared, leaves a client that is bound and not connected.  \<open>Unbind\<close> fails and keeps it
  bound; when it connects again, \<open>Bind\<close> is refused because the client is bound already, and \<open>SendSMS\<close> because the
  new session is not: it can neither bind nor send.
\<close>

theorem late_bind_response:
  assumes "client_reach c" and "IsConnected c" and "\<not> cl_done c" and "wire_pdu p"
    and "h_CommandID (Header p) = CommandBindTransceiverResp" and "h_CommandStatus (Header p) = StatusOK"
  shows "\<exists>c1 c2 c3. client_handlePDU net (Disconnect_locked c) p = (Ok (), c1) \<and> Disconnect_rest c1 = (Ok (), c2) \<and>
    client_reach c2 \<and> IsBound c2 \<and> \<not> IsConnected c2 \<and>
    (\<exists>e. fst (client_Unbind net c2) = Err e) \<and> IsBound (snd (client_Unbind net c2)) \<and>
    Connect None c2 = (Ok (), c3) \<and> client_reach c3 \<and> IsConnected c3 \<and> IsBound c3 \<and>
    Bind net c3 = (Err (Errorf ''client is already bound''), c3) \<and>
    SendSMS net c3 src dst msg = (Err (Errorf ''client is not bound for transmission''), c3)"
proof -
  have con: "cl_connected c" using assms(2) by (simp add: IsConnected_def)
  obtain s where s: "cl_session c = Some s" using client_reach_connected [OF assms(1) con] by blast
  let ?c0 = "Disconnect_locked c"
  have c0: "client_reach ?c0" by (rule client_runs.piece [OF assms(1) TrueI client_piece.cut [OF con]])
  have f0: "cl_session ?c0 = Some s" "\<not> cl_connected ?c0" "\<not> cl_done ?c0"
    using s assms(3) by (simp_all add: Disconnect_locked_def)
  obtain r c1 where h: "client_handlePDU net ?c0 p = (r, c1)" by fastforce
  have b: "handleBindResponse ?c0 p = (r, c1)" using h assms(5) by (simp add: client_handlePDU_def)
  have s0: "cl_session ?c0 \<noteq> None" using f0(1) by simp
  note v = handleBindResponse_view [OF s0 b]
  have r1: "client_reach c1" using client_runs.handled [OF c0 _ s0 assms(4), of net] h by simp
  have "cl_done c1 = cl_done ?c0"
    using bind_response_done [of ?c0 p] b by simp
  then have f1: "\<not> cl_done c1" "cl_bound c1" "\<not> cl_connected c1"
    using v(2) f0(2,3) assms(6) by (simp_all add: inv_view_def)
  obtain q c2 where d: "Disconnect_rest c1 = (q, c2)" by fastforce
  have q: "q = Ok ()" "cl_bound c2 = cl_bound c1" "cl_connected c2 = cl_connected c1"
    using Disconnect_rest_flags [OF f1(1)] d by simp_all
  have r2: "client_reach c2" using Disconnect_rest_reach [OF r1] d by simp
  have u: "fst (client_Unbind net c2) = Err (Wrap ''failed to send unbind'' (Errorf ''client is not connected''))"
    "cl_bound (snd (client_Unbind net c2))"
    using q f1 by (simp_all add: client_Unbind_def sendPDU_def split: prod.split)
  obtain c3 where c3: "Connect None c2 = (Ok (), c3)" using Connect_ok [of c2] q(3) f1(3) by blast
  have r3: "client_reach c3" using client_runs.connect [OF r2, of None] c3 by simp
  have f3: "cl_connected c3" "cl_bound c3" "\<exists>s. cl_session c3 = Some s \<and> se_State s = SessionStateOpen"
    using c3 q f1 by (auto simp: Connect_def cl_Now_def new_session_def Let_def)
  then have "Bind net c3 = (Err (Errorf ''client is already bound''), c3)"
    "SendSMS net c3 src dst msg = (Err (Errorf ''client is not bound for transmission''), c3)"
    by (auto simp: Bind_def SendSMS_def with_session_def)
  with h v(1) d q r2 f1 u c3 r3 f3 show ?thesis
    by (intro exI [of _ c1] exI [of _ c2] exI [of _ c3]) (simp add: IsBound_def IsConnected_def)
qed

theorem late_bind_response_witness:
  "\<exists>c1 c2 c3. client_handlePDU net_ok (Disconnect_locked example_client) example_bind_resp = (Ok (), c1) \<and>
    Disconnect_rest c1 = (Ok (), c2) \<and> IsBound c2 \<and> \<not> IsConnected c2 \<and> Connect None c2 = (Ok (), c3) \<and>
    Bind net_ok c3 = (Err (Errorf ''client is already bound''), c3)"
proof -
  have "\<not> cl_done example_client"
    by (simp add: example_client_def Connect_def NewClient_def OnSubmitResponse_def cl_Now_def cl_call_def no_hooks_def
        Let_def)
  from late_bind_response [OF example_client(1,2) this example_bind_resp, of net_ok] show ?thesis by blast
qed

end
