(* ===== verification/Floats.thy ===== *)
theory Floats
  imports Complex_Main Prelude
begin

text \<open>
  \<open>float64\<close> arithmetic as the program uses it: the result of an operation is the exact one, rounded by a
  function \<open>fl\<close>, which the definitions that compute with floats take as an argument.
\<close>

text \<open>The conversion of a float to an \<open>int64\<close> drops the fraction.\<close>

definition int64_of :: "rat \<Rightarrow> int" where
  "int64_of x = (if 0 \<le> x then \<lfloor>x\<rfloor> else - \<lfloor>- x\<rfloor>)"

text \<open>
  What is used of rounding: it keeps 0 and changes a larger number by a factor between \<open>1 - u\<close> and
  \<open>1 + u\<close>, down to \<open>2 ^ (-100)\<close> (\<open>u\<close> is \<open>2 ^ (-53)\<close>).
\<close>

definition rounds_within :: "rat \<Rightarrow> (rat \<Rightarrow> rat) \<Rightarrow> bool" where
  "rounds_within u fl \<longleftrightarrow> 0 \<le> u \<and> u \<le> 1 / 2 \<and> fl 0 = 0
     \<and> (\<forall>x. 1 / 2 ^ 100 \<le> x \<longrightarrow> x * (1 - u) \<le> fl x \<and> fl x \<le> x * (1 + u))"

lemma rounds_withinD:
  assumes "rounds_within u fl" and "1 / 2 ^ 100 \<le> x"
  shows "x * (1 - u) \<le> fl x" "fl x \<le> x * (1 + u)" "x / 2 \<le> fl x" "0 < fl x"
proof -
  have u: "0 \<le> u" "u \<le> 1 / 2" using assms(1) by (auto simp: rounds_within_def)
  show a: "x * (1 - u) \<le> fl x" "fl x \<le> x * (1 + u)" using assms by (auto simp: rounds_within_def)
  have x: "0 < x" by (rule less_le_trans [OF _ assms(2)]) simp
  have "x * (1 / 2) \<le> x * (1 - u)" using u x by (intro mult_left_mono) auto
  with a(1) show "x / 2 \<le> fl x" by simp
  with x show "0 < fl x" by simp
qed

end
