(* ===== verification/RateLimits.thy ===== *)
theory RateLimits
  imports Floats Messages
begin

text \<open>
  The two limiters of the library: flow control windows (\<open>internal/flowcontrol/window.go\<close>) and rate
  limits (\<open>internal/ratelimit/tokenbucket.go\<close>).  Two of them admit a request when fewer than a given
  number were admitted in the time before it; what that promises is proved once, for the locale
  \<open>sliding_admission\<close>.
\<close>

section \<open>Windows of time stamps\<close>

text \<open>The loops that drop the entries at or before the start of the window.\<close>

definition valid_times :: "int \<Rightarrow> time \<Rightarrow> time list \<Rightarrow> time list" where
  "valid_times dur now ts = filter (\<lambda>t. t > now - dur) ts"

text \<open>The requests at the times \<open>ts\<close>, one after the other: those that were admitted.\<close>

fun admitted :: "(time \<Rightarrow> 's \<Rightarrow> bool \<times> 's) \<Rightarrow> time list \<Rightarrow> 's \<Rightarrow> time list" where
  "admitted admit [] s = []"
| "admitted admit (t # ts) s = (case admit t s of (b, s') \<Rightarrow> (if b then [t] else []) @ admitted admit ts s')"

text \<open>How many of the times \<open>ts\<close> are in the \<open>dur\<close> that ends at \<open>T\<close>.\<close>

definition in_span :: "int \<Rightarrow> time \<Rightarrow> time list \<Rightarrow> int" where
  "in_span dur T ts = int (length (filter (\<lambda>x. T - dur < x \<and> x \<le> T) ts))"

lemma valid_later: "now \<le> now' \<Longrightarrow> valid_times dur now' (valid_times dur now ts) = valid_times dur now' ts"
  by (auto simp: valid_times_def intro!: filter_cong)

lemma in_span_Nil [simp]: "in_span dur T [] = 0"
  by (simp add: in_span_def)

lemma in_span_append [simp]: "in_span dur T (xs @ ys) = in_span dur T xs + in_span dur T ys"
  by (simp add: in_span_def)

lemma in_span_single [simp]: "in_span dur T [x] = (if T - dur < x \<and> x \<le> T then 1 else 0)"
  by (simp add: in_span_def)

lemma in_span_valid: "\<forall>x \<in> set h. x \<le> t \<Longrightarrow> in_span dur t h = int (length (valid_times dur t h))"
  by (auto simp: in_span_def valid_times_def intro!: arg_cong [where f = length] filter_cong)

lemma in_span_later:
  assumes "\<forall>x \<in> set h. x \<le> t" and "t \<le> T"
  shows "in_span dur T h \<le> in_span dur t h"
  using assms unfolding in_span_def by (induction h) auto

text \<open>
  An admission rule over a window: a request at \<open>now\<close> is admitted when fewer than \<open>limit\<close> entries are
  left, and then its time is appended.
\<close>

locale sliding_admission =
  fixes admit :: "time \<Rightarrow> 's \<Rightarrow> bool \<times> 's" and window :: "'s \<Rightarrow> time list" and ok :: "'s \<Rightarrow> bool"
    and dur :: int and limit :: int
  assumes admit_ok: "ok s \<Longrightarrow> admit now s = (b, s') \<Longrightarrow> ok s'"
    and admit_iff: "ok s \<Longrightarrow> admit now s = (b, s') \<Longrightarrow>
      b \<longleftrightarrow> int (length (valid_times dur now (window s))) < limit"
    and admit_window: "ok s \<Longrightarrow> admit now s = (b, s') \<Longrightarrow>
      window s' = valid_times dur now (window s) @ (if b then [now] else [])"
begin

text \<open>
  Never more than \<open>limit\<close> requests are admitted in any time of length \<open>dur\<close>.  \<open>h\<close> are the requests
  admitted before, of which the window holds those that still count.
\<close>

lemma admitted_bound_history:
  assumes "0 \<le> limit"
  shows "ok s \<Longrightarrow> sorted (now # ts) \<Longrightarrow> \<forall>x \<in> set h. x \<le> now \<Longrightarrow>
    valid_times dur now (window s) = valid_times dur now h \<Longrightarrow>
    (\<And>T. in_span dur T h \<le> limit) \<Longrightarrow> in_span dur T (h @ admitted admit ts s) \<le> limit"
proof (induction ts arbitrary: s now h)
  case Nil
  then show ?case by simp
next
  case (Cons t ts)
  obtain b s' where a: "admit t s = (b, s')" by fastforce
  let ?h = "h @ (if b then [t] else [])"
  have t: "now \<le> t" "sorted (t # ts)" using Cons.prems(2) by auto
  have w: "valid_times dur t (window s) = valid_times dur t h"
    using valid_later [OF t(1)] Cons.prems(4) by metis
  have le: "\<forall>x \<in> set h. x \<le> t" using Cons.prems(3) t(1) by auto
  have w': "valid_times dur t (window s') = valid_times dur t ?h"
    using admit_window [OF Cons.prems(1) a] w by (simp add: valid_times_def)
  have "in_span dur T ?h \<le> limit" for T
  proof (cases "b \<and> t \<le> T")
    case True
    have "in_span dur T h + 1 \<le> limit"
      using in_span_later [OF le, of T dur] in_span_valid [OF le, of dur]
        admit_iff [OF Cons.prems(1) a] True w by simp
    with Cons.prems(5) [of T] show ?thesis by simp
  qed (use Cons.prems(5) [of T] in auto)
  moreover have "\<forall>x \<in> set ?h. x \<le> t" using le by auto
  ultimately show ?case
    using Cons.IH [OF admit_ok [OF Cons.prems(1) a] t(2) _ w']
    by (simp only: admitted.simps a prod.case append_assoc)
qed

lemma admitted_bound:
  assumes "0 \<le> limit" and "ok s" and "window s = []" and "sorted ts"
  shows "in_span dur T (admitted admit ts s) \<le> limit"
proof (cases ts)
  case (Cons t rest)
  with assms(4) have "sorted (t # ts)" by simp
  from admitted_bound_history [OF assms(1,2) this, of "[]" T] assms(1,3) show ?thesis
    by simp
qed (use assms(1) in simp)

end

section \<open>SlidingWindow\<close>

record window_config =
  wc_MaxOutstanding :: int
  wc_WindowSize :: int
  wc_MaxRetries :: int
  wc_RetryDelay :: int

definition DefaultWindowConfig :: window_config where
  "DefaultWindowConfig =
     \<lparr>wc_MaxOutstanding = 100, wc_WindowSize = 60000000000, wc_MaxRetries = 3, wc_RetryDelay = 1000000000\<rparr>"

record sliding_window =
  fw_config :: window_config
  fw_outstanding :: int
  fw_window :: "time list"

definition NewSlidingWindow :: "window_config \<Rightarrow> sliding_window" where
  "NewSlidingWindow config = \<lparr>fw_config = config, fw_outstanding = 0, fw_window = []\<rparr>"

definition tryAcquire :: "time \<Rightarrow> sliding_window \<Rightarrow> bool \<times> sliding_window" where
  "tryAcquire now sw =
     (let sw1 = sw\<lparr>fw_window := valid_times (wc_WindowSize (fw_config sw)) now (fw_window sw)\<rparr> in
      if int (length (fw_window sw1)) < wc_MaxOutstanding (fw_config sw1)
      then (True, sw1\<lparr>fw_window := fw_window sw1 @ [now], fw_outstanding := fw_outstanding sw1 + 1\<rparr>)
      else (False, sw1))"

text \<open>
  The retries of \<open>Acquire\<close>: \<open>clock k\<close> is the time of the \<open>k\<close>-th attempt, \<open>ctx_done k\<close> the error of
  the context when it is done in the wait after it.
\<close>

fun Acquire_loop ::
    "(nat \<Rightarrow> time) \<Rightarrow> (nat \<Rightarrow> error option) \<Rightarrow> nat \<Rightarrow> nat \<Rightarrow> sliding_window \<Rightarrow> unit result \<times> sliding_window" where
  "Acquire_loop clock ctx_done k 0 sw = (Err (Errorf ''flow control window is full''), sw)"
| "Acquire_loop clock ctx_done k (Suc n) sw =
     (case tryAcquire (clock k) sw of (b, sw') \<Rightarrow>
        if b then (Ok (), sw')
        else case ctx_done k of
            Some e \<Rightarrow> (Err e, sw')
          | None \<Rightarrow> Acquire_loop clock ctx_done (k + 1) n sw')"

definition fw_Acquire ::
    "(nat \<Rightarrow> time) \<Rightarrow> (nat \<Rightarrow> error option) \<Rightarrow> sliding_window \<Rightarrow> unit result \<times> sliding_window" where
  "fw_Acquire clock ctx_done sw = Acquire_loop clock ctx_done 0 (nat (wc_MaxRetries (fw_config sw))) sw"

definition fw_Release :: "sliding_window \<Rightarrow> sliding_window" where
  "fw_Release sw = sw\<lparr>fw_outstanding := fw_outstanding sw - 1\<rparr>"

definition fw_Outstanding :: "sliding_window \<Rightarrow> int" where
  "fw_Outstanding sw = fw_outstanding sw"

definition fw_WindowSize :: "sliding_window \<Rightarrow> nat" where
  "fw_WindowSize sw = length (fw_window sw)"

section \<open>FlowController\<close>

record flow_controller =
  fc_windows :: "string \<rightharpoonup> sliding_window"
  fc_config :: window_config

definition NewFlowController :: "window_config \<Rightarrow> flow_controller" where
  "NewFlowController config = \<lparr>fc_windows = Map.empty, fc_config = config\<rparr>"

definition fc_Acquire ::
    "(nat \<Rightarrow> time) \<Rightarrow> (nat \<Rightarrow> error option) \<Rightarrow> flow_controller \<Rightarrow> string \<Rightarrow> unit result \<times> flow_controller" where
  "fc_Acquire clock ctx_done fc sessionID =
     (let window = (case fc_windows fc sessionID of Some w \<Rightarrow> w | None \<Rightarrow> NewSlidingWindow (fc_config fc));
          (r, window') = fw_Acquire clock ctx_done window
      in (r, fc\<lparr>fc_windows := (fc_windows fc)(sessionID \<mapsto> window')\<rparr>))"

definition fc_Release :: "flow_controller \<Rightarrow> string \<Rightarrow> flow_controller" where
  "fc_Release fc sessionID =
     (case fc_windows fc sessionID of
        Some w \<Rightarrow> fc\<lparr>fc_windows := (fc_windows fc)(sessionID \<mapsto> fw_Release w)\<rparr>
      | None \<Rightarrow> fc)"

definition fc_GetOutstanding :: "flow_controller \<Rightarrow> string \<Rightarrow> int" where
  "fc_GetOutstanding fc sessionID =
     (case fc_windows fc sessionID of Some w \<Rightarrow> fw_Outstanding w | None \<Rightarrow> 0)"

definition fc_Cleanup :: "time \<Rightarrow> int \<Rightarrow> flow_controller \<Rightarrow> flow_controller" where
  "fc_Cleanup now maxAge fc =
     fc\<lparr>fc_windows := (\<lambda>sessionID. case fc_windows fc sessionID of
          Some w \<Rightarrow> if fw_Outstanding w = 0 \<and> fw_window w \<noteq> [] \<and> now - last (fw_window w) > maxAge
                    then None else Some w
        | None \<Rightarrow> None)\<rparr>"

section \<open>SlidingWindowLimiter\<close>

record window_limiter =
  swl_windows :: "string \<rightharpoonup> time list"
  swl_window :: int
  swl_limit :: int

definition NewSlidingWindowLimiter :: "int \<Rightarrow> int \<Rightarrow> window_limiter" where
  "NewSlidingWindowLimiter window limit =
     \<lparr>swl_windows = Map.empty, swl_window = window, swl_limit = limit\<rparr>"

definition swl_Allow :: "string \<Rightarrow> time \<Rightarrow> window_limiter \<Rightarrow> bool \<times> window_limiter" where
  "swl_Allow key now swl =
     (let stamps = (case swl_windows swl key of Some ts \<Rightarrow> ts | None \<Rightarrow> []);
          validTimes = valid_times (swl_window swl) now stamps
      in if int (length validTimes) < swl_limit swl
         then (True, swl\<lparr>swl_windows := (swl_windows swl)(key \<mapsto> validTimes @ [now])\<rparr>)
         else (False, swl\<lparr>swl_windows := (swl_windows swl)(key \<mapsto> validTimes)\<rparr>))"

definition GetRemainingRequests :: "time \<Rightarrow> window_limiter \<Rightarrow> string \<Rightarrow> int" where
  "GetRemainingRequests now swl key =
     (case swl_windows swl key of
        None \<Rightarrow> swl_limit swl
      | Some stamps \<Rightarrow> swl_limit swl - int (length (valid_times (swl_window swl) now stamps)))"

definition swl_times :: "string \<Rightarrow> window_limiter \<Rightarrow> time list" where
  "swl_times key swl = (case swl_windows swl key of Some ts \<Rightarrow> ts | None \<Rightarrow> [])"

section \<open>TokenBucket\<close>

record token_bucket =
  tb_capacity :: int
  tb_tokens :: int
  tb_refillRate :: rat
  tb_lastRefill :: time

definition NewTokenBucket :: "time \<Rightarrow> int \<Rightarrow> rat \<Rightarrow> token_bucket" where
  "NewTokenBucket now capacity refillRate =
     \<lparr>tb_capacity = capacity, tb_tokens = capacity, tb_refillRate = refillRate, tb_lastRefill = now\<rparr>"

definition tokensToAdd :: "(rat \<Rightarrow> rat) \<Rightarrow> rat \<Rightarrow> int \<Rightarrow> int" where
  "tokensToAdd fl refillRate elapsed =
     int64_of (fl (fl (fl (of_int elapsed) * refillRate) / fl 1000000000))"

definition refill :: "(rat \<Rightarrow> rat) \<Rightarrow> time \<Rightarrow> token_bucket \<Rightarrow> token_bucket" where
  "refill fl now tb =
     (let add = tokensToAdd fl (tb_refillRate tb) (now - tb_lastRefill tb) in
      if add > 0
      then tb\<lparr>tb_tokens := (if tb_tokens tb + add > tb_capacity tb then tb_capacity tb
                              else tb_tokens tb + add),
              tb_lastRefill := now\<rparr>
      else tb)"

definition tb_Allow :: "(rat \<Rightarrow> rat) \<Rightarrow> time \<Rightarrow> token_bucket \<Rightarrow> bool \<times> token_bucket" where
  "tb_Allow fl now tb =
     (let tb1 = refill fl now tb in
      if tb_tokens tb1 > 0 then (True, tb1\<lparr>tb_tokens := tb_tokens tb1 - 1\<rparr>) else (False, tb1))"

definition tb_AllowN :: "(rat \<Rightarrow> rat) \<Rightarrow> time \<Rightarrow> int \<Rightarrow> token_bucket \<Rightarrow> bool \<times> token_bucket" where
  "tb_AllowN fl now n tb =
     (let tb1 = refill fl now tb in
      if tb_tokens tb1 \<ge> n then (True, tb1\<lparr>tb_tokens := tb_tokens tb1 - n\<rparr>) else (False, tb1))"

definition Tokens :: "(rat \<Rightarrow> rat) \<Rightarrow> time \<Rightarrow> token_bucket \<Rightarrow> int \<times> token_bucket" where
  "Tokens fl now tb = (let tb1 = refill fl now tb in (tb_tokens tb1, tb1))"

section \<open>RateLimiter\<close>

type_synonym rate_limiter = "string \<rightharpoonup> token_bucket"

definition NewRateLimiter :: rate_limiter where
  "NewRateLimiter = Map.empty"

definition user_bucket :: "(rat \<Rightarrow> rat) \<Rightarrow> time \<Rightarrow> rate_limiter \<Rightarrow> string \<Rightarrow> int \<Rightarrow> token_bucket" where
  "user_bucket fl now rl userID rateLimit =
     (case rl userID of
        Some bucket \<Rightarrow> bucket
      | None \<Rightarrow> NewTokenBucket now rateLimit (fl (fl (of_int rateLimit) / 60)))"

text \<open>\<open>made\<close> is the time at which a new bucket is made, \<open>now\<close> the time read in \<open>refill\<close>.\<close>

definition rl_Allow ::
    "(rat \<Rightarrow> rat) \<Rightarrow> time \<Rightarrow> time \<Rightarrow> rate_limiter \<Rightarrow> string \<Rightarrow> int \<Rightarrow> bool \<times> rate_limiter" where
  "rl_Allow fl made now rl userID rateLimit =
     (let (b, bucket) = tb_Allow fl now (user_bucket fl made rl userID rateLimit)
      in (b, rl(userID \<mapsto> bucket)))"

definition rl_AllowN ::
    "(rat \<Rightarrow> rat) \<Rightarrow> time \<Rightarrow> time \<Rightarrow> rate_limiter \<Rightarrow> string \<Rightarrow> int \<Rightarrow> int \<Rightarrow> bool \<times> rate_limiter" where
  "rl_AllowN fl made now rl userID n rateLimit =
     (let (b, bucket) = tb_AllowN fl now n (user_bucket fl made rl userID rateLimit)
      in (b, rl(userID \<mapsto> bucket)))"

definition GetRemainingTokens ::
    "(rat \<Rightarrow> rat) \<Rightarrow> time \<Rightarrow> rate_limiter \<Rightarrow> string \<Rightarrow> int \<times> rate_limiter" where
  "GetRemainingTokens fl now rl userID =
     (case rl userID of
        Some bucket \<Rightarrow> (case Tokens fl now bucket of (n, bucket') \<Rightarrow> (n, rl(userID \<mapsto> bucket')))
      | None \<Rightarrow> (0, rl))"

text \<open>
  \<open>Cleanup\<close> reads the clock once; \<open>seen u\<close> is the time that \<open>Tokens\<close> then reads for the bucket
  of \<open>u\<close>.
\<close>

definition rl_Cleanup ::
    "(rat \<Rightarrow> rat) \<Rightarrow> time \<Rightarrow> (string \<Rightarrow> time) \<Rightarrow> int \<Rightarrow> rate_limiter \<Rightarrow> rate_limiter" where
  "rl_Cleanup fl now seen maxAge rl = (\<lambda>userID.
     case rl userID of
       None \<Rightarrow> None
     | Some bucket \<Rightarrow>
         (case Tokens fl (seen userID) bucket of (n, bucket') \<Rightarrow>
            if n = tb_capacity bucket' \<and> now - tb_lastRefill bucket' > maxAge
            then None else Some bucket'))"

section \<open>What the windows promise\<close>

interpretation flow: sliding_admission tryAcquire fw_window "\<lambda>sw. fw_config sw = config"
    "wc_WindowSize config" "wc_MaxOutstanding config" for config
  by unfold_locales (auto simp: tryAcquire_def Let_def split: if_splits)

interpretation keyed: sliding_admission "swl_Allow key" "swl_times key"
    "\<lambda>swl. swl_window swl = dur \<and> swl_limit swl = limit" dur limit for key dur limit
  by unfold_locales (auto simp: swl_Allow_def swl_times_def Let_def split: if_splits)

text \<open>
  A flow-control window admits at most \<open>MaxOutstanding\<close> requests in any time of length
  \<open>WindowSize\<close>, whatever is released in between.
\<close>

theorem flow_window_bound:
  assumes "sorted ts" and "0 \<le> wc_MaxOutstanding config"
  shows "in_span (wc_WindowSize config) T (admitted tryAcquire ts (NewSlidingWindow config))
    \<le> wc_MaxOutstanding config"
  using assms by (intro flow.admitted_bound) (simp_all add: NewSlidingWindow_def)

theorem flow_window_bound_witness:
  "admitted tryAcquire [0, 1, 2, 11] (NewSlidingWindow (DefaultWindowConfig\<lparr>wc_MaxOutstanding := 2, wc_WindowSize := 10\<rparr>))
    = [0, 1, 11]
   \<and> in_span 10 9 (admitted tryAcquire [0, 1, 2, 11] (NewSlidingWindow (DefaultWindowConfig\<lparr>wc_MaxOutstanding := 2, wc_WindowSize := 10\<rparr>))) \<le> 2"
  using flow_window_bound [of "[0, 1, 2, 11]" "DefaultWindowConfig\<lparr>wc_MaxOutstanding := 2, wc_WindowSize := 10\<rparr>" 9]
  by (simp add: tryAcquire_def NewSlidingWindow_def DefaultWindowConfig_def valid_times_def)

text \<open>The requests of several keys: the limiter treats each key as if it were alone.\<close>

fun limiter_trace :: "(string \<times> time) list \<Rightarrow> window_limiter \<Rightarrow> (string \<times> time) list" where
  "limiter_trace [] swl = []"
| "limiter_trace ((key, t) # reqs) swl =
     (case swl_Allow key t swl of (b, swl') \<Rightarrow> (if b then [(key, t)] else []) @ limiter_trace reqs swl')"

definition of_key :: "string \<Rightarrow> (string \<times> time) list \<Rightarrow> time list" where
  "of_key key reqs = map snd (filter (\<lambda>r. fst r = key) reqs)"

lemma of_key_simps [simp]:
  "of_key key [] = []"
  "of_key key ((k, t) # reqs) = (if k = key then t # of_key key reqs else of_key key reqs)"
  "of_key key (xs @ ys) = of_key key xs @ of_key key ys"
  by (simp_all add: of_key_def)

lemma swl_Allow_only_key:
  assumes "swl_times key s1 = swl_times key s2" and "swl_window s1 = swl_window s2" and "swl_limit s1 = swl_limit s2"
    and "swl_Allow key t s1 = (b1, s1')" and "swl_Allow key t s2 = (b2, s2')"
  shows "b1 = b2" and "swl_times key s1' = swl_times key s2'" and "swl_window s1' = swl_window s2'"
    and "swl_limit s1' = swl_limit s2'"
  using assms by (auto simp: swl_Allow_def swl_times_def Let_def split: if_splits)

lemma swl_Allow_other_key:
  "swl_Allow k t s = (b, s') \<Longrightarrow> k \<noteq> key \<Longrightarrow>
    swl_times key s' = swl_times key s \<and> swl_window s' = swl_window s \<and> swl_limit s' = swl_limit s"
  by (auto simp: swl_Allow_def swl_times_def Let_def split: if_splits)

lemma limiter_trace_key:
  "swl_times key s1 = swl_times key s2 \<Longrightarrow> swl_window s1 = swl_window s2 \<Longrightarrow> swl_limit s1 = swl_limit s2 \<Longrightarrow>
    of_key key (limiter_trace reqs s1) = admitted (swl_Allow key) (of_key key reqs) s2"
proof (induction reqs arbitrary: s1 s2)
  case (Cons r reqs)
  obtain k t where r: "r = (k, t)" by fastforce
  obtain b1 s1' where a1: "swl_Allow k t s1 = (b1, s1')" by fastforce
  show ?case
  proof (cases "k = key")
    case True
    obtain b2 s2' where a2: "swl_Allow key t s2 = (b2, s2')" by fastforce
    note same = swl_Allow_only_key [OF Cons.prems a1 [unfolded True] a2]
    from Cons.IH [OF same(2-4)] same(1) show ?thesis by (simp add: r a1 [unfolded True] a2 True)
  next
    case False
    from swl_Allow_other_key [OF a1 False] Cons.prems Cons.IH [of s1' s2] show ?thesis
      by (simp add: r a1 False)
  qed
qed simp

text \<open>
  A key is admitted at most \<open>limit\<close> times in any time of length \<open>window\<close>, and the requests of the
  other keys do not change which of its requests are admitted.
\<close>

theorem limiter_key_bound:
  assumes "sorted (of_key key reqs)" and "0 \<le> limit"
  shows "of_key key (limiter_trace reqs (NewSlidingWindowLimiter window limit))
      = admitted (swl_Allow key) (of_key key reqs) (NewSlidingWindowLimiter window limit)
    \<and> in_span window T (of_key key (limiter_trace reqs (NewSlidingWindowLimiter window limit))) \<le> limit"
proof -
  have "of_key key (limiter_trace reqs (NewSlidingWindowLimiter window limit))
      = admitted (swl_Allow key) (of_key key reqs) (NewSlidingWindowLimiter window limit)"
    by (rule limiter_trace_key) simp_all
  with keyed.admitted_bound [OF assms(2) _ _ assms(1), of "NewSlidingWindowLimiter window limit" window key T]
  show ?thesis by (simp add: NewSlidingWindowLimiter_def swl_times_def)
qed

theorem limiter_key_bound_witness:
  "of_key ''a'' (limiter_trace [(''a'', 0), (''b'', 1), (''a'', 2), (''a'', 12)] (NewSlidingWindowLimiter 10 1))
    = [0, 12]
   \<and> in_span 10 5 (of_key ''a'' (limiter_trace [(''a'', 0), (''b'', 1), (''a'', 2), (''a'', 12)] (NewSlidingWindowLimiter 10 1))) \<le> 1"
  using limiter_key_bound [of "''a''" "[(''a'', 0), (''b'', 1), (''a'', 2), (''a'', 12)]" 1 10 5]
  by (simp add: swl_Allow_def NewSlidingWindowLimiter_def valid_times_def)

text \<open>
  \<open>Release\<close> does not free a slot of the window: the next \<open>Acquire\<close> answers the same as without it.
  Only the age of a request frees its slot, and then \<open>Outstanding\<close> may exceed \<open>MaxOutstanding\<close>.
\<close>

theorem Release_frees_no_slot:
  "fst (tryAcquire now (fw_Release sw)) = fst (tryAcquire now sw)
    \<and> fw_WindowSize (fw_Release sw) = fw_WindowSize sw
    \<and> fw_Outstanding (fw_Release sw) = fw_Outstanding sw - 1
    \<and> (let config = DefaultWindowConfig\<lparr>wc_MaxOutstanding := 1\<rparr>;
           sw1 = snd (tryAcquire 0 (NewSlidingWindow config));
           sw2 = snd (tryAcquire (wc_WindowSize config) sw1)
       in fw_Outstanding sw2 > wc_MaxOutstanding config)"
  by (simp add: tryAcquire_def fw_Release_def fw_WindowSize_def fw_Outstanding_def NewSlidingWindow_def
    DefaultWindowConfig_def valid_times_def Let_def)

text \<open>
  \<open>Acquire\<close> makes at most \<open>MaxRetries\<close> attempts: it succeeds exactly when one of them finds a free slot
  and the context was not done after an earlier one.
\<close>

lemma tryAcquire_fails: "tryAcquire now sw = (False, sw') \<Longrightarrow>
    fw_config sw' = fw_config sw \<and> fw_outstanding sw' = fw_outstanding sw
    \<and> fw_window sw' = valid_times (wc_WindowSize (fw_config sw)) now (fw_window sw)"
  by (auto simp: tryAcquire_def Let_def split: if_splits)

definition free_slot :: "sliding_window \<Rightarrow> time \<Rightarrow> bool" where
  "free_slot sw now \<longleftrightarrow>
     int (length (valid_times (wc_WindowSize (fw_config sw)) now (fw_window sw))) < wc_MaxOutstanding (fw_config sw)"

lemma fst_tryAcquire: "fst (tryAcquire now sw) = free_slot sw now"
  by (simp add: tryAcquire_def free_slot_def Let_def)

lemma Acquire_loop_ok:
  "incseq clock \<Longrightarrow> is_Ok (fst (Acquire_loop clock ctx_done k n sw)) \<longleftrightarrow>
    (\<exists>i < n. free_slot sw (clock (k + i)) \<and> (\<forall>j < i. ctx_done (k + j) = None))"
proof (induction clock ctx_done k n sw rule: Acquire_loop.induct)
  case (2 clock ctx_done k n sw)
  obtain b sw' where a: "tryAcquire (clock k) sw = (b, sw')" by fastforce
  have b: "b = free_slot sw (clock k)" using fst_tryAcquire [of "clock k" sw] a by simp
  show ?case
  proof (cases b)
    case True
    with a b show ?thesis by (auto intro!: exI [of _ 0])
  next
    case False
    have slot: "free_slot sw' (clock (k + i)) = free_slot sw (clock (k + i))" for i
      using tryAcquire_fails [of "clock k" sw sw'] a False incseqD [OF 2(2), of k "k + i"]
      by (simp add: free_slot_def valid_later)
    have shift: "(\<exists>i < Suc n. P i) \<longleftrightarrow> P 0 \<or> (\<exists>i < n. P (Suc i))" for P
      using less_Suc_eq_0_disj by auto
    show ?thesis
    proof (cases "ctx_done k")
      case None
      have "free_slot sw' (clock (Suc (k + i))) = free_slot sw (clock (Suc (k + i)))" for i
        using slot [of "Suc i"] by simp
      with None 2(1) [OF a [symmetric] False None] 2(2) a False b slot show ?thesis
        unfolding shift by (simp add: All_less_Suc2)
    next
      case (Some e)
      with a False b show ?thesis unfolding shift by (auto simp: All_less_Suc2)
    qed
  qed
qed simp

text \<open>
  \<open>Acquire\<close> makes at most \<open>MaxRetries\<close> attempts: it succeeds exactly when one of them finds a free slot
  and the context was not done after an earlier one.
\<close>

theorem Acquire_iff:
  assumes "incseq clock"
  shows "is_Ok (fst (fw_Acquire clock ctx_done sw)) =
    (\<exists>i. int i < wc_MaxRetries (fw_config sw) \<and> free_slot sw (clock i) \<and> (\<forall>j < i. ctx_done j = None))"
  unfolding fw_Acquire_def Acquire_loop_ok [OF assms] by (auto simp: zless_nat_conj zless_nat_eq_int_zless)

theorem Acquire_iff_witness:
  "is_Ok (fst (fw_Acquire int (\<lambda>k. None) \<lparr>fw_config = DefaultWindowConfig\<lparr>wc_MaxOutstanding := 1, wc_WindowSize := 2\<rparr>,
      fw_outstanding = 1, fw_window = [0]\<rparr>))"
  by (subst Acquire_iff; simp add: incseq_def free_slot_def valid_times_def DefaultWindowConfig_def;
      intro exI [of _ 2]; simp)

section \<open>What a token bucket promises\<close>

definition rate_ok :: "rat \<Rightarrow> bool" where
  "rate_ok r \<longleftrightarrow> r = 0 \<or> 1 / 1000 \<le> r"

lemma tokensToAdd_bound:
  assumes fl: "rounds_within u fl" and r: "rate_ok r" and e: "0 \<le> e" and G: "fl 1000000000 = 1000000000"
  shows "of_int (tokensToAdd fl r e) \<le> of_int e * r / 1000000000 * (1 + u) ^ 3"
proof (cases "e = 0 \<or> r = 0")
  case True
  have "fl 0 = 0" "0 \<le> r" "0 \<le> u" using fl r by (auto simp: rounds_within_def rate_ok_def)
  with True show ?thesis by (auto simp: tokensToAdd_def int64_of_def)
next
  case False
  have u: "0 \<le> u" using fl by (auto simp: rounds_within_def)
  have e1: "1 \<le> (of_int e :: rat)" and r1: "1 / 1000 \<le> r" using False e r by (auto simp: rate_ok_def)
  have c1: "1 / 2 ^ 100 \<le> (of_int e :: rat)" by (rule order_trans [OF _ e1]) simp
  define a where "a = fl (of_int e)"
  have a: "1 / 2 \<le> a" "a \<le> of_int e * (1 + u)"
    using rounds_withinD (2,3) [OF fl c1] e1 by (auto simp: a_def)
  have ar: "1 / 2 * (1 / 1000) \<le> a * r" using a(1) r1 by (intro mult_mono) auto
  have c2: "1 / 2 ^ 100 \<le> a * r" by (rule order_trans [OF _ ar]) simp
  define b where "b = fl (a * r)"
  have b: "1 / 4000 \<le> b" "b \<le> a * r * (1 + u)"
    using rounds_withinD (2,3) [OF fl c2] ar by (auto simp: b_def)
  have c3: "1 / 2 ^ 100 \<le> b / 1000000000" using b(1) by simp
  have d: "fl (b / 1000000000) \<le> b / 1000000000 * (1 + u)" "0 < fl (b / 1000000000)"
    using rounds_withinD (2,4) [OF fl c3] by auto
  have "of_int (tokensToAdd fl r e) \<le> fl (b / 1000000000)"
    using d(2) of_int_floor_le [of "fl (b / 1000000000)"]
    by (simp add: tokensToAdd_def int64_of_def G flip: a_def b_def)
  also have "\<dots> \<le> b / 1000000000 * (1 + u)" by (rule d(1))
  also have "\<dots> \<le> a * r * (1 + u) / 1000000000 * (1 + u)"
    using b(2) u by (intro mult_right_mono divide_right_mono) auto
  also have "\<dots> \<le> of_int e * (1 + u) * r * (1 + u) / 1000000000 * (1 + u)"
    using a(2) u r1 by (intro mult_right_mono divide_right_mono) auto
  finally show ?thesis by (simp add: power3_eq_cube mult_ac)
qed

text \<open>The requests admitted by a bucket can be paid from the tokens it held and those it earned.\<close>

definition bucket_inv :: "token_bucket \<Rightarrow> bool" where
  "bucket_inv tb \<longleftrightarrow> 0 \<le> tb_tokens tb \<and> tb_tokens tb \<le> tb_capacity tb"

lemma refill_simps [simp]:
  "tb_capacity (refill fl now tb) = tb_capacity tb"
  "tb_refillRate (refill fl now tb) = tb_refillRate tb"
  by (simp_all add: refill_def Let_def)

lemma refill_inv: "bucket_inv tb \<Longrightarrow> bucket_inv (refill fl now tb)"
  by (auto simp: bucket_inv_def refill_def Let_def)

lemma tb_Allow_inv: "bucket_inv tb \<Longrightarrow> bucket_inv (snd (tb_Allow fl now tb))"
  using refill_inv [of tb fl now] by (auto simp: tb_Allow_def Let_def bucket_inv_def)

lemma refill_credit:
  assumes "rounds_within u fl" and "rate_ok (tb_refillRate tb)" and "fl 1000000000 = 1000000000"
    and "tb_lastRefill tb \<le> now" and "now \<le> T"
  defines "K \<equiv> tb_refillRate tb / 1000000000 * (1 + u) ^ 3"
  shows "of_int (tb_tokens (refill fl now tb)) + of_int (T - tb_lastRefill (refill fl now tb)) * K
    \<le> of_int (tb_tokens tb) + of_int (T - tb_lastRefill tb) * K
   \<and> tb_lastRefill (refill fl now tb) \<le> now"
proof -
  let ?e = "now - tb_lastRefill tb"
  have "of_int (tokensToAdd fl (tb_refillRate tb) ?e) \<le> of_int ?e * K"
    using tokensToAdd_bound [OF assms(1,2) _ assms(3), of ?e] assms(4) by (simp add: K_def mult_ac)
  then show ?thesis
    using assms(4) by (auto simp: refill_def Let_def algebra_simps)
qed

lemma tb_Allow_credit:
  assumes "tb_Allow fl now tb = (b, tb')"
  shows "of_int (tb_tokens tb') + (if b then 1 else 0) = (of_int (tb_tokens (refill fl now tb)) :: rat)"
    and "tb_lastRefill tb' = tb_lastRefill (refill fl now tb)" and "tb_refillRate tb' = tb_refillRate tb"
    and "tb_capacity tb' = tb_capacity tb"
  using assms by (auto simp: tb_Allow_def Let_def split: if_splits)

lemma bucket_spends_credit:
  assumes "rounds_within u fl" and "fl 1000000000 = 1000000000"
  shows "rate_ok (tb_refillRate tb) \<Longrightarrow> bucket_inv tb \<Longrightarrow> sorted (tb_lastRefill tb # ts) \<Longrightarrow>
    \<forall>t \<in> set ts. t \<le> T \<Longrightarrow> tb_lastRefill tb \<le> T \<Longrightarrow>
    of_nat (length (admitted (tb_Allow fl) ts tb))
      \<le> of_int (tb_tokens tb) + of_int (T - tb_lastRefill tb) * (tb_refillRate tb / 1000000000 * (1 + u) ^ 3)"
proof (induction ts arbitrary: tb)
  case Nil
  then have "0 \<le> tb_refillRate tb" "0 \<le> u" using assms by (auto simp: rate_ok_def rounds_within_def)
  with Nil show ?case by (auto simp: bucket_inv_def)
next
  case (Cons t ts)
  let ?K = "tb_refillRate tb / 1000000000 * (1 + u) ^ 3"
  obtain b tb' where a: "tb_Allow fl t tb = (b, tb')" by fastforce
  note keep = tb_Allow_credit [OF a]
  from Cons.prems have le: "tb_lastRefill tb \<le> t" "t \<le> T" by auto
  from refill_credit [OF assms(1) Cons.prems(1) assms(2) le] have credit:
    "of_int (tb_tokens (refill fl t tb)) + of_int (T - tb_lastRefill tb') * ?K
      \<le> of_int (tb_tokens tb) + of_int (T - tb_lastRefill tb) * ?K"
    and last: "tb_lastRefill tb' \<le> t" by (auto simp: keep)
  have "of_nat (length (admitted (tb_Allow fl) ts tb')) \<le> of_int (tb_tokens tb') + of_int (T - tb_lastRefill tb') * ?K"
  proof -
    have "\<forall>x \<in> set ts. tb_lastRefill tb' \<le> x" using Cons.prems(3) last by fastforce
    with Cons.IH [of tb'] Cons.prems last le tb_Allow_inv [of tb fl t] a show ?thesis
      by (simp add: keep(3))
  qed
  with credit keep(1) show ?case by (auto simp: a)
qed

text \<open>
  C24. A token bucket admits no more requests until the time \<open>T\<close> than its capacity and what the refill rate
  gives from the time the bucket is made until \<open>T\<close>; the rounding of the three \<open>float64\<close> operations adds
  at most the factor \<open>(1 + u) ^ 3\<close>.
\<close>

theorem token_bucket_bound:
  assumes "rounds_within u fl" and "fl 1000000000 = 1000000000" and "rate_ok rate" and "0 \<le> capacity"
    and "sorted (start # ts)" and "last (start # ts) = T"
  shows "of_nat (length (admitted (tb_Allow fl) ts (NewTokenBucket start capacity rate)))
    \<le> of_int capacity + of_int (T - start) * (rate / 1000000000 * (1 + u) ^ 3)"
proof -
  have max: "t \<in> set xs \<Longrightarrow> sorted xs \<Longrightarrow> t \<le> last xs" for t :: time and xs
    by (induction xs) auto
  from max [OF _ assms(5)] assms(6) have "\<forall>t \<in> set ts. t \<le> T" "start \<le> T"
    by (metis list.set_intros(2)) (metis assms(5,6) list.set_intros(1) max)
  with bucket_spends_credit [OF assms(1,2), of "NewTokenBucket start capacity rate" ts T] assms(3,4,5)
  show ?thesis by (simp add: NewTokenBucket_def bucket_inv_def)
qed

theorem token_bucket_bound_witness:
  "length (admitted (tb_Allow id) [0, 1, 2, 1000000000, 1000000001] (NewTokenBucket 0 2 1)) = 3
   \<and> of_nat (length (admitted (tb_Allow id) [0, 1, 2, 1000000000, 1000000001] (NewTokenBucket 0 2 1)))
     \<le> (3001 / 1000 :: rat)"
  using token_bucket_bound [of 0 id 1 2 0 "[0, 1, 2, 1000000000, 1000000001]" 1000000001]
  by (simp add: rounds_within_def rate_ok_def tb_Allow_def refill_def tokensToAdd_def int64_of_def
      NewTokenBucket_def Let_def)

text \<open>The tokens of a user's bucket stay between 0 and its capacity; \<open>AllowN\<close> takes all of its tokens or none.\<close>

theorem AllowN_all_or_nothing:
  assumes "bucket_inv (user_bucket fl made rl userID rateLimit)" and "0 \<le> n"
    and "rl_AllowN fl made now rl userID n rateLimit = (b, rl')"
  shows "\<exists>tb. rl' userID = Some tb \<and> bucket_inv tb
    \<and> (let have = tb_tokens (refill fl now (user_bucket fl made rl userID rateLimit)) in
       (b \<longleftrightarrow> n \<le> have) \<and> tb_tokens tb = (if b then have - n else have))
    \<and> rl'(userID := None) = rl(userID := None)"
  using assms refill_inv [OF assms(1), of fl now]
  by (auto simp: rl_AllowN_def tb_AllowN_def Let_def bucket_inv_def split: if_splits)

theorem AllowN_all_or_nothing_witness:
  "\<exists>tb. snd (rl_AllowN id 0 0 NewRateLimiter ''u'' 3 60) ''u'' = Some tb \<and> bucket_inv tb \<and> tb_tokens tb = 57"
  using AllowN_all_or_nothing [of id 0 NewRateLimiter "''u''" 60 3 0
      "fst (rl_AllowN id 0 0 NewRateLimiter ''u'' 3 60)" "snd (rl_AllowN id 0 0 NewRateLimiter ''u'' 3 60)"]
  by (auto simp: user_bucket_def NewRateLimiter_def bucket_inv_def NewTokenBucket_def refill_def
      tokensToAdd_def int64_of_def Let_def)

text \<open>
  \<open>Cleanup\<close> is to remove the full buckets not used for \<open>maxAge\<close>.  But \<open>Tokens\<close> refills a bucket first, and
  when the time since the last refill has earned a token this moves \<open>lastRefill\<close> past the time of the
  clean-up: so nothing is removed when a token is earned within \<open>maxAge\<close>.
\<close>

theorem Cleanup_removes_nothing:
  assumes "0 \<le> maxAge" and "\<And>u. now \<le> seen u"
    and "\<And>u tb e. rl u = Some tb \<Longrightarrow> maxAge < e \<Longrightarrow> 0 < tokensToAdd fl (tb_refillRate tb) e"
  shows "dom (rl_Cleanup fl now seen maxAge rl) = dom rl"
proof -
  have "rl_Cleanup fl now seen maxAge rl u \<noteq> None" if "rl u = Some tb" for u tb
    using assms(1) assms(2) [of u] assms(3) [OF that, of "seen u - tb_lastRefill tb"] that
    by (auto simp: rl_Cleanup_def Tokens_def refill_def Let_def)
  then show ?thesis by (fastforce simp: rl_Cleanup_def dom_def split: option.splits)
qed

theorem Cleanup_removes_nothing_witness:
  "dom (rl_Cleanup id 3600000000000 (\<lambda>u. 3600000000001) 1000000000 [''u'' \<mapsto> NewTokenBucket 0 60 1]) = {''u''}"
  by (subst Cleanup_removes_nothing)
    (auto simp: NewTokenBucket_def tokensToAdd_def int64_of_def divide_simps split: if_splits)

end
