(* ===== verification/Recovery.thy ===== *)
theory Recovery
  imports Floats Messages
begin

text \<open>
  \<open>Retry\<close> and \<open>CircuitBreaker\<close> (\<open>internal/errorrecovery/retry.go\<close>).  The function that is called is given by its
  outcomes, and a context by the moments at which it is seen to be done.
\<close>

section \<open>Errors with an identity\<close>

text \<open>
  \<open>errors.Is\<close> compares the error values along the chain of wrapped errors, and values made by two calls of
  \<open>errors.New\<close> differ even with the same text: \<open>Cause k\<close> is the value made by the \<open>k\<close>-th call.
\<close>

datatype cause = Cause (cause_id: nat) (cause_text: string) (cause_wraps: "cause option")

fun errors_Is :: "cause \<Rightarrow> cause \<Rightarrow> bool" where
  "errors_Is (Cause i txt None) target \<longleftrightarrow> i = cause_id target"
| "errors_Is (Cause i txt (Some e)) target \<longleftrightarrow> i = cause_id target \<or> errors_Is e target"

section \<open>Retry\<close>

record retry_config =
  rt_MaxRetries :: int
  rt_InitialDelay :: int
  rt_MaxDelay :: int
  rt_BackoffFactor :: rat
  rt_JitterFactor :: rat
  rt_RetryableErrors :: "cause list"

definition DefaultRetryConfig :: "(rat \<Rightarrow> rat) \<Rightarrow> retry_config" where
  "DefaultRetryConfig fl =
     \<lparr>rt_MaxRetries = 3, rt_InitialDelay = 100000000, rt_MaxDelay = 30000000000, rt_BackoffFactor = 2,
      rt_JitterFactor = fl (1 / 10),
      rt_RetryableErrors = [Cause 0 ''connection refused'' None, Cause 1 ''connection reset'' None,
        Cause 2 ''timeout'' None, Cause 3 ''temporary failure'' None]\<rparr>"

definition IsRetryableError :: "retry_config \<Rightarrow> cause option \<Rightarrow> bool" where
  "IsRetryableError c err =
     (case err of
        None \<Rightarrow> False
      | Some e \<Rightarrow> list_ex (\<lambda>r. errors_Is e r \<or> cause_text r = cause_text e) (rt_RetryableErrors c))"

text \<open>\<open>pow\<close> is \<open>math.Pow\<close> and \<open>r\<close> the number that \<open>rand.Float64\<close> draws.\<close>

definition calculateDelay :: "(rat \<Rightarrow> rat) \<Rightarrow> (rat \<Rightarrow> rat \<Rightarrow> rat) \<Rightarrow> rat \<Rightarrow> retry_config \<Rightarrow> nat \<Rightarrow> int" where
  "calculateDelay fl pow r config attempt =
     (let d0 = fl (fl (of_int (rt_InitialDelay config)) * pow (rt_BackoffFactor config) (of_nat attempt));
          cap = fl (of_int (rt_MaxDelay config));
          d1 = (if d0 > cap then cap else d0);
          d2 = (if rt_JitterFactor config > 0
                then let jitterRange = fl (d1 * rt_JitterFactor config);
                         jitter = fl (fl (fl (r - 1 / 2) * 2) * jitterRange)
                     in fl (d1 + jitter)
                else d1)
      in int64_of d2)"

record retry_result =
  rr_Attempts :: int
  rr_Duration :: int
  rr_Error :: "cause option"

text \<open>
  What the loop meets: the outcome of the \<open>k\<close>-th call, the context's error when it is done before it,
  and when it is done in the wait after it.  The last argument is the number of attempts left; the
  result comes with the number of calls.
\<close>

record retry_world =
  rw_fn :: "nat \<Rightarrow> cause option"
  rw_cancelled :: "nat \<Rightarrow> cause option"
  rw_cancelled_wait :: "nat \<Rightarrow> cause option"

fun Retry_loop ::
    "retry_config \<Rightarrow> retry_world \<Rightarrow> int \<Rightarrow> nat \<Rightarrow> cause option \<Rightarrow> nat \<Rightarrow> retry_result \<times> nat" where
  "Retry_loop config w duration attempt lastErr 0 =
     (\<lparr>rr_Attempts = rt_MaxRetries config + 1, rr_Duration = duration, rr_Error = lastErr\<rparr>, attempt)"
| "Retry_loop config w duration attempt lastErr (Suc n) =
     (case rw_cancelled w attempt of
        Some e \<Rightarrow> (\<lparr>rr_Attempts = int attempt, rr_Duration = duration, rr_Error = Some e\<rparr>, attempt)
      | None \<Rightarrow>
          let err = rw_fn w attempt in
          if err = None
          then (\<lparr>rr_Attempts = int attempt + 1, rr_Duration = duration, rr_Error = None\<rparr>, attempt + 1)
          else if int attempt = rt_MaxRetries config \<or> \<not> IsRetryableError config err
          then (\<lparr>rr_Attempts = rt_MaxRetries config + 1, rr_Duration = duration, rr_Error = err\<rparr>, attempt + 1)
          else case rw_cancelled_wait w attempt of
              Some e \<Rightarrow> (\<lparr>rr_Attempts = int attempt + 1, rr_Duration = duration, rr_Error = Some e\<rparr>, attempt + 1)
            | None \<Rightarrow> Retry_loop config w duration (attempt + 1) err n)"

definition Retry :: "retry_config \<Rightarrow> retry_world \<Rightarrow> int \<Rightarrow> retry_result \<times> nat" where
  "Retry config w duration = Retry_loop config w duration 0 None (nat (rt_MaxRetries config + 1))"

section \<open>CircuitBreaker\<close>

record breaker_config =
  bc_FailureThreshold :: int
  bc_ResetTimeout :: int
  bc_SuccessThreshold :: int

definition DefaultCircuitBreakerConfig :: breaker_config where
  "DefaultCircuitBreakerConfig =
     \<lparr>bc_FailureThreshold = 5, bc_ResetTimeout = 60000000000, bc_SuccessThreshold = 2\<rparr>"

datatype breaker_state = StateClosed | StateOpen | StateHalfOpen

record circuit_breaker =
  cb_config :: breaker_config
  cb_state :: breaker_state
  cb_failures :: int
  cb_successes :: int
  cb_lastFailure :: time
  cb_lastSuccess :: time

definition NewCircuitBreaker :: "breaker_config \<Rightarrow> circuit_breaker" where
  "NewCircuitBreaker config =
     \<lparr>cb_config = config, cb_state = StateClosed, cb_failures = 0, cb_successes = 0,
      cb_lastFailure = zero_time, cb_lastSuccess = zero_time\<rparr>"

text \<open>The call in the half-open state: \<open>err\<close> is what the function returns, at the time \<open>t\<close>.\<close>

definition half_open_call :: "time \<Rightarrow> cause option \<Rightarrow> circuit_breaker \<Rightarrow> cause option \<times> circuit_breaker" where
  "half_open_call t err cb =
     (case err of
        Some e \<Rightarrow> (Some e, cb\<lparr>cb_failures := cb_failures cb + 1, cb_lastFailure := t, cb_state := StateOpen\<rparr>)
      | None \<Rightarrow>
          let cb1 = cb\<lparr>cb_successes := cb_successes cb + 1, cb_lastSuccess := t\<rparr> in
          (None, if cb_successes cb1 \<ge> bc_SuccessThreshold (cb_config cb1)
                 then cb1\<lparr>cb_state := StateClosed, cb_failures := 0\<rparr> else cb1))"

definition closed_call :: "time \<Rightarrow> cause option \<Rightarrow> circuit_breaker \<Rightarrow> cause option \<times> circuit_breaker" where
  "closed_call t err cb =
     (case err of
        Some e \<Rightarrow>
          let cb1 = cb\<lparr>cb_failures := cb_failures cb + 1, cb_lastFailure := t\<rparr> in
          (Some e, if cb_failures cb1 \<ge> bc_FailureThreshold (cb_config cb1)
                   then cb1\<lparr>cb_state := StateOpen\<rparr> else cb1)
      | None \<Rightarrow> (None, cb\<lparr>cb_failures := 0\<rparr>))"

definition breaker_open_error :: cause where
  "breaker_open_error = Cause 4 ''circuit breaker is open'' None"

text \<open>
  \<open>Call\<close>, by one caller at a time: \<open>now\<close> is the time at which the timeout is checked, \<open>t\<close> the time after the
  call of the function, whose outcome is \<open>err\<close>.  The first component tells whether it was called.
\<close>

definition cb_Call ::
    "time \<Rightarrow> time \<Rightarrow> cause option \<Rightarrow> circuit_breaker \<Rightarrow> bool \<times> cause option \<times> circuit_breaker" where
  "cb_Call now t err cb =
     (case cb_state cb of
        StateOpen \<Rightarrow>
          if now - cb_lastFailure cb < bc_ResetTimeout (cb_config cb)
          then (False, Some breaker_open_error, cb)
          else (True, half_open_call t err (cb\<lparr>cb_state := StateHalfOpen, cb_successes := 0\<rparr>))
      | StateHalfOpen \<Rightarrow> (True, half_open_call t err cb)
      | StateClosed \<Rightarrow> (True, closed_call t err cb))"

definition cb_State :: "circuit_breaker \<Rightarrow> breaker_state" where
  "cb_State cb = cb_state cb"

section \<open>What Retry promises\<close>

lemma Retry_loop_calls:
  assumes "\<And>k. rw_cancelled w k = None" and "\<And>k. rw_cancelled_wait w k = None"
  shows "int (attempt + m) = rt_MaxRetries config \<Longrightarrow> Retry_loop config w d attempt lastErr (Suc m) = (r, calls) \<Longrightarrow>
    \<exists>n. attempt \<le> n \<and> n \<le> attempt + m \<and> calls = n + 1 \<and>
      (\<forall>i. attempt \<le> i \<longrightarrow> i < n \<longrightarrow> IsRetryableError config (rw_fn w i)) \<and>
      (rw_fn w n = None \<or> int n = rt_MaxRetries config \<or> \<not> IsRetryableError config (rw_fn w n)) \<and>
      rr_Error r = rw_fn w n \<and>
      rr_Attempts r = (if rw_fn w n = None then int calls else rt_MaxRetries config + 1)"
proof (induction m arbitrary: attempt lastErr)
  case 0
  then show ?case by (intro exI [of _ attempt]) (auto simp: assms Let_def split: if_splits)
next
  case (Suc m)
  show ?case
  proof (cases "rw_fn w attempt = None \<or> \<not> IsRetryableError config (rw_fn w attempt)")
    case True
    with Suc.prems show ?thesis
      by (intro exI [of _ attempt]) (auto simp: assms(1) Let_def split: if_splits)
  next
    case False
    with Suc.prems(1) Suc.prems(2) [unfolded Retry_loop.simps(2) [of config w d attempt lastErr "Suc m"]]
    have "Retry_loop config w d (attempt + 1) (rw_fn w attempt) (Suc m) = (r, calls)"
      by (auto simp: assms Let_def simp del: Retry_loop.simps)
    from Suc.IH [OF _ this] Suc.prems(1) obtain n where n: "attempt + 1 \<le> n" "n \<le> attempt + 1 + m"
      "calls = n + 1" "\<forall>i. attempt + 1 \<le> i \<longrightarrow> i < n \<longrightarrow> IsRetryableError config (rw_fn w i)"
      "rw_fn w n = None \<or> int n = rt_MaxRetries config \<or> \<not> IsRetryableError config (rw_fn w n)"
      "rr_Error r = rw_fn w n" "rr_Attempts r = (if rw_fn w n = None then int calls else rt_MaxRetries config + 1)"
      by auto
    moreover have "IsRetryableError config (rw_fn w i)" if "attempt \<le> i" "i < n" for i
      using n(4) that False by (cases "i = attempt") auto
    ultimately show ?thesis by (intro exI [of _ n]) auto
  qed
qed

text \<open>
  Without a cancelled context the function is called until it succeeds, fails with an error that is
  not retryable, or has been called \<open>MaxRetries + 1\<close> times, and the result is that of the last call.
  \<open>Attempts\<close> is the number of calls only after a success: after any failure it is \<open>MaxRetries + 1\<close>.
\<close>

theorem Retry_calls:
  assumes "0 \<le> rt_MaxRetries config" and "\<And>k. rw_cancelled w k = None" and "\<And>k. rw_cancelled_wait w k = None"
    and "Retry config w duration = (r, calls)"
  shows "1 \<le> calls \<and> int calls \<le> rt_MaxRetries config + 1 \<and>
    (\<forall>i < calls - 1. IsRetryableError config (rw_fn w i)) \<and>
    (rw_fn w (calls - 1) = None \<or> int calls = rt_MaxRetries config + 1 \<or>
       \<not> IsRetryableError config (rw_fn w (calls - 1))) \<and>
    rr_Error r = rw_fn w (calls - 1) \<and>
    rr_Attempts r = (if rr_Error r = None then int calls else rt_MaxRetries config + 1)"
proof -
  have "nat (rt_MaxRetries config + 1) = Suc (nat (rt_MaxRetries config))" using assms(1) by simp
  with assms(4) have "Retry_loop config w duration 0 None (Suc (nat (rt_MaxRetries config))) = (r, calls)"
    by (simp add: Retry_def)
  from Retry_loop_calls [OF assms(2,3) _ this] assms(1) show ?thesis by auto
qed

theorem Retry_calls_witness:
  "\<exists>r. Retry (DefaultRetryConfig id) \<lparr>rw_fn = (\<lambda>k. if k < 2 then Some (Cause 9 ''timeout'' None) else Some (Cause 9 ''refused'' None)),
       rw_cancelled = (\<lambda>k. None), rw_cancelled_wait = (\<lambda>k. None)\<rparr> 5 = (r, 3)
     \<and> rr_Attempts r = 4 \<and> rr_Error r = Some (Cause 9 ''refused'' None)"
  using Retry_calls [of "DefaultRetryConfig id" "\<lparr>rw_fn = (\<lambda>k. if k < 2 then Some (Cause 9 ''timeout'' None) else Some (Cause 9 ''refused'' None)),
       rw_cancelled = (\<lambda>k. None), rw_cancelled_wait = (\<lambda>k. None)\<rparr>" 5]
  by (simp add: Retry_def DefaultRetryConfig_def IsRetryableError_def eval_nat_numeral Let_def)

text \<open>A negative \<open>MaxRetries\<close> is reported as a success of 0 or fewer attempts, without a call.\<close>

theorem Retry_negative:
  assumes "rt_MaxRetries config < 0"
  shows "Retry config w duration =
    (\<lparr>rr_Attempts = rt_MaxRetries config + 1, rr_Duration = duration, rr_Error = None\<rparr>, 0)"
  using assms by (simp add: Retry_def)

theorem Retry_negative_witness:
  "snd (Retry (DefaultRetryConfig id\<lparr>rt_MaxRetries := - 1\<rparr>) w duration) = 0"
  using Retry_negative [of "DefaultRetryConfig id\<lparr>rt_MaxRetries := - 1\<rparr>" w duration] by simp

text \<open>The jitter comes after the cap, so that a delay can exceed \<open>MaxDelay\<close>.\<close>

theorem delay_exceeds_MaxDelay:
  "calculateDelay id (\<lambda>x y. x ^ nat \<lfloor>y\<rfloor>) (3 / 4) (DefaultRetryConfig id) 10 = 31500000000 \<and>
   rt_MaxDelay (DefaultRetryConfig id) = 30000000000"
  by (simp add: calculateDelay_def DefaultRetryConfig_def int64_of_def Let_def)

section \<open>What CircuitBreaker promises\<close>

text \<open>Calls in sequence: for each, whether the function was called and what \<open>Call\<close> returned.\<close>

fun breaker_run ::
    "(time \<times> time \<times> cause option) list \<Rightarrow> circuit_breaker \<Rightarrow> (bool \<times> cause option) list \<times> circuit_breaker" where
  "breaker_run [] cb = ([], cb)"
| "breaker_run ((now, t, err) # cs) cb =
     (case cb_Call now t err cb of (called, r, cb') \<Rightarrow>
        case breaker_run cs cb' of (rs, cb'') \<Rightarrow> ((called, r) # rs, cb''))"

lemma breaker_run_append:
  "breaker_run (xs @ ys) cb =
     (case breaker_run xs cb of (rs, cb') \<Rightarrow> case breaker_run ys cb' of (rs', cb'') \<Rightarrow> (rs @ rs', cb''))"
  by (induction xs arbitrary: cb) (auto split: prod.split)

text \<open>The number of failures since the last success, after \<open>n\<close> before the calls.\<close>

fun consecutive :: "int \<Rightarrow> cause option list \<Rightarrow> int" where
  "consecutive n [] = n"
| "consecutive n (None # os) = consecutive 0 os"
| "consecutive n (Some e # os) = consecutive (n + 1) os"

definition outcome_of :: "time \<times> time \<times> cause option \<Rightarrow> cause option" where
  "outcome_of c = snd (snd c)"

lemma outcome_of_simp [simp]: "outcome_of (now, t, err) = err"
  by (simp add: outcome_of_def)

lemma closed_run:
  "cb_state cb = StateClosed \<Longrightarrow>
   (\<forall>k \<le> length cs. consecutive (cb_failures cb) (take k (map outcome_of cs)) < bc_FailureThreshold (cb_config cb)) \<Longrightarrow>
   breaker_run cs cb = (rs, cb') \<Longrightarrow>
   rs = map (\<lambda>c. (True, outcome_of c)) cs \<and> cb_state cb' = StateClosed \<and> cb_config cb' = cb_config cb \<and>
   cb_failures cb' = consecutive (cb_failures cb) (map outcome_of cs)"
proof (induction cs arbitrary: cb rs)
  case (Cons c cs)
  obtain now t err where c: "c = (now, t, err)" by (cases c)
  have below: "consecutive (cb_failures cb) (take (Suc k) (map outcome_of (c # cs))) < bc_FailureThreshold (cb_config cb)"
    if "k \<le> length cs" for k
    using Cons.prems(2) that by (metis Suc_le_mono length_Cons)
  define cb1 where "cb1 = (case err of None \<Rightarrow> cb\<lparr>cb_failures := 0\<rparr>
      | Some e \<Rightarrow> cb\<lparr>cb_failures := cb_failures cb + 1, cb_lastFailure := t\<rparr>)"
  have call: "cb_Call now t err cb = (True, err, cb1)"
    using Cons.prems(1) below [of 0]
    by (auto simp: cb_Call_def closed_call_def cb1_def c split: option.split)
  have step: "consecutive (cb_failures cb) (err # os) = consecutive (cb_failures cb1) os" for os
    by (cases err) (simp_all add: cb1_def)
  have cb1: "cb_state cb1 = StateClosed" "cb_config cb1 = cb_config cb"
    using Cons.prems(1) by (simp_all add: cb1_def split: option.split)
  obtain rs1 where r: "breaker_run cs cb1 = (rs1, cb')" "rs = (True, err) # rs1"
    using Cons.prems(3) by (auto simp: c call split: prod.splits)
  from Cons.IH [OF cb1(1) _ r(1)] below cb1(2) r(2) show ?case
    by (simp add: c step)
qed simp

lemma consecutive_snoc: "consecutive n (os @ [o1]) = (case o1 of None \<Rightarrow> 0 | Some e \<Rightarrow> consecutive n os + 1)"
  by (induction n os rule: consecutive.induct) (auto split: option.split)

text \<open>
  The breaker stays closed, and lets every call through, as long as there are fewer than
  \<open>FailureThreshold\<close> failures in a row.
\<close>

theorem breaker_stays_closed:
  assumes "\<forall>k \<le> length cs. consecutive 0 (take k (map outcome_of cs)) < bc_FailureThreshold config"
    and "breaker_run cs (NewCircuitBreaker config) = (rs, cb)"
  shows "rs = map (\<lambda>c. (True, outcome_of c)) cs \<and> cb_state cb = StateClosed"
  using closed_run [OF _ _ assms(2)] assms(1) by (simp add: NewCircuitBreaker_def)

theorem breaker_stays_closed_witness:
  "fst (breaker_run [(0, 1, Some breaker_open_error), (2, 3, None), (4, 5, Some breaker_open_error)]
     (NewCircuitBreaker (DefaultCircuitBreakerConfig\<lparr>bc_FailureThreshold := 2\<rparr>)))
   = [(True, Some breaker_open_error), (True, None), (True, Some breaker_open_error)]"
proof -
  let ?cs = "[(0, 1, Some breaker_open_error), (2, 3, None), (4, 5, Some breaker_open_error)]"
    and ?config = "DefaultCircuitBreakerConfig\<lparr>bc_FailureThreshold := 2\<rparr>"
  obtain rs cb where r: "breaker_run ?cs (NewCircuitBreaker ?config) = (rs, cb)" by fastforce
  have "\<forall>k \<le> length ?cs. consecutive 0 (take k (map outcome_of ?cs)) < bc_FailureThreshold ?config"
    by (auto simp: le_Suc_eq)
  from breaker_stays_closed [OF this r] r show ?thesis by (simp del: breaker_run.simps)
qed

text \<open>
  C26. With the \<open>FailureThreshold\<close>-th failure in a row it opens; then it answers every call within
  \<open>ResetTimeout\<close> of that failure with an error, and does not call the function.
\<close>

theorem breaker_trips:
  assumes "1 \<le> bc_FailureThreshold config"
    and "\<forall>k < length cs. consecutive 0 (take k (map outcome_of cs)) < bc_FailureThreshold config"
    and "consecutive 0 (map outcome_of cs) = bc_FailureThreshold config"
    and "breaker_run cs (NewCircuitBreaker config) = (rs, cb)"
  shows "rs = map (\<lambda>c. (True, outcome_of c)) cs \<and> cb_state cb = StateOpen \<and>
    (now - fst (snd (last cs)) < bc_ResetTimeout config \<longrightarrow>
      cb_Call now t err cb = (False, Some breaker_open_error, cb))"
proof -
  have "cs \<noteq> []" using assms(1,3) by auto
  then obtain cs1 c where cs: "cs = cs1 @ [c]" by (cases cs rule: rev_cases) auto
  obtain n1 t1 o1 where c: "c = (n1, t1, o1)" by (cases c)
  obtain rs1 cb1 where r1: "breaker_run cs1 (NewCircuitBreaker config) = (rs1, cb1)" by fastforce
  from assms(2) have "\<forall>k \<le> length cs1. consecutive 0 (take k (map outcome_of cs1)) < bc_FailureThreshold config"
    by (auto simp: cs less_Suc_eq_le)
  with closed_run [OF _ _ r1] have l: "rs1 = map (\<lambda>c. (True, outcome_of c)) cs1" "cb_state cb1 = StateClosed"
    "cb_config cb1 = config" "cb_failures cb1 = consecutive 0 (map outcome_of cs1)"
    by (simp_all add: NewCircuitBreaker_def)
  from assms(1,3) obtain e where "o1 = Some e" "consecutive 0 (map outcome_of cs1) + 1 = bc_FailureThreshold config"
    by (cases o1) (auto simp: cs c consecutive_snoc)
  with assms(4) r1 l show ?thesis
    by (auto simp: cs c breaker_run_append cb_Call_def closed_call_def Let_def)
qed

theorem breaker_trips_witness:
  "\<exists>rs cb. breaker_run [(0, 1, None), (2, 3, Some breaker_open_error)]
      (NewCircuitBreaker (DefaultCircuitBreakerConfig\<lparr>bc_FailureThreshold := 1\<rparr>)) = (rs, cb) \<and>
    cb_state cb = StateOpen \<and> cb_Call 100 101 None cb = (False, Some breaker_open_error, cb)"
proof -
  let ?cs = "[(0, 1, None), (2, 3, Some breaker_open_error)]"
    and ?config = "DefaultCircuitBreakerConfig\<lparr>bc_FailureThreshold := 1\<rparr>"
  obtain rs cb where r: "breaker_run ?cs (NewCircuitBreaker ?config) = (rs, cb)" by fastforce
  have "\<forall>k < length ?cs. consecutive 0 (take k (map outcome_of ?cs)) < bc_FailureThreshold ?config"
    by (simp add: All_less_Suc)
  from breaker_trips [OF _ this _ r, of 100 101 None] r show ?thesis
    by (simp add: DefaultCircuitBreakerConfig_def del: breaker_run.simps)
qed

lemma half_open_run:
  "cb_state cb = StateHalfOpen \<Longrightarrow> cb_successes cb + int (length cs) < bc_SuccessThreshold (cb_config cb) \<Longrightarrow>
   \<forall>c \<in> set cs. outcome_of c = None \<Longrightarrow> breaker_run cs cb = (rs, cb') \<Longrightarrow>
   rs = map (\<lambda>c. (True, None)) cs \<and> cb_state cb' = StateHalfOpen \<and> cb_config cb' = cb_config cb \<and>
   cb_successes cb' = cb_successes cb + int (length cs)"
proof (induction cs arbitrary: cb rs)
  case (Cons c cs)
  obtain now t where c: "c = (now, t, None)" using Cons.prems(3) by (cases c) auto
  let ?cb = "cb\<lparr>cb_successes := cb_successes cb + 1, cb_lastSuccess := t\<rparr>"
  have call: "cb_Call now t None cb = (True, None, ?cb)"
    using Cons.prems(1,2) by (simp add: cb_Call_def half_open_call_def Let_def)
  obtain rs1 where r: "breaker_run cs ?cb = (rs1, cb')" "rs = (True, None) # rs1"
    using Cons.prems(4) by (auto simp: c call split: prod.splits)
  from Cons.IH [OF _ _ _ r(1)] Cons.prems(1-3) r(2) show ?case by simp
qed simp

text \<open>
  After \<open>ResetTimeout\<close> the open breaker lets calls through: \<open>SuccessThreshold\<close> successes in a row close it, and
  a failure before that opens it again, for another \<open>ResetTimeout\<close>.
\<close>

theorem breaker_recovers:
  assumes "cb_state cb = StateOpen" and "bc_ResetTimeout (cb_config cb) \<le> fst (hd (cs @ [(n1, t1, o1)])) - cb_lastFailure cb"
    and "\<forall>c \<in> set cs. outcome_of c = None" and "int (length cs) < bc_SuccessThreshold (cb_config cb)"
    and "breaker_run (cs @ [(n1, t1, o1)]) cb = (rs, cb')"
  shows "rs = map (\<lambda>c. (True, None)) cs @ [(True, o1)] \<and>
    (case o1 of
       None \<Rightarrow> cb_state cb' = (if int (length cs) + 1 = bc_SuccessThreshold (cb_config cb) then StateClosed else StateHalfOpen)
     | Some e \<Rightarrow> cb_state cb' = StateOpen \<and> cb_lastFailure cb' = t1)"
proof -
  let ?half = "cb\<lparr>cb_state := StateHalfOpen, cb_successes := 0\<rparr>"
  have "cb_Call (fst (hd (cs @ [(n1, t1, o1)]))) t o2 cb = cb_Call (fst (hd (cs @ [(n1, t1, o1)]))) t o2 ?half" for t o2
    using assms(1,2) by (simp add: cb_Call_def)
  then have same: "breaker_run (cs @ [(n1, t1, o1)]) cb = breaker_run (cs @ [(n1, t1, o1)]) ?half"
    by (cases cs) (auto split: prod.split)
  obtain rs1 cb1 where r1: "breaker_run cs ?half = (rs1, cb1)" by fastforce
  from half_open_run [OF _ _ assms(3) r1] assms(4)
  have l: "rs1 = map (\<lambda>c. (True, None)) cs" "cb_state cb1 = StateHalfOpen" "cb_config cb1 = cb_config cb"
    "cb_successes cb1 = int (length cs)" by simp_all
  from assms(4,5) l r1 show ?thesis
    unfolding same
    by (auto simp: breaker_run_append cb_Call_def half_open_call_def Let_def split: option.split)
qed

theorem breaker_recovers_witness:
  "cb_state (snd (breaker_run ([(100, 101, None)] @ [(102, 103, None)])
     (NewCircuitBreaker DefaultCircuitBreakerConfig\<lparr>cb_state := StateOpen, cb_lastFailure := - 60000000000\<rparr>))) = StateClosed"
proof -
  let ?cb = "NewCircuitBreaker DefaultCircuitBreakerConfig\<lparr>cb_state := StateOpen, cb_lastFailure := - 60000000000\<rparr>"
  obtain rs cb' where r: "breaker_run ([(100, 101, None)] @ [(102, 103, None)]) ?cb = (rs, cb')" by fastforce
  from breaker_recovers [OF _ _ _ _ r] r show ?thesis
    by (simp add: NewCircuitBreaker_def DefaultCircuitBreakerConfig_def del: breaker_run.simps)
qed

end
