(* ===== verification/Version.thy ===== *)
theory Version
  imports Prelude
begin

text \<open>The negotiation of the protocol version (\<open>internal/version/negotiation.go\<close>).\<close>

type_synonym smpp_version = u8

definition SMPPVersion33 :: smpp_version where [simp]: "SMPPVersion33 = 0x33"
definition SMPPVersion34 :: smpp_version where [simp]: "SMPPVersion34 = 0x34"
definition SMPPVersion50 :: smpp_version where [simp]: "SMPPVersion50 = 0x50"

definition hex_char :: "nat \<Rightarrow> char" where
  "hex_char n = ''0123456789abcdef'' ! (n mod 16)"

definition version_String :: "smpp_version \<Rightarrow> string" where
  "version_String v =
     (if v = SMPPVersion33 then ''3.3''
      else if v = SMPPVersion34 then ''3.4''
      else if v = SMPPVersion50 then ''5.0''
      else ''unknown ('' @ [hex_char (unat v div 16), hex_char (unat v)] @ '')'')"

definition IsSupported :: "smpp_version \<Rightarrow> bool" where
  "IsSupported v \<longleftrightarrow> v = SMPPVersion33 \<or> v = SMPPVersion34 \<or> v = SMPPVersion50"

definition SupportsFeature :: "smpp_version \<Rightarrow> string \<Rightarrow> bool" where
  "SupportsFeature v feature =
     (if feature \<in> set [''broadcast_sm'', ''cancel_broadcast_sm'', ''query_broadcast_sm'', ''data_sm'',
        ''outbind'', ''replace_sm'', ''cancel_sm'', ''submit_multi'', ''alert_notification'']
      then SMPPVersion34 \<le> v
      else if feature \<in> set [''enquire_link'', ''unbind''] then SMPPVersion33 \<le> v
      else False)"

text \<open>The text of the error names both versions.\<close>

definition NegotiateVersion :: "smpp_version \<Rightarrow> smpp_version \<Rightarrow> smpp_version result" where
  "NegotiateVersion clientVersion serverVersion =
     (let failed = Err (Errorf (''no compatible SMPP version found (client: '' @ version_String clientVersion @
            '', server: '' @ version_String serverVersion @ '')'')) in
      if clientVersion = serverVersion then Ok clientVersion
      else if clientVersion > serverVersion then
        (if IsSupported serverVersion then Ok serverVersion else failed)
      else (if IsSupported clientVersion then Ok clientVersion else failed))"

record version_negotiator =
  vn_supportedVersions :: "smpp_version list"
  vn_defaultVersion :: smpp_version

definition NewVersionNegotiator :: "smpp_version \<Rightarrow> version_negotiator" where
  "NewVersionNegotiator defaultVersion =
     \<lparr>vn_supportedVersions = [SMPPVersion33, SMPPVersion34, SMPPVersion50], vn_defaultVersion = defaultVersion\<rparr>"

definition Negotiate :: "version_negotiator \<Rightarrow> smpp_version \<Rightarrow> smpp_version result" where
  "Negotiate vn clientVersion = NegotiateVersion clientVersion (vn_defaultVersion vn)"

definition IsVersionSupported :: "version_negotiator \<Rightarrow> smpp_version \<Rightarrow> bool" where
  "IsVersionSupported vn version = list_ex (\<lambda>v. v = version) (vn_supportedVersions vn)"

definition GetSupportedVersions :: "version_negotiator \<Rightarrow> smpp_version list" where
  "GetSupportedVersions vn = vn_supportedVersions vn"

definition GetDefaultVersion :: "version_negotiator \<Rightarrow> smpp_version" where
  "GetDefaultVersion vn = vn_defaultVersion vn"

lemma IsVersionSupported_iff: "IsVersionSupported (NewVersionNegotiator d) v \<longleftrightarrow> IsSupported v"
  by (auto simp: IsVersionSupported_def NewVersionNegotiator_def IsSupported_def list_ex_iff)

lemma SupportsFeature_min: "SupportsFeature (min c d) f \<longleftrightarrow> SupportsFeature c f \<and> SupportsFeature d f"
  unfolding SupportsFeature_def min.bounded_iff by (simp only: split: if_splits) blast

lemma NegotiateVersion_cases:
  "NegotiateVersion c d =
     (if c = d \<or> IsSupported (min c d) then Ok (min c d)
      else Err (Errorf (''no compatible SMPP version found (client: '' @ version_String c @ '', server: '' @
        version_String d @ '')'')))"
  unfolding NegotiateVersion_def Let_def
  by (cases c d rule: linorder_cases) (auto simp: min_absorb1 min_absorb2 less_imp_le dest: less_asym)

text \<open>
  Negotiation ends with the smaller of the two versions or fails; it fails exactly when the versions
  differ and the smaller is not supported.  The features of the negotiated version are those that
  both sides have.
\<close>

theorem Negotiate_common_features:
  "case Negotiate (NewVersionNegotiator d) c of
     Ok v \<Rightarrow> v = min c d \<and> (SupportsFeature v f \<longleftrightarrow> SupportsFeature c f \<and> SupportsFeature d f)
       \<and> (IsVersionSupported (NewVersionNegotiator d) v \<or> c = d)
   | Err e \<Rightarrow> c \<noteq> d \<and> \<not> IsVersionSupported (NewVersionNegotiator d) (min c d)
   | Panic \<Rightarrow> False"
  unfolding IsVersionSupported_iff
  by (simp add: Negotiate_def NewVersionNegotiator_def NegotiateVersion_cases SupportsFeature_min)

text \<open>A version that no side supports is agreed on when both sides have it.\<close>

theorem unsupported_version_negotiated:
  "Negotiate (NewVersionNegotiator 0x51) 0x51 = Ok 0x51 \<and> \<not> IsVersionSupported (NewVersionNegotiator 0x51) 0x51"
  unfolding IsVersionSupported_iff
  by (simp add: Negotiate_def NewVersionNegotiator_def NegotiateVersion_def IsSupported_def)

end
