(* ===== verification/FileStorage.thy ===== *)
theory FileStorage
  imports ExchangeSort Storage Unicode
begin

text \<open>
  The stores on disk, \<open>internal/storage/file.go\<close>: the maps of the in-memory stores, with one JSON file
  for each entry, read back when a store is made.

  The package os.  A disk is a map from cleaned paths to files; directories are not modelled, as the
  store makes those it needs.  The outcome of every call that reaches the disk is an argument: the
  \<open>n\<close>-th call succeeds (\<open>Done\<close>), fails (\<open>Failed\<close>), or, for a write, fails and leaves a torn file
  (\<open>Torn\<close>) or the whole of it (\<open>Late\<close>, an error when the file is closed).

  The package json.  What \<open>MarshalIndent\<close> writes is represented by the value that \<open>Unmarshal\<close> reads from
  it; any text that \<open>Unmarshal\<close> refuses is \<open>NotJSON\<close>.  A value survives, except that a byte of a string that is
  not part of a UTF-8 sequence becomes U+FFFD.  A failure of \<open>MarshalIndent\<close> (a time outside the years
  0 to 9999) is an outcome of the call, too.
\<close>

section \<open>Paths\<close>

text \<open>\<open>filepath.Clean\<close>: the elements of a path, without empty ones and dots; \<open>True\<close> for an absolute path.\<close>

type_synonym path = "bool \<times> string list"

fun path_elements :: "string \<Rightarrow> string list" where
  "path_elements '''' = ['''']"
| "path_elements (c # cs) =
     (if c = CHR ''/'' then '''' # path_elements cs
      else case path_elements cs of [] \<Rightarrow> [[c]] | e # es \<Rightarrow> (c # e) # es)"

fun clean_elements :: "bool \<Rightarrow> string list \<Rightarrow> string list \<Rightarrow> string list" where
  "clean_elements rooted out [] = out"
| "clean_elements rooted out (e # es) =
     (if e = '''' \<or> e = ''.'' then clean_elements rooted out es
      else if e = ''..'' then
        (if out \<noteq> [] \<and> last out \<noteq> ''..'' then clean_elements rooted (butlast out) es
         else if rooted then clean_elements rooted out es
         else clean_elements rooted (out @ [e]) es)
      else clean_elements rooted (out @ [e]) es)"

definition Clean :: "string \<Rightarrow> path" where
  "Clean s = (let rooted = (s \<noteq> '''' \<and> hd s = CHR ''/'') in (rooted, clean_elements rooted [] (path_elements s)))"

definition path_Join :: "path \<Rightarrow> string \<Rightarrow> path" where
  "path_Join p s = (fst p, clean_elements (fst p) (snd p) (path_elements s))"

definition path_Dir :: "path \<Rightarrow> path" where
  "path_Dir p = (fst p, butlast (snd p))"

definition Ext :: "string \<Rightarrow> string" where
  "Ext s = (let tail = takeWhile (\<lambda>c. c \<noteq> CHR ''.'' \<and> c \<noteq> CHR ''/'') (rev s) in
     if length tail < length s \<and> s ! (length s - 1 - length tail) = CHR ''.'' then CHR ''.'' # rev tail else '''')"

lemma ValidString_ascii: "list_all (\<lambda>c. of_char c < (128 :: nat)) s \<Longrightarrow> ValidString s"
proof (induction s)
  case (Cons c s)
  then have "decode_rune (codes (c # s)) = (of_char c, 1)" by (simp add: codes_def decode_rune_def)
  with Cons show ?case
    by (simp add: ValidString_def valid_utf8.simps [of "codes (c # s)"]) (simp add: codes_def RuneError_def)
qed (simp add: ValidString_def codes_def valid_utf8.simps)

lemma path_elements_plain: "CHR ''/'' \<notin> set s \<Longrightarrow> path_elements s = [s]"
  by (induction s) auto

text \<open>A name with the suffix \<open>.json\<close> and without a slash is one element, which no cleaning removes.\<close>

lemma Join_plain:
  assumes "CHR ''/'' \<notin> set i"
  shows "path_Join p (i @ ''.json'') = (fst p, snd p @ [i @ ''.json''])"
  using assms
  by (cases i rule: rev_cases) (auto simp: path_Join_def path_elements_plain)

lemma Ext_json [simp]: "Ext (i @ ''.json'') = ''.json''"
  by (simp add: Ext_def Let_def nth_append)

section \<open>The disk\<close>

datatype os_outcome = Done | Failed | Torn | Late

datatype 'a content = Json 'a | NotJSON

record 'a disk =
  dk_files :: "path \<rightharpoonup> 'a content"
  dk_calls :: nat

definition os_call :: "(nat \<Rightarrow> os_outcome) \<Rightarrow> 'a disk \<Rightarrow> os_outcome \<times> 'a disk" where
  "os_call out d = (out (dk_calls d), d\<lparr>dk_calls := dk_calls d + 1\<rparr>)"

definition MkdirAll :: "(nat \<Rightarrow> os_outcome) \<Rightarrow> path \<Rightarrow> 'a disk \<Rightarrow> unit result \<times> 'a disk" where
  "MkdirAll out p d =
     (case os_call out d of (r, d') \<Rightarrow> (if r = Done then Ok () else Err (Errorf ''mkdir''), d'))"

definition MarshalIndent :: "(nat \<Rightarrow> os_outcome) \<Rightarrow> ('a \<Rightarrow> 'a) \<Rightarrow> 'a \<Rightarrow> 'a disk \<Rightarrow> 'a content result \<times> 'a disk" where
  "MarshalIndent out copy x d =
     (case os_call out d of (r, d') \<Rightarrow> (if r = Done then Ok (Json (copy x)) else Err (Errorf ''json''), d'))"

definition WriteFile :: "(nat \<Rightarrow> os_outcome) \<Rightarrow> path \<Rightarrow> 'a content \<Rightarrow> 'a disk \<Rightarrow> unit result \<times> 'a disk" where
  "WriteFile out p x d =
     (case os_call out d of
        (Done, d') \<Rightarrow> (Ok (), d'\<lparr>dk_files := (dk_files d)(p \<mapsto> x)\<rparr>)
      | (Failed, d') \<Rightarrow> (Err (Errorf ''open''), d')
      | (Torn, d') \<Rightarrow> (Err (Errorf ''write''), d'\<lparr>dk_files := (dk_files d)(p \<mapsto> NotJSON)\<rparr>)
      | (Late, d') \<Rightarrow> (Err (Errorf ''close''), d'\<lparr>dk_files := (dk_files d)(p \<mapsto> x)\<rparr>))"

text \<open>\<open>None\<close>: the file does not exist, which the callers of \<open>os.Remove\<close> accept.\<close>

definition os_Remove :: "(nat \<Rightarrow> os_outcome) \<Rightarrow> path \<Rightarrow> 'a disk \<Rightarrow> unit result option \<times> 'a disk" where
  "os_Remove out p d =
     (case os_call out d of (r, d') \<Rightarrow>
        if r \<noteq> Done then (Some (Err (Errorf ''remove'')), d')
        else if dk_files d p = None then (None, d')
        else (Some (Ok ()), d'\<lparr>dk_files := (dk_files d)(p := None)\<rparr>))"

definition ReadFile :: "(nat \<Rightarrow> os_outcome) \<Rightarrow> path \<Rightarrow> 'a disk \<Rightarrow> 'a content result \<times> 'a disk" where
  "ReadFile out p d =
     (case os_call out d of (r, d') \<Rightarrow>
        (case dk_files d p of
           Some x \<Rightarrow> if r = Done then Ok x else Err (Errorf ''read'')
         | None \<Rightarrow> Err (Errorf ''file does not exist''), d'))"

text \<open>\<open>os.ReadDir\<close>: names with \<open>IsDir\<close>; its list is an argument that fits the disk.\<close>

definition lists_dir :: "'a disk \<Rightarrow> path \<Rightarrow> (string \<times> bool) list \<Rightarrow> bool" where
  "lists_dir d dir entries \<longleftrightarrow> distinct (map fst entries) \<and>
     (\<forall>n. (n, False) \<in> set entries \<longleftrightarrow> dk_files d (fst dir, snd dir @ [n]) \<noteq> None) \<and>
     (\<forall>(n, isdir) \<in> set entries. CHR ''/'' \<notin> set n \<and> n \<noteq> '''' \<and> n \<noteq> ''.'' \<and> n \<noteq> ''..'')"

definition ReadDir ::
    "(nat \<Rightarrow> os_outcome) \<Rightarrow> (string \<times> bool) list \<Rightarrow> 'a disk \<Rightarrow> (string \<times> bool) list result \<times> 'a disk" where
  "ReadDir out entries d =
     (case os_call out d of (r, d') \<Rightarrow> (if r = Done then Ok entries else Err (Errorf ''readdir''), d'))"

text \<open>A string as \<open>json\<close> gives it back.\<close>

definition json_string :: "string \<Rightarrow> string" where
  "json_string s = string_of_runes (runes s)"

lemma json_string_valid [simp]: "ValidString s \<Longrightarrow> json_string s = s"
  by (simp add: json_string_def string_of_runes_runes)

definition json_address :: "address \<Rightarrow> address" where
  "json_address a = a\<lparr>a_Addr := json_string (a_Addr a)\<rparr>"

definition json_message :: "message \<Rightarrow> message" where
  "json_message m = m\<lparr>m_ID := json_string (m_ID m), m_SessionID := json_string (m_SessionID m),
     m_SourceAddr := json_address (m_SourceAddr m), m_DestAddr := json_address (m_DestAddr m),
     m_ValidityPeriod := json_string (m_ValidityPeriod m),
     m_ScheduleDeliveryTime := json_string (m_ScheduleDeliveryTime m),
     m_ServiceType := json_string (m_ServiceType m), m_SubDate := json_string (m_SubDate m),
     m_DoneDate := json_string (m_DoneDate m), m_Stat := json_string (m_Stat m),
     m_Err := json_string (m_Err m), m_Text := json_string (m_Text m)\<rparr>"

definition json_report :: "delivery_report \<Rightarrow> delivery_report" where
  "json_report r = r\<lparr>r_MessageID := json_string (r_MessageID r), r_SubmitDate := json_string (r_SubmitDate r),
     r_DoneDate := json_string (r_DoneDate r), r_Status := json_string (r_Status r),
     r_Error := json_string (r_Error r), r_Text := json_string (r_Text r)\<rparr>"

section \<open>One file for each entry\<close>

text \<open>
  What the two stores have in common, their methods \<open>saveMessage\<close>, \<open>loadMessage\<close>, \<open>loadMessages\<close> and the same
  for reports; \<open>what\<close> is the word in the errors, \<open>key\<close> the field under which an entry is filed.
\<close>

definition save_file ::
    "(nat \<Rightarrow> os_outcome) \<Rightarrow> string \<Rightarrow> ('a \<Rightarrow> 'a) \<Rightarrow> path \<Rightarrow> 'a \<Rightarrow> 'a disk \<Rightarrow> unit result \<times> 'a disk" where
  "save_file out what copy filename x d =
     (case MkdirAll out (path_Dir filename) d of
        (Err e, d1) \<Rightarrow> (Err (Wrap ''failed to create directory'' e), d1) | (Panic, d1) \<Rightarrow> (Panic, d1)
      | (Ok _, d1) \<Rightarrow>
     (case MarshalIndent out copy x d1 of
        (Err e, d2) \<Rightarrow> (Err (Wrap (''failed to marshal '' @ what) e), d2) | (Panic, d2) \<Rightarrow> (Panic, d2)
      | (Ok data, d2) \<Rightarrow>
     (case WriteFile out filename data d2 of
        (Err e, d3) \<Rightarrow> (Err (Wrap ''failed to write file'' e), d3) | (Panic, d3) \<Rightarrow> (Panic, d3)
      | (Ok _, d3) \<Rightarrow> (Ok (), d3))))"

definition load_file :: "(nat \<Rightarrow> os_outcome) \<Rightarrow> string \<Rightarrow> path \<Rightarrow> 'a disk \<Rightarrow> 'a result \<times> 'a disk" where
  "load_file out what filename d =
     (case ReadFile out filename d of
        (Err e, d1) \<Rightarrow> (Err (Wrap ''failed to read file'' e), d1) | (Panic, d1) \<Rightarrow> (Panic, d1)
      | (Ok (Json x), d1) \<Rightarrow> (Ok x, d1)
      | (Ok NotJSON, d1) \<Rightarrow> (Err (Errorf (''failed to unmarshal '' @ what)), d1))"

fun load_entries ::
    "(nat \<Rightarrow> os_outcome) \<Rightarrow> string \<Rightarrow> ('a \<Rightarrow> string) \<Rightarrow> path \<Rightarrow> (string \<times> bool) list \<Rightarrow> (string \<rightharpoonup> 'a) \<Rightarrow>
     'a disk \<Rightarrow> (string \<rightharpoonup> 'a) \<times> 'a disk" where
  "load_entries out what key dir [] found d = (found, d)"
| "load_entries out what key dir ((n, isdir) # entries) found d =
     (if isdir \<or> Ext n \<noteq> ''.json'' then load_entries out what key dir entries found d
      else case load_file out what (path_Join dir n) d of
             (Ok x, d1) \<Rightarrow> load_entries out what key dir entries (found(key x \<mapsto> x)) d1
           | (_, d1) \<Rightarrow> load_entries out what key dir entries found d1)"

definition load_dir ::
    "(nat \<Rightarrow> os_outcome) \<Rightarrow> string \<Rightarrow> ('a \<Rightarrow> string) \<Rightarrow> path \<Rightarrow> (string \<times> bool) list \<Rightarrow> 'a disk \<Rightarrow>
     (string \<rightharpoonup> 'a) result \<times> 'a disk" where
  "load_dir out what key dir entries d =
     (case MkdirAll out dir d of
        (Err e, d1) \<Rightarrow> (Err (Wrap (''failed to create '' @ what @ ''s directory'') e), d1) | (Panic, d1) \<Rightarrow> (Panic, d1)
      | (Ok _, d1) \<Rightarrow>
     (case ReadDir out entries d1 of
        (Err e, d2) \<Rightarrow> (Err (Wrap (''failed to read '' @ what @ ''s directory'') e), d2) | (Panic, d2) \<Rightarrow> (Panic, d2)
      | (Ok es, d2) \<Rightarrow> (case load_entries out what key dir es Map.empty d2 of (found, d3) \<Rightarrow> (Ok found, d3))))"

definition remove_file :: "(nat \<Rightarrow> os_outcome) \<Rightarrow> string \<Rightarrow> path \<Rightarrow> 'a disk \<Rightarrow> unit result \<times> 'a disk" where
  "remove_file out what filename d =
     (case os_Remove out filename d of
        (Some (Err e), d1) \<Rightarrow> (Err (Wrap (''failed to remove '' @ what @ '' file'') e), d1)
      | (_, d1) \<Rightarrow> (Ok (), d1))"

section \<open>FileSMSStorage\<close>

record file_sms_store =
  fs_dataDir :: path
  fs_messages :: "string \<rightharpoonup> message"
  fs_disk :: "message disk"

definition getMessageFilename :: "file_sms_store \<Rightarrow> string \<Rightarrow> path" where
  "getMessageFilename fs messageID = path_Join (path_Join (fs_dataDir fs) ''messages'') (messageID @ ''.json'')"

definition saveMessage :: "(nat \<Rightarrow> os_outcome) \<Rightarrow> file_sms_store \<Rightarrow> message \<Rightarrow> unit result \<times> file_sms_store" where
  "saveMessage out fs m =
     (case save_file out ''message'' json_message (getMessageFilename fs (m_ID m)) m (fs_disk fs) of
        (r, d) \<Rightarrow> (r, fs\<lparr>fs_disk := d\<rparr>))"

definition loadMessages ::
    "(nat \<Rightarrow> os_outcome) \<Rightarrow> (string \<times> bool) list \<Rightarrow> file_sms_store \<Rightarrow> unit result \<times> file_sms_store" where
  "loadMessages out entries fs =
     (case load_dir out ''message'' m_ID (path_Join (fs_dataDir fs) ''messages'') entries (fs_disk fs) of
        (Ok found, d) \<Rightarrow> (Ok (), fs\<lparr>fs_messages := fs_messages fs ++ found, fs_disk := d\<rparr>)
      | (Err e, d) \<Rightarrow> (Err e, fs\<lparr>fs_disk := d\<rparr>)
      | (Panic, d) \<Rightarrow> (Panic, fs\<lparr>fs_disk := d\<rparr>))"

definition NewFileSMSStorage ::
    "(nat \<Rightarrow> os_outcome) \<Rightarrow> string \<Rightarrow> (string \<times> bool) list \<Rightarrow> message disk \<Rightarrow> file_sms_store result \<times> message disk" where
  "NewFileSMSStorage out dataDir entries d =
     (case MkdirAll out (Clean dataDir) d of
        (Err e, d1) \<Rightarrow> (Err (Wrap ''failed to create data directory'' e), d1) | (Panic, d1) \<Rightarrow> (Panic, d1)
      | (Ok _, d1) \<Rightarrow>
     (case loadMessages out entries \<lparr>fs_dataDir = Clean dataDir, fs_messages = Map.empty, fs_disk = d1\<rparr> of
        (Err e, fs) \<Rightarrow> (Err (Wrap ''failed to load messages'' e), fs_disk fs) | (Panic, fs) \<Rightarrow> (Panic, fs_disk fs)
      | (Ok _, fs) \<Rightarrow> (Ok fs, fs_disk fs)))"

definition fs_StoreSMS ::
    "(nat \<Rightarrow> os_outcome) \<Rightarrow> file_sms_store \<Rightarrow> time \<Rightarrow> message option \<Rightarrow> string result \<times> file_sms_store" where
  "fs_StoreSMS out fs now message =
     (case message of
        None \<Rightarrow> (Err (Errorf ''message cannot be nil''), fs)
      | Some m \<Rightarrow>
          if m_ID m = '''' then (Err (Errorf ''message ID cannot be empty''), fs)
          else
            let copy = m\<lparr>m_SubmitTime := now\<rparr> in
            (case saveMessage out (fs\<lparr>fs_messages := (fs_messages fs)(m_ID m \<mapsto> copy)\<rparr>) copy of
               (Err e, fs1) \<Rightarrow> (Err (Wrap ''failed to save message to file'' e), fs1)
             | (Panic, fs1) \<Rightarrow> (Panic, fs1)
             | (Ok _, fs1) \<Rightarrow> (Ok (m_ID m), fs1)))"

definition fs_GetSMS :: "file_sms_store \<Rightarrow> string \<Rightarrow> message result" where
  "fs_GetSMS fs messageID =
     (if messageID = '''' then Err (Errorf ''message ID cannot be empty'')
      else case fs_messages fs messageID of
             None \<Rightarrow> Err (Errorf (''message with ID '' @ messageID @ '' not found''))
           | Some m \<Rightarrow> Ok m)"

definition fs_UpdateSMS ::
    "(nat \<Rightarrow> os_outcome) \<Rightarrow> file_sms_store \<Rightarrow> message option \<Rightarrow> unit result \<times> file_sms_store" where
  "fs_UpdateSMS out fs message =
     (case message of
        None \<Rightarrow> (Err (Errorf ''message and message ID cannot be empty''), fs)
      | Some m \<Rightarrow>
          if m_ID m = '''' then (Err (Errorf ''message and message ID cannot be empty''), fs)
          else if fs_messages fs (m_ID m) = None
          then (Err (Errorf (''message with ID '' @ m_ID m @ '' not found'')), fs)
          else
            (case saveMessage out (fs\<lparr>fs_messages := (fs_messages fs)(m_ID m \<mapsto> m)\<rparr>) m of
               (Err e, fs1) \<Rightarrow> (Err (Wrap ''failed to save message to file'' e), fs1)
             | (Panic, fs1) \<Rightarrow> (Panic, fs1)
             | (Ok _, fs1) \<Rightarrow> (Ok (), fs1)))"

definition fs_UpdateSMSStatus ::
    "(nat \<Rightarrow> os_outcome) \<Rightarrow> file_sms_store \<Rightarrow> time \<Rightarrow> string \<Rightarrow> message_status \<Rightarrow> unit result \<times> file_sms_store" where
  "fs_UpdateSMSStatus out fs now messageID status =
     (if messageID = '''' then (Err (Errorf ''message ID cannot be empty''), fs)
      else case fs_messages fs messageID of
             None \<Rightarrow> (Err (Errorf (''message with ID '' @ messageID @ '' not found'')), fs)
           | Some m \<Rightarrow>
               let m1 = m\<lparr>m_Status := status\<rparr>;
                   m2 = (if status = MessageStatusDelivered \<or> status = MessageStatusExpired \<or>
                            status = MessageStatusDeleted \<or> status = MessageStatusUndeliverable \<or>
                            status = MessageStatusRejected
                         then m1\<lparr>m_DoneTime := Some now, m_DoneDate := Format_0601021504 now\<rparr> else m1)
               in (case saveMessage out (fs\<lparr>fs_messages := (fs_messages fs)(messageID \<mapsto> m2)\<rparr>) m2 of
                     (Err e, fs1) \<Rightarrow> (Err (Wrap ''failed to save updated message to file'' e), fs1)
                   | (Panic, fs1) \<Rightarrow> (Panic, fs1)
                   | (Ok _, fs1) \<Rightarrow> (Ok (), fs1)))"

definition fs_DeleteSMS ::
    "(nat \<Rightarrow> os_outcome) \<Rightarrow> file_sms_store \<Rightarrow> string \<Rightarrow> unit result \<times> file_sms_store" where
  "fs_DeleteSMS out fs messageID =
     (if messageID = '''' then (Err (Errorf ''message ID cannot be empty''), fs)
      else if fs_messages fs messageID = None
      then (Err (Errorf (''message with ID '' @ messageID @ '' not found'')), fs)
      else
        (case remove_file out ''message'' (getMessageFilename fs messageID) (fs_disk fs) of
           (r, d) \<Rightarrow> (r, fs\<lparr>fs_messages := (fs_messages fs)(messageID := None), fs_disk := d\<rparr>)))"

text \<open>The number of a status, for comparisons: the order of its declaration.\<close>

fun status_code :: "message_status \<Rightarrow> int" where
  "status_code MessageStatusSubmitted = 0"
| "status_code MessageStatusEnroute = 1"
| "status_code MessageStatusDelivered = 2"
| "status_code MessageStatusExpired = 3"
| "status_code MessageStatusDeleted = 4"
| "status_code MessageStatusUndeliverable = 5"
| "status_code MessageStatusAccepted = 6"
| "status_code MessageStatusUnknown = 7"
| "status_code MessageStatusRejected = 8"
| "status_code MessageStatusSplit = 9"

definition sort_results :: "string \<Rightarrow> string \<Rightarrow> message list \<Rightarrow> message list" where
  "sort_results sortBy sortOrder results =
     (if sortBy = ''submit_time'' then
        (if sortOrder = ''desc''
         then exchange_sort_by (\<lambda>a b. m_SubmitTime a < m_SubmitTime b) results
         else exchange_sort_by (\<lambda>a b. m_SubmitTime a > m_SubmitTime b) results)
      else if sortBy = ''status'' then
        (if sortOrder = ''desc''
         then exchange_sort_by (\<lambda>a b. status_code (m_Status a) < status_code (m_Status b)) results
         else exchange_sort_by (\<lambda>a b. status_code (m_Status a) > status_code (m_Status b)) results)
      else results)"

definition fs_page :: "int \<Rightarrow> int \<Rightarrow> 'a list \<Rightarrow> 'a list result" where
  "fs_page offset limit results =
     (let n = int (length results); start = (if offset > 0 then offset else 0) in
      if offset > 0 \<and> start \<ge> n then Ok []
      else
        let requestedEnd = wrap64 (start + limit);
            end1 = (if limit > 0 \<and> requestedEnd < n then requestedEnd else n)
        in if 0 \<le> start \<and> start \<le> end1 then Ok (take (nat (end1 - start)) (drop (nat start) results)) else Panic)"

definition fs_matchesCriteria :: "message \<Rightarrow> sms_search_criteria \<Rightarrow> bool" where
  "fs_matchesCriteria m c =
     (if sc_SourceAddr c \<noteq> '''' \<and> a_Addr (m_SourceAddr m) \<noteq> sc_SourceAddr c then False
      else if sc_DestAddr c \<noteq> '''' \<and> a_Addr (m_DestAddr m) \<noteq> sc_DestAddr c then False
      else if sc_Status c \<noteq> None \<and> Some (m_Status m) \<noteq> sc_Status c then False
      else if (case sc_FromDate c of None \<Rightarrow> False | Some t \<Rightarrow> m_SubmitTime m < t) then False
      else if (case sc_ToDate c of None \<Rightarrow> False | Some t \<Rightarrow> m_SubmitTime m > t) then False
      else True)"

definition fs_SearchSMS ::
    "file_sms_store \<Rightarrow> string list \<Rightarrow> sms_search_criteria option \<Rightarrow> message list result" where
  "fs_SearchSMS fs order criteria =
     (case criteria of
        None \<Rightarrow> Err (Errorf ''search criteria cannot be nil'')
      | Some c \<Rightarrow>
          fs_page (sc_Offset c) (sc_Limit c) (sort_results (sc_SortBy c) (sc_SortOrder c)
            (filter (\<lambda>m. fs_matchesCriteria m c) (values_in (fs_messages fs) order))))"

definition fs_GetSMSByDateRange :: "file_sms_store \<Rightarrow> string list \<Rightarrow> time \<Rightarrow> time \<Rightarrow> message list result" where
  "fs_GetSMSByDateRange fs order from to =
     Ok (filter (\<lambda>m. (m_SubmitTime m = from \<or> m_SubmitTime m > from) \<and> (m_SubmitTime m = to \<or> m_SubmitTime m < to))
           (values_in (fs_messages fs) order))"

definition fs_GetSMSCount :: "file_sms_store \<Rightarrow> int result" where
  "fs_GetSMSCount fs = Ok (int (card (dom (fs_messages fs))))"

section \<open>FileReportStorage\<close>

record file_report_store =
  fr_dataDir :: path
  fr_reports :: "string \<rightharpoonup> delivery_report"
  fr_disk :: "delivery_report disk"

definition getReportFilename :: "file_report_store \<Rightarrow> string \<Rightarrow> path" where
  "getReportFilename fr messageID = path_Join (path_Join (fr_dataDir fr) ''reports'') (messageID @ ''.json'')"

definition saveReport ::
    "(nat \<Rightarrow> os_outcome) \<Rightarrow> file_report_store \<Rightarrow> delivery_report \<Rightarrow> unit result \<times> file_report_store" where
  "saveReport out fr r =
     (case save_file out ''report'' json_report (getReportFilename fr (r_MessageID r)) r (fr_disk fr) of
        (u, d) \<Rightarrow> (u, fr\<lparr>fr_disk := d\<rparr>))"

definition loadReports ::
    "(nat \<Rightarrow> os_outcome) \<Rightarrow> (string \<times> bool) list \<Rightarrow> file_report_store \<Rightarrow> unit result \<times> file_report_store" where
  "loadReports out entries fr =
     (case load_dir out ''report'' r_MessageID (path_Join (fr_dataDir fr) ''reports'') entries (fr_disk fr) of
        (Ok found, d) \<Rightarrow> (Ok (), fr\<lparr>fr_reports := fr_reports fr ++ found, fr_disk := d\<rparr>)
      | (Err e, d) \<Rightarrow> (Err e, fr\<lparr>fr_disk := d\<rparr>)
      | (Panic, d) \<Rightarrow> (Panic, fr\<lparr>fr_disk := d\<rparr>))"

definition NewFileReportStorage ::
    "(nat \<Rightarrow> os_outcome) \<Rightarrow> string \<Rightarrow> (string \<times> bool) list \<Rightarrow> delivery_report disk \<Rightarrow>
     file_report_store result \<times> delivery_report disk" where
  "NewFileReportStorage out dataDir entries d =
     (case MkdirAll out (Clean dataDir) d of
        (Err e, d1) \<Rightarrow> (Err (Wrap ''failed to create data directory'' e), d1) | (Panic, d1) \<Rightarrow> (Panic, d1)
      | (Ok _, d1) \<Rightarrow>
     (case loadReports out entries \<lparr>fr_dataDir = Clean dataDir, fr_reports = Map.empty, fr_disk = d1\<rparr> of
        (Err e, fr) \<Rightarrow> (Err (Wrap ''failed to load reports'' e), fr_disk fr) | (Panic, fr) \<Rightarrow> (Panic, fr_disk fr)
      | (Ok _, fr) \<Rightarrow> (Ok fr, fr_disk fr)))"

definition fr_StoreReport ::
    "(nat \<Rightarrow> os_outcome) \<Rightarrow> file_report_store \<Rightarrow> delivery_report option \<Rightarrow> unit result \<times> file_report_store" where
  "fr_StoreReport out fr report =
     (case report of
        None \<Rightarrow> (Err (Errorf ''report cannot be nil''), fr)
      | Some r \<Rightarrow>
          if r_MessageID r = '''' then (Err (Errorf ''report message ID cannot be empty''), fr)
          else
            (case saveReport out (fr\<lparr>fr_reports := (fr_reports fr)(r_MessageID r \<mapsto> r)\<rparr>) r of
               (Err e, fr1) \<Rightarrow> (Err (Wrap ''failed to save report to file'' e), fr1)
             | (Panic, fr1) \<Rightarrow> (Panic, fr1)
             | (Ok _, fr1) \<Rightarrow> (Ok (), fr1)))"

definition fr_GetReport :: "file_report_store \<Rightarrow> string \<Rightarrow> delivery_report result" where
  "fr_GetReport fr messageID =
     (if messageID = '''' then Err (Errorf ''message ID cannot be empty'')
      else case fr_reports fr messageID of
             None \<Rightarrow> Err (Errorf (''report for message ID '' @ messageID @ '' not found''))
           | Some r \<Rightarrow> Ok r)"

definition fr_GetReportsByDateRange ::
    "file_report_store \<Rightarrow> string list \<Rightarrow> time \<Rightarrow> time \<Rightarrow> delivery_report list result" where
  "fr_GetReportsByDateRange fr order from to =
     Ok (filter (\<lambda>r. if \<not> IsZero (r_Timestamp r)
                     then (r_Timestamp r = from \<or> r_Timestamp r > from) \<and> (r_Timestamp r = to \<or> r_Timestamp r < to)
                     else True)
           (values_in (fr_reports fr) order))"

definition fr_matchesReportCriteria :: "delivery_report \<Rightarrow> report_search_criteria \<Rightarrow> bool" where
  "fr_matchesReportCriteria r c =
     (if rc_MessageID c \<noteq> '''' \<and> r_MessageID r \<noteq> rc_MessageID c then False
      else if rc_Status c \<noteq> '''' \<and> r_Status r \<noteq> rc_Status c then False
      else True)"

definition fr_SearchReports ::
    "file_report_store \<Rightarrow> string list \<Rightarrow> report_search_criteria option \<Rightarrow> delivery_report list result" where
  "fr_SearchReports fr order criteria =
     (case criteria of
        None \<Rightarrow> Err (Errorf ''search criteria cannot be nil'')
      | Some c \<Rightarrow> Ok (filter (\<lambda>r. fr_matchesReportCriteria r c) (values_in (fr_reports fr) order)))"

definition fr_DeleteReport ::
    "(nat \<Rightarrow> os_outcome) \<Rightarrow> file_report_store \<Rightarrow> string \<Rightarrow> unit result \<times> file_report_store" where
  "fr_DeleteReport out fr messageID =
     (if messageID = '''' then (Err (Errorf ''message ID cannot be empty''), fr)
      else if fr_reports fr messageID = None
      then (Err (Errorf (''report for message ID '' @ messageID @ '' not found'')), fr)
      else
        (case remove_file out ''report'' (getReportFilename fr messageID) (fr_disk fr) of
           (u, d) \<Rightarrow> (u, fr\<lparr>fr_reports := (fr_reports fr)(messageID := None), fr_disk := d\<rparr>)))"

definition fr_GetReportCount :: "file_report_store \<Rightarrow> int result" where
  "fr_GetReportCount fr = Ok (int (card (dom (fr_reports fr))))"

section \<open>What the files hold\<close>

definition readable :: "'a disk \<Rightarrow> path \<Rightarrow> 'a option" where
  "readable d p = (case dk_files d p of Some (Json x) \<Rightarrow> Some x | _ \<Rightarrow> None)"

definition file_of :: "path \<Rightarrow> string \<Rightarrow> path" where
  "file_of dir i = (fst dir, snd dir @ [i @ ''.json''])"

text \<open>An ID that is a file name, and that JSON keeps.\<close>

definition plain_name :: "string \<Rightarrow> bool" where
  "plain_name i \<longleftrightarrow> i \<noteq> '''' \<and> CHR ''/'' \<notin> set i \<and> ValidString i"

lemma file_of_inject [simp]: "file_of dir i = file_of dir j \<longleftrightarrow> i = j"
  by (simp add: file_of_def)

lemma Join_file_of: "plain_name i \<Longrightarrow> path_Join dir (i @ ''.json'') = file_of dir i"
  by (simp add: plain_name_def Join_plain file_of_def)

text \<open>
  Every readable file of the directory is a value that JSON has given back, under the name of its key.
\<close>

definition files_ok :: "('a \<Rightarrow> string) \<Rightarrow> ('a \<Rightarrow> 'a) \<Rightarrow> path \<Rightarrow> 'a disk \<Rightarrow> bool" where
  "files_ok key copy dir d \<longleftrightarrow> (\<forall>n x. readable d (fst dir, snd dir @ [n]) = Some x \<and> Ext n = ''.json'' \<longrightarrow>
     n = key x @ ''.json'' \<and> copy x = x \<and> plain_name (key x))"

lemma files_ok_read:
  "files_ok key copy dir d \<Longrightarrow> readable d (file_of dir i) = Some x \<Longrightarrow> i = key x \<and> copy x = x \<and> plain_name i"
  by (fastforce simp: files_ok_def file_of_def)

lemma os_call_simps [simp]:
  "os_call out d = (out (dk_calls d), d\<lparr>dk_calls := dk_calls d + 1\<rparr>)"
  by (simp add: os_call_def)

text \<open>The calls of the disk, one at a time.\<close>

lemma disk_calls:
  "MkdirAll out p d = ((if out (dk_calls d) = Done then Ok () else Err (Errorf ''mkdir'')), d\<lparr>dk_calls := dk_calls d + 1\<rparr>)"
  "MarshalIndent out copy x d =
     ((if out (dk_calls d) = Done then Ok (Json (copy x)) else Err (Errorf ''json'')), d\<lparr>dk_calls := dk_calls d + 1\<rparr>)"
  "ReadDir out es d = ((if out (dk_calls d) = Done then Ok es else Err (Errorf ''readdir'')), d\<lparr>dk_calls := dk_calls d + 1\<rparr>)"
  by (simp_all add: MkdirAll_def MarshalIndent_def ReadDir_def)

lemma save_file_outcome:
  assumes "save_file out what copy p x d = (r, d')"
  shows "(case r of Ok _ \<Rightarrow> dk_files d' = (dk_files d)(p \<mapsto> Json (copy x))
     | Err e \<Rightarrow> dk_files d' = dk_files d \<or> dk_files d' = (dk_files d)(p \<mapsto> NotJSON) \<or>
         dk_files d' = (dk_files d)(p \<mapsto> Json (copy x))
     | Panic \<Rightarrow> False)"
  using assms
  by (cases "out (dk_calls d + 2)") (auto simp: save_file_def disk_calls WriteFile_def split: if_splits)

lemma remove_file_outcome:
  assumes "remove_file out what p d = (r, d')"
  shows "(case r of Ok _ \<Rightarrow> dk_files d' = (dk_files d)(p := None)
     | Err e \<Rightarrow> dk_files d' = dk_files d | Panic \<Rightarrow> False)"
  using assms
  by (auto simp: remove_file_def os_Remove_def fun_eq_iff split: if_splits)

lemma readable_update:
  "dk_files d' = (dk_files d)(p := c) \<Longrightarrow>
    readable d' q = (if q = p then (case c of Some (Json x) \<Rightarrow> Some x | _ \<Rightarrow> None) else readable d q)"
  by (simp add: readable_def)

text \<open>
  The laws of the type of an entry: what JSON gives back is given back as it is, and has the key that
  JSON makes of the key.
\<close>

locale json_entry =
  fixes key :: "'a \<Rightarrow> string" and copy :: "'a \<Rightarrow> 'a"
  assumes copy_copy: "copy (copy x) = copy x" and key_copy: "ValidString (key x) \<Longrightarrow> key (copy x) = key x"
begin

lemma saved:
  assumes "files_ok key copy dir d" and "plain_name (key x)"
    and "save_file out what copy (file_of dir (key x)) x d = (r, d')"
  shows "files_ok key copy dir d' \<and>
    (\<forall>i. i \<noteq> key x \<longrightarrow> readable d' (file_of dir i) = readable d (file_of dir i)) \<and>
    (case r of Ok _ \<Rightarrow> readable d' (file_of dir (key x)) = Some (copy x) | Err e \<Rightarrow> True | Panic \<Rightarrow> False)"
proof -
  have k: "key (copy x) = key x" using key_copy assms(2) by (simp add: plain_name_def)
  have "files_ok key copy dir d'" if "dk_files d' = (dk_files d)(file_of dir (key x) := c)"
    "c \<in> {Some NotJSON, Some (Json (copy x))}" for c
    using assms(1,2) that(2) copy_copy k
    by (auto simp: files_ok_def readable_update [OF that(1)] file_of_def)
  moreover have "files_ok key copy dir d'" if "dk_files d' = dk_files d"
    using assms(1) that by (simp add: files_ok_def readable_def)
  moreover have "r \<noteq> Panic" using save_file_outcome [OF assms(3)] by auto
  ultimately show ?thesis
    using save_file_outcome [OF assms(3)]
    by (cases r) (auto simp: readable_def)
qed

lemma removed:
  assumes "files_ok key copy dir d" and "remove_file out what (file_of dir i) d = (r, d')"
  shows "files_ok key copy dir d' \<and>
    (\<forall>j. j \<noteq> i \<longrightarrow> readable d' (file_of dir j) = readable d (file_of dir j)) \<and>
    (case r of Ok _ \<Rightarrow> readable d' (file_of dir i) = None | Err e \<Rightarrow> True | Panic \<Rightarrow> False)"
  using assms(1) remove_file_outcome [OF assms(2)]
  by (cases r) (auto simp: files_ok_def readable_def split: if_splits)

end

lemma path_Join_name:
  "CHR ''/'' \<notin> set n \<Longrightarrow> n \<noteq> '''' \<Longrightarrow> n \<noteq> ''.'' \<Longrightarrow> n \<noteq> ''..'' \<Longrightarrow> path_Join dir n = (fst dir, snd dir @ [n])"
  by (simp add: path_Join_def path_elements_plain)

lemma load_file_Done:
  "load_file (\<lambda>_. Done) what p d = (r, d') \<Longrightarrow>
    dk_files d' = dk_files d \<and> (case readable d p of Some x \<Rightarrow> r = Ok x | None \<Rightarrow> \<exists>e. r = Err e)"
  by (auto simp: load_file_def ReadFile_def readable_def split: option.splits content.splits)

context json_entry
begin

lemma load_entries_Done:
  assumes "files_ok key copy dir d" and "distinct (map fst es)"
    and "\<forall>(n, isdir) \<in> set es. CHR ''/'' \<notin> set n \<and> n \<noteq> '''' \<and> n \<noteq> ''.'' \<and> n \<noteq> ''..''"
    and "load_entries (\<lambda>_. Done) what key dir es found d = (found', d')"
  shows "dk_files d' = dk_files d \<and> (\<forall>i. found' i =
    (if (i @ ''.json'', False) \<in> set es \<and> readable d (file_of dir i) \<noteq> None then readable d (file_of dir i) else found i))"
  using assms
proof (induction es arbitrary: found d)
  case (Cons e es)
  obtain n isdir where e: "e = (n, isdir)" by fastforce
  show ?case
  proof (cases "isdir \<or> Ext n \<noteq> ''.json''")
    case True
    then have n: "(i @ ''.json'', False) \<in> set (e # es) \<longleftrightarrow> (i @ ''.json'', False) \<in> set es" for i using e by auto
    have "load_entries (\<lambda>_. Done) what key dir es found d = (found', d')" using Cons.prems(4) e True by simp
    from Cons.IH [OF Cons.prems(1) _ _ this] Cons.prems(2,3) show ?thesis by (simp only: n) simp
  next
    case False
    obtain r d1 where r: "load_file (\<lambda>_. Done) what (path_Join dir n) d = (r, d1)" by fastforce
    have p: "path_Join dir n = (fst dir, snd dir @ [n])"
      using Cons.prems(3) e by (simp add: path_Join_name)
    have d1: "dk_files d1 = dk_files d" "\<And>q. readable d1 q = readable d q"
      using load_file_Done [OF r] by (simp_all add: readable_def)
    have ok: "files_ok key copy dir d1" using Cons.prems(1) d1(2) by (simp add: files_ok_def)
    show ?thesis
    proof (cases "readable d (fst dir, snd dir @ [n])")
      case None
      then have "load_entries (\<lambda>_. Done) what key dir es found d1 = (found', d')"
        using load_file_Done [OF r] Cons.prems(4) e False r p by (auto split: result.splits)
      with Cons.IH [OF ok _ _ this] Cons.prems(2,3) None d1
      show ?thesis by (auto simp: e file_of_def)
    next
      case (Some x)
      then have x: "n = key x @ ''.json''" using Cons.prems(1) False by (auto simp: files_ok_def)
      have "load_entries (\<lambda>_. Done) what key dir es (found(key x \<mapsto> x)) d1 = (found', d')"
        using load_file_Done [OF r] Cons.prems(4) e False r p Some by auto
      from Cons.IH [OF ok _ _ this] Cons.prems(2,3)
      have IH: "dk_files d' = dk_files d1" "found' i = (if (i @ ''.json'', False) \<in> set es \<and>
          readable d (file_of dir i) \<noteq> None then readable d (file_of dir i) else (found(key x \<mapsto> x)) i)" for i
        by (auto simp: d1(2))
      have "(key x @ ''.json'', False) \<notin> set es"
        using Cons.prems(2) e x by (force simp: image_iff)
      with IH d1(1) Some x False show ?thesis by (auto simp: e file_of_def)
    qed
  qed
qed simp

lemma load_dir_Done:
  assumes "files_ok key copy dir d" and "lists_dir d dir es"
  shows "\<exists>found d'. load_dir (\<lambda>_. Done) what key dir es d = (Ok found, d') \<and> dk_files d' = dk_files d \<and>
    found = (\<lambda>i. readable d (file_of dir i))"
proof -
  define d2 where "d2 = d\<lparr>dk_calls := dk_calls d + 2\<rparr>"
  have d2: "dk_files d2 = dk_files d" "\<And>q. readable d2 q = readable d q"
    by (simp_all add: d2_def readable_def)
  obtain found d' where l: "load_entries (\<lambda>_. Done) what key dir es Map.empty d2 = (found, d')" by fastforce
  have "files_ok key copy dir d2" using assms(1) d2(2) by (simp add: files_ok_def)
  from load_entries_Done [OF this _ _ l] assms(2) have f: "dk_files d' = dk_files d" "found i = (if (i @ ''.json'', False) \<in> set es \<and>
      readable d (file_of dir i) \<noteq> None then readable d (file_of dir i) else None)" for i
    by (auto simp: lists_dir_def d2)
  have "(i @ ''.json'', False) \<in> set es" if "readable d (file_of dir i) \<noteq> None" for i
    using assms(2) that by (auto simp: lists_dir_def readable_def file_of_def split: option.splits)
  then have "found = (\<lambda>i. readable d (file_of dir i))" using f(2) by (intro ext) (metis (lifting))
  with f(1) l show ?thesis
    by (auto simp: load_dir_def disk_calls d2_def)
qed

end

lemma ValidString_json_string [simp]: "ValidString (json_string s)"
  by (simp add: json_string_def ValidString_string_of_runes runes_scalar)

lemma json_address_twice [simp]: "json_address (json_address a) = json_address a"
  by (simp add: json_address_def)

interpretation message_json: json_entry m_ID json_message
  by unfold_locales (simp_all add: json_message_def)

interpretation report_json: json_entry r_MessageID json_report
  by unfold_locales (simp_all add: json_report_def)

section \<open>Messages on disk\<close>

definition sms_dir :: "file_sms_store \<Rightarrow> path" where
  "sms_dir fs = path_Join (fs_dataDir fs) ''messages''"

definition file_sms_inv :: "file_sms_store \<Rightarrow> bool" where
  "file_sms_inv fs \<longleftrightarrow> (\<forall>i m. fs_messages fs i = Some m \<longrightarrow> m_ID m = i \<and> plain_name i) \<and>
     files_ok m_ID json_message (sms_dir fs) (fs_disk fs)"

text \<open>The file of an ID holds what the map holds.\<close>

definition agrees :: "file_sms_store \<Rightarrow> string \<Rightarrow> bool" where
  "agrees fs i \<longleftrightarrow> readable (fs_disk fs) (file_of (sms_dir fs) i) = map_option json_message (fs_messages fs i)"

text \<open>What a call that names one ID does, whatever happens on the disk.\<close>

definition entry_step :: "file_sms_store \<Rightarrow> string \<Rightarrow> 'r result \<Rightarrow> file_sms_store \<Rightarrow> bool" where
  "entry_step fs i r fs' \<longleftrightarrow> file_sms_inv fs' \<and> fs_dataDir fs' = fs_dataDir fs \<and> r \<noteq> Panic \<and>
     (\<forall>j. j \<noteq> i \<longrightarrow> fs_messages fs' j = fs_messages fs j \<and> (agrees fs' j \<longleftrightarrow> agrees fs j)) \<and>
     (is_Ok r \<longrightarrow> agrees fs' i)"

lemma entry_step_error: "file_sms_inv fs \<Longrightarrow> entry_step fs i (Err e) fs"
  by (simp add: entry_step_def)

lemma saveMessage_step:
  assumes "file_sms_inv fs" and "plain_name i" and "m_ID m = i"
    and "saveMessage out (fs\<lparr>fs_messages := (fs_messages fs)(i \<mapsto> m)\<rparr>) m = (r, fs')"
  shows "entry_step fs i r fs' \<and> fs_messages fs' = (fs_messages fs)(i \<mapsto> m)"
proof -
  obtain d where d: "save_file out ''message'' json_message (file_of (sms_dir fs) (m_ID m)) m (fs_disk fs) = (r, d)"
    "fs' = fs\<lparr>fs_messages := (fs_messages fs)(i \<mapsto> m), fs_disk := d\<rparr>"
    using assms(2-4) by (auto simp: saveMessage_def getMessageFilename_def Join_file_of sms_dir_def split: prod.splits)
  have "files_ok m_ID json_message (sms_dir fs) (fs_disk fs)" "plain_name (m_ID m)"
    using assms(1-3) by (simp_all add: file_sms_inv_def)
  from message_json.saved [OF this d(1)] show ?thesis
    using assms(1-3) d(2)
    by (cases r) (auto simp: entry_step_def file_sms_inv_def agrees_def sms_dir_def)
qed

lemma fs_steps:
  assumes "file_sms_inv fs"
  shows "plain_name (m_ID m) \<Longrightarrow> fs_StoreSMS out fs now (Some m) = (r, fs') \<Longrightarrow> entry_step fs (m_ID m) r fs'"
    and "fs_UpdateSMS out fs (Some m) = (u, fs') \<Longrightarrow> entry_step fs (m_ID m) u fs'"
    and "fs_UpdateSMSStatus out fs now i st = (u, fs') \<Longrightarrow> entry_step fs i u fs'"
    and "fs_DeleteSMS out fs i = (u, fs') \<Longrightarrow> entry_step fs i u fs'"
proof -
  have stored: "fs_messages fs i = Some m \<Longrightarrow> m_ID m = i \<and> plain_name i \<and> i \<noteq> ''''" for i m
    using assms by (auto simp: file_sms_inv_def plain_name_def)
  show "entry_step fs (m_ID m) r fs'" if "plain_name (m_ID m)" "fs_StoreSMS out fs now (Some m) = (r, fs')"
  proof -
    obtain r1 fs1 where s: "saveMessage out (fs\<lparr>fs_messages := (fs_messages fs)(m_ID m \<mapsto> m\<lparr>m_SubmitTime := now\<rparr>)\<rparr>)
        (m\<lparr>m_SubmitTime := now\<rparr>) = (r1, fs1)" by fastforce
    from saveMessage_step [OF assms that(1) _ s] that(2) s show ?thesis
      using that(1) by (cases r1) (auto simp: fs_StoreSMS_def plain_name_def entry_step_def Let_def)
  qed
  show "entry_step fs (m_ID m) u fs'" if "fs_UpdateSMS out fs (Some m) = (u, fs')"
  proof (cases "m_ID m = '''' \<or> fs_messages fs (m_ID m) = None")
    case True
    then show ?thesis using that entry_step_error [OF assms] by (auto simp: fs_UpdateSMS_def split: if_splits)
  next
    case False
    then have p: "plain_name (m_ID m)" using stored by fastforce
    obtain r1 fs1 where s: "saveMessage out (fs\<lparr>fs_messages := (fs_messages fs)(m_ID m \<mapsto> m)\<rparr>) m = (r1, fs1)"
      by fastforce
    from saveMessage_step [OF assms p refl s] that s False show ?thesis
      by (cases r1) (auto simp: fs_UpdateSMS_def entry_step_def)
  qed
  show "entry_step fs i u fs'" if "fs_UpdateSMSStatus out fs now i st = (u, fs')"
  proof (cases "i = '''' \<or> fs_messages fs i = None")
    case True
    then show ?thesis using that entry_step_error [OF assms] by (auto simp: fs_UpdateSMSStatus_def split: if_splits)
  next
    case False
    then obtain m where m: "fs_messages fs i = Some m" "m_ID m = i" "plain_name i" using stored by fastforce
    obtain r1 fs1 where s: "saveMessage out (fs\<lparr>fs_messages := (fs_messages fs)(i \<mapsto> set_status now st m)\<rparr>)
        (set_status now st m) = (r1, fs1)" by fastforce
    have "fs_UpdateSMSStatus out fs now i st = (case saveMessage out
        (fs\<lparr>fs_messages := (fs_messages fs)(i \<mapsto> set_status now st m)\<rparr>) (set_status now st m) of
          (Err e, fs1) \<Rightarrow> (Err (Wrap ''failed to save updated message to file'' e), fs1)
        | (Panic, fs1) \<Rightarrow> (Panic, fs1)
        | (Ok _, fs1) \<Rightarrow> (Ok (), fs1))"
      using False m(1) by (simp add: fs_UpdateSMSStatus_def set_status_def final_status_def Let_def)
    with saveMessage_step [OF assms m(3) _ s] that s m(2) show ?thesis
      by (cases r1) (auto simp: entry_step_def)
  qed
  show "entry_step fs i u fs'" if del: "fs_DeleteSMS out fs i = (u, fs')"
  proof (cases "i = '''' \<or> fs_messages fs i = None")
    case True
    then show ?thesis using that entry_step_error [OF assms] by (auto simp: fs_DeleteSMS_def split: if_splits)
  next
    case False
    then have p: "plain_name i" using stored by fastforce
    then obtain d where d: "remove_file out ''message'' (file_of (sms_dir fs) i) (fs_disk fs) = (u, d)"
      "fs' = fs\<lparr>fs_messages := (fs_messages fs)(i := None), fs_disk := d\<rparr>"
      using del False
      by (auto simp: fs_DeleteSMS_def getMessageFilename_def Join_file_of sms_dir_def split: prod.splits)
    have "files_ok m_ID json_message (sms_dir fs) (fs_disk fs)" using assms by (simp add: file_sms_inv_def)
    from message_json.removed [OF this d(1)] show ?thesis
      using assms d(2) by (cases u) (auto simp: entry_step_def file_sms_inv_def agrees_def sms_dir_def)
  qed
qed

text \<open>Opening a directory whose files are in order, when the disk works.\<close>

lemma NewFileSMSStorage_Done:
  assumes "files_ok m_ID json_message (path_Join (Clean dataDir) ''messages'') d"
    and "lists_dir d (path_Join (Clean dataDir) ''messages'') es"
  shows "\<exists>fs d'. NewFileSMSStorage (\<lambda>_. Done) dataDir es d = (Ok fs, d') \<and> file_sms_inv fs \<and>
    fs_dataDir fs = Clean dataDir \<and> dk_files (fs_disk fs) = dk_files d \<and> (\<forall>i. agrees fs i) \<and>
    fs_messages fs = (\<lambda>i. readable d (file_of (path_Join (Clean dataDir) ''messages'') i))"
proof -
  let ?dir = "path_Join (Clean dataDir) ''messages''"
  define d1 where "d1 = d\<lparr>dk_calls := dk_calls d + 1\<rparr>"
  have d1: "dk_files d1 = dk_files d" "\<And>q. readable d1 q = readable d q" by (simp_all add: d1_def readable_def)
  have "files_ok m_ID json_message ?dir d1" "lists_dir d1 ?dir es"
    using assms d1 by (simp_all add: files_ok_def lists_dir_def)
  from message_json.load_dir_Done [OF this, of "''message''"] obtain d2 where
    l: "load_dir (\<lambda>_. Done) ''message'' m_ID ?dir es d1 = (Ok (\<lambda>i. readable d (file_of ?dir i)), d2)"
    and d2: "dk_files d2 = dk_files d" using d1 by auto
  have r: "readable d2 q = readable d q" for q by (simp add: readable_def d2)
  let ?fs = "\<lparr>fs_dataDir = Clean dataDir, fs_messages = (\<lambda>i. readable d (file_of ?dir i)), fs_disk = d2\<rparr>"
  have "NewFileSMSStorage (\<lambda>_. Done) dataDir es d = (Ok ?fs, d2)"
    using l [unfolded d1_def] by (simp add: NewFileSMSStorage_def disk_calls loadMessages_def)
  moreover have "file_sms_inv ?fs"
    using files_ok_read [OF assms(1)] assms(1) by (auto simp: file_sms_inv_def sms_dir_def files_ok_def r)
  moreover have "agrees ?fs i" for i
    using files_ok_read [OF assms(1), of i]
    by (cases "readable d (file_of ?dir i)") (simp_all add: agrees_def sms_dir_def r)
  ultimately show ?thesis using d2 by (intro exI [of _ ?fs] exI [of _ d2]) simp
qed

lemma save_file_Done: "\<exists>d'. save_file (\<lambda>_. Done) what copy p x d = (Ok (), d')"
  by (simp add: save_file_def disk_calls WriteFile_def)

lemma saveMessage_Done:
  "\<exists>fs'. saveMessage (\<lambda>_. Done) fs m = (Ok (), fs') \<and> fs_messages fs' = fs_messages fs"
  using save_file_Done [of "''message''" json_message "getMessageFilename fs (m_ID m)" m "fs_disk fs"]
  by (auto simp: saveMessage_def)

lemma remove_file_Done: "\<exists>d'. remove_file (\<lambda>_. Done) what p d = (Ok (), d')"
  by (simp add: remove_file_def os_Remove_def)

section \<open>The contract on a disk that works\<close>

definition file_inv :: "file_sms_store \<Rightarrow> bool" where
  "file_inv fs \<longleftrightarrow> file_sms_inv fs \<and> (\<forall>i. agrees fs i)"

definition file_sms_ops :: "(nat \<Rightarrow> os_outcome) \<Rightarrow> file_sms_store sms_ops" where
  "file_sms_ops out = \<lparr>so_StoreSMS = (\<lambda>s now m. fs_StoreSMS out s now (Some m)), so_GetSMS = fs_GetSMS,
     so_UpdateSMS = (\<lambda>s m. fs_UpdateSMS out s (Some m)), so_UpdateSMSStatus = fs_UpdateSMSStatus out,
     so_DeleteSMS = fs_DeleteSMS out\<rparr>"

lemma entry_step_inv: "file_inv fs \<Longrightarrow> entry_step fs i r fs' \<Longrightarrow> is_Ok r \<Longrightarrow> file_inv fs'"
  by (auto simp: file_inv_def entry_step_def)

lemma file_ops_Done:
  "m_ID m \<noteq> '''' \<Longrightarrow> \<exists>fs'. fs_StoreSMS (\<lambda>_. Done) fs now (Some m) = (Ok (m_ID m), fs') \<and>
     fs_messages fs' = (fs_messages fs)(m_ID m \<mapsto> m\<lparr>m_SubmitTime := now\<rparr>)"
  "m_ID m \<noteq> '''' \<Longrightarrow> fs_messages fs (m_ID m) \<noteq> None \<Longrightarrow> \<exists>fs'. fs_UpdateSMS (\<lambda>_. Done) fs (Some m) = (Ok (), fs') \<and>
     fs_messages fs' = (fs_messages fs)(m_ID m \<mapsto> m)"
  "i \<noteq> '''' \<Longrightarrow> fs_messages fs i = Some m0 \<Longrightarrow> \<exists>fs'. fs_UpdateSMSStatus (\<lambda>_. Done) fs now i st = (Ok (), fs') \<and>
     fs_messages fs' = (fs_messages fs)(i \<mapsto> set_status now st m0)"
  "i \<noteq> '''' \<Longrightarrow> fs_messages fs i = Some m0 \<Longrightarrow> \<exists>fs'. fs_DeleteSMS (\<lambda>_. Done) fs i = (Ok (), fs') \<and>
     fs_messages fs' = (fs_messages fs)(i := None)"
proof -
  show "\<exists>fs'. fs_StoreSMS (\<lambda>_. Done) fs now (Some m) = (Ok (m_ID m), fs') \<and>
     fs_messages fs' = (fs_messages fs)(m_ID m \<mapsto> m\<lparr>m_SubmitTime := now\<rparr>)" if "m_ID m \<noteq> ''''"
    using that saveMessage_Done [of "fs\<lparr>fs_messages := (fs_messages fs)(m_ID m \<mapsto> m\<lparr>m_SubmitTime := now\<rparr>)\<rparr>"
        "m\<lparr>m_SubmitTime := now\<rparr>"]
    by (auto simp: fs_StoreSMS_def Let_def)
  show "\<exists>fs'. fs_UpdateSMS (\<lambda>_. Done) fs (Some m) = (Ok (), fs') \<and> fs_messages fs' = (fs_messages fs)(m_ID m \<mapsto> m)"
    if "m_ID m \<noteq> ''''" "fs_messages fs (m_ID m) \<noteq> None"
    using that saveMessage_Done [of "fs\<lparr>fs_messages := (fs_messages fs)(m_ID m \<mapsto> m)\<rparr>" m]
    by (auto simp: fs_UpdateSMS_def)
  show "\<exists>fs'. fs_UpdateSMSStatus (\<lambda>_. Done) fs now i st = (Ok (), fs') \<and>
     fs_messages fs' = (fs_messages fs)(i \<mapsto> set_status now st m0)" if "i \<noteq> ''''" "fs_messages fs i = Some m0"
    using that saveMessage_Done [of "fs\<lparr>fs_messages := (fs_messages fs)(i \<mapsto> set_status now st m0)\<rparr>" "set_status now st m0"]
    by (auto simp: fs_UpdateSMSStatus_def Let_def set_status_def final_status_def split: if_splits)
  show "\<exists>fs'. fs_DeleteSMS (\<lambda>_. Done) fs i = (Ok (), fs') \<and> fs_messages fs' = (fs_messages fs)(i := None)"
    if "i \<noteq> ''''" "fs_messages fs i = Some m0"
    using that remove_file_Done [of "''message''" "getMessageFilename fs i" "fs_disk fs"] by (auto simp: fs_DeleteSMS_def)
qed

interpretation file_sms: sms_storage "file_sms_ops (\<lambda>_. Done)" file_inv fs_messages plain_name
proof
  fix s s' :: file_sms_store and i m now st r
  have stored: "file_inv s \<Longrightarrow> fs_messages s i = Some m \<Longrightarrow> m_ID m = i \<and> i \<noteq> ''''" for s i m
    by (auto simp: file_inv_def file_sms_inv_def plain_name_def)
  have step: "file_inv s \<Longrightarrow> file_sms_inv s" for s by (simp add: file_inv_def)
  show "case fs_messages s i of Some m \<Rightarrow> so_GetSMS (file_sms_ops (\<lambda>_. Done)) s i = Ok m
      | None \<Rightarrow> \<exists>e. so_GetSMS (file_sms_ops (\<lambda>_. Done)) s i = Err e" if "i \<noteq> ''''"
    using that by (simp add: file_sms_ops_def fs_GetSMS_def split: option.split)
  show "\<exists>e. so_GetSMS (file_sms_ops (\<lambda>_. Done)) s '''' = Err e"
    by (simp add: file_sms_ops_def fs_GetSMS_def)
  show "file_inv s' \<and> (case r of Ok j \<Rightarrow> j = m_ID m \<and> fs_messages s' = (fs_messages s)(m_ID m \<mapsto> m\<lparr>m_SubmitTime := now\<rparr>)
      | Err e \<Rightarrow> fs_messages s' = fs_messages s | Panic \<Rightarrow> False)"
    if "file_inv s" "plain_name (m_ID m)" "so_StoreSMS (file_sms_ops (\<lambda>_. Done)) s now m = (r, s')" for r
    using that file_ops_Done(1) [of m s now] entry_step_inv [OF that(1) fs_steps(1) [OF step [OF that(1)] that(2), of "\<lambda>_. Done" now r s']]
    by (auto simp: file_sms_ops_def plain_name_def)
  show "file_inv s' \<and> (case r of Ok x \<Rightarrow> m_ID m \<in> dom (fs_messages s) \<and> fs_messages s' = (fs_messages s)(m_ID m \<mapsto> m)
      | Err e \<Rightarrow> fs_messages s' = fs_messages s | Panic \<Rightarrow> False)"
    if "file_inv s" "so_UpdateSMS (file_sms_ops (\<lambda>_. Done)) s m = (r, s')" for r
  proof (cases "m_ID m = '''' \<or> fs_messages s (m_ID m) = None")
    case True
    with that show ?thesis by (auto simp: file_sms_ops_def fs_UpdateSMS_def split: if_splits)
  next
    case False
    with that file_ops_Done(2) [of m s] entry_step_inv [OF that(1) fs_steps(2) [OF step [OF that(1)], of "\<lambda>_. Done" m r s']]
    show ?thesis by (auto simp: file_sms_ops_def)
  qed
  show "file_inv s' \<and> (case r of Ok x \<Rightarrow> (\<exists>m. fs_messages s i = Some m \<and> fs_messages s' = (fs_messages s)(i \<mapsto> set_status now st m))
      | Err e \<Rightarrow> fs_messages s' = fs_messages s | Panic \<Rightarrow> False)"
    if "file_inv s" "so_UpdateSMSStatus (file_sms_ops (\<lambda>_. Done)) s now i st = (r, s')" for r
  proof (cases "i = '''' \<or> fs_messages s i = None")
    case True
    with that show ?thesis by (auto simp: file_sms_ops_def fs_UpdateSMSStatus_def split: if_splits)
  next
    case False
    with that file_ops_Done(3) [of i s _ now st] entry_step_inv [OF that(1) fs_steps(3) [OF step [OF that(1)], of "\<lambda>_. Done" now i st r s']]
    show ?thesis by (fastforce simp: file_sms_ops_def)
  qed
  show "file_inv s' \<and> (case r of Ok x \<Rightarrow> i \<in> dom (fs_messages s) \<and> fs_messages s' = (fs_messages s)(i := None)
      | Err e \<Rightarrow> fs_messages s' = fs_messages s | Panic \<Rightarrow> False)"
    if "file_inv s" "so_DeleteSMS (file_sms_ops (\<lambda>_. Done)) s i = (r, s')" for r
  proof (cases "i = '''' \<or> fs_messages s i = None")
    case True
    with that show ?thesis by (auto simp: file_sms_ops_def fs_DeleteSMS_def split: if_splits)
  next
    case False
    with that file_ops_Done(4) [of i s] entry_step_inv [OF that(1) fs_steps(4) [OF step [OF that(1)], of "\<lambda>_. Done" i r s']]
    show ?thesis by (fastforce simp: file_sms_ops_def)
  qed
  show "m_ID m = i \<and> i \<noteq> ''''" if "file_inv s" "fs_messages s i = Some m"
    using stored [OF that] .
qed

definition file_report_ops :: "(nat \<Rightarrow> os_outcome) \<Rightarrow> file_report_store report_ops" where
  "file_report_ops out = \<lparr>ro_StoreReport = (\<lambda>s r. fr_StoreReport out s (Some r)), ro_GetReport = fr_GetReport\<rparr>"

lemma saveReport_Done: "\<exists>fr'. saveReport (\<lambda>_. Done) fr r = (Ok (), fr') \<and> fr_reports fr' = fr_reports fr"
  using save_file_Done [of "''report''" json_report "getReportFilename fr (r_MessageID r)" r "fr_disk fr"]
  by (auto simp: saveReport_def)

lemma fr_StoreReport_Done:
  "r_MessageID r \<noteq> '''' \<Longrightarrow> \<exists>fr'. fr_StoreReport (\<lambda>_. Done) fr (Some r) = (Ok (), fr') \<and>
     fr_reports fr' = (fr_reports fr)(r_MessageID r \<mapsto> r)"
  using saveReport_Done [of "fr\<lparr>fr_reports := (fr_reports fr)(r_MessageID r \<mapsto> r)\<rparr>" r]
  by (auto simp: fr_StoreReport_def)

interpretation file_reports: report_storage "file_report_ops (\<lambda>_. Done)" fr_reports
proof
  fix s s' :: file_report_store and i r u
  show "case fr_reports s i of Some r \<Rightarrow> ro_GetReport (file_report_ops (\<lambda>_. Done)) s i = Ok r
      | None \<Rightarrow> \<exists>e. ro_GetReport (file_report_ops (\<lambda>_. Done)) s i = Err e" if "i \<noteq> ''''"
    using that by (simp add: file_report_ops_def fr_GetReport_def split: option.split)
  show "case u of Ok x \<Rightarrow> r_MessageID r \<noteq> '''' \<and> fr_reports s' = (fr_reports s)(r_MessageID r \<mapsto> r)
      | Err e \<Rightarrow> fr_reports s' = fr_reports s | Panic \<Rightarrow> False"
    if "ro_StoreReport (file_report_ops (\<lambda>_. Done)) s r = (u, s')" for u
    using that fr_StoreReport_Done [of r s]
    by (cases "r_MessageID r = ''''") (auto simp: file_report_ops_def fr_StoreReport_def)
qed

section \<open>What survives a restart\<close>

text \<open>
  The stores that calls can reach, on any disk; the set holds the IDs for which the last call that could
  change the message has failed.
\<close>

definition settled :: "string set \<Rightarrow> string \<Rightarrow> 'r result \<Rightarrow> string set" where
  "settled D i r = (if is_Ok r then D - {i} else insert i D)"

inductive file_sms_reach :: "file_sms_store \<Rightarrow> string set \<Rightarrow> bool" where
  opened: "files_ok m_ID json_message (path_Join (Clean dataDir) ''messages'') d \<Longrightarrow>
    lists_dir d (path_Join (Clean dataDir) ''messages'') es \<Longrightarrow>
    NewFileSMSStorage (\<lambda>_. Done) dataDir es d = (Ok fs, d') \<Longrightarrow> file_sms_reach fs {}"
| store: "file_sms_reach fs D \<Longrightarrow> plain_name (m_ID m) \<Longrightarrow> fs_StoreSMS out fs now (Some m) = (r, fs') \<Longrightarrow>
    file_sms_reach fs' (settled D (m_ID m) r)"
| update: "file_sms_reach fs D \<Longrightarrow> fs_UpdateSMS out fs (Some m) = (u, fs') \<Longrightarrow>
    file_sms_reach fs' (settled D (m_ID m) u)"
| status: "file_sms_reach fs D \<Longrightarrow> fs_UpdateSMSStatus out fs now i st = (u, fs') \<Longrightarrow> file_sms_reach fs' (settled D i u)"
| delete: "file_sms_reach fs D \<Longrightarrow> fs_DeleteSMS out fs i = (u, fs') \<Longrightarrow> file_sms_reach fs' (settled D i u)"

lemma settled_step:
  assumes "entry_step fs i r fs'" and "\<forall>j. j \<notin> D \<longrightarrow> agrees fs j"
  shows "file_sms_inv fs' \<and> (\<forall>j. j \<notin> settled D i r \<longrightarrow> agrees fs' j)"
  using assms by (auto simp: entry_step_def settled_def split: if_splits)

lemma file_sms_reach_inv: "file_sms_reach fs D \<Longrightarrow> file_sms_inv fs \<and> (\<forall>j. j \<notin> D \<longrightarrow> agrees fs j)"
proof (induction rule: file_sms_reach.induct)
  case (opened dataDir d es fs d')
  then show ?case using NewFileSMSStorage_Done [OF opened(1,2)] by auto
next
  case (store fs D m out now r fs')
  then show ?case using settled_step [OF fs_steps(1) [OF _ store(2,3)]] by blast
next
  case (update fs D out m u fs')
  then show ?case using settled_step [OF fs_steps(2) [OF _ update(2)]] by blast
next
  case (status fs D out now i st u fs')
  then show ?case using settled_step [OF fs_steps(3) [OF _ status(2)]] by blast
next
  case (delete fs D out i u fs')
  then show ?case using settled_step [OF fs_steps(4) [OF _ delete(2)]] by blast
qed

lemma reopened:
  assumes "file_sms_inv fs" and "lists_dir (fs_disk fs) (sms_dir fs) es" and "Clean dataDir = fs_dataDir fs"
  shows "\<exists>fs' d'. NewFileSMSStorage (\<lambda>_. Done) dataDir es (fs_disk fs) = (Ok fs', d') \<and> file_inv fs' \<and>
    (\<forall>i. fs_messages fs' i = readable (fs_disk fs) (file_of (sms_dir fs) i))"
  using NewFileSMSStorage_Done [of dataDir "fs_disk fs" es] assms
  by (auto simp: file_sms_inv_def sms_dir_def file_inv_def)

text \<open>
  C11. A store of messages that was opened on a directory of its own and has stored messages only under IDs
  that are plain file names (UTF-8 without a slash, as all IDs are that the server makes): whatever calls
  it has had, and whatever went wrong on its disk, when it is opened again, every message is there as
  JSON keeps it (\<open>json_message\<close>: the same, except that bytes that are not UTF-8 are replaced), and
  there is no other, except for the messages whose last change was answered with an error.
\<close>

theorem file_store_durable:
  assumes "file_sms_reach fs D" and "lists_dir (fs_disk fs) (sms_dir fs) es" and "Clean dataDir = fs_dataDir fs"
  shows "\<exists>fs' d'. NewFileSMSStorage (\<lambda>_. Done) dataDir es (fs_disk fs) = (Ok fs', d') \<and> file_sms_reach fs' {} \<and>
    (\<forall>i. i \<notin> D \<longrightarrow> fs_GetSMS fs' i = res_map json_message (fs_GetSMS fs i))"
proof -
  have inv: "file_sms_inv fs" "\<And>j. j \<notin> D \<Longrightarrow> agrees fs j" using file_sms_reach_inv [OF assms(1)] by auto
  obtain fs' d' where new: "NewFileSMSStorage (\<lambda>_. Done) dataDir es (fs_disk fs) = (Ok fs', d')"
    "\<And>i. fs_messages fs' i = readable (fs_disk fs) (file_of (sms_dir fs) i)"
    using reopened [OF inv(1) assms(2,3)] by auto
  have "file_sms_reach fs' {}"
    using file_sms_reach.opened [OF _ _ new(1)] inv(1) assms(2,3) by (simp add: file_sms_inv_def sms_dir_def)
  moreover have "fs_GetSMS fs' i = res_map json_message (fs_GetSMS fs i)" if "i \<notin> D" for i
    using inv(2) [OF that] by (simp add: agrees_def fs_GetSMS_def new(2) split: option.split)
  ultimately show ?thesis using new(1) by blast
qed

text \<open>
  C23. When the write of a changed message is cut short, the caller gets an error, \<open>GetSMS\<close> shows the change
  all the same, and after a restart the message is gone altogether: the file is overwritten in place.
\<close>

theorem torn_write_loses_message:
  assumes "file_inv fs" and "fs_messages fs i = Some m" and "lists_dir (fs_disk fs') (sms_dir fs') es"
    and "Clean dataDir = fs_dataDir fs"
    and "out (dk_calls (fs_disk fs)) = Done" "out (dk_calls (fs_disk fs) + 1) = Done" "out (dk_calls (fs_disk fs) + 2) = Torn"
    and "fs_UpdateSMSStatus out fs now i st = (r, fs')"
  shows "(\<exists>e. r = Err e) \<and> fs_GetSMS fs' i = Ok (set_status now st m) \<and>
    (\<exists>fs'' d' e. NewFileSMSStorage (\<lambda>_. Done) dataDir es (fs_disk fs') = (Ok fs'', d') \<and> fs_GetSMS fs'' i = Err e)"
proof -
  have m: "m_ID m = i" "plain_name i" "i \<noteq> ''''" "file_sms_inv fs"
    using assms(1,2) by (auto simp: file_inv_def file_sms_inv_def plain_name_def)
  let ?d = "(fs_disk fs)\<lparr>dk_files := (dk_files (fs_disk fs))(file_of (sms_dir fs) i \<mapsto> NotJSON), dk_calls := dk_calls (fs_disk fs) + 3\<rparr>"
  have "save_file out ''message'' json_message (file_of (sms_dir fs) i) (set_status now st m) (fs_disk fs) =
      (Err (Wrap ''failed to write file'' (Errorf ''write'')), ?d)"
    using assms(5-7) by (simp add: save_file_def disk_calls WriteFile_def eval_nat_numeral)
  then have u: "r = Err (Wrap ''failed to save updated message to file'' (Wrap ''failed to write file'' (Errorf ''write'')))"
    "fs' = fs\<lparr>fs_messages := (fs_messages fs)(i \<mapsto> set_status now st m), fs_disk := ?d\<rparr>"
    using assms(2,8) m(1-3)
    by (auto simp: fs_UpdateSMSStatus_def saveMessage_def getMessageFilename_def Join_file_of sms_dir_def
        set_status_def final_status_def Let_def split: if_splits)
  have "file_sms_inv fs'" "Clean dataDir = fs_dataDir fs'"
    using fs_steps(3) [OF m(4) assms(8)] assms(4) by (simp_all add: entry_step_def)
  from reopened [OF this(1) assms(3) this(2)] obtain fs'' d' where
    "NewFileSMSStorage (\<lambda>_. Done) dataDir es (fs_disk fs') = (Ok fs'', d')"
    "fs_messages fs'' i = readable (fs_disk fs') (file_of (sms_dir fs') i)" by blast
  moreover have "readable (fs_disk fs') (file_of (sms_dir fs') i) = None"
    by (simp add: u(2) readable_def sms_dir_def)
  ultimately show ?thesis using u m(3) by (simp add: fs_GetSMS_def)
qed

text \<open>
  A message whose file cannot be removed is deleted for the caller, with an error, and back after a
  restart.
\<close>

theorem failed_delete_returns:
  assumes "file_inv fs" and "fs_messages fs i = Some m" and "lists_dir (fs_disk fs') (sms_dir fs') es"
    and "Clean dataDir = fs_dataDir fs" and "out (dk_calls (fs_disk fs)) = Failed"
    and "fs_DeleteSMS out fs i = (r, fs')"
  shows "(\<exists>e. r = Err e) \<and> (\<exists>e. fs_GetSMS fs' i = Err e) \<and>
    (\<exists>fs'' d'. NewFileSMSStorage (\<lambda>_. Done) dataDir es (fs_disk fs') = (Ok fs'', d') \<and>
       fs_GetSMS fs'' i = Ok (json_message m))"
proof -
  have m: "plain_name i" "i \<noteq> ''''" "file_sms_inv fs" "agrees fs i"
    using assms(1,2) by (auto simp: file_inv_def file_sms_inv_def plain_name_def)
  have u: "\<exists>e. r = Err e" "fs_messages fs' = (fs_messages fs)(i := None)" "dk_files (fs_disk fs') = dk_files (fs_disk fs)"
    "fs_dataDir fs' = fs_dataDir fs"
    using assms(2,5,6) m(2)
    by (auto simp: fs_DeleteSMS_def remove_file_def os_Remove_def split: if_splits)
  have "file_sms_inv fs'" "Clean dataDir = fs_dataDir fs'"
    using fs_steps(4) [OF m(3) assms(6)] assms(4) by (simp_all add: entry_step_def)
  from reopened [OF this(1) assms(3) this(2)] obtain fs'' d' where
    "NewFileSMSStorage (\<lambda>_. Done) dataDir es (fs_disk fs') = (Ok fs'', d')"
    "fs_messages fs'' i = readable (fs_disk fs') (file_of (sms_dir fs') i)" by blast
  moreover have "readable (fs_disk fs') (file_of (sms_dir fs') i) = Some (json_message m)"
    using m(4) assms(2) u(3,4) by (simp add: agrees_def readable_def sms_dir_def)
  ultimately show ?thesis using u m(2) by (auto simp: fs_GetSMS_def)
qed

section \<open>Searching\<close>

lemma fs_page_eq:
  assumes "0 \<le> offset" and "offset + limit < 2 ^ 63" and "0 < limit"
  shows "fs_page offset limit xs = Ok (take (nat limit) (drop (nat offset) xs))"
proof -
  have w: "wrap64 (offset + limit) = offset + limit" using assms by (intro wrap64_id) auto
  consider "int (length xs) \<le> offset" "0 < offset" | "offset = 0" "length xs = 0"
    | "offset < int (length xs)" "offset + limit \<ge> int (length xs)" | "offset + limit < int (length xs)"
    using assms(1) by atomize_elim auto
  then show ?thesis
  proof cases
    case 3
    then have "length (drop (nat offset) xs) \<le> nat limit"
      "nat (int (length xs) - offset) = length (drop (nat offset) xs)"
      using assms by (simp_all add: nat_diff_distrib')
    with 3 w show ?thesis using assms by (cases "offset = 0") (auto simp: fs_page_def Let_def)
  qed (use assms w in \<open>auto simp: fs_page_def Let_def\<close>)
qed

lemma fs_page_offset:
  assumes "limit \<le> 0"
  shows "fs_page offset limit xs = Ok (drop (nat offset) xs)"
  using assms by (auto simp: fs_page_def Let_def nat_le_iff)

lemma sort_results_time:
  "mset (sort_results ''submit_time'' o' ms) = mset ms \<and>
   sorted (map m_SubmitTime (if o' = ''desc'' then rev (sort_results ''submit_time'' o' ms)
                             else sort_results ''submit_time'' o' ms))"
proof -
  have "(\<lambda>a b. m_SubmitTime a < m_SubmitTime b) = out_of_order (\<lambda>m. - m_SubmitTime m)" by (simp add: fun_eq_iff)
  then have "mset (exchange_sort_by (\<lambda>a b. m_SubmitTime a < m_SubmitTime b) ms) = mset ms \<and>
      sorted (map (\<lambda>m. - m_SubmitTime m) (exchange_sort_by (\<lambda>a b. m_SubmitTime a < m_SubmitTime b) ms))"
    using exchange_sort_by_key [of "\<lambda>m. - m_SubmitTime m" ms] by simp
  then have "mset (exchange_sort_by (\<lambda>a b. m_SubmitTime a < m_SubmitTime b) ms) = mset ms \<and>
      sorted (map m_SubmitTime (rev (exchange_sort_by (\<lambda>a b. m_SubmitTime a < m_SubmitTime b) ms)))"
    by (simp add: sorted_map sorted_wrt_rev)
  then show ?thesis
    using exchange_sort_by_key [of m_SubmitTime ms] by (simp add: sort_results_def)
qed

text \<open>
  A search by submit time returns a page of a list that holds exactly the stored messages that match,
  in the order that is asked for; unlike the in-memory store it applies the offset also without a limit.
\<close>

theorem fs_SearchSMS_page:
  assumes "enumerates (fs_messages fs) order" and "0 \<le> sc_Offset c" and "sc_Offset c + sc_Limit c < 2 ^ 63"
    and "sc_SortBy c = ''submit_time''"
  shows "\<exists>ms. fs_SearchSMS fs order (Some c) =
      Ok ((if 0 < sc_Limit c then take (nat (sc_Limit c)) else (\<lambda>xs. xs)) (drop (nat (sc_Offset c)) ms)) \<and>
    sorted (map m_SubmitTime (if sc_SortOrder c = ''desc'' then rev ms else ms)) \<and>
    mset ms = {# m \<in># image_mset (\<lambda>i. the (fs_messages fs i)) (mset_set (dom (fs_messages fs))).
                fs_matchesCriteria m c #}"
proof -
  let ?ms = "sort_results ''submit_time'' (sc_SortOrder c)
    (filter (\<lambda>m. fs_matchesCriteria m c) (values_in (fs_messages fs) order))"
  have "fs_SearchSMS fs order (Some c) =
      Ok ((if 0 < sc_Limit c then take (nat (sc_Limit c)) else (\<lambda>xs. xs)) (drop (nat (sc_Offset c)) ?ms))"
    using fs_page_eq [OF assms(2,3), of ?ms] fs_page_offset [of "sc_Limit c" "sc_Offset c" ?ms] assms(4)
    by (cases "0 < sc_Limit c") (simp_all add: fs_SearchSMS_def)
  with sort_results_time [of "sc_SortOrder c"] mset_values_in [OF assms(1)] show ?thesis
    by (intro exI [of _ ?ms]) simp
qed

text \<open>
  The ID is not checked before it becomes a part of a path: a report under the ID
  \<open>../messages/i\<close> is written over the file of the message \<open>i\<close>.
\<close>

theorem report_ID_escapes_directory:
  assumes "plain_name i" and "fr_dataDir fr = fs_dataDir fs"
  shows "getReportFilename fr (''../messages/'' @ i) = getMessageFilename fs i"
  using assms
  by (auto simp: getReportFilename_def getMessageFilename_def path_Join_def path_elements_plain plain_name_def)

section \<open>Witnesses\<close>

definition example_stored_file :: message where
  "example_stored_file = zero_message\<lparr>m_ID := ''a'', m_Text := ''hi''\<rparr>"

definition example_disk :: "message disk" where
  "example_disk = \<lparr>dk_files = [(False, [''data'', ''messages'', ''a.json'']) \<mapsto> Json example_stored_file], dk_calls = 0\<rparr>"

definition example_fs :: file_sms_store where
  "example_fs = \<lparr>fs_dataDir = (False, [''data'']), fs_messages = [''a'' \<mapsto> example_stored_file],
     fs_disk = example_disk\<lparr>dk_calls := 4\<rparr>\<rparr>"

lemma Clean_data: "Clean ''data'' = (False, [''data''])"
  by (simp add: Clean_def Let_def)

lemma example_dir [simp]: "sms_dir example_fs = (False, [''data'', ''messages''])"
  by (simp add: sms_dir_def example_fs_def path_Join_def)

lemma example_listed:
  "dk_files d = dk_files example_disk \<Longrightarrow> lists_dir d (False, [''data'', ''messages'']) [(''a.json'', False)]"
  by (auto simp: lists_dir_def example_disk_def)

lemma example_fs_opened:
  "NewFileSMSStorage (\<lambda>_. Done) ''data'' [(''a.json'', False)] example_disk = (Ok example_fs, fs_disk example_fs)"
  using Ext_json [of "''a''"]
  by (simp add: NewFileSMSStorage_def disk_calls loadMessages_def load_dir_def load_file_def ReadFile_def Clean_data
      path_Join_def example_disk_def example_fs_def example_stored_file_def)

lemma json_string_zero [simp]: "json_string [] = []"
  by (simp add: json_string_def runes_def codes_def decode_runes.simps)

lemma json_example: "json_message example_stored_file = example_stored_file"
  using ValidString_ascii [of "''a''"] ValidString_ascii [of "''hi''"]
  by (simp add: json_message_def example_stored_file_def zero_message_def json_address_def zero_address_def)

lemma example_files: "files_ok m_ID json_message (path_Join (Clean ''data'') ''messages'') example_disk"
  using ValidString_ascii [of "''a''"] json_example
  by (auto simp: files_ok_def readable_def example_disk_def path_Join_def Clean_data plain_name_def example_stored_file_def
      split: option.splits content.splits if_splits)

lemma example_dir_data: "path_Join (Clean ''data'') ''messages'' = (False, [''data'', ''messages''])"
  by (simp add: path_Join_def Clean_data)

lemma example_fs_reach: "file_sms_reach example_fs {}"
  using file_sms_reach.opened [OF example_files _ example_fs_opened] example_listed [of example_disk]
  by (simp add: example_dir_data)

lemma example_fs_inv: "file_inv example_fs"
  using file_sms_reach_inv [OF example_fs_reach] by (simp add: file_inv_def)

lemma example_fs_simps [simp]:
  "fs_dataDir example_fs = (False, [''data''])" "fs_messages example_fs = [''a'' \<mapsto> example_stored_file]"
  "dk_calls (fs_disk example_fs) = 4" "dk_files (fs_disk example_fs) = dk_files example_disk"
  "fs_GetSMS example_fs ''a'' = Ok example_stored_file"
  by (simp_all add: example_fs_def fs_GetSMS_def)

theorem file_store_durable_witness:
  "\<exists>fs' d'. NewFileSMSStorage (\<lambda>_. Done) ''data'' [(''a.json'', False)] (fs_disk example_fs) = (Ok fs', d') \<and>
    fs_GetSMS fs' ''a'' = Ok example_stored_file"
proof -
  have "lists_dir (fs_disk example_fs) (sms_dir example_fs) [(''a.json'', False)]"
    using example_listed [of "fs_disk example_fs"] by simp
  from file_store_durable [OF example_fs_reach this, of "''data''"] show ?thesis
    by (auto simp: Clean_data json_example)
qed

theorem torn_write_loses_message_witness:
  "\<exists>fs'' d' e. NewFileSMSStorage (\<lambda>_. Done) ''data'' [(''a.json'', False)]
     (fs_disk (snd (fs_UpdateSMSStatus (\<lambda>n. if n = 6 then Torn else Done) example_fs 5 ''a'' MessageStatusAccepted))) =
       (Ok fs'', d') \<and> fs_GetSMS fs'' ''a'' = Err e"
proof -
  let ?out = "\<lambda>n. if n = 6 then Torn else Done"
  obtain r fs' where u: "fs_UpdateSMSStatus ?out example_fs 5 ''a'' MessageStatusAccepted = (r, fs')" by fastforce
  have "dk_files (fs_disk fs') = (dk_files example_disk)((False, [''data'', ''messages'', ''a.json'']) \<mapsto> NotJSON)"
    "fs_dataDir fs' = fs_dataDir example_fs"
    using u by (auto simp: fs_UpdateSMSStatus_def saveMessage_def save_file_def disk_calls WriteFile_def
        example_fs_def example_disk_def example_stored_file_def getMessageFilename_def path_Join_def Let_def)
  then have "lists_dir (fs_disk fs') (sms_dir fs') [(''a.json'', False)]"
    by (auto simp: lists_dir_def example_disk_def sms_dir_def example_fs_def path_Join_def)
  from torn_write_loses_message [OF example_fs_inv _ this _ _ _ _ u, of example_stored_file "''data''"] show ?thesis
    by (simp add: u Clean_data)
qed

theorem failed_delete_returns_witness:
  "\<exists>fs'' d'. NewFileSMSStorage (\<lambda>_. Done) ''data'' [(''a.json'', False)]
     (fs_disk (snd (fs_DeleteSMS (\<lambda>_. Failed) example_fs ''a''))) = (Ok fs'', d') \<and>
     fs_GetSMS fs'' ''a'' = Ok example_stored_file"
proof -
  obtain r fs' where u: "fs_DeleteSMS (\<lambda>_. Failed) example_fs ''a'' = (r, fs')" by fastforce
  then have "dk_files (fs_disk fs') = dk_files example_disk" "sms_dir fs' = sms_dir example_fs"
    by (auto simp: fs_DeleteSMS_def remove_file_def os_Remove_def example_fs_def sms_dir_def)
  then have "lists_dir (fs_disk fs') (sms_dir fs') [(''a.json'', False)]"
    using example_listed [of "fs_disk fs'"] by simp
  from failed_delete_returns [OF example_fs_inv _ this _ _ u, of example_stored_file "''data''"] show ?thesis
    by (auto simp: u Clean_data json_example)
qed

theorem fs_SearchSMS_page_witness:
  "\<exists>ms. fs_SearchSMS example_fs [''a''] (Some (example_criteria\<lparr>sc_FromDate := None, sc_SortBy := ''submit_time''\<rparr>)) =
     Ok (take 10 (drop 0 ms)) \<and> mset ms = {# example_stored_file #}"
proof -
  have e: "enumerates (fs_messages example_fs) [''a'']" by (simp add: enumerates_def example_fs_def)
  from fs_SearchSMS_page [OF e, of "example_criteria\<lparr>sc_FromDate := None, sc_SortBy := ''submit_time''\<rparr>"] show ?thesis
    by (auto simp: example_criteria_def example_fs_def fs_matchesCriteria_def)
qed

theorem report_ID_escapes_directory_witness:
  "getReportFilename \<lparr>fr_dataDir = (False, [''data'']), fr_reports = Map.empty, fr_disk = \<lparr>dk_files = Map.empty, dk_calls = 0\<rparr>\<rparr>
     ''../messages/a'' = getMessageFilename example_fs ''a''"
  using report_ID_escapes_directory [of "''a''"
      "\<lparr>fr_dataDir = (False, [''data'']), fr_reports = Map.empty, fr_disk = \<lparr>dk_files = Map.empty, dk_calls = 0\<rparr>\<rparr>" example_fs]
    ValidString_ascii [of "''a''"]
  by (simp add: plain_name_def example_fs_def)

end
