(* ===== verification/FileService.thy ===== *)
theory FileService
  imports FileStorage MessageFlow
begin

text \<open>
  The message handler over the stores on disk, as \<open>examples/full-server/main.go\<close> puts them together: on
  a disk that works they keep the contracts of the handler, so what is proved for any stores holds for
  them, and a message whose submission was acknowledged outlives the process.
\<close>

section \<open>The service on files\<close>

interpretation file_sms_reliable: reliable_sms_storage "file_sms_ops (\<lambda>_. Done)" file_inv fs_messages plain_name
proof
  fix s :: file_sms_store and m i now st
  assume inv: "file_inv s"
  have named: "i \<noteq> ''''" if "i \<in> dom (fs_messages s)" for i
    using inv that by (auto simp: file_inv_def file_sms_inv_def plain_name_def)
  show "is_Ok (fst (so_StoreSMS (file_sms_ops (\<lambda>_. Done)) s now m))" if "plain_name (m_ID m)"
    using that file_ops_Done(1) [of m s now] by (auto simp: file_sms_ops_def plain_name_def)
  show "is_Ok (fst (so_UpdateSMS (file_sms_ops (\<lambda>_. Done)) s m))" if "m_ID m \<in> dom (fs_messages s)"
    using that named [OF that] file_ops_Done(2) [of m s] by (auto simp: file_sms_ops_def)
  show "is_Ok (fst (so_UpdateSMSStatus (file_sms_ops (\<lambda>_. Done)) s now i st))" if "i \<in> dom (fs_messages s)"
    using that named [OF that] file_ops_Done(3) [of i s _ now st] by (force simp: file_sms_ops_def)
  show "is_Ok (fst (so_DeleteSMS (file_sms_ops (\<lambda>_. Done)) s i))" if "i \<in> dom (fs_messages s)"
    using that named [OF that] file_ops_Done(4) [of i s] by (force simp: file_sms_ops_def)
qed

interpretation file_reports_reliable: reliable_report_storage "file_report_ops (\<lambda>_. Done)" fr_reports
proof
  show "is_Ok (fst (ro_StoreReport (file_report_ops (\<lambda>_. Done)) s r))" if "r_MessageID r \<noteq> ''''"
    for s :: file_report_store and r
    using fr_StoreReport_Done [OF that, of s] by (auto simp: file_report_ops_def)
qed

definition file_handler ::
    "bool \<Rightarrow> (message \<Rightarrow> route_info result) option \<Rightarrow> 'q queue_ops option \<Rightarrow>
     (message \<Rightarrow> message list result) option \<Rightarrow> (nat \<Rightarrow> time) \<Rightarrow> (file_sms_store, file_report_store, 'q) handler" where
  "file_handler publisher router queue splitter clock =
     \<lparr>mh_smsStorage = Some (file_sms_ops (\<lambda>_. Done)), mh_reportStorage = Some (file_report_ops (\<lambda>_. Done)),
      mh_eventPublisher = publisher, mh_router = router, mh_queue = queue, mh_splitter = splitter,
      mh_clock = clock\<rparr>"

lemma file_handler_simps [simp]:
  "mh_clock (file_handler publisher router queue splitter clock) = clock"
  "mh_queue (file_handler publisher router queue splitter clock) = queue"
  "mh_splitter (file_handler publisher router queue splitter clock) = splitter"
  "mh_smsStorage (file_handler publisher router queue splitter clock) = Some (file_sms_ops (\<lambda>_. Done))"
  by (simp_all add: file_handler_def)

text \<open>The IDs that the handler makes are file names.\<close>

lemma itoa_int_chars: "list_all (\<lambda>c. is_digit c \<or> c = CHR ''-'') (itoa_int i)"
  using itoa_digits [of "nat i"] itoa_digits [of "nat (- i)"] by (auto simp: itoa_int_def list_all_iff)

lemma digit_code: "is_digit c \<or> c = CHR ''-'' \<Longrightarrow> of_char c < (128 :: nat) \<and> c \<noteq> CHR ''/''"
  by (auto simp: is_digit_def)

abbreviation name_char :: "char \<Rightarrow> bool" where
  "name_char c \<equiv> of_char c < (128 :: nat) \<and> c \<noteq> CHR ''/''"

lemma plain_nameI: "s \<noteq> '''' \<Longrightarrow> list_all name_char s \<Longrightarrow> plain_name s"
  using ValidString_ascii [of s] by (auto simp: plain_name_def list_all_iff)

lemma name_chars: "list_all name_char (itoa_int i)" "list_all name_char (itoa k)"
  using itoa_int_chars [of i] itoa_digits [of k] digit_code unfolding list_all_iff by blast+

lemma generated_name_chars: "list_all name_char (message_ID_at a b)"
  unfolding message_ID_at_def using name_chars by simp

lemma generated_plain_name:
  "plain_name (message_ID_at a b)" "plain_name (multi_ID (message_ID_at a b) n)"
proof -
  show "plain_name (message_ID_at a b)"
    by (rule plain_nameI [OF message_ID_at_nonempty generated_name_chars])
  show "plain_name (multi_ID (message_ID_at a b) n)"
    unfolding multi_ID_def by (rule plain_nameI) (use generated_name_chars name_chars in simp_all)
qed

interpretation file_service: reliable_service "file_sms_ops (\<lambda>_. Done)" file_inv fs_messages plain_name
  "file_report_ops (\<lambda>_. Done)" fr_reports "file_handler publisher router queue splitter clock"
  for publisher router queue splitter clock
  by unfold_locales (simp_all add: file_handler_def generated_plain_name)

section \<open>A restart\<close>

text \<open>
  Once \<open>HandleSubmitSM\<close> has answered with an ID, the message is on the disk: a server that is started
  anew on the same directory has it, with its text and every other message as before.  But its
  processing was a goroutine of the old process: it stays submitted, and until there is a report
  \<open>query_sm\<close> says that it is on its way.
\<close>

theorem accepted_message_survives_restart:
  assumes "file_inv (w_sms w)"
    and "HandleSubmitSM (file_handler publisher router queue splitter clock) w se p = (Reply \<lparr>sr_MessageID = i\<rparr> None, w1)"
    and "lists_dir (fs_disk (w_sms w1)) (sms_dir (w_sms w1)) es" and "Clean dataDir = fs_dataDir (w_sms w1)"
    and "fr_reports reps i = None" and "cstring_GetString (qs_MessageID q) = i"
  shows "\<exists>fs d t m. NewFileSMSStorage (\<lambda>_. Done) dataDir es (fs_disk (w_sms w1)) = (Ok fs, d) \<and> file_inv fs \<and>
    Decode_text (message_bytes (ss_ShortMessage p) (ss_OptionalParams p)) (ss_DataCoding p) = Ok t \<and>
    fs_GetSMS fs i = Ok m \<and> m_Text m = json_string t \<and> m_Status m = MessageStatusSubmitted \<and>
    (\<forall>j. j \<noteq> i \<longrightarrow> fs_GetSMS fs j = res_map json_message (fs_GetSMS (w_sms w) j)) \<and>
    HandleQuerySM (file_handler publisher router queue splitter clock)
      \<lparr>w_sms = fs, w_reports = reps, w_queue = qu, w_events = [], w_jobs = [], w_ticks = 0\<rparr> se' q =
      Reply \<lparr>qr_MessageID = qs_MessageID q, qr_FinalDate = NewCString 17, qr_MessageState = 1, qr_ErrorCode = 0\<rparr> None"
proof -
  from file_service.submit_sm_outcome [OF assms(1,2)] obtain t0 t1 t where
    inv1: "file_inv (w_sms w1)" and i: "i = m_ID (submit_message i se p t0 t)"
    and t: "Decode_text (message_bytes (ss_ShortMessage p) (ss_OptionalParams p)) (ss_DataCoding p) = Ok t"
    and st: "fs_messages (w_sms w1) = (fs_messages (w_sms w))(i \<mapsto> submit_message i se p t0 t\<lparr>m_SubmitTime := t1\<rparr>)"
    by (auto simp: Let_def submit_message_def)
  let ?m = "json_message (submit_message i se p t0 t\<lparr>m_SubmitTime := t1\<rparr>)"
  have inv: "file_sms_inv (w_sms w1)" using inv1 by (simp add: file_inv_def)
  from reopened [OF this assms(3,4)] obtain fs d where
    new: "NewFileSMSStorage (\<lambda>_. Done) dataDir es (fs_disk (w_sms w1)) = (Ok fs, d)" "file_inv fs"
    and msgs: "\<And>j. fs_messages fs j = map_option json_message (fs_messages (w_sms w1) j)"
    using inv1 by (auto simp: file_inv_def agrees_def)
  have m: "fs_messages fs i = Some ?m" using msgs st by simp
  then have "i \<noteq> ''''" using file_sms.inv_ID [OF new(2)] by blast
  with m have "fs_GetSMS fs i = Ok ?m" by (simp add: fs_GetSMS_def)
  moreover have "m_Text ?m = json_string t" "m_Status ?m = MessageStatusSubmitted"
    by (simp_all add: json_message_def submit_message_def zero_message_def)
  moreover have "fs_GetSMS fs j = res_map json_message (fs_GetSMS (w_sms w) j)" if "j \<noteq> i" for j
    using that msgs [of j] st by (simp add: fs_GetSMS_def split: option.split)
  moreover have "HandleQuerySM (file_handler publisher router queue splitter clock)
      \<lparr>w_sms = fs, w_reports = reps, w_queue = qu, w_events = [], w_jobs = [], w_ticks = 0\<rparr> se' q =
      Reply \<lparr>qr_MessageID = qs_MessageID q, qr_FinalDate = NewCString 17, qr_MessageState = 1, qr_ErrorCode = 0\<rparr> None"
    using file_service.query_sm_outcome [of "\<lparr>w_sms = fs, w_reports = reps, w_queue = qu, w_events = [], w_jobs = [], w_ticks = 0\<rparr>"
        publisher router queue splitter clock se' q] new(2) m assms(5,6) by simp
  ultimately show ?thesis using new t by blast
qed

section \<open>Witness\<close>

abbreviation example_file_world :: "(file_sms_store, file_report_store, unit) world" where
  "example_file_world \<equiv> \<lparr>w_sms = example_fs,
     w_reports = \<lparr>fr_dataDir = (False, [''data'']), fr_reports = Map.empty, fr_disk = \<lparr>dk_files = Map.empty, dk_calls = 0\<rparr>\<rparr>,
     w_queue = (), w_events = [], w_jobs = [], w_ticks = 0\<rparr>"

lemma example_file_submit:
  "\<exists>w1. HandleSubmitSM (file_handler True None None None int) example_file_world example_session example_submit_sm =
     (Reply \<lparr>sr_MessageID = message_ID_at 0 1\<rparr> None, w1) \<and>
     fs_dataDir (w_sms w1) = (False, [''data'']) \<and>
     lists_dir (fs_disk (w_sms w1)) (sms_dir (w_sms w1)) [(''a.json'', False), (message_ID_at 0 1 @ ''.json'', False)]"
proof -
  let ?mh = "file_handler True None None None int :: (file_sms_store, file_report_store, unit) handler"
  let ?m = "submit_message (message_ID_at 0 1) example_session example_submit_sm 2 ''hi''"
  let ?fs = "example_fs\<lparr>fs_messages := (fs_messages example_fs)(message_ID_at 0 1 \<mapsto> ?m\<lparr>m_SubmitTime := 3\<rparr>),
    fs_disk := \<lparr>dk_files = (dk_files example_disk)((False, [''data'', ''messages'', message_ID_at 0 1 @ ''.json'']) \<mapsto>
      Json (json_message (?m\<lparr>m_SubmitTime := 3\<rparr>))), dk_calls = 7\<rparr>\<rparr>"
  have ID: "m_ID ?m = message_ID_at 0 1" by (simp add: submit_message_def)
  have path: "path_Join (path_Join (False, [''data'']) ''messages'') (message_ID_at 0 1 @ ''.json'') =
      (False, [''data'', ''messages'', message_ID_at 0 1 @ ''.json''])"
    using Join_file_of [OF generated_plain_name(1)] by (simp add: path_Join_def [of "(False, [''data''])"] file_of_def)
  have st: "fs_StoreSMS (\<lambda>_. Done) example_fs 3 (Some ?m) = (Ok (message_ID_at 0 1), ?fs)"
    by (simp add: fs_StoreSMS_def ID saveMessage_def getMessageFilename_def path save_file_def disk_calls WriteFile_def Let_def)
  have gen: "generateMessageID ?mh example_file_world = (message_ID_at 0 1, example_file_world\<lparr>w_ticks := w_ticks example_file_world + 2\<rparr>)"
    by (simp add: generateMessageID_def Now_def)
  have bytes: "message_bytes (ss_ShortMessage example_submit_sm) (ss_OptionalParams example_submit_sm) = to_bytes ''hi''"
    by (simp add: example_submit_sm_def message_bytes_def)
  have dec: "Decode_text (to_bytes ''hi'') (ss_DataCoding example_submit_sm) = Ok ''hi''"
    by (simp add: example_submit_sm_def Decode_text_def)
  have "runes ''hi'' = codes ''hi''" by (rule runes_ASCII) (simp add: codes_def)
  then have "ValidateMessage ?m = Ok ()"
    by (simp add: ValidateMessage_def submit_message_def example_submit_sm_def zero_submit_sm_def
        ValidateText_def GetMaxLength_def isValidTONNPI_def codes_def)
  then have "\<exists>w1. HandleSubmitSM ?mh example_file_world example_session example_submit_sm =
      (Reply \<lparr>sr_MessageID = message_ID_at 0 1\<rparr> None, w1) \<and> w_sms w1 = ?fs"
    using file_service.HandleSubmitSM_eq [OF gen, of example_submit_sm "''hi''" example_session] st
    by (simp add: bytes dec store_sms_def Now_def file_sms_ops_def file_service.publish_frame Let_def)
  then obtain w1 where w1: "HandleSubmitSM ?mh example_file_world example_session example_submit_sm =
      (Reply \<lparr>sr_MessageID = message_ID_at 0 1\<rparr> None, w1)" "w_sms w1 = ?fs" by blast
  have "CHR ''/'' \<notin> set (message_ID_at 0 1)" "''a'' \<noteq> message_ID_at 0 1"
    using generated_plain_name(1) [of 0 1] by (simp_all add: plain_name_def message_ID_at_def)
  then have "lists_dir (fs_disk (w_sms w1)) (sms_dir (w_sms w1)) [(''a.json'', False), (message_ID_at 0 1 @ ''.json'', False)]"
    using append_eq_append_conv [of "''a''" _ "''.json''" "''.json''"]
    by (auto simp: w1(2) lists_dir_def sms_dir_def path_Join_def example_disk_def)
  with w1 show ?thesis by (intro exI [of _ w1]) simp
qed

theorem accepted_message_survives_restart_witness:
  "\<exists>fs d m. NewFileSMSStorage (\<lambda>_. Done) ''data'' [(''a.json'', False), (message_ID_at 0 1 @ ''.json'', False)]
      (fs_disk (w_sms (snd (HandleSubmitSM (file_handler True None None None int) example_file_world example_session
         example_submit_sm)))) = (Ok fs, d) \<and>
    fs_GetSMS fs (message_ID_at 0 1) = Ok m \<and> fs_GetSMS fs ''a'' = Ok example_stored_file"
proof -
  obtain w1 where w1: "HandleSubmitSM (file_handler True None None None int) example_file_world example_session example_submit_sm =
     (Reply \<lparr>sr_MessageID = message_ID_at 0 1\<rparr> None, w1)" "fs_dataDir (w_sms w1) = (False, [''data''])"
     "lists_dir (fs_disk (w_sms w1)) (sms_dir (w_sms w1)) [(''a.json'', False), (message_ID_at 0 1 @ ''.json'', False)]"
    using example_file_submit by blast
  have inv: "file_inv (w_sms example_file_world)" using example_fs_inv by simp
  have dir: "Clean ''data'' = fs_dataDir (w_sms w1)" using w1(2) by (simp add: Clean_data)
  have q: "cstring_GetString (qs_MessageID \<lparr>qs_MessageID = \<lparr>cs_Data = to_bytes (message_ID_at 0 1), cs_MaxLen = 64\<rparr>,
      qs_SourceAddr = zero_address\<rparr>) = message_ID_at 0 1"
    by (simp add: cstring_GetString_def)
  have "''a'' \<noteq> message_ID_at 0 1" by (simp add: message_ID_at_def)
  moreover obtain fs d t m where
    "NewFileSMSStorage (\<lambda>_. Done) ''data'' [(''a.json'', False), (message_ID_at 0 1 @ ''.json'', False)]
       (fs_disk (w_sms w1)) = (Ok fs, d)" "fs_GetSMS fs (message_ID_at 0 1) = Ok m"
    "\<forall>j. j \<noteq> message_ID_at 0 1 \<longrightarrow> fs_GetSMS fs j = res_map json_message (fs_GetSMS (w_sms example_file_world) j)"
    using accepted_message_survives_restart [OF inv w1(1,3) dir _ q, of "w_reports example_file_world" "()" example_session]
    by fastforce
  ultimately show ?thesis by (fastforce simp: w1(1) json_example)
qed

end
