(* ===== verification/Config.thy ===== *)
theory Config
  imports FileStorage Floats Client
begin

text \<open>
  The configuration, \<open>internal/config/config.go\<close>, with its types in \<open>pkg/smpp/interfaces.go\<close>: reading a
  JSON file over the defaults, validation, saving and updating.

  A JSON text is the document it denotes, a value of \<open>json\<close>; a file that is no JSON text is \<open>NotJSON\<close>.
  \<open>json.Unmarshal\<close> takes the fields of a document in their order, matches names exactly or else without
  regard to case, skips unknown fields and \<open>null\<close>, and fails when a value has the wrong type.  The disk
  and its failures are those of \<open>FileStorage\<close>.
\<close>

section \<open>JSON documents\<close>

datatype json =
    JNull | JBool bool | JInt int | JReal rat | JStr string | JArr "json list" | JObj "(string \<times> json) list"

text \<open>
  Names are compared by their folded runes; beside the capitals, two runes fold to an ASCII letter: U+017F
  (the bytes C5 BF) to s and U+212A (E2 84 AA) to k.
\<close>

definition to_lower :: "char \<Rightarrow> char" where
  "to_lower c = (if 65 \<le> (of_char c :: nat) \<and> of_char c \<le> (90 :: nat) then char_of (of_char c + 32 :: nat) else c)"

function fold_name :: "string \<Rightarrow> string" where
  "fold_name s =
     (if s = '''' then ''''
      else if take 2 (codes s) = [0xC5, 0xBF] then CHR ''s'' # fold_name (drop 2 s)
      else if take 3 (codes s) = [0xE2, 0x84, 0xAA] then CHR ''k'' # fold_name (drop 3 s)
      else to_lower (hd s) # fold_name (tl s))"
  by pat_completeness auto
termination
  by (relation "measure length") auto

declare fold_name.simps [simp del]

type_synonym 'r fields = "(string \<times> (json \<Rightarrow> 'r \<Rightarrow> 'r option)) list"

definition find_field :: "'r fields \<Rightarrow> string \<Rightarrow> (json \<Rightarrow> 'r \<Rightarrow> 'r option) option" where
  "find_field table k =
     (case map_of table k of
        Some set_field \<Rightarrow> Some set_field
      | None \<Rightarrow> map_option snd (find (\<lambda>(n, _). fold_name n = fold_name k) table))"

fun decode_fields :: "'r fields \<Rightarrow> (string \<times> json) list \<Rightarrow> 'r \<Rightarrow> 'r option" where
  "decode_fields table [] r = Some r"
| "decode_fields table ((k, v) # kvs) r =
     (case find_field table k of
        None \<Rightarrow> decode_fields table kvs r
      | Some set_field \<Rightarrow> (case set_field v r of None \<Rightarrow> None | Some r' \<Rightarrow> decode_fields table kvs r'))"

definition decode_struct :: "'r fields \<Rightarrow> json \<Rightarrow> 'r \<Rightarrow> 'r option" where
  "decode_struct table j r =
     (case j of JObj kvs \<Rightarrow> decode_fields table kvs r | JNull \<Rightarrow> Some r | _ \<Rightarrow> None)"

definition str_field :: "((string \<Rightarrow> string) \<Rightarrow> 'r \<Rightarrow> 'r) \<Rightarrow> json \<Rightarrow> 'r \<Rightarrow> 'r option" where
  "str_field upd j r = (case j of JStr s \<Rightarrow> Some (upd (\<lambda>_. s) r) | JNull \<Rightarrow> Some r | _ \<Rightarrow> None)"

definition bool_field :: "((bool \<Rightarrow> bool) \<Rightarrow> 'r \<Rightarrow> 'r) \<Rightarrow> json \<Rightarrow> 'r \<Rightarrow> 'r option" where
  "bool_field upd j r = (case j of JBool b \<Rightarrow> Some (upd (\<lambda>_. b) r) | JNull \<Rightarrow> Some r | _ \<Rightarrow> None)"

definition int_field :: "((int \<Rightarrow> int) \<Rightarrow> 'r \<Rightarrow> 'r) \<Rightarrow> json \<Rightarrow> 'r \<Rightarrow> 'r option" where
  "int_field upd j r =
     (case j of JInt i \<Rightarrow> if - (2 ^ 63) \<le> i \<and> i < 2 ^ 63 then Some (upd (\<lambda>_. i) r) else None
      | JNull \<Rightarrow> Some r | _ \<Rightarrow> None)"

definition struct_field :: "'s fields \<Rightarrow> ('r \<Rightarrow> 's) \<Rightarrow> (('s \<Rightarrow> 's) \<Rightarrow> 'r \<Rightarrow> 'r) \<Rightarrow> json \<Rightarrow> 'r \<Rightarrow> 'r option" where
  "struct_field table get upd j r = map_option (\<lambda>s. upd (\<lambda>_. s) r) (decode_struct table j (get r))"

section \<open>Durations\<close>

text \<open>\<open>time.ParseDuration\<close>, in nanoseconds; the float operations for a fraction are rounded by \<open>fl\<close>.\<close>

definition digit_value :: "char \<Rightarrow> nat" where
  "digit_value c = of_char c - 48"

fun leadingInt :: "nat \<Rightarrow> string \<Rightarrow> (nat \<times> string) option" where
  "leadingInt x [] = Some (x, [])"
| "leadingInt x (c # s) =
     (if \<not> is_digit c then Some (x, c # s)
      else if x > 2 ^ 63 div 10 then None
      else let y = x * 10 + digit_value c in if y > 2 ^ 63 then None else leadingInt y s)"

fun leadingFraction :: "(rat \<Rightarrow> rat) \<Rightarrow> nat \<Rightarrow> rat \<Rightarrow> bool \<Rightarrow> string \<Rightarrow> nat \<times> rat \<times> string" where
  "leadingFraction fl x scale overflow [] = (x, scale, [])"
| "leadingFraction fl x scale overflow (c # s) =
     (if \<not> is_digit c then (x, scale, c # s)
      else if overflow \<or> x > (2 ^ 63 - 1) div 10 then leadingFraction fl x scale True s
      else let y = x * 10 + digit_value c in
        if y > 2 ^ 63 then leadingFraction fl x scale True s
        else leadingFraction fl y (fl (scale * 10)) False s)"

definition unit_of :: "string \<Rightarrow> nat option" where
  "unit_of u =
     (if u = ''ns'' then Some 1
      else if u = ''us'' \<or> codes u = [0xC2, 0xB5, 115] \<or> codes u = [0xCE, 0xBC, 115] then Some 1000
      else if u = ''ms'' then Some 1000000 else if u = ''s'' then Some 1000000000
      else if u = ''m'' then Some 60000000000 else if u = ''h'' then Some 3600000000000 else None)"

lemma leadingInt_shorter: "leadingInt x s = Some (y, s') \<Longrightarrow> length s' \<le> length s"
  by (induction x s rule: leadingInt.induct) (auto simp: Let_def split: if_splits)

lemma leadingFraction_shorter: "leadingFraction fl x sc ov s = (y, sc', s') \<Longrightarrow> length s' \<le> length s"
  by (induction fl x sc ov s rule: leadingFraction.induct) (auto simp: Let_def split: if_splits)

text \<open>One number with its unit: the amount, or \<open>None\<close> for an error.\<close>

definition duration_part :: "(rat \<Rightarrow> rat) \<Rightarrow> string \<Rightarrow> (nat \<times> string) option" where
  "duration_part fl s =
     (if s = '''' \<or> \<not> (hd s = CHR ''.'' \<or> is_digit (hd s)) then None
      else case leadingInt 0 s of None \<Rightarrow> None
      | Some (v, s1) \<Rightarrow>
     (let pre = (s1 \<noteq> s);
          (f, scale, s2) = (if s1 \<noteq> '''' \<and> hd s1 = CHR ''.'' then leadingFraction fl 0 1 False (tl s1) else (0, 1, s1));
          post = (s1 \<noteq> '''' \<and> hd s1 = CHR ''.'' \<and> s2 \<noteq> tl s1);
          u = takeWhile (\<lambda>c. c \<noteq> CHR ''.'' \<and> \<not> is_digit c) s2;
          s3 = dropWhile (\<lambda>c. c \<noteq> CHR ''.'' \<and> \<not> is_digit c) s2
      in
      if \<not> pre \<and> \<not> post then None else if u = '''' then None
      else case unit_of u of None \<Rightarrow> None
      | Some unit \<Rightarrow>
          if v > 2 ^ 63 div unit then None
          else let w = v * unit + (if f > 0 then nat \<lfloor>fl (fl (of_nat f) * fl (of_nat unit / scale))\<rfloor> else 0) in
            if w > 2 ^ 63 then None else Some (w, s3)))"

lemma dropWhile_shorter: "takeWhile p s \<noteq> [] \<Longrightarrow> length (dropWhile p s) < length s"
  by (cases s) (auto simp: le_imp_less_Suc length_dropWhile_le split: if_splits)

lemma duration_part_shorter: "duration_part fl s = Some (w, s') \<Longrightarrow> length s' < length s"
proof -
  assume p: "duration_part fl s = Some (w, s')"
  then obtain v s1 where 1: "leadingInt 0 s = Some (v, s1)"
    by (auto simp: duration_part_def split: if_splits option.splits)
  obtain f scale s2 where 2: "(if s1 \<noteq> '''' \<and> hd s1 = CHR ''.'' then leadingFraction fl 0 1 False (tl s1) else (0, 1, s1)) = (f, scale, s2)"
    by (metis prod_cases3)
  have "length s2 \<le> length s1"
    using 2 leadingFraction_shorter [of fl 0 1 False "tl s1"] by (auto split: if_splits)
  moreover have "s' = dropWhile (\<lambda>c. c \<noteq> CHR ''.'' \<and> \<not> is_digit c) s2"
    "takeWhile (\<lambda>c. c \<noteq> CHR ''.'' \<and> \<not> is_digit c) s2 \<noteq> ''''"
    using p 1 unfolding duration_part_def by (auto simp: 2 Let_def split: if_splits option.splits)
  ultimately show ?thesis
    using dropWhile_shorter [of "\<lambda>c. c \<noteq> CHR ''.'' \<and> \<not> is_digit c" s2] leadingInt_shorter [OF 1] by simp
qed

function duration_parts :: "(rat \<Rightarrow> rat) \<Rightarrow> nat \<Rightarrow> string \<Rightarrow> nat option" where
  "duration_parts fl d s =
     (if s = '''' then Some d
      else case duration_part fl s of None \<Rightarrow> None
      | Some (v, s') \<Rightarrow>
          let d' = (d + v) mod 2 ^ 64 in if d' > 2 ^ 63 then None else duration_parts fl d' s')"
  by pat_completeness auto
termination
  by (relation "measure (\<lambda>(fl, d, s). length s)") (auto dest: duration_part_shorter)

declare duration_parts.simps [simp del]

definition ParseDuration :: "(rat \<Rightarrow> rat) \<Rightarrow> string \<Rightarrow> int result" where
  "ParseDuration fl orig =
     (let neg = (orig \<noteq> '''' \<and> hd orig = CHR ''-'');
          s = (if orig \<noteq> '''' \<and> (hd orig = CHR ''-'' \<or> hd orig = CHR ''+'') then tl orig else orig)
      in
      if s = ''0'' then Ok 0
      else if s = '''' then Err (Errorf ''time: invalid duration'')
      else case duration_parts fl 0 s of None \<Rightarrow> Err (Errorf ''time: invalid duration'')
      | Some d \<Rightarrow>
          if neg then Ok (- int d)
          else if d > 2 ^ 63 - 1 then Err (Errorf ''time: invalid duration'') else Ok (int d))"

section \<open>The types of a configuration\<close>

text \<open>A \<open>time.Duration\<close> is its number of nanoseconds.\<close>

record server_config =
  sv_Host :: string
  sv_Port :: int
  sv_MaxConnections :: int
  sv_ReadTimeout :: int
  sv_WriteTimeout :: int
  sv_IdleTimeout :: int
  sv_EnquireLinkTimeout :: int
  sv_BindTimeout :: int
  sv_TLSEnabled :: bool
  sv_TLSCertFile :: string
  sv_TLSKeyFile :: string
  sv_LogLevel :: string
  sv_LogFile :: string
  sv_MetricsEnabled :: bool
  sv_MetricsPort :: int

text \<open>\<open>ClientConfig\<close>: the fields that the client model uses, and the timeouts.\<close>

record client_settings = client_config +
  cc_ConnectTimeout :: int
  cc_ReadTimeout :: int
  cc_WriteTimeout :: int
  cc_EnquireLinkInterval :: int
  cc_ReconnectInterval :: int
  cc_TLSSkipVerify :: bool
  cc_LogLevel :: string

record logging_config =
  lg_Level :: string
  lg_Format :: string
  lg_Output :: string
  lg_File :: string
  lg_MaxSize :: int
  lg_MaxBackups :: int
  lg_MaxAge :: int
  lg_Compress :: bool

record database_config =
  db_Driver :: string
  db_Host :: string
  db_Port :: int
  db_Username :: string
  db_Password :: string
  db_Database :: string
  db_SSLMode :: string

record storage_config =
  st_Type :: string
  st_DataDir :: string
  st_Database :: database_config

record metrics_config =
  mt_Enabled :: bool
  mt_Port :: int
  mt_Path :: string
  mt_Namespace :: string
  mt_Subsystem :: string

record config =
  cf_Server :: server_config
  cf_Client :: client_settings
  cf_Logging :: logging_config
  cf_Storage :: storage_config
  cf_Metrics :: metrics_config

text \<open>The structs that a configuration file is read into: durations are strings.\<close>

record server_config_json =
  sj_Host :: string
  sj_Port :: int
  sj_MaxConnections :: int
  sj_ReadTimeout :: string
  sj_WriteTimeout :: string
  sj_IdleTimeout :: string
  sj_EnquireLinkTimeout :: string
  sj_BindTimeout :: string
  sj_TLSEnabled :: bool
  sj_TLSCertFile :: string
  sj_TLSKeyFile :: string
  sj_LogLevel :: string
  sj_LogFile :: string
  sj_MetricsEnabled :: bool
  sj_MetricsPort :: int

record client_config_json =
  cj_Host :: string
  cj_Port :: int
  cj_SystemID :: string
  cj_Password :: string
  cj_SystemType :: string
  cj_BindType :: string
  cj_ConnectTimeout :: string
  cj_ReadTimeout :: string
  cj_WriteTimeout :: string
  cj_EnquireLinkInterval :: string
  cj_ReconnectInterval :: string
  cj_MaxReconnectAttempts :: int
  cj_TLSEnabled :: bool
  cj_TLSSkipVerify :: bool
  cj_LogLevel :: string

record config_json =
  jc_Server :: server_config_json
  jc_Client :: client_config_json
  jc_Logging :: logging_config
  jc_Storage :: storage_config
  jc_Metrics :: metrics_config

definition server_fields :: "server_config_json fields" where
  "server_fields =
    [(''host'', str_field sj_Host_update),
     (''port'', int_field sj_Port_update),
     (''max_connections'', int_field sj_MaxConnections_update),
     (''read_timeout'', str_field sj_ReadTimeout_update),
     (''write_timeout'', str_field sj_WriteTimeout_update),
     (''idle_timeout'', str_field sj_IdleTimeout_update),
     (''enquire_link_timeout'', str_field sj_EnquireLinkTimeout_update),
     (''bind_timeout'', str_field sj_BindTimeout_update),
     (''tls_enabled'', bool_field sj_TLSEnabled_update),
     (''tls_cert_file'', str_field sj_TLSCertFile_update),
     (''tls_key_file'', str_field sj_TLSKeyFile_update),
     (''log_level'', str_field sj_LogLevel_update),
     (''log_file'', str_field sj_LogFile_update),
     (''metrics_enabled'', bool_field sj_MetricsEnabled_update),
     (''metrics_port'', int_field sj_MetricsPort_update)]"

definition client_fields :: "client_config_json fields" where
  "client_fields =
    [(''host'', str_field cj_Host_update),
     (''port'', int_field cj_Port_update),
     (''system_id'', str_field cj_SystemID_update),
     (''password'', str_field cj_Password_update),
     (''system_type'', str_field cj_SystemType_update),
     (''bind_type'', str_field cj_BindType_update),
     (''connect_timeout'', str_field cj_ConnectTimeout_update),
     (''read_timeout'', str_field cj_ReadTimeout_update),
     (''write_timeout'', str_field cj_WriteTimeout_update),
     (''enquire_link_interval'', str_field cj_EnquireLinkInterval_update),
     (''reconnect_interval'', str_field cj_ReconnectInterval_update),
     (''max_reconnect_attempts'', int_field cj_MaxReconnectAttempts_update),
     (''tls_enabled'', bool_field cj_TLSEnabled_update),
     (''tls_skip_verify'', bool_field cj_TLSSkipVerify_update),
     (''log_level'', str_field cj_LogLevel_update)]"

definition logging_fields :: "logging_config fields" where
  "logging_fields =
    [(''level'', str_field lg_Level_update),
     (''format'', str_field lg_Format_update),
     (''output'', str_field lg_Output_update),
     (''file'', str_field lg_File_update),
     (''max_size'', int_field lg_MaxSize_update),
     (''max_backups'', int_field lg_MaxBackups_update),
     (''max_age'', int_field lg_MaxAge_update),
     (''compress'', bool_field lg_Compress_update)]"

definition database_fields :: "database_config fields" where
  "database_fields =
    [(''driver'', str_field db_Driver_update),
     (''host'', str_field db_Host_update),
     (''port'', int_field db_Port_update),
     (''username'', str_field db_Username_update),
     (''password'', str_field db_Password_update),
     (''database'', str_field db_Database_update),
     (''ssl_mode'', str_field db_SSLMode_update)]"

definition storage_fields :: "storage_config fields" where
  "storage_fields =
    [(''type'', str_field st_Type_update),
     (''data_dir'', str_field st_DataDir_update),
     (''database'', struct_field database_fields st_Database st_Database_update)]"

definition metrics_fields :: "metrics_config fields" where
  "metrics_fields =
    [(''enabled'', bool_field mt_Enabled_update),
     (''port'', int_field mt_Port_update),
     (''path'', str_field mt_Path_update),
     (''namespace'', str_field mt_Namespace_update),
     (''subsystem'', str_field mt_Subsystem_update)]"

definition config_fields :: "config_json fields" where
  "config_fields =
    [(''server'', struct_field server_fields jc_Server jc_Server_update),
     (''client'', struct_field client_fields jc_Client jc_Client_update),
     (''logging'', struct_field logging_fields jc_Logging jc_Logging_update),
     (''storage'', struct_field storage_fields jc_Storage jc_Storage_update),
     (''metrics'', struct_field metrics_fields jc_Metrics jc_Metrics_update)]"

text \<open>\<open>var jsonConfig configJSON\<close>\<close>

definition zero_server_json :: server_config_json where
  "zero_server_json = \<lparr>sj_Host = '''', sj_Port = 0, sj_MaxConnections = 0, sj_ReadTimeout = '''', sj_WriteTimeout = '''',
     sj_IdleTimeout = '''', sj_EnquireLinkTimeout = '''', sj_BindTimeout = '''', sj_TLSEnabled = False,
     sj_TLSCertFile = '''', sj_TLSKeyFile = '''', sj_LogLevel = '''', sj_LogFile = '''',
     sj_MetricsEnabled = False, sj_MetricsPort = 0\<rparr>"

definition zero_client_json :: client_config_json where
  "zero_client_json = \<lparr>cj_Host = '''', cj_Port = 0, cj_SystemID = '''', cj_Password = '''', cj_SystemType = '''',
     cj_BindType = '''', cj_ConnectTimeout = '''', cj_ReadTimeout = '''', cj_WriteTimeout = '''',
     cj_EnquireLinkInterval = '''', cj_ReconnectInterval = '''', cj_MaxReconnectAttempts = 0,
     cj_TLSEnabled = False, cj_TLSSkipVerify = False, cj_LogLevel = ''''\<rparr>"

definition zero_config_json :: config_json where
  "zero_config_json = \<lparr>jc_Server = zero_server_json, jc_Client = zero_client_json,
     jc_Logging = \<lparr>lg_Level = '''', lg_Format = '''', lg_Output = '''', lg_File = '''', lg_MaxSize = 0, lg_MaxBackups = 0,
       lg_MaxAge = 0, lg_Compress = False\<rparr>,
     jc_Storage = \<lparr>st_Type = '''', st_DataDir = '''', st_Database = \<lparr>db_Driver = '''', db_Host = '''', db_Port = 0,
       db_Username = '''', db_Password = '''', db_Database = '''', db_SSLMode = ''''\<rparr>\<rparr>,
     jc_Metrics = \<lparr>mt_Enabled = False, mt_Port = 0, mt_Path = '''', mt_Namespace = '''', mt_Subsystem = ''''\<rparr>\<rparr>"

text \<open>The document that \<open>json.MarshalIndent\<close> makes of a configuration: a duration is a number.\<close>

definition server_document :: "server_config \<Rightarrow> json" where
  "server_document c = JObj
    [(''host'', JStr (json_string (sv_Host c))),
     (''port'', JInt (sv_Port c)),
     (''max_connections'', JInt (sv_MaxConnections c)),
     (''read_timeout'', JInt (sv_ReadTimeout c)),
     (''write_timeout'', JInt (sv_WriteTimeout c)),
     (''idle_timeout'', JInt (sv_IdleTimeout c)),
     (''enquire_link_timeout'', JInt (sv_EnquireLinkTimeout c)),
     (''bind_timeout'', JInt (sv_BindTimeout c)),
     (''tls_enabled'', JBool (sv_TLSEnabled c)),
     (''tls_cert_file'', JStr (json_string (sv_TLSCertFile c))),
     (''tls_key_file'', JStr (json_string (sv_TLSKeyFile c))),
     (''log_level'', JStr (json_string (sv_LogLevel c))),
     (''log_file'', JStr (json_string (sv_LogFile c))),
     (''metrics_enabled'', JBool (sv_MetricsEnabled c)),
     (''metrics_port'', JInt (sv_MetricsPort c))]"

definition client_document :: "client_settings \<Rightarrow> json" where
  "client_document c = JObj
    [(''host'', JStr (json_string (cc_Host c))),
     (''port'', JInt (cc_Port c)),
     (''system_id'', JStr (json_string (cc_SystemID c))),
     (''password'', JStr (json_string (cc_Password c))),
     (''system_type'', JStr (json_string (cc_SystemType c))),
     (''bind_type'', JStr (json_string (cc_BindType c))),
     (''connect_timeout'', JInt (cc_ConnectTimeout c)),
     (''read_timeout'', JInt (cc_ReadTimeout c)),
     (''write_timeout'', JInt (cc_WriteTimeout c)),
     (''enquire_link_interval'', JInt (cc_EnquireLinkInterval c)),
     (''reconnect_interval'', JInt (cc_ReconnectInterval c)),
     (''max_reconnect_attempts'', JInt (cc_MaxReconnectAttempts c)),
     (''tls_enabled'', JBool (cc_TLSEnabled c)),
     (''tls_skip_verify'', JBool (cc_TLSSkipVerify c)),
     (''log_level'', JStr (json_string (cc_LogLevel c)))]"

definition logging_document :: "logging_config \<Rightarrow> json" where
  "logging_document c = JObj
    [(''level'', JStr (json_string (lg_Level c))),
     (''format'', JStr (json_string (lg_Format c))),
     (''output'', JStr (json_string (lg_Output c))),
     (''file'', JStr (json_string (lg_File c))),
     (''max_size'', JInt (lg_MaxSize c)),
     (''max_backups'', JInt (lg_MaxBackups c)),
     (''max_age'', JInt (lg_MaxAge c)),
     (''compress'', JBool (lg_Compress c))]"

definition database_document :: "database_config \<Rightarrow> json" where
  "database_document c = JObj
    [(''driver'', JStr (json_string (db_Driver c))),
     (''host'', JStr (json_string (db_Host c))),
     (''port'', JInt (db_Port c)),
     (''username'', JStr (json_string (db_Username c))),
     (''password'', JStr (json_string (db_Password c))),
     (''database'', JStr (json_string (db_Database c))),
     (''ssl_mode'', JStr (json_string (db_SSLMode c)))]"

definition storage_document :: "storage_config \<Rightarrow> json" where
  "storage_document c = JObj
    [(''type'', JStr (json_string (st_Type c))),
     (''data_dir'', JStr (json_string (st_DataDir c))),
     (''database'', database_document (st_Database c))]"

definition metrics_document :: "metrics_config \<Rightarrow> json" where
  "metrics_document c = JObj
    [(''enabled'', JBool (mt_Enabled c)),
     (''port'', JInt (mt_Port c)),
     (''path'', JStr (json_string (mt_Path c))),
     (''namespace'', JStr (json_string (mt_Namespace c))),
     (''subsystem'', JStr (json_string (mt_Subsystem c)))]"

definition config_document :: "config \<Rightarrow> json" where
  "config_document c = JObj
    [(''server'', server_document (cf_Server c)),
     (''client'', client_document (cf_Client c)),
     (''logging'', logging_document (cf_Logging c)),
     (''storage'', storage_document (cf_Storage c)),
     (''metrics'', metrics_document (cf_Metrics c))]"

section \<open>The manager\<close>

definition convertServerConfig :: "(rat \<Rightarrow> rat) \<Rightarrow> server_config_json \<Rightarrow> server_config \<Rightarrow> server_config result" where
  "convertServerConfig fl j c =
     (let c1 = c\<lparr>sv_Host := sj_Host j, sv_Port := sj_Port j, sv_MaxConnections := sj_MaxConnections j,
       sv_TLSEnabled := sj_TLSEnabled j, sv_TLSCertFile := sj_TLSCertFile j, sv_TLSKeyFile :=
       sj_TLSKeyFile j, sv_LogLevel := sj_LogLevel j, sv_LogFile := sj_LogFile j, sv_MetricsEnabled :=
       sj_MetricsEnabled j, sv_MetricsPort := sj_MetricsPort j\<rparr> in
     res_bind (res_wrap ''invalid read_timeout'' (ParseDuration fl (sj_ReadTimeout j))) (\<lambda>t1.
     res_bind (res_wrap ''invalid write_timeout'' (ParseDuration fl (sj_WriteTimeout j))) (\<lambda>t2.
     res_bind (res_wrap ''invalid idle_timeout'' (ParseDuration fl (sj_IdleTimeout j))) (\<lambda>t3.
     res_bind (res_wrap ''invalid enquire_link_timeout'' (ParseDuration fl (sj_EnquireLinkTimeout j))) (\<lambda>t4.
     res_bind (res_wrap ''invalid bind_timeout'' (ParseDuration fl (sj_BindTimeout j))) (\<lambda>t5.
     Ok (c1\<lparr>sv_ReadTimeout := t1, sv_WriteTimeout := t2, sv_IdleTimeout := t3, sv_EnquireLinkTimeout := t4,
       sv_BindTimeout := t5\<rparr>)))))))"

definition convertClientConfig :: "(rat \<Rightarrow> rat) \<Rightarrow> client_config_json \<Rightarrow> client_settings \<Rightarrow> client_settings result" where
  "convertClientConfig fl j c =
     (let c1 = c\<lparr>cc_Host := cj_Host j, cc_Port := cj_Port j, cc_SystemID := cj_SystemID j, cc_Password :=
       cj_Password j, cc_SystemType := cj_SystemType j, cc_BindType := cj_BindType j,
       cc_MaxReconnectAttempts := cj_MaxReconnectAttempts j, cc_TLSEnabled := cj_TLSEnabled j,
       cc_TLSSkipVerify := cj_TLSSkipVerify j, cc_LogLevel := cj_LogLevel j\<rparr> in
     res_bind (res_wrap ''invalid connect_timeout'' (ParseDuration fl (cj_ConnectTimeout j))) (\<lambda>t1.
     res_bind (res_wrap ''invalid read_timeout'' (ParseDuration fl (cj_ReadTimeout j))) (\<lambda>t2.
     res_bind (res_wrap ''invalid write_timeout'' (ParseDuration fl (cj_WriteTimeout j))) (\<lambda>t3.
     res_bind (res_wrap ''invalid enquire_link_interval'' (ParseDuration fl (cj_EnquireLinkInterval j))) (\<lambda>t4.
     res_bind (res_wrap ''invalid reconnect_interval'' (ParseDuration fl (cj_ReconnectInterval j))) (\<lambda>t5.
     Ok (c1\<lparr>cc_ConnectTimeout := t1, cc_ReadTimeout := t2, cc_WriteTimeout := t3, cc_EnquireLinkInterval :=
       t4, cc_ReconnectInterval := t5\<rparr>)))))))"

definition convertJSONConfig :: "(rat \<Rightarrow> rat) \<Rightarrow> config_json \<Rightarrow> config \<Rightarrow> config result" where
  "convertJSONConfig fl j c =
     res_bind (res_wrap ''failed to convert server config'' (convertServerConfig fl (jc_Server j) (cf_Server c))) (\<lambda>s.
     res_bind (res_wrap ''failed to convert client config'' (convertClientConfig fl (jc_Client j) (cf_Client c))) (\<lambda>k.
     Ok (c\<lparr>cf_Server := s, cf_Client := k, cf_Logging := jc_Logging j, cf_Storage := jc_Storage j,
       cf_Metrics := jc_Metrics j\<rparr>)))"

definition getDefaultConfig :: config where
  "getDefaultConfig = \<lparr>
     cf_Server = \<lparr>sv_Host = ''localhost'', sv_Port = 2775, sv_MaxConnections = 100, sv_ReadTimeout = 30000000000,
       sv_WriteTimeout = 10000000000, sv_IdleTimeout = 300000000000, sv_EnquireLinkTimeout = 60000000000,
       sv_BindTimeout = 30000000000, sv_TLSEnabled = False, sv_TLSCertFile = '''', sv_TLSKeyFile = '''',
       sv_LogLevel = '''', sv_LogFile = '''', sv_MetricsEnabled = False, sv_MetricsPort = 0\<rparr>,
     cf_Client = \<lparr>cc_Host = ''localhost'', cc_Port = 2775, cc_SystemID = ''test'', cc_Password = ''test'',
       cc_SystemType = ''SMPP'', cc_BindType = ''transceiver'', cc_TLSEnabled = False, cc_MaxReconnectAttempts = 5,
       cc_ConnectTimeout = 10000000000, cc_ReadTimeout = 30000000000, cc_WriteTimeout = 10000000000,
       cc_EnquireLinkInterval = 30000000000, cc_ReconnectInterval = 5000000000, cc_TLSSkipVerify = False,
       cc_LogLevel = ''''\<rparr>,
     cf_Logging = \<lparr>lg_Level = ''info'', lg_Format = ''text'', lg_Output = ''stdout'', lg_File = '''', lg_MaxSize = 100,
       lg_MaxBackups = 3, lg_MaxAge = 28, lg_Compress = True\<rparr>,
     cf_Storage = \<lparr>st_Type = ''memory'', st_DataDir = ''./data'', st_Database = \<lparr>db_Driver = ''postgres'',
       db_Host = ''localhost'', db_Port = 5432, db_Username = ''smpp'', db_Password = ''smpp'', db_Database = ''smpp'',
       db_SSLMode = ''disable''\<rparr>\<rparr>,
     cf_Metrics = \<lparr>mt_Enabled = False, mt_Port = 9090, mt_Path = ''/metrics'', mt_Namespace = ''smpp'',
       mt_Subsystem = ''server''\<rparr>\<rparr>"

record config_manager =
  cm_configPath :: string
  cm_config :: "config option"

definition NewConfigManager :: "string \<Rightarrow> config_manager" where
  "NewConfigManager configPath = \<lparr>cm_configPath = configPath, cm_config = None\<rparr>"

text \<open>A file counts as missing only if \<open>os.Stat\<close> says so; any other error passes for a file.\<close>

definition fileExists :: "(nat \<Rightarrow> os_outcome) \<Rightarrow> string \<Rightarrow> json disk \<Rightarrow> bool \<times> json disk" where
  "fileExists out filename d =
     (case os_call out d of (r, d') \<Rightarrow> (r \<noteq> Done \<or> dk_files d (Clean filename) \<noteq> None, d'))"

definition validateServerConfig :: "(nat \<Rightarrow> os_outcome) \<Rightarrow> server_config \<Rightarrow> json disk \<Rightarrow> unit result \<times> json disk" where
  "validateServerConfig out s d =
     (if sv_Host s = '''' then (Err (Errorf ''server host cannot be empty''), d)
      else if sv_Port s \<le> 0 \<or> sv_Port s > 65535 then (Err (Errorf ''invalid server port''), d)
      else if sv_MaxConnections s \<le> 0 then (Err (Errorf ''max connections must be positive''), d)
      else if sv_ReadTimeout s \<le> 0 then (Err (Errorf ''read timeout must be positive''), d)
      else if sv_WriteTimeout s \<le> 0 then (Err (Errorf ''write timeout must be positive''), d)
      else if sv_TLSEnabled s then
        (if sv_TLSCertFile s = '''' then (Err (Errorf ''TLS cert file required when TLS is enabled''), d)
         else if sv_TLSKeyFile s = '''' then (Err (Errorf ''TLS key file required when TLS is enabled''), d)
         else let (cert, d1) = fileExists out (sv_TLSCertFile s) d in
           if \<not> cert then (Err (Errorf ''TLS cert file not found''), d1)
           else let (key, d2) = fileExists out (sv_TLSKeyFile s) d1 in
             if \<not> key then (Err (Errorf ''TLS key file not found''), d2) else (Ok (), d2))
      else (Ok (), d))"

definition validateClientConfig :: "client_settings \<Rightarrow> unit result" where
  "validateClientConfig c =
     (if cc_Host c = '''' then Err (Errorf ''client host cannot be empty'')
      else if cc_Port c \<le> 0 \<or> cc_Port c > 65535 then Err (Errorf ''invalid client port'')
      else if cc_SystemID c = '''' then Err (Errorf ''system ID cannot be empty'')
      else if cc_Password c = '''' then Err (Errorf ''password cannot be empty'')
      else if cc_BindType c \<notin> {''transmitter'', ''receiver'', ''transceiver''} then Err (Errorf ''invalid bind type'')
      else if cc_ConnectTimeout c \<le> 0 then Err (Errorf ''connect timeout must be positive'')
      else if cc_MaxReconnectAttempts c < 0 then Err (Errorf ''max reconnect attempts cannot be negative'')
      else Ok ())"

definition validateLoggingConfig :: "logging_config \<Rightarrow> unit result" where
  "validateLoggingConfig l =
     (if lg_Level l \<notin> {''debug'', ''info'', ''warn'', ''error'', ''fatal''} then Err (Errorf ''invalid log level'')
      else if lg_Format l \<notin> {''json'', ''text''} then Err (Errorf ''invalid log format'')
      else if lg_Output l \<notin> {''stdout'', ''stderr'', ''file''} then Err (Errorf ''invalid log output'')
      else if lg_Output l = ''file'' \<and> lg_File l = '''' then Err (Errorf ''log file path required when output is file'')
      else Ok ())"

definition validateStorageConfig :: "storage_config \<Rightarrow> unit result" where
  "validateStorageConfig s =
     (if st_Type s \<notin> {''memory'', ''file'', ''database''} then Err (Errorf ''invalid storage type'')
      else if st_Type s = ''file'' \<and> st_DataDir s = '''' then Err (Errorf ''data directory required for file storage'')
      else if st_Type s = ''database'' then
        (if db_Driver (st_Database s) = '''' then Err (Errorf ''database driver required'')
         else if db_Host (st_Database s) = '''' then Err (Errorf ''database host required'')
         else if db_Database (st_Database s) = '''' then Err (Errorf ''database name required'') else Ok ())
      else Ok ())"

definition validateMetricsConfig :: "metrics_config \<Rightarrow> unit result" where
  "validateMetricsConfig m =
     (if mt_Enabled m then
        (if mt_Port m \<le> 0 \<or> mt_Port m > 65535 then Err (Errorf ''invalid metrics port'')
         else if mt_Path m = '''' then Err (Errorf ''metrics path cannot be empty'') else Ok ())
      else Ok ())"

definition cm_Validate :: "(nat \<Rightarrow> os_outcome) \<Rightarrow> config_manager \<Rightarrow> json disk \<Rightarrow> unit result \<times> json disk" where
  "cm_Validate out cm d =
     (case cm_config cm of
        None \<Rightarrow> (Err (Errorf ''configuration is nil''), d)
      | Some c \<Rightarrow>
          (case validateServerConfig out (cf_Server c) d of (r, d1) \<Rightarrow>
            (res_bind (res_wrap ''invalid server config'' r) (\<lambda>_.
             res_bind (res_wrap ''invalid client config'' (validateClientConfig (cf_Client c))) (\<lambda>_.
             res_bind (res_wrap ''invalid logging config'' (validateLoggingConfig (cf_Logging c))) (\<lambda>_.
             res_bind (res_wrap ''invalid storage config'' (validateStorageConfig (cf_Storage c))) (\<lambda>_.
             res_wrap ''invalid metrics config'' (validateMetricsConfig (cf_Metrics c)))))), d1)))"

text \<open>What is read from a file: \<open>json.Unmarshal\<close> into \<open>configJSON\<close>, then the conversion.\<close>

definition parsed_config :: "(rat \<Rightarrow> rat) \<Rightarrow> json content \<Rightarrow> config result" where
  "parsed_config fl text =
     (case (case text of Json j \<Rightarrow> decode_struct config_fields j zero_config_json | NotJSON \<Rightarrow> None) of
        None \<Rightarrow> Err (Errorf ''failed to parse config file'')
      | Some j \<Rightarrow> res_wrap ''failed to convert config'' (convertJSONConfig fl j getDefaultConfig))"

definition LoadConfig ::
    "(rat \<Rightarrow> rat) \<Rightarrow> (nat \<Rightarrow> os_outcome) \<Rightarrow> config_manager \<Rightarrow> json disk \<Rightarrow> config result \<times> config_manager \<times> json disk" where
  "LoadConfig fl out cm d =
     (let (exists, d1) = (if cm_configPath cm \<noteq> '''' then fileExists out (cm_configPath cm) d else (False, d));
          (loaded, d2) = (if exists then
              (case ReadFile out (Clean (cm_configPath cm)) d1 of (r, d2) \<Rightarrow>
                 (res_bind (res_wrap ''failed to read config file'' r) (parsed_config fl), d2))
            else (Ok getDefaultConfig, d1))
      in case loaded of
           Err e \<Rightarrow> (Err e, cm, d2) | Panic \<Rightarrow> (Panic, cm, d2)
         | Ok c \<Rightarrow>
             let cm1 = cm\<lparr>cm_config := Some c\<rparr> in
             (case cm_Validate out cm1 d2 of
                (Err e, d3) \<Rightarrow> (Err (Wrap ''invalid configuration'' e), cm1, d3)
              | (Panic, d3) \<Rightarrow> (Panic, cm1, d3)
              | (Ok _, d3) \<Rightarrow> (Ok c, cm1, d3)))"

definition Reload ::
    "(rat \<Rightarrow> rat) \<Rightarrow> (nat \<Rightarrow> os_outcome) \<Rightarrow> config_manager \<Rightarrow> json disk \<Rightarrow> unit result \<times> config_manager \<times> json disk" where
  "Reload fl out cm d = (case LoadConfig fl out cm d of (r, cm', d') \<Rightarrow> (res_map (\<lambda>_. ()) r, cm', d'))"

definition write_config :: "(nat \<Rightarrow> os_outcome) \<Rightarrow> string \<Rightarrow> config \<Rightarrow> json disk \<Rightarrow> unit result \<times> json disk" where
  "write_config out filename c d =
     (case MkdirAll out (path_Dir (Clean filename)) d of
        (Err e, d1) \<Rightarrow> (Err (Wrap ''failed to create config directory'' e), d1) | (Panic, d1) \<Rightarrow> (Panic, d1)
      | (Ok _, d1) \<Rightarrow>
     (case MarshalIndent out (\<lambda>j. j) (config_document c) d1 of
        (Err e, d2) \<Rightarrow> (Err (Wrap ''failed to marshal configuration'' e), d2) | (Panic, d2) \<Rightarrow> (Panic, d2)
      | (Ok data, d2) \<Rightarrow>
     (case WriteFile out (Clean filename) data d2 of
        (Err e, d3) \<Rightarrow> (Err (Wrap ''failed to write config file'' e), d3) | (Panic, d3) \<Rightarrow> (Panic, d3)
      | (Ok _, d3) \<Rightarrow> (Ok (), d3))))"

definition SaveConfig :: "(nat \<Rightarrow> os_outcome) \<Rightarrow> config_manager \<Rightarrow> json disk \<Rightarrow> unit result \<times> json disk" where
  "SaveConfig out cm d =
     (case cm_config cm of
        None \<Rightarrow> (Err (Errorf ''no configuration to save''), d)
      | Some c \<Rightarrow> if cm_configPath cm = '''' then (Err (Errorf ''no config path specified''), d)
                  else write_config out (cm_configPath cm) c d)"

definition CreateDefaultConfigFile :: "(nat \<Rightarrow> os_outcome) \<Rightarrow> string \<Rightarrow> json disk \<Rightarrow> unit result \<times> json disk" where
  "CreateDefaultConfigFile out filename d = write_config out filename getDefaultConfig d"

definition GetServerConfig :: "config_manager \<Rightarrow> server_config option" where
  "GetServerConfig cm =
     (case cm_config cm of None \<Rightarrow> None
      | Some c \<Rightarrow> Some ((cf_Server c)\<lparr>sv_LogLevel := lg_Level (cf_Logging c), sv_LogFile := lg_File (cf_Logging c),
          sv_MetricsEnabled := mt_Enabled (cf_Metrics c), sv_MetricsPort := mt_Port (cf_Metrics c)\<rparr>))"

definition GetClientConfig :: "config_manager \<Rightarrow> client_settings option" where
  "GetClientConfig cm =
     (case cm_config cm of None \<Rightarrow> None
      | Some c \<Rightarrow> Some ((cf_Client c)\<lparr>cc_LogLevel := lg_Level (cf_Logging c)\<rparr>))"

datatype config_update =
    NewConfig config | NewServer server_config | NewClientConfig client_settings | NewLogging logging_config
  | NewStorage storage_config | NewMetrics metrics_config | Unsupported

text \<open>The branches of the type switch; a section is replaced in the configuration or, if there is none, in the default.\<close>

definition updated_config :: "config_update \<Rightarrow> config option \<Rightarrow> config option" where
  "updated_config update current =
     (let old = (case current of None \<Rightarrow> getDefaultConfig | Some c \<Rightarrow> c) in
      case update of
        NewConfig c \<Rightarrow> Some c
      | NewServer s \<Rightarrow> Some (old\<lparr>cf_Server := s\<rparr>)
      | NewClientConfig s \<Rightarrow> Some (old\<lparr>cf_Client := s\<rparr>)
      | NewLogging s \<Rightarrow> Some (old\<lparr>cf_Logging := s\<rparr>)
      | NewStorage s \<Rightarrow> Some (old\<lparr>cf_Storage := s\<rparr>)
      | NewMetrics s \<Rightarrow> Some (old\<lparr>cf_Metrics := s\<rparr>)
      | Unsupported \<Rightarrow> None)"

definition UpdateConfig ::
    "(nat \<Rightarrow> os_outcome) \<Rightarrow> config_manager \<Rightarrow> config_update \<Rightarrow> json disk \<Rightarrow> unit result \<times> config_manager \<times> json disk" where
  "UpdateConfig out cm update d =
     (case updated_config update (cm_config cm) of
        None \<Rightarrow> (Err (Errorf ''unsupported config type''), cm, d)
      | Some c \<Rightarrow> (case cm_Validate out (cm\<lparr>cm_config := Some c\<rparr>) d of
          (r, d') \<Rightarrow> (r, cm\<lparr>cm_config := Some c\<rparr>, d')))"

definition GetConfig :: "config_manager \<Rightarrow> config option" where
  "GetConfig cm = cm_config cm"

section \<open>Validation against its specification\<close>

text \<open>
  What \<open>os.Stat\<close> is taken to say of a file at the \<open>k\<close>-th call from here: it is there, or the call failed.
\<close>

definition stat_found :: "(nat \<Rightarrow> os_outcome) \<Rightarrow> 'a disk \<Rightarrow> nat \<Rightarrow> string \<Rightarrow> bool" where
  "stat_found out d k f \<longleftrightarrow> out (dk_calls d + k) \<noteq> Done \<or> dk_files d (Clean f) \<noteq> None"

definition valid_port :: "int \<Rightarrow> bool" where
  "valid_port p \<longleftrightarrow> 1 \<le> p \<and> p \<le> 65535"

definition tls_valid :: "(nat \<Rightarrow> string \<Rightarrow> bool) \<Rightarrow> server_config \<Rightarrow> bool" where
  "tls_valid found s \<longleftrightarrow> \<not> sv_TLSEnabled s \<or>
     sv_TLSCertFile s \<noteq> '''' \<and> sv_TLSKeyFile s \<noteq> '''' \<and> found 0 (sv_TLSCertFile s) \<and> found 1 (sv_TLSKeyFile s)"

definition config_valid :: "(nat \<Rightarrow> string \<Rightarrow> bool) \<Rightarrow> config \<Rightarrow> bool" where
  "config_valid found c \<longleftrightarrow>
     (let s = cf_Server c; k = cf_Client c; l = cf_Logging c; t = cf_Storage c; m = cf_Metrics c in
        sv_Host s \<noteq> '''' \<and> cc_Host k \<noteq> '''' \<and> cc_SystemID k \<noteq> '''' \<and> cc_Password k \<noteq> ''''
      \<and> valid_port (sv_Port s) \<and> valid_port (cc_Port k)
      \<and> 0 < sv_MaxConnections s \<and> 0 < sv_ReadTimeout s \<and> 0 < sv_WriteTimeout s \<and> 0 < cc_ConnectTimeout k
      \<and> 0 \<le> cc_MaxReconnectAttempts k \<and> cc_BindType k \<in> {''transmitter'', ''receiver'', ''transceiver''}
      \<and> lg_Level l \<in> {''debug'', ''info'', ''warn'', ''error'', ''fatal''} \<and> lg_Format l \<in> {''json'', ''text''}
      \<and> lg_Output l \<in> {''stdout'', ''stderr'', ''file''} \<and> \<not> (lg_Output l = ''file'' \<and> lg_File l = '''')
      \<and> st_Type t \<in> {''memory'', ''file'', ''database''} \<and> \<not> (st_Type t = ''file'' \<and> st_DataDir t = '''')
      \<and> \<not> (st_Type t = ''database'' \<and> '''' \<in> {db_Driver (st_Database t), db_Host (st_Database t), db_Database (st_Database t)})
      \<and> \<not> (mt_Enabled m \<and> \<not> (valid_port (mt_Port m) \<and> mt_Path m \<noteq> ''''))
      \<and> tls_valid found s)"

lemma res_ok_bind: "res_bind r (\<lambda>_. s) = Ok () \<longleftrightarrow> r = Ok () \<and> s = Ok ()"
  by (cases r) auto

lemma fileExists_simp:
  "fileExists out f d = (stat_found out d 0 f, d\<lparr>dk_calls := dk_calls d + 1\<rparr>)"
  by (simp add: fileExists_def os_call_def stat_found_def)

lemma stat_found_next [simp]:
  "stat_found out (d\<lparr>dk_calls := Suc (dk_calls d)\<rparr>) 0 f = stat_found out d (Suc 0) f"
  by (simp add: stat_found_def)

lemma validateServerConfig_iff:
  "fst (validateServerConfig out s d) = Ok () \<longleftrightarrow>
     sv_Host s \<noteq> '''' \<and> valid_port (sv_Port s) \<and> 0 < sv_MaxConnections s \<and> 0 < sv_ReadTimeout s \<and>
     0 < sv_WriteTimeout s \<and> tls_valid (stat_found out d) s"
  by (auto simp: validateServerConfig_def valid_port_def tls_valid_def fileExists_simp Let_def)

lemma validateServerConfig_files:
  "dk_files (snd (validateServerConfig out s d)) = dk_files d" "fst (validateServerConfig out s d) \<noteq> Panic"
  by (auto simp: validateServerConfig_def fileExists_simp Let_def)

lemma validateClientConfig_iff:
  "validateClientConfig c = Ok () \<longleftrightarrow>
     cc_Host c \<noteq> '''' \<and> valid_port (cc_Port c) \<and> cc_SystemID c \<noteq> '''' \<and> cc_Password c \<noteq> '''' \<and>
     cc_BindType c \<in> {''transmitter'', ''receiver'', ''transceiver''} \<and> 0 < cc_ConnectTimeout c \<and>
     0 \<le> cc_MaxReconnectAttempts c"
  by (auto simp: validateClientConfig_def valid_port_def)

lemma validateLoggingConfig_iff:
  "validateLoggingConfig l = Ok () \<longleftrightarrow>
     lg_Level l \<in> {''debug'', ''info'', ''warn'', ''error'', ''fatal''} \<and> lg_Format l \<in> {''json'', ''text''} \<and>
     lg_Output l \<in> {''stdout'', ''stderr'', ''file''} \<and> \<not> (lg_Output l = ''file'' \<and> lg_File l = '''')"
  by (auto simp: validateLoggingConfig_def)

lemma validateStorageConfig_iff:
  "validateStorageConfig t = Ok () \<longleftrightarrow>
     st_Type t \<in> {''memory'', ''file'', ''database''} \<and> \<not> (st_Type t = ''file'' \<and> st_DataDir t = '''') \<and>
     \<not> (st_Type t = ''database'' \<and> '''' \<in> {db_Driver (st_Database t), db_Host (st_Database t), db_Database (st_Database t)})"
  by (auto simp: validateStorageConfig_def)

lemma validateMetricsConfig_iff:
  "validateMetricsConfig m = Ok () \<longleftrightarrow> \<not> (mt_Enabled m \<and> \<not> (valid_port (mt_Port m) \<and> mt_Path m \<noteq> ''''))"
  by (auto simp: validateMetricsConfig_def valid_port_def)

lemmas validate_iffs =
  validateClientConfig_iff validateLoggingConfig_iff validateStorageConfig_iff validateMetricsConfig_iff

lemma validate_not_panic [simp]:
  "validateClientConfig c \<noteq> Panic" "validateLoggingConfig l \<noteq> Panic"
  "validateStorageConfig t \<noteq> Panic" "validateMetricsConfig m \<noteq> Panic"
  by (simp_all add: validateClientConfig_def validateLoggingConfig_def validateStorageConfig_def
      validateMetricsConfig_def)

lemma cm_Validate_snd:
  "snd (cm_Validate out cm d) =
     (case cm_config cm of None \<Rightarrow> d | Some c \<Rightarrow> snd (validateServerConfig out (cf_Server c) d))"
  by (simp add: cm_Validate_def split: option.split prod.split)

lemma cm_Validate_fst:
  "fst (cm_Validate out cm d) =
     (case cm_config cm of None \<Rightarrow> Err (Errorf ''configuration is nil'')
      | Some c \<Rightarrow>
         res_bind (res_wrap ''invalid server config'' (fst (validateServerConfig out (cf_Server c) d))) (\<lambda>_.
         res_bind (res_wrap ''invalid client config'' (validateClientConfig (cf_Client c))) (\<lambda>_.
         res_bind (res_wrap ''invalid logging config'' (validateLoggingConfig (cf_Logging c))) (\<lambda>_.
         res_bind (res_wrap ''invalid storage config'' (validateStorageConfig (cf_Storage c))) (\<lambda>_.
         res_wrap ''invalid metrics config'' (validateMetricsConfig (cf_Metrics c)))))))"
  by (simp add: cm_Validate_def split: option.split prod.split)

lemma cm_Validate_files [simp]:
  "dk_files (snd (cm_Validate out cm d)) = dk_files d" "fst (cm_Validate out cm d) \<noteq> Panic"
  by (auto simp add: cm_Validate_snd cm_Validate_fst validateServerConfig_files res_bind_Panic_iff split: option.split)

lemma cm_Validate_Some:
  assumes "cm_config cm = Some c"
  shows "fst (cm_Validate out cm d) = Ok () \<longleftrightarrow> config_valid (stat_found out d) c"
  unfolding cm_Validate_fst assms option.case res_ok_bind res_wrap_Ok_iff validateServerConfig_iff validate_iffs
    config_valid_def Let_def
  by (rule iffI; elim conjE; intro conjI; assumption)

text \<open>
  C27. \<open>Validate\<close> accepts a configuration exactly if it meets \<open>config_valid\<close>, the conjunction of the rules; it
  never panics and changes no file.  The certificate and the key of a server with TLS are looked for in this order,
  and a failing \<open>os.Stat\<close> counts as a file that is there.
\<close>

theorem Validate_iff_valid:
  "(fst (cm_Validate out cm d) = Ok () \<longleftrightarrow> (\<exists>c. cm_config cm = Some c \<and> config_valid (stat_found out d) c))
   \<and> fst (cm_Validate out cm d) \<noteq> Panic \<and> dk_files (snd (cm_Validate out cm d)) = dk_files d"
proof (cases "cm_config cm")
  case None
  then show ?thesis by (simp add: cm_Validate_def)
next
  case (Some c)
  then show ?thesis using cm_Validate_Some [OF Some] by simp
qed

section \<open>Loading\<close>

lemma fileExists_files [simp]: "dk_files (snd (fileExists out f d)) = dk_files d"
  by (simp add: fileExists_simp)

lemma ReadFile_files [simp]: "dk_files (snd (ReadFile out p d)) = dk_files d" "fst (ReadFile out p d) \<noteq> Panic"
  by (auto simp: ReadFile_def os_call_def split: option.split)

lemma ParseDuration_not_panic [simp]: "ParseDuration fl s \<noteq> Panic"
  by (simp add: ParseDuration_def Let_def split: option.split)

lemma ParseDuration_empty [simp]: "ParseDuration fl '''' = Err (Errorf ''time: invalid duration'')"
  by (simp add: ParseDuration_def)

lemma convert_not_panic [simp]:
  "convertServerConfig fl j c \<noteq> Panic" "convertClientConfig fl k c' \<noteq> Panic" "convertJSONConfig fl jc cf \<noteq> Panic"
  by (simp_all add: convertServerConfig_def convertClientConfig_def convertJSONConfig_def Let_def res_bind_Panic_iff)

lemma parsed_config_not_panic [simp]: "parsed_config fl x \<noteq> Panic"
  by (auto simp: parsed_config_def split: option.split)

text \<open>What \<open>LoadConfig\<close> has before it installs a configuration, and the disk then.\<close>

definition loaded_config ::
    "(rat \<Rightarrow> rat) \<Rightarrow> (nat \<Rightarrow> os_outcome) \<Rightarrow> config_manager \<Rightarrow> json disk \<Rightarrow> config result \<times> json disk" where
  "loaded_config fl out cm d =
     (let (exists, d1) = (if cm_configPath cm \<noteq> '''' then fileExists out (cm_configPath cm) d else (False, d)) in
      if exists then
        (case ReadFile out (Clean (cm_configPath cm)) d1 of (r, d2) \<Rightarrow>
           (res_bind (res_wrap ''failed to read config file'' r) (parsed_config fl), d2))
      else (Ok getDefaultConfig, d1))"

lemma LoadConfig_loaded:
  "LoadConfig fl out cm d =
     (case loaded_config fl out cm d of
        (Err e, d2) \<Rightarrow> (Err e, cm, d2) | (Panic, d2) \<Rightarrow> (Panic, cm, d2)
      | (Ok c, d2) \<Rightarrow>
          let cm1 = cm\<lparr>cm_config := Some c\<rparr> in
          (case cm_Validate out cm1 d2 of
             (Err e, d3) \<Rightarrow> (Err (Wrap ''invalid configuration'' e), cm1, d3)
           | (Panic, d3) \<Rightarrow> (Panic, cm1, d3)
           | (Ok _, d3) \<Rightarrow> (Ok c, cm1, d3)))"
  by (auto simp: LoadConfig_def loaded_config_def Let_def split: prod.split)

lemma loaded_config_files:
  assumes "loaded_config fl out cm d = (r, d2)"
  shows "dk_files d2 = dk_files d" "r \<noteq> Panic"
proof -
  have "snd (loaded_config fl out cm d) = d2" "fst (loaded_config fl out cm d) = r" using assms by simp_all
  moreover have "dk_files (snd (loaded_config fl out cm d)) = dk_files d"
    by (simp add: loaded_config_def fileExists_simp split_beta)
  moreover have "fst (loaded_config fl out cm d) \<noteq> Panic"
    by (simp add: loaded_config_def fileExists_simp split_beta res_bind_Panic_iff)
  ultimately show "dk_files d2 = dk_files d" "r \<noteq> Panic" by simp_all
qed

lemma LoadConfig_cases:
  "case LoadConfig fl out cm d of
     (Ok c, cm', d') \<Rightarrow> dk_files d' = dk_files d \<and> cm' = cm\<lparr>cm_config := Some c\<rparr> \<and>
        (\<exists>d2. dk_files d2 = dk_files d \<and> config_valid (stat_found out d2) c)
   | (Err e, cm', d') \<Rightarrow> dk_files d' = dk_files d \<and>
        (cm' = cm \<or> (\<exists>c d2. cm' = cm\<lparr>cm_config := Some c\<rparr> \<and> dk_files d2 = dk_files d \<and>
           \<not> config_valid (stat_found out d2) c))
   | (Panic, _) \<Rightarrow> False"
proof -
  obtain r d2 where l: "loaded_config fl out cm d = (r, d2)" by force
  note f = loaded_config_files [OF l]
  show ?thesis
  proof (cases r)
    case (Ok c)
    obtain v d3 where v: "cm_Validate out (cm\<lparr>cm_config := Some c\<rparr>) d2 = (v, d3)" by force
    have w: "v = Ok () \<longleftrightarrow> config_valid (stat_found out d2) c" "v \<noteq> Panic" "dk_files d3 = dk_files d"
      using cm_Validate_Some [of "cm\<lparr>cm_config := Some c\<rparr>" c out d2]
        cm_Validate_files [of out "cm\<lparr>cm_config := Some c\<rparr>" d2] f v by auto
    show ?thesis
    proof (cases v)
      case (Ok u)
      with w f v l \<open>r = result.Ok c\<close> show ?thesis
        by (auto simp: LoadConfig_loaded)
    next
      case (Err e)
      with w f have "\<not> config_valid (stat_found out d2) c" by simp
      with Err w f v l \<open>r = result.Ok c\<close> show ?thesis
        by (auto simp: LoadConfig_loaded)
    qed (use w in simp)
  qed (use f l in \<open>auto simp: LoadConfig_loaded\<close>)
qed

text \<open>
  The configuration that a document means: each field is the one of its name in the document, and a duration is what
  its string reads as.  All fields are determined, so that nothing is left of another configuration.
\<close>

definition reads_server :: "(rat \<Rightarrow> rat) \<Rightarrow> server_config_json \<Rightarrow> server_config \<Rightarrow> bool" where
  "reads_server fl j s \<longleftrightarrow>
     sv_Host s = sj_Host j \<and> sv_Port s = sj_Port j \<and> sv_MaxConnections s = sj_MaxConnections j \<and>
     sv_TLSEnabled s = sj_TLSEnabled j \<and> sv_TLSCertFile s = sj_TLSCertFile j \<and>
     sv_TLSKeyFile s = sj_TLSKeyFile j \<and> sv_LogLevel s = sj_LogLevel j \<and> sv_LogFile s = sj_LogFile j \<and>
     sv_MetricsEnabled s = sj_MetricsEnabled j \<and> sv_MetricsPort s = sj_MetricsPort j \<and>
     ParseDuration fl (sj_ReadTimeout j) = Ok (sv_ReadTimeout s) \<and>
     ParseDuration fl (sj_WriteTimeout j) = Ok (sv_WriteTimeout s) \<and>
     ParseDuration fl (sj_IdleTimeout j) = Ok (sv_IdleTimeout s) \<and>
     ParseDuration fl (sj_EnquireLinkTimeout j) = Ok (sv_EnquireLinkTimeout s) \<and>
     ParseDuration fl (sj_BindTimeout j) = Ok (sv_BindTimeout s)"

definition reads_client :: "(rat \<Rightarrow> rat) \<Rightarrow> client_config_json \<Rightarrow> client_settings \<Rightarrow> bool" where
  "reads_client fl j k \<longleftrightarrow>
     cc_Host k = cj_Host j \<and> cc_Port k = cj_Port j \<and> cc_SystemID k = cj_SystemID j \<and>
     cc_Password k = cj_Password j \<and> cc_SystemType k = cj_SystemType j \<and>
     cc_BindType k = cj_BindType j \<and> cc_MaxReconnectAttempts k = cj_MaxReconnectAttempts j \<and>
     cc_TLSEnabled k = cj_TLSEnabled j \<and> cc_TLSSkipVerify k = cj_TLSSkipVerify j \<and>
     cc_LogLevel k = cj_LogLevel j \<and>
     ParseDuration fl (cj_ConnectTimeout j) = Ok (cc_ConnectTimeout k) \<and>
     ParseDuration fl (cj_ReadTimeout j) = Ok (cc_ReadTimeout k) \<and>
     ParseDuration fl (cj_WriteTimeout j) = Ok (cc_WriteTimeout k) \<and>
     ParseDuration fl (cj_EnquireLinkInterval j) = Ok (cc_EnquireLinkInterval k) \<and>
     ParseDuration fl (cj_ReconnectInterval j) = Ok (cc_ReconnectInterval k)"

definition reads_config :: "(rat \<Rightarrow> rat) \<Rightarrow> config_json \<Rightarrow> config \<Rightarrow> bool" where
  "reads_config fl j c \<longleftrightarrow> reads_server fl (jc_Server j) (cf_Server c) \<and> reads_client fl (jc_Client j) (cf_Client c) \<and>
     cf_Logging c = jc_Logging j \<and> cf_Storage c = jc_Storage j \<and> cf_Metrics c = jc_Metrics j"

definition file_config :: "(rat \<Rightarrow> rat) \<Rightarrow> json content \<Rightarrow> config \<Rightarrow> bool" where
  "file_config fl x c \<longleftrightarrow>
     (\<exists>j jc. x = Json j \<and> decode_struct config_fields j zero_config_json = Some jc \<and> reads_config fl jc c)"

lemma convertServerConfig_iff: "convertServerConfig fl j s0 = Ok s \<longleftrightarrow> reads_server fl j s"
  by (cases s0; cases s)
     (auto simp: convertServerConfig_def reads_server_def Let_def res_bind_Ok_iff res_wrap_Ok_iff)

lemma convertClientConfig_iff: "convertClientConfig fl j k0 = Ok k \<longleftrightarrow> reads_client fl j k"
  by (cases k0 rule: client_settings.cases; cases k rule: client_settings.cases)
     (auto simp: convertClientConfig_def reads_client_def Let_def res_bind_Ok_iff res_wrap_Ok_iff)

lemma convertJSONConfig_iff: "convertJSONConfig fl j c0 = Ok c \<longleftrightarrow> reads_config fl j c"
  by (cases c0; cases c)
     (auto simp: convertJSONConfig_def reads_config_def res_bind_Ok_iff res_wrap_Ok_iff convertServerConfig_iff
        convertClientConfig_iff)

lemma parsed_config_iff: "parsed_config fl x = Ok c \<longleftrightarrow> file_config fl x c"
  by (cases x) (auto simp: parsed_config_def file_config_def res_wrap_Ok_iff convertJSONConfig_iff split: option.split)

lemma stat_found_later [simp]:
  "stat_found out (d\<lparr>dk_calls := dk_calls d + n\<rparr>) = (\<lambda>k. stat_found out d (k + n))"
  by (simp add: stat_found_def fun_eq_iff add.commute add.left_commute)

text \<open>What \<open>LoadConfig\<close> does once it is known what it has loaded.\<close>

lemma LoadConfig_installs:
  assumes "loaded_config fl out cm d = (Ok c, d\<lparr>dk_calls := dk_calls d + n\<rparr>)"
  shows "\<exists>r d'. LoadConfig fl out cm d = (r, cm\<lparr>cm_config := Some c\<rparr>, d') \<and> dk_files d' = dk_files d \<and>
    (if config_valid (\<lambda>k. stat_found out d (k + n)) c then r = Ok c else \<exists>e. r = Err e)"
proof -
  let ?cm = "cm\<lparr>cm_config := Some c\<rparr>" and ?d = "d\<lparr>dk_calls := dk_calls d + n\<rparr>"
  obtain v d3 where v: "cm_Validate out ?cm ?d = (v, d3)" by force
  have w: "v = Ok () \<longleftrightarrow> config_valid (\<lambda>k. stat_found out d (k + n)) c" "v \<noteq> Panic" "dk_files d3 = dk_files d"
    using cm_Validate_Some [of ?cm c out ?d] cm_Validate_files [of out ?cm ?d] v by auto
  then show ?thesis by (cases v) (auto simp: LoadConfig_loaded assms v)
qed

text \<open>
  The configuration that \<open>LoadConfig\<close> is to install, if any, and the number of calls of the disk before it is validated.
\<close>

definition file_missing :: "(nat \<Rightarrow> os_outcome) \<Rightarrow> config_manager \<Rightarrow> json disk \<Rightarrow> bool" where
  "file_missing out cm d \<longleftrightarrow> out (dk_calls d) = Done \<and> dk_files d (Clean (cm_configPath cm)) = None"

definition meant_config ::
    "(rat \<Rightarrow> rat) \<Rightarrow> (nat \<Rightarrow> os_outcome) \<Rightarrow> config_manager \<Rightarrow> json disk \<Rightarrow> config \<Rightarrow> bool" where
  "meant_config fl out cm d c \<longleftrightarrow>
     (if cm_configPath cm = '''' \<or> file_missing out cm d then c = getDefaultConfig
      else out (dk_calls d + 1) = Done \<and>
        (\<exists>x. dk_files d (Clean (cm_configPath cm)) = Some x \<and> file_config fl x c))"

definition load_calls :: "(nat \<Rightarrow> os_outcome) \<Rightarrow> config_manager \<Rightarrow> json disk \<Rightarrow> nat" where
  "load_calls out cm d = (if cm_configPath cm = '''' then 0 else if file_missing out cm d then 1 else 2)"

lemma loaded_meant:
  assumes "meant_config fl out cm d c"
  shows "loaded_config fl out cm d = (Ok c, d\<lparr>dk_calls := dk_calls d + load_calls out cm d\<rparr>)"
proof (cases "cm_configPath cm = '''' \<or> file_missing out cm d")
  case True
  then show ?thesis
    using assms
    by (auto simp: meant_config_def load_calls_def file_missing_def loaded_config_def fileExists_simp stat_found_def)
next
  case False
  then obtain x where "out (dk_calls d + 1) = Done" "dk_files d (Clean (cm_configPath cm)) = Some x"
    "parsed_config fl x = Ok c"
    using assms by (auto simp: meant_config_def parsed_config_iff)
  with False show ?thesis
    by (auto simp: load_calls_def file_missing_def loaded_config_def fileExists_simp stat_found_def ReadFile_def)
qed

lemma loaded_nothing:
  assumes "\<nexists>c. meant_config fl out cm d c"
  shows "\<exists>e d2. loaded_config fl out cm d = (Err e, d2)"
proof -
  obtain r d2 where l: "loaded_config fl out cm d = (r, d2)" by force
  have c: "\<not> (cm_configPath cm = '''' \<or> file_missing out cm d)"
    using assms by (auto simp: meant_config_def)
  have "r \<noteq> Ok c" for c
  proof
    assume "r = Ok c"
    with l c have "out (dk_calls d + 1) = Done \<and>
        (\<exists>x. dk_files d (Clean (cm_configPath cm)) = Some x \<and> parsed_config fl x = Ok c)"
      by (auto simp: file_missing_def loaded_config_def fileExists_simp stat_found_def ReadFile_def
          split: option.splits if_splits)
    with assms c show False by (auto simp: meant_config_def parsed_config_iff)
  qed
  then show ?thesis using l loaded_config_files [OF l] by (cases r) auto
qed

text \<open>
  C30. Which configuration \<open>LoadConfig\<close> installs, and when it succeeds.  Without a path, or when \<open>os.Stat\<close> says that the
  file is missing, it installs the defaults; otherwise the configuration that the document in the file means.  It then
  succeeds exactly if this configuration is valid, and an invalid one remains installed beside the error.  If the file
  cannot be read, is not JSON, does not fit the structs or has a duration that does not read, it fails and the manager
  is as before.  It never panics, and it changes no file.
\<close>

theorem LoadConfig_outcome:
  "\<exists>r cm' d'. LoadConfig fl out cm d = (r, cm', d') \<and> dk_files d' = dk_files d \<and>
    (if \<exists>c. meant_config fl out cm d c
     then \<exists>c. meant_config fl out cm d c \<and> cm' = cm\<lparr>cm_config := Some c\<rparr> \<and>
       (if config_valid (\<lambda>k. stat_found out d (k + load_calls out cm d)) c then r = Ok c else \<exists>e. r = Err e)
     else (\<exists>e. r = Err e) \<and> cm' = cm)"
proof (cases "\<exists>c. meant_config fl out cm d c")
  case True
  then obtain c where c: "meant_config fl out cm d c" by blast
  from LoadConfig_installs [OF loaded_meant [OF c]] c True show ?thesis
    unfolding if_P [OF True] by blast
next
  case False
  then obtain e d2 where l: "loaded_config fl out cm d = (Err e, d2)" using loaded_nothing by blast
  then show ?thesis
    unfolding if_not_P [OF False] using loaded_config_files(1) [OF l] by (simp add: LoadConfig_loaded)
qed

text \<open>
  A configuration that is read from a file takes nothing from the defaults: the result of the conversion does not
  depend on the configuration that it starts from.
\<close>

theorem file_replaces_defaults: "convertJSONConfig fl j c = convertJSONConfig fl j c'"
proof -
  have "convertServerConfig fl a b = convertServerConfig fl a b'" for a and b b' :: server_config
    by (cases b; cases b') (simp add: convertServerConfig_def Let_def)
  moreover have "convertClientConfig fl a b = convertClientConfig fl a b'" for a and b b' :: client_settings
    by (cases b rule: client_settings.cases; cases b' rule: client_settings.cases)
      (simp add: convertClientConfig_def Let_def)
  ultimately have "convertServerConfig fl (jc_Server j) (cf_Server c) = convertServerConfig fl (jc_Server j) (cf_Server c')"
    "convertClientConfig fl (jc_Client j) (cf_Client c) = convertClientConfig fl (jc_Client j) (cf_Client c')"
    by blast+
  then show ?thesis by (cases c; cases c') (simp add: convertJSONConfig_def)
qed

text \<open>
  A field of a document keeps a property of the struct that is read if every field it can name keeps it.
\<close>

lemma decode_fields_keeps:
  assumes "decode_fields table kvs r = Some r'" and "P r"
    and "\<And>k v f r r'. (k, v) \<in> set kvs \<Longrightarrow> find_field table k = Some f \<Longrightarrow> f v r = Some r' \<Longrightarrow> P r \<Longrightarrow> P r'"
  shows "P r'"
  using assms
proof (induction kvs arbitrary: r)
  case (Cons kv kvs)
  obtain k v where kv: "kv = (k, v)" by force
  have keeps: "P b" if "(k', v') \<in> set (kv # kvs)" "find_field table k' = Some f" "f v' a = Some b" "P a" for k' v' f a b
    using Cons.prems(3) that by blast
  have rest: "P r'" if "decode_fields table kvs r1 = Some r'" "P r1" for r1
  proof (rule Cons.IH [OF that])
    fix k' v' f a b
    assume "(k', v') \<in> set kvs" "find_field table k' = Some f" "f v' a = Some b" "P a"
    then show "P b" by (intro keeps [of k' v' f a b]) auto
  qed
  show ?case
  proof (cases "find_field table k")
    case None
    with Cons.prems show ?thesis by (intro rest [of r]) (simp_all add: kv)
  next
    case (Some f)
    with Cons.prems obtain r1 where "f v r = Some r1" "decode_fields table kvs r1 = Some r'"
      by (auto simp: kv split: option.splits)
    with Some Cons.prems(2) show ?thesis by (intro rest [of r1]) (auto simp: kv intro: keeps)
  qed
qed simp

lemma find_field_cases:
  assumes "find_field table k = Some f"
  obtains n where "(n, f) \<in> set table" "fold_name n = fold_name k"
  using assms by (fastforce simp: find_field_def find_Some_iff in_set_conv_nth dest: map_of_SomeD split: option.splits)

text \<open>The names of the sections are five different ones, also when case is ignored.\<close>

lemma fold_names:
  "fold_name ''server'' = ''server''" "fold_name ''client'' = ''client''" "fold_name ''logging'' = ''logging''"
  "fold_name ''storage'' = ''storage''" "fold_name ''metrics'' = ''metrics''"
  by (code_simp)+

lemma no_server_no_change:
  assumes d: "decode_fields config_fields kvs zero_config_json = Some j" and k: "''server'' \<notin> fold_name ` fst ` set kvs"
  shows "jc_Server j = zero_server_json"
proof (rule decode_fields_keeps [OF d, where P = "\<lambda>j. jc_Server j = zero_server_json"])
  fix k v f and r r' :: config_json
  assume kv: "(k, v) \<in> set kvs" "find_field config_fields k = Some f" "f v r = Some r'" "jc_Server r = zero_server_json"
  then have "''server'' \<noteq> fold_name k" using k by force
  with kv show "jc_Server r' = zero_server_json"
    by (elim find_field_cases) (auto simp: config_fields_def struct_field_def fold_names)
qed (simp add: zero_config_json_def)

lemma no_client_no_change:
  assumes d: "decode_fields config_fields kvs zero_config_json = Some j" and k: "''client'' \<notin> fold_name ` fst ` set kvs"
  shows "jc_Client j = zero_client_json"
proof (rule decode_fields_keeps [OF d, where P = "\<lambda>j. jc_Client j = zero_client_json"])
  fix k v f and r r' :: config_json
  assume kv: "(k, v) \<in> set kvs" "find_field config_fields k = Some f" "f v r = Some r'" "jc_Client r = zero_client_json"
  then have "''client'' \<noteq> fold_name k" using k by force
  with kv show "jc_Client r' = zero_client_json"
    by (elim find_field_cases) (auto simp: config_fields_def struct_field_def fold_names)
qed (simp add: zero_config_json_def)

lemma zero_not_converted: "convertJSONConfig fl j c \<noteq> Ok c'"
  if "jc_Server j = zero_server_json \<or> jc_Client j = zero_client_json"
  using that
  by (auto simp: convertJSONConfig_def res_bind_Ok_iff convertServerConfig_def convertClientConfig_def Let_def
      zero_server_json_def zero_client_json_def)

text \<open>
  A file without a section for the server, or without one for the client, is refused: the durations of a missing
  section are empty strings.
\<close>

theorem missing_section_refused:
  assumes "''server'' \<notin> fold_name ` fst ` set kvs \<or> ''client'' \<notin> fold_name ` fst ` set kvs"
  shows "\<exists>e. parsed_config fl (Json (JObj kvs)) = Err e"
proof -
  have "parsed_config fl (Json (JObj kvs)) \<noteq> Ok c" for c
  proof (cases "decode_fields config_fields kvs zero_config_json")
    case (Some j)
    then have "jc_Server j = zero_server_json \<or> jc_Client j = zero_client_json"
      using assms no_server_no_change no_client_no_change by blast
    from zero_not_converted [OF this, of fl getDefaultConfig c] Some show ?thesis
      by (simp add: parsed_config_def decode_struct_def)
  qed (simp add: parsed_config_def decode_struct_def)
  then show ?thesis by (cases "parsed_config fl (Json (JObj kvs))") auto
qed

lemma missing_section_refused_witness:
  "\<exists>e. parsed_config (\<lambda>x. x) (Json (JObj [(''Server'', JObj [(''host'', JStr ''0.0.0.0'')])])) = Err e"
proof (rule missing_section_refused)
  have "fold_name ''Server'' = ''server''" by code_simp
  then show "''server'' \<notin> fold_name ` fst ` set [(''Server'', JObj [(''host'', JStr ''0.0.0.0'')])] \<or>
    ''client'' \<notin> fold_name ` fst ` set [(''Server'', JObj [(''host'', JStr ''0.0.0.0'')])]" by simp
qed

section \<open>Saving\<close>

lemma write_config_Ok:
  assumes "write_config out f c d = (Ok (), d')"
  shows "dk_files d' (Clean f) = Some (Json (config_document c))"
  using assms
  by (auto simp: write_config_def MkdirAll_def MarshalIndent_def WriteFile_def os_call_def
      split: os_outcome.splits if_splits prod.splits)

text \<open>The first duration of the document is a number where a string is expected.\<close>

lemma config_document_refused: "parsed_config fl (Json (config_document c)) = Err (Errorf ''failed to parse config file'')"
proof -
  have n: "decode_struct server_fields (server_document s) j = None" for s j
    by (simp add: decode_struct_def server_document_def server_fields_def find_field_def str_field_def int_field_def)
  have f: "find_field config_fields ''server'' = Some (struct_field server_fields jc_Server jc_Server_update)"
    by (simp add: config_fields_def find_field_def)
  have "struct_field server_fields jc_Server jc_Server_update (server_document s) j = None"
    for s and j :: config_json
    by (simp add: struct_field_def n)
  then have "decode_struct config_fields (config_document c) j = None" for j
    by (simp add: decode_struct_def config_document_def f)
  then show ?thesis by (simp add: parsed_config_def)
qed

lemma written_config_refused:
  assumes "dk_files d (Clean (cm_configPath cm)) = Some (Json (config_document c))" "cm_configPath cm \<noteq> ''''"
  shows "\<exists>e d'. LoadConfig fl out cm d = (Err e, cm, d')"
  using assms config_document_refused [of fl c]
  by (auto simp: LoadConfig_loaded loaded_config_def fileExists_simp stat_found_def ReadFile_def os_call_def split_beta)

text \<open>
  No configuration that \<open>SaveConfig\<close> has written can be loaded: the durations are written as numbers and read as
  strings.  The same holds of the file that \<open>CreateDefaultConfigFile\<close> makes.  A manager made for the file then has no
  server configuration, which \<open>examples/full-server\<close> passes on to \<open>NewServer\<close>.
\<close>

theorem saved_config_refused:
  assumes "SaveConfig out cm d = (Ok (), d1) \<or> CreateDefaultConfigFile out (cm_configPath cm) d = (Ok (), d1)"
    and "cm_configPath cm \<noteq> ''''"
  shows "(\<exists>e d2. LoadConfig fl out' cm d1 = (Err e, cm, d2)) \<and>
    (\<exists>e cm' d2. LoadConfig fl out' (NewConfigManager (cm_configPath cm)) d1 = (Err e, cm', d2)
       \<and> GetServerConfig cm' = None)"
proof -
  obtain c where "write_config out (cm_configPath cm) c d = (Ok (), d1)"
    using assms by (auto simp: SaveConfig_def CreateDefaultConfigFile_def split: option.splits if_splits)
  from write_config_Ok [OF this]
  have w: "dk_files d1 (Clean (cm_configPath cm')) = Some (Json (config_document c))"
    if "cm_configPath cm' = cm_configPath cm" for cm'
    using that by simp
  have r: "\<exists>e d'. LoadConfig fl out' cm' d1 = (Err e, cm', d')" if "cm_configPath cm' = cm_configPath cm" for cm'
    by (rule written_config_refused [OF w [OF that]]) (use that assms(2) in simp)
  show ?thesis
    using r [of cm] r [of "NewConfigManager (cm_configPath cm)"] by (auto simp: NewConfigManager_def GetServerConfig_def)
qed

section \<open>Durations in whole seconds\<close>

lemma atoi_digits_ge: "x \<le> atoi_digits x ds"
proof (induction ds arbitrary: x)
  case (Cons c ds)
  have "x \<le> x * 10 + (of_char c - 48)" by simp
  also have "\<dots> \<le> atoi_digits (x * 10 + (of_char c - 48)) ds" by (rule Cons.IH)
  finally show ?case by simp
qed simp

lemma leadingInt_digits:
  assumes "list_all is_digit ds" "atoi_digits x ds \<le> 2 ^ 63" "rest = [] \<or> \<not> is_digit (hd rest)"
  shows "leadingInt x (ds @ rest) = Some (atoi_digits x ds, rest)"
  using assms(1,2)
proof (induction ds arbitrary: x)
  case Nil
  with assms(3) show ?case by (cases rest) auto
next
  case (Cons c ds)
  have "x * 10 + digit_value c \<le> 2 ^ 63"
    using atoi_digits_ge [of "x * 10 + digit_value c" ds] Cons.prems(2) by (simp add: digit_value_def)
  with Cons show ?case by (simp add: digit_value_def)
qed

lemma duration_part_seconds:
  assumes "n * 1000000000 \<le> 2 ^ 63"
  shows "duration_part fl (itoa n @ ''s'') = Some (n * 1000000000, '''')"
proof -
  have hd: "is_digit (hd (itoa n @ ''s''))"
    using itoa_digits [of n] by (cases "itoa n") simp_all
  have l: "leadingInt 0 (itoa n @ ''s'') = Some (n, ''s'')"
    using leadingInt_digits [of "itoa n" 0 "''s''"] assms
    by (simp add: atoi_itoa itoa_digits is_digit_def)
  have u: "unit_of ''s'' = Some 1000000000" by (simp add: unit_of_def codes_def)
  have n: "\<not> 2 ^ 63 div 1000000000 < n" "\<not> 2 ^ 63 < n * 1000000000" using assms by simp_all
  have s: "takeWhile (\<lambda>c. c \<noteq> CHR ''.'' \<and> \<not> is_digit c) ''s'' = ''s''"
    "dropWhile (\<lambda>c. c \<noteq> CHR ''.'' \<and> \<not> is_digit c) ''s'' = ''''" by (simp_all add: is_digit_def)
  show ?thesis
    unfolding duration_part_def l option.case prod.case Let_def
    using hd n by (simp add: s u) (simp add: is_digit_def)
qed

text \<open>
  \<open>time.ParseDuration\<close> reads a whole number of seconds, written in decimal and followed by \<open>s\<close>, as this number; no
  rounding is involved.
\<close>

theorem ParseDuration_seconds:
  assumes "n * 1000000000 < 2 ^ 63"
  shows "ParseDuration fl (itoa n @ ''s'') = Ok (int n * 1000000000)"
proof -
  have digit: "is_digit (hd (itoa n))" using itoa_digits [of n] by (cases "itoa n") simp_all
  have "hd (itoa n @ ''s'') \<noteq> CHR ''-''" "hd (itoa n @ ''s'') \<noteq> CHR ''+''"
    using digit by (auto simp: is_digit_def)
  moreover have "itoa n @ ''s'' \<noteq> ''0''" by (cases "itoa n" rule: rev_cases) auto
  moreover have "duration_parts fl 0 (itoa n @ ''s'') = Some (n * 1000000000)"
    using duration_part_seconds [of n fl] assms
    by (simp add: duration_parts.simps [of fl 0] duration_parts.simps [of fl _ "''''"] Let_def)
  ultimately show ?thesis
    using assms by (simp add: ParseDuration_def Let_def)
qed

lemma shipped_durations:
  "ParseDuration fl ''30s'' = Ok 30000000000" "ParseDuration fl ''10s'' = Ok 10000000000"
  "ParseDuration fl ''300s'' = Ok 300000000000" "ParseDuration fl ''60s'' = Ok 60000000000"
  "ParseDuration fl ''5s'' = Ok 5000000000"
proof -
  have "itoa 30 = ''30''" "itoa 10 = ''10''" "itoa 300 = ''300''" "itoa 60 = ''60''" "itoa 5 = ''5''"
    by code_simp+
  then show "ParseDuration fl ''30s'' = Ok 30000000000" "ParseDuration fl ''10s'' = Ok 10000000000"
    "ParseDuration fl ''300s'' = Ok 300000000000" "ParseDuration fl ''60s'' = Ok 60000000000"
    "ParseDuration fl ''5s'' = Ok 5000000000"
    using ParseDuration_seconds [of 30 fl] ParseDuration_seconds [of 10 fl] ParseDuration_seconds [of 300 fl]
      ParseDuration_seconds [of 60 fl] ParseDuration_seconds [of 5 fl] by simp_all
qed

section \<open>The shipped configuration\<close>

text \<open>The file \<open>configs/server.json\<close>\<close>

definition server_json :: json where
  "server_json = JObj
    [(''server'', JObj
       [(''host'', JStr ''localhost''), (''port'', JInt 2775), (''max_connections'', JInt 100),
        (''read_timeout'', JStr ''30s''), (''write_timeout'', JStr ''10s''), (''idle_timeout'', JStr ''300s''),
        (''enquire_link_timeout'', JStr ''60s''), (''bind_timeout'', JStr ''30s''), (''tls_enabled'', JBool False),
        (''tls_cert_file'', JStr ''''), (''tls_key_file'', JStr '''')]),
     (''client'', JObj
       [(''host'', JStr ''localhost''), (''port'', JInt 2775), (''system_id'', JStr ''test''),
        (''password'', JStr ''test''), (''system_type'', JStr ''SMPP''), (''bind_type'', JStr ''transceiver''),
        (''connect_timeout'', JStr ''10s''), (''read_timeout'', JStr ''30s''), (''write_timeout'', JStr ''10s''),
        (''enquire_link_interval'', JStr ''30s''), (''reconnect_interval'', JStr ''5s''),
        (''max_reconnect_attempts'', JInt 5), (''tls_enabled'', JBool False), (''tls_skip_verify'', JBool False)]),
     (''logging'', JObj
       [(''level'', JStr ''info''), (''format'', JStr ''text''), (''output'', JStr ''stdout''), (''file'', JStr ''''),
        (''max_size'', JInt 100), (''max_backups'', JInt 3), (''max_age'', JInt 28), (''compress'', JBool True)]),
     (''storage'', JObj
       [(''type'', JStr ''memory''), (''data_dir'', JStr ''./data''),
        (''database'', JObj
          [(''driver'', JStr ''postgres''), (''host'', JStr ''localhost''), (''port'', JInt 5432),
           (''username'', JStr ''smpp''), (''password'', JStr ''smpp''), (''database'', JStr ''smpp''),
           (''ssl_mode'', JStr ''disable'')])]),
     (''metrics'', JObj
       [(''enabled'', JBool False), (''port'', JInt 9090), (''path'', JStr ''/metrics''), (''namespace'', JStr ''smpp''),
        (''subsystem'', JStr ''server'')])]"

lemma server_json_parsed: "parsed_config fl (Json server_json) = Ok getDefaultConfig"
proof -
  define j where "j = \<lparr>jc_Server = \<lparr>sj_Host = ''localhost'', sj_Port = 2775, sj_MaxConnections = 100,
       sj_ReadTimeout = ''30s'', sj_WriteTimeout = ''10s'', sj_IdleTimeout = ''300s'', sj_EnquireLinkTimeout = ''60s'',
       sj_BindTimeout = ''30s'', sj_TLSEnabled = False, sj_TLSCertFile = '''', sj_TLSKeyFile = '''', sj_LogLevel = '''',
       sj_LogFile = '''', sj_MetricsEnabled = False, sj_MetricsPort = 0\<rparr>,
     jc_Client = \<lparr>cj_Host = ''localhost'', cj_Port = 2775, cj_SystemID = ''test'', cj_Password = ''test'',
       cj_SystemType = ''SMPP'', cj_BindType = ''transceiver'', cj_ConnectTimeout = ''10s'', cj_ReadTimeout = ''30s'',
       cj_WriteTimeout = ''10s'', cj_EnquireLinkInterval = ''30s'', cj_ReconnectInterval = ''5s'',
       cj_MaxReconnectAttempts = 5, cj_TLSEnabled = False, cj_TLSSkipVerify = False, cj_LogLevel = ''''\<rparr>,
     jc_Logging = cf_Logging getDefaultConfig, jc_Storage = cf_Storage getDefaultConfig,
     jc_Metrics = cf_Metrics getDefaultConfig\<rparr>"
  have "decode_struct config_fields server_json zero_config_json = Some j"
    by (simp add: decode_struct_def server_json_def config_fields_def find_field_def struct_field_def zero_config_json_def
        server_fields_def client_fields_def logging_fields_def storage_fields_def database_fields_def metrics_fields_def
        str_field_def int_field_def bool_field_def zero_server_json_def zero_client_json_def getDefaultConfig_def j_def)
  moreover have "convertJSONConfig fl j getDefaultConfig = Ok getDefaultConfig"
    by (simp add: j_def convertJSONConfig_def convertServerConfig_def convertClientConfig_def shipped_durations
        getDefaultConfig_def)
  ultimately show ?thesis by (simp add: parsed_config_def)
qed

lemma getDefaultConfig_valid: "config_valid found getDefaultConfig"
  by (simp add: getDefaultConfig_def config_valid_def valid_port_def tls_valid_def)

text \<open>
  The defaults are used when no file is configured and when \<open>os.Stat\<close> says that it is missing, and they are what
  \<open>configs/server.json\<close> contains: each time \<open>LoadConfig\<close> returns and installs them.
\<close>

theorem LoadConfig_default:
  assumes "cm_configPath cm = ''''
      \<or> out (dk_calls d) = Done \<and> dk_files d (Clean (cm_configPath cm)) = None
      \<or> out (dk_calls d + 1) = Done \<and> dk_files d (Clean (cm_configPath cm)) = Some (Json server_json)"
  shows "\<exists>d'. LoadConfig fl out cm d = (Ok getDefaultConfig, cm\<lparr>cm_config := Some getDefaultConfig\<rparr>, d')"
proof -
  have "fst (loaded_config fl out cm d) = Ok getDefaultConfig"
    using assms
    by (auto simp: loaded_config_def fileExists_simp stat_found_def ReadFile_def os_call_def server_json_parsed split_beta)
  then obtain d2 where l: "loaded_config fl out cm d = (Ok getDefaultConfig, d2)"
    by (cases "loaded_config fl out cm d") auto
  let ?cm = "cm\<lparr>cm_config := Some getDefaultConfig\<rparr>"
  have "fst (cm_Validate out ?cm d2) = Ok ()"
    using cm_Validate_Some [of ?cm getDefaultConfig out d2] getDefaultConfig_valid by simp
  then obtain d3 where "cm_Validate out ?cm d2 = (Ok (), d3)" by (cases "cm_Validate out ?cm d2") auto
  with l show ?thesis by (simp add: LoadConfig_loaded)
qed

text \<open>A disk with one file\<close>

definition config_disk :: "json \<Rightarrow> json disk" where
  "config_disk j = \<lparr>dk_files = [Clean ''server.json'' \<mapsto> Json j], dk_calls = 0\<rparr>"

lemma LoadConfig_default_witness:
  "\<exists>d'. LoadConfig (\<lambda>x. x) (\<lambda>_. Done) (NewConfigManager ''server.json'') (config_disk server_json) =
     (Ok getDefaultConfig, (NewConfigManager ''server.json'')\<lparr>cm_config := Some getDefaultConfig\<rparr>, d')"
  by (rule LoadConfig_default) (simp add: config_disk_def NewConfigManager_def)

lemma saved_config_refused_witness:
  "\<exists>d1. SaveConfig (\<lambda>_. Done) \<lparr>cm_configPath = ''server.json'', cm_config = Some getDefaultConfig\<rparr> (config_disk JNull) = (Ok (), d1) \<and>
     (\<exists>e cm' d2. LoadConfig (\<lambda>x. x) (\<lambda>_. Done) (NewConfigManager ''server.json'') d1 = (Err e, cm', d2)
        \<and> GetServerConfig cm' = None)"
proof -
  let ?cm = "\<lparr>cm_configPath = ''server.json'', cm_config = Some getDefaultConfig\<rparr>"
  obtain d1 where s: "SaveConfig (\<lambda>_. Done) ?cm (config_disk JNull) = (Ok (), d1)"
    by (simp add: SaveConfig_def write_config_def MkdirAll_def MarshalIndent_def WriteFile_def os_call_def)
  have "\<exists>e cm' d2. LoadConfig (\<lambda>x. x) (\<lambda>_. Done) (NewConfigManager ''server.json'') d1 = (Err e, cm', d2)
        \<and> GetServerConfig cm' = None"
    using saved_config_refused [of "\<lambda>_. Done" ?cm "config_disk JNull" d1 "\<lambda>x. x" "\<lambda>_. Done"] s by simp
  with s show ?thesis by blast
qed

section \<open>Updating\<close>

text \<open>
  An update of a supported type installs the new configuration before it is validated: an invalid one is reported
  and remains in use, and \<open>GetServerConfig\<close> gives its server section.  An update of another type changes nothing.
\<close>

theorem UpdateConfig_installs:
  "case UpdateConfig out cm update d of (r, cm', d') \<Rightarrow>
     dk_files d' = dk_files d \<and> r \<noteq> Panic \<and>
     (if update = Unsupported then cm' = cm \<and> r \<noteq> Ok ()
      else \<exists>c. cm' = cm\<lparr>cm_config := Some c\<rparr> \<and> (r = Ok () \<longleftrightarrow> config_valid (stat_found out d) c))"
proof (cases "update = Unsupported")
  case False
  then obtain c where u: "updated_config update (cm_config cm) = Some c"
    by (cases "updated_config update (cm_config cm)") (simp_all add: updated_config_def Let_def split: config_update.splits)
  obtain r d' where v: "cm_Validate out (cm\<lparr>cm_config := Some c\<rparr>) d = (r, d')" by force
  then show ?thesis
    using False cm_Validate_Some [of "cm\<lparr>cm_config := Some c\<rparr>" c out d] cm_Validate_files [of out "cm\<lparr>cm_config := Some c\<rparr>" d]
    by (auto simp: UpdateConfig_def u)
qed (simp add: UpdateConfig_def updated_config_def)

text \<open>A server section with port 0 is reported as invalid and then used.\<close>

theorem invalid_update_stays:
  "fst (UpdateConfig out cm (NewServer (s\<lparr>sv_Port := 0\<rparr>)) d) \<noteq> Ok ()
   \<and> map_option sv_Port (GetServerConfig (fst (snd (UpdateConfig out cm (NewServer (s\<lparr>sv_Port := 0\<rparr>)) d)))) = Some 0"
proof -
  let ?c = "(case cm_config cm of None \<Rightarrow> getDefaultConfig | Some c \<Rightarrow> c)\<lparr>cf_Server := s\<lparr>sv_Port := 0\<rparr>\<rparr>"
  have u: "updated_config (NewServer (s\<lparr>sv_Port := 0\<rparr>)) (cm_config cm) = Some ?c"
    by (simp add: updated_config_def)
  have "\<not> config_valid (stat_found out d) ?c" by (simp add: config_valid_def valid_port_def)
  then have "fst (cm_Validate out (cm\<lparr>cm_config := Some ?c\<rparr>) d) \<noteq> Ok ()" by (simp add: cm_Validate_Some)
  then show ?thesis unfolding UpdateConfig_def u by (simp add: split_beta GetServerConfig_def)
qed

end
