(* ===== verification/FullServer.thy ===== *)
theory FullServer
  imports FileService Config Auth
begin

text \<open>
  The server that \<open>examples/full-server/main.go\<close> puts together: the configuration with its fallback, file storage,
  the users of \<open>internal/auth\<close>, the router, the queue and the splitter behind the message handler, and the server on
  top of them.  The contracts of the parts are the assumptions of the locale \<open>message_server\<close>, so a session of bytes
  with this server can be followed to the disk and over a restart.
\<close>

section \<open>Starting\<close>

definition fallback_config :: config where
  "fallback_config = \<lparr>
     cf_Server = \<lparr>sv_Host = ''localhost'', sv_Port = 2775, sv_MaxConnections = 10, sv_ReadTimeout = 30000000000,
       sv_WriteTimeout = 10000000000, sv_IdleTimeout = 300000000000, sv_EnquireLinkTimeout = 60000000000,
       sv_BindTimeout = 30000000000, sv_TLSEnabled = False, sv_TLSCertFile = '''', sv_TLSKeyFile = '''',
       sv_LogLevel = ''info'', sv_LogFile = '''', sv_MetricsEnabled = False, sv_MetricsPort = 0\<rparr>,
     cf_Client = \<lparr>cc_Host = '''', cc_Port = 0, cc_SystemID = '''', cc_Password = '''', cc_SystemType = '''',
       cc_BindType = '''', cc_TLSEnabled = False, cc_MaxReconnectAttempts = 0, cc_ConnectTimeout = 0, cc_ReadTimeout = 0,
       cc_WriteTimeout = 0, cc_EnquireLinkInterval = 0, cc_ReconnectInterval = 0, cc_TLSSkipVerify = False,
       cc_LogLevel = ''''\<rparr>,
     cf_Logging = \<lparr>lg_Level = ''info'', lg_Format = ''text'', lg_Output = ''stdout'', lg_File = '''', lg_MaxSize = 0,
       lg_MaxBackups = 0, lg_MaxAge = 0, lg_Compress = False\<rparr>,
     cf_Storage = \<lparr>st_Type = ''memory'', st_DataDir = ''./data'', st_Database = \<lparr>db_Driver = '''', db_Host = '''',
       db_Port = 0, db_Username = '''', db_Password = '''', db_Database = '''', db_SSLMode = ''''\<rparr>\<rparr>,
     cf_Metrics = \<lparr>mt_Enabled = False, mt_Port = 0, mt_Path = '''', mt_Namespace = '''', mt_Subsystem = ''''\<rparr>\<rparr>"

text \<open>The configuration for the logger and the storage, and the one for the server.\<close>

definition load_or_fallback ::
    "(rat \<Rightarrow> rat) \<Rightarrow> (nat \<Rightarrow> os_outcome) \<Rightarrow> string \<Rightarrow> json disk \<Rightarrow> (config \<times> server_config option) \<times> json disk" where
  "load_or_fallback fl out configPath d =
     (case LoadConfig fl out (NewConfigManager configPath) d of (r, cm, d') \<Rightarrow>
        ((case r of Ok c \<Rightarrow> c | _ \<Rightarrow> fallback_config, GetServerConfig cm), d'))"

text \<open>\<open>Start\<close> reads the host of the server's configuration first: a nil dereference without one.\<close>

definition start_config ::
    "(rat \<Rightarrow> rat) \<Rightarrow> (nat \<Rightarrow> os_outcome) \<Rightarrow> string \<Rightarrow> json disk \<Rightarrow> (config \<times> server_config) result" where
  "start_config fl out configPath d =
     (case fst (load_or_fallback fl out configPath d) of
        (cfg, None) \<Rightarrow> Panic
      | (cfg, Some s) \<Rightarrow> Ok (cfg, s))"

definition open_file_stores ::
    "(nat \<Rightarrow> os_outcome) \<Rightarrow> (nat \<Rightarrow> os_outcome) \<Rightarrow> string \<Rightarrow> (string \<times> bool) list \<Rightarrow> (string \<times> bool) list \<Rightarrow>
     message disk \<Rightarrow> delivery_report disk \<Rightarrow> (file_sms_store \<times> file_report_store) option" where
  "open_file_stores out1 out2 dataDir es1 es2 d1 d2 =
     (case (fst (NewFileSMSStorage out1 dataDir es1 d1), fst (NewFileReportStorage out2 dataDir es2 d2)) of
        (Ok fs, Ok fr) \<Rightarrow> Some (fs, fr)
      | _ \<Rightarrow> None)"

definition full_router :: router where
  "full_router =
     AddRoute (AddRoute (AddRoute NewDefaultMessageRouter ''1'' ''usa-gateway'') ''44'' ''uk-gateway'') ''91'' ''india-gateway''"

definition full_handler ::
    "string list \<Rightarrow> (nat \<Rightarrow> time) \<Rightarrow> (file_sms_store, file_report_store, msg_queue) handler" where
  "full_handler order clock =
     file_handler True (Some (RouteMessage full_router order)) (Some memory_queue_ops)
       (Some (splitter_SplitMessage NewDefaultMessageSplitter)) clock"

definition full_server ::
    "(string \<Rightarrow> string) \<Rightarrow> server_config \<Rightarrow> string list \<Rightarrow> (nat \<Rightarrow> time) \<Rightarrow> (nat \<Rightarrow> time) \<Rightarrow>
     (user_auth, (file_sms_store, file_report_store, msg_queue) world) server" where
  "full_server hash cfg order hclock clock =
     \<lparr>srv_userAuth = hashed_user_ops hash, srv_messageHandler = handler_ops (full_handler order hclock),
      srv_eventPublisher = True, srv_clock = clock, srv_MaxConnections = sv_MaxConnections cfg,
      srv_IdleTimeout = sv_IdleTimeout cfg\<rparr>"

definition full_world ::
    "(string \<Rightarrow> string) \<Rightarrow> (nat \<Rightarrow> string \<times> string \<times> time \<times> time) \<Rightarrow> file_sms_store \<Rightarrow> file_report_store \<Rightarrow>
     (user_auth, (file_sms_store, file_report_store, msg_queue) world) server_world" where
  "full_world hash draws fs fr =
     \<lparr>sw_users = NewDefaultUserAuth hash draws,
      sw_handler = \<lparr>w_sms = fs, w_reports = fr, w_queue = NewInMemoryMessageQueue 1000, w_events = [], w_jobs = [], w_ticks = 0\<rparr>,
      sw_manager = NewInMemoryConnectionManager, sw_events = [], sw_ticks = 0\<rparr>"

text \<open>
  When the configuration cannot be loaded, the server does not run with the fallback, as the log says: either there is no
  configuration for it and \<open>Start\<close> panics, or it runs with the one that was refused.
\<close>

theorem fallback_not_used:
  assumes "LoadConfig fl out (NewConfigManager path) d = (Err e, cm, d')"
  shows "start_config fl out path d = Panic \<or>
    (\<exists>c s d2. start_config fl out path d = Ok (fallback_config, s) \<and> GetServerConfig \<lparr>cm_configPath = path, cm_config = Some c\<rparr> = Some s \<and>
       dk_files d2 = dk_files d \<and> \<not> config_valid (stat_found out d2) c)"
proof -
  have s: "start_config fl out path d = (case GetServerConfig cm of None \<Rightarrow> Panic | Some s \<Rightarrow> Ok (fallback_config, s))"
    by (simp add: start_config_def load_or_fallback_def assms)
  have "cm = NewConfigManager path \<or> (\<exists>c d2. cm = (NewConfigManager path)\<lparr>cm_config := Some c\<rparr> \<and> dk_files d2 = dk_files d \<and>
      \<not> config_valid (stat_found out d2) c)"
    using LoadConfig_cases [where fl = fl and out = out and cm = "NewConfigManager path" and d = d] assms by simp
  then show ?thesis
  proof (elim disjE exE conjE)
    assume "cm = NewConfigManager path"
    then show ?thesis by (simp add: s GetServerConfig_def NewConfigManager_def)
  next
    fix c d2
    assume "cm = (NewConfigManager path)\<lparr>cm_config := Some c\<rparr>" "dk_files d2 = dk_files d" "\<not> config_valid (stat_found out d2) c"
    then show ?thesis
      by (intro disjI2 exI [of _ c] exI conjI) (auto simp: s GetServerConfig_def NewConfigManager_def)
  qed
qed

text \<open>A server that is given the file of \<open>CreateDefaultConfigFile\<close> panics when it starts.\<close>

theorem default_file_stops_server:
  assumes "CreateDefaultConfigFile out path d = (Ok (), d1)" and "path \<noteq> ''''"
  shows "start_config fl out' path d1 = Panic"
proof -
  have "dk_files d1 (Clean path) = Some (Json (config_document getDefaultConfig))"
    using assms(1) write_config_Ok by (simp add: CreateDefaultConfigFile_def)
  then obtain e d' where "LoadConfig fl out' (NewConfigManager path) d1 = (Err e, NewConfigManager path, d')"
    using written_config_refused [where d = d1 and cm = "NewConfigManager path" and c = getDefaultConfig and fl = fl and out = out'] assms(2)
    by (auto simp: NewConfigManager_def)
  then show ?thesis
    by (simp add: start_config_def load_or_fallback_def GetServerConfig_def NewConfigManager_def)
qed

section \<open>Serving\<close>

interpretation full_messages: message_server "file_sms_ops (\<lambda>_. Done)" file_inv fs_messages plain_name
  "file_report_ops (\<lambda>_. Done)" fr_reports "full_handler order hclock" "full_server hash cfg order hclock clock"
  "\<lambda>u. True" "da_account hash"
  for hash cfg order hclock clock
proof -
  have "srv_userAuth (full_server hash cfg order hclock clock) = hashed_user_ops hash"
    "srv_messageHandler (full_server hash cfg order hclock clock) = handler_ops (full_handler order hclock)"
    by (simp_all add: full_server_def)
  then show "message_server (file_sms_ops (\<lambda>_. Done)) file_inv fs_messages plain_name
      (file_report_ops (\<lambda>_. Done)) fr_reports (full_handler order hclock) (full_server hash cfg order hclock clock)
      (\<lambda>u. True) (da_account hash)"
    using hashed_users.authenticator_axioms file_service.reliable_service_axioms
    by (simp add: message_server_def message_server_axioms_def full_handler_def)
qed

text \<open>
  C1. From the client's bytes to the disk and back: a client with a password of an account that binds as a transceiver,
  submits a message that can be decoded and is valid, and unbinds, gets the three positive responses and nothing else;
  and a server that is started anew on the same directory has the message under the ID of the response, with the text
  that the client has encoded and the destination that it has named, still to be sent.
\<close>

theorem full_server_message_durable:
  assumes "file_inv (w_sms (sw_handler w))" and "sc_active c"
    and "pdu_wf p1" and "Body p1 = BindRequest b" and "da_account hash (sw_users w) (br_SystemID b) (br_Password b)"
    and "pdu_wf p2" and "Body p2 = SubmitSM m"
    and "message_bytes (ss_ShortMessage m) (ss_OptionalParams m) \<noteq> []"
    and "Decode_text (message_bytes (ss_ShortMessage m) (ss_OptionalParams m)) (ss_DataCoding m) = Ok t"
    and "ValidateMessage (submit_message '''' zs m 0 t) = Ok ()"
    and "pdu_wf p3" and "Body p3 = EmptyBody Unbind"
  shows "\<exists>i s' c' w'. connectionLifecycle (full_server hash cfg order hclock clock)
      (\<lambda>_. Running) (\<lambda>_. \<lparr>no_deadline_ok = True, no_write_ok = True\<rparr>) addr
      (wire_bytes p1 @ wire_bytes p2 @ wire_bytes p3) c w = (None, s', c', w') \<and>
    sc_out c' = sc_out c @
      wire_bytes (BuildBindTransceiverResp (br_SystemID b) (h_SequenceNum (Header p1)) StatusOK) @
      wire_bytes (BuildSubmitSMResp i (h_SequenceNum (Header p2)) StatusOK) @
      wire_bytes (BuildUnbindResp (h_SequenceNum (Header p3))) \<and>
    (\<forall>dataDir es. Clean dataDir = fs_dataDir (w_sms (sw_handler w')) \<longrightarrow>
       lists_dir (fs_disk (w_sms (sw_handler w'))) (sms_dir (w_sms (sw_handler w'))) es \<longrightarrow>
       (\<exists>fs d st. NewFileSMSStorage (\<lambda>_. Done) dataDir es (fs_disk (w_sms (sw_handler w'))) = (Ok fs, d) \<and>
          file_inv fs \<and> fs_GetSMS fs i = Ok st \<and> m_Text st = json_string t \<and>
          a_Addr (m_DestAddr st) = json_string (ss_DestAddr m) \<and> m_Status st = MessageStatusSubmitted))"
proof -
  have "full_messages.winv w" using assms(1) by (simp add: full_messages.winv_def)
  from full_messages.served_session [OF this assms(2-12), of cfg order hclock clock addr]
  obtain i s' c' w' st where run: "connectionLifecycle (full_server hash cfg order hclock clock)
      (\<lambda>_. Running) (\<lambda>_. \<lparr>no_deadline_ok = True, no_write_ok = True\<rparr>) addr
      (wire_bytes p1 @ wire_bytes p2 @ wire_bytes p3) c w = (None, s', c', w')"
    "sc_out c' = sc_out c @
      wire_bytes (BuildBindTransceiverResp (br_SystemID b) (h_SequenceNum (Header p1)) StatusOK) @
      wire_bytes (BuildSubmitSMResp i (h_SequenceNum (Header p2)) StatusOK) @
      wire_bytes (BuildUnbindResp (h_SequenceNum (Header p3)))"
    and st: "fs_messages (w_sms (sw_handler w')) = (fs_messages (w_sms (sw_handler w)))(i \<mapsto> st)"
      "m_Text st = t" "a_Addr (m_DestAddr st) = ss_DestAddr m" "m_Status st = MessageStatusSubmitted"
    and inv: "file_inv (w_sms (sw_handler w'))"
    by (auto simp: full_messages.winv_def)
  have "\<exists>fs d st. NewFileSMSStorage (\<lambda>_. Done) dataDir es (fs_disk (w_sms (sw_handler w'))) = (Ok fs, d) \<and>
      file_inv fs \<and> fs_GetSMS fs i = Ok st \<and> m_Text st = json_string t \<and>
      a_Addr (m_DestAddr st) = json_string (ss_DestAddr m) \<and> m_Status st = MessageStatusSubmitted"
    if "Clean dataDir = fs_dataDir (w_sms (sw_handler w'))"
      "lists_dir (fs_disk (w_sms (sw_handler w'))) (sms_dir (w_sms (sw_handler w'))) es" for dataDir es
  proof -
    have sms: "file_sms_inv (w_sms (sw_handler w'))" using inv by (simp add: file_inv_def)
    from reopened [OF this that(2,1)] obtain fs d where
      new: "NewFileSMSStorage (\<lambda>_. Done) dataDir es (fs_disk (w_sms (sw_handler w'))) = (Ok fs, d)" "file_inv fs"
      and "fs_messages fs i = map_option json_message (fs_messages (w_sms (sw_handler w')) i)"
      using inv by (auto simp: file_inv_def agrees_def)
    then have f: "fs_messages fs i = Some (json_message st)" using st(1) by simp
    then have "i \<noteq> ''''" using file_sms.inv_ID [OF new(2)] by blast
    with f have "fs_GetSMS fs i = Ok (json_message st)" by (simp add: fs_GetSMS_def)
    with new st(2-4) show ?thesis
      by (intro exI [of _ fs] exI [of _ d] exI [of _ "json_message st"]) (simp add: json_message_def json_address_def)
  qed
  with run show ?thesis by blast
qed

lemma test_account: "da_account (\<lambda>x. x) (NewDefaultUserAuth (\<lambda>x. x) (\<lambda>k. (''i'', ''s'', 1, 2))) ''test'' ''test''"
  by (simp add: da_account_def NewDefaultUserAuth_def default_users_def default_user_def da_CreateUser_def created_user_def
      hashPassword_def Let_def)

theorem full_server_message_durable_witness:
  "\<exists>p1 p2 p3 i s' c' w'. connectionLifecycle (full_server (\<lambda>x. x) (cf_Server getDefaultConfig) [] int int)
      (\<lambda>_. Running) (\<lambda>_. \<lparr>no_deadline_ok = True, no_write_ok = True\<rparr>) ''a''
      (wire_bytes p1 @ wire_bytes p2 @ wire_bytes p3) example_conn
      (full_world (\<lambda>x. x) (\<lambda>k. (''i'', ''s'', 1, 2)) example_fs \<lparr>fr_dataDir = (False, [''data'']), fr_reports = Map.empty,
         fr_disk = \<lparr>dk_files = Map.empty, dk_calls = 0\<rparr>\<rparr>) = (None, s', c', w') \<and>
    sc_out c' = sc_out example_conn @
      wire_bytes (BuildBindTransceiverResp ''test'' (h_SequenceNum (Header p1)) StatusOK) @
      wire_bytes (BuildSubmitSMResp i (h_SequenceNum (Header p2)) StatusOK) @
      wire_bytes (BuildUnbindResp (h_SequenceNum (Header p3)))"
proof -
  let ?w = "full_world (\<lambda>x. x) (\<lambda>k. (''i'', ''s'', 1, 2)) example_fs \<lparr>fr_dataDir = (False, [''data'']), fr_reports = Map.empty,
         fr_disk = \<lparr>dk_files = Map.empty, dk_calls = 0\<rparr>\<rparr>"
  obtain p1 p2 p3 m where p1: "pdu_wf p1"
    "Body p1 = BindRequest \<lparr>br_SystemID = ''test'', br_Password = ''test'', br_SystemType = '''',
       br_InterfaceVersion = SMPPVersion, br_AddrTON = TONUnknown, br_AddrNPI = NPIUnknown, br_AddressRange = ''''\<rparr>"
    and p2: "pdu_wf p2" "Body p2 = SubmitSM m" "message_bytes (ss_ShortMessage m) (ss_OptionalParams m) \<noteq> []"
    "Decode_text (message_bytes (ss_ShortMessage m) (ss_OptionalParams m)) (ss_DataCoding m) = Ok ''hi''"
    "ValidateMessage (submit_message '''' example_session m 0 ''hi'') = Ok ()" "pdu_wf p3" "Body p3 = EmptyBody Unbind"
    by (rule example_submission [of "''test''" "''test''"]) (simp_all add: fits_def)
  have i: "file_inv (w_sms (sw_handler ?w))" using example_fs_inv by (simp add: full_world_def)
  have c: "sc_active example_conn" by (simp add: NewServerConnection_def)
  let ?b = "\<lparr>br_SystemID = ''test'', br_Password = ''test'', br_SystemType = '''', br_InterfaceVersion = SMPPVersion,
    br_AddrTON = TONUnknown, br_AddrNPI = NPIUnknown, br_AddressRange = ''''\<rparr>"
  have u: "da_account (\<lambda>x. x) (sw_users ?w) (br_SystemID ?b) (br_Password ?b)"
    using test_account by (simp add: full_world_def)
  from full_server_message_durable [OF i c p1 u p2, where cfg = "cf_Server getDefaultConfig" and order = "[]"
        and hclock = int and clock = int and addr = "''a''"]
  obtain i s' c' w' where "connectionLifecycle (full_server (\<lambda>x. x) (cf_Server getDefaultConfig) [] int int)
      (\<lambda>_. Running) (\<lambda>_. \<lparr>no_deadline_ok = True, no_write_ok = True\<rparr>) ''a''
      (wire_bytes p1 @ wire_bytes p2 @ wire_bytes p3) example_conn ?w = (None, s', c', w')"
    "sc_out c' = sc_out example_conn @
      wire_bytes (BuildBindTransceiverResp (br_SystemID ?b) (h_SequenceNum (Header p1)) StatusOK) @
      wire_bytes (BuildSubmitSMResp i (h_SequenceNum (Header p2)) StatusOK) @
      wire_bytes (BuildUnbindResp (h_SequenceNum (Header p3)))" by blast
  then show ?thesis
    by (intro exI [of _ p1] exI [of _ p2] exI [of _ p3] exI [of _ i] exI [of _ s'] exI [of _ c'] exI [of _ w'] conjI) simp_all
qed

text \<open>A configuration file that holds \<open>null\<close> is refused.\<close>

lemma null_config_refused:
  "\<exists>e cm d. LoadConfig (\<lambda>x. x) (\<lambda>_. Done) (NewConfigManager ''server.json'') (config_disk JNull) = (Err e, cm, d)"
proof -
  have "fst (loaded_config (\<lambda>x. x) (\<lambda>_. Done) (NewConfigManager ''server.json'') (config_disk JNull)) =
      Err (Wrap ''failed to convert config'' (Wrap ''failed to convert server config''
        (Wrap ''invalid read_timeout'' (Errorf ''time: invalid duration''))))"
    by (simp add: loaded_config_def fileExists_simp stat_found_def ReadFile_def os_call_def NewConfigManager_def config_disk_def
        parsed_config_def decode_struct_def zero_config_json_def zero_server_json_def convertJSONConfig_def convertServerConfig_def Let_def)
  then show ?thesis
    by (cases "loaded_config (\<lambda>x. x) (\<lambda>_. Done) (NewConfigManager ''server.json'') (config_disk JNull)")
      (auto simp: LoadConfig_loaded)
qed

theorem fallback_not_used_witness:
  "\<exists>e cm d. LoadConfig (\<lambda>x. x) (\<lambda>_. Done) (NewConfigManager ''server.json'') (config_disk JNull) = (Err e, cm, d) \<and>
    (start_config (\<lambda>x. x) (\<lambda>_. Done) ''server.json'' (config_disk JNull) = Panic \<or>
     (\<exists>c s d2. start_config (\<lambda>x. x) (\<lambda>_. Done) ''server.json'' (config_disk JNull) = Ok (fallback_config, s) \<and>
       GetServerConfig \<lparr>cm_configPath = ''server.json'', cm_config = Some c\<rparr> = Some s \<and>
       dk_files d2 = dk_files (config_disk JNull) \<and> \<not> config_valid (stat_found (\<lambda>_. Done) d2) c))"
proof -
  obtain e cm d where l: "LoadConfig (\<lambda>x. x) (\<lambda>_. Done) (NewConfigManager ''server.json'') (config_disk JNull) = (Err e, cm, d)"
    using null_config_refused by blast
  from fallback_not_used [OF l] l show ?thesis by blast
qed

theorem default_file_stops_server_witness:
  "\<exists>d1. CreateDefaultConfigFile (\<lambda>_. Done) ''server.json'' (config_disk JNull) = (Ok (), d1) \<and>
     start_config (\<lambda>x. x) (\<lambda>_. Done) ''server.json'' d1 = Panic"
proof -
  obtain d1 where d: "CreateDefaultConfigFile (\<lambda>_. Done) ''server.json'' (config_disk JNull) = (Ok (), d1)"
    by (simp add: CreateDefaultConfigFile_def write_config_def MkdirAll_def MarshalIndent_def WriteFile_def os_call_def)
  from default_file_stops_server [OF d] d show ?thesis by simp
qed

end
