(* ===== verification/Logger.thy ===== *)
theory Logger
  imports Prelude
begin

text \<open>
  The loggers: \<open>internal/logger/logger.go\<close>, and what it has in common with the logger of
  \<open>pkg/smpp/simple_client.go\<close>, the contract \<open>leveled_logger\<close>.  A method returns the line that is printed, if any, without
  the date that the package log puts before it; fields are given as \<open>%v\<close> formats them.
\<close>

section \<open>Levels\<close>

datatype log_level = LevelDebug | LevelInfo | LevelWarn | LevelError | LevelFatal

fun level_code :: "log_level \<Rightarrow> nat" where
  "level_code LevelDebug = 0"
| "level_code LevelInfo = 1"
| "level_code LevelWarn = 2"
| "level_code LevelError = 3"
| "level_code LevelFatal = 4"

lemma level_code_inject [simp]: "level_code a = level_code b \<longleftrightarrow> a = b"
  by (cases a; cases b) simp_all

instantiation log_level :: linorder
begin

definition less_eq_log_level :: "log_level \<Rightarrow> log_level \<Rightarrow> bool" where
  "less_eq_log_level a b \<longleftrightarrow> level_code a \<le> level_code b"

definition less_log_level :: "log_level \<Rightarrow> log_level \<Rightarrow> bool" where
  "less_log_level a b \<longleftrightarrow> level_code a < level_code b"

instance
  by standard (auto simp: less_eq_log_level_def less_log_level_def)

end

text \<open>
  \<open>strings.ToLower\<close>, as far as a comparison with ASCII names can see it: beside the capitals, two runes have an ASCII
  letter as lower case, U+0130 (the bytes C4 B0) and U+212A (E2 84 AA).
\<close>

function ToLower :: "string \<Rightarrow> string" where
  "ToLower s =
     (if s = '''' then ''''
      else if take 2 (map of_char s) = [0xC4, 0xB0 :: nat] then CHR ''i'' # ToLower (drop 2 s)
      else if take 3 (map of_char s) = [0xE2, 0x84, 0xAA :: nat] then CHR ''k'' # ToLower (drop 3 s)
      else (let c = of_char (hd s) :: nat in if 65 \<le> c \<and> c \<le> 90 then char_of (c + 32) else hd s) # ToLower (tl s))"
  by pat_completeness auto
termination
  by (relation "measure length") auto

declare ToLower.simps [simp del]

definition level_of :: "string \<Rightarrow> log_level" where
  "level_of s =
     (if s = ''debug'' then LevelDebug else if s = ''info'' then LevelInfo
      else if s = ''warn'' \<or> s = ''warning'' then LevelWarn else if s = ''error'' then LevelError
      else if s = ''fatal'' then LevelFatal else LevelInfo)"

section \<open>Lines\<close>

fun Join_spaces :: "string list \<Rightarrow> string" where
  "Join_spaces [] = ''''"
| "Join_spaces [s] = s"
| "Join_spaces (s # ss) = s @ '' '' @ Join_spaces ss"

text \<open>Keys and values in turn; a last key without a value is printed alone.\<close>

fun key_values :: "string list \<Rightarrow> string list" where
  "key_values (k # v # fs) = (k @ ''='' @ v) # key_values fs"
| "key_values [k] = [k]"
| "key_values [] = []"

section \<open>DefaultLogger\<close>

record default_logger =
  dl_level :: log_level
  dl_fields :: "string \<rightharpoonup> string"

definition NewDefaultLogger :: "string \<Rightarrow> default_logger" where
  "NewDefaultLogger level = \<lparr>dl_level = level_of (ToLower level), dl_fields = Map.empty\<rparr>"

text \<open>\<open>order\<close> is the order in which Go ranges over the fields of the logger.\<close>

definition logWithFields :: "string list \<Rightarrow> default_logger \<Rightarrow> string \<Rightarrow> string \<Rightarrow> string list \<Rightarrow> string" where
  "logWithFields order l level msg fs =
     Join_spaces ([''['' @ level @ '']'', msg] @ map (\<lambda>k. k @ ''='' @ the (dl_fields l k)) order @ key_values fs)"

definition dl_Debug :: "string list \<Rightarrow> default_logger \<Rightarrow> string \<Rightarrow> string list \<Rightarrow> string option" where
  "dl_Debug order l msg fs = (if dl_level l \<le> LevelDebug then Some (logWithFields order l ''DEBUG'' msg fs) else None)"

definition dl_Info :: "string list \<Rightarrow> default_logger \<Rightarrow> string \<Rightarrow> string list \<Rightarrow> string option" where
  "dl_Info order l msg fs = (if dl_level l \<le> LevelInfo then Some (logWithFields order l ''INFO'' msg fs) else None)"

definition dl_Warn :: "string list \<Rightarrow> default_logger \<Rightarrow> string \<Rightarrow> string list \<Rightarrow> string option" where
  "dl_Warn order l msg fs = (if dl_level l \<le> LevelWarn then Some (logWithFields order l ''WARN'' msg fs) else None)"

definition dl_Error :: "string list \<Rightarrow> default_logger \<Rightarrow> string \<Rightarrow> string list \<Rightarrow> string option" where
  "dl_Error order l msg fs = (if dl_level l \<le> LevelError then Some (logWithFields order l ''ERROR'' msg fs) else None)"

text \<open>The line, whatever the level, and the code with which the process exits.\<close>

definition dl_Fatal :: "string list \<Rightarrow> default_logger \<Rightarrow> string \<Rightarrow> string list \<Rightarrow> string \<times> int" where
  "dl_Fatal order l msg fs = (logWithFields order l ''FATAL'' msg fs, 1)"

definition WithFields :: "default_logger \<Rightarrow> (string \<rightharpoonup> string) \<Rightarrow> default_logger" where
  "WithFields l fs = \<lparr>dl_level = dl_level l, dl_fields = dl_fields l ++ fs\<rparr>"

section \<open>The contract of a logger\<close>

text \<open>
  A logger has a threshold from 0 (everything) to 4 (nothing below fatal), and prints exactly what reaches it.
\<close>

locale leveled_logger =
  fixes threshold :: "'l \<Rightarrow> nat"
    and debug info warn error :: "'l \<Rightarrow> string \<Rightarrow> string list \<Rightarrow> string option"
  assumes debug: "debug l msg fs \<noteq> None \<longleftrightarrow> threshold l \<le> 0"
    and info: "info l msg fs \<noteq> None \<longleftrightarrow> threshold l \<le> 1"
    and warn: "warn l msg fs \<noteq> None \<longleftrightarrow> threshold l \<le> 2"
    and error: "error l msg fs \<noteq> None \<longleftrightarrow> threshold l \<le> 3"
begin

lemma louder_printed:
  "debug l m fs \<noteq> None \<Longrightarrow> info l m' fs' \<noteq> None"
  "info l m fs \<noteq> None \<Longrightarrow> warn l m' fs' \<noteq> None"
  "warn l m fs \<noteq> None \<Longrightarrow> error l m' fs' \<noteq> None"
  by (simp_all only: debug info warn error)

text \<open>Loggers with the same threshold print the same calls, whatever their fields.\<close>

lemma printed_by_threshold:
  assumes "threshold l = threshold l'"
  shows "(debug l m fs = None) = (debug l' m fs = None)" "(info l m fs = None) = (info l' m fs = None)"
    "(warn l m fs = None) = (warn l' m fs = None)" "(error l m fs = None) = (error l' m fs = None)"
  using assms debug [of l m fs] debug [of l' m fs] info [of l m fs] info [of l' m fs]
    warn [of l m fs] warn [of l' m fs] error [of l m fs] error [of l' m fs] by auto

end

interpretation default_logger: leveled_logger "\<lambda>l. level_code (dl_level l)" "dl_Debug order" "dl_Info order"
    "dl_Warn order" "dl_Error order"
  by unfold_locales (simp_all add: dl_Debug_def dl_Info_def dl_Warn_def dl_Error_def less_eq_log_level_def)

section \<open>What is printed\<close>

fun level_name :: "log_level \<Rightarrow> string" where
  "level_name LevelDebug = ''debug''"
| "level_name LevelInfo = ''info''"
| "level_name LevelWarn = ''warn''"
| "level_name LevelError = ''error''"
| "level_name LevelFatal = ''fatal''"

lemma ToLower_Cons:
  "of_char c < (128 :: nat) \<Longrightarrow>
   ToLower (c # s) = (if 65 \<le> (of_char c :: nat) \<and> of_char c \<le> (90 :: nat) then char_of (of_char c + 32 :: nat) else c) # ToLower s"
  by (subst ToLower.simps) (auto simp: Let_def)

lemma ToLower_Nil [simp]: "ToLower '''' = ''''"
  by (simp add: ToLower.simps)

lemma ToLower_level_name [simp]: "ToLower (level_name l) = level_name l"
  by (cases l) (simp_all add: ToLower_Cons)

lemma level_of_name [simp]: "level_of (level_name l) = l"
  by (cases l) (simp_all add: level_of_def)

text \<open>
  The names of the levels are read back, in any case of their letters; a logger made by \<open>WithFields\<close> has the level of
  the one it was made from, and the fields of the later call win.
\<close>

theorem level_names:
  assumes "ToLower s = level_name l"
  shows "dl_level (NewDefaultLogger s) = l \<and> NewDefaultLogger (level_name l) = NewDefaultLogger s
   \<and> dl_level (WithFields (NewDefaultLogger s) f) = l \<and> WithFields (WithFields lg f) g = WithFields lg (f ++ g)"
  using assms by (simp add: NewDefaultLogger_def WithFields_def)

lemma level_names_witness: "dl_level (NewDefaultLogger ''WARN'') = LevelWarn"
proof -
  have "ToLower ''WARN'' = level_name LevelWarn" by code_simp
  from level_names [OF this] show ?thesis by simp
qed

lemma Join_spaces_append: "xs \<noteq> [] \<Longrightarrow> ys \<noteq> [] \<Longrightarrow> Join_spaces (xs @ ys) = Join_spaces xs @ '' '' @ Join_spaces ys"
  by (induction xs rule: Join_spaces.induct) (auto simp: neq_Nil_conv)

text \<open>
  A line does not tell where a value ends: one field with a forged value gives the line of two fields.
\<close>

theorem forged_field:
  "logWithFields order l level msg [k, v @ '' '' @ k' @ ''='' @ v'] = logWithFields order l level msg [k, v, k', v']"
  using Join_spaces_append [of "[''['' @ level @ '']'', msg] @ map (\<lambda>k. k @ ''='' @ the (dl_fields l k)) order"]
  by (simp add: logWithFields_def)

end
