(* ===== verification/SimpleClient.thy ===== *)
theory SimpleClient
  imports Config ClientFlow Logger
begin

text \<open>
  The simplified client, \<open>pkg/smpp/simple_client.go\<close>: options merged with defaults, a logger, and a \<open>Connect\<close> that
  binds.  The PDUs that the client reads while \<open>Connect\<close> sleeps are an argument.
\<close>

section \<open>The logger\<close>

text \<open>What is printed, if anything; the fields are given as they are formatted by \<open>%v\<close>.\<close>

fun field_parts :: "string list \<Rightarrow> string list" where
  "field_parts (k # v # fs) = (k @ ''='' @ v) # field_parts fs"
| "field_parts _ = []"

definition sl_Debug :: "string \<Rightarrow> string \<Rightarrow> string list \<Rightarrow> string option" where
  "sl_Debug level msg fs =
     (if level = ''debug'' then Some (Join_spaces ([''[DEBUG]'', msg] @ field_parts fs)) else None)"

definition sl_Info :: "string \<Rightarrow> string \<Rightarrow> string list \<Rightarrow> string option" where
  "sl_Info level msg fs =
     (if level = ''debug'' \<or> level = ''info'' then Some (Join_spaces ([''[INFO]'', msg] @ field_parts fs)) else None)"

definition sl_Warn :: "string \<Rightarrow> string \<Rightarrow> string list \<Rightarrow> string option" where
  "sl_Warn level msg fs =
     (if level \<noteq> ''error'' then Some (Join_spaces ([''[WARN]'', msg] @ field_parts fs)) else None)"

definition sl_Error :: "string \<Rightarrow> string \<Rightarrow> string list \<Rightarrow> string option" where
  "sl_Error level msg fs = Some (Join_spaces ([''[ERROR]'', msg] @ field_parts fs))"

text \<open>It keeps the contract of a logger: every level but \<open>error\<close> prints warnings.\<close>

definition simple_threshold :: "string \<Rightarrow> nat" where
  "simple_threshold level = (if level = ''debug'' then 0 else if level = ''info'' then 1 else if level = ''error'' then 3 else 2)"

interpretation simple_logger: leveled_logger simple_threshold sl_Debug sl_Info sl_Warn sl_Error
  by unfold_locales (simp_all add: sl_Debug_def sl_Info_def sl_Warn_def sl_Error_def simple_threshold_def)

section \<open>The client\<close>

record simple_options =
  so_Host :: string
  so_Port :: int
  so_SystemID :: string
  so_Password :: string
  so_SystemType :: string
  so_BindType :: string
  so_ConnectTimeout :: int
  so_ReadTimeout :: int
  so_WriteTimeout :: int
  so_EnquireLinkInterval :: int
  so_ReconnectInterval :: int
  so_MaxReconnectAttempts :: int
  so_LogLevel :: string

definition DefaultSimpleClientOptions :: simple_options where
  "DefaultSimpleClientOptions = \<lparr>so_Host = ''localhost'', so_Port = 2775, so_SystemID = ''test'', so_Password = ''test'',
     so_SystemType = ''SMPP'', so_BindType = ''transceiver'', so_ConnectTimeout = 10000000000,
     so_ReadTimeout = 30000000000, so_WriteTimeout = 10000000000, so_EnquireLinkInterval = 30000000000,
     so_ReconnectInterval = 5000000000, so_MaxReconnectAttempts = 5, so_LogLevel = ''info''\<rparr>"

text \<open>A field that is given replaces the default; an empty string and 0 count as not given.\<close>

definition merged_options :: "simple_options option \<Rightarrow> simple_options" where
  "merged_options opts =
     (let d = DefaultSimpleClientOptions in
      case opts of None \<Rightarrow> d | Some opt \<Rightarrow>
        \<lparr>so_Host = (if so_Host opt \<noteq> '''' then so_Host opt else so_Host d),
         so_Port = (if so_Port opt \<noteq> 0 then so_Port opt else so_Port d),
         so_SystemID = (if so_SystemID opt \<noteq> '''' then so_SystemID opt else so_SystemID d),
         so_Password = (if so_Password opt \<noteq> '''' then so_Password opt else so_Password d),
         so_SystemType = (if so_SystemType opt \<noteq> '''' then so_SystemType opt else so_SystemType d),
         so_BindType = (if so_BindType opt \<noteq> '''' then so_BindType opt else so_BindType d),
         so_ConnectTimeout = (if so_ConnectTimeout opt \<noteq> 0 then so_ConnectTimeout opt else so_ConnectTimeout d),
         so_ReadTimeout = (if so_ReadTimeout opt \<noteq> 0 then so_ReadTimeout opt else so_ReadTimeout d),
         so_WriteTimeout = (if so_WriteTimeout opt \<noteq> 0 then so_WriteTimeout opt else so_WriteTimeout d),
         so_EnquireLinkInterval =
           (if so_EnquireLinkInterval opt \<noteq> 0 then so_EnquireLinkInterval opt else so_EnquireLinkInterval d),
         so_ReconnectInterval =
           (if so_ReconnectInterval opt \<noteq> 0 then so_ReconnectInterval opt else so_ReconnectInterval d),
         so_MaxReconnectAttempts =
           (if so_MaxReconnectAttempts opt \<noteq> 0 then so_MaxReconnectAttempts opt else so_MaxReconnectAttempts d),
         so_LogLevel = (if so_LogLevel opt \<noteq> '''' then so_LogLevel opt else so_LogLevel d)\<rparr>)"

definition simple_log_level :: "string \<Rightarrow> string" where
  "simple_log_level l = (if l \<in> {''debug'', ''info'', ''warn'', ''error''} then l else ''info'')"

definition simple_settings :: "simple_options \<Rightarrow> client_settings" where
  "simple_settings o' = \<lparr>cc_Host = so_Host o', cc_Port = so_Port o', cc_SystemID = so_SystemID o',
     cc_Password = so_Password o', cc_SystemType = so_SystemType o', cc_BindType = so_BindType o', cc_TLSEnabled = False,
     cc_MaxReconnectAttempts = so_MaxReconnectAttempts o', cc_ConnectTimeout = so_ConnectTimeout o',
     cc_ReadTimeout = so_ReadTimeout o', cc_WriteTimeout = so_WriteTimeout o',
     cc_EnquireLinkInterval = so_EnquireLinkInterval o', cc_ReconnectInterval = so_ReconnectInterval o',
     cc_TLSSkipVerify = False, cc_LogLevel = so_LogLevel o'\<rparr>"

record simple_client =
  sc_client :: client
  sc_logger :: string

text \<open>\<open>New\<close> never fails; the client has no event publisher.\<close>

definition New :: "(nat \<Rightarrow> time) \<Rightarrow> simple_options option \<Rightarrow> simple_client" where
  "New clock opts =
     (let options = merged_options opts in
      \<lparr>sc_client = NewClient (client_config.truncate (simple_settings options)) False clock,
       sc_logger = simple_log_level (so_LogLevel options)\<rparr>)"

definition sc_Connect ::
    "error option \<Rightarrow> net_outcome \<Rightarrow> pdu list \<Rightarrow> simple_client \<Rightarrow> unit result \<times> simple_client" where
  "sc_Connect dial net pdus sc =
     (case Connect dial (sc_client sc) of
        (Err e, c1) \<Rightarrow> (Err (Wrap ''failed to connect'' e), sc\<lparr>sc_client := c1\<rparr>)
      | (Panic, c1) \<Rightarrow> (Panic, sc\<lparr>sc_client := c1\<rparr>)
      | (Ok u, c1) \<Rightarrow>
          (case Bind net c1 of
             (Err e, c2) \<Rightarrow> (Err (Wrap ''failed to bind'' e), sc\<lparr>sc_client := c2\<rparr>)
           | (Panic, c2) \<Rightarrow> (Panic, sc\<lparr>sc_client := c2\<rparr>)
           | (Ok v, c2) \<Rightarrow> (case read_turns net pdus c2 of (r, c3) \<Rightarrow> (r, sc\<lparr>sc_client := c3\<rparr>))))"

definition sc_Disconnect :: "simple_client \<Rightarrow> unit result \<times> simple_client" where
  "sc_Disconnect sc = (case Disconnect (sc_client sc) of (r, c) \<Rightarrow> (r, sc\<lparr>sc_client := c\<rparr>))"

definition OnReport :: "simple_client \<Rightarrow> simple_client" where
  "OnReport sc = sc\<lparr>sc_client := OnDeliveryReport (sc_client sc)\<rparr>"

definition sc_SendSMS ::
    "net_outcome \<Rightarrow> string \<Rightarrow> string \<Rightarrow> string \<Rightarrow> simple_client \<Rightarrow> unit result \<times> simple_client" where
  "sc_SendSMS net from message to sc =
     (case SendSMS net (sc_client sc) from to message of (r, c) \<Rightarrow> (r, sc\<lparr>sc_client := c\<rparr>))"

record sms_options =
  sm_From :: string
  sm_To :: string
  sm_Message :: string

definition SendSMSWithOptions :: "net_outcome \<Rightarrow> sms_options \<Rightarrow> simple_client \<Rightarrow> unit result \<times> simple_client" where
  "SendSMSWithOptions net options sc =
     (case SendSMS net (sc_client sc) (sm_From options) (sm_To options) (sm_Message options) of
        (r, c) \<Rightarrow> (r, sc\<lparr>sc_client := c\<rparr>))"

definition sc_IsConnected :: "simple_client \<Rightarrow> bool" where
  "sc_IsConnected sc = IsConnected (sc_client sc)"

definition sc_IsBound :: "simple_client \<Rightarrow> bool" where
  "sc_IsBound sc = IsBound (sc_client sc)"

section \<open>Options\<close>

text \<open>The severities in their order\<close>

definition severity :: "string \<Rightarrow> nat" where
  "severity l = (if l = ''debug'' then 0 else if l = ''info'' then 1 else if l = ''warn'' then 2 else 3)"

text \<open>
  The client's logger prints a message exactly if its severity is at least the level of the options, \<open>info\<close> for a level
  that is not known.
\<close>

theorem simple_logger_threshold:
  "let level = sc_logger (New clock (Some (opt\<lparr>so_LogLevel := l\<rparr>))); least = severity (simple_log_level (if l = '''' then ''info'' else l)) in
     (sl_Debug level msg fs \<noteq> None \<longleftrightarrow> least \<le> severity ''debug'')
   \<and> (sl_Info level msg fs \<noteq> None \<longleftrightarrow> least \<le> severity ''info'')
   \<and> (sl_Warn level msg fs \<noteq> None \<longleftrightarrow> least \<le> severity ''warn'')
   \<and> (sl_Error level msg fs \<noteq> None \<longleftrightarrow> least \<le> severity ''error'')"
  by (auto simp: New_def merged_options_def DefaultSimpleClientOptions_def simple_log_level_def severity_def Let_def
      sl_Debug_def sl_Info_def sl_Warn_def sl_Error_def)

text \<open>
  The logger of the simple client and \<open>DefaultLogger\<close> agree on which messages to print, for every level but \<open>fatal\<close>.
\<close>

theorem loggers_agree:
  assumes "l \<in> {LevelDebug, LevelInfo, LevelWarn, LevelError}"
  shows "(sl_Debug (level_name l) msg fs = None) = (dl_Debug order (NewDefaultLogger (level_name l)) msg fs = None)"
    and "(sl_Info (level_name l) msg fs = None) = (dl_Info order (NewDefaultLogger (level_name l)) msg fs = None)"
    and "(sl_Warn (level_name l) msg fs = None) = (dl_Warn order (NewDefaultLogger (level_name l)) msg fs = None)"
    and "(sl_Error (level_name l) msg fs = None) = (dl_Error order (NewDefaultLogger (level_name l)) msg fs = None)"
proof -
  have "simple_threshold (level_name l) = level_code (dl_level (NewDefaultLogger (level_name l)))"
    using assms by (auto simp: simple_threshold_def NewDefaultLogger_def)
  then show "(sl_Debug (level_name l) msg fs = None) = (dl_Debug order (NewDefaultLogger (level_name l)) msg fs = None)"
    and "(sl_Info (level_name l) msg fs = None) = (dl_Info order (NewDefaultLogger (level_name l)) msg fs = None)"
    and "(sl_Warn (level_name l) msg fs = None) = (dl_Warn order (NewDefaultLogger (level_name l)) msg fs = None)"
    and "(sl_Error (level_name l) msg fs = None) = (dl_Error order (NewDefaultLogger (level_name l)) msg fs = None)"
    using simple_logger.debug [of "level_name l" msg fs] default_logger.debug [of order "NewDefaultLogger (level_name l)" msg fs]
      simple_logger.info [of "level_name l" msg fs] default_logger.info [of order "NewDefaultLogger (level_name l)" msg fs]
      simple_logger.warn [of "level_name l" msg fs] default_logger.warn [of order "NewDefaultLogger (level_name l)" msg fs]
      simple_logger.error [of "level_name l" msg fs] default_logger.error [of order "NewDefaultLogger (level_name l)" msg fs]
    by auto
qed

text \<open>
  Options whose numbers are in range and whose bind type is a known one or left out give a configuration that
  \<open>validateClientConfig\<close> accepts, and the client starts disconnected.
\<close>

theorem New_config_valid:
  assumes "0 \<le> so_Port opt" "so_Port opt \<le> 65535" "0 \<le> so_ConnectTimeout opt" "0 \<le> so_MaxReconnectAttempts opt"
    "so_BindType opt \<in> {'''', ''transmitter'', ''receiver'', ''transceiver''}"
  shows "validateClientConfig (simple_settings (merged_options (Some opt))) = Ok ()
    \<and> \<not> sc_IsConnected (New clock (Some opt)) \<and> 0 < so_MaxReconnectAttempts (merged_options (Some opt))"
  using assms
  by (auto simp: validateClientConfig_iff simple_settings_def merged_options_def DefaultSimpleClientOptions_def
      valid_port_def sc_IsConnected_def New_def NewClient_def IsConnected_def Let_def)

lemma New_config_valid_witness:
  "let opt = DefaultSimpleClientOptions\<lparr>so_Port := 0, so_MaxReconnectAttempts := 0\<rparr> in
     validateClientConfig (simple_settings (merged_options (Some opt))) = Ok ()
    \<and> \<not> sc_IsConnected (New (\<lambda>_. 0) (Some opt)) \<and> 0 < so_MaxReconnectAttempts (merged_options (Some opt))"
  unfolding Let_def by (rule New_config_valid) (simp_all add: DefaultSimpleClientOptions_def)

section \<open>Connecting\<close>

text \<open>A bind response with an error status changes nothing of what the client knows.\<close>

definition refuses_bind :: "pdu \<Rightarrow> bool" where
  "refuses_bind p \<longleftrightarrow> h_CommandStatus (Header p) \<noteq> StatusOK \<and>
     h_CommandID (Header p) \<in> {CommandBindTransmitterResp, CommandBindReceiverResp, CommandBindTransceiverResp}"

lemma refused_turn:
  assumes "refuses_bind p"
  shows "\<exists>c'. read_turn net c p = (Ok (), c') \<and> cl_bound c' = cl_bound c \<and> cl_connected c' = cl_connected c"
  using assms
  by (auto simp: refuses_bind_def read_turn_def client_handlePDU_def handleBindResponse_def cl_Now_def Let_def
      split: option.splits)

text \<open>
  \<open>Connect\<close> does not look at the answer to its bind request: when the server refuses the bind, with any of the three
  responses, \<open>Connect\<close> returns without an error.  The client is connected and not bound, and the first \<open>SendSMS\<close> fails.
\<close>

theorem refused_bind_reported_as_success:
  assumes "\<not> sc_IsConnected sc" "\<not> sc_IsBound sc" "fst (sc_Connect None net [] sc) = Ok ()" "refuses_bind p"
  shows "case sc_Connect None net [p] sc of (r, sc') \<Rightarrow>
     r = Ok () \<and> sc_IsConnected sc' \<and> \<not> sc_IsBound sc' \<and>
     fst (sc_SendSMS net' from message to sc') = Err (Errorf ''client is not bound for transmission'')"
proof -
  obtain c1 s where c1: "Connect None (sc_client sc) = (Ok (), c1)" "cl_connected c1" "cl_bound c1 = cl_bound (sc_client sc)"
    using Connect_ok [of "sc_client sc"] assms(1) by (auto simp: sc_IsConnected_def IsConnected_def)
  then obtain c2 where c2: "Bind net c1 = (Ok (), c2)"
    using assms(3) by (auto simp: sc_Connect_def split: prod.splits result.splits)
  have "cl_bound c2 = cl_bound c1 \<and> cl_connected c2 = cl_connected c1"
    using c2 by (auto simp: Bind_def sendPDU_def split: if_splits prod.splits result.splits)
  moreover obtain c3 where "read_turn net c2 p = (Ok (), c3)" "cl_bound c3 = cl_bound c2" "cl_connected c3 = cl_connected c2"
    using refused_turn [OF assms(4)] by blast
  ultimately show ?thesis
    using c1 c2 assms(2)
    by (auto simp: sc_Connect_def sc_SendSMS_def sc_IsConnected_def sc_IsBound_def IsConnected_def IsBound_def SendSMS_def)
qed

text \<open>
  When the bind request cannot be sent, \<open>Connect\<close> returns an error and leaves the connection open: the client counts as
  connected, and calling \<open>Connect\<close> again fails.
\<close>

theorem failed_bind_stays_connected:
  assumes "\<not> sc_IsConnected sc" "sc_Connect None net pdus sc = (Err e, sc')"
  shows "sc_IsConnected sc' \<and> sc_Connect dial net' pdus' sc' =
     (Err (Wrap ''failed to connect'' (Errorf ''client is already connected'')), sc')"
proof -
  obtain c1 where c1: "Connect None (sc_client sc) = (Ok (), c1)" "cl_connected c1"
    using Connect_ok [of "sc_client sc"] assms(1) by (auto simp: sc_IsConnected_def IsConnected_def)
  obtain r c2 where c2: "Bind net c1 = (r, c2)" by force
  have "fst (read_turns net pdus c2) \<noteq> Err e"
    by (induction net pdus c2 rule: read_turns.induct) (auto split: prod.splits result.splits)
  with assms(2) c1 c2 have "sc' = sc\<lparr>sc_client := c2\<rparr>"
    by (auto simp: sc_Connect_def split: prod.splits result.splits)
  moreover have "cl_connected c2" using Bind_keeps [OF c2] c1 by simp
  ultimately show ?thesis
    by (simp add: sc_IsConnected_def IsConnected_def sc_Connect_def Connect_def)
qed

text \<open>A client with the default options, whose bind request is sent on a working and on a failing connection\<close>

lemma default_client_binds:
  "fst (sc_Connect None net_ok [] (New (\<lambda>_. 0) None)) = Ok ()"
proof -
  let ?c = "sc_client (New (\<lambda>_. 0) None)"
  obtain c1 where c1: "Connect None ?c = (Ok (), c1)" "cl_connected c1" "cl_conn c1 = OpenConn"
      "cl_bound c1 = cl_bound ?c" "cl_config c1 = cl_config ?c"
    using Connect_ok [of ?c] by (auto simp: New_def NewClient_def Let_def)
  have cfg: "cc_BindType (cl_config ?c) = ''transceiver''" "cc_SystemID (cl_config ?c) = ''test''"
    "cc_Password (cl_config ?c) = ''test''" "cc_SystemType (cl_config ?c) = ''SMPP''" "\<not> cl_bound ?c"
    by (simp_all add: New_def NewClient_def merged_options_def DefaultSimpleClientOptions_def simple_settings_def
        client_config.truncate_def Let_def)
  have "bind_request_wf \<lparr>br_SystemID = ''test'', br_Password = ''test'', br_SystemType = ''SMPP'',
      br_InterfaceVersion = SMPPVersion, br_AddrTON = TONUnknown, br_AddrNPI = NPIUnknown, br_AddressRange = ''''\<rparr>"
    by (simp add: bind_request_wf_def fits_def no_nul_def)
  with bind_sent [of c1] c1 cfg obtain c2 where "Bind net_ok c1 = (Ok (), c2)" by auto
  with c1 show ?thesis by (simp add: sc_Connect_def)
qed

lemma refused_bind_reported_as_success_witness:
  "case sc_Connect None net_ok [BuildBindTransceiverResp '''' 1 StatusInvPaswd] (New (\<lambda>_. 0) None) of (r, sc') \<Rightarrow>
     r = Ok () \<and> sc_IsConnected sc' \<and> \<not> sc_IsBound sc' \<and>
     fst (sc_SendSMS net_ok ''1'' ''hi'' ''2'' sc') = Err (Errorf ''client is not bound for transmission'')"
proof (rule refused_bind_reported_as_success)
  show "\<not> sc_IsConnected (New (\<lambda>_. 0) None)" "\<not> sc_IsBound (New (\<lambda>_. 0) None)"
    by (simp_all add: New_def NewClient_def sc_IsConnected_def sc_IsBound_def IsConnected_def IsBound_def Let_def)
  show "refuses_bind (BuildBindTransceiverResp '''' 1 StatusInvPaswd)"
    by (simp add: refuses_bind_def BuildBindTransceiverResp_def mk_pdu_def)
qed (rule default_client_binds)

lemma failed_bind_stays_connected_witness:
  "let net = \<lparr>no_deadline_ok = True, no_write_ok = False\<rparr>; sc' = snd (sc_Connect None net [] (New (\<lambda>_. 0) None)) in
     sc_IsConnected sc' \<and> sc_Connect None net [] sc' =
     (Err (Wrap ''failed to connect'' (Errorf ''client is already connected'')), sc')"
proof -
  let ?net = "\<lparr>no_deadline_ok = True, no_write_ok = False\<rparr>" and ?sc = "New (\<lambda>_. 0) None"
  obtain c1 where c1: "Connect None (sc_client ?sc) = (Ok (), c1)" "cl_connected c1" "cl_conn c1 = OpenConn"
    using Connect_ok [of "sc_client ?sc"] by (auto simp: New_def NewClient_def Let_def)
  then obtain c2 where "Bind net_ok c1 = (Ok (), c2)"
    using default_client_binds by (auto simp: sc_Connect_def split: prod.splits result.splits)
  then have "\<exists>e. fst (Bind ?net c1) = Err e"
    using c1 by (auto simp: Bind_def sendPDU_def split: if_splits prod.splits result.splits)
  then have "\<exists>e. fst (sc_Connect None ?net [] ?sc) = Err e"
    using c1 by (auto simp: sc_Connect_def split: prod.split)
  then obtain e sc' where s: "sc_Connect None ?net [] ?sc = (Err e, sc')" by (cases "sc_Connect None ?net [] ?sc") auto
  have "\<not> sc_IsConnected ?sc" by (simp add: New_def NewClient_def sc_IsConnected_def IsConnected_def Let_def)
  from failed_bind_stays_connected [OF this s, of None ?net "[]"] s show ?thesis by (simp add: Let_def)
qed

end
