(* ===== verification/Pool.thy ===== *)
theory Pool
  imports Client
begin

text \<open>
  The connection pool, \<open>internal/pool/connection.go\<close>: a semaphore of \<open>MaxConnections\<close> tokens, a token for each
  client that is handed out.

  A goroutine that is inside \<open>Get\<close> or \<open>Disconnect\<close> has a place in the code, a \<open>pool_thread\<close>; its steps are functions
  of the pool, \<open>None\<close> where it blocks.  The goroutines interleave: \<open>pool_step\<close>.
\<close>

section \<open>Connections and pooled clients\<close>

record pool_connection =
  cn_client :: client
  cn_lastUsed :: time

definition NewConnection :: "client \<Rightarrow> time \<Rightarrow> pool_connection" where
  "NewConnection c now = \<lparr>cn_client = c, cn_lastUsed = now\<rparr>"

definition cn_Client :: "pool_connection \<Rightarrow> time \<Rightarrow> client \<times> pool_connection" where
  "cn_Client cn now = (cn_client cn, cn\<lparr>cn_lastUsed := now\<rparr>)"

definition LastUsed :: "pool_connection \<Rightarrow> time" where
  "LastUsed cn = cn_lastUsed cn"

definition cn_Close :: "pool_connection \<Rightarrow> unit result \<times> pool_connection" where
  "cn_Close cn = (case Disconnect (cn_client cn) of (r, c) \<Rightarrow> (r, cn\<lparr>cn_client := c\<rparr>))"

definition cn_IsConnected :: "pool_connection \<Rightarrow> bool" where
  "cn_IsConnected cn = IsConnected (cn_client cn)"

definition testConnection :: "pool_connection \<Rightarrow> bool" where
  "testConnection cn = cn_IsConnected cn"

record pooled_client =
  pc_conn :: pool_connection
  pc_used :: bool

definition pooled_op :: "(client \<Rightarrow> 'a result \<times> client) \<Rightarrow> pooled_client \<Rightarrow> 'a result \<times> pooled_client" where
  "pooled_op f pc =
     (case f (cn_client (pc_conn pc)) of (r, c) \<Rightarrow> (r, pc\<lparr>pc_conn := (pc_conn pc)\<lparr>cn_client := c\<rparr>, pc_used := True\<rparr>))"

definition pc_Connect :: "error option \<Rightarrow> pooled_client \<Rightarrow> unit result \<times> pooled_client" where
  "pc_Connect dial = pooled_op (Connect dial)"

definition pc_Bind :: "net_outcome \<Rightarrow> pooled_client \<Rightarrow> unit result \<times> pooled_client" where
  "pc_Bind net = pooled_op (Bind net)"

definition pc_SendSMS :: "net_outcome \<Rightarrow> string \<Rightarrow> string \<Rightarrow> string \<Rightarrow> pooled_client \<Rightarrow> unit result \<times> pooled_client" where
  "pc_SendSMS net sourceAddr destAddr message = pooled_op (\<lambda>c. SendSMS net c sourceAddr destAddr message)"

definition pc_Unbind :: "net_outcome \<Rightarrow> pooled_client \<Rightarrow> unit result \<times> pooled_client" where
  "pc_Unbind net = pooled_op (client_Unbind net)"

definition pc_IsConnected :: "pooled_client \<Rightarrow> bool" where
  "pc_IsConnected pc = IsConnected (cn_client (pc_conn pc))"

text \<open>The methods that set a callback, \<open>set_hook\<close> being the client's.\<close>

definition pc_On :: "(client \<Rightarrow> client) \<Rightarrow> pooled_client \<Rightarrow> pooled_client" where
  "pc_On set_hook pc = pc\<lparr>pc_conn := (pc_conn pc)\<lparr>cn_client := set_hook (cn_client (pc_conn pc))\<rparr>\<rparr>"

section \<open>The pool\<close>

text \<open>Durations are in nanoseconds; only \<open>MaxConnections\<close> is read.\<close>

record pool_config =
  MaxConnections :: int
  MaxIdleConnections :: int
  IdleTimeout :: int
  ConnectTimeout :: int
  TestOnBorrow :: bool
  TestOnReturn :: bool

definition DefaultPoolConfig :: pool_config where
  "DefaultPoolConfig = \<lparr>MaxConnections = 10, MaxIdleConnections = 5, IdleTimeout = 300000000000,
     ConnectTimeout = 30000000000, TestOnBorrow = True, TestOnReturn = False\<rparr>"

datatype pool_thread =
    GetChecked | GetAcquired | GetReleasing error | GetReturned "nat result"
  | PutReleasing "unit result" | DisconnectReturned "unit result" | PoolPanicked

text \<open>
  \<open>pl_len\<close> is the number of tokens in the semaphore, \<open>pl_clients\<close> the clients that \<open>Get\<close> has returned, named by their
  number.  \<open>pl_held\<close> is no state of the program: the clients for which no \<open>Disconnect\<close> has been called.
\<close>

record pool =
  pl_config :: pool_config
  pl_len :: nat
  pl_closed :: bool
  pl_clients :: "pooled_client list"
  pl_threads :: "nat \<rightharpoonup> pool_thread"
  pl_held :: "nat set"

definition NewConnectionPool :: "pool_config \<Rightarrow> pool" where
  "NewConnectionPool config =
     \<lparr>pl_config = (if MaxConnections config \<le> 0 then config\<lparr>MaxConnections := 1\<rparr> else config), pl_len = 0,
      pl_closed = False, pl_clients = [], pl_threads = Map.empty, pl_held = {}\<rparr>"

definition pl_cap :: "pool \<Rightarrow> nat" where
  "pl_cap p = nat (MaxConnections (pl_config p))"

definition thread_at :: "nat \<Rightarrow> pool_thread \<Rightarrow> pool \<Rightarrow> pool" where
  "thread_at t th p = p\<lparr>pl_threads := (pl_threads p)(t \<mapsto> th)\<rparr>"

text \<open>Receiving from the semaphore: a closed empty channel gives a zero value at once.\<close>

definition take_token :: "pool \<Rightarrow> pool option" where
  "take_token p =
     (if 0 < pl_len p then Some (p\<lparr>pl_len := pl_len p - 1\<rparr>) else if pl_closed p then Some p else None)"

text \<open>\<open>Get\<close>: the check, the \<open>select\<close> (\<open>cancelled\<close>: its second case is taken), and the rest.\<close>

definition get_check :: "nat \<Rightarrow> pool \<Rightarrow> pool option" where
  "get_check t p =
     (if pl_threads p t \<noteq> None then None
      else Some (thread_at t (if pl_closed p then GetReturned (Err (Errorf ''pool is closed'')) else GetChecked) p))"

definition get_select :: "bool \<Rightarrow> nat \<Rightarrow> pool \<Rightarrow> pool option" where
  "get_select cancelled t p =
     (if pl_threads p t \<noteq> Some GetChecked then None
      else if cancelled then Some (thread_at t (GetReturned (Err (Errorf ''context canceled''))) p)
      else if pl_closed p then Some (thread_at t PoolPanicked p)
      else if pl_len p < pl_cap p then Some (thread_at t GetAcquired (p\<lparr>pl_len := pl_len p + 1\<rparr>))
      else None)"

definition get_create :: "client result \<Rightarrow> time \<Rightarrow> nat \<Rightarrow> pool \<Rightarrow> pool option" where
  "get_create factory now t p =
     (if pl_threads p t \<noteq> Some GetAcquired then None
      else case factory of
        Err e \<Rightarrow> Some (thread_at t (GetReleasing e) p)
      | Panic \<Rightarrow> Some (thread_at t PoolPanicked p)
      | Ok c \<Rightarrow>
          let i = length (pl_clients p) in
          Some (thread_at t (GetReturned (Ok i))
            (p\<lparr>pl_clients := pl_clients p @ [\<lparr>pc_conn = NewConnection c now, pc_used = False\<rparr>],
               pl_held := insert i (pl_held p)\<rparr>)))"

definition get_release :: "nat \<Rightarrow> pool \<Rightarrow> pool option" where
  "get_release t p =
     (case pl_threads p t of
        Some (GetReleasing e) \<Rightarrow> map_option (thread_at t (GetReturned (Err e))) (take_token p)
      | _ \<Rightarrow> None)"

text \<open>
  \<open>Disconnect\<close> of client \<open>i\<close>, which has the pool: it disconnects the client, and \<open>Put\<close> disconnects it again and takes
  a token.
\<close>

definition pc_Disconnect :: "nat \<Rightarrow> nat \<Rightarrow> pool \<Rightarrow> pool option" where
  "pc_Disconnect i t p =
     (if pl_threads p t \<noteq> None \<or> length (pl_clients p) \<le> i then None
      else
        let pc = pl_clients p ! i; (r, c) = Disconnect (cn_client (pc_conn pc));
            (closed, cn) = cn_Close ((pc_conn pc)\<lparr>cn_client := c\<rparr>)
        in
        if r = Panic then Some (thread_at t PoolPanicked (p\<lparr>pl_clients := (pl_clients p)[i := pc\<lparr>pc_conn := (pc_conn pc)\<lparr>cn_client := c\<rparr>\<rparr>]\<rparr>))
        else if closed = Panic then Some (thread_at t PoolPanicked (p\<lparr>pl_clients := (pl_clients p)[i := pc\<lparr>pc_conn := cn\<rparr>]\<rparr>))
        else Some (thread_at t (PutReleasing r) (p\<lparr>pl_clients := (pl_clients p)[i := pc\<lparr>pc_conn := cn\<rparr>], pl_held := pl_held p - {i}\<rparr>)))"

definition put_release :: "nat \<Rightarrow> pool \<Rightarrow> pool option" where
  "put_release t p =
     (case pl_threads p t of
        Some (PutReleasing r) \<Rightarrow> map_option (thread_at t (DisconnectReturned r)) (take_token p)
      | _ \<Rightarrow> None)"

definition pl_Close :: "pool \<Rightarrow> pool" where
  "pl_Close p = (if pl_closed p then p else p\<lparr>pl_closed := True\<rparr>)"

record pool_stats =
  ActiveConnections :: int
  IdleConnections :: int
  TotalConnections :: int

definition Stats :: "pool \<Rightarrow> pool_stats" where
  "Stats p = \<lparr>ActiveConnections = int (pl_len p), IdleConnections = int (pl_cap p) - int (pl_len p),
     TotalConnections = int (pl_cap p)\<rparr>"

text \<open>
  The steps of all goroutines.  \<open>use\<close> is any other operation on a client.  With \<open>once\<close>, the users keep a rule that
  the pool does not enforce: a client is disconnected once and not used after.
\<close>

inductive pool_step :: "bool \<Rightarrow> pool \<Rightarrow> pool \<Rightarrow> bool" for once where
  check: "get_check t p = Some p' \<Longrightarrow> pool_step once p p'"
| select: "get_select cancelled t p = Some p' \<Longrightarrow> pool_step once p p'"
| create: "get_create factory now t p = Some p' \<Longrightarrow> pool_step once p p'"
| get_release: "get_release t p = Some p' \<Longrightarrow> pool_step once p p'"
| disconnect: "pc_Disconnect i t p = Some p' \<Longrightarrow> once \<longrightarrow> i \<in> pl_held p \<Longrightarrow> pool_step once p p'"
| put_release: "put_release t p = Some p' \<Longrightarrow> pool_step once p p'"
| close: "pool_step once p (pl_Close p)"
| use: "i < length (pl_clients p) \<Longrightarrow> once \<longrightarrow> i \<in> pl_held p \<Longrightarrow>
    pool_step once p (p\<lparr>pl_clients := (pl_clients p)[i := pc]\<rparr>)"

inductive pool_reach :: "pool_config \<Rightarrow> bool \<Rightarrow> pool \<Rightarrow> bool" for config and once where
  new: "pool_reach config once (NewConnectionPool config)"
| step: "pool_reach config once p \<Longrightarrow> pool_step once p p' \<Longrightarrow> pool_reach config once p'"

section \<open>The tokens\<close>

fun holds_token :: "pool_thread \<Rightarrow> bool" where
  "holds_token GetAcquired = True"
| "holds_token (GetReleasing e) = True"
| "holds_token (PutReleasing r) = True"
| "holds_token _ = False"

definition busy :: "pool \<Rightarrow> nat set" where
  "busy p = {t. \<exists>th. pl_threads p t = Some th \<and> holds_token th}"

lemma busy_thread_at [simp]: "busy (thread_at t th p) = (if holds_token th then insert t (busy p) else busy p - {t})"
  by (auto simp: busy_def thread_at_def)

lemma busy_updates [simp]:
  "busy (p\<lparr>pl_len := n\<rparr>) = busy p" "busy (p\<lparr>pl_closed := b\<rparr>) = busy p" "busy (p\<lparr>pl_clients := cs\<rparr>) = busy p"
  "busy (p\<lparr>pl_held := h\<rparr>) = busy p"
  by (simp_all add: busy_def)

lemma thread_at_simps [simp]:
  "pl_len (thread_at t th p) = pl_len p" "pl_held (thread_at t th p) = pl_held p" "pl_clients (thread_at t th p) = pl_clients p"
  "pl_config (thread_at t th p) = pl_config p" "pl_closed (thread_at t th p) = pl_closed p"
  by (simp_all add: thread_at_def)

definition pool_inv :: "pool \<Rightarrow> bool" where
  "pool_inv p \<longleftrightarrow> card (pl_held p) + card (busy p) \<le> pl_len p \<and> pl_len p \<le> pl_cap p \<and> finite (busy p)
     \<and> pl_held p \<subseteq> {..<length (pl_clients p)}
     \<and> (\<forall>i < length (pl_clients p). pc_IsConnected (pl_clients p ! i) \<longrightarrow> i \<in> pl_held p)"

lemma pl_cap_updates [simp]:
  "pl_cap (thread_at t th p) = pl_cap p" "pl_cap (p\<lparr>pl_len := n\<rparr>) = pl_cap p" "pl_cap (p\<lparr>pl_closed := b\<rparr>) = pl_cap p"
  "pl_cap (p\<lparr>pl_clients := cs\<rparr>) = pl_cap p" "pl_cap (p\<lparr>pl_held := h\<rparr>) = pl_cap p"
  by (simp_all add: pl_cap_def thread_at_def)

lemma in_busy: "pl_threads p t = Some th \<Longrightarrow> t \<in> busy p \<longleftrightarrow> holds_token th"
  by (simp add: busy_def)

lemma not_in_busy: "pl_threads p t = None \<Longrightarrow> t \<notin> busy p"
  by (simp add: busy_def)

text \<open>A second \<open>Disconnect\<close> of a client does nothing.\<close>

lemma Disconnect_disconnects: "\<not> cl_connected (snd (Disconnect c))"
  by (simp add: Disconnect_def Let_def cl_call_def publish_event_def cl_Now_def split: option.split)

lemma Disconnect_again:
  assumes "Disconnect c = (r, c')"
  shows "\<not> cl_connected c'" "Disconnect c' = (Err (Errorf ''client is not connected''), c')"
proof -
  show "\<not> cl_connected c'" using Disconnect_disconnects [of c] assms by simp
  then show "Disconnect c' = (Err (Errorf ''client is not connected''), c')" by (simp add: Disconnect_def)
qed

lemma pool_inv_new: "pool_inv (NewConnectionPool config)"
  by (simp add: pool_inv_def NewConnectionPool_def pl_cap_def busy_def)

lemma get_check_inv: "get_check t p = Some p' \<Longrightarrow> pool_inv p \<Longrightarrow> pool_inv p'"
  by (auto simp: get_check_def pool_inv_def not_in_busy split: if_splits)

lemma get_select_inv: "get_select cancelled t p = Some p' \<Longrightarrow> pool_inv p \<Longrightarrow> pool_inv p'"
  by (auto simp: get_select_def pool_inv_def in_busy split: if_splits)

lemma card_minus:
  assumes "finite A" "x \<in> A"
  obtains n where "card A = Suc n" "card (A - {x}) = n"
  using assms by (metis card.remove)

lemma get_create_inv: "get_create factory now t p = Some p' \<Longrightarrow> pool_inv p \<Longrightarrow> pool_inv p'"
proof -
  assume g: "get_create factory now t p = Some p'" and i: "pool_inv p"
  then have t: "pl_threads p t = Some GetAcquired" by (simp add: get_create_def split: if_splits)
  then have "t \<in> busy p" by (simp add: busy_def)
  then obtain n where c: "card (busy p) = Suc n" "card (busy p - {t}) = n"
    using i by (auto simp: pool_inv_def elim: card_minus)
  have h: "length (pl_clients p) \<notin> pl_held p" "finite (pl_held p)"
    using i by (auto simp: pool_inv_def intro: finite_subset)
  show "pool_inv p'"
  proof (cases factory)
    case (Ok x)
    with g i c h t show ?thesis
      by (auto simp: get_create_def pool_inv_def Let_def nth_append less_Suc_eq)
  next
    case (Err e)
    with g i c t show ?thesis by (auto simp: get_create_def pool_inv_def insert_absorb \<open>t \<in> busy p\<close>)
  next
    case Panic
    with g i c t show ?thesis by (auto simp: get_create_def pool_inv_def)
  qed
qed

lemma take_token_inv:
  assumes "take_token p = Some p1" "pool_inv p" "t \<in> busy p" "\<not> holds_token th"
  shows "pool_inv (thread_at t th p1)"
proof -
  obtain n where c: "card (busy p) = Suc n" "card (busy p - {t}) = n"
    using assms by (auto simp: pool_inv_def elim: card_minus)
  then have "p1 = p\<lparr>pl_len := pl_len p - 1\<rparr>" using assms by (auto simp: take_token_def pool_inv_def split: if_splits)
  with c assms(2,4) show ?thesis by (auto simp: pool_inv_def)
qed

lemma get_release_inv: "get_release t p = Some p' \<Longrightarrow> pool_inv p \<Longrightarrow> pool_inv p'"
  by (auto simp: get_release_def in_busy intro!: take_token_inv split: option.splits pool_thread.splits)

lemma put_release_inv: "put_release t p = Some p' \<Longrightarrow> pool_inv p \<Longrightarrow> pool_inv p'"
  by (auto simp: put_release_def in_busy intro!: take_token_inv split: option.splits pool_thread.splits)

lemma pc_Disconnect_cases:
  assumes "pc_Disconnect i t p = Some p'"
  obtains (panic) pc where "pl_threads p t = None" "i < length (pl_clients p)" "\<not> pc_IsConnected pc"
      "p' = thread_at t PoolPanicked (p\<lparr>pl_clients := (pl_clients p)[i := pc]\<rparr>)"
  | (put) r pc where "pl_threads p t = None" "i < length (pl_clients p)" "\<not> pc_IsConnected pc"
      "fst (Disconnect (cn_client (pc_conn (pl_clients p ! i)))) = r" "r \<noteq> Panic"
      "p' = thread_at t (PutReleasing r) (p\<lparr>pl_clients := (pl_clients p)[i := pc], pl_held := pl_held p - {i}\<rparr>)"
proof -
  obtain r c where d: "Disconnect (cn_client (pc_conn (pl_clients p ! i))) = (r, c)" by force
  note a = Disconnect_again [OF d]
  show thesis
  proof (cases "r = Panic")
    case True
    with assms d a show thesis
      by (intro panic) (auto simp: pc_Disconnect_def Let_def pc_IsConnected_def IsConnected_def split: if_splits prod.splits)
  next
    case False
    with assms d a show thesis
      by (intro put) (auto simp: pc_Disconnect_def Let_def cn_Close_def pc_IsConnected_def IsConnected_def split: if_splits prod.splits)
  qed
qed

lemma pc_Disconnect_inv:
  assumes "pc_Disconnect i t p = Some p'" "i \<in> pl_held p" "pool_inv p"
  shows "pool_inv p'"
  using assms(1)
proof (cases rule: pc_Disconnect_cases)
  case (panic pc)
  with assms(2,3) show ?thesis by (auto simp: pool_inv_def not_in_busy nth_list_update)
next
  case (put r pc)
  have f: "finite (pl_held p)" using assms(3) by (auto simp: pool_inv_def intro: finite_subset)
  then obtain n where "card (pl_held p) = Suc n" "card (pl_held p - {i}) = n"
    using assms(2) by (auto elim: card_minus)
  with put assms(2,3) show ?thesis by (auto simp: pool_inv_def not_in_busy nth_list_update)
qed

lemma use_inv:
  "i \<in> pl_held p \<Longrightarrow> pool_inv p \<Longrightarrow> pool_inv (p\<lparr>pl_clients := (pl_clients p)[i := pc]\<rparr>)"
  by (cases "i < length (pl_clients p)") (auto simp: pool_inv_def nth_list_update split: if_splits)

lemma pl_Close_inv: "pool_inv p \<Longrightarrow> pool_inv (pl_Close p)"
  by (auto simp: pl_Close_def pool_inv_def)

lemma pool_step_inv: "pool_step True p p' \<Longrightarrow> pool_inv p \<Longrightarrow> pool_inv p'"
  by (cases rule: pool_step.cases)
    (auto intro: get_check_inv get_select_inv get_create_inv get_release_inv put_release_inv pc_Disconnect_inv
      use_inv pl_Close_inv)

lemma pool_reach_pool_inv: "pool_reach config True p \<Longrightarrow> pool_inv p"
  by (induction rule: pool_reach.induct) (auto intro: pool_inv_new pool_step_inv)

section \<open>What the pool guarantees\<close>

lemma take_token_cap: "take_token p = Some p' \<Longrightarrow> pl_cap p' = pl_cap p"
  by (auto simp: take_token_def split: if_splits)

lemma pool_step_cap: "pool_step once p p' \<Longrightarrow> pl_cap p' = pl_cap p"
proof (induction rule: pool_step.induct)
  case (disconnect i t p p')
  from disconnect(1) show ?case by (cases rule: pc_Disconnect_cases) auto
qed (auto simp: get_check_def get_select_def get_create_def get_release_def put_release_def pl_Close_def Let_def
      take_token_cap split: if_splits result.splits option.splits pool_thread.splits)

lemma pool_reach_cap: "pool_reach config once p \<Longrightarrow> pl_cap p = nat (max 1 (MaxConnections config))"
proof (induction rule: pool_reach.induct)
  case new
  show ?case by (simp add: NewConnectionPool_def pl_cap_def)
qed (simp add: pool_step_cap)

text \<open>
  C20. When every pooled client is disconnected once, at most \<open>MaxConnections\<close> clients are connected at any time (one, if
  the number in the configuration is not positive), and \<open>Stats\<close> counts at least the connected ones as active.
\<close>

theorem pool_limit:
  assumes "pool_reach config True p"
  shows "int (card {i. i < length (pl_clients p) \<and> pc_IsConnected (pl_clients p ! i)}) \<le> ActiveConnections (Stats p)
    \<and> ActiveConnections (Stats p) \<le> max 1 (MaxConnections config)
    \<and> 0 \<le> IdleConnections (Stats p)"
proof -
  have i: "pool_inv p" by (rule pool_reach_pool_inv [OF assms])
  then have "card {i. i < length (pl_clients p) \<and> pc_IsConnected (pl_clients p ! i)} \<le> card (pl_held p)"
    by (intro card_mono) (auto simp: pool_inv_def intro: finite_subset)
  with i pool_reach_cap [OF assms] show ?thesis by (auto simp: Stats_def pool_inv_def)
qed

text \<open>
  With the same rule, a \<open>Disconnect\<close> and a failed \<open>Get\<close> never block: there is a token to take.
\<close>

theorem release_never_blocks:
  assumes "pool_reach config True p" and "t \<in> busy p" "pl_threads p t \<noteq> Some GetAcquired"
  shows "\<exists>p'. (put_release t p = Some p' \<or> get_release t p = Some p') \<and> pool_inv p' \<and> t \<notin> busy p'"
proof -
  have i: "pool_inv p" by (rule pool_reach_pool_inv [OF assms(1)])
  then obtain n where "card (busy p) = Suc n" using assms(2) by (auto simp: pool_inv_def elim: card_minus)
  with i have "0 < pl_len p" by (auto simp: pool_inv_def)
  then obtain p1 where t: "take_token p = Some p1" by (simp add: take_token_def)
  have inv: "pool_inv (thread_at t th p1)" if "\<not> holds_token th" for th
    by (rule take_token_inv [OF t i assms(2) that])
  obtain th where th: "pl_threads p t = Some th" "holds_token th" using assms(2) by (auto simp: busy_def)
  then show ?thesis
    using assms(3) t inv by (cases th) (auto simp: put_release_def get_release_def)
qed

section \<open>Steps that break it\<close>

fun run_steps :: "(pool \<Rightarrow> pool option) list \<Rightarrow> pool \<Rightarrow> pool option" where
  "run_steps [] p = Some p"
| "run_steps (f # fs) p = (case f p of None \<Rightarrow> None | Some p' \<Rightarrow> run_steps fs p')"

definition is_step :: "bool \<Rightarrow> (pool \<Rightarrow> pool option) \<Rightarrow> bool" where
  "is_step once f \<longleftrightarrow> (\<forall>p p'. f p = Some p' \<longrightarrow> pool_step once p p')"

lemma run_steps_reach:
  "run_steps fs p = Some p' \<Longrightarrow> list_all (is_step once) fs \<Longrightarrow> pool_reach config once p \<Longrightarrow> pool_reach config once p'"
  by (induction fs p rule: run_steps.induct) (auto simp: is_step_def split: option.splits intro: pool_reach.step)

lemma is_step [simp]:
  "is_step once (get_check t)" "is_step once (get_select cancelled t)" "is_step once (get_create factory now t)"
  "is_step once (get_release t)" "is_step once (put_release t)" "is_step False (pc_Disconnect i t)"
  "is_step once (\<lambda>p. Some (pl_Close p))"
  by (auto simp: is_step_def intro: pool_step.intros)

definition one_connection :: pool_config where
  "one_connection = DefaultPoolConfig\<lparr>MaxConnections := 1\<rparr>"

definition fresh_client :: client where
  "fresh_client = snd (Connect None (NewClient \<lparr>cc_Host = ''h'', cc_Port = 2775, cc_SystemID = ''u'', cc_Password = ''p'',
     cc_SystemType = '''', cc_BindType = ''transceiver'', cc_TLSEnabled = False, cc_MaxReconnectAttempts = 0\<rparr>
     False (\<lambda>_. 0)))"

lemma fresh_client: "cl_connected fresh_client" "fst (Disconnect fresh_client) = Ok ()"
  by (simp_all add: fresh_client_def Connect_def NewClient_def cl_Now_def cl_call_def no_hooks_def Disconnect_def Let_def)

definition whole_get :: "nat \<Rightarrow> (pool \<Rightarrow> pool option) list" where
  "whole_get t = [get_check t, get_select False t, get_create (Ok fresh_client) 0 t]"

lemma whole_get_steps [simp]: "list_all (is_step once) (whole_get t)"
  by (simp add: whole_get_def)

lemmas pool_run =
  whole_get_def get_check_def get_select_def get_create_def get_release_def pc_Disconnect_def put_release_def
  take_token_def thread_at_def NewConnectionPool_def one_connection_def DefaultPoolConfig_def pl_cap_def cn_Close_def
  NewConnection_def pc_IsConnected_def IsConnected_def

lemma run_to:
  assumes "case run_steps fs (NewConnectionPool config) of None \<Rightarrow> False | Some p \<Rightarrow> P p" "list_all (is_step once) fs"
  shows "\<exists>p. pool_reach config once p \<and> P p"
  using assms run_steps_reach [of fs "NewConnectionPool config" _ once config] pool_reach.new
  by (auto split: option.splits)

lemma pool_limit_witness:
  "\<exists>p. pool_reach one_connection True p \<and>
     int (card {i. i < length (pl_clients p) \<and> pc_IsConnected (pl_clients p ! i)}) \<le> ActiveConnections (Stats p)
     \<and> ActiveConnections (Stats p) \<le> max 1 (MaxConnections one_connection) \<and> 0 \<le> IdleConnections (Stats p)"
proof -
  have "case run_steps (whole_get 0) (NewConnectionPool one_connection) of
      None \<Rightarrow> False | Some p \<Rightarrow> map pc_IsConnected (pl_clients p) = [True]" by (simp add: pool_run fresh_client)
  from run_to [OF this, of True] obtain p where "pool_reach one_connection True p" by auto
  with pool_limit [of one_connection p] show ?thesis by blast
qed

lemma release_never_blocks_witness:
  "\<exists>p. pool_reach one_connection True p \<and> 0 \<in> busy p \<and>
     (\<exists>p'. (put_release 0 p = Some p' \<or> get_release 0 p = Some p') \<and> pool_inv p' \<and> 0 \<notin> busy p')"
proof -
  have "case run_steps [get_check 0, get_select False 0, get_create (Err (Errorf ''refused'')) 0 0]
      (NewConnectionPool one_connection) of
      None \<Rightarrow> False | Some p \<Rightarrow> pl_threads p 0 = Some (GetReleasing (Errorf ''refused''))" by (simp add: pool_run)
  from run_to [OF this, of True] obtain p
    where p: "pool_reach one_connection True p" "pl_threads p 0 = Some (GetReleasing (Errorf ''refused''))" by auto
  then have "0 \<in> busy p" "pl_threads p 0 \<noteq> Some GetAcquired" by (simp_all add: busy_def)
  with p(1) release_never_blocks [of one_connection p 0] show ?thesis by blast
qed

text \<open>
  Without the rule, a second \<open>Disconnect\<close> of a client takes the token of another.  With one connection allowed, it
  first blocks; as soon as the next client is handed out it takes that one's token, and a third \<open>Get\<close> returns: two
  clients are connected at once.
\<close>

theorem second_disconnect_breaks_limit:
  "(\<exists>p. pool_reach one_connection False p \<and> pl_threads p 2 \<noteq> None \<and> put_release 2 p = None) \<and>
   (\<exists>p. pool_reach one_connection False p \<and> map pc_IsConnected (pl_clients p) = [False, True, True])"
proof
  obtain gone where gone: "Disconnect fresh_client = (Ok (), gone)" by (cases "Disconnect fresh_client") (use fresh_client in auto)
  note again = Disconnect_again [OF gone]
  have "case run_steps (whole_get 0 @ [pc_Disconnect 0 1, put_release 1, pc_Disconnect 0 2])
      (NewConnectionPool one_connection) of
      None \<Rightarrow> False | Some p \<Rightarrow> pl_threads p 2 \<noteq> None \<and> put_release 2 p = None" by (simp add: pool_run gone again fresh_client)
  from run_to [OF this, of False]
  show "\<exists>p. pool_reach one_connection False p \<and> pl_threads p 2 \<noteq> None \<and> put_release 2 p = None" by simp
  have "case run_steps (whole_get 0 @ [pc_Disconnect 0 1, put_release 1, pc_Disconnect 0 2] @ whole_get 3 @
        [put_release 2] @ whole_get 4) (NewConnectionPool one_connection) of
      None \<Rightarrow> False | Some p \<Rightarrow> map pc_IsConnected (pl_clients p) = [False, True, True]" by (simp add: pool_run gone again fresh_client)
  from run_to [OF this, of False]
  show "\<exists>p. pool_reach one_connection False p \<and> map pc_IsConnected (pl_clients p) = [False, True, True]" by simp
qed

text \<open>
  A \<open>Get\<close> that has found the pool open and not yet taken a token panics when the pool is closed: it sends to a
  closed channel.
\<close>

theorem close_panics_get:
  assumes "pl_threads p t = Some GetChecked"
  shows "\<exists>p'. get_select False t (pl_Close p) = Some p' \<and> pl_threads p' t = Some PoolPanicked"
  using assms by (auto simp: get_select_def pl_Close_def thread_at_def)

lemma close_panics_get_witness:
  "\<exists>p'. get_select False 0 (pl_Close (thread_at 0 GetChecked (NewConnectionPool one_connection))) = Some p'
     \<and> pl_threads p' 0 = Some PoolPanicked"
  by (rule close_panics_get) (simp add: thread_at_def)

end
