(* ===== verification/Metrics.thy ===== *)
theory Metrics
  imports ServerFlow EventBus Floats
begin

text \<open>
  Metrics: the collector over Prometheus (\<open>internal/metrics/prometheus.go\<close>), the collector that does nothing, the
  event handler that counts events, and the places where the server and the message handler count.

  The client library of Prometheus is a parameter: \<open>allows names labels\<close> tells whether \<open>With(labels)\<close> of a metric that
  was made with these label names returns; otherwise it panics.  What the library then does is represented by the list of
  the calls.  Its documentation says that \<open>With\<close> wants exactly the labels of the metric (\<open>checks_labels\<close>).
\<close>

type_synonym metric_labels = "string \<rightharpoonup> string"

section \<open>Collectors\<close>

record 'm metrics_collector =
  mc_IncCounter :: "string \<Rightarrow> metric_labels \<Rightarrow> 'm \<Rightarrow> 'm result"
  mc_SetGauge :: "string \<Rightarrow> rat \<Rightarrow> metric_labels \<Rightarrow> 'm \<Rightarrow> 'm result"
  mc_ObserveHistogram :: "string \<Rightarrow> rat \<Rightarrow> metric_labels \<Rightarrow> 'm \<Rightarrow> 'm result"
  mc_RecordDuration :: "string \<Rightarrow> int \<Rightarrow> metric_labels \<Rightarrow> 'm \<Rightarrow> 'm result"

datatype metric_call = Inc string metric_labels | Set string rat metric_labels | Observe string rat metric_labels

text \<open>The metrics that \<open>NewPrometheusMetricsCollector\<close> makes, with their label names.\<close>

definition counter_labels :: "string \<rightharpoonup> string list" where
  "counter_labels = map_of
    [(''sms_submitted_total'', [''source_ton'', ''dest_ton'', ''data_coding'', ''bind_type'']),
     (''sms_delivered_total'', [''source_ton'', ''dest_ton'', ''data_coding'']),
     (''sms_failed_total'', [''reason'', ''bind_type'']),
     (''auth_failures_total'', [''reason'']),
     (''bind_success_total'', [''bind_type'', ''system_type'']),
     (''connections_total'', [''type'', ''result'']),
     (''pdu_processed_total'', [''command_id'', ''direction'', ''result''])]"

definition gauge_labels :: "string \<rightharpoonup> string list" where
  "gauge_labels = map_of
    [(''active_connections'', [''bind_type'']),
     (''rate_limited_requests'', [''system_id'']),
     (''queue_size'', [''queue_type''])]"

definition histogram_labels :: "string \<rightharpoonup> string list" where
  "histogram_labels = map_of
    [(''pdu_processing_duration'', [''command_id'', ''direction'']),
     (''message_delivery_time'', [''priority'']),
     (''connection_duration'', [''bind_type''])]"

text \<open>A metric of the library that is looked up with labels; a name that is unknown is ignored.\<close>

definition with_labels ::
    "(string list \<Rightarrow> metric_labels \<Rightarrow> bool) \<Rightarrow> string list option \<Rightarrow> metric_labels \<Rightarrow> metric_call \<Rightarrow> metric_call list \<Rightarrow>
     metric_call list result" where
  "with_labels allows names labels call calls =
     (case names of None \<Rightarrow> Ok calls | Some ns \<Rightarrow> if allows ns labels then Ok (calls @ [call]) else Panic)"

definition pm_IncCounter ::
    "(string list \<Rightarrow> metric_labels \<Rightarrow> bool) \<Rightarrow> string \<Rightarrow> metric_labels \<Rightarrow> metric_call list \<Rightarrow> metric_call list result" where
  "pm_IncCounter allows name labels = with_labels allows (counter_labels name) labels (Inc name labels)"

definition pm_SetGauge ::
    "(string list \<Rightarrow> metric_labels \<Rightarrow> bool) \<Rightarrow> string \<Rightarrow> rat \<Rightarrow> metric_labels \<Rightarrow> metric_call list \<Rightarrow> metric_call list result" where
  "pm_SetGauge allows name v labels = with_labels allows (gauge_labels name) labels (Set name v labels)"

definition pm_ObserveHistogram ::
    "(string list \<Rightarrow> metric_labels \<Rightarrow> bool) \<Rightarrow> string \<Rightarrow> rat \<Rightarrow> metric_labels \<Rightarrow> metric_call list \<Rightarrow> metric_call list result" where
  "pm_ObserveHistogram allows name v labels = with_labels allows (histogram_labels name) labels (Observe name v labels)"

text \<open>\<open>Duration.Seconds\<close>, in floats\<close>

definition Seconds :: "(rat \<Rightarrow> rat) \<Rightarrow> int \<Rightarrow> rat" where
  "Seconds fl d =
     (let sec = (if 0 \<le> d then d div 1000000000 else - ((- d) div 1000000000)); nsec = d - sec * 1000000000
      in fl (fl (of_int sec) + fl (of_int nsec / 1000000000)))"

definition pm_RecordDuration ::
    "(rat \<Rightarrow> rat) \<Rightarrow> (string list \<Rightarrow> metric_labels \<Rightarrow> bool) \<Rightarrow> string \<Rightarrow> int \<Rightarrow> metric_labels \<Rightarrow> metric_call list \<Rightarrow>
     metric_call list result" where
  "pm_RecordDuration fl allows name duration labels =
     pm_ObserveHistogram allows (name @ ''_duration'') (Seconds fl duration) labels"

definition prometheus :: "(rat \<Rightarrow> rat) \<Rightarrow> (string list \<Rightarrow> metric_labels \<Rightarrow> bool) \<Rightarrow> metric_call list metrics_collector" where
  "prometheus fl allows = \<lparr>mc_IncCounter = pm_IncCounter allows, mc_SetGauge = pm_SetGauge allows,
     mc_ObserveHistogram = pm_ObserveHistogram allows, mc_RecordDuration = pm_RecordDuration fl allows\<rparr>"

definition NoOpMetricsCollector :: "unit metrics_collector" where
  "NoOpMetricsCollector = \<lparr>mc_IncCounter = (\<lambda>name labels. Ok), mc_SetGauge = (\<lambda>name v labels. Ok),
     mc_ObserveHistogram = (\<lambda>name v labels. Ok), mc_RecordDuration = (\<lambda>name d labels. Ok)\<rparr>"

section \<open>Counting\<close>

text \<open>\<open>handleBindTransceiver\<close> of a server with a collector; \<open>m\<close> is the collector's state.\<close>

definition metered_handleBindTransceiver ::
    "'m metrics_collector \<Rightarrow> ('u, 'h) server \<Rightarrow> ('u, 'h) server_world \<Rightarrow> 'm \<Rightarrow> session \<Rightarrow> bind_request \<Rightarrow> u32 \<Rightarrow>
     pdu option reply \<times> session \<times> ('u, 'h) server_world \<times> 'm" where
  "metered_handleBindTransceiver mc srv w m session req sequenceNum =
     (case authenticate srv w req of
        (Err e, w1) \<Rightarrow>
          (case mc_IncCounter mc ''auth_failures_total'' [''system_id'' \<mapsto> br_SystemID req] m of
             Ok m' \<Rightarrow> (Reply (Some (BuildBindTransceiverResp '''' sequenceNum StatusInvPaswd)) None, session, w1, m')
           | _ \<Rightarrow> (Panicked, session, w1, m))
      | (Panic, w1) \<Rightarrow> (Panicked, session, w1, m)
      | (Ok usr, w1) \<Rightarrow>
          let session' = bound_session session req CommandBindTransceiver SessionStateBoundTRX in
          (case mc_IncCounter mc ''bind_success_total''
               [''system_id'' \<mapsto> br_SystemID req, ''bind_type'' \<mapsto> ''transceiver''] m of
             Ok m' \<Rightarrow>
               (Reply (Some (BuildBindTransceiverResp (br_SystemID req) sequenceNum StatusOK)) None, session',
                publish_connection srv w1 EventTypeBound session' '''' [''bind_type'' \<mapsto> ''transceiver''], m')
           | _ \<Rightarrow> (Panicked, session', w1, m)))"

definition submitted_labels :: "submit_sm \<Rightarrow> metric_labels" where
  "submitted_labels p = [''source_ton'' \<mapsto> itoa (unat (ss_SourceAddrTON p)), ''dest_ton'' \<mapsto> itoa (unat (ss_DestAddrTON p)),
     ''data_coding'' \<mapsto> itoa (unat (ss_DataCoding p))]"

text \<open>\<open>HandleSubmitSM\<close> with a collector: it counts between storing the message and publishing.\<close>

definition metered_HandleSubmitSM ::
    "'m metrics_collector \<Rightarrow> ('s, 'r, 'q) handler \<Rightarrow> ('s, 'r, 'q) world \<times> 'm \<Rightarrow> session \<Rightarrow> submit_sm \<Rightarrow>
     submit_sm_resp reply \<times> ('s, 'r, 'q) world \<times> 'm" where
  "metered_HandleSubmitSM mc mh wm session p =
     (let (w, c) = wm;
          (messageID, w1) = generateMessageID mh w;
          messageBytes = message_bytes (ss_ShortMessage p) (ss_OptionalParams p);
          failed = \<lparr>sr_MessageID = ''''\<rparr>
      in
      if length messageBytes = 0
      then (Reply failed (Some (Errorf ''no message content provided'')), w1, c)
      else
      (case res_wrap ''failed to decode message'' (Decode_text messageBytes (ss_DataCoding p)) of
         Err e \<Rightarrow> (Reply failed (Some e), w1, c) | Panic \<Rightarrow> (Panicked, w1, c)
       | Ok messageText \<Rightarrow>
      (let (now, w2) = Now mh w1; m = submit_message messageID session p now messageText in
       case ValidateMessage m of
         Err e \<Rightarrow> (Reply failed (Some e), w2, c) | Panic \<Rightarrow> (Panicked, w2, c)
       | Ok _ \<Rightarrow>
      (case store_sms mh w2 m of
         (Err e, w3) \<Rightarrow> (Reply failed (Some (Wrap ''failed to store SMS'' e)), w3, c)
       | (Panic, w3) \<Rightarrow> (Panicked, w3, c)
       | (Ok _, w3) \<Rightarrow>
      (case mc_IncCounter mc ''sms_submitted_total'' (submitted_labels p) c of
         Ok c' \<Rightarrow>
           let w4 = publish mh w3 (sms_event_of EventTypeSMSSubmitted messageID session m)
           in (Reply \<lparr>sr_MessageID = messageID\<rparr> None, w4\<lparr>w_jobs := w_jobs w4 @ [m]\<rparr>, c')
       | _ \<Rightarrow> (Panicked, w3, c))))))"

definition metered_handler_ops ::
    "'m metrics_collector \<Rightarrow> ('s, 'r, 'q) handler \<Rightarrow> (('s, 'r, 'q) world \<times> 'm) message_handler_ops" where
  "metered_handler_ops mc mh =
     \<lparr>mo_HandleSubmitSM = (\<lambda>wm s p. metered_HandleSubmitSM mc mh wm s p),
      mo_HandleQuerySM = (\<lambda>(w, m) s p. (HandleQuerySM mh w s p, w, m)),
      mo_HandleReplaceSM = (\<lambda>(w, m) s p. (case HandleReplaceSM mh w s p of (r, w') \<Rightarrow> (r, w', m))),
      mo_HandleCancelSM = (\<lambda>(w, m) s p. (case HandleCancelSM mh w s p of (r, w') \<Rightarrow> (r, w', m))),
      mo_HandleSubmitMulti = (\<lambda>(w, m) s p. (case HandleSubmitMulti mh w s p of (r, w') \<Rightarrow> (r, w', m))),
      mo_HandleDataSM = (\<lambda>(w, m) s p. (case HandleDataSM mh w s p of (r, w') \<Rightarrow> (r, w', m)))\<rparr>"

fun event_type_name :: "event_type \<Rightarrow> string" where
  "event_type_name EventTypeSMSSubmitted = ''sms.submitted''"
| "event_type_name EventTypeSMSDelivered = ''sms.delivered''"
| "event_type_name EventTypeSMSFailed = ''sms.failed''"
| "event_type_name EventTypeConnected = ''connection.connected''"
| "event_type_name EventTypeDisconnected = ''connection.disconnected''"
| "event_type_name EventTypeBound = ''connection.bound''"
| "event_type_name EventTypeUnbound = ''connection.unbound''"
| "event_type_name EventTypeDeliveryReport = ''delivery.report''"

text \<open>\<open>MetricsEventHandler\<close>: the name and the label of the counter for an event, and the two increments.\<close>

fun event_counter :: "event \<Rightarrow> (string \<times> string \<times> string) option" where
  "event_counter (SMSEvent e) =
     (if sv_MessageID e \<noteq> '''' then Some (''sms_events_total'', ''message_id'', sv_MessageID e) else None)"
| "event_counter (ConnectionEvent e) =
     (if ce_SessionID e \<noteq> '''' then Some (''connection_events_total'', ''session_id'', ce_SessionID e) else None)"
| "event_counter (DeliveryEvent e) =
     (if de_MessageID e \<noteq> '''' then Some (''delivery_events_total'', ''message_id'', de_MessageID e) else None)"

definition meh_HandleEvent :: "'m metrics_collector option \<Rightarrow> event \<Rightarrow> 'm \<Rightarrow> unit result \<times> 'm" where
  "meh_HandleEvent metrics ev m =
     (case metrics of None \<Rightarrow> (Ok (), m)
      | Some mc \<Rightarrow>
      (case mc_IncCounter mc ''events_total'' [''event_type'' \<mapsto> event_type_name (event_GetEventType ev)] m of
         Ok m1 \<Rightarrow>
           (case event_counter ev of None \<Rightarrow> (Ok (), m1)
            | Some (name, l, v) \<Rightarrow>
                (case mc_IncCounter mc name [l \<mapsto> v] m1 of Ok m2 \<Rightarrow> (Ok (), m2) | _ \<Rightarrow> (Panic, m1)))
       | _ \<Rightarrow> (Panic, m)))"

definition NewMetricsEventHandler :: "string \<Rightarrow> 'm metrics_collector option \<Rightarrow> 'm event_handler" where
  "NewMetricsEventHandler i metrics = \<lparr>eh_ID = i, eh_HandleEvent = meh_HandleEvent metrics\<rparr>"

text \<open>\<open>HandleSubmitSM\<close> with and without a collector part only when the message has been stored.\<close>

lemma submit_stages:
  obtains (early) r w' where "metered_HandleSubmitSM mc mh (w, m) s p = (r, w', m)" "HandleSubmitSM mh w s p = (r, w')"
      "\<forall>resp. r \<noteq> Reply resp None"
  | (stored) i msg w3 where
      "metered_HandleSubmitSM mc mh (w, m) s p =
         (case mc_IncCounter mc ''sms_submitted_total'' (submitted_labels p) m of
            Ok m' \<Rightarrow> let w4 = publish mh w3 (sms_event_of EventTypeSMSSubmitted i s msg)
              in (Reply \<lparr>sr_MessageID = i\<rparr> None, w4\<lparr>w_jobs := w_jobs w4 @ [msg]\<rparr>, m')
          | _ \<Rightarrow> (Panicked, w3, m))"
      "HandleSubmitSM mh w s p = (let w4 = publish mh w3 (sms_event_of EventTypeSMSSubmitted i s msg)
              in (Reply \<lparr>sr_MessageID = i\<rparr> None, w4\<lparr>w_jobs := w_jobs w4 @ [msg]\<rparr>))"
      "w_events w3 = w_events w" "w_jobs w3 = w_jobs w"
proof -
  obtain i w1 where g: "generateMessageID mh w = (i, w1)" by force
  obtain now w2 where n: "Now mh w1 = (now, w2)" by force
  let ?bytes = "message_bytes (ss_ShortMessage p) (ss_OptionalParams p)"
  show thesis
  proof (cases "?bytes = []")
    case True
    then show thesis by (auto intro: early simp: metered_HandleSubmitSM_def HandleSubmitSM_def g)
  next
    case bytes: False
    show thesis
    proof (cases "Decode_text ?bytes (ss_DataCoding p)")
      case (Ok t)
      let ?m = "submit_message i s p now t"
      obtain r w3 where st: "store_sms mh w2 ?m = (r, w3)" by force
      have w3: "w_events w3 = w_events w" "w_jobs w3 = w_jobs w"
        using g n st by (auto simp: generateMessageID_def Now_def store_sms_def Let_def split: option.splits prod.splits)
      show thesis
      proof (cases "ValidateMessage ?m")
        case valid: (Ok u)
        show thesis
          by (cases r) (use w3 in \<open>auto intro: early stored simp: metered_HandleSubmitSM_def HandleSubmitSM_def g n bytes Ok valid st Let_def\<close>)
      qed (auto intro: early simp: metered_HandleSubmitSM_def HandleSubmitSM_def g n bytes Ok Let_def)
    qed (auto intro: early simp: metered_HandleSubmitSM_def HandleSubmitSM_def g bytes)
  qed
qed

section \<open>A collector that cannot fail\<close>

text \<open>
  What a handler needs of a collector: counting returns.  The answers are then those without metrics.
\<close>

locale quiet_collector =
  fixes mc :: "'m metrics_collector"
  assumes counts: "\<exists>m'. mc_IncCounter mc name labels m = Ok m'"
begin

lemma bind_unchanged:
  "\<exists>m'. metered_handleBindTransceiver mc srv w m s req n =
     (case handleBindTransceiver srv w s req n of (r, s', w') \<Rightarrow> (r, s', w', if r = Panicked then m else m'))"
proof -
  obtain r w1 where a: "authenticate srv w req = (r, w1)" by force
  show ?thesis
  proof (cases r)
    case (Ok u)
    obtain m' where "mc_IncCounter mc ''bind_success_total'' [''system_id'' \<mapsto> br_SystemID req, ''bind_type'' \<mapsto> ''transceiver''] m = Ok m'"
      using counts by blast
    with a Ok show ?thesis
      by (intro exI [of _ m']) (simp add: metered_handleBindTransceiver_def handleBindTransceiver_def Let_def)
  next
    case (Err e)
    obtain m' where "mc_IncCounter mc ''auth_failures_total'' [''system_id'' \<mapsto> br_SystemID req] m = Ok m'"
      using counts by blast
    with a Err show ?thesis
      by (intro exI [of _ m']) (simp add: metered_handleBindTransceiver_def handleBindTransceiver_def)
  qed (simp add: a metered_handleBindTransceiver_def handleBindTransceiver_def)
qed

lemma submit_unchanged:
  "\<exists>m'. metered_HandleSubmitSM mc mh (w, m) s p = (case HandleSubmitSM mh w s p of (r, w') \<Rightarrow> (r, w', m'))"
proof -
  obtain m' where m': "mc_IncCounter mc ''sms_submitted_total'' (submitted_labels p) m = Ok m'"
    using counts by blast
  show ?thesis
  proof (cases rule: submit_stages [of mc mh w m s p])
    case (early r w')
    then show ?thesis by (intro exI [of _ m]) simp
  next
    case (stored i msg w3)
    then show ?thesis by (intro exI [of _ m']) (simp add: m' Let_def)
  qed
qed

lemma event_handled: "fst (meh_HandleEvent (Some mc) ev m) = Ok ()"
proof -
  obtain m1 where m1: "mc_IncCounter mc ''events_total'' [''event_type'' \<mapsto> event_type_name (event_GetEventType ev)] m = Ok m1"
    using counts by blast
  show ?thesis
  proof (cases "event_counter ev")
    case (Some x)
    obtain name l v where x: "x = (name, l, v)" by (cases x)
    obtain m2 where "mc_IncCounter mc name [l \<mapsto> v] m1 = Ok m2" using counts by blast
    with m1 Some x show ?thesis by (simp add: meh_HandleEvent_def)
  qed (simp add: m1 meh_HandleEvent_def)
qed

end

interpretation no_op: quiet_collector NoOpMetricsCollector
  by unfold_locales (simp add: NoOpMetricsCollector_def)

text \<open>
  The two metered handlers agree with the ones of the other theories up to the call of the counter: with the collector
  that does nothing they answer the same and leave the same state.
\<close>

lemma no_op_metrics_invisible:
  "metered_handleBindTransceiver NoOpMetricsCollector srv w () s req n =
     (case handleBindTransceiver srv w s req n of (r, s', w') \<Rightarrow> (r, s', w', ()))
   \<and> metered_HandleSubmitSM NoOpMetricsCollector mh (h, ()) s p = (case HandleSubmitSM mh h s p of (r, h') \<Rightarrow> (r, h', ()))"
  using no_op.bind_unchanged [of srv w "()" s req n] no_op.submit_unchanged [of mh h "()" s p] by simp

section \<open>The collector over Prometheus\<close>

definition checks_labels :: "(string list \<Rightarrow> metric_labels \<Rightarrow> bool) \<Rightarrow> bool" where
  "checks_labels allows \<longleftrightarrow> (\<forall>names labels. allows names labels \<longleftrightarrow> dom labels = set names)"

lemma prometheus_counts:
  assumes "checks_labels allows"
  shows "pm_IncCounter allows ''bind_success_total'' [''system_id'' \<mapsto> a, ''bind_type'' \<mapsto> b] m = Panic"
    and "pm_IncCounter allows ''auth_failures_total'' [''system_id'' \<mapsto> a] m = Panic"
    and "pm_IncCounter allows ''sms_submitted_total'' (submitted_labels p) m = Panic"
proof -
  have out: "with_labels allows (Some ns) labels call m = Panic" if "labels k = None \<longleftrightarrow> k \<in> set ns" for ns labels k call
    using assms that by (auto simp: checks_labels_def with_labels_def)
  show "pm_IncCounter allows ''bind_success_total'' [''system_id'' \<mapsto> a, ''bind_type'' \<mapsto> b] m = Panic"
    using out [of "[''system_id'' \<mapsto> a, ''bind_type'' \<mapsto> b]" "''system_type''"]
    by (simp add: pm_IncCounter_def counter_labels_def)
  show "pm_IncCounter allows ''auth_failures_total'' [''system_id'' \<mapsto> a] m = Panic"
    using out [of "[''system_id'' \<mapsto> a]" "''reason''"] by (simp add: pm_IncCounter_def counter_labels_def)
  show "pm_IncCounter allows ''sms_submitted_total'' (submitted_labels p) m = Panic"
    using out [of "submitted_labels p" "''bind_type''"]
    by (simp add: pm_IncCounter_def counter_labels_def submitted_labels_def)
qed

text \<open>
  With the collector over Prometheus every \<open>bind_transceiver\<close> panics, whatever the password: the labels are not those of
  the metric.  A client with the right password is bound all the same, as the session has been changed before.
\<close>

theorem prometheus_panics_bind:
  assumes "checks_labels allows" and "authenticate srv w req = (r, w1)"
  shows "metered_handleBindTransceiver (prometheus fl allows) srv w m s req n =
    (Panicked, if is_Ok r then bound_session s req CommandBindTransceiver SessionStateBoundTRX else s, w1, m)"
  using prometheus_counts [OF assms(1)] assms(2)
  by (cases r) (simp_all add: metered_handleBindTransceiver_def prometheus_def Let_def)

lemma prometheus_submit:
  assumes "checks_labels allows" and "HandleSubmitSM mh w s p = (Reply resp None, w')"
  shows "\<exists>w''. metered_HandleSubmitSM (prometheus fl allows) mh (w, m) s p = (Panicked, w'', m) \<and>
    w_sms w'' = w_sms w' \<and> w_events w'' = w_events w \<and> w_jobs w'' = w_jobs w"
proof (cases rule: submit_stages [of "prometheus fl allows" mh w m s p])
  case (early r w'')
  with assms(2) show ?thesis by simp
next
  case (stored i msg w3)
  have "w_sms w' = w_sms w3" using stored(2) assms(2) by (auto simp: Let_def publish_def Now_def split: if_splits)
  with stored prometheus_counts(3) [OF assms(1)] show ?thesis
    by (intro exI [of _ w3]) (simp add: prometheus_def)
qed

text \<open>
  C37. A message that the server accepts without metrics is, with this collector, stored and then lost: no response is sent, no
  event is published and no goroutine processes it.
\<close>

theorem prometheus_drops_submissions:
  assumes "checks_labels allows" and "HandleSubmitSM mh (fst (sw_handler w)) (s\<lparr>se_SequenceNum := h_SequenceNum (Header p) + 1\<rparr>) b
      = (Reply resp None, h)"
    and "srv_messageHandler srv = metered_handler_ops (prometheus fl allows) mh"
    and "h_CommandID (Header p) = CommandSubmitSM" "Body p = SubmitSM b" "se_State s \<in> {SessionStateBoundTX, SessionStateBoundTRX}"
  shows "\<exists>s' w'. handlePDU srv w s p = (None, None, s', w') \<and> w_sms (fst (sw_handler w')) = w_sms h \<and>
    w_events (fst (sw_handler w')) = w_events (fst (sw_handler w)) \<and> w_jobs (fst (sw_handler w')) = w_jobs (fst (sw_handler w))"
proof -
  let ?s = "s\<lparr>se_SequenceNum := h_SequenceNum (Header p) + 1\<rparr>"
  obtain h0 m where w: "sw_handler w = (h0, m)" by force
  with prometheus_submit [OF assms(1), of mh h0 ?s b resp h fl m] assms(2)
  obtain h1 where "metered_HandleSubmitSM (prometheus fl allows) mh (h0, m) ?s b = (Panicked, h1, m)"
    "w_sms h1 = w_sms h" "w_events h1 = w_events h0" "w_jobs h1 = w_jobs h0" by auto
  moreover from this(1) have "handlePDU srv w s p = (None, None, ?s, w\<lparr>sw_handler := (h1, m)\<rparr>)"
    using assms(3-6) w
    by (auto simp: handlePDU_def dispatch_def srv_handleSubmitSM_def metered_handler_ops_def handler_response_def Let_def)
  ultimately show ?thesis using w by simp
qed

text \<open>The event handler for metrics works with it, as its counters are unknown and therefore ignored.\<close>

theorem event_metrics_ignored: "meh_HandleEvent (Some (prometheus fl allows)) ev m = (Ok (), m)"
  by (cases ev) (auto simp: meh_HandleEvent_def prometheus_def pm_IncCounter_def counter_labels_def with_labels_def)

section \<open>Witnesses\<close>

definition documented_labels :: "string list \<Rightarrow> metric_labels \<Rightarrow> bool" where
  "documented_labels names labels \<longleftrightarrow> dom labels = set names"

lemma documented: "checks_labels documented_labels"
  by (simp add: checks_labels_def documented_labels_def)

theorem prometheus_panics_bind_witness:
  "\<exists>r w1. authenticate example_server example_server_world \<lparr>br_SystemID = ''admin'', br_Password = ''x'', br_SystemType = '''',
       br_InterfaceVersion = SMPPVersion, br_AddrTON = TONUnknown, br_AddrNPI = NPIUnknown, br_AddressRange = ''''\<rparr> = (r, w1) \<and>
   fst (metered_handleBindTransceiver (prometheus (\<lambda>x. x) documented_labels) example_server example_server_world [] example_session
     \<lparr>br_SystemID = ''admin'', br_Password = ''x'', br_SystemType = '''', br_InterfaceVersion = SMPPVersion,
      br_AddrTON = TONUnknown, br_AddrNPI = NPIUnknown, br_AddressRange = ''''\<rparr> 1) = Panicked"
proof -
  let ?b = "\<lparr>br_SystemID = ''admin'', br_Password = ''x'', br_SystemType = '''', br_InterfaceVersion = SMPPVersion,
      br_AddrTON = TONUnknown, br_AddrNPI = NPIUnknown, br_AddressRange = ''''\<rparr>"
  obtain r w1 where "authenticate example_server example_server_world ?b = (r, w1)" by force
  with prometheus_panics_bind [OF documented this, of "\<lambda>x. x" "[]" example_session 1] show ?thesis by simp
qed

definition metered_world :: "(user_store, (sms_store, report_store, unit) world \<times> metric_call list) server_world" where
  "metered_world = \<lparr>sw_users = NewInMemoryUserAuth 0 0, sw_handler = (new_world (), []),
     sw_manager = NewInMemoryConnectionManager, sw_events = [], sw_ticks = 0\<rparr>"

definition metered_server :: "(user_store, (sms_store, report_store, unit) world \<times> metric_call list) server" where
  "metered_server = \<lparr>srv_userAuth = memory_user_ops,
     srv_messageHandler = metered_handler_ops (prometheus (\<lambda>x. x) documented_labels) example_handler,
     srv_eventPublisher = True, srv_clock = int, srv_MaxConnections = 100, srv_IdleTimeout = 300000000000\<rparr>"

theorem prometheus_drops_submissions_witness:
  "\<exists>s' w' i. handlePDU metered_server metered_world (example_session\<lparr>se_State := SessionStateBoundTRX\<rparr>)
      (mk_pdu CommandSubmitSM StatusOK 2 (SubmitSM example_submit_sm)) = (None, None, s', w') \<and>
    i \<in> dom (ms_messages (w_sms (fst (sw_handler w')))) \<and> w_jobs (fst (sw_handler w')) = []"
proof -
  let ?s = "example_session\<lparr>se_State := SessionStateBoundTRX, se_SequenceNum := 3\<rparr>" and ?h = "new_world () :: (sms_store, report_store, unit) world"
  have inv: "sms_store_inv (w_sms ?h)" by (simp add: example_world_inv)
  have b: "message_bytes (ss_ShortMessage example_submit_sm) (ss_OptionalParams example_submit_sm) \<noteq> []"
    "Decode_text (message_bytes (ss_ShortMessage example_submit_sm) (ss_OptionalParams example_submit_sm))
      (ss_DataCoding example_submit_sm) = Ok ''hi''"
    by (simp_all add: example_submit_sm_def message_bytes_def Decode_text_def)
  have "runes ''hi'' = codes ''hi''" by (rule runes_ASCII) (simp add: codes_def)
  then have "ValidateMessage (submit_message i ?s example_submit_sm now ''hi'') = Ok ()" for i now
    by (simp add: ValidateMessage_def submit_message_def example_submit_sm_def zero_submit_sm_def
        ValidateText_def GetMaxLength_def isValidTONNPI_def codes_def)
  then obtain i h where h: "HandleSubmitSM example_handler ?h ?s example_submit_sm = (Reply \<lparr>sr_MessageID = i\<rparr> None, h)"
    using memory_service.submit_sm_accepts [OF inv b, of True None None None int ?s] by auto
  have "i \<in> dom (ms_messages (w_sms h))"
    using memory_service.submit_sm_outcome [OF inv h] by (auto simp: Let_def)
  moreover obtain s' w' where "handlePDU metered_server metered_world (example_session\<lparr>se_State := SessionStateBoundTRX\<rparr>)
      (mk_pdu CommandSubmitSM StatusOK 2 (SubmitSM example_submit_sm)) = (None, None, s', w')"
    "w_sms (fst (sw_handler w')) = w_sms h" "w_jobs (fst (sw_handler w')) = w_jobs (fst (sw_handler metered_world))"
    using prometheus_drops_submissions [OF documented, where mh = example_handler and w = metered_world and b = example_submit_sm
        and s = "example_session\<lparr>se_State := SessionStateBoundTRX\<rparr>" and resp = "\<lparr>sr_MessageID = i\<rparr>" and h = h
        and p = "mk_pdu CommandSubmitSM StatusOK 2 (SubmitSM example_submit_sm)" and srv = metered_server and fl = "\<lambda>x. x"] h
    by (auto simp: metered_world_def metered_server_def mk_pdu_def)
  ultimately show ?thesis by (auto simp: metered_world_def new_world_def)
qed

end
