(* ===== verification/EventWiring.thy ===== *)
theory EventWiring
  imports EventBus Metrics FullServer Logger
begin

text \<open>
  The event handlers that \<open>examples/full-server/main.go\<close> puts on the asynchronous bus: the connection manager, the two
  logging handlers and the sender of delivery reports.  What one reads there of the parts is composed here: whatever
  else the bus carries, the reports for a session are written to its connection, in their order.
\<close>

section \<open>The handlers\<close>

text \<open>
  What the handlers share: the connections, the manager, the sequence numbers and the writes of the sender, and the log.
\<close>

record wired =
  wd_heap :: conn_heap
  wd_manager :: connection_manager
  wd_builder :: pdu_builder
  wd_writes :: nat
  wd_log :: "string list"

text \<open>\<open>conn_of\<close> reads the connection from the data of an event, where the server has put it.\<close>

definition NewConnectionManagerEventHandler :: "(event \<Rightarrow> conn_ref option) \<Rightarrow> wired event_handler" where
  "NewConnectionManagerEventHandler conn_of = \<lparr>eh_ID = ''connection_manager'', eh_HandleEvent = (\<lambda>ev s.
     (case manager_HandleEvent (wd_heap s) (wd_manager s) ev (conn_of ev) of (r, cm) \<Rightarrow> (r, s\<lparr>wd_manager := cm\<rparr>)))\<rparr>"

definition NewDeliveryReportSender :: "(nat \<Rightarrow> net_outcome) \<Rightarrow> (nat \<Rightarrow> time) \<Rightarrow> wired event_handler" where
  "NewDeliveryReportSender nets clock = \<lparr>eh_ID = ''delivery_report_sender'', eh_HandleEvent = (\<lambda>ev s.
     (case sender_HandleEvent (nets (wd_writes s)) (clock (wd_writes s)) (wd_manager s) (wd_builder s) (wd_heap s) ev of
        (r, b, h) \<Rightarrow> (r, s\<lparr>wd_builder := b, wd_heap := h, wd_writes := wd_writes s + 1\<rparr>)))\<rparr>"

text \<open>\<open>shown\<close> formats the time and the data of an event as \<open>%v\<close> does.\<close>

definition LoggingEventHandler :: "(event \<Rightarrow> string \<times> string) \<Rightarrow> default_logger \<Rightarrow> string \<Rightarrow> wired event_handler" where
  "LoggingEventHandler shown lg kind = \<lparr>eh_ID = ''logging_'' @ kind, eh_HandleEvent = (\<lambda>ev s.
     (Ok (), s\<lparr>wd_log := wd_log s @ (case dl_Info [] lg ''Event received''
         [''type'', event_type_name (event_GetEventType ev), ''timestamp'', fst (shown ev), ''handler'', kind, ''data'', snd (shown ev)]
       of None \<Rightarrow> [] | Some line \<Rightarrow> [line])\<rparr>))\<rparr>"

text \<open>The logging handler of the package \<open>events\<close>, which may have no logger; its \<open>HandleEvent\<close> returns a line.\<close>

record 'l logging_event_handler =
  leh_id :: string
  leh_logger :: "'l option"

definition NewLoggingEventHandler :: "string \<Rightarrow> 'l option \<Rightarrow> 'l logging_event_handler" where
  "NewLoggingEventHandler i lg = \<lparr>leh_id = i, leh_logger = lg\<rparr>"

definition leh_HandleEvent ::
    "(event \<Rightarrow> string \<times> string) \<Rightarrow> default_logger logging_event_handler \<Rightarrow> event \<Rightarrow> unit result \<times> string option" where
  "leh_HandleEvent shown h ev =
     (Ok (), case leh_logger h of None \<Rightarrow> None
      | Some lg \<Rightarrow> dl_Info [] lg ''Event received''
          [''event_type'', event_type_name (event_GetEventType ev), ''timestamp'', fst (shown ev), ''data'', snd (shown ev)])"

text \<open>A function as a handler.\<close>

definition NewEventHandlerFunc :: "string \<Rightarrow> (event \<Rightarrow> 's \<Rightarrow> unit result \<times> 's) \<Rightarrow> 's event_handler" where
  "NewEventHandlerFunc i f = \<lparr>eh_ID = i, eh_HandleEvent = f\<rparr>"

section \<open>Subscribing\<close>

text \<open>An error of \<open>Subscribe\<close> is logged, and the next subscription is tried.\<close>

fun subscribe_all :: "(event_type \<times> 's event_handler) list \<Rightarrow> 's event_bus \<Rightarrow> error list \<times> 's event_bus" where
  "subscribe_all [] eb = ([], eb)"
| "subscribe_all ((ty, h) # subs) eb =
     (case Subscribe eb ty (Some h) of (r, eb1) \<Rightarrow>
      (case subscribe_all subs eb1 of (errs, eb2) \<Rightarrow> ((case r of Err e \<Rightarrow> [e] | _ \<Rightarrow> []) @ errs, eb2)))"

definition setupEventHandlers ::
    "(event \<Rightarrow> string \<times> string) \<Rightarrow> wired event_handler \<Rightarrow> wired event_handler \<Rightarrow> default_logger \<Rightarrow> wired event_bus \<Rightarrow>
     error list \<times> wired event_bus" where
  "setupEventHandlers shown manager sender lg eb =
     (let connection = LoggingEventHandler shown lg ''connection''; msg = LoggingEventHandler shown lg ''message'' in
      subscribe_all
        [(EventTypeConnected, manager), (EventTypeDisconnected, manager),
         (EventTypeConnected, connection), (EventTypeDisconnected, connection),
         (EventTypeBound, connection), (EventTypeUnbound, connection),
         (EventTypeSMSSubmitted, msg), (EventTypeSMSDelivered, msg), (EventTypeSMSFailed, msg),
         (EventTypeDeliveryReport, msg), (EventTypeDeliveryReport, sender)] eb)"

text \<open>The bus of the full server when it has been set up.\<close>

definition full_bus ::
    "(event \<Rightarrow> conn_ref option) \<Rightarrow> (nat \<Rightarrow> net_outcome) \<Rightarrow> (nat \<Rightarrow> time) \<Rightarrow> (event \<Rightarrow> string \<times> string) \<Rightarrow> default_logger \<Rightarrow>
     wired async_bus" where
  "full_bus conn_of nets clock shown lg =
     (let ab = NewAsyncEventBus 1000 in
      ab\<lparr>ab_bus := snd (setupEventHandlers shown (NewConnectionManagerEventHandler conn_of)
         (NewDeliveryReportSender nets clock) lg (ab_bus ab))\<rparr>)"

definition full_subscribers ::
    "wired event_handler \<Rightarrow> wired event_handler \<Rightarrow> (event \<Rightarrow> string \<times> string) \<Rightarrow> default_logger \<Rightarrow> event_type \<Rightarrow> wired event_handler list" where
  "full_subscribers manager sender shown lg ty =
     (case ty of
        EventTypeConnected \<Rightarrow> [manager, LoggingEventHandler shown lg ''connection'']
      | EventTypeDisconnected \<Rightarrow> [manager, LoggingEventHandler shown lg ''connection'']
      | EventTypeBound \<Rightarrow> [LoggingEventHandler shown lg ''connection'']
      | EventTypeUnbound \<Rightarrow> [LoggingEventHandler shown lg ''connection'']
      | EventTypeDeliveryReport \<Rightarrow> [LoggingEventHandler shown lg ''message'', sender]
      | _ \<Rightarrow> [LoggingEventHandler shown lg ''message''])"

lemma handler_IDs [simp]:
  "eh_ID (NewConnectionManagerEventHandler conn_of) = ''connection_manager''"
  "eh_ID (NewDeliveryReportSender nets clock) = ''delivery_report_sender''"
  "eh_ID (LoggingEventHandler shown lg kind) = ''logging_'' @ kind"
  by (simp_all add: NewConnectionManagerEventHandler_def NewDeliveryReportSender_def LoggingEventHandler_def)

lemma subscribers_new [simp]: "subscribers (NewEventBus b) ty = []"
  by (simp add: subscribers_def NewEventBus_def)

lemma eb_async_new [simp]: "eb_async (NewEventBus b) = b"
  by (simp add: NewEventBus_def)

lemma Subscribe_new:
  "eh_ID h \<notin> eh_ID ` set (subscribers eb ty) \<Longrightarrow>
   Subscribe eb ty (Some h) = (Ok (), eb\<lparr>eb_subscribers := (eb_subscribers eb)(ty \<mapsto> subscribers eb ty @ [h])\<rparr>)"
  by (simp add: Subscribe_def list_ex_iff) (metis image_eqI)

text \<open>Subscriptions with distinct IDs for each type all succeed, and are the subscribers, in their order.\<close>

lemma subscribe_all_exact:
  "\<forall>ty. distinct (map eh_ID (subscribers eb ty @ map snd (filter (\<lambda>sb. fst sb = ty) subs))) \<Longrightarrow>
   \<exists>eb'. subscribe_all subs eb = ([], eb') \<and> eb_async eb' = eb_async eb \<and>
     (\<forall>ty. subscribers eb' ty = subscribers eb ty @ map snd (filter (\<lambda>sb. fst sb = ty) subs))"
proof (induction subs arbitrary: eb)
  case (Cons sb subs)
  obtain ty h where sb: "sb = (ty, h)" by force
  let ?eb = "eb\<lparr>eb_subscribers := (eb_subscribers eb)(ty \<mapsto> subscribers eb ty @ [h])\<rparr>"
  have "eh_ID h \<notin> eh_ID ` set (subscribers eb ty)"
    using Cons.prems [rule_format, of ty] by (auto simp: sb)
  note new = Subscribe_new [OF this]
  have "\<forall>t. distinct (map eh_ID (subscribers ?eb t @ map snd (filter (\<lambda>sb. fst sb = t) subs)))"
  proof
    fix t
    show "distinct (map eh_ID (subscribers ?eb t @ map snd (filter (\<lambda>sb. fst sb = t) subs)))"
      using Cons.prems [rule_format, of t] by (cases "ty = t") (simp_all only: sb subscribers_upd not_sym if_True if_False filter.simps fst_conv
          snd_conv list.map append_assoc append.simps simp_thms)
  qed
  from Cons.IH [OF this] obtain eb' where eb': "subscribe_all subs ?eb = ([], eb')" "eb_async eb' = eb_async ?eb"
    "\<forall>t. subscribers eb' t = subscribers ?eb t @ map snd (filter (\<lambda>sb. fst sb = t) subs)" by blast
  then show ?case by (simp add: sb new)
qed simp

text \<open>Every subscription of the full server succeeds, and each type of event has exactly these handlers, in this order.\<close>

lemma setup_subscriptions:
  assumes "eh_ID manager = ''connection_manager''" and "eh_ID sender = ''delivery_report_sender''"
  obtains eb where "setupEventHandlers shown manager sender lg (NewEventBus b) = ([], eb)" "eb_async eb = b"
    "\<And>ty. subscribers eb ty = full_subscribers manager sender shown lg ty"
proof -
  let ?c = "LoggingEventHandler shown lg ''connection''" and ?m = "LoggingEventHandler shown lg ''message''"
  define subs where "subs =
    [(EventTypeConnected, manager), (EventTypeDisconnected, manager), (EventTypeConnected, ?c), (EventTypeDisconnected, ?c),
     (EventTypeBound, ?c), (EventTypeUnbound, ?c), (EventTypeSMSSubmitted, ?m), (EventTypeSMSDelivered, ?m),
     (EventTypeSMSFailed, ?m), (EventTypeDeliveryReport, ?m), (EventTypeDeliveryReport, sender)]"
  have mine: "map snd (filter (\<lambda>sb. fst sb = ty) subs) = full_subscribers manager sender shown lg ty" for ty
    by (cases ty) (simp_all add: subs_def full_subscribers_def)
  have "distinct (map eh_ID (full_subscribers manager sender shown lg ty))" for ty
    by (cases ty) (simp_all add: assms full_subscribers_def)
  then obtain eb' where "subscribe_all subs (NewEventBus b) = ([], eb')" "eb_async eb' = b"
    "\<forall>ty. subscribers eb' ty = full_subscribers manager sender shown lg ty"
    using subscribe_all_exact [of "NewEventBus b" subs] mine by auto
  moreover have "setupEventHandlers shown manager sender lg (NewEventBus b) = subscribe_all subs (NewEventBus b)"
    by (simp only: setupEventHandlers_def subs_def Let_def)
  ultimately show thesis using that by simp
qed

text \<open>
  Setting up the bus of the full server does not fail, and it gives every type of event its handlers: the manager comes
  before the log, the sender of delivery reports after it, and no other type reaches the two.
\<close>

theorem full_bus_subscribers:
  "fst (setupEventHandlers shown (NewConnectionManagerEventHandler conn_of) (NewDeliveryReportSender nets clock) lg
     (NewEventBus False)) = []
   \<and> map eh_ID (subscribers (ab_bus (full_bus conn_of nets clock shown lg)) ty) =
     (if ty \<in> {EventTypeConnected, EventTypeDisconnected} then [''connection_manager'', ''logging_connection'']
      else if ty \<in> {EventTypeBound, EventTypeUnbound} then [''logging_connection'']
      else if ty = EventTypeDeliveryReport then [''logging_message'', ''delivery_report_sender'']
      else [''logging_message''])"
proof -
  obtain eb where "setupEventHandlers shown (NewConnectionManagerEventHandler conn_of) (NewDeliveryReportSender nets clock) lg
      (NewEventBus False) = ([], eb)"
    "\<And>ty. subscribers eb ty = full_subscribers (NewConnectionManagerEventHandler conn_of) (NewDeliveryReportSender nets clock) shown lg ty"
    using setup_subscriptions [OF handler_IDs(1,2), where shown = shown and lg = lg and b = False] by metis
  then show ?thesis
    by (cases ty) (simp_all add: full_bus_def NewAsyncEventBus_def full_subscribers_def)
qed

section \<open>What the bus does to its handlers\<close>

text \<open>One event, and then the events of a full channel.\<close>

definition bus_calls :: "'s event_bus \<Rightarrow> event \<Rightarrow> 's \<Rightarrow> 's" where
  "bus_calls eb ev s = fold (\<lambda>h s. snd (eh_HandleEvent h ev s)) (subscribers eb (event_GetEventType ev)) s"

lemma eb_publish_calls: "\<not> eb_async eb \<Longrightarrow> fst (snd (eb_publish eb (Some ev) s)) = bus_calls eb ev s"
  by (simp add: eb_publish_def bus_calls_def handleEventSafely_state Let_def)

lemma worker_steps_calls:
  "\<not> eb_async (ab_bus ab) \<Longrightarrow> \<not> ab_done ab \<Longrightarrow>
   worker_steps (length (ab_chan ab)) ab s = (ab\<lparr>ab_chan := []\<rparr>, fold (bus_calls (ab_bus ab)) (ab_chan ab) s)"
proof (induction "ab_chan ab" arbitrary: ab s)
  case (Cons ev evs)
  have "worker_step ab s = (ab\<lparr>ab_chan := evs\<rparr>, bus_calls (ab_bus ab) ev s)"
    using Cons.prems Cons.hyps(2) [symmetric] by (simp add: worker_step_def eb_publish_calls)
  with Cons.hyps(1) [of "ab\<lparr>ab_chan := evs\<rparr>" "bus_calls (ab_bus ab) ev s"] Cons.hyps(2) [symmetric] Cons.prems show ?case
    by simp
qed simp

text \<open>Among the events of the full server, the state without the log changes as follows.\<close>

definition report_type :: "event \<Rightarrow> bool" where
  "report_type ev \<longleftrightarrow> event_GetEventType ev = EventTypeDeliveryReport"

lemma full_bus_calls:
  assumes "eb = ab_bus (full_bus conn_of nets clock shown lg)"
  shows "wd_manager (bus_calls eb ev s) = snd (manager_HandleEvent (wd_heap s) (wd_manager s) ev (conn_of ev))"
    and "wd_heap (bus_calls eb ev s) = (if report_type ev
      then snd (snd (sender_HandleEvent (nets (wd_writes s)) (clock (wd_writes s)) (wd_manager s) (wd_builder s) (wd_heap s) ev))
      else wd_heap s)"
    and "wd_builder (bus_calls eb ev s) = (if report_type ev
      then fst (snd (sender_HandleEvent (nets (wd_writes s)) (clock (wd_writes s)) (wd_manager s) (wd_builder s) (wd_heap s) ev))
      else wd_builder s)"
proof -
  have f: "subscribers eb ty = full_subscribers (NewConnectionManagerEventHandler conn_of) (NewDeliveryReportSender nets clock) shown lg ty" for ty
    using setup_subscriptions [OF handler_IDs(1,2), where shown = shown and lg = lg and b = False]
    unfolding assms full_bus_def NewAsyncEventBus_def Let_def by (metis async_bus.select_convs(1) async_bus.update_convs(1) snd_conv)
  note defs = bus_calls_def f full_subscribers_def report_type_def manager_HandleEvent_def LoggingEventHandler_def
    NewConnectionManagerEventHandler_def NewDeliveryReportSender_def
  show "wd_manager (bus_calls eb ev s) = snd (manager_HandleEvent (wd_heap s) (wd_manager s) ev (conn_of ev))"
    by (cases "event_GetEventType ev") (simp_all add: defs split: prod.split)
  show "wd_heap (bus_calls eb ev s) = (if report_type ev
      then snd (snd (sender_HandleEvent (nets (wd_writes s)) (clock (wd_writes s)) (wd_manager s) (wd_builder s) (wd_heap s) ev))
      else wd_heap s)"
    by (cases "event_GetEventType ev") (simp_all add: defs split: prod.split)
  show "wd_builder (bus_calls eb ev s) = (if report_type ev
      then fst (snd (sender_HandleEvent (nets (wd_writes s)) (clock (wd_writes s)) (wd_manager s) (wd_builder s) (wd_heap s) ev))
      else wd_builder s)"
    by (cases "event_GetEventType ev") (simp_all add: defs split: prod.split)
qed

section \<open>Reports\<close>

text \<open>The \<open>deliver_sm\<close> for a report, and the ones for a session among those of a list of events.\<close>

definition report_pdu :: "pdu_builder \<Rightarrow> delivery_report \<Rightarrow> byte list \<Rightarrow> pdu \<times> pdu_builder" where
  "report_pdu b report reportBytes =
     (case BuildDeliverSM b (r_MessageID report) '''' reportBytes 0 of (p, b') \<Rightarrow>
        (case Body p of DeliverSM ds \<Rightarrow> p\<lparr>Body := DeliverSM (ds\<lparr>ds_EsmClass := 0x04\<rparr>)\<rparr> | _ \<Rightarrow> p, b'))"

fun report_pdus :: "string \<Rightarrow> pdu_builder \<Rightarrow> event list \<Rightarrow> pdu list" where
  "report_pdus i b [] = []"
| "report_pdus i b (ev # evs) =
     (case ev of
        DeliveryEvent de \<Rightarrow>
          if report_type ev then
            (case Encode_text (r_Text (de_Report de)) 0 of
               Ok bs \<Rightarrow> (case report_pdu b (de_Report de) bs of (p, b') \<Rightarrow>
                 (if de_Data de ''session_id'' = Some i then [p] else []) @ report_pdus i b' evs)
             | _ \<Rightarrow> report_pdus i b evs)
          else report_pdus i b evs
      | _ \<Rightarrow> report_pdus i b evs)"

definition disconnects :: "string \<Rightarrow> event \<Rightarrow> bool" where
  "disconnects i ev \<longleftrightarrow> (\<exists>ce. ev = ConnectionEvent ce \<and> ce_Type ce = EventTypeDisconnected \<and> ce_SessionID ce = i)"

lemma report_pdu_encodes: "is_Ok (Encode (fst (report_pdu b r bs)))"
  by (simp add: report_pdu_def BuildDeliverSM_def mk_pdu_def Let_def split_beta Encode_def DeliverSM_Marshal_def)

lemma sender_report:
  "sender_HandleEvent net now cm b h (DeliveryEvent de) =
     (case Encode_text (r_Text (de_Report de)) 0 of
        Ok bs \<Rightarrow> (case report_pdu b (de_Report de) bs of (p, b') \<Rightarrow>
          (case de_Data de ''session_id'' of
             None \<Rightarrow> (Ok (), b', h)
           | Some j \<Rightarrow> (case cm_connections cm j of
               None \<Rightarrow> (Ok (), b', h)
             | Some d \<Rightarrow> (case conn_Send net now (h d) p of (r, x) \<Rightarrow>
                 (res_wrap ''failed to send delivery report'' r, b', h(d := x))))))
      | Err e \<Rightarrow> (Err (Wrap ''failed to encode delivery report'' e), b, h)
      | Panic \<Rightarrow> (Panic, b, h))"
  by (cases "Encode_text (r_Text (de_Report de)) 0")
     (simp_all add: sender_HandleEvent_def report_pdu_def GetConnection_def Let_def split_beta split: option.split)

lemma manager_keeps:
  assumes "cm_connections cm i = Some c" and "\<not> disconnects i ev"
  shows "cm_connections (snd (manager_HandleEvent h cm ev conn)) i = Some c"
  using assms
  by (auto simp: manager_HandleEvent_def handleConnected_def handleDisconnected_def AddConnection_def RemoveConnection_def
      disconnects_def Let_def split: event.split option.split)

text \<open>One call of the sender, for the connection of a session.\<close>

lemma sender_call:
  assumes "manager_inv h cm" "cm_connections cm i = Some c" "sc_active (h c)"
    and net: "no_deadline_ok net" "no_write_ok net" and "report_type ev"
  obtains r b' h' where "sender_HandleEvent net now cm b h ev = (r, b', h')" "manager_inv h' cm" "sc_active (h' c)"
    "\<And>evs. report_pdus i b (ev # evs) = report_pdus i b [ev] @ report_pdus i b' evs"
    "sc_out (h' c) = sc_out (h c) @ concat (map wire_bytes (report_pdus i b [ev]))"
proof (cases ev)
  case (DeliveryEvent de)
  let ?r = "de_Report de"
  show thesis
  proof (cases "Encode_text (r_Text ?r) 0")
    case (Ok bs)
    obtain p b' where p: "report_pdu b ?r bs = (p, b')" by force
    have e: "is_Ok (Encode p)" using report_pdu_encodes [of b ?r bs] p by simp
    note pdus = DeliveryEvent Ok p assms(6) [unfolded DeliveryEvent]
    show thesis
    proof (cases "de_Data de ''session_id''")
      case None
      then show thesis
        by (intro that [of "Ok ()" b' h]) (simp_all add: assms sender_report pdus)
    next
      case (Some j)
      show thesis
      proof (cases "cm_connections cm j")
        case none: None
        with assms(2) have "j \<noteq> i" by auto
        then show thesis
          by (intro that [of "Ok ()" b' h]) (simp_all add: assms sender_report pdus Some none)
      next
        case conn: (Some d)
        have d: "d = c \<longleftrightarrow> j = i" using assms(1,2) conn by (auto simp: manager_inv_def)
        obtain r x where x: "conn_Send net now (h d) p = (r, x)" by force
        have s: "j = i \<Longrightarrow> sc_out x = sc_out (h c) @ wire_bytes p \<and> sc_active x"
          using x d e assms(3) net by (auto simp: conn_Send_def wire_bytes_def split: result.splits prod.splits)
        have inv: "manager_inv (h(d := x)) cm" using manager_inv_Send [OF assms(1), of d net now p] x by simp
        show thesis
          by (rule that [of "res_wrap ''failed to send delivery report'' r" b' "h(d := x)"])
            (use s d inv assms(3) in \<open>auto simp: sender_report pdus Some conn x\<close>)
      qed
    qed
  qed (auto intro!: that simp: assms sender_report DeliveryEvent)
qed (auto intro!: that simp: assms sender_HandleEvent_def)

text \<open>The state in which the reports of a session reach its connection.\<close>

definition attached :: "string \<Rightarrow> conn_ref \<Rightarrow> wired \<Rightarrow> bool" where
  "attached i c s \<longleftrightarrow> manager_inv (wd_heap s) (wd_manager s) \<and> cm_connections (wd_manager s) i = Some c \<and> sc_active (wd_heap s c)"

lemma report_pdus_other: "\<not> report_type ev \<Longrightarrow> report_pdus i b (ev # evs) = report_pdus i b evs"
  by (cases ev) simp_all

declare report_pdus.simps(2) [simp del]

lemma attached_call:
  assumes eb: "eb = ab_bus (full_bus conn_of nets clock shown lg)" and "attached i c s" and "\<not> disconnects i ev"
    and nets: "\<And>k. no_deadline_ok (nets k) \<and> no_write_ok (nets k)"
  shows "attached i c (bus_calls eb ev s)
    \<and> sc_out (wd_heap (bus_calls eb ev s) c) = sc_out (wd_heap s c) @ concat (map wire_bytes (report_pdus i (wd_builder s) [ev]))
    \<and> (\<forall>evs. report_pdus i (wd_builder s) (ev # evs) =
         report_pdus i (wd_builder s) [ev] @ report_pdus i (wd_builder (bus_calls eb ev s)) evs)"
proof -
  note a = assms(2) [unfolded attached_def]
  note keeps = manager_keeps [of "wd_manager s" i c ev "wd_heap s" "conn_of ev"]
  show ?thesis
  proof (cases "report_type ev")
    case True
    obtain r b' h' where call: "sender_HandleEvent (nets (wd_writes s)) (clock (wd_writes s)) (wd_manager s) (wd_builder s) (wd_heap s) ev = (r, b', h')"
      "manager_inv h' (wd_manager s)" "sc_active (h' c)"
      "\<And>evs. report_pdus i (wd_builder s) (ev # evs) = report_pdus i (wd_builder s) [ev] @ report_pdus i b' evs"
      "sc_out (h' c) = sc_out (wd_heap s c) @ concat (map wire_bytes (report_pdus i (wd_builder s) [ev]))"
      using sender_call [of "wd_heap s" "wd_manager s" i c "nets (wd_writes s)" ev "clock (wd_writes s)" "wd_builder s"] a nets True
      by metis
    have "snd (manager_HandleEvent (wd_heap s) (wd_manager s) ev (conn_of ev)) = wd_manager s"
      using True by (simp add: manager_HandleEvent_def report_type_def)
    then have e: "wd_manager (bus_calls eb ev s) = wd_manager s" "wd_heap (bus_calls eb ev s) = h'" "wd_builder (bus_calls eb ev s) = b'"
      using True by (simp_all add: full_bus_calls [OF eb] call(1))
    show ?thesis unfolding attached_def e using a call(2-5) by blast
  next
    case False
    with a keeps assms(3) show ?thesis
      by (simp add: full_bus_calls [OF eb] attached_def report_pdus_other manager_inv_HandleEvent)
  qed
qed

lemma attached_calls:
  assumes eb: "eb = ab_bus (full_bus conn_of nets clock shown lg)"
    and nets: "\<And>k. no_deadline_ok (nets k) \<and> no_write_ok (nets k)"
  shows "attached i c s \<Longrightarrow> list_all (\<lambda>ev. \<not> disconnects i ev) evs \<Longrightarrow>
    attached i c (fold (bus_calls eb) evs s)
    \<and> sc_out (wd_heap (fold (bus_calls eb) evs s) c) = sc_out (wd_heap s c) @ concat (map wire_bytes (report_pdus i (wd_builder s) evs))"
proof (induction evs arbitrary: s)
  case (Cons ev evs)
  have "\<not> disconnects i ev" using Cons.prems(2) by simp
  note call = attached_call [OF eb Cons.prems(1) this nets]
  have step: "attached i c (bus_calls eb ev s)"
    "sc_out (wd_heap (bus_calls eb ev s) c) = sc_out (wd_heap s c) @ concat (map wire_bytes (report_pdus i (wd_builder s) [ev]))"
    "report_pdus i (wd_builder s) (ev # evs) = report_pdus i (wd_builder s) [ev] @ report_pdus i (wd_builder (bus_calls eb ev s)) evs"
    using call by blast+
  have "list_all (\<lambda>ev. \<not> disconnects i ev) evs" using Cons.prems(2) by simp
  from Cons.IH [OF step(1) this] show ?case
    by (simp only: fold.simps o_apply step(2,3) map_append concat_append append_assoc simp_thms)
qed simp

text \<open>
  The reports of a session reach its client.  When the bus of the full server has handled the event of a new connection
  and then any other events, but no end of this connection, exactly the reports for its session have been written to it,
  one \<open>deliver_sm\<close> for each, in the order of the events, and the connection is still the one of the session.
\<close>

lemma reports_reach_session:
  assumes "ab = (full_bus conn_of nets clock shown lg)\<lparr>ab_chan := ConnectionEvent ce # evs\<rparr>"
    and "ce_Type ce = EventTypeConnected" "conn_of (ConnectionEvent ce) = Some c"
    and "conn_GetSessionID (wd_heap s c) = i" "i \<noteq> ''''" "sc_active (wd_heap s c)"
    and "manager_inv (wd_heap s) (wd_manager s)" "cm_connections (wd_manager s) i = None"
    and "list_all (\<lambda>ev. \<not> disconnects i ev) evs"
    and "\<And>k. no_deadline_ok (nets k) \<and> no_write_ok (nets k)"
  shows "\<exists>s'. worker_steps (length (ab_chan ab)) ab s = (ab\<lparr>ab_chan := []\<rparr>, s')
    \<and> cm_connections (wd_manager s') i = Some c
    \<and> sc_out (wd_heap s' c) = sc_out (wd_heap s c) @ concat (map wire_bytes (report_pdus i (wd_builder s) evs))"
proof -
  let ?eb = "ab_bus (full_bus conn_of nets clock shown lg)" and ?ev = "ConnectionEvent ce"
  obtain eb where "setupEventHandlers shown (NewConnectionManagerEventHandler conn_of) (NewDeliveryReportSender nets clock) lg
      (NewEventBus False) = ([], eb)" "eb_async eb = False"
    using setup_subscriptions [OF handler_IDs(1,2), where shown = shown and lg = lg and b = False] by metis
  then have "\<not> eb_async ?eb" "\<not> ab_done ab"
    by (simp_all add: full_bus_def NewAsyncEventBus_def assms(1))
  with worker_steps_calls [of ab s]
  have w: "worker_steps (length (ab_chan ab)) ab s = (ab\<lparr>ab_chan := []\<rparr>, fold (bus_calls ?eb) (?ev # evs) s)"
    by (simp add: assms(1))
  let ?s = "bus_calls ?eb ?ev s"
  have n: "\<not> report_type ?ev" by (simp add: report_type_def assms(2))
  have m: "snd (manager_HandleEvent (wd_heap s) (wd_manager s) ?ev (Some c)) =
      (wd_manager s)\<lparr>cm_connections := (cm_connections (wd_manager s))(i \<mapsto> c)\<rparr>"
    using assms(4,5,8) by (simp add: manager_HandleEvent_def handleConnected_def AddConnection_def assms(2) Let_def)
  have "attached i c ?s"
    using manager_inv_HandleEvent [OF assms(7), of ?ev "Some c"] m
    by (simp add: attached_def full_bus_calls [OF refl] n assms(3,6))
  from attached_calls [OF refl assms(10) this assms(9)]
  have "attached i c (fold (bus_calls ?eb) evs ?s)"
    "sc_out (wd_heap (fold (bus_calls ?eb) evs ?s) c) = sc_out (wd_heap s c) @ concat (map wire_bytes (report_pdus i (wd_builder s) evs))"
    by (simp_all add: full_bus_calls [OF refl] n)
  with w show ?thesis by (auto simp: attached_def)
qed

end
