(* ===== verification/FullFlow.thy ===== *)
theory FullFlow
  imports EventWiring
begin

text \<open>
  The full server from a processed message on: its delivery reports pass over the event bus to the connection of the
  submitter, and its parts go into a queue from which nothing takes them.
\<close>

section \<open>The events of a processed message\<close>

lemma enqueue_all_frame:
  assumes "mh_queue mh = Some memory_queue_ops"
  shows "enqueue_all mh w route parts = (r, w') \<Longrightarrow>
    w_events w' = w_events w \<and> q_capacity (w_queue w') = q_capacity (w_queue w)"
proof (induction parts arbitrary: w)
  case (Cons m parts)
  obtain r1 w1 where 1: "enqueueMessage mh w m route = (r1, w1)" by force
  then have "w_events w1 = w_events w" "q_capacity (w_queue w1) = q_capacity (w_queue w)"
    by (auto simp: enqueueMessage_def assms memory_queue_ops_def EnqueueMessage_def Now_def Let_def split: if_splits)
  with Cons.IH [of w1] Cons.prems 1 show ?case by (cases r1) simp_all
qed simp

lemma update_sms_status_frame:
  "update_sms_status mh w i st = (r, w') \<Longrightarrow> w_events w' = w_events w \<and> w_queue w' = w_queue w"
  by (auto simp: update_sms_status_def Now_def Let_def split: option.splits prod.splits)

lemma store_report_frame:
  "store_report mh w rep = (r, w') \<Longrightarrow> w_events w' = w_events w \<and> w_queue w' = w_queue w"
  by (auto simp: store_report_def Let_def split: option.splits prod.splits)

text \<open>The event with the report on a part of a message.\<close>

definition reports_part :: "string \<Rightarrow> event \<Rightarrow> message \<Rightarrow> bool" where
  "reports_part i ev p \<longleftrightarrow> (\<exists>de now. ev = DeliveryEvent de \<and> de_Type de = EventTypeDeliveryReport \<and> de_MessageID de = m_ID p \<and>
     de_Report de = delivered_report now p \<and> de_Data de = [''session_id'' \<mapsto> i])"

lemma report_all_events:
  assumes "mh_eventPublisher mh" and store: "\<And>w rep. fst (store_report mh w rep) \<noteq> Panic"
  shows "\<exists>w' evs. report_all mh w m parts = (Ok (), w') \<and> w_events w' = w_events w @ evs \<and>
    list_all2 (reports_part (m_SessionID m)) evs parts \<and> w_queue w' = w_queue w"
proof (induction parts arbitrary: w)
  case (Cons p parts)
  obtain now w1 where n: "Now mh w = (now, w1)" by force
  obtain r w2 where s: "store_report mh w1 (delivered_report now p) = (r, w2)" by force
  define ev where "ev = (\<lambda>t. DeliveryEvent \<lparr>de_Type = EventTypeDeliveryReport, de_Timestamp = t, de_MessageID = m_ID p,
    de_Report = delivered_report now p, de_Session = None, de_Data = [''session_id'' \<mapsto> m_SessionID m]\<rparr>)"
  let ?w3 = "publish mh w2 ev"
  have f: "w_events w1 = w_events w" "w_queue w1 = w_queue w"
    using n by (auto simp: Now_def)
  obtain t where w3: "w_events ?w3 = w_events w2 @ [ev t]" "w_queue ?w3 = w_queue w2"
    by (simp add: publish_def assms(1) Now_def)
  have "r \<noteq> Panic" using store [of w1 "delivered_report now p"] s by simp
  then have "report_all mh w m (p # parts) = report_all mh ?w3 m parts"
    by (cases r) (simp_all add: n s GenerateDeliveryReport_delivered ev_def)
  moreover have "reports_part (m_SessionID m) (ev t) p" by (auto simp: reports_part_def ev_def)
  ultimately show ?case
    using Cons.IH [of ?w3] w3 f store_report_frame [OF s] by (metis append.assoc append_Cons append_Nil list_all2_Cons)
qed (simp add: exI [of _ "[]"])

lemma full_handler_simps [simp]:
  "mh_eventPublisher (full_handler order clock)" "mh_queue (full_handler order clock) = Some memory_queue_ops"
  "mh_splitter (full_handler order clock) = Some (splitter_SplitMessage NewDefaultMessageSplitter)"
  "fst (store_report (full_handler order clock) w rep) \<noteq> Panic"
proof -
  obtain u s' where s: "ro_StoreReport (file_report_ops (\<lambda>_. Done)) (w_reports w) rep = (u, s')" by force
  have "u \<noteq> Panic" using file_reports.store_report [OF s] by auto
  then show "fst (store_report (full_handler order clock) w rep) \<noteq> Panic"
    by (simp add: store_report_def full_handler_def file_handler_def s)
qed (simp_all add: full_handler_def file_handler_def)

lemma process_events:
  assumes "ProcessMessage (full_handler order clock) w m = (Ok (), w')" and "and (m_RegisteredDelivery m) 0x01 \<noteq> 0"
  obtains parts evs where "splitter_SplitMessage NewDefaultMessageSplitter m = Ok parts"
    "w_events w' = w_events w @ evs" "list_all2 (reports_part (m_SessionID m)) evs parts"
proof -
  let ?mh = "full_handler order clock"
  obtain ri where ri: "routeMessage ?mh m = Ok ri"
    using assms(1) by (cases "routeMessage ?mh m") (auto simp: ProcessMessage_def)
  obtain parts where parts: "splitMessage ?mh m = Ok parts"
    using assms(1) ri by (cases "splitMessage ?mh m") (auto simp: ProcessMessage_def)
  obtain w1 where w1: "enqueue_all ?mh w ri parts = (Ok (), w1)"
    using assms(1) ri parts by (auto simp: ProcessMessage_def split: prod.splits result.splits)
  obtain st w2 where w2: "update_sms_status ?mh w1 (m_ID m) st = (Ok (), w2)" "report_all ?mh w2 m parts = (Ok (), w')"
    using assms ri parts w1 by (auto simp: ProcessMessage_def Let_def split: prod.splits result.splits if_splits)
  obtain evs where "w_events w' = w_events w2 @ evs" "list_all2 (reports_part (m_SessionID m)) evs parts"
    using report_all_events [OF full_handler_simps(1,4), of order clock w2 m parts] w2(2) by auto
  moreover have "w_events w2 = w_events w"
    using enqueue_all_frame [OF full_handler_simps(2) w1] update_sms_status_frame [OF w2(1)] by simp
  ultimately show thesis
    using parts by (intro that) (simp_all add: splitMessage_def)
qed

section \<open>From the processed message to the connection\<close>

lemma report_pdus_step: "\<exists>b'. \<forall>ys. report_pdus i b (ev # ys) = report_pdus i b [ev] @ report_pdus i b' ys"
proof (cases ev)
  case (DeliveryEvent de)
  show ?thesis
  proof (cases "Encode_text (r_Text (de_Report de)) 0")
    case (Ok bs)
    then show ?thesis
      by (intro exI [of _ "if report_type ev then snd (report_pdu b (de_Report de) bs) else b"])
         (simp add: report_pdus.simps(2) DeliveryEvent split_beta)
  qed (auto intro!: exI [of _ b] simp: report_pdus.simps(2) DeliveryEvent)
qed (auto intro!: exI [of _ b] simp: report_pdus.simps(2))

lemma report_pdus_append: "\<exists>b'. \<forall>ys. report_pdus i b (xs @ ys) = report_pdus i b xs @ report_pdus i b' ys"
proof (induction xs arbitrary: b)
  case (Cons ev xs)
  obtain b1 where b1: "\<forall>ys. report_pdus i b (ev # ys) = report_pdus i b [ev] @ report_pdus i b1 ys"
    using report_pdus_step by blast
  obtain b' where "\<forall>ys. report_pdus i b1 (xs @ ys) = report_pdus i b1 xs @ report_pdus i b' ys"
    using Cons.IH by blast
  with b1 have "report_pdus i b ((ev # xs) @ ys) = report_pdus i b (ev # xs) @ report_pdus i b' ys" for ys
    by (metis append_Cons append_assoc)
  then show ?case by blast
qed auto

text \<open>A \<open>deliver_sm\<close> that carries the receipt for a part.\<close>

definition receipt_for :: "pdu \<Rightarrow> message \<Rightarrow> bool" where
  "receipt_for p part \<longleftrightarrow> (\<exists>now b bs. Encode_text (r_Text (delivered_report now part)) 0 = Ok bs \<and>
     p = fst (report_pdu b (delivered_report now part) bs))"

lemma report_pdus_parts:
  "list_all2 (reports_part i) evs parts \<Longrightarrow> list_all2 receipt_for (report_pdus i b evs) parts"
proof (induction evs parts arbitrary: b rule: list_all2_induct)
  case (Cons ev evs part parts)
  obtain de now where de: "ev = DeliveryEvent de" "de_Type de = EventTypeDeliveryReport" "de_Report de = delivered_report now part"
    "de_Data de = [''session_id'' \<mapsto> i]" using Cons.hyps(1) by (auto simp: reports_part_def)
  obtain bs where bs: "Encode_text (r_Text (delivered_report now part)) 0 = Ok bs"
    by (simp add: Encode_text_def EncodeGSM7Bit_def)
  obtain p b' where p: "report_pdu b (delivered_report now part) bs = (p, b')" by force
  then have "receipt_for p part"
    using bs unfolding receipt_for_def by (metis fst_conv)
  with Cons.IH [of b'] show ?case
    by (simp add: report_pdus.simps(2) de report_type_def bs p)
qed simp

text \<open>
  A message that asks for a report is answered on the connection of its session: when the full server has processed it,
  and the bus has handled the event of the connection, any events in between and those of the message, the last bytes that
  were written to the connection are one \<open>deliver_sm\<close> for each part of the message, in order, with the receipt of the
  part.
\<close>

lemma receipts_written:
  assumes "ProcessMessage (full_handler order hclock) w m = (Ok (), w')" and "and (m_RegisteredDelivery m) 0x01 \<noteq> 0"
    and "w_events w' = w_events w @ evs" and "m_SessionID m = i" "i \<noteq> ''''"
    and "ab = (full_bus conn_of nets clock shown lg)\<lparr>ab_chan := ConnectionEvent ce # mid @ evs\<rparr>"
    and "ce_Type ce = EventTypeConnected" "conn_of (ConnectionEvent ce) = Some c"
    and "conn_GetSessionID (wd_heap s c) = i" "sc_active (wd_heap s c)"
    and "manager_inv (wd_heap s) (wd_manager s)" "cm_connections (wd_manager s) i = None"
    and "list_all (\<lambda>ev. \<not> disconnects i ev) mid" and "\<And>k. no_deadline_ok (nets k) \<and> no_write_ok (nets k)"
  shows "\<exists>s' before pdus parts. worker_steps (length (ab_chan ab)) ab s = (ab\<lparr>ab_chan := []\<rparr>, s') \<and>
    splitter_SplitMessage NewDefaultMessageSplitter m = Ok parts \<and>
    sc_out (wd_heap s' c) = sc_out (wd_heap s c) @ before @ concat (map wire_bytes pdus) \<and> list_all2 receipt_for pdus parts"
proof -
  obtain parts evs' where parts: "splitter_SplitMessage NewDefaultMessageSplitter m = Ok parts"
    "w_events w' = w_events w @ evs'" "list_all2 (reports_part (m_SessionID m)) evs' parts"
    using process_events [OF assms(1,2)] by metis
  with assms(3,4) have r: "list_all2 (reports_part i) evs parts" by simp
  then have "list_all (\<lambda>ev. \<not> disconnects i ev) evs"
    by (auto simp: list_all_length list_all2_conv_all_nth reports_part_def disconnects_def)
  with assms(13) have "list_all (\<lambda>ev. \<not> disconnects i ev) (mid @ evs)" by simp
  from reports_reach_session [OF assms(6-9,5,10-12) this assms(14)] obtain s' where s': "worker_steps (length (ab_chan ab)) ab s = (ab\<lparr>ab_chan := []\<rparr>, s')"
    "sc_out (wd_heap s' c) = sc_out (wd_heap s c) @ concat (map wire_bytes (report_pdus i (wd_builder s) (mid @ evs)))"
    by blast
  obtain b' where "report_pdus i (wd_builder s) (mid @ evs) = report_pdus i (wd_builder s) mid @ report_pdus i b' evs"
    using report_pdus_append by metis
  with s' parts(1) report_pdus_parts [OF r, of b'] show ?thesis
    by (intro exI [of _ s'] exI [of _ "concat (map wire_bytes (report_pdus i (wd_builder s) mid))"] exI [of _ "report_pdus i b' evs"] exI [of _ parts]) simp
qed

section \<open>The queue\<close>

text \<open>
  For the statements below: the results of processing a list of jobs one after the other.  In the code each job is a
  goroutine of its own, and the list is any order in which they get to run.
\<close>

fun process_all ::
    "('s, 'r, 'q) handler \<Rightarrow> ('s, 'r, 'q) world \<Rightarrow> message list \<Rightarrow> unit result list \<times> ('s, 'r, 'q) world" where
  "process_all mh w [] = ([], w)"
| "process_all mh w (m # ms) =
     (case ProcessMessage mh w m of (r, w1) \<Rightarrow> (case process_all mh w1 ms of (rs, w2) \<Rightarrow> (r # rs, w2)))"

lemma splitter_nonempty:
  assumes "splitter_SplitMessage NewDefaultMessageSplitter m = Ok parts"
  shows "parts \<noteq> []"
proof -
  have "splitTextByRunes t n \<noteq> []" "splitTextByBytes t n \<noteq> []" for t n
    by (auto simp: splitTextByRunes_def splitTextByBytes_def chunks.simps [of n "runes t"] chunks.simps [of n t])
  then have "enumerate 0 (splitTextByRunes t n) \<noteq> []" "enumerate 0 (splitTextByBytes t n) \<noteq> []" for t n
    by (metis enumerate_simps(1) length_enumerate length_0_conv)+
  with assms show ?thesis
    by (auto simp: splitter_SplitMessage_def Let_def split_parts_eq split: if_splits)
qed

text \<open>Processing a message leaves as many messages in the queue as there were, and one more at least when it succeeds.\<close>

lemma process_queue:
  assumes "ProcessMessage (full_handler order clock) w m = (r, w')"
    and "length (q_messages (w_queue w)) \<le> q_capacity (w_queue w)"
  shows "q_capacity (w_queue w') = q_capacity (w_queue w) \<and> length (q_messages (w_queue w')) \<le> q_capacity (w_queue w) \<and>
    length (q_messages (w_queue w)) + (if r = Ok () then 1 else 0) \<le> length (q_messages (w_queue w'))"
proof -
  let ?mh = "full_handler order clock"
  show ?thesis
  proof (cases "routeMessage ?mh m")
    case route: (Ok ri)
    show ?thesis
    proof (cases "splitMessage ?mh m")
      case split: (Ok parts)
      then have parts: "0 < length parts" using splitter_nonempty by (simp add: splitMessage_def)
      obtain r1 w1 where 1: "enqueue_all ?mh w ri parts = (r1, w1)" by force
      note q = enqueue_all_queue [where mh = ?mh and w = w and parts = parts and route = ri, OF full_handler_simps(2), unfolded 1 prod.case]
      let ?free = "q_capacity (w_queue w) - length (q_messages (w_queue w))"
      from q have "length (map qm_Message (q_messages (w_queue w1))) = length (q_messages (w_queue w)) + min ?free (length parts)"
        by (metis length_append length_map length_take min.commute)
      then have len: "length (q_messages (w_queue w1)) = length (q_messages (w_queue w)) + min ?free (length parts)" by simp
      have cap: "q_capacity (w_queue w1) = q_capacity (w_queue w)"
        using enqueue_all_frame [OF full_handler_simps(2) 1] by simp
      have "w_queue w' = w_queue w1"
      proof (cases r1)
        case ok: (Ok u)
        obtain st r2 w2 where 2: "update_sms_status ?mh w1 (m_ID m) st = (r2, w2)"
          "w' = (if r2 = Ok () \<and> and (m_RegisteredDelivery m) 0x01 \<noteq> 0 then snd (report_all ?mh w2 m parts) else w2)"
          using assms(1) route split 1 ok by (auto simp: ProcessMessage_def Let_def split: prod.splits result.splits if_splits)
        have "w_queue (snd (report_all ?mh w2 m parts)) = w_queue w2"
          using report_all_events [OF full_handler_simps(1,4), of order clock w2 m parts] by auto
        with 2(2) update_sms_status_frame [OF 2(1)] show ?thesis by simp
      qed (use assms(1) route split 1 in \<open>auto simp: ProcessMessage_def\<close>)
      moreover have "r = Ok () \<Longrightarrow> r1 = Ok ()"
        using assms(1) route split 1 by (cases r1) (auto simp: ProcessMessage_def)
      moreover have "r1 = Ok () \<Longrightarrow> length parts \<le> ?free" using q by (auto split: if_splits)
      ultimately show ?thesis using len cap assms(2) parts by (cases "r = Ok ()") (auto simp del: length_greater_0_conv)
    qed (use assms route in \<open>auto simp: ProcessMessage_def\<close>)
  qed (use assms in \<open>auto simp: ProcessMessage_def\<close>)
qed

lemma process_all_bound:
  "length (q_messages (w_queue w)) \<le> q_capacity (w_queue w) \<Longrightarrow>
   length (filter (\<lambda>r. r = Ok ()) (fst (process_all (full_handler order clock) w ms))) + length (q_messages (w_queue w))
     \<le> q_capacity (w_queue w)"
proof (induction ms arbitrary: w)
  case (Cons m ms)
  obtain r w1 where 1: "ProcessMessage (full_handler order clock) w m = (r, w1)" by force
  note q = process_queue [OF 1 Cons.prems]
  then have "length (q_messages (w_queue w1)) \<le> q_capacity (w_queue w1)" by simp
  from Cons.IH [OF this] q show ?case by (auto simp: 1 split_beta split: if_splits)
qed simp

text \<open>
  C22. Nothing takes messages from the queue of the full server, so it processes at most 1000 messages in its life, however
  many it accepts: the processing of every further one fails.
\<close>

theorem full_server_stalls:
  assumes "w_queue w = NewInMemoryMessageQueue 1000"
  shows "length (filter (\<lambda>r. r = Ok ()) (fst (process_all (full_handler order clock) w ms))) \<le> 1000"
  using process_all_bound [of w order clock ms] assms by (simp add: NewInMemoryMessageQueue_def)

section \<open>Witnesses\<close>

text \<open>A stored message whose parts fit into the queue is processed.\<close>

lemma full_processed:
  assumes "file_inv (w_sms w)" and "fs_messages (w_sms w) (m_ID m) = Some m0"
    and "splitter_SplitMessage NewDefaultMessageSplitter m = Ok parts"
    and "length parts \<le> q_capacity (w_queue w) - length (q_messages (w_queue w))"
  shows "\<exists>w'. ProcessMessage (full_handler order clock) w m = (Ok (), w')"
proof -
  let ?mh = "full_handler order clock"
  obtain ri where route: "routeMessage ?mh m = Ok ri"
    by (simp add: routeMessage_def full_handler_def file_handler_def RouteMessage_def split_beta Let_def)
  have split: "splitMessage ?mh m = Ok parts" using assms(3) by (simp add: splitMessage_def)
  obtain r1 w1 where 1: "enqueue_all ?mh w ri parts = (r1, w1)" by force
  note q = enqueue_all_queue [where mh = ?mh and w = w and parts = parts and route = ri, OF full_handler_simps(2), unfolded 1 prod.case]
  have w1: "file_inv (w_sms w1)" "fs_messages (w_sms w1) (m_ID m) = Some m0" "r1 = Ok ()" using q assms by simp_all
  have "\<exists>w2. update_sms_status ?mh w1 (m_ID m) st = (Ok (), w2)" for st
    using file_service.status_exact [OF w1(1,2)] unfolding full_handler_def by blast
  then obtain w2 where w2: "update_sms_status ?mh w1 (m_ID m) (if length parts > 1 then MessageStatusSplit else MessageStatusAccepted) = (Ok (), w2)"
    by blast
  show ?thesis
    using report_all_events [OF full_handler_simps(1,4), of order clock w2 m parts] w2
    by (auto simp: ProcessMessage_def route split 1 w1(3) Let_def)
qed

abbreviation example_full_world :: "(file_sms_store, file_report_store, msg_queue) world" where
  "example_full_world \<equiv> \<lparr>w_sms = example_fs,
     w_reports = \<lparr>fr_dataDir = (False, [''data'']), fr_reports = Map.empty, fr_disk = \<lparr>dk_files = Map.empty, dk_calls = 0\<rparr>\<rparr>,
     w_queue = NewInMemoryMessageQueue 1000, w_events = [], w_jobs = [], w_ticks = 0\<rparr>"

abbreviation example_wired :: wired where
  "example_wired \<equiv> \<lparr>wd_heap = example_heap, wd_manager = NewInMemoryConnectionManager, wd_builder = NewPDUBuilder,
     wd_writes = 0, wd_log = []\<rparr>"

theorem full_server_stalls_witness:
  "length (filter (\<lambda>r. r = Ok ()) (fst (process_all (full_handler [] int) example_full_world (replicate 2000 zero_message)))) \<le> 1000"
  by (rule full_server_stalls) simp

end
