(* ===== verification/PartsReporter.thy ===== *)
theory PartsReporter
  imports SimpleClient FullServer "HOL-Library.AList"
begin

text \<open>
  The client of \<open>examples/sms-parts-reporter/main.go\<close>: a reporter that counts the parts of the messages that a client has
  sent, fed by the callbacks of the client.  The IDs it gets are the ones that the server makes.
\<close>

section \<open>Reports\<close>

text \<open>A Go map of the statuses, as a list of pairs with distinct keys.\<close>

record sms_report =
  rt_MessageID :: string
  rt_BaseMessageID :: string
  rt_TotalParts :: int
  rt_SubmittedParts :: int
  rt_DeliveredParts :: int
  rt_FailedParts :: int
  rt_PartStatuses :: "(string \<times> string) list"
  rt_SubmitTime :: time
  rt_FirstDelivery :: "time option"
  rt_FinalDelivery :: "time option"
  rt_Status :: string

text \<open>The reports are pointers, one for each key, so the map may hold their values; \<open>rp_log\<close> has the printed lines.\<close>

record sms_reporter =
  rp_reports :: "string \<rightharpoonup> sms_report"
  rp_logger :: default_logger
  rp_log :: "string list"

definition NewSMSReporter :: "default_logger \<Rightarrow> sms_reporter" where
  "NewSMSReporter lg = \<lparr>rp_reports = Map.empty, rp_logger = lg, rp_log = []\<rparr>"

definition printed :: "string option \<Rightarrow> sms_reporter \<Rightarrow> sms_reporter" where
  "printed line rp = rp\<lparr>rp_log := rp_log rp @ (case line of None \<Rightarrow> [] | Some l \<Rightarrow> [l])\<rparr>"

text \<open>\<open>strings.LastIndex\<close> of a string of one byte\<close>

definition LastIndexByte :: "char \<Rightarrow> string \<Rightarrow> nat option" where
  "LastIndexByte c s = (let t = dropWhile (\<lambda>d. d \<noteq> c) (rev s) in if t = [] then None else Some (length t - 1))"

definition extractBaseID :: "string \<Rightarrow> string" where
  "extractBaseID messageID =
     (case LastIndexByte (CHR ''_'') messageID of
        Some i \<Rightarrow> if i > 0 then take i messageID else messageID
      | None \<Rightarrow> messageID)"

definition TrackMessage :: "time \<Rightarrow> string \<Rightarrow> int \<Rightarrow> sms_reporter \<Rightarrow> sms_reporter" where
  "TrackMessage now messageID totalParts rp =
     (let base = extractBaseID messageID;
          report = \<lparr>rt_MessageID = messageID, rt_BaseMessageID = base, rt_TotalParts = totalParts, rt_SubmittedParts = 0,
            rt_DeliveredParts = 0, rt_FailedParts = 0, rt_PartStatuses = [], rt_SubmitTime = now, rt_FirstDelivery = None,
            rt_FinalDelivery = None, rt_Status = ''PENDING''\<rparr>
      in printed (dl_Info [] (rp_logger rp) ''Started tracking SMS message''
           [''message_id'', messageID, ''base_id'', base, ''total_parts'', itoa_int totalParts])
         (rp\<lparr>rp_reports := (rp_reports rp)(messageID \<mapsto> report)\<rparr>))"

text \<open>The report of an ID: its own or the first one of \<open>order\<close>, in which Go ranges over the map, with the same base.\<close>

definition find_key :: "string list \<Rightarrow> string \<Rightarrow> sms_reporter \<Rightarrow> string option" where
  "find_key order messageID rp =
     (if rp_reports rp messageID \<noteq> None then Some messageID
      else find (\<lambda>k. case rp_reports rp k of Some r \<Rightarrow> rt_BaseMessageID r = extractBaseID messageID | None \<Rightarrow> False) order)"

definition reporter_GetReport :: "string list \<Rightarrow> string \<Rightarrow> sms_reporter \<Rightarrow> sms_report option" where
  "reporter_GetReport order messageID rp = (case find_key order messageID rp of None \<Rightarrow> None | Some k \<Rightarrow> rp_reports rp k)"

definition count_status :: "string \<Rightarrow> int \<times> int \<times> int \<Rightarrow> int \<times> int \<times> int" where
  "count_status s c =
     (case c of (submitted, delivered, failed) \<Rightarrow>
      let u = ToUpper s in
      if u = ''DELIVRD'' then (submitted, delivered + 1, failed)
      else if u = ''ACCEPTD'' \<or> u = ''ENROUTE'' then (submitted + 1, delivered, failed)
      else if u = ''EXPIRED'' \<or> u = ''DELETED'' \<or> u = ''UNDELIV'' \<or> u = ''REJECTD'' then (submitted, delivered, failed + 1)
      else (submitted, delivered, failed))"

definition updateOverallStatus :: "sms_report \<Rightarrow> sms_report" where
  "updateOverallStatus r =
     r\<lparr>rt_Status :=
        (if rt_FailedParts r > 0 \<and> rt_DeliveredParts r = 0 then ''FAILED''
         else if rt_DeliveredParts r = rt_TotalParts r then ''COMPLETE''
         else if rt_DeliveredParts r > 0 then ''PARTIAL''
         else ''PENDING'')\<rparr>"

definition updated_report :: "time \<Rightarrow> string \<Rightarrow> string \<Rightarrow> sms_report \<Rightarrow> sms_report" where
  "updated_report now messageID status r =
     (let parts = AList.update messageID status (rt_PartStatuses r) in
      case fold (\<lambda>(k, s). count_status s) parts (0, 0, 0) of (submitted, delivered, failed) \<Rightarrow>
      updateOverallStatus (r\<lparr>rt_PartStatuses := parts, rt_SubmittedParts := submitted, rt_DeliveredParts := delivered,
        rt_FailedParts := failed,
        rt_FirstDelivery := (if rt_FirstDelivery r = None \<and> (status = ''DELIVRD'' \<or> status = ''ACCEPTD'')
          then Some now else rt_FirstDelivery r),
        rt_FinalDelivery := (if status = ''DELIVRD'' then Some now else rt_FinalDelivery r)\<rparr>))"

definition UpdatePartStatus :: "string list \<Rightarrow> time \<Rightarrow> string \<Rightarrow> string \<Rightarrow> sms_reporter \<Rightarrow> sms_reporter" where
  "UpdatePartStatus order now messageID status rp =
     (case find_key order messageID rp of
        None \<Rightarrow> printed (dl_Warn [] (rp_logger rp) ''No report found for message'' [''message_id'', messageID]) rp
      | Some k \<Rightarrow>
          let r = updated_report now messageID status (the (rp_reports rp k)) in
          printed (dl_Info [] (rp_logger rp) ''Updated SMS part status''
             [''message_id'', messageID, ''part_status'', status, ''delivered_parts'', itoa_int (rt_DeliveredParts r),
              ''total_parts'', itoa_int (rt_TotalParts r)])
           (rp\<lparr>rp_reports := (rp_reports rp)(k \<mapsto> r)\<rparr>))"

text \<open>
  The printed lines, less the empty ones; \<open>show_time\<close> formats a time.  The parts come in the order in which Go ranges over the map.
\<close>

definition report_lines :: "(time \<Rightarrow> string) \<Rightarrow> (string \<times> string) list \<Rightarrow> sms_report \<Rightarrow> string list" where
  "report_lines show_time parts r =
     [''=== SMS MESSAGE REPORT ==='', ''Message ID: '' @ rt_MessageID r, ''Base ID: '' @ rt_BaseMessageID r,
      ''Total Parts: '' @ itoa_int (rt_TotalParts r), ''Submitted Parts: '' @ itoa_int (rt_SubmittedParts r),
      ''Delivered Parts: '' @ itoa_int (rt_DeliveredParts r), ''Failed Parts: '' @ itoa_int (rt_FailedParts r),
      ''Overall Status: '' @ rt_Status r, ''Submit Time: '' @ show_time (rt_SubmitTime r)] @
     (case rt_FirstDelivery r of None \<Rightarrow> [] | Some t \<Rightarrow> [''First Delivery: '' @ show_time t]) @
     (case rt_FinalDelivery r of None \<Rightarrow> [] | Some t \<Rightarrow> [''Final Delivery: '' @ show_time t]) @
     ''Part Details:'' # map (\<lambda>(k, s). ''  Part '' @ k @ '': '' @ s) parts @ [''========================'']"

definition PrintReport ::
    "(time \<Rightarrow> string) \<Rightarrow> string list \<Rightarrow> (string \<times> string) list \<Rightarrow> string \<Rightarrow> sms_reporter \<Rightarrow> string list \<times> sms_reporter" where
  "PrintReport show_time order parts messageID rp =
     (case reporter_GetReport order messageID rp of
        None \<Rightarrow> ([], printed (dl_Warn [] (rp_logger rp) ''No report found'' [''message_id'', messageID]) rp)
      | Some r \<Rightarrow> (report_lines show_time parts r, rp))"

section \<open>The callbacks\<close>

text \<open>What the two callbacks do; \<open>shown\<close> formats an error.\<close>

fun on_client_call ::
    "(error \<Rightarrow> string) \<Rightarrow> string list \<Rightarrow> time \<Rightarrow> client_call \<Rightarrow> sms_reporter \<Rightarrow> sms_reporter" where
  "on_client_call shown order now (CalledSubmitResponse messageID (Some e)) rp =
     UpdatePartStatus order now messageID ''FAILED''
       (printed (dl_Error [] (rp_logger rp) ''Submit failed'' [''messageID'', messageID, ''error'', shown e]) rp)"
| "on_client_call shown order now (CalledSubmitResponse messageID None) rp =
     UpdatePartStatus order now messageID ''SUBMITTED''
       (printed (dl_Info [] (rp_logger rp) ''Message part submitted successfully'' [''messageID'', messageID]) rp)"
| "on_client_call shown order now (CalledDeliveryReport report) rp =
     (let rp1 = UpdatePartStatus order now (r_MessageID report) (r_Status report)
        (printed (dl_Info [] (rp_logger rp) ''Delivery report received''
           [''messageID'', r_MessageID report, ''status'', r_Status report]) rp)
      in case reporter_GetReport order (r_MessageID report) rp1 of
           None \<Rightarrow> rp1
         | Some r \<Rightarrow> printed (dl_Info [] (rp_logger rp) ''Current message status''
             [''message_id'', rt_MessageID r, ''status'', rt_Status r, ''delivered_parts'', itoa_int (rt_DeliveredParts r),
              ''total_parts'', itoa_int (rt_TotalParts r)]) rp1)"
| "on_client_call shown order now call rp = rp"

definition setupReportingCallbacks :: "client \<Rightarrow> client" where
  "setupReportingCallbacks c = OnDeliveryReport (OnSubmitResponse c)"

definition estimatedParts :: "nat \<Rightarrow> nat" where
  "estimatedParts len = (len + 153) div 154"

definition short_test_message :: string where
  "short_test_message = ''Short SMS test message''"

definition long_test_message :: string where
  "long_test_message = ''This is a very long SMS message that will be split into multiple parts. '' @
     ''Each part will have its own delivery report. This demonstrates how SMPP handles '' @
     ''concatenated SMS messages with proper part tracking and status reporting. '' @
     ''The message is designed to exceed 160 characters significantly.''"

definition send_test ::
    "(error \<Rightarrow> string) \<Rightarrow> net_outcome \<Rightarrow> string \<Rightarrow> string \<Rightarrow> sms_reporter \<times> client \<Rightarrow> unit result \<times> sms_reporter \<times> client" where
  "send_test shown net message what st =
     (case st of (rp, c) \<Rightarrow>
      case SendSMS net c ''12345'' ''67890'' message of
        (Err e, c') \<Rightarrow> (Ok (), printed (dl_Error [] (rp_logger rp) what [''error'', shown e]) rp, c')
      | (r, c') \<Rightarrow> (r, rp, c'))"

text \<open>
  Both messages are tracked, whatever becomes of them; the callbacks run in the function \<open>asleep\<close>, while this one sleeps.
\<close>

definition sendTestMessages ::
    "(error \<Rightarrow> string) \<Rightarrow> net_outcome \<Rightarrow> net_outcome \<Rightarrow> time \<Rightarrow> time \<Rightarrow> (sms_reporter \<times> client \<Rightarrow> sms_reporter \<times> client) \<Rightarrow>
     sms_reporter \<times> client \<Rightarrow> unit result \<times> sms_reporter \<times> client" where
  "sendTestMessages shown net1 net2 now1 now2 asleep st =
     (case st of (rp, c) \<Rightarrow>
      let rp1 = TrackMessage now1 ''MSG_test_001'' 1
            (printed (dl_Info [] (rp_logger rp) ''Sending short message'' [''text'', short_test_message]) rp)
      in case send_test shown net1 short_test_message ''Failed to send short message'' (rp1, c) of
        (Panic, st2) \<Rightarrow> (Panic, st2)
      | (_, st2) \<Rightarrow>
     (case asleep st2 of (rp3, c3) \<Rightarrow>
      let rp4 = TrackMessage now2 ''MSG_test_002'' (int (estimatedParts (length long_test_message)))
            (printed (dl_Info [] (rp_logger rp3) ''Sending long message'' [''length'', itoa (length long_test_message)]) rp3)
      in send_test shown net2 long_test_message ''Failed to send long message'' (rp4, c3)))"

section \<open>Base IDs\<close>

lemma LastIndexByte_append: "c \<notin> set t \<Longrightarrow> LastIndexByte c (s @ c # t) = Some (length s)"
  by (auto simp: LastIndexByte_def dropWhile_append Let_def)

lemma LastIndexByte_None: "LastIndexByte c s = None \<longleftrightarrow> c \<notin> set s"
  by (auto simp: LastIndexByte_def Let_def)

text \<open>The base of an ID: what stands before its last underscore, if that is not the first character.\<close>

lemma extractBaseID_part [simp]: "CHR ''_'' \<notin> set n \<Longrightarrow> s \<noteq> '''' \<Longrightarrow> extractBaseID (s @ CHR ''_'' # n) = s"
  by (simp add: extractBaseID_def LastIndexByte_append)

lemma extractBaseID_plain [simp]: "CHR ''_'' \<notin> set s \<Longrightarrow> extractBaseID s = s"
  using LastIndexByte_None [of "CHR ''_''" s] by (simp add: extractBaseID_def)

lemma itoa_no_underscore [simp]: "CHR ''_'' \<notin> set (itoa n)" "CHR ''_'' \<notin> set (itoa_int i)"
  using itoa_digits [of n] itoa_int_no_underscore [of i] by (auto simp: list_all_iff is_digit_def)

lemma extractBaseID_message_ID: "extractBaseID (message_ID_at a b) = ''MSG_'' @ itoa_int a"
  using extractBaseID_part [of "itoa_int (go_rem (Unix b) 100000)" "''MSG_'' @ itoa_int a"] by (simp add: message_ID_at_def)

lemma extractBaseID_message_part: "extractBaseID (message_ID_at a b @ ''_'' @ itoa n) = message_ID_at a b"
  by simp

section \<open>The counters\<close>

text \<open>The classes of the statuses\<close>

definition delivered_status :: "string \<Rightarrow> bool" where
  "delivered_status s \<longleftrightarrow> ToUpper s = ''DELIVRD''"

definition submitted_status :: "string \<Rightarrow> bool" where
  "submitted_status s \<longleftrightarrow> ToUpper s \<in> {''ACCEPTD'', ''ENROUTE''}"

definition failed_status :: "string \<Rightarrow> bool" where
  "failed_status s \<longleftrightarrow> ToUpper s \<in> {''EXPIRED'', ''DELETED'', ''UNDELIV'', ''REJECTD''}"

definition parts_with :: "(string \<Rightarrow> bool) \<Rightarrow> (string \<times> string) list \<Rightarrow> int" where
  "parts_with P parts = int (length (filter (\<lambda>(k, s). P s) parts))"

lemma parts_with_simps [simp]:
  "parts_with P [] = 0" "parts_with P ((k, s) # parts) = (if P s then 1 else 0) + parts_with P parts"
  by (simp_all add: parts_with_def)

lemma count_status_classes:
  "count_status s (a, b, c) = (a + (if submitted_status s then 1 else 0), b + (if delivered_status s then 1 else 0),
     c + (if failed_status s then 1 else 0))"
  by (auto simp: count_status_def submitted_status_def delivered_status_def failed_status_def Let_def)

lemma counted:
  "fold (\<lambda>(k, s). count_status s) parts (a, b, c) =
     (a + parts_with submitted_status parts, b + parts_with delivered_status parts, c + parts_with failed_status parts)"
  by (induction parts arbitrary: a b c) (auto simp: count_status_classes)

lemma parts_with_sum:
  "parts_with submitted_status parts + parts_with delivered_status parts + parts_with failed_status parts \<le> int (length parts)"
  by (induction parts) (auto simp: submitted_status_def delivered_status_def failed_status_def)

lemma parts_with_nonneg [simp]: "0 \<le> parts_with P parts"
  by (simp add: parts_with_def)

definition overall_status :: "int \<Rightarrow> (string \<times> string) list \<Rightarrow> string" where
  "overall_status n parts =
     (if parts_with failed_status parts > 0 \<and> parts_with delivered_status parts = 0 then ''FAILED''
      else if parts_with delivered_status parts = n then ''COMPLETE''
      else if parts_with delivered_status parts > 0 then ''PARTIAL'' else ''PENDING'')"


text \<open>Everything that a report says, but for its times, follows from its ID, its number of parts and their statuses.\<close>

lemma updated_report_simps [simp]:
  "rt_MessageID (updated_report now i s r) = rt_MessageID r"
  "rt_BaseMessageID (updated_report now i s r) = rt_BaseMessageID r"
  "rt_TotalParts (updated_report now i s r) = rt_TotalParts r"
  "rt_SubmitTime (updated_report now i s r) = rt_SubmitTime r"
  "rt_PartStatuses (updated_report now i s r) = AList.update i s (rt_PartStatuses r)"
  "rt_SubmittedParts (updated_report now i s r) = parts_with submitted_status (AList.update i s (rt_PartStatuses r))"
  "rt_DeliveredParts (updated_report now i s r) = parts_with delivered_status (AList.update i s (rt_PartStatuses r))"
  "rt_FailedParts (updated_report now i s r) = parts_with failed_status (AList.update i s (rt_PartStatuses r))"
  "rt_Status (updated_report now i s r) = overall_status (rt_TotalParts r) (AList.update i s (rt_PartStatuses r))"
  "rt_FirstDelivery (updated_report now i s r) = (if rt_FirstDelivery r = None \<and> (s = ''DELIVRD'' \<or> s = ''ACCEPTD'')
     then Some now else rt_FirstDelivery r)"
  "rt_FinalDelivery (updated_report now i s r) = (if s = ''DELIVRD'' then Some now else rt_FinalDelivery r)"
  by (simp_all add: updated_report_def counted Let_def updateOverallStatus_def overall_status_def)

text \<open>The reporters that the operations make, with a clock that does not go back.\<close>

inductive reporter_reach :: "sms_reporter \<Rightarrow> time \<Rightarrow> bool" where
  new: "reporter_reach (NewSMSReporter lg) t"
| track: "reporter_reach rp t \<Longrightarrow> t \<le> now \<Longrightarrow> reporter_reach (TrackMessage now i n rp) now"
| update: "reporter_reach rp t \<Longrightarrow> t \<le> now \<Longrightarrow> reporter_reach (UpdatePartStatus order now i s rp) now"
| call: "reporter_reach rp t \<Longrightarrow> t \<le> now \<Longrightarrow> reporter_reach (on_client_call shown order now c rp) now"

definition report_inv :: "string \<Rightarrow> time \<Rightarrow> sms_report \<Rightarrow> bool" where
  "report_inv i t r \<longleftrightarrow> rt_MessageID r = i \<and> rt_BaseMessageID r = extractBaseID i \<and> distinct (map fst (rt_PartStatuses r))
     \<and> rt_SubmittedParts r = parts_with submitted_status (rt_PartStatuses r)
     \<and> rt_DeliveredParts r = parts_with delivered_status (rt_PartStatuses r)
     \<and> rt_FailedParts r = parts_with failed_status (rt_PartStatuses r)
     \<and> rt_Status r = (if rt_PartStatuses r = [] then ''PENDING'' else overall_status (rt_TotalParts r) (rt_PartStatuses r))
     \<and> rt_SubmitTime r \<le> t \<and> (\<forall>a. rt_FirstDelivery r = Some a \<longrightarrow> rt_SubmitTime r \<le> a \<and> a \<le> t)
     \<and> (\<forall>b. rt_FinalDelivery r = Some b \<longrightarrow> b \<le> t \<and> (\<exists>a. rt_FirstDelivery r = Some a \<and> a \<le> b))"

lemma printed_simps [simp]:
  "rp_reports (printed line rp) = rp_reports rp" "rp_logger (printed line rp) = rp_logger rp"
  by (simp_all add: printed_def)

lemma find_key_printed [simp]: "find_key order i (printed line rp) = find_key order i rp"
  by (simp add: find_key_def)

lemma UpdatePartStatus_reports:
  "rp_reports (UpdatePartStatus order now i s rp) =
     (case find_key order i rp of None \<Rightarrow> rp_reports rp
      | Some k \<Rightarrow> (rp_reports rp)(k \<mapsto> updated_report now i s (the (rp_reports rp k))))"
  by (simp add: UpdatePartStatus_def Let_def split: option.split)

lemma UpdatePartStatus_logger [simp]: "rp_logger (UpdatePartStatus order now i s rp) = rp_logger rp"
  by (simp add: UpdatePartStatus_def Let_def split: option.split)

lemma find_key_Some: "find_key order i rp = Some k \<Longrightarrow>
    \<exists>r. rp_reports rp k = Some r \<and> (k = i \<or> rp_reports rp i = None \<and> rt_BaseMessageID r = extractBaseID i)"
  by (auto simp: find_key_def find_Some_iff split: if_splits option.splits)

lemma reports_kept: "rp_reports rp i \<noteq> None \<Longrightarrow> rp_reports (UpdatePartStatus order now j s rp) i \<noteq> None"
  by (simp add: UpdatePartStatus_reports split: option.split)

text \<open>A callback is an update of one part or nothing.\<close>

definition call_update :: "client_call \<Rightarrow> (string \<times> string) option" where
  "call_update c =
     (case c of CalledSubmitResponse i None \<Rightarrow> Some (i, ''SUBMITTED'') | CalledSubmitResponse i (Some e) \<Rightarrow> Some (i, ''FAILED'')
      | CalledDeliveryReport r \<Rightarrow> Some (r_MessageID r, r_Status r) | _ \<Rightarrow> None)"

lemma on_client_call_reports:
  "rp_reports (on_client_call shown order now c rp) =
     (case call_update c of None \<Rightarrow> rp_reports rp | Some (i, s) \<Rightarrow> rp_reports (UpdatePartStatus order now i s rp))"
  by (induction shown order now c rp rule: on_client_call.induct)
     (auto simp: call_update_def UpdatePartStatus_reports fun_eq_iff Let_def split: option.split)

definition reporter_inv :: "sms_reporter \<Rightarrow> time \<Rightarrow> bool" where
  "reporter_inv rp t \<longleftrightarrow> (\<forall>i r. rp_reports rp i = Some r \<longrightarrow> report_inv i t r)"

lemma update_not_Nil [simp]: "AList.update i s xs \<noteq> []"
  by (cases xs) auto

lemma report_inv_updated: "report_inv k t r \<Longrightarrow> t \<le> now \<Longrightarrow> report_inv k now (updated_report now i s r)"
  by (force simp: report_inv_def distinct_update)

lemma report_inv_later: "report_inv i t r \<Longrightarrow> t \<le> now \<Longrightarrow> report_inv i now r"
  by (force simp: report_inv_def)

lemma reporter_inv_update:
  assumes "reporter_inv rp t" and "t \<le> now"
  shows "reporter_inv (UpdatePartStatus order now i s rp) now"
  using assms find_key_Some [of order i rp] report_inv_updated report_inv_later
  by (fastforce simp: reporter_inv_def UpdatePartStatus_reports split: option.split)

lemma reporter_reach_inv: "reporter_reach rp t \<Longrightarrow> reporter_inv rp t"
proof (induction rule: reporter_reach.induct)
  case (track rp t now i n)
  then show ?case
    using report_inv_later
    by (fastforce simp: reporter_inv_def TrackMessage_def Let_def report_inv_def [of _ now] parts_with_def)
next
  case (call rp t now shown order c)
  from call.IH call.hyps(2) have "reporter_inv rp now" using report_inv_later by (fastforce simp: reporter_inv_def)
  moreover have "reporter_inv (UpdatePartStatus order now i s rp) now" for i s
    using reporter_inv_update [OF call.IH call.hyps(2)] .
  ultimately show ?case
    by (simp add: reporter_inv_def on_client_call_reports split: option.split prod.split)
qed (simp_all add: reporter_inv_update, simp add: reporter_inv_def NewSMSReporter_def)

text \<open>The parts of a report, as a map from their IDs to their last statuses.\<close>

definition part_status :: "sms_report \<Rightarrow> string \<Rightarrow> string option" where
  "part_status r = map_of (rt_PartStatuses r)"

lemma parts_with_card:
  assumes "distinct (map fst parts)"
  shows "parts_with P parts = int (card {k. \<exists>s. map_of parts k = Some s \<and> P s})"
proof -
  have "{k. \<exists>s. map_of parts k = Some s \<and> P s} = set (map fst (filter (\<lambda>(k, s). P s) parts))"
    using assms by (auto simp: map_of_eq_Some_iff image_iff)
  moreover have "distinct (map fst (filter (\<lambda>(k, s). P s) parts))" using assms by (rule distinct_map_filter)
  ultimately show ?thesis by (metis distinct_card length_map parts_with_def)
qed

text \<open>
  C29. Whatever the reporter has been told, in whatever order: its counters are the numbers of parts whose last status is
  one of their class, no part is counted twice, \<open>COMPLETE\<close> means that as many parts as were announced are delivered,
  \<open>FAILED\<close> that one has failed and none is delivered, and the last delivery is not before the first.
\<close>

theorem reporter_counts:
  assumes "reporter_reach rp t" and "rp_reports rp i = Some r"
  shows "rt_MessageID r = i
    \<and> rt_DeliveredParts r = int (card {k. \<exists>s. part_status r k = Some s \<and> delivered_status s})
    \<and> rt_SubmittedParts r = int (card {k. \<exists>s. part_status r k = Some s \<and> submitted_status s})
    \<and> rt_FailedParts r = int (card {k. \<exists>s. part_status r k = Some s \<and> failed_status s})
    \<and> rt_SubmittedParts r + rt_DeliveredParts r + rt_FailedParts r \<le> int (card (dom (part_status r)))
    \<and> (rt_Status r = ''COMPLETE'' \<longrightarrow> rt_DeliveredParts r = rt_TotalParts r)
    \<and> (rt_Status r = ''FAILED'' \<longleftrightarrow> rt_DeliveredParts r = 0 \<and> rt_FailedParts r > 0)
    \<and> (\<forall>b. rt_FinalDelivery r = Some b \<longrightarrow> (\<exists>a. rt_FirstDelivery r = Some a \<and> rt_SubmitTime r \<le> a \<and> a \<le> b \<and> b \<le> t))"
proof -
  have inv: "report_inv i t r" using reporter_reach_inv [OF assms(1)] assms(2) by (simp add: reporter_inv_def)
  then have d: "distinct (map fst (rt_PartStatuses r))" by (simp add: report_inv_def)
  have "card (dom (part_status r)) = length (rt_PartStatuses r)"
    using distinct_card [OF d] by (simp add: part_status_def dom_map_of_conv_image_fst)
  with inv parts_with_sum [of "rt_PartStatuses r"] parts_with_card [OF d] show ?thesis
    by (auto simp: report_inv_def part_status_def overall_status_def)
qed

section \<open>When a message is complete\<close>


definition part_ID :: "string \<Rightarrow> nat \<Rightarrow> string" where
  "part_ID i k = i @ ''_'' @ itoa k"







lemma part_ID_inject [simp]: "part_ID i j = part_ID i k \<longleftrightarrow> j = k"
  by (simp add: part_ID_def)









theorem reporter_counts_witness:
  "\<exists>r. rp_reports (UpdatePartStatus [''a''] 5 ''a_1'' ''DELIVRD'' (TrackMessage 3 ''a'' 1 (NewSMSReporter (NewDefaultLogger ''info'')))) ''a'' = Some r
    \<and> rt_DeliveredParts r = int (card {k. \<exists>s. part_status r k = Some s \<and> delivered_status s})"
proof -
  let ?rp = "UpdatePartStatus [''a''] 5 ''a_1'' ''DELIVRD'' (TrackMessage 3 ''a'' 1 (NewSMSReporter (NewDefaultLogger ''info'')))"
  have "reporter_reach ?rp 5"
    by (intro reporter_reach.update [of _ 3] reporter_reach.track [of _ 0] reporter_reach.new) simp_all
  moreover obtain r where "rp_reports ?rp ''a'' = Some r"
  proof -
    have "rp_reports (TrackMessage 3 ''a'' 1 (NewSMSReporter (NewDefaultLogger ''info''))) ''a'' \<noteq> None"
      by (simp add: TrackMessage_def Let_def)
    then have "rp_reports ?rp ''a'' \<noteq> None" by (rule reports_kept)
    then show thesis using that by blast
  qed
  ultimately show ?thesis using reporter_counts [of ?rp 5 "''a''" r] by blast
qed

section \<open>The IDs of the server\<close>

text \<open>
  The IDs that the callbacks get from this server: none for a refused message, the one of a message or of a part, as they are
  in the response, or with the underscores that the receipts lose.
\<close>

inductive server_ID :: "string \<Rightarrow> bool" where
  refused: "server_ID ''''"
| whole: "server_ID (message_ID_at a b)"
| part: "server_ID (part_ID (message_ID_at a b) k)"
| receipt: "server_ID i \<Longrightarrow> server_ID (garble i)"

lemma garble_no_underscore: "CHR ''_'' \<notin> set (garble s)"
  by (auto simp: garble_def)

lemma no_t: "itoa_int a \<noteq> '''' \<and> CHR ''t'' \<notin> set (itoa_int a)"
proof -
  have "\<not> (is_digit (CHR ''t'') \<or> CHR ''t'' = CHR ''-'')" by (simp add: is_digit_def)
  then show ?thesis using itoa_int_chars [of a] unfolding list_all_iff by (auto simp: itoa_int_def)
qed

text \<open>None has the base of the IDs that the example tracks.\<close>

lemma server_ID_base: "server_ID i \<Longrightarrow> extractBaseID i \<noteq> ''MSG_test'' \<and> i \<noteq> ''MSG_test_001'' \<and> i \<noteq> ''MSG_test_002''"
proof (induction rule: server_ID.induct)
  case (whole a b)
  then show ?case
    unfolding extractBaseID_message_ID using no_t [of a] by (cases "itoa_int a") (auto simp: message_ID_at_def)
next
  case (part a b k)
  have base: "extractBaseID (part_ID (message_ID_at a b) k) = message_ID_at a b" by (simp add: part_ID_def)
  show ?case
    unfolding base using no_t [of a] by (cases "itoa_int a") (auto simp: part_ID_def message_ID_at_def)
next
  case (receipt i)
  then show ?case using garble_no_underscore [of i] by (auto dest: arg_cong [where f = set])
qed (simp add: extractBaseID_def LastIndexByte_def)

definition server_call :: "client_call \<Rightarrow> bool" where
  "server_call c \<longleftrightarrow> (case call_update c of None \<Rightarrow> True | Some (i, s) \<Rightarrow> server_ID i)"

lemma call_dropped:
  assumes "server_call c" and "dom (rp_reports rp) \<subseteq> {''MSG_test_001'', ''MSG_test_002''}"
    and "\<forall>i r. rp_reports rp i = Some r \<longrightarrow> rt_BaseMessageID r = ''MSG_test''"
  shows "rp_reports (on_client_call shown order now c rp) = rp_reports rp"
proof -
  have "find_key order i rp = None" if "server_ID i" for i
    using server_ID_base [OF that] assms(2,3) find_key_Some [of order i rp]
    by (cases "find_key order i rp") (auto dest: domI)
  with assms(1) show ?thesis
    by (auto simp: on_client_call_reports UpdatePartStatus_reports server_call_def split: option.split)
qed

text \<open>The state of the two reports that the example prints at its end.\<close>

definition untouched :: "sms_reporter \<Rightarrow> bool" where
  "untouched rp \<longleftrightarrow> dom (rp_reports rp) \<subseteq> {''MSG_test_001'', ''MSG_test_002''} \<and>
     (\<forall>i r. rp_reports rp i = Some r \<longrightarrow> rt_BaseMessageID r = ''MSG_test'' \<and> rt_Status r = ''PENDING'' \<and> rt_PartStatuses r = [])"

text \<open>What the read loop calls, and when.\<close>

type_synonym timed_call = "string list \<times> time \<times> client_call"

definition callbacks :: "(error \<Rightarrow> string) \<Rightarrow> timed_call list \<Rightarrow> sms_reporter \<Rightarrow> sms_reporter" where
  "callbacks shown = fold (\<lambda>(order, now, c). on_client_call shown order now c)"

lemma callbacks_dropped:
  "list_all (\<lambda>(order, now, c). server_call c) us \<Longrightarrow> untouched rp \<Longrightarrow> rp_reports (callbacks shown us rp) = rp_reports rp"
proof (induction us arbitrary: rp)
  case (Cons u us)
  obtain order now c where u: "u = (order, now, c)" using prod_cases3 by blast
  have "rp_reports (on_client_call shown order now c rp) = rp_reports rp"
    using Cons.prems by (intro call_dropped) (auto simp: u untouched_def)
  with Cons show ?case by (simp add: u callbacks_def untouched_def)
qed (simp add: callbacks_def)

lemma untouched_tracked:
  assumes "untouched rp" and "i \<in> {''MSG_test_001'', ''MSG_test_002''}"
  shows "untouched (TrackMessage now i n rp)"
proof -
  have "extractBaseID (''MSG_test'' @ CHR ''_'' # ''001'') = ''MSG_test''" "extractBaseID (''MSG_test'' @ CHR ''_'' # ''002'') = ''MSG_test''"
    by (rule extractBaseID_part; simp)+
  with assms show ?thesis by (auto simp: untouched_def TrackMessage_def Let_def)
qed

lemma untouched_printed [simp]: "untouched (printed line rp) = untouched rp"
  by (simp add: untouched_def)

lemma send_test_reports: "send_test shown net message what (rp, c) = (r, rp', c') \<Longrightarrow> rp_reports rp' = rp_reports rp"
  by (auto simp: send_test_def split: prod.splits result.splits)

text \<open>
  The example announces its messages under IDs of its own, and the server gives them others.  Whatever the server answers
  and reports about the messages that it has taken, no callback finds a report: at the end the two reports are there, pending,
  without a part.
\<close>

theorem example_reports_stay_pending:
  assumes "sendTestMessages shown net1 net2 now1 now2 (\<lambda>(rp, c). (callbacks shown us rp, read c)) (NewSMSReporter lg, c) = (Ok (), rp, c')"
    and "list_all (\<lambda>(order, now, c). server_call c) (us @ vs)" and "i \<in> {''MSG_test_001'', ''MSG_test_002''}"
  shows "\<exists>r. rp_reports (callbacks shown vs rp) i = Some r \<and> rt_Status r = ''PENDING'' \<and> rt_PartStatuses r = []"
proof -
  have start: "untouched (NewSMSReporter lg)" by (simp add: untouched_def NewSMSReporter_def)
  let ?say = "printed (dl_Info [] (rp_logger (NewSMSReporter lg)) ''Sending short message'' [''text'', short_test_message]) (NewSMSReporter lg)"
  define rp1 where "rp1 = TrackMessage now1 ''MSG_test_001'' 1 ?say"
  have rp1: "untouched rp1" "rp_reports rp1 ''MSG_test_001'' \<noteq> None"
    using untouched_tracked [of ?say "''MSG_test_001''"] start by (simp_all add: rp1_def) (simp add: TrackMessage_def Let_def)
  obtain r2 rp2 c2 where 2: "send_test shown net1 short_test_message ''Failed to send short message'' (rp1, c) = (r2, rp2, c2)"
    using prod_cases3 by blast
  define rp3 where "rp3 = callbacks shown us rp2"
  have u2: "untouched rp2" using rp1(1) send_test_reports [OF 2] by (simp add: untouched_def)
  then have "rp_reports rp3 = rp_reports rp2" using callbacks_dropped [of us rp2] assms(2) by (simp add: rp3_def)
  then have rp3: "untouched rp3" "rp_reports rp3 ''MSG_test_001'' \<noteq> None"
    using u2 rp1(2) send_test_reports [OF 2] by (simp_all add: untouched_def)
  let ?say3 = "printed (dl_Info [] (rp_logger rp3) ''Sending long message'' [''length'', itoa (length long_test_message)]) rp3"
  define rp4 where "rp4 = TrackMessage now2 ''MSG_test_002'' (int (estimatedParts (length long_test_message))) ?say3"
  have rp4: "untouched rp4" "rp_reports rp4 ''MSG_test_001'' \<noteq> None" "rp_reports rp4 ''MSG_test_002'' \<noteq> None"
    using untouched_tracked [of ?say3 "''MSG_test_002''"] rp3 by (simp_all add: rp4_def) (simp_all add: TrackMessage_def Let_def)
  have "send_test shown net2 long_test_message ''Failed to send long message'' (rp4, read c2) = (Ok (), rp, c')"
    using assms(1) by (auto simp: sendTestMessages_def rp1_def [symmetric] 2 rp3_def [symmetric] rp4_def Let_def split: result.splits)
  from send_test_reports [OF this] rp4 have rp: "untouched rp" "rp_reports rp i \<noteq> None"
    using assms(3) by (auto simp: untouched_def)
  then have "rp_reports (callbacks shown vs rp) = rp_reports rp" using callbacks_dropped [of vs rp] assms(2) by simp
  with rp show ?thesis by (auto simp: untouched_def)
qed

text \<open>A bound client, a response with the ID of the server, and a receipt with its underscores lost\<close>

theorem example_reports_stay_pending_witness:
  "\<exists>c rp c'. sendTestMessages (\<lambda>_. '''') net_ok net_ok 1 2
      (\<lambda>(rp, c). (callbacks (\<lambda>_. '''') [([''MSG_test_001''], 3, CalledSubmitResponse (message_ID_at 1 2) None)] rp, c))
      (NewSMSReporter (NewDefaultLogger ''info''), c) = (Ok (), rp, c') \<and> cl_bound c \<and>
    (\<exists>r. rp_reports (callbacks (\<lambda>_. '''') [([''MSG_test_002'', ''MSG_test_001''], 4,
         CalledDeliveryReport (zero_delivery_report\<lparr>r_MessageID := garble (message_ID_at 1 2), r_Status := ''DELIVRD''\<rparr>))] rp)
         ''MSG_test_001'' = Some r \<and> rt_Status r = ''PENDING'' \<and> rt_PartStatuses r = [])"
proof -
  define c where "c = (sc_client (New (\<lambda>_. 0) None))\<lparr>cl_connected := True, cl_conn := OpenConn, cl_bound := True,
    cl_session := Some (example_session\<lparr>se_State := SessionStateBoundTRX\<rparr>)\<rparr>"
  have sends: "\<exists>b out. SendSMS net_ok (c\<lparr>cl_builder := b0, cl_out := o0\<rparr>) ''12345'' ''67890'' msg = (Ok (), c\<lparr>cl_builder := b, cl_out := out\<rparr>)"
    if "msg \<noteq> ''''" "length msg < 65536" for msg b0 o0
    using submit_sent [of "c\<lparr>cl_builder := b0, cl_out := o0\<rparr>" "example_session\<lparr>se_State := SessionStateBoundTRX\<rparr>" "''12345''" "''67890''" msg] that
    by (auto simp: c_def fits_def)
  have c: "c\<lparr>cl_builder := cl_builder c, cl_out := cl_out c\<rparr> = c" by simp
  obtain b1 o1 where 1: "SendSMS net_ok c ''12345'' ''67890'' short_test_message = (Ok (), c\<lparr>cl_builder := b1, cl_out := o1\<rparr>)"
    using sends [where msg = short_test_message and ?b0.0 = "cl_builder c" and ?o0.0 = "cl_out c"] by (auto simp: c short_test_message_def)
  obtain b2 o2 where 2: "SendSMS net_ok (c\<lparr>cl_builder := b1, cl_out := o1\<rparr>) ''12345'' ''67890'' long_test_message =
      (Ok (), c\<lparr>cl_builder := b2, cl_out := o2\<rparr>)"
    using sends [where msg = long_test_message and ?b0.0 = b1 and ?o0.0 = o1] by (auto simp: long_test_message_def)
  let ?us = "[([''MSG_test_001''], 3, CalledSubmitResponse (message_ID_at 1 2) None)]"
  let ?vs = "[([''MSG_test_002'', ''MSG_test_001''], 4,
    CalledDeliveryReport (zero_delivery_report\<lparr>r_MessageID := garble (message_ID_at 1 2), r_Status := ''DELIVRD''\<rparr>))]"
  obtain rp c' where run: "sendTestMessages (\<lambda>_. '''') net_ok net_ok 1 2 (\<lambda>(rp, c). (callbacks (\<lambda>_. '''') ?us rp, c))
      (NewSMSReporter (NewDefaultLogger ''info''), c) = (Ok (), rp, c')"
    by (simp add: sendTestMessages_def send_test_def 1 2 Let_def del: printed_simps)
  have "list_all (\<lambda>(order, now, c). server_call c) (?us @ ?vs)"
    using server_ID.intros by (simp add: server_call_def call_update_def)
  from example_reports_stay_pending [OF run this, of "''MSG_test_001''"] run show ?thesis
    by (intro exI [of _ c] exI [of _ rp] exI [of _ c'] conjI) (simp_all add: c_def)
qed

text \<open>A text of 155 to 160 bytes is estimated at two parts, and the splitter leaves it whole: its report is never complete.\<close>

theorem estimate_exceeds_parts:
  assumes "155 \<le> length (m_Text m)" "length (m_Text m) \<le> 160" "m_DataCoding m = 0"
  shows "splitter_SplitMessage NewDefaultMessageSplitter m = Ok [m] \<and> estimatedParts (length (m_Text m)) = 2"
proof -
  have "(length (m_Text m) + 153) div 154 = 2" using assms(1,2) by (intro div_nat_eqI) simp_all
  with assms show ?thesis
    by (simp add: estimatedParts_def splitter_SplitMessage_def NewDefaultMessageSplitter_def)
qed

lemma estimate_exceeds_parts_witness:
  "splitter_SplitMessage NewDefaultMessageSplitter (zero_message\<lparr>m_Text := replicate 158 (CHR ''a'')\<rparr>) =
     Ok [zero_message\<lparr>m_Text := replicate 158 (CHR ''a'')\<rparr>] \<and> estimatedParts 158 = 2"
  using estimate_exceeds_parts [of "zero_message\<lparr>m_Text := replicate 158 (CHR ''a'')\<rparr>"] by (simp add: zero_message_def)

end
