(* ===== verification/FullClient.thy ===== *)
theory FullClient
  imports PartsReporter EventWiring
begin

text \<open>
  The client of \<open>examples/full-client/main.go\<close>: what its callbacks and its event handlers make of what the client tells
  them, in particular of the IDs of the parts.  The lines that are printed are lists of strings.
\<close>

section \<open>The parts of an ID\<close>

text \<open>\<open>strings.Split\<close> and \<open>strings.Join\<close> with a separator of one byte\<close>

fun Split_byte :: "char \<Rightarrow> string \<Rightarrow> string list" where
  "Split_byte c '''' = ['''']"
| "Split_byte c (d # s) =
     (if d = c then '''' # Split_byte c s
      else case Split_byte c s of [] \<Rightarrow> [[d]] | e # es \<Rightarrow> (d # e) # es)"

fun Join_byte :: "char \<Rightarrow> string list \<Rightarrow> string" where
  "Join_byte c [] = ''''"
| "Join_byte c [s] = s"
| "Join_byte c (s # ss) = s @ c # Join_byte c ss"

text \<open>The code for it stands in three places, in the callbacks for responses and reports and in the event handler.\<close>

definition ID_part :: "string \<Rightarrow> (string \<times> string) option" where
  "ID_part messageID =
     (if Contains messageID ''_'' then
        (let parts = Split_byte (CHR ''_'') messageID in
         if length parts \<ge> 2 then Some (Join_byte (CHR ''_'') (take (length parts - 1) parts), parts ! (length parts - 1)) else None)
      else None)"

section \<open>Callbacks\<close>

definition lines :: "string option list \<Rightarrow> string list" where
  "lines ls = map the (filter (\<lambda>l. l \<noteq> None) ls)"

text \<open>
  The marks before the messages, in UTF-8.  \<open>upper\<close> is \<open>strings.ToUpper\<close> where its whole result is printed.
\<close>

definition logDeliveryStatus ::
    "(time \<Rightarrow> string) \<Rightarrow> (string \<Rightarrow> string) \<Rightarrow> default_logger \<Rightarrow> delivery_report \<Rightarrow> string option" where
  "logDeliveryStatus show_time upper lg r =
     (let status = ToUpper (r_Status r);
          with = (\<lambda>key. [''message_id'', r_MessageID r, key, show_time (r_Timestamp r)]) in
      if status = ''DELIVRD'' then dl_Info [] lg ([CHR 0xE2, CHR 0x9C, CHR 0x85] @ '' SMS delivered successfully'') (with ''delivered_at'')
      else if status = ''ACCEPTD'' then
        dl_Info [] lg ([CHR 0xF0, CHR 0x9F, CHR 0x93, CHR 0xA8] @ '' SMS accepted by network'') (with ''accepted_at'')
      else if status = ''ENROUTE'' then
        dl_Info [] lg ([CHR 0xF0, CHR 0x9F, CHR 0x9A, CHR 0x80] @ '' SMS in transit'') (with ''enroute_at'')
      else if status = ''EXPIRED'' then dl_Warn [] lg ([CHR 0xE2, CHR 0x8F, CHR 0xB0] @ '' SMS expired'') (with ''expired_at'')
      else if status = ''DELETED'' then
        dl_Warn [] lg ([CHR 0xF0, CHR 0x9F, CHR 0x97, CHR 0x91, CHR 0xEF, CHR 0xB8, CHR 0x8F] @ '' SMS deleted'') (with ''deleted_at'')
      else if status = ''UNDELIV'' then dl_Error [] lg ([CHR 0xE2, CHR 0x9D, CHR 0x8C] @ '' SMS undeliverable'') (with ''failed_at'')
      else if status = ''REJECTD'' then
        dl_Error [] lg ([CHR 0xF0, CHR 0x9F, CHR 0x9A, CHR 0xAB] @ '' SMS rejected'') (with ''rejected_at'')
      else dl_Info [] lg ([CHR 0xF0, CHR 0x9F, CHR 0x93, CHR 0x8A] @ '' SMS status update'')
        [''message_id'', r_MessageID r, ''status'', upper (r_Status r), ''timestamp'', show_time (r_Timestamp r)])"

text \<open>
  The lines of the callbacks.  The bind callback of the user is not the one that \<open>reconnect\<close> puts in its place.
\<close>

fun client_callback_lines ::
    "(error \<Rightarrow> string) \<Rightarrow> (time \<Rightarrow> string) \<Rightarrow> (string \<Rightarrow> string) \<Rightarrow> default_logger \<Rightarrow> client_call \<Rightarrow> string list" where
  "client_callback_lines shown show_time upper lg CalledConnect = lines [dl_Info [] lg ''Client connected'' []]"
| "client_callback_lines shown show_time upper lg (CalledDisconnect (Some e)) =
     lines [dl_Error [] lg ''Client disconnected with error'' [''error'', shown e]]"
| "client_callback_lines shown show_time upper lg (CalledDisconnect None) = lines [dl_Info [] lg ''Client disconnected'' []]"
| "client_callback_lines shown show_time upper lg (CalledBind hook) =
     (if hook = UserHook then lines [dl_Info [] lg ''Client bound successfully'' []] else [])"
| "client_callback_lines shown show_time upper lg CalledUnbind = lines [dl_Info [] lg ''Client unbound'' []]"
| "client_callback_lines shown show_time upper lg (CalledSubmitResponse messageID (Some e)) =
     lines [dl_Error [] lg ''Submit failed'' [''messageID'', messageID, ''error'', shown e]]"
| "client_callback_lines shown show_time upper lg (CalledSubmitResponse messageID None) =
     lines (dl_Info [] lg ''Message submitted successfully'' [''messageID'', messageID] #
       (case ID_part messageID of None \<Rightarrow> []
        | Some (base, part) \<Rightarrow> [dl_Info [] lg ''SMS Part submitted''
            [''base_message_id'', base, ''part_number'', part, ''part_message_id'', messageID]]))"
| "client_callback_lines shown show_time upper lg (CalledMessage m) =
     lines [dl_Info [] lg ''Received SMS message''
       [''source'', a_Addr (m_SourceAddr m), ''dest'', a_Addr (m_DestAddr m), ''text'', m_Text m]]"
| "client_callback_lines shown show_time upper lg (CalledDeliveryReport r) =
     lines ([dl_Info [] lg ''Received delivery report''
         [''messageID'', r_MessageID r, ''status'', r_Status r, ''timestamp'', show_time (r_Timestamp r)]] @
       (case ID_part (r_MessageID r) of None \<Rightarrow> []
        | Some (base, part) \<Rightarrow> [dl_Info [] lg ''SMS Part delivery report''
            [''base_message_id'', base, ''part_number'', part, ''part_status'', r_Status r, ''part_message_id'', r_MessageID r]]) @
       [logDeliveryStatus show_time upper lg r])"

definition setupClientCallbacks :: "client \<Rightarrow> client" where
  "setupClientCallbacks c =
     OnDeliveryReport (OnMessage (OnSubmitResponse (OnUnbind (OnBind (OnDisconnect (OnConnect c))))))"

section \<open>Event handlers\<close>

text \<open>The details are printed for a report whose data has both keys.  \<open>shown\<close> formats the time and the data of an event.\<close>

definition client_event_lines ::
    "(event \<Rightarrow> string \<times> string) \<Rightarrow> default_logger \<Rightarrow> string \<Rightarrow> event \<Rightarrow> string list" where
  "client_event_lines shown lg kind ev =
     lines (dl_Info [] lg ''Client event received''
         [''type'', event_type_name (event_GetEventType ev), ''timestamp'', fst (shown ev), ''handler'', kind, ''data'', snd (shown ev)] #
       (if event_GetEventType ev = EventTypeDeliveryReport then
          (case (event_GetData ev ''messageID'', event_GetData ev ''status'') of
             (Some messageID, Some status) \<Rightarrow>
               dl_Info [] lg ''Delivery report details'' [''messageID'', messageID, ''status'', status] #
               (case ID_part messageID of None \<Rightarrow> []
                | Some (base, part) \<Rightarrow>
                    [dl_Info [] lg ([CHR 0xF0, CHR 0x9F, CHR 0x93, CHR 0xA6] @ '' Multi-part SMS delivery report'')
                       [''base_message_id'', base, ''part_number'', part, ''part_status'', status]])
           | _ \<Rightarrow> [])
        else []))"

definition ClientEventHandler ::
    "(event \<Rightarrow> string \<times> string) \<Rightarrow> default_logger \<Rightarrow> string \<Rightarrow> string list event_handler" where
  "ClientEventHandler shown lg kind =
     \<lparr>eh_ID = ''client_'' @ kind, eh_HandleEvent = (\<lambda>ev s. (Ok (), s @ client_event_lines shown lg kind ev))\<rparr>"

definition setupClientEventHandlers ::
    "(event \<Rightarrow> string \<times> string) \<Rightarrow> default_logger \<Rightarrow> string list event_bus \<Rightarrow> error list \<times> string list event_bus" where
  "setupClientEventHandlers shown lg eb =
     (let connection = ClientEventHandler shown lg ''connection''; msg = ClientEventHandler shown lg ''message'' in
      subscribe_all
        [(EventTypeConnected, connection), (EventTypeDisconnected, connection), (EventTypeBound, connection),
         (EventTypeUnbound, connection), (EventTypeSMSSubmitted, msg), (EventTypeSMSDelivered, msg),
         (EventTypeSMSFailed, msg), (EventTypeDeliveryReport, msg)] eb)"

section \<open>Starting and sending\<close>

definition client_fallback_config :: config where
  "client_fallback_config = fallback_config\<lparr>
     cf_Server := \<lparr>sv_Host = '''', sv_Port = 0, sv_MaxConnections = 0, sv_ReadTimeout = 0, sv_WriteTimeout = 0,
       sv_IdleTimeout = 0, sv_EnquireLinkTimeout = 0, sv_BindTimeout = 0, sv_TLSEnabled = False, sv_TLSCertFile = '''',
       sv_TLSKeyFile = '''', sv_LogLevel = '''', sv_LogFile = '''', sv_MetricsEnabled = False, sv_MetricsPort = 0\<rparr>,
     cf_Client := \<lparr>cc_Host = ''localhost'', cc_Port = 2775, cc_SystemID = ''test'', cc_Password = ''test'',
       cc_SystemType = ''SMPP'', cc_BindType = ''transceiver'', cc_TLSEnabled = False, cc_MaxReconnectAttempts = 5,
       cc_ConnectTimeout = 10000000000, cc_ReadTimeout = 30000000000, cc_WriteTimeout = 10000000000,
       cc_EnquireLinkInterval = 30000000000, cc_ReconnectInterval = 5000000000, cc_TLSSkipVerify = False,
       cc_LogLevel = ''info''\<rparr>,
     cf_Storage := \<lparr>st_Type = '''', st_DataDir = '''', st_Database = st_Database (cf_Storage fallback_config)\<rparr>\<rparr>"

text \<open>
  The configuration of the logger, and the client with its callbacks; the address of the settings is read for the log
  before the client connects, a nil dereference without settings.
\<close>

definition start_client ::
    "(rat \<Rightarrow> rat) \<Rightarrow> (nat \<Rightarrow> os_outcome) \<Rightarrow> string \<Rightarrow> json disk \<Rightarrow> (nat \<Rightarrow> time) \<Rightarrow> (config \<times> client) result" where
  "start_client fl out configPath d clock =
     (case LoadConfig fl out (NewConfigManager configPath) d of (r, cm, d') \<Rightarrow>
      let cfg = (case r of Ok c \<Rightarrow> c | _ \<Rightarrow> client_fallback_config) in
      case GetClientConfig cm of
        None \<Rightarrow> Panic
      | Some settings \<Rightarrow> Ok (cfg, setupClientCallbacks (NewClient (client_config.truncate settings) True clock)))"

definition send_example ::
    "(error \<Rightarrow> string) \<Rightarrow> default_logger \<Rightarrow> net_outcome \<Rightarrow> string \<Rightarrow> string \<Rightarrow> string \<Rightarrow> string list \<Rightarrow> client \<Rightarrow>
     string list result \<times> client" where
  "send_example shown lg net title kind message fs c =
     (let before = [dl_Info [] lg title [], dl_Info [] lg (''Sending '' @ kind @ '' message'') fs] in
      case SendSMS net c ''12345'' ''67890'' message of
        (Panic, c') \<Rightarrow> (Panic, c')
      | (Err e, c') \<Rightarrow>
          (Ok (lines (before @ [dl_Error [] lg (''Failed to send '' @ kind @ '' message'') [''error'', shown e]])), c')
      | (Ok u, c') \<Rightarrow>
          (Ok (lines (before @ [dl_Info [] lg (if kind = ''short'' then ''Short message send request submitted successfully''
             else ''Long message send request submitted successfully'') []])), c'))"

definition short_example :: string where
  "short_example = ''Hello! This is a short SMS message.''"

definition long_example :: string where
  "long_example = ''This is a very long SMS message that exceeds the 160 character limit for standard SMS. '' @
     ''It will be automatically split into multiple parts by the SMPP server. '' @
     ''Each part contains a User Data Header (UDH) that allows the receiving device '' @
     ''to reassemble the message correctly. This demonstrates how SMPP handles '' @
     ''concatenated SMS messages. The total length of this message is over 400 characters, '' @
     ''so it will likely be split into 3 or more parts depending on the encoding used.''"

definition sendShortMessageExample ::
    "(error \<Rightarrow> string) \<Rightarrow> default_logger \<Rightarrow> net_outcome \<Rightarrow> client \<Rightarrow> string list result \<times> client" where
  "sendShortMessageExample shown lg net c =
     send_example shown lg net ''=== SHORT MESSAGE EXAMPLE ==='' ''short'' short_example
       [''source'', ''12345'', ''dest'', ''67890'', ''text'', short_example, ''length'', itoa (length short_example)] c"

definition sendLongMessageExample ::
    "(error \<Rightarrow> string) \<Rightarrow> default_logger \<Rightarrow> net_outcome \<Rightarrow> client \<Rightarrow> string list result \<times> client" where
  "sendLongMessageExample shown lg net c =
     send_example shown lg net ''=== LONG MESSAGE EXAMPLE ==='' ''long'' long_example
       [''source'', ''12345'', ''dest'', ''67890'', ''text_length'', itoa (length long_example),
        ''estimated_parts'', itoa (estimatedParts (length long_example))] c"

text \<open>The short and then the long message; while the demo sleeps, the client goes on (\<open>asleep\<close>).\<close>

definition sendDemoMessages ::
    "(error \<Rightarrow> string) \<Rightarrow> default_logger \<Rightarrow> net_outcome \<Rightarrow> net_outcome \<Rightarrow> (client \<Rightarrow> client) \<Rightarrow> client \<Rightarrow> string list result \<times> client" where
  "sendDemoMessages shown lg net1 net2 asleep c =
     (case sendShortMessageExample shown lg net1 c of
        (Ok ls1, c1) \<Rightarrow>
          (case sendLongMessageExample shown lg net2 (asleep c1) of
             (Ok ls2, c2) \<Rightarrow> (Ok (ls1 @ ls2 @ lines [dl_Info [] lg ''Demo complete - sent both short and long message examples'' []]), c2)
           | (r, c2) \<Rightarrow> (r, c2))
      | (r, c1) \<Rightarrow> (r, c1))"

text \<open>
  The parts reporter starts like this client, with the same defaults (\<open>examples/sms-parts-reporter/main.go\<close>): the
  configuration of its logger, the reporter and the client.
\<close>

definition start_reporter ::
    "(rat \<Rightarrow> rat) \<Rightarrow> (nat \<Rightarrow> os_outcome) \<Rightarrow> string \<Rightarrow> json disk \<Rightarrow> (nat \<Rightarrow> time) \<Rightarrow> (config \<times> sms_reporter \<times> client) result" where
  "start_reporter fl out configPath d clock =
     (case LoadConfig fl out (NewConfigManager configPath) d of (r, cm, d') \<Rightarrow>
      let cfg = (case r of Ok c \<Rightarrow> c | _ \<Rightarrow> client_fallback_config) in
      case GetClientConfig cm of
        None \<Rightarrow> Panic
      | Some settings \<Rightarrow>
          Ok (cfg, NewSMSReporter (NewDefaultLogger (lg_Level (cf_Logging cfg))),
            setupReportingCallbacks (NewClient (client_config.truncate settings) True clock)))"

section \<open>What the IDs say\<close>

lemma Split_byte_not_Nil [simp]: "Split_byte c s \<noteq> []"
  by (induction s) (auto split: list.split)

lemma Split_byte_length [simp]: "Suc 0 \<le> length (Split_byte c s)"
  by (simp add: Suc_le_eq)

lemma Join_Split [simp]: "Join_byte c (Split_byte c s) = s"
proof (induction s)
  case (Cons d s)
  obtain e es where "Split_byte c s = e # es" by (cases "Split_byte c s") simp_all
  with Cons show ?case by (cases es) auto
qed simp

lemma Split_byte_pieces: "list_all (\<lambda>e. c \<notin> set e) (Split_byte c s)"
  by (induction s) (auto split: list.split)

lemma Split_byte_plain: "c \<notin> set n \<Longrightarrow> Split_byte c n = [n]"
  by (induction n) auto

lemma Split_byte_append: "Split_byte c (s @ c # t) = Split_byte c s @ Split_byte c t"
proof (induction s)
  case (Cons d s)
  obtain e es where "Split_byte c s = e # es" by (cases "Split_byte c s") simp_all
  with Cons show ?case by simp
qed simp

lemma Contains_byte: "Contains s [c] \<longleftrightarrow> c \<in> set s"
proof -
  have "HasPrefix (drop i s) [c] \<longleftrightarrow> i < length s \<and> s ! i = c" for i
    by (cases "i < length s") (auto simp: HasPrefix_def Cons_nth_drop_Suc [symmetric])
  then show ?thesis by (auto simp: Contains_def list_ex_iff in_set_conv_nth)
qed

text \<open>
  An ID is taken for that of a part exactly if it has an underscore, and then the part is what follows the last one and the
  base what precedes it.
\<close>

theorem ID_part_exact: "ID_part s = Some (b, n) \<longleftrightarrow> s = b @ ''_'' @ n \<and> CHR ''_'' \<notin> set n"
proof
  assume r: "s = b @ ''_'' @ n \<and> CHR ''_'' \<notin> set n"
  then have "Split_byte (CHR ''_'') s = Split_byte (CHR ''_'') b @ [n]"
    by (simp add: Split_byte_append Split_byte_plain)
  with r show "ID_part s = Some (b, n)" by (simp add: ID_part_def Contains_byte Let_def)
next
  assume l: "ID_part s = Some (b, n)"
  then have "CHR ''_'' \<in> set s" by (auto simp: ID_part_def Contains_byte split: if_splits)
  then obtain b' n' where s: "s = b' @ CHR ''_'' # n'" "CHR ''_'' \<notin> set n'" using split_list_last by metis
  then have "Split_byte (CHR ''_'') s = Split_byte (CHR ''_'') b' @ [n']"
    by (simp add: Split_byte_append Split_byte_plain)
  with l s have "b' = b \<and> n' = n" by (simp add: ID_part_def Contains_byte Let_def)
  with s show "s = b @ ''_'' @ n \<and> CHR ''_'' \<notin> set n" by simp
qed

lemma ID_part_None: "ID_part s = None \<longleftrightarrow> CHR ''_'' \<notin> set s"
proof -
  have "ID_part s \<noteq> None" if "CHR ''_'' \<in> set s"
    using that split_list_last [of "CHR ''_''" s] ID_part_exact [of s] by force
  then show ?thesis by (auto simp: ID_part_def Contains_byte)
qed

text \<open>It is the base of the parts reporter, but for IDs whose only underscore is their first character.\<close>

theorem ID_part_base:
  "extractBaseID s = (case ID_part s of Some (b, n) \<Rightarrow> if b = '''' then s else b | None \<Rightarrow> s)"
proof (cases "ID_part s")
  case None
  then have "CHR ''_'' \<notin> set s" by (simp add: ID_part_None)
  with None show ?thesis by simp
next
  case (Some bn)
  obtain b n where bn: "bn = (b, n)" by force
  with Some have "s = b @ CHR ''_'' # n" "CHR ''_'' \<notin> set n" using ID_part_exact [of s b n] by simp_all
  then have "extractBaseID s = (if b = '''' then s else b)" by (simp add: extractBaseID_def LastIndexByte_append)
  with Some bn show ?thesis by simp
qed

text \<open>
  What that makes of the IDs of this server: a message that was not split is logged as a part, and a receipt, in which the
  underscores are gone, never is.
\<close>

theorem parts_misread:
  "ID_part (message_ID_at a b) = Some (''MSG_'' @ itoa_int a, itoa_int (go_rem (Unix b) 100000))
   \<and> ID_part (part_ID (message_ID_at a b) k) = Some (message_ID_at a b, itoa k)
   \<and> ID_part (garble i) = None"
  using garble_no_underscore [of i]
  by (simp add: ID_part_exact ID_part_None part_ID_def) (simp add: message_ID_at_def)

section \<open>What is printed\<close>

text \<open>How loud the outcome of a message is.\<close>

definition status_severity :: "string \<Rightarrow> nat" where
  "status_severity s =
     (case mapReceiptStatusToMessageStatus s of
        MessageStatusUndeliverable \<Rightarrow> 3 | MessageStatusRejected \<Rightarrow> 3
      | MessageStatusExpired \<Rightarrow> 2 | MessageStatusDeleted \<Rightarrow> 2 | _ \<Rightarrow> 1)"

text \<open>
  The client prints the status of a message exactly if its logger prints lines of the severity of the status, which the
  client and the server's reading of receipts classify alike.
\<close>

theorem logDeliveryStatus_severity:
  "logDeliveryStatus show_time upper lg r \<noteq> None \<longleftrightarrow> level_code (dl_level lg) \<le> status_severity (r_Status r)"
  using default_logger.info [of "[]" lg] default_logger.warn [of "[]" lg] default_logger.error [of "[]" lg]
  by (auto simp: logDeliveryStatus_def status_severity_def mapReceiptStatusToMessageStatus_def Let_def)

text \<open>All subscriptions succeed, and every event has exactly one handler.\<close>

theorem client_bus_subscribers:
  "fst (setupClientEventHandlers shown lg (NewEventBus b)) = [] \<and>
   map eh_ID (subscribers (snd (setupClientEventHandlers shown lg (NewEventBus b))) ty) =
     (if ty \<in> {EventTypeConnected, EventTypeDisconnected, EventTypeBound, EventTypeUnbound} then [''client_connection'']
      else [''client_message''])"
proof -
  let ?c = "ClientEventHandler shown lg ''connection''" and ?m = "ClientEventHandler shown lg ''message''"
  define subs where "subs = [(EventTypeConnected, ?c), (EventTypeDisconnected, ?c), (EventTypeBound, ?c), (EventTypeUnbound, ?c),
     (EventTypeSMSSubmitted, ?m), (EventTypeSMSDelivered, ?m), (EventTypeSMSFailed, ?m), (EventTypeDeliveryReport, ?m)]"
  have mine: "map snd (filter (\<lambda>sb. fst sb = ty) subs) =
      (if ty \<in> {EventTypeConnected, EventTypeDisconnected, EventTypeBound, EventTypeUnbound} then [?c] else [?m])" for ty
    by (cases ty) (simp_all add: subs_def)
  then have "\<forall>ty. distinct (map eh_ID (subscribers (NewEventBus b) ty @ map snd (filter (\<lambda>sb. fst sb = ty) subs)))" by simp
  from subscribe_all_exact [OF this] obtain eb where "subscribe_all subs (NewEventBus b) = ([], eb)"
    "\<forall>ty. subscribers eb ty = subscribers (NewEventBus b) ty @ map snd (filter (\<lambda>sb. fst sb = ty) subs)" by blast
  moreover have "setupClientEventHandlers shown lg (NewEventBus b) = subscribe_all subs (NewEventBus b)"
    by (simp only: setupClientEventHandlers_def subs_def Let_def)
  ultimately show ?thesis by (simp add: mine ClientEventHandler_def)
qed

section \<open>The events of a client\<close>

text \<open>Events without the data that the handler looks for.\<close>

definition bare :: "event \<Rightarrow> bool" where
  "bare ev \<longleftrightarrow> (event_GetEventType ev = EventTypeDeliveryReport \<longrightarrow> event_GetData ev = Map.empty)"

definition bare_events :: "client \<Rightarrow> bool" where
  "bare_events c \<longleftrightarrow> list_all bare (cl_events c)"

lemma bare_events_updates [simp]:
  "bare_events (c\<lparr>cl_conn := x1\<rparr>) = bare_events c" "bare_events (c\<lparr>cl_out := x2\<rparr>) = bare_events c"
  "bare_events (c\<lparr>cl_session := x3\<rparr>) = bare_events c" "bare_events (c\<lparr>cl_builder := x4\<rparr>) = bare_events c"
  "bare_events (c\<lparr>cl_connected := x5\<rparr>) = bare_events c" "bare_events (c\<lparr>cl_bound := x5\<rparr>) = bare_events c"
  "bare_events (c\<lparr>cl_done := x5\<rparr>) = bare_events c" "bare_events (c\<lparr>cl_tickers := x6\<rparr>) = bare_events c"
  "bare_events (c\<lparr>cl_hooks := x7\<rparr>) = bare_events c" "bare_events (c\<lparr>cl_calls := x8\<rparr>) = bare_events c"
  "bare_events (c\<lparr>cl_reconnectCount := x9\<rparr>) = bare_events c" "bare_events (c\<lparr>cl_ticks := x10\<rparr>) = bare_events c"
  "bare_events (cl_call is_set call c) = bare_events c" "bare_events (snd (cl_Now c)) = bare_events c"
  "bare_events (snd (cl_getNextSequence c)) = bare_events c" "bare_events (snd (sendPDU net c p)) = bare_events c"
  by (simp_all add: bare_events_def cl_call_def cl_Now_def cl_getNextSequence_def sendPDU_def Let_def
      split: option.split result.split prod.split)

lemma bare_events_publish: "bare (ev (fst (cl_Now c))) \<Longrightarrow> bare_events (publish_event c ev) = bare_events c"
  by (simp add: bare_events_def publish_event_def cl_Now_def)

lemma bare_events_eqs:
  "sendPDU net c p = (r, c') \<Longrightarrow> bare_events c' = bare_events c"
  "cl_getNextSequence c = (n, c') \<Longrightarrow> bare_events c' = bare_events c"
  "cl_Now c = (now, c') \<Longrightarrow> bare_events c' = bare_events c"
  using bare_events_updates(14-16) by (metis snd_conv)+

lemma bare_connection: "ty \<noteq> EventTypeDeliveryReport \<Longrightarrow> bare (connection_event_of ty s addr data now)"
  by (simp add: bare_def connection_event_of_def)

lemma bare_report: "bare (DeliveryEvent \<lparr>de_Type = ty, de_Timestamp = now, de_MessageID = i, de_Report = r, de_Session = s, de_Data = Map.empty\<rparr>)"
  by (simp add: bare_def)

lemma bare_sms: "bare (SMSEvent \<lparr>sv_Type = ty, sv_Timestamp = now, sv_MessageID = i, sv_Session = s, sv_Message = m, sv_Data = Map.empty\<rparr>)"
  by (simp add: bare_def)

lemmas bare_simps = bare_events_publish bare_connection bare_report bare_sms bare_events_eqs

lemma bare_with_session: "bare_events c \<Longrightarrow> (\<And>s. bare_events (snd (k s))) \<Longrightarrow> bare_events (snd (with_session c k))"
  by (simp add: with_session_def split: option.split)

lemma bare_operations:
  assumes "bare_events c"
  shows "bare_events (snd (Connect dial c))" "bare_events (snd (Bind net c))" "bare_events (snd (SendSMS net c src dst msg))"
    "bare_events (snd (client_Unbind net c))" "bare_events (snd (Disconnect c))" "bare_events (snd (sendEnquireLink net c))"
    "bare_events (snd (handleDisconnection err c))" "bare_events (snd (client_handlePDU net c p))"
proof -
  show "bare_events (snd (Connect dial c))"
    using assms by (simp add: Connect_def cl_Now_def Let_def bare_simps split: option.split)
  show "bare_events (snd (Bind net c))"
    using assms by (auto simp: Bind_def bare_simps split: prod.split)
  show "bare_events (snd (SendSMS net c src dst msg))"
    using assms by (auto simp: SendSMS_def bare_simps split: prod.split intro!: bare_with_session)
  show "bare_events (snd (client_Unbind net c))"
    using assms by (auto simp: client_Unbind_def bare_simps Let_def split: prod.split result.split intro!: bare_with_session)
  show "bare_events (snd (Disconnect c))"
    using assms by (simp add: Disconnect_def Let_def bare_simps split: option.split)
  show "bare_events (snd (sendEnquireLink net c))"
    using assms by (auto simp: sendEnquireLink_def bare_simps split: prod.split result.split)
  show "bare_events (snd (handleDisconnection err c))"
    using assms by (simp add: handleDisconnection_def Let_def)
  have "bare_events (snd (handleBindResponse c p))" "bare_events (snd (handleSubmitSMResponse c p))"
    using assms by (auto simp: handleBindResponse_def handleSubmitSMResponse_def Let_def bare_simps
        split: pdu_body.split intro!: bare_with_session)
  moreover have "bare_events (snd (client_handleDeliverSM net c d))" for d
    using assms by (auto simp: client_handleDeliverSM_def Let_def bare_simps split: prod.split result.split)
  moreover have "bare_events (snd (client_handleEnquireLink net c))"
    using assms by (auto simp: client_handleEnquireLink_def bare_simps split: prod.split)
  ultimately show "bare_events (snd (client_handlePDU net c p))"
    using assms by (simp add: client_handlePDU_def Let_def split: pdu_body.split empty_pdu.split)
qed

lemma bare_read_turn: "bare_events c \<Longrightarrow> read_turn net c p = (r, c') \<Longrightarrow> bare_events c'"
  using bare_operations(8)
  by (auto simp: read_turn_def cl_Now_def Let_def split: option.splits prod.splits result.splits) (metis bare_events_updates(3,12) snd_conv)+

lemma bare_read_turns: "bare_events c \<Longrightarrow> bare_events (snd (read_turns net ps c))"
proof (induction ps arbitrary: c)
  case (Cons p ps)
  then show ?case using bare_read_turn [of c net p] by (auto split: prod.split result.split)
qed simp

lemma bare_readLoop: "bare_events c \<Longrightarrow> bare_events (snd (readLoop nets k input c))"
proof (induction nets k input c rule: readLoop.induct)
  case (1 nets k input c)
  show ?case
    using 1 bare_read_turn [of c "nets k"]
    by (subst readLoop.simps) (auto split: prod.split result.split)
qed

lemma bare_give_up: "bare_events c \<Longrightarrow> bare_events (snd (give_up_attempt c))"
  using bare_operations(5) [of c] by (auto simp: give_up_attempt_def split: prod.split result.split)

lemma bare_attempt: "bare_events c \<Longrightarrow> bare_events (snd (reconnect_attempt try c))"
proof -
  let ?c0 = "c\<lparr>cl_reconnectCount := cl_reconnectCount c + 1\<rparr>"
  assume "bare_events c"
  then have 0: "bare_events ?c0" by simp
  obtain r1 c1 where 1: "Connect (ry_dial try) ?c0 = (r1, c1)" by fastforce
  then have "bare_events c1" using bare_operations(1) [OF 0, of "ry_dial try"] by simp
  then have h: "bare_events (c1\<lparr>cl_hooks := (cl_hooks c1)\<lparr>hk_onBind := RebindHook\<rparr>\<rparr>)" by simp
  obtain r2 c2 where 2: "Bind (ry_net try) (c1\<lparr>cl_hooks := (cl_hooks c1)\<lparr>hk_onBind := RebindHook\<rparr>\<rparr>) = (r2, c2)" by fastforce
  then have b2: "bare_events c2" using bare_operations(2) [OF h, of "ry_net try"] by simp
  obtain r3 c3 where 3: "read_turns (ry_net try) (ry_pdus try) c2 = (r3, c3)" by fastforce
  then have b3: "bare_events c3" using bare_read_turns [OF b2, of "ry_net try" "ry_pdus try"] by simp
  show ?thesis
    using \<open>bare_events c1\<close> b2 b3 bare_give_up [OF b2] bare_give_up [OF b3]
    by (simp add: reconnect_attempt_def 1 2 3 split: result.split)
qed

lemma bare_reconnect: "bare_events c \<Longrightarrow> bare_events (snd (reconnect tries k c))"
proof (induction tries k c rule: reconnect.induct)
  case (1 tries k c)
  obtain e c' where a: "reconnect_attempt (tries k) c = (e, c')" by fastforce
  then have "bare_events c'" using bare_attempt [OF 1(2), of "tries k"] by simp
  with 1 a show ?case by (subst reconnect.simps) (auto split: attempt_end.split)
qed

lemma bare_piece: "client_piece c c' \<Longrightarrow> bare_events c \<Longrightarrow> bare_events c'"
proof (induction rule: client_piece.induct)
  case (published ev c)
  then have "bare (ev (fst (cl_Now c)))"
    by (auto simp: client_event_def bare_connection bare_report bare_sms)
  with published show ?case by (simp add: bare_events_publish)
qed (simp_all add: Disconnect_locked_def)

text \<open>
  No event that a client publishes carries the two keys, so the part of the handler that prints the details of a delivery
  report never runs: for every event of a client it prints one line at most.
\<close>

theorem report_details_never_printed:
  assumes "client_reach c" and "ev \<in> set (cl_events c)"
  shows "client_event_lines shown lg kind ev = lines [dl_Info [] lg ''Client event received''
    [''type'', event_type_name (event_GetEventType ev), ''timestamp'', fst (shown ev), ''handler'', kind, ''data'', snd (shown ev)]]"
proof -
  from assms(1) have "bare_events c"
  proof (induction rule: client_runs.induct)
    case (new config publisher clock)
    show ?case by (simp add: bare_events_def NewClient_def)
  next
    case (piece c c')
    then show ?case using bare_piece by blast
  qed (simp_all add: bare_operations bare_readLoop bare_reconnect)
  with assms(2) have "bare ev" by (simp add: bare_events_def list_all_iff)
  then show ?thesis by (simp add: client_event_lines_def bare_def)
qed

text \<open>A client that has been disconnected: its last event\<close>

theorem report_details_never_printed_witness:
  "\<exists>c ev. client_reach c \<and> ev \<in> set (cl_events c) \<and>
     client_event_lines (\<lambda>_. (''t'', ''d'')) (NewDefaultLogger ''info'') ''connection'' ev = lines [dl_Info [] (NewDefaultLogger ''info'')
       ''Client event received'' [''type'', event_type_name (event_GetEventType ev), ''timestamp'', ''t'', ''handler'', ''connection'',
       ''data'', ''d'']]"
proof -
  let ?c0 = "NewClient (client_config.truncate (simple_settings DefaultSimpleClientOptions)) True (\<lambda>_. 0)"
  let ?c = "snd (Connect None ?c0)"
  have r: "client_reach ?c" by (intro client_runs.connect client_runs.new)
  have "cl_events ?c \<noteq> []"
    by (simp add: Connect_def cl_Now_def NewClient_def publish_event_def cl_call_def no_hooks_def Let_def)
  then obtain ev where ev: "ev \<in> set (cl_events ?c)" by (cases "cl_events ?c") auto
  show ?thesis
    by (rule exI [of _ ?c], rule exI [of _ ev], intro conjI r ev)
       (use report_details_never_printed [OF r ev, of "\<lambda>_. (''t'', ''d'')" "NewDefaultLogger ''info''" "''connection''"] in simp)
qed

section \<open>Starting\<close>

text \<open>
  Without a configuration the client does not start with the defaults that it announces: there are none for the client, and
  the first line about its server is a nil dereference, or it runs with the configuration that was refused.
\<close>

theorem client_defaults_not_used:
  assumes "LoadConfig fl out (NewConfigManager path) d = (Err e, cm, d')"
  shows "start_client fl out path d clock = Panic \<or>
    (\<exists>bad d2 settings. GetClientConfig \<lparr>cm_configPath = path, cm_config = Some bad\<rparr> = Some settings \<and>
       dk_files d2 = dk_files d \<and> \<not> config_valid (stat_found out d2) bad \<and>
       start_client fl out path d clock =
         Ok (client_fallback_config, setupClientCallbacks (NewClient (client_config.truncate settings) True clock)))"
proof -
  have s: "start_client fl out path d clock = (case GetClientConfig cm of None \<Rightarrow> Panic
      | Some settings \<Rightarrow> Ok (client_fallback_config, setupClientCallbacks (NewClient (client_config.truncate settings) True clock)))"
    by (simp add: start_client_def assms split: option.split)
  have "cm = NewConfigManager path \<or> (\<exists>c d2. cm = (NewConfigManager path)\<lparr>cm_config := Some c\<rparr> \<and> dk_files d2 = dk_files d \<and>
      \<not> config_valid (stat_found out d2) c)"
    using LoadConfig_cases [where fl = fl and out = out and cm = "NewConfigManager path" and d = d] assms by simp
  then show ?thesis
  proof (elim disjE exE conjE)
    assume "cm = NewConfigManager path"
    then show ?thesis by (simp add: s GetClientConfig_def NewConfigManager_def)
  next
    fix c d2
    assume "cm = (NewConfigManager path)\<lparr>cm_config := Some c\<rparr>" "dk_files d2 = dk_files d" "\<not> config_valid (stat_found out d2) c"
    then show ?thesis
      by (intro disjI2 exI [of _ c] exI [of _ d2]) (simp add: s GetClientConfig_def NewConfigManager_def)
  qed
qed

theorem client_defaults_not_used_witness:
  "\<exists>e cm d'. LoadConfig (\<lambda>x. x) (\<lambda>_. Done) (NewConfigManager ''server.json'') (config_disk JNull) = (Err e, cm, d') \<and>
    (start_client (\<lambda>x. x) (\<lambda>_. Done) ''server.json'' (config_disk JNull) (\<lambda>_. 0) = Panic \<or>
     (\<exists>bad d2 settings. GetClientConfig \<lparr>cm_configPath = ''server.json'', cm_config = Some bad\<rparr> = Some settings \<and>
       dk_files d2 = dk_files (config_disk JNull) \<and> \<not> config_valid (stat_found (\<lambda>_. Done) d2) bad \<and>
       start_client (\<lambda>x. x) (\<lambda>_. Done) ''server.json'' (config_disk JNull) (\<lambda>_. 0) =
         Ok (client_fallback_config, setupClientCallbacks (NewClient (client_config.truncate settings) True (\<lambda>_. 0)))))"
proof -
  obtain e cm d' where l: "LoadConfig (\<lambda>x. x) (\<lambda>_. Done) (NewConfigManager ''server.json'') (config_disk JNull) = (Err e, cm, d')"
    using null_config_refused by blast
  from client_defaults_not_used [OF l, of "\<lambda>_. 0"] l show ?thesis by blast
qed

text \<open>The reporter does not start with them either.\<close>

lemma start_reporter_panics: "start_reporter fl out path d clock = Panic \<longleftrightarrow> start_client fl out path d clock = Panic"
  by (simp add: start_reporter_def start_client_def Let_def split: prod.split option.split)

section \<open>The demo\<close>

text \<open>
  On a client that is bound, over a network that takes what is written, the demo sends its two messages whole, each in one
  \<open>submit_sm\<close>: the long one is not split by the client, and goes into the optional parameter for long messages.
\<close>

lemma example_sent:
  assumes "cl_connected c" "cl_conn c = OpenConn" "cl_bound c" "cl_session c = Some s" "se_State s = SessionStateBoundTRX"
    and "msg \<noteq> ''''" "length msg < 65536"
  shows "\<exists>ls b p m. send_example shown lg net_ok title kind msg fs c = (Ok ls, c\<lparr>cl_builder := b, cl_out := cl_out c @ wire_bytes p\<rparr>) \<and>
    pdu_wf p \<and> Body p = SubmitSM m \<and> message_bytes (ss_ShortMessage m) (ss_OptionalParams m) = to_bytes msg"
proof -
  have "fits 21 ''12345''" "fits 21 ''67890''" by (simp_all add: fits_def)
  from submit_sent [OF assms(1-5) this assms(6,7)] obtain b p m where
    "SendSMS net_ok c ''12345'' ''67890'' msg = (Ok (), c\<lparr>cl_builder := b, cl_out := cl_out c @ wire_bytes p\<rparr>)" "pdu_wf p"
    "Body p = SubmitSM m" "message_bytes (ss_ShortMessage m) (ss_OptionalParams m) = to_bytes msg" by blast
  then show ?thesis by (simp add: send_example_def Let_def) metis
qed

theorem demo_sends_messages:
  assumes "cl_connected c" "cl_conn c = OpenConn" "cl_bound c" "cl_session c = Some s" "se_State s = SessionStateBoundTRX"
  shows "\<exists>ls c' p1 m1 p2 m2. sendDemoMessages shown lg net_ok net_ok (\<lambda>c. c) c = (Ok ls, c') \<and>
    cl_out c' = cl_out c @ wire_bytes p1 @ wire_bytes p2 \<and> pdu_wf p1 \<and> pdu_wf p2 \<and>
    Body p1 = SubmitSM m1 \<and> message_bytes (ss_ShortMessage m1) (ss_OptionalParams m1) = to_bytes short_example \<and>
    Body p2 = SubmitSM m2 \<and> message_bytes (ss_ShortMessage m2) (ss_OptionalParams m2) = to_bytes long_example"
proof -
  have short: "short_example \<noteq> ''''" "length short_example < 65536" and long: "long_example \<noteq> ''''" "length long_example < 65536"
    by (simp_all add: short_example_def long_example_def)
  obtain ls1 b1 p1 m1 where 1: "sendShortMessageExample shown lg net_ok c = (Ok ls1, c\<lparr>cl_builder := b1, cl_out := cl_out c @ wire_bytes p1\<rparr>)"
    "pdu_wf p1" "Body p1 = SubmitSM m1" "message_bytes (ss_ShortMessage m1) (ss_OptionalParams m1) = to_bytes short_example"
    using example_sent [OF assms short] unfolding sendShortMessageExample_def by blast
  let ?c1 = "c\<lparr>cl_builder := b1, cl_out := cl_out c @ wire_bytes p1\<rparr>"
  have c1: "cl_connected ?c1" "cl_conn ?c1 = OpenConn" "cl_bound ?c1" "cl_session ?c1 = Some s" using assms by simp_all
  obtain ls2 b2 p2 m2 where 2: "sendLongMessageExample shown lg net_ok ?c1 =
      (Ok ls2, ?c1\<lparr>cl_builder := b2, cl_out := cl_out ?c1 @ wire_bytes p2\<rparr>)"
    "pdu_wf p2" "Body p2 = SubmitSM m2" "message_bytes (ss_ShortMessage m2) (ss_OptionalParams m2) = to_bytes long_example"
    using example_sent [OF c1 assms(5) long] unfolding sendLongMessageExample_def by blast
  have "sendDemoMessages shown lg net_ok net_ok (\<lambda>c. c) c = (Ok (ls1 @ ls2 @ lines [dl_Info [] lg
      ''Demo complete - sent both short and long message examples'' []]), ?c1\<lparr>cl_builder := b2, cl_out := cl_out ?c1 @ wire_bytes p2\<rparr>)"
    unfolding sendDemoMessages_def 1(1) prod.case result.case 2(1) by simp
  moreover have "cl_out (?c1\<lparr>cl_builder := b2, cl_out := cl_out ?c1 @ wire_bytes p2\<rparr>) = cl_out c @ wire_bytes p1 @ wire_bytes p2" by simp
  ultimately show ?thesis using 1(2-4) 2(2-4) by blast
qed

end
