(* ===== verification/ReceiptFlow.thy ===== *)
theory ReceiptFlow
  imports FullFlow FullClient
begin

text \<open>
  A delivery receipt from the server's processing to the callback of the client: what the sender writes, the client reads,
  and tells its user once for each part, in order, under an ID that has lost its underscores.
\<close>

section \<open>The text of a receipt\<close>

lemma runes_append_ASCII: "list_all (\<lambda>b. b < 0x80) (codes s) \<Longrightarrow> runes (s @ t) = codes s @ runes t"
proof -
  have "list_all (\<lambda>b. b < 0x80) xs \<Longrightarrow> decode_runes (xs @ ys) = xs @ decode_runes ys" for xs ys
  proof (induction xs)
    case (Cons x xs)
    then show ?case by (subst decode_runes.simps) (simp add: decode_rune_def)
  qed simp
  then show "list_all (\<lambda>b. b < 0x80) (codes s) \<Longrightarrow> runes (s @ t) = codes s @ runes t"
    by (simp add: runes_def codes_def)
qed

lemma length_gsm_encoded: "length (concat (map gsm_encode_rune rs)) \<le> 2 * length rs"
proof (induction rs)
  case (Cons r rs)
  have "length (gsm_encode_rune r) \<le> 2" by (simp add: gsm_encode_rune_def split: option.split)
  with Cons show ?case by simp
qed simp

text \<open>A receipt whose first part is in the alphabet, and whose rest is anything.\<close>

lemma Encode_receipt_append:
  assumes "list_all receipt_char s"
  obtains x where "Encode_text (s @ t) 0 = Ok (to_bytes (garble s) @ x)" "length x \<le> 2 * length t"
proof -
  have "list_all (\<lambda>b. b < 0x80) (codes s)"
    using assms receipt_char_code by (auto simp: codes_def list_all_iff)
  then have r: "runes (s @ t) = runes s @ runes t" by (simp add: runes_append_ASCII runes_ASCII)
  have "concat (map gsm_encode_rune (runes s)) = to_bytes (garble s)"
    using Encode_receipt [OF assms] by (simp add: Encode_text_def EncodeGSM7Bit_def)
  with r have "Encode_text (s @ t) 0 = Ok (to_bytes (garble s) @ concat (map gsm_encode_rune (runes t)))"
    by (simp add: Encode_text_def EncodeGSM7Bit_def)
  moreover have "length (concat (map gsm_encode_rune (runes t))) \<le> 2 * length t"
    using length_gsm_encoded [of "runes t"] length_runes_le [of t] by simp
  ultimately show thesis by (rule that)
qed

text \<open>What stands before the text of the message.\<close>

definition receipt_front :: "string \<Rightarrow> string \<Rightarrow> string \<Rightarrow> string" where
  "receipt_front i submitted done_date = ''id:'' @ i @ '' sub:001 dlvrd:001 submit date:'' @ submitted @ '' done date:'' @ done_date @
     '' stat:DELIVRD err:000 text:''"

lemma delivered_text:
  "r_Text (delivered_report now m) = receipt_front (m_ID m) (Format_0601021504 (m_SubmitTime m)) (Format_0601021504 now) @ report_text m"
  by (simp add: delivered_report_def GenerateDeliveryReport_eq receipt_front_def)

lemma receipt_front_chars:
  assumes "list_all receipt_char i" "list_all is_digit a" "list_all is_digit b"
  shows "list_all receipt_char (receipt_front i a b)" and "garble (receipt_front i a b) = receipt_front (garble i) a b"
proof -
  have "list_all receipt_char ''id:''" "list_all receipt_char '' sub:001 dlvrd:001 submit date:''"
    "list_all receipt_char '' done date:''" "list_all receipt_char '' stat:DELIVRD err:000 text:''"
    by code_simp+
  then show "list_all receipt_char (receipt_front i a b)"
    unfolding receipt_front_def list_all_append using assms receipt_char_digits by blast
  have "garble ''id:'' = ''id:''" "garble '' sub:001 dlvrd:001 submit date:'' = '' sub:001 dlvrd:001 submit date:''"
    "garble '' done date:'' = '' done date:''" "garble '' stat:DELIVRD err:000 text:'' = '' stat:DELIVRD err:000 text:''"
    by (rule garble_id, simp)+
  then show "garble (receipt_front i a b) = receipt_front (garble i) a b"
    unfolding receipt_front_def garble_append using assms(2,3) by (simp only: garble_digits)
qed

section \<open>What the client finds in it\<close>

lemma Index_skip: "sub \<noteq> [] \<Longrightarrow> hd sub \<notin> set u \<Longrightarrow> Index (u @ s) sub = map_option ((+) (length u)) (Index s sub)"
proof (induction u)
  case Nil
  then show ?case by (cases "Index s sub") simp_all
next
  case (Cons c u)
  then have "\<not> HasPrefix (c # u @ s) sub" by (cases sub) (auto simp: HasPrefix_def)
  with Cons show ?case by (cases "Index s sub") simp_all
qed

lemma HasPrefix_append [simp]: "HasPrefix (s @ t) s"
  by (simp add: HasPrefix_def)

lemma Index_first: "sub \<noteq> [] \<Longrightarrow> Index (sub @ s) sub = Some 0"
  using HasPrefix_append [of sub s] by (cases sub) (simp_all)

lemma drop_found: "s = p @ k @ r \<Longrightarrow> drop (length p + length k) s = r"
  by simp

lemma receipt_front_read:
  assumes "CHR '' '' \<notin> set i" "CHR ''s'' \<notin> set i" "i \<noteq> ''''" "list_all is_digit a" "list_all is_digit b"
  shows "receipt_value (receipt_front i a b @ y) ''id:'' = Some i"
    and "receipt_value (receipt_front i a b @ y) ''stat:'' = Some ''DELIVRD''"
proof -
  have d: "CHR ''s'' \<notin> set a" "CHR ''s'' \<notin> set b" using assms(4,5) by (auto simp: list_all_iff is_digit_def)
  let ?rest = "'' sub:001 dlvrd:001 submit date:'' @ a @ '' done date:'' @ b @ '' stat:DELIVRD err:000 text:'' @ y"
  have h: "receipt_front i a b @ y = ''id:'' @ i @ ?rest" by (simp add: receipt_front_def)
  have "Index (i @ ?rest) '' '' = Some (length i)"
    using assms(1) by (subst Index_skip) (simp_all add: HasPrefix_def)
  then show "receipt_value (receipt_front i a b @ y) ''id:'' = Some i"
    using assms(3) unfolding receipt_value_def h by (subst Index_first) simp_all
  let ?tail = "''stat:'' @ ''DELIVRD'' @ '' err:000 text:'' @ y"
  have skip: "Index (x @ s) ''stat:'' = map_option ((+) (length x)) (Index s ''stat:'')" if "CHR ''s'' \<notin> set x" for x s
    using that by (intro Index_skip) simp_all
  have "Index (b @ '' '' @ ?tail) ''stat:'' = Some (length b + 1)"
    using d by (subst skip) (simp_all add: HasPrefix_def)
  then have "Index ('' done date:'' @ b @ '' '' @ ?tail) ''stat:'' = Some (length ('' done date:'' @ b @ '' ''))"
    by (subst skip) simp_all
  then have "Index (a @ '' done date:'' @ b @ '' '' @ ?tail) ''stat:'' = Some (length (a @ '' done date:'' @ b @ '' ''))"
    using d by (subst skip) simp_all
  then have "Index ('' sub:001 dlvrd:001 submit date:'' @ a @ '' done date:'' @ b @ '' '' @ ?tail) ''stat:'' =
      Some (length ('' sub:001 dlvrd:001 submit date:'' @ a @ '' done date:'' @ b @ '' ''))"
    by (simp add: HasPrefix_def)
  then have x: "Index (receipt_front i a b @ y) ''stat:'' = Some (length (''id:'' @ i @ '' sub:001 dlvrd:001 submit date:'' @ a @ '' done date:'' @ b @ '' ''))"
    unfolding h using assms(2) by (subst skip [of "''id:''"], simp, subst skip [of i]) simp_all
  have "receipt_front i a b @ y = (''id:'' @ i @ '' sub:001 dlvrd:001 submit date:'' @ a @ '' done date:'' @ b @ '' '') @ ''stat:'' @
      ''DELIVRD'' @ '' err:000 text:'' @ y"
    by (simp add: receipt_front_def)
  from drop_found [OF this]
  have "drop (length (''id:'' @ i @ '' sub:001 dlvrd:001 submit date:'' @ a @ '' done date:'' @ b @ '' '') + length ''stat:'') (receipt_front i a b @ y) =
      ''DELIVRD'' @ '' err:000 text:'' @ y" .
  moreover have "Index (''DELIVRD'' @ '' err:000 text:'' @ y) '' '' = Some 7" by (simp add: HasPrefix_def)
  ultimately show "receipt_value (receipt_front i a b @ y) ''stat:'' = Some ''DELIVRD''"
    unfolding receipt_value_def x option.case Let_def by simp
qed

text \<open>An ID that a receipt carries as one word, in which no \<open>stat:\<close> can begin.\<close>

definition report_ID :: "string \<Rightarrow> bool" where
  "report_ID i \<longleftrightarrow> i \<noteq> '''' \<and> list_all receipt_char i \<and> CHR '' '' \<notin> set i \<and> CHR ''s'' \<notin> set i \<and> length i \<le> 100"

text \<open>The body of the \<open>deliver_sm\<close> for a receipt, as the client gets it: the field for the source address cuts the ID.\<close>

lemma receipt_received:
  assumes "receipt_for p part" and "report_ID (m_ID part)"
  obtains q ds where "pdu_wf q" "wire_bytes q = wire_bytes p" "Body q = DeliverSM ds" "h_CommandID (Header q) = CommandDeliverSM"
    "ds_EsmClass ds = 4" "r_MessageID (parseDeliveryReceipt ds) = garble (m_ID part)" "r_Status (parseDeliveryReceipt ds) = ''DELIVRD''"
proof -
  obtain now b bs where p: "Encode_text (r_Text (delivered_report now part)) 0 = Ok bs" "p = fst (report_pdu b (delivered_report now part) bs)"
    using assms(1) by (auto simp: receipt_for_def)
  note i = assms(2) [unfolded report_ID_def]
  let ?a = "Format_0601021504 (m_SubmitTime part)" and ?b = "Format_0601021504 now"
  note head = receipt_front_chars [OF _ Format_digits Format_digits, of "m_ID part" "m_SubmitTime part" now]
  obtain x where x: "bs = to_bytes (receipt_front (garble (m_ID part)) ?a ?b) @ x" "length x \<le> 2 * length (report_text part)"
    using Encode_receipt_append [of "receipt_front (m_ID part) ?a ?b" "report_text part"] p(1) i head by (auto simp: delivered_text)
  have short: "length (report_text part) \<le> 20" "length ?a = 10" "length ?b = 10"
    by (simp_all add: report_text_def Format_0601021504_def two_digits_def Let_def split_beta)
  have len: "length bs < 256" "bs \<noteq> []" using x short i by (simp_all add: receipt_front_def)
  define ds where "ds = (\<lambda>src. \<lparr>ds_ServiceType = '''', ds_SourceAddrTON = TONInternational, ds_SourceAddrNPI = NPIISDN, ds_SourceAddr = src,
    ds_DestAddrTON = TONInternational, ds_DestAddrNPI = NPIISDN, ds_DestAddr = '''', ds_EsmClass = 4, ds_ProtocolID = 0,
    ds_PriorityFlag = PriorityLevel0, ds_ScheduleDeliveryTime = '''', ds_ValidityPeriod = '''', ds_RegisteredDelivery = 0,
    ds_ReplaceIfPresentFlag = 0, ds_DataCoding = 0, ds_SMDefaultMsgID = 0, ds_SMLength = word_of_nat (length bs), ds_ShortMessage = bs,
    ds_OptionalParams = []\<rparr>)"
  let ?src = "take 21 (m_ID part)"
  obtain seq where p': "p = mk_pdu CommandDeliverSM StatusOK seq (DeliverSM (ds (m_ID part)))"
    using p(2) by (auto simp: report_pdu_def BuildDeliverSM_def mk_pdu_def ds_def Let_def split_beta)
  let ?q = "mk_pdu CommandDeliverSM StatusOK seq (DeliverSM (ds ?src))"
  have "put_fixed 21 (m_ID part) = put_fixed 21 ?src" by (simp add: put_fixed_def go_copy_def to_bytes_def take_map drop_replicate)
  then have w: "wire_bytes ?q = wire_bytes p"
    by (simp add: p' wire_bytes_def Encode_def mk_pdu_def DeliverSM_Marshal_def ds_def DeliverSM_CommandID_def Let_def)
  have "last ?src \<noteq> CHR 0x00"
  proof -
    have "last ?src \<in> set (m_ID part)" using i by (metis in_set_takeD last_in_set take_eq_Nil zero_neq_numeral)
    moreover have "\<not> receipt_char (CHR 0x00)" by (simp add: receipt_char_def Let_def)
    ultimately show ?thesis using i by (auto simp: list_all_iff)
  qed
  then have "body_wf (Body ?q)"
    using len by (simp add: mk_pdu_def deliver_sm_wf_def deliver_sm_fields_def ds_def fits_def unat_of_nat take_bit_nat_eq_self)
  moreover have "length (wire_bytes ?q) < 2 ^ 32"
    using len by (simp add: wire_bytes_def Encode_def mk_pdu_def DeliverSM_Marshal_def ds_def Let_def header_bytes_def)
  ultimately obtain q where q: "pdu_wf q" "wire_bytes q = wire_bytes ?q" "Body q = Body ?q" "h_CommandID (Header q) = body_CommandID (Body ?q)"
    using wire_encoded by metis
  have "of_bytes bs = receipt_front (garble (m_ID part)) ?a ?b @ of_bytes x" by (simp add: x(1))
  moreover have "CHR '' '' \<notin> set (garble (m_ID part))" "CHR ''s'' \<notin> set (garble (m_ID part))" "garble (m_ID part) \<noteq> ''''"
    using i by (auto simp: garble_def)
  ultimately have "receipt_value (of_bytes bs) ''id:'' = Some (garble (m_ID part))" "receipt_value (of_bytes bs) ''stat:'' = Some ''DELIVRD''"
    "garble (m_ID part) \<noteq> ''''"
    using receipt_front_read [OF _ _ _ Format_digits Format_digits] by simp_all
  then have "r_MessageID (parseDeliveryReceipt (ds ?src)) = garble (m_ID part)" "r_Status (parseDeliveryReceipt (ds ?src)) = ''DELIVRD''"
    by (auto simp: parseDeliveryReceipt_def ds_def Let_def split: option.split)
  with q w show thesis
    by (intro that [of q "ds ?src"]) (simp_all add: mk_pdu_def DeliverSM_CommandID_def ds_def)
qed

section \<open>The client reads it\<close>

text \<open>A client that reads, on an open connection, with a callback for receipts.\<close>

definition listening :: "client \<Rightarrow> bool" where
  "listening c \<longleftrightarrow> cl_connected c \<and> cl_conn c = OpenConn \<and> \<not> cl_done c \<and> cl_session c \<noteq> None \<and> hk_onDeliveryReport (cl_hooks c)"

lemma listening_turn:
  assumes "listening c" and "h_CommandID (Header q) = CommandDeliverSM" "Body q = DeliverSM ds" "ds_EsmClass ds = 4"
  shows "\<exists>c'. read_turn net_ok c q = (Ok (), c') \<and> listening c' \<and> cl_calls c' = cl_calls c @ [CalledDeliveryReport (parseDeliveryReceipt ds)]"
proof -
  obtain s where s: "cl_session c = Some s" using assms(1) by (auto simp: listening_def)
  obtain p1 where e: "Encode (BuildDeliverSMResp '''' (se_SequenceNum s) StatusOK) = Ok (p1, wire_bytes (BuildDeliverSMResp '''' (se_SequenceNum s) StatusOK))"
    using Encode_wire [OF Encode_responses(1)] by metis
  show ?thesis
    using assms s e [simplified]
    by (auto simp: listening_def read_turn_def cl_Now_def client_handlePDU_def client_handleDeliverSM_def cl_getNextSequence_def
        sendPDU_def cl_call_def publish_event_def Let_def)
qed

lemma listening_reads:
  assumes "listening c" and "list_all2 (\<lambda>q r. pdu_wf q \<and> h_CommandID (Header q) = CommandDeliverSM \<and>
      (\<exists>ds. Body q = DeliverSM ds \<and> ds_EsmClass ds = 4 \<and> r = parseDeliveryReceipt ds)) qs rs"
  shows "\<exists>c'. readLoop (\<lambda>_. net_ok) k (concat (map wire_bytes qs)) c =
      (LoopLost (Wrap ''failed to read PDU header'' (Errorf ''EOF'')), c') \<and> listening c' \<and>
    cl_calls c' = cl_calls c @ map CalledDeliveryReport rs"
  using assms(2,1)
proof (induction qs rs arbitrary: c k rule: list_all2_induct)
  case Nil
  then show ?case
    by (subst readLoop.simps) (simp add: listening_def DecodeFromReader_def read_full_def)
next
  case (Cons q qs r rs)
  obtain ds where q: "pdu_wf q" "h_CommandID (Header q) = CommandDeliverSM" "Body q = DeliverSM ds" "ds_EsmClass ds = 4"
    "r = parseDeliveryReceipt ds" using Cons.hyps(1) by blast
  obtain c1 where c1: "read_turn net_ok c q = (Ok (), c1)" "listening c1" "cl_calls c1 = cl_calls c @ [CalledDeliveryReport r]"
    using listening_turn [OF Cons.prems q(2-4)] q(5) by blast
  from Cons.IH [OF c1(2), of "k + 1"] obtain c' where
    "readLoop (\<lambda>_. net_ok) (k + 1) (concat (map wire_bytes qs)) c1 = (LoopLost (Wrap ''failed to read PDU header'' (Errorf ''EOF'')), c')"
    "listening c'" "cl_calls c' = cl_calls c1 @ map CalledDeliveryReport rs" by blast
  moreover have "DecodeFromReader (wire_bytes q @ concat (map wire_bytes qs)) = (Ok q, concat (map wire_bytes qs))"
    by (rule DecodeFromReader_wire) (rule q(1))
  ultimately show ?case
    using Cons.prems c1 by (intro exI [of _ c'], subst readLoop.simps) (simp add: listening_def)
qed

text \<open>What a client is told of a part.\<close>

definition told_delivered :: "delivery_report \<Rightarrow> message \<Rightarrow> bool" where
  "told_delivered r part \<longleftrightarrow> r_MessageID r = garble (m_ID part) \<and> r_Status r = ''DELIVRD''"

lemma receipts_read:
  assumes "listening c" and "list_all2 receipt_for pdus parts" and "list_all (\<lambda>part. report_ID (m_ID part)) parts"
  shows "\<exists>c' reports. readLoop (\<lambda>_. net_ok) k (concat (map wire_bytes pdus)) c =
      (LoopLost (Wrap ''failed to read PDU header'' (Errorf ''EOF'')), c') \<and>
    cl_calls c' = cl_calls c @ map CalledDeliveryReport reports \<and> list_all2 told_delivered reports parts"
proof -
  have "\<exists>qs rs. map wire_bytes qs = map wire_bytes pdus \<and> list_all2 told_delivered rs parts \<and>
      list_all2 (\<lambda>q r. pdu_wf q \<and> h_CommandID (Header q) = CommandDeliverSM \<and>
        (\<exists>ds. Body q = DeliverSM ds \<and> ds_EsmClass ds = 4 \<and> r = parseDeliveryReceipt ds)) qs rs"
    using assms(2,3)
  proof (induction pdus parts rule: list_all2_induct)
    case (Cons p pdus part parts)
    obtain qs rs where "map wire_bytes qs = map wire_bytes pdus" "list_all2 told_delivered rs parts"
      "list_all2 (\<lambda>q r. pdu_wf q \<and> h_CommandID (Header q) = CommandDeliverSM \<and>
        (\<exists>ds. Body q = DeliverSM ds \<and> ds_EsmClass ds = 4 \<and> r = parseDeliveryReceipt ds)) qs rs"
      using Cons.IH Cons.prems by auto
    moreover have "report_ID (m_ID part)" using Cons.prems by simp
    from receipt_received [OF Cons.hyps(1) this] obtain q ds where "pdu_wf q" "wire_bytes q = wire_bytes p" "Body q = DeliverSM ds"
      "h_CommandID (Header q) = CommandDeliverSM" "ds_EsmClass ds = 4" "told_delivered (parseDeliveryReceipt ds) part"
      unfolding told_delivered_def by metis
    ultimately show ?case
      by (intro exI [of _ "q # qs"] exI [of _ "parseDeliveryReceipt ds # rs"]) simp
  qed auto
  then obtain qs rs where q: "map wire_bytes qs = map wire_bytes pdus" "list_all2 told_delivered rs parts"
    "list_all2 (\<lambda>q r. pdu_wf q \<and> h_CommandID (Header q) = CommandDeliverSM \<and>
      (\<exists>ds. Body q = DeliverSM ds \<and> ds_EsmClass ds = 4 \<and> r = parseDeliveryReceipt ds)) qs rs" by blast
  from listening_reads [OF assms(1) q(3), of k] q(1,2) show ?thesis by metis
qed

section \<open>IDs of the server\<close>

text \<open>The splitter makes parts with the ID of the message or the IDs of its parts.\<close>

lemma part_IDs:
  assumes "splitter_SplitMessage NewDefaultMessageSplitter m = Ok parts"
  shows "list_all (\<lambda>p. m_ID p = m_ID m \<or> (\<exists>k \<le> 255. m_ID p = part_ID (m_ID m) k)) parts"
proof (cases "parts = [m]")
  case False
  then obtain texts where t: "length texts \<le> 255"
    "split_parts m (generateReferenceNumber (m_ID m)) (length texts) 0 texts = Ok parts"
    using assms by (auto simp: splitter_SplitMessage_def Let_def not_less split: if_splits)
  from split_parts_part_of [OF t(2)] t(1) have "m_ID (parts ! i) = part_ID (m_ID m) (i + 1)" "i + 1 \<le> 255" if "i < length parts" for i
    using that by (simp_all add: part_of_def part_ID_def)
  then show ?thesis unfolding list_all_length by blast
qed simp

lemma report_ID_part: "report_ID i \<Longrightarrow> length i \<le> 64 \<Longrightarrow> k \<le> 255 \<Longrightarrow> report_ID (part_ID i k)"
proof -
  assume i: "report_ID i" "length i \<le> 64" "k \<le> 255"
  have "length (itoa k) \<le> 3" using i(3) by (intro length_itoa) simp_all
  moreover have "list_all receipt_char (itoa k)" by (rule receipt_char_digits) (rule itoa_digits)
  moreover have "CHR '' '' \<notin> set (itoa k)" "CHR ''s'' \<notin> set (itoa k)"
    using itoa_digits [of k] by (auto simp: list_all_iff is_digit_def)
  moreover have "receipt_char (CHR ''_'')" by (simp add: receipt_char_def)
  ultimately show ?thesis using i by (simp add: report_ID_def part_ID_def)
qed

lemma report_ID_server:
  assumes "0 \<le> a" "a < 10 ^ 19"
  shows "report_ID (message_ID_at a b)" "length (message_ID_at a b) \<le> 64"
proof -
  have d: "receipt_char c \<and> c \<noteq> CHR '' '' \<and> c \<noteq> CHR ''s''" if "is_digit c \<or> c = CHR ''-''" for c
  proof -
    have "receipt_char c" using that receipt_char_digits [of "[c]"] by (auto simp: receipt_char_def)
    then show ?thesis using that by (auto simp: is_digit_def)
  qed
  have c: "list_all receipt_char (itoa_int n)" "CHR '' '' \<notin> set (itoa_int n)" "CHR ''s'' \<notin> set (itoa_int n)" for n
    using itoa_int_chars [of n] d unfolding list_all_iff by blast+
  have l: "length (message_ID_at a b) \<le> 31" using length_message_ID [OF assms] .
  have "list_all receipt_char ''MSG_''" "list_all receipt_char ''_''" by code_simp+
  with c l show "report_ID (message_ID_at a b)" by (simp add: report_ID_def message_ID_at_def)
  from l show "length (message_ID_at a b) \<le> 64" by simp
qed

section \<open>From the processed message to the callback\<close>

text \<open>
  C3. The client of a message that asked for a report is told of every part: what the full server writes to the connection of
  the session for the message makes a client that listens there call back once for each part, in order, with the status
  DELIVRD and the ID of the part, less its underscores.
\<close>

theorem client_told_of_delivery:
  assumes "ProcessMessage (full_handler order hclock) w m = (Ok (), w')" and "and (m_RegisteredDelivery m) 0x01 \<noteq> 0"
    and "w_events w' = w_events w @ evs" and "m_SessionID m = i" "i \<noteq> ''''" and "report_ID (m_ID m)" "length (m_ID m) \<le> 64"
    and "ab = (full_bus conn_of nets clock shown lg)\<lparr>ab_chan := ConnectionEvent ce # mid @ evs\<rparr>"
    and "ce_Type ce = EventTypeConnected" "conn_of (ConnectionEvent ce) = Some cn"
    and "conn_GetSessionID (wd_heap s cn) = i" "sc_active (wd_heap s cn)"
    and "manager_inv (wd_heap s) (wd_manager s)" "cm_connections (wd_manager s) i = None"
    and "list_all (\<lambda>ev. \<not> disconnects i ev) mid" and "\<And>k. no_deadline_ok (nets k) \<and> no_write_ok (nets k)" and "listening c"
  shows "\<exists>s' before new parts c' reports. worker_steps (length (ab_chan ab)) ab s = (ab\<lparr>ab_chan := []\<rparr>, s') \<and>
    splitter_SplitMessage NewDefaultMessageSplitter m = Ok parts \<and>
    sc_out (wd_heap s' cn) = sc_out (wd_heap s cn) @ before @ new \<and>
    readLoop (\<lambda>_. net_ok) k new c = (LoopLost (Wrap ''failed to read PDU header'' (Errorf ''EOF'')), c') \<and>
    cl_calls c' = cl_calls c @ map CalledDeliveryReport reports \<and> list_all2 told_delivered reports parts"
proof -
  obtain s' before pdus parts where w: "worker_steps (length (ab_chan ab)) ab s = (ab\<lparr>ab_chan := []\<rparr>, s')"
    "splitter_SplitMessage NewDefaultMessageSplitter m = Ok parts"
    "sc_out (wd_heap s' cn) = sc_out (wd_heap s cn) @ before @ concat (map wire_bytes pdus)" "list_all2 receipt_for pdus parts"
    using receipts_written [OF assms(1-5,8-16)] by blast
  have "list_all (\<lambda>part. report_ID (m_ID part)) parts"
    using part_IDs [OF w(2)] report_ID_part [OF assms(6,7)] assms(6) unfolding list_all_iff by metis
  from receipts_read [OF assms(17) w(4) this, of k] w(1-3) show ?thesis by blast
qed

text \<open>
  For a message with an ID of the server these are calls from which the parts reporter of the example learns nothing
  (theory \<open>PartsReporter\<close>).
\<close>

lemma told_calls_are_server_calls:
  assumes "splitter_SplitMessage NewDefaultMessageSplitter m = Ok parts" and "m_ID m = message_ID_at a b"
    and "list_all2 told_delivered reports parts"
  shows "list_all server_call (map CalledDeliveryReport reports)"
proof -
  have "list_all (\<lambda>part. server_ID (m_ID part)) parts"
    using part_IDs [OF assms(1)] server_ID.whole server_ID.part assms(2) unfolding list_all_iff by metis
  with assms(3) have "list_all (\<lambda>r. server_ID (r_MessageID r)) reports"
  proof (induction rule: list_all2_induct)
    case (Cons r rs part parts)
    then show ?case using server_ID.receipt by (simp add: told_delivered_def)
  qed simp
  then show ?thesis by (simp add: list_all_iff server_call_def call_update_def)
qed

section \<open>Witness\<close>

definition example_listener :: client where
  "example_listener = OnDeliveryReport example_client"

lemma example_listener: "listening example_listener"
  by (simp add: listening_def example_listener_def OnDeliveryReport_def example_client_def Connect_def NewClient_def
      OnSubmitResponse_def cl_Now_def cl_call_def no_hooks_def Let_def)

abbreviation example_asking :: message where
  "example_asking \<equiv> example_stored_file\<lparr>m_SessionID := ''s'', m_RegisteredDelivery := 1\<rparr>"

lemma example_asking_processed:
  obtains w' where "ProcessMessage (full_handler [] int) example_full_world example_asking = (Ok (), w')"
    "w_events w' = w_events example_full_world @ w_events w'"
proof -
  let ?m = example_asking
  have "runes ''hi'' = codes ''hi''" by (rule runes_ASCII) (simp add: codes_def)
  then obtain parts where parts: "splitter_SplitMessage NewDefaultMessageSplitter ?m = Ok parts" "length parts = 1"
    by (simp add: splitter_SplitMessage_def example_stored_file_def zero_message_def codes_def NewDefaultMessageSplitter_def)
  have "file_inv (w_sms example_full_world)" "fs_messages (w_sms example_full_world) (m_ID ?m) = Some example_stored_file"
    using example_fs_inv by (simp_all add: example_fs_def example_stored_file_def)
  from full_processed [OF this parts(1), of "[]" int] show thesis
    using that by (auto simp: parts(2) NewInMemoryMessageQueue_def)
qed

theorem client_told_of_delivery_witness:
  "\<exists>w' ce ab s' before new parts c' reports.
    ProcessMessage (full_handler [] int) example_full_world example_asking = (Ok (), w') \<and>
    ab = (full_bus (\<lambda>_. Some 0) (\<lambda>_. \<lparr>no_deadline_ok = True, no_write_ok = True\<rparr>) int (\<lambda>_. ('''', ''''))
      (NewDefaultLogger ''info''))\<lparr>ab_chan := ConnectionEvent ce # [] @ w_events w'\<rparr> \<and>
    worker_steps (length (ab_chan ab)) ab example_wired = (ab\<lparr>ab_chan := []\<rparr>, s') \<and>
    splitter_SplitMessage NewDefaultMessageSplitter example_asking = Ok parts \<and>
    sc_out (wd_heap s' 0) = sc_out (wd_heap example_wired 0) @ before @ new \<and>
    readLoop (\<lambda>_. net_ok) 0 new example_listener = (LoopLost (Wrap ''failed to read PDU header'' (Errorf ''EOF'')), c') \<and>
    cl_calls c' = cl_calls example_listener @ map CalledDeliveryReport reports \<and> list_all2 told_delivered reports parts"
proof -
  obtain w' where w': "ProcessMessage (full_handler [] int) example_full_world example_asking = (Ok (), w')"
    "w_events w' = w_events example_full_world @ w_events w'"
    using example_asking_processed .
  define ce where "ce = \<lparr>ce_Type = EventTypeConnected, ce_Timestamp = 0, ce_SessionID = ''s'', ce_Session = example_session,
    ce_RemoteAddr = '''', ce_Data = Map.empty\<rparr>"
  let ?ab = "(full_bus (\<lambda>_. Some 0) (\<lambda>_. \<lparr>no_deadline_ok = True, no_write_ok = True\<rparr>) int (\<lambda>_. ('''', ''''))
      (NewDefaultLogger ''info''))\<lparr>ab_chan := ConnectionEvent ce # [] @ w_events w'\<rparr>"
  have start: "manager_inv (wd_heap example_wired) (wd_manager example_wired)" "cm_connections (wd_manager example_wired) ''s'' = None"
    "conn_GetSessionID (wd_heap example_wired 0) = ''s''" "sc_active (wd_heap example_wired 0)"
    by (simp_all add: manager_inv_def NewInMemoryConnectionManager_def example_heap_def conn_GetSessionID_def NewServerConnection_def)
  have msg: "and (m_RegisteredDelivery example_asking) 0x01 \<noteq> 0" "m_SessionID example_asking = ''s''" "''s'' \<noteq> ''''"
    "report_ID (m_ID example_asking)" "length (m_ID example_asking) \<le> 64" "ce_Type ce = EventTypeConnected"
    by (simp_all add: report_ID_def receipt_char_def example_stored_file_def ce_def)
  have ok: "\<And>k. no_deadline_ok (good_net k) \<and> no_write_ok (good_net k)" by simp
  have none: "list_all (\<lambda>ev. \<not> disconnects ''s'' ev) []" by simp
  note told = client_told_of_delivery [where conn_of = "\<lambda>_. Some 0" and cn = 0 and s = example_wired and k = 0 and nets = good_net and
      clock = int and shown = "\<lambda>_. ('''', '''')" and lg = "NewDefaultLogger ''info''",
      OF w'(1) msg(1) w'(2) msg(2-5) refl msg(6) refl start(3,4,1,2) none ok example_listener]
  show ?thesis by (rule exI [of _ w'], rule exI [of _ ce], rule exI [of _ ?ab], simp only: w'(1) simp_thms) (rule told)
qed

end
