(* ===== verification/Protocol.thy ===== *)
theory Protocol
  imports Version ServerFlow
begin

text \<open>
  What \<open>pkg/smpp\<close> declares of the protocol and what it can do: the tables of constants, the types of PDUs that have a command
  ID and no more, and what becomes of a peer that uses the features that \<open>internal/version\<close> announces.
\<close>

section \<open>The tables of constants\<close>

definition command_codes :: "(string \<times> u32) list" where
  "command_codes =
   [(''CommandBindReceiver'', CommandBindReceiver), (''CommandBindTransmitter'', CommandBindTransmitter),
    (''CommandQuerySM'', CommandQuerySM), (''CommandSubmitSM'', CommandSubmitSM),
    (''CommandDeliverSM'', CommandDeliverSM), (''CommandUnbind'', CommandUnbind),
    (''CommandReplaceSM'', CommandReplaceSM), (''CommandCancelSM'', CommandCancelSM),
    (''CommandBindTransceiver'', CommandBindTransceiver), (''CommandOutbind'', CommandOutbind),
    (''CommandEnquireLink'', CommandEnquireLink), (''CommandSubmitMulti'', CommandSubmitMulti),
    (''CommandAlertNotification'', CommandAlertNotification), (''CommandDataSM'', CommandDataSM),
    (''CommandBroadcastSM'', CommandBroadcastSM), (''CommandQueryBroadcastSM'', CommandQueryBroadcastSM),
    (''CommandCancelBroadcastSM'', CommandCancelBroadcastSM), (''CommandBindReceiverResp'', CommandBindReceiverResp),
    (''CommandBindTransmitterResp'', CommandBindTransmitterResp), (''CommandQuerySMResp'', CommandQuerySMResp),
    (''CommandSubmitSMResp'', CommandSubmitSMResp), (''CommandDeliverSMResp'', CommandDeliverSMResp),
    (''CommandUnbindResp'', CommandUnbindResp), (''CommandReplaceSMResp'', CommandReplaceSMResp),
    (''CommandCancelSMResp'', CommandCancelSMResp), (''CommandBindTransceiverResp'', CommandBindTransceiverResp),
    (''CommandEnquireLinkResp'', CommandEnquireLinkResp), (''CommandSubmitMultiResp'', CommandSubmitMultiResp),
    (''CommandDataSMResp'', CommandDataSMResp), (''CommandBroadcastSMResp'', CommandBroadcastSMResp),
    (''CommandQueryBroadcastSMResp'', CommandQueryBroadcastSMResp),
    (''CommandCancelBroadcastSMResp'', CommandCancelBroadcastSMResp)]"

definition status_codes :: "(string \<times> u32) list" where
  "status_codes =
   [(''StatusOK'', StatusOK), (''StatusInvMsgLen'', StatusInvMsgLen), (''StatusInvCmdLen'', 0x2),
    (''StatusInvCmdID'', 0x3), (''StatusInvBnd'', StatusInvBnd), (''StatusAlreadyBnd'', 0x5),
    (''StatusInvPrtFlg'', 0x6), (''StatusInvRegDlvFlg'', 0x7), (''StatusSysErr'', StatusSysErr),
    (''StatusInvSrcAdr'', 0xa), (''StatusInvDstAdr'', StatusInvDstAdr), (''StatusInvMsgID'', 0xc),
    (''StatusBindFail'', 0xd), (''StatusInvPaswd'', StatusInvPaswd), (''StatusInvSysID'', 0xf),
    (''StatusCancelFail'', 0x11), (''StatusReplaceFail'', 0x13), (''StatusMsgQFul'', 0x14),
    (''StatusInvSerTyp'', 0x15), (''StatusInvNumDests'', 0x33), (''StatusInvDLName'', 0x34),
    (''StatusInvDestFlag'', 0x40), (''StatusInvSubRep'', 0x42), (''StatusInvEsmClass'', 0x43),
    (''StatusCntSubDL'', 0x44), (''StatusSubmitFail'', 0x45), (''StatusInvSrcTON'', 0x48), (''StatusInvSrcNPI'', 0x49),
    (''StatusInvDstTON'', 0x50), (''StatusInvDstNPI'', 0x51), (''StatusInvSysTyp'', 0x53),
    (''StatusInvRepFlag'', 0x54), (''StatusInvNumMsgs'', 0x55), (''StatusThrottled'', 0x58),
    (''StatusInvSched'', 0x61), (''StatusInvExpiry'', 0x62), (''StatusInvDftMsgID'', 0x63), (''StatusXTAppn'', 0x64),
    (''StatusXPAppn'', 0x65), (''StatusXRAppn'', 0x66), (''StatusQueryFail'', 0x67), (''StatusInvOptParStream'', 0xc0),
    (''StatusOptParNotAllwd'', 0xc1), (''StatusInvParLen'', 0xc2), (''StatusMissingOptParam'', 0xc3),
    (''StatusInvOptParamVal'', 0xc4), (''StatusDeliveryFailure'', 0xfe), (''StatusUnknownErr'', 0xff)]"

definition esm_classes :: "(string \<times> u8) list" where
  "esm_classes =
   [(''EsmClassDefault'', EsmClassDefault), (''EsmClassDatagramMode'', 0x1), (''EsmClassForwardMode'', 0x2),
    (''EsmClassStoreForward'', 0x3), (''EsmClassUDHI'', EsmClassUDHI), (''EsmClassReplyPath'', 0x80)]"

definition data_codings :: "(string \<times> u8) list" where
  "data_codings =
   [(''DataCodingDefault'', DataCodingDefault), (''DataCodingIA5'', 0x1), (''DataCodingBinary'', 0x2),
    (''DataCodingISO88591'', 0x3), (''DataCodingISO88595'', 0x6), (''DataCodingISO88598'', 0x7),
    (''DataCodingUCS2'', 0x8), (''DataCodingPictogram'', 0x9), (''DataCodingISO2022JP'', 0xa),
    (''DataCodingExtJISX0212'', 0xd), (''DataCodingKSC5601'', 0xe)]"

definition numbering_types :: "(string \<times> u8) list" where
  "numbering_types =
   [(''TONUnknown'', TONUnknown), (''TONInternational'', TONInternational), (''TONNational'', TONNational),
    (''TONNetworkSpecific'', 0x3), (''TONSubscriberNumber'', 0x4), (''TONAlphanumeric'', TONAlphanumeric),
    (''TONAbbreviated'', 0x6)]"

definition numbering_plans :: "(string \<times> u8) list" where
  "numbering_plans =
   [(''NPIUnknown'', NPIUnknown), (''NPIISDN'', NPIISDN), (''NPIData'', 0x3), (''NPITelex'', 0x4),
    (''NPILandMobile'', 0x6), (''NPINational'', 0x8), (''NPIPrivate'', 0x9), (''NPIERMES'', 0xa), (''NPIIP'', 0xe),
    (''NPIWAP'', 0x12)]"

definition registered_deliveries :: "(string \<times> u8) list" where
  "registered_deliveries =
   [(''RegisteredDeliveryNone'', 0x0), (''RegisteredDeliverySuccessFailure'', RegisteredDeliverySuccessFailure),
    (''RegisteredDeliveryFailure'', 0x2), (''RegisteredDeliverySuccess'', 0x3),
    (''RegisteredDeliveryIntermediate'', 0x10)]"

definition priority_levels :: "(string \<times> u8) list" where
  "priority_levels =
   [(''PriorityLevel0'', PriorityLevel0), (''PriorityLevel1'', 0x1), (''PriorityLevel2'', 0x2),
    (''PriorityLevel3'', 0x3)]"

definition message_states :: "(string \<times> u8) list" where
  "message_states =
   [(''MessageStateEnroute'', MessageStateEnroute), (''MessageStateDelivered'', MessageStateDelivered),
    (''MessageStateExpired'', MessageStateExpired), (''MessageStateDeleted'', MessageStateDeleted),
    (''MessageStateUndeliverable'', MessageStateUndeliverable), (''MessageStateAccepted'', MessageStateAccepted),
    (''MessageStateUnknown'', MessageStateUnknown), (''MessageStateRejected'', MessageStateRejected),
    (''MessageStateSkipped'', MessageStateSkipped)]"

definition parameter_tags :: "(string \<times> u16) list" where
  "parameter_tags =
   [(''TagDestAddrSubunit'', 0x5), (''TagDestNetworkType'', 0x6), (''TagDestBearerType'', 0x7),
    (''TagDestTelematicsID'', 0x8), (''TagSourceAddrSubunit'', 0xd), (''TagSourceNetworkType'', 0xe),
    (''TagSourceBearerType'', 0xf), (''TagSourceTelematicsID'', 0x10), (''TagQOSTimeToLive'', 0x17),
    (''TagPayloadType'', 0x19), (''TagAdditionalStatusInfoText'', 0x1d),
    (''TagReceiptedMessageID'', TagReceiptedMessageID), (''TagMsMsgWaitFacilities'', 0x30),
    (''TagPrivacyIndicator'', 0x201), (''TagSourceSubaddress'', 0x202), (''TagDestSubaddress'', 0x203),
    (''TagUserMessageReference'', 0x204), (''TagUserResponseCode'', 0x205), (''TagSourcePort'', 0x20a),
    (''TagDestinationPort'', 0x20b), (''TagSarMsgRefNum'', 0x20c), (''TagLanguageIndicator'', 0x20d),
    (''TagSarTotalSegments'', 0x20e), (''TagSarSegmentSeqnum'', 0x20f), (''TagSCInterfaceVersion'', 0x210),
    (''TagCallbackNumPresInd'', 0x302), (''TagCallbackNumAtag'', 0x303), (''TagNumberOfMessages'', 0x304),
    (''TagCallbackNum'', 0x381), (''TagDpfResult'', 0x420), (''TagSetDpf'', 0x421),
    (''TagMsAvailabilityStatus'', 0x422), (''TagNetworkErrorCode'', 0x423), (''TagMessagePayload'', TagMessagePayload),
    (''TagDeliveryFailureReason'', 0x425), (''TagMoreMessagesToSend'', 0x426), (''TagMessageStateOption'', 0x427),
    (''TagUssdServiceOp'', 0x501), (''TagDisplayTime'', 0x1201), (''TagSmsSignal'', 0x1203),
    (''TagMsValidity'', 0x1204), (''TagAlertOnMessageDelivery'', 0x130c), (''TagItsReplyType'', 0x1380),
    (''TagItsSessionInfo'', 0x1383)]"

definition field_lengths :: "(string \<times> nat) list" where
  "field_lengths =
   [(''MaxSystemIDLength'', MaxSystemIDLength), (''MaxPasswordLength'', MaxPasswordLength),
    (''MaxSystemTypeLength'', MaxSystemTypeLength), (''MaxServiceTypeLength'', MaxServiceTypeLength),
    (''MaxAddressLength'', MaxAddressLength), (''MaxShortMessageLength'', 254),
    (''MaxMessageIDLength'', MaxMessageIDLength)]"

text \<open>
  No two commands, statuses, tags or states share a code, and the response to a command, where there is one, has its code with
  the top bit set.
\<close>

lemma codes_distinct:
  "distinct (map snd command_codes)" "distinct (map snd status_codes)" "distinct (map snd parameter_tags)"
  "distinct (map snd message_states)" "distinct (map snd numbering_types)" "distinct (map snd numbering_plans)"
  by code_simp+

lemma response_codes:
  "list_all (\<lambda>(n, c). map_of command_codes (n @ ''Resp'') \<in> {None, Some (or c 0x80000000)}) command_codes"
  "map fst (filter (\<lambda>(n, c). map_of command_codes (n @ ''Resp'') = None \<and> c < 0x80000000) command_codes) =
     [''CommandOutbind'', ''CommandAlertNotification'']"
  by code_simp+

section \<open>PDUs without a codec\<close>

record outbind =
  ob_SystemID :: cstring
  ob_Password :: cstring

record alert_notification =
  an_SourceAddr :: address
  an_ESMEAddr :: address
  an_OptionalParameters :: "optional_parameter list"

record broadcast_sm =
  bc_ServiceType :: cstring
  bc_SourceAddr :: address
  bc_MessageID :: cstring
  bc_PriorityFlag :: u8
  bc_ScheduleDeliveryTime :: cstring
  bc_ValidityPeriod :: cstring
  bc_ReplaceIfPresentFlag :: u8
  bc_DataCoding :: u8
  bc_SMDefaultMsgID :: u8
  bc_OptionalParameters :: "optional_parameter list"

record broadcast_sm_resp =
  bcr_MessageID :: cstring
  bcr_OptionalParameters :: "optional_parameter list"

record query_broadcast_sm =
  qb_MessageID :: cstring
  qb_SourceAddr :: address
  qb_OptionalParameters :: "optional_parameter list"

record broadcast_area =
  ba_AreaIdentifier :: u16
  ba_AreaName :: cstring

record query_broadcast_sm_resp =
  qbr_MessageID :: cstring
  qbr_MessageState :: u8
  qbr_BroadcastAreaCount :: u8
  qbr_BroadcastAreas :: "broadcast_area list"
  qbr_OptionalParameters :: "optional_parameter list"

record cancel_broadcast_sm =
  cb_ServiceType :: cstring
  cb_MessageID :: cstring
  cb_SourceAddr :: address
  cb_OptionalParameters :: "optional_parameter list"

record cancel_broadcast_sm_resp =
  cbr_MessageID :: cstring
  cbr_OptionalParameters :: "optional_parameter list"

datatype broadcast_pdu =
    BroadcastSM broadcast_sm | BroadcastSMResp broadcast_sm_resp
  | QueryBroadcastSM query_broadcast_sm | QueryBroadcastSMResp query_broadcast_sm_resp
  | CancelBroadcastSM cancel_broadcast_sm | CancelBroadcastSMResp cancel_broadcast_sm_resp

fun broadcast_CommandID :: "broadcast_pdu \<Rightarrow> u32" where
  "broadcast_CommandID (BroadcastSM b) = CommandBroadcastSM"
| "broadcast_CommandID (BroadcastSMResp b) = CommandBroadcastSMResp"
| "broadcast_CommandID (QueryBroadcastSM q) = CommandQueryBroadcastSM"
| "broadcast_CommandID (QueryBroadcastSMResp q) = CommandQueryBroadcastSMResp"
| "broadcast_CommandID (CancelBroadcastSM c) = CommandCancelBroadcastSM"
| "broadcast_CommandID (CancelBroadcastSMResp c) = CommandCancelBroadcastSMResp"

text \<open>A PDU on the wire, whatever its body holds.\<close>

definition frame :: "u32 \<Rightarrow> byte list \<Rightarrow> bool" where
  "frame cid bs \<longleftrightarrow> 16 \<le> length bs \<and> length bs < 2 ^ 32 \<and> h_CommandLength (read_header bs) = word_of_nat (length bs) \<and>
     h_CommandID (read_header bs) = cid"

lemma frame_unknown:
  assumes "frame cid bs" and "createPDUBody cid = Err e"
  shows "DecodeFromReader (bs @ rest) = (Err (Wrap ''failed to create PDU body'' e), rest)"
proof -
  let ?n = "h_CommandLength (read_header bs)"
  have n: "16 \<le> length bs" "length bs < 2 ^ 32" "?n = word_of_nat (length bs)" "h_CommandID (read_header bs) = cid"
    using assms(1) by (simp_all add: frame_def)
  then have u: "unat ?n = length bs" by (simp add: unat_of_nat take_bit_nat_eq_self)
  have "16 \<le> ?n" using u n(1) by (simp add: word_le_nat_alt)
  then have m: "\<not> ?n < 16" "unat (?n - 16) = length bs - 16" using u by (simp_all add: unat_sub)
  have d: "Decode bs = Err (Wrap ''failed to create PDU body'' e)"
  proof (cases "length bs = 16")
    case True
    with n m assms(2) show ?thesis by (simp add: Decode_def Let_def)
  next
    case False
    then have "drop 16 bs \<noteq> []" using n(1) by simp
    with n m assms(2) show ?thesis by (simp add: Decode_def Let_def)
  qed
  have b: "get_be32 (take 4 (take 16 (bs @ rest))) = ?n" using n(1) by (simp add: read_header_def)
  show ?thesis
  proof (cases "length bs = 16")
    case True
    with n(1) m b d show ?thesis by (simp add: DecodeFromReader_def read_full_def Let_def word_less_nat_alt)
  next
    case False
    then have "0 < ?n - 16" using m n(1) by (simp add: word_less_nat_alt)
    moreover have "length bs - 16 \<le> length bs + length rest - 16" by simp
    ultimately show ?thesis using False n(1) m b d
      by (simp add: DecodeFromReader_def read_full_def Let_def)
  qed
qed

section \<open>Announced and refused\<close>

text \<open>The commands that the names of the features stand for.\<close>

definition feature_command :: "string \<Rightarrow> u32 option" where
  "feature_command = map_of
     [(''broadcast_sm'', CommandBroadcastSM), (''cancel_broadcast_sm'', CommandCancelBroadcastSM),
      (''query_broadcast_sm'', CommandQueryBroadcastSM), (''data_sm'', CommandDataSM), (''outbind'', CommandOutbind),
      (''replace_sm'', CommandReplaceSM), (''cancel_sm'', CommandCancelSM), (''submit_multi'', CommandSubmitMulti),
      (''alert_notification'', CommandAlertNotification), (''enquire_link'', CommandEnquireLink), (''unbind'', CommandUnbind)]"

definition served_feature :: "string \<Rightarrow> bool" where
  "served_feature f \<longleftrightarrow> f = ''enquire_link'' \<or> f = ''unbind''"

text \<open>A PDU that the decoder does not know ends the connection at once: no response, not even a \<open>generic_nack\<close>.\<close>

lemma unknown_ends_connection:
  assumes "frame cid bs" and "createPDUBody cid = Err e" and "signals k = Running"
  shows "lifecycle_loop srv signals nets k (bs @ rest) session conn w =
    (Some (Wrap ''failed to decode PDU'' (Wrap ''failed to create PDU body'' e)), session, conn, w)"
  using frame_unknown [OF assms(1,2), of rest] assms(3) by (subst lifecycle_loop.simps) simp

text \<open>
  C36. Version 3.4 and version 5.0 announce features that the server does not have: a peer that has negotiated one of the two and
  sends a PDU of an announced feature loses its connection without a response, whatever the PDU holds, except for
  \<open>enquire_link\<close> and \<open>unbind\<close>, whose commands the decoder knows.
\<close>

theorem announced_feature_refused:
  assumes "v \<in> {SMPPVersion34, SMPPVersion50}" and "SupportsFeature v f" and "frame cid bs" and "feature_command f = Some cid"
    and "signals k = Running"
  shows "if served_feature f then \<exists>body. createPDUBody cid = Ok body
    else lifecycle_loop srv signals nets k (bs @ rest) session conn w =
      (Some (Wrap ''failed to decode PDU'' (Wrap ''failed to create PDU body'' (Errorf ''unsupported command ID''))), session, conn, w)"
proof (cases "served_feature f")
  case True
  then show ?thesis using assms(4) by (auto simp: served_feature_def feature_command_def createPDUBody_def)
next
  case False
  then have "createPDUBody cid = Err (Errorf ''unsupported command ID'')"
    using assms(4) by (auto simp: served_feature_def feature_command_def createPDUBody_def split: if_splits)
  from unknown_ends_connection [where signals = signals and k = k, OF assms(3) this assms(5)] False show ?thesis by simp
qed

text \<open>Every feature of the versions has a command.\<close>

lemma features_have_commands: "SupportsFeature SMPPVersion34 f \<longleftrightarrow> feature_command f \<noteq> None"
  by (auto simp: SupportsFeature_def feature_command_def)

text \<open>An empty \<open>cancel_sm\<close> on a connection to the server\<close>

theorem announced_feature_refused_witness:
  "lifecycle_loop example_server (\<lambda>_. Running) good_net 0 [0, 0, 0, 16, 0, 0, 0, 8, 0, 0, 0, 0, 0, 0, 0, 1]
     (new_session ''s'' 0) example_conn example_server_world =
   (Some (Wrap ''failed to decode PDU'' (Wrap ''failed to create PDU body'' (Errorf ''unsupported command ID''))),
      new_session ''s'' 0, example_conn, example_server_world)"
proof -
  have "frame CommandCancelSM [0, 0, 0, 16, 0, 0, 0, 8, 0, 0, 0, 0, 0, 0, 0, 1]"
    by (simp add: frame_def read_header_def get_be32_def)
  moreover have "SupportsFeature SMPPVersion50 ''cancel_sm''" "feature_command ''cancel_sm'' = Some CommandCancelSM"
    by (simp_all add: SupportsFeature_def feature_command_def)
  ultimately show ?thesis
    using announced_feature_refused [of SMPPVersion50 "''cancel_sm''" CommandCancelSM
        "[0, 0, 0, 16, 0, 0, 0, 8, 0, 0, 0, 0, 0, 0, 0, 1]" "\<lambda>_. Running" 0 example_server good_net "[]"]
    by (simp add: served_feature_def)
qed

end
