(* ===== verification/ExamplePrograms.thy ===== *)
theory ExamplePrograms
  imports SimpleClient Pool
begin

text \<open>
  Two small programs, \<open>examples/simple-client/main.go\<close> and \<open>test_pool.go\<close>: the lines that they print
  themselves, in order, and how they end.  The dates of the package log and the lines of the library are left out.
\<close>

section \<open>Programs that print\<close>

datatype program_end = Goes_on | Exited int | Crashed

type_synonym 's run = "string list \<times> program_end \<times> 's"

definition then_run :: "'s run \<Rightarrow> ('s \<Rightarrow> 's run) \<Rightarrow> 's run" where
  "then_run r f =
     (case r of (ls, e, s) \<Rightarrow>
      if e = Goes_on then (case f s of (ls', e', s') \<Rightarrow> (ls @ ls', e', s')) else (ls, e, s))"

lemma then_run_simps [simp]:
  "then_run (ls, Goes_on, s) f = (case f s of (ls', e', s') \<Rightarrow> (ls @ ls', e', s'))"
  "then_run (ls, Exited n, s) f = (ls, Exited n, s)" "then_run (ls, Crashed, s) f = (ls, Crashed, s)"
  by (simp_all add: then_run_def)

abbreviation tick :: string where
  "tick \<equiv> [CHR 0xE2, CHR 0x9C, CHR 0x85]"

section \<open>The simple client\<close>

text \<open>A message: its outcome is printed, and the program goes on.\<close>

definition send_line ::
    "(error \<Rightarrow> string) \<Rightarrow> string \<Rightarrow> (simple_client \<Rightarrow> unit result \<times> simple_client) \<Rightarrow> simple_client \<Rightarrow> simple_client run" where
  "send_line shown what send sc =
     (case send sc of
        (Panic, sc') \<Rightarrow> ([], Crashed, sc')
      | (Err e, sc') \<Rightarrow> ([''Failed to send '' @ what @ '': '' @ shown e], Goes_on, sc')
      | (Ok u, sc') \<Rightarrow> ([tick @ '' '' @ what @ '' sent successfully''], Goes_on, sc'))"

definition connect_line ::
    "(error \<Rightarrow> string) \<Rightarrow> error option \<Rightarrow> net_outcome \<Rightarrow> pdu list \<Rightarrow> simple_client \<Rightarrow> simple_client run" where
  "connect_line shown dial net pdus sc =
     (case sc_Connect dial net pdus sc of
        (Panic, sc') \<Rightarrow> ([], Crashed, sc')
      | (Err e, sc') \<Rightarrow> ([''Failed to connect:'' @ shown e], Exited 1, sc')
      | (Ok u, sc') \<Rightarrow> ([tick @ '' Connected and bound to SMPP server''], Goes_on, sc'))"

definition disconnect_line :: "(error \<Rightarrow> string) \<Rightarrow> simple_client \<Rightarrow> simple_client run" where
  "disconnect_line shown sc =
     (case sc_Disconnect sc of
        (Panic, sc') \<Rightarrow> ([], Crashed, sc')
      | (Err e, sc') \<Rightarrow> ([''Error during disconnect: '' @ shown e], Goes_on, sc')
      | (Ok u, sc') \<Rightarrow> ([tick @ '' Disconnected gracefully''], Goes_on, sc'))"

text \<open>
  \<open>pdus\<close> is what is read while \<open>Connect\<close> sleeps, and \<open>asleep\<close> what becomes of the client in the three pauses.  The lines
  of the callback for reports are those of \<open>simple_report_line\<close>.
\<close>

definition simple_example ::
    "(error \<Rightarrow> string) \<Rightarrow> (nat \<Rightarrow> time) \<Rightarrow> error option \<Rightarrow> (nat \<Rightarrow> net_outcome) \<Rightarrow> pdu list \<Rightarrow> (nat \<Rightarrow> simple_client \<Rightarrow> simple_client) \<Rightarrow>
     simple_client run" where
  "simple_example shown clock dial nets pdus asleep =
     then_run ([''Starting Simple SMPP Client...'', ''Connecting to SMPP server...''], Goes_on, OnReport (New clock None)) (\<lambda>sc.
     then_run (connect_line shown dial (nets 0) pdus sc) (\<lambda>sc.
     then_run ([''Sending test SMS...''], Goes_on, sc) (\<lambda>sc.
     then_run (send_line shown ''SMS'' (sc_SendSMS (nets 1) ''12345'' ''Hello from Simple SMPP Client!'' ''67890'') sc) (\<lambda>sc.
     then_run ([''Sending SMS with options...''], Goes_on, asleep 0 sc) (\<lambda>sc.
     then_run (send_line shown ''SMS with options'' (SendSMSWithOptions (nets 2)
       \<lparr>sm_From = ''54321'', sm_To = ''09876'', sm_Message = ''This is a test message sent with options!''\<rparr>) sc) (\<lambda>sc.
     then_run ([''Waiting for delivery reports...''], Goes_on, sc) (\<lambda>sc.
     then_run ([''Press Ctrl+C to exit...''], Goes_on, asleep 1 sc) (\<lambda>sc.
     then_run ([''Shutting down...''], Goes_on, asleep 2 sc) (disconnect_line shown)))))))))"

definition simple_report_line :: "(time \<Rightarrow> string) \<Rightarrow> delivery_report \<Rightarrow> string" where
  "simple_report_line show_time r =
     [CHR 0xF0, CHR 0x9F, CHR 0x93, CHR 0xA8] @ '' Delivery Report: ID='' @ r_MessageID r @ '', Status='' @ r_Status r @
     '', Timestamp='' @ show_time (r_Timestamp r)"

section \<open>What the simple client prints\<close>

lemma Connect_open:
  assumes "Connect None c = (Ok u, c1)"
  shows "cl_done c1 = cl_done c" "cl_conn c1 = OpenConn" "cl_connected c1" "cl_bound c1 = cl_bound c" "cl_session c1 \<noteq> None"
  using assms by (auto simp: Connect_def cl_Now_def publish_event_def cl_call_def Let_def split: if_splits)

lemma Bind_flags:
  assumes "Bind net c = (r, c1)"
  shows "cl_done c1 = cl_done c \<and> cl_connected c1 = cl_connected c \<and> cl_bound c1 = cl_bound c"
  using assms by (auto simp: Bind_def sendPDU_def split: if_splits prod.splits result.splits)

lemma refused_turn_open:
  assumes "refuses_bind p"
  shows "\<exists>c'. read_turn net c p = (Ok (), c') \<and> cl_bound c' = cl_bound c \<and> cl_connected c' = cl_connected c \<and> cl_done c' = cl_done c"
  using assms
  by (auto simp: refuses_bind_def read_turn_def client_handlePDU_def handleBindResponse_def cl_Now_def Let_def
      split: option.splits)

text \<open>
  When the server refuses the bind, the program says that it is connected and bound, and then fails to send both messages;
  it ends as if all were well.
\<close>

theorem refused_example_transcript:
  assumes "refuses_bind p" and "fst (sc_Connect None (nets 0) [] (OnReport (New clock None))) = Ok ()"
  shows "\<exists>sc. simple_example shown clock None nets [p] (\<lambda>_ sc. sc) =
    ([''Starting Simple SMPP Client...'', ''Connecting to SMPP server...'', tick @ '' Connected and bound to SMPP server'',
      ''Sending test SMS...'', ''Failed to send SMS: '' @ shown (Errorf ''client is not bound for transmission''),
      ''Sending SMS with options...'', ''Failed to send SMS with options: '' @ shown (Errorf ''client is not bound for transmission''),
      ''Waiting for delivery reports...'', ''Press Ctrl+C to exit...'', ''Shutting down...'', tick @ '' Disconnected gracefully''],
     Goes_on, sc)"
proof -
  let ?sc = "OnReport (New clock None)"
  have new: "\<not> cl_done (sc_client ?sc)" "\<not> cl_bound (sc_client ?sc)"
    by (simp_all add: OnReport_def OnDeliveryReport_def New_def NewClient_def Let_def)
  obtain c1 c2 where c: "Connect None (sc_client ?sc) = (Ok (), c1)" "Bind (nets 0) c1 = (Ok (), c2)"
    using assms(2) by (auto simp: sc_Connect_def split: prod.splits result.splits)
  obtain c3 where c3: "read_turn (nets 0) c2 p = (Ok (), c3)" "cl_bound c3 = cl_bound c2" "cl_connected c3 = cl_connected c2"
    "cl_done c3 = cl_done c2" using refused_turn_open [OF assms(1)] by blast
  have s: "\<not> cl_bound c3" "cl_connected c3" "\<not> cl_done c3"
    and c2: "cl_connected c2" "\<not> cl_done c2"
    using c3 Bind_flags [OF c(2)] Connect_open [OF c(1)] new by simp_all
  let ?sc3 = "?sc\<lparr>sc_client := c3\<rparr>"
  have connect: "connect_line shown None (nets 0) [p] ?sc = ([tick @ '' Connected and bound to SMPP server''], Goes_on, ?sc3)"
    using s c2 by (simp add: connect_line_def sc_Connect_def c c3(1))
  have same: "?sc3\<lparr>sc_client := c3\<rparr> = ?sc3" by simp
  have send: "send_line shown what (sc_SendSMS net from message to) ?sc3 =
      ([''Failed to send '' @ what @ '': '' @ shown (Errorf ''client is not bound for transmission'')], Goes_on, ?sc3)"
    "send_line shown what (SendSMSWithOptions net opts) ?sc3 =
      ([''Failed to send '' @ what @ '': '' @ shown (Errorf ''client is not bound for transmission'')], Goes_on, ?sc3)"
    for what net "from" message to opts
    using s(1) by (simp_all add: send_line_def sc_SendSMS_def SendSMSWithOptions_def SendSMS_def)
  obtain sc4 where "disconnect_line shown ?sc3 = ([tick @ '' Disconnected gracefully''], Goes_on, sc4)"
    using s by (simp add: disconnect_line_def sc_Disconnect_def Disconnect_def Let_def)
  then show ?thesis
    unfolding simple_example_def by (simp add: connect send)
qed

theorem refused_example_transcript_witness:
  "\<exists>sc. simple_example (\<lambda>_. ''e'') (\<lambda>_. 0) None (\<lambda>_. net_ok) [BuildBindTransceiverResp '''' 1 StatusInvPaswd] (\<lambda>_ sc. sc) =
    ([''Starting Simple SMPP Client...'', ''Connecting to SMPP server...'', tick @ '' Connected and bound to SMPP server'',
      ''Sending test SMS...'', ''Failed to send SMS: e'', ''Sending SMS with options...'', ''Failed to send SMS with options: e'',
      ''Waiting for delivery reports...'', ''Press Ctrl+C to exit...'', ''Shutting down...'', tick @ '' Disconnected gracefully''],
     Goes_on, sc)"
proof -
  have "refuses_bind (BuildBindTransceiverResp '''' 1 StatusInvPaswd)"
    by (simp add: refuses_bind_def BuildBindTransceiverResp_def mk_pdu_def)
  moreover have "fst (sc_Connect None net_ok [] (OnReport (New (\<lambda>_. 0) None))) = Ok ()"
  proof -
    let ?c = "sc_client (OnReport (New (\<lambda>_. 0) None))"
    obtain c1 where c1: "Connect None ?c = (Ok (), c1)" "cl_connected c1" "cl_conn c1 = OpenConn"
        "cl_bound c1 = cl_bound ?c" "cl_config c1 = cl_config ?c"
      using Connect_ok [of ?c] by (auto simp: OnReport_def OnDeliveryReport_def New_def NewClient_def Let_def)
    have cfg: "cc_BindType (cl_config ?c) = ''transceiver''" "cc_SystemID (cl_config ?c) = ''test''"
      "cc_Password (cl_config ?c) = ''test''" "cc_SystemType (cl_config ?c) = ''SMPP''" "\<not> cl_bound ?c"
      by (simp_all add: OnReport_def OnDeliveryReport_def New_def NewClient_def merged_options_def DefaultSimpleClientOptions_def
          simple_settings_def client_config.truncate_def Let_def)
    have "bind_request_wf \<lparr>br_SystemID = ''test'', br_Password = ''test'', br_SystemType = ''SMPP'',
        br_InterfaceVersion = SMPPVersion, br_AddrTON = TONUnknown, br_AddrNPI = NPIUnknown, br_AddressRange = ''''\<rparr>"
      by (simp add: bind_request_wf_def fits_def no_nul_def)
    with bind_sent [of c1] c1 cfg obtain c2 where "Bind net_ok c1 = (Ok (), c2)" by auto
    with c1 show ?thesis by (simp add: sc_Connect_def)
  qed
  ultimately show ?thesis
    using refused_example_transcript [of "BuildBindTransceiverResp '''' 1 StatusInvPaswd" "\<lambda>_. net_ok" "\<lambda>_. 0" "\<lambda>_. ''e''"] by simp
qed

section \<open>The test of the pool\<close>

text \<open>The factory fails, and is never called.\<close>

definition pool_example :: "string list" where
  "pool_example =
     (let stats = Stats (NewConnectionPool (DefaultPoolConfig\<lparr>MaxConnections := 5\<rparr>)) in
      [''Testing connection pool...'',
       tick @ '' Pool created - Max: '' @ itoa_int (TotalConnections stats) @ '', Active: '' @ itoa_int (ActiveConnections stats) @
         '', Idle: '' @ itoa_int (IdleConnections stats)])"

lemma pool_example_lines: "pool_example = [''Testing connection pool...'', tick @ '' Pool created - Max: 5, Active: 0, Idle: 5'']"
  by code_simp

end
