(* ===== verification/Spec2Isabelle.thy ===== *)
theory Spec2Isabelle
  imports Codec TextEncoding Messages Storage Routing SmsProcessor Receipts MessageHandler MessageFlow
    Connections EventBus Server ServerFlow Auth Client ClientFlow
    RateLimits Recovery Version FullServer SimpleClient Pool Metrics ReceiptFlow Protocol
    ExamplePrograms
begin

text \<open>
  A model of \<open>oarkflow/smpp-server\<close>, an SMPP 3.4 server library in Go, and the theorems that make it
  correct.

  The program.  A client (\<open>pkg/smpp/client.go\<close>, \<open>pkg/smpp/simple_client.go\<close>) opens a connection to the
  server (\<open>pkg/smpp/server.go\<close>), which reads PDUs from it with the decoder (\<open>pkg/smpp/codec.go\<close>,
  \<open>pkg/smpp/pdu.go\<close>), checks the state of the session, and hands the requests to the message handler
  (\<open>pkg/smpp/message_handler.go\<close>).  That decodes the text (\<open>pkg/encoding/text.go\<close>), validates and stores
  the message (\<open>internal/storage/memory.go\<close> or \<open>internal/storage/file.go\<close>), and processes it in the
  background: it finds a route, splits the text, queues the parts (\<open>pkg/smpp/message_routing.go\<close>) and
  makes a delivery report.  Events (\<open>pkg/events/eventbus.go\<close>) keep the connection manager up to date
  (\<open>pkg/smpp/connection.go\<close>, \<open>pkg/smpp/connection_manager_handler.go\<close>) and carry the reports to the client
  (\<open>pkg/smpp/delivery_report_sender.go\<close>).  The programs under \<open>examples/\<close> put a server and clients together.

  The theories, each after those it uses:
  \<^item> \<open>Prelude\<close>: bytes, Go results (value, error, panic), slices, fixed-width fields, big-endian numbers,
    decimal numbers; \<open>Floats\<close>: \<open>float64\<close> as exact arithmetic with a rounding function; \<open>ExchangeSort\<close>: the
    sort that the code writes out by hand; \<open>Constants\<close>: \<open>pkg/smpp/constants.go\<close>.
  \<^item> \<open>PduTypes\<close>, \<open>PduBind\<close>, \<open>PduMessage\<close>, \<open>PduControl\<close>, \<open>PduBody\<close>: the PDU bodies, their \<open>Marshal\<close> and
    \<open>Unmarshal\<close>, under the contract \<open>wire_body\<close>; \<open>Codec\<close>: header, encoder, decoder, the decoder on a
    stream (contract \<open>stream_format\<close>) and the builder with its sequence numbers; \<open>Protocol\<close>: the tables of
    codes, and the PDUs that are declared and cannot be sent or read.
  \<^item> \<open>Unicode\<close>, \<open>TextEncoding\<close>: UTF-8 and UTF-16 as Go has them, the GSM 7-bit alphabet, the choice of an
    encoding, splitting by length.
  \<^item> \<open>Messages\<close>: times, sessions, messages, reports, users, events.
  \<^item> \<open>Storage\<close>: the three in-memory stores, with the contracts \<open>sms_storage\<close> and \<open>report_storage\<close> that the
    message handler relies on; \<open>FileStorage\<close>: the two stores on disk, under the same contracts, their files
    under the contract \<open>json_entry\<close>; \<open>Auth\<close>: accounts with salted hashes and their sessions.
  \<^item> \<open>Routing\<close>: router, queue and splitter; \<open>SmsProcessor\<close>: parts of long messages and their
    concatenation; \<open>Receipts\<close>: making and parsing the text of a receipt.
  \<^item> \<open>MessageHandler\<close>: one definition for each method; \<open>MessageFlow\<close>: what they do to any pair of stores that
    keep the contracts (locales \<open>message_service\<close>, \<open>reliable_service\<close>), and then, by interpretation, to the
    in-memory stores; \<open>FileService\<close>: to the stores on disk, and after a restart.
  \<^item> \<open>Connections\<close>: a connection, the manager, broadcast, the sender of reports; \<open>EventBus\<close>: both buses;
    \<open>Metrics\<close>: the collectors and what is counted; \<open>Logger\<close>: the loggers, under the contract \<open>leveled_logger\<close>.
  \<^item> \<open>Server\<close>: the handlers of the server, dispatch, recovery from panics, the loop of a connection, the
    clean-up; \<open>ServerFlow\<close>: what a client sees, proved for every user store and message handler that keep
    the contracts \<open>authenticator\<close> and \<open>submit_service\<close> and, by interpretation, for the in-memory ones.
  \<^item> \<open>Client\<close>, \<open>ClientFlow\<close>: the client, its read loop and reconnection, and its conversation with the server;
    \<open>SimpleClient\<close>: the simplified client; \<open>Pool\<close>: the connection pool.
  \<^item> \<open>RateLimits\<close>: flow control windows and rate limiters; \<open>Recovery\<close>: retry and circuit breaker; \<open>Version\<close>:
    the negotiation of the version; \<open>Config\<close>: reading, writing and validating the configuration.
  \<^item> \<open>FullServer\<close>: the server of \<open>examples/full-server\<close> over file storage and hashed accounts; \<open>EventWiring\<close>: the
    handlers it puts on the event bus; \<open>FullFlow\<close>: a message from its processing to the connection and to the
    queue; \<open>FullClient\<close>, \<open>PartsReporter\<close>: the callbacks of \<open>examples/full-client\<close> and of
    \<open>examples/sms-parts-reporter\<close>; \<open>ReceiptFlow\<close>: a receipt from the server to the callback of a client;
    \<open>ExamplePrograms\<close>: the transcripts of \<open>examples/simple-client\<close> and \<open>test_pool.go\<close>.

  How the code is modelled.  A struct is a record, an interface a record of its methods over a state of
  its own, a method a function from state to result and state.  A result is \<open>Ok\<close>, \<open>Err\<close> with the texts of
  the error, or \<open>Panic\<close>; where the code returns a value beside an error it is a \<open>reply\<close>.  Integers have
  their width (\<open>8\<close>, \<open>16\<close>, \<open>32 word\<close>), Go strings are lists of bytes as characters, \<open>[]rune\<close> conversions go
  through \<open>Unicode\<close>.  Every \<open>time.Now()\<close> is a reading of its own from an arbitrary clock, the order in
  which Go ranges over a map is an argument, the network a sequence of outcomes.  The disk is a map from
  paths to contents, and every call to it takes the next outcome of an arbitrary sequence: it succeeds, fails, or
  tears the file it writes.  Encoding and decoding of JSON are a document per file, and SHA-256, \<open>math.Pow\<close> and
  the random source are arguments.  A goroutine that the code starts is a job in the state, which a later call
  runs, or a step of a relation (\<open>pool_step\<close>, \<open>client_runs\<close> with \<open>client_piece\<close>) whose steps come in any order; where a
  statement needs an order of the jobs of the message handler, \<open>process_all\<close> runs a list of them.  All recursion
  terminates by a measure (the bytes left to read, the characters left to split), so there is no fuel, except
  for \<open>read_loop\<close>, a reader that calls the decoder a given number of times, for which one more call than
  there are bytes is proved to be enough, for \<open>worker_steps\<close>, the turns of the goroutine of the event bus, as many of
  which as there are events empty the bus, and for the attempts of \<open>Retry\<close> and \<open>reconnect\<close>, which the code
  itself counts.

  What the theorems show.
  \<^item> Bytes: encoding and decoding are inverse, also on a stream; no input makes the decoder panic; sequence
    numbers do not repeat.  Texts: the chosen encoding loses nothing, splitting and concatenation are inverse.
  \<^item> Stores, users, queue and buses: their invariants and what each operation does; a file store opened anew
    has what the old one had, whatever failed on its disk; the hashed accounts refine a map of passwords.
  \<^item> Message handler: each handler, on every branch, as a change of the two maps of messages and reports.
  \<^item> Server: for every byte sequence from a client and every behaviour of the network, a bound session
    belongs to an account, and without an account nothing behind the server changes; the loop over bytes
    refines a session that answers PDU by PDU; a message that is submitted with valid credentials is stored
    under the ID in the response, on disk with the full server.
  \<^item> Client: no bytes make its reader panic; in every interleaving a connected client has a connection and a
    session, while a late bind response can leave a disconnected one bound for good; client and server understand each
    other on texts that ASCII and the GSM alphabet write alike; the receipts that the
    full server sends reach the callback of the client, one for each part, in order.  Reporter: its counters
    always are the number of parts with the status they count.
  \<^item> Limits: the token bucket, the windows, the breaker and the pool keep their bounds.
  \<^item> Several theorems record what the code does where a reader would expect something else: command IDs of
    bind responses, truncated messages, lost dates and IDs in receipts, torn files, a configuration that
    cannot be read back, a queue that nothing empties, features that are announced and refused.

  Simplifications.  A write to the network goes out as a whole or not at all, reading ends with the end of
  the input, and a read deadline does not expire; a write deadline can fail to be set.  The event publisher of
  the message handler and of the server is a log: the full channel that drops an event is in \<open>EventBus\<close> alone.  Times and
  durations are unbounded integers, so that the token bucket differs from the code where \<open>int64\<close> overflows.  Two metered
  handlers in \<open>Metrics\<close> repeat those of \<open>Server\<close> and \<open>MessageHandler\<close> with the call of the counter; a lemma there shows
  that they agree when it does nothing.

  Not modelled: the listening socket, TLS and deadlines; the interleaving of goroutines inside one
  operation of the server (the stores take a lock for each operation, so an operation on them is atomic; for the client
  and the pool it is modelled); the time stamp and the
  output device of the loggers; the HTTP server that exports the metrics; the type \<open>Duration\<close> of
  \<open>pkg/smpp/interfaces.go\<close>, which nothing uses; the flags and signals of the example programs and
  how long they wait; and \<open>examples/qr.go\<close>, a payment demo over HTTP that uses nothing of the library.
\<close>

end
